(* ===== verification/Prelude.thy ===== *)
theory Prelude
  imports Main
begin

text \<open>
  What every component of the model shares: time and durations, the error values of the
  program, the text functions of Go's \<open>strings\<close> package that the source calls, and the
  collections of facts the component proofs draw on.

  \<^item> \<open>time.Time\<close> is an \<open>int\<close>, the nanoseconds since the Unix epoch; \<open>time.Duration\<close> is an
    \<open>int\<close> of nanoseconds. A call of \<open>time.Now()\<close> is an argument of the definition that
    makes it, so a theorem holds for every reading of the clock.
  \<^item> A Go \<open>error\<close> is a value of \<open>err\<close>. Two sentinel errors made by two calls of
    \<open>errors.New\<close> are different values even when their texts agree, as in Go; so
    \<open>errors.Is(e, X)\<close> is equality with the constructor. A function that returns
    \<open>(T, error)\<close> has the result type \<open>err + T\<close>.
  \<^item> A \<open>context.Context\<close> argument is dropped everywhere: the source only hands it on.
\<close>

named_theorems repo_simps \<open>definitions of the repository operations\<close>
named_theorems svc_simps \<open>definitions of the service operations\<close>
named_theorems conv_simps \<open>conversions between domain values and table rows\<close>

section \<open>Time\<close>

type_synonym time = int
type_synonym duration = int

definition time_Second :: duration where "time_Second = 1000000000"
definition time_Minute :: duration where "time_Minute = 60 * time_Second"
definition time_Hour :: duration where "time_Hour = 60 * time_Minute"

text \<open>The zero \<open>time.Time\<close> is midnight, 1 January of year 1 (UTC).\<close>

definition zero_time :: time where "zero_time = - 62135596800 * time_Second"

definition time_IsZero :: "time \<Rightarrow> bool" where "time_IsZero t \<longleftrightarrow> t = zero_time"

text \<open>\<open>t.After(u)\<close> and \<open>t.Before(u)\<close> are strict.\<close>

definition time_After :: "time \<Rightarrow> time \<Rightarrow> bool" where "time_After t u \<longleftrightarrow> u < t"
definition time_Before :: "time \<Rightarrow> time \<Rightarrow> bool" where "time_Before t u \<longleftrightarrow> t < u"

lemmas time_defs = time_Second_def time_Minute_def time_Hour_def time_After_def time_Before_def

section \<open>Errors\<close>

text \<open>The errors the object-relational mapper can report to the code; all others are opaque.\<close>

datatype gorm_error = gorm_ErrRecordNotFound | gorm_ErrDuplicatedKey | gorm_Other string

text \<open>
  The sentinel errors, grouped by the files that declare them: users, tenants and
  memberships (\<open>id_err\<close>), access control and audit (\<open>ac_err\<close>), the authentication
  extensions of package \<open>domain\<close> (\<open>ext_err\<close>), and those of package \<open>service\<close> (prefix
  \<open>service_\<close>, since several share their name with a different value of \<open>domain\<close>).
\<close>

datatype id_err =
    ErrUserNotFound | ErrUserAlreadyExists | ErrInvalidCredentials
  | ErrTenantNotFound | ErrTenantAlreadyExists | ErrTenantSuspended
  | ErrMembershipNotFound | ErrMembershipAlreadyExists
  | ErrTeamNotFound | ErrTeamAlreadyExists
  | ErrTeamMembershipNotFound | ErrTeamMembershipAlreadyExists

datatype ac_err =
    ErrACLNotFound | ErrACLAlreadyExists
  | ErrAuditLogNotFound | ErrAuditExportNotFound | ErrWebhookNotFound | ErrWebhookDeliveryFail

datatype ext_err =
    ErrOAuth2ProviderNotFound | ErrSAMLProviderNotFound | ErrMFAMethodNotFound
  | ErrMagicLinkNotFound | ErrMagicLinkExpired | ErrMagicLinkUsed
  | ErrPasswordResetTokenNotFound | ErrPasswordResetTokenExpired | ErrPasswordResetTokenUsed
  | ErrEmailVerificationTokenNotFound | ErrEmailVerificationTokenExpired
  | ErrOAuth2ClientNotFound

datatype svc_auth_err =
    service_ErrInvalidToken
  | service_ErrMFAMethodNotFound | service_ErrMFAAlreadyEnrolled
  | service_ErrMFAVerificationFailed | service_ErrInvalidTOTPCode | service_ErrNoPrimaryMFA
  | service_ErrMagicLinkNotFound | service_ErrMagicLinkExpired | service_ErrMagicLinkUsed
  | service_ErrInvalidOAuth2State | service_ErrPKCEVerification | service_ErrOAuth2ProviderDisabled
  | service_ErrSAMLProviderDisabled

datatype svc_ops_err =
    service_ErrOAuth2ClientNotFound | service_ErrInvalidClient | service_ErrInvalidRedirectURI
  | service_ErrInvalidScope | service_ErrConsentRequired | service_ErrNoActiveSigningKey
  | service_ErrWebhookNotFound | service_ErrWebhookDeliveryFail
  | service_ErrExportNotFound | service_ErrExportExpired
  | service_ErrErasureNotFound | service_ErrErasureInProgress
  | service_ErrSCIMUserNotFound | service_ErrSCIMGroupNotFound | service_ErrSCIMResourceConflict

text \<open>
  An error value: a sentinel, an error of the mapper or of another library passed through
  unchanged, or one built on the spot with \<open>errors.New\<close> or \<open>fmt.Errorf\<close>, which no caller
  compares against.
\<close>

datatype err =
    IdErr id_err | AcErr ac_err | ExtErr ext_err
  | SvcAuthErr svc_auth_err | SvcOpsErr svc_ops_err
  | GormErr gorm_error
  | LibErr string
  | FmtErr string

text \<open>
  A call that may panic (a nil pointer, a nil map, a slice out of range) or block for ever
  returns an outcome instead of a plain value.
\<close>

datatype 'a outcome = Returns 'a | Panics | Blocks

section \<open>Text\<close>

text \<open>\<open>strings.Join(xs, sep)\<close>.\<close>

fun strings_Join :: "string list \<Rightarrow> string \<Rightarrow> string" where
  "strings_Join [] sep = []"
| "strings_Join [x] sep = x"
| "strings_Join (x # y # zs) sep = x @ sep @ strings_Join (y # zs) sep"

text \<open>\<open>strings.Split(s, c)\<close> for a one-byte separator: one field more than separators.\<close>

fun strings_Split :: "string \<Rightarrow> char \<Rightarrow> string list" where
  "strings_Split [] c = [[]]"
| "strings_Split (x # xs) c =
     (if x = c then [] # strings_Split xs c
      else (case strings_Split xs c of [] \<Rightarrow> [[x]] | f # fs \<Rightarrow> (x # f) # fs))"

definition strings_HasPrefix :: "string \<Rightarrow> string \<Rightarrow> bool" where
  "strings_HasPrefix s p \<longleftrightarrow> take (length p) s = p"

definition strings_TrimPrefix :: "string \<Rightarrow> string \<Rightarrow> string" where
  "strings_TrimPrefix s p = (if strings_HasPrefix s p then drop (length p) s else s)"

lemma strings_Split_nonempty [simp]: "strings_Split s c \<noteq> []"
  by (induction s) (auto split: list.splits)

lemma strings_Split_no_sep: "c \<notin> set s \<Longrightarrow> strings_Split s c = [s]"
  by (induction s) auto

lemma strings_Split_append_sep:
  "c \<notin> set s \<Longrightarrow> strings_Split (s @ c # rest) c = s # strings_Split rest c"
  by (induction s) auto

text \<open>Splitting undoes joining for a non-empty list of separator-free fields.\<close>

lemma strings_Split_Join:
  "xs \<noteq> [] \<Longrightarrow> \<forall>x\<in>set xs. c \<notin> set x \<Longrightarrow> strings_Split (strings_Join xs [c]) c = xs"
proof (induction xs "[c]" rule: strings_Join.induct)
  case 1
  then show ?case by simp
next
  case (2 x)
  then show ?case by (simp add: strings_Split_no_sep)
next
  case (3 x y zs)
  then show ?case by (simp add: strings_Split_append_sep)
qed

lemma strings_Join_Split: "strings_Join (strings_Split s c) [c] = s"
proof (induction s)
  case Nil
  then show ?case by simp
next
  case (Cons x xs)
  obtain f fs where ff: "strings_Split xs c = f # fs"
    using strings_Split_nonempty by (cases "strings_Split xs c") auto
  then show ?case using Cons by (cases fs) auto
qed

lemma strings_Split_fields: "f \<in> set (strings_Split s c) \<Longrightarrow> c \<notin> set f"
  by (induction s arbitrary: f) (auto split: list.splits if_splits)

lemma strings_Join_eq_Nil:
  "strings_Join xs [c] = [] \<longleftrightarrow> xs = [] \<or> xs = [[]]"
  by (cases xs rule: strings_Join.cases [of "(_, [c])", simplified]) auto

section \<open>Lists\<close>

text \<open>The search loops of the source: \<open>found := false; for x in xs: if p(x): found = true; break\<close>.\<close>

fun any_loop :: "('a \<Rightarrow> bool) \<Rightarrow> 'a list \<Rightarrow> bool" where
  "any_loop p [] = False"
| "any_loop p (x # xs) = (if p x then True else any_loop p xs)"

lemma any_loop_iff [simp]: "any_loop p xs \<longleftrightarrow> (\<exists>x\<in>set xs. p x)"
  by (induction xs) auto

lemma list_all2_set1:
  "list_all2 R xs ys \<Longrightarrow> x \<in> set xs \<Longrightarrow> \<exists>y\<in>set ys. R x y"
  by (induction rule: list_all2_induct) auto

lemma list_all2_set2:
  "list_all2 R xs ys \<Longrightarrow> y \<in> set ys \<Longrightarrow> \<exists>x\<in>set xs. R x y"
  by (induction rule: list_all2_induct) auto

lemma sum_eq_cases [case_names Inl Inr]:
  fixes x :: "'a + 'b"
  obtains e where "x = Inl e" | y where "x = Inr y"
  by (cases x) auto

end
