(* ===== verification/Domain.thy ===== *)
theory Domain
  imports Prelude
begin

text \<open>
  Package \<open>domain\<close> (backend/internal/domain): the entities as records and the repository
  interfaces as records of functions over a world \<open>'w\<close>, which is whatever the repositories
  read and write. An operation that changes the world returns it; a read returns its result
  only. A pointer that may be nil beside a nil error is an \<open>option\<close>. A method that fills in
  its pointer argument (the ID and the timestamps a row receives) returns the filled value.
  The field names are the source's, with the entity in front.

  A \<open>map[string]any\<close> is an association list under \<open>option\<close>, \<open>None\<close> being the nil map.
\<close>

section \<open>Values of type any\<close>

text \<open>\<open>ARaw\<close> holds the JSON text of a value whose type has its own encoder (times, structs).\<close>

datatype any =
    ANull | ABool bool | AInt int | AStr string | ARaw string
  | AList "any list" | AMap "(string \<times> any) list"

type_synonym any_map = "(string \<times> any) list option"

definition map_set :: "any_map \<Rightarrow> string \<Rightarrow> any \<Rightarrow> any_map" where
  "map_set m k v = Some ((k, v) # filter (\<lambda>e. fst e \<noteq> k) (case m of None \<Rightarrow> [] | Some es \<Rightarrow> es))"

section \<open>Identity: users, tenants, memberships, teams\<close>

record User =
  user_ID :: string
  user_Email :: string
  user_PasswordHash :: string
  user_CreatedAt :: time
  user_UpdatedAt :: time

record 'w UserRepository =
  UserRepository_Create :: "User \<Rightarrow> 'w \<Rightarrow> (err + User) \<times> 'w"
  UserRepository_FindByEmail :: "string \<Rightarrow> 'w \<Rightarrow> err + User"
  UserRepository_FindByID :: "string \<Rightarrow> 'w \<Rightarrow> err + User"

type_synonym TenantStatus = string

definition TenantStatusPending :: TenantStatus where "TenantStatusPending = ''pending''"
definition TenantStatusActive :: TenantStatus where "TenantStatusActive = ''active''"
definition TenantStatusSuspended :: TenantStatus where "TenantStatusSuspended = ''suspended''"

lemmas TenantStatus_defs = TenantStatusPending_def TenantStatusActive_def TenantStatusSuspended_def

record Tenant =
  tenant_ID :: string
  tenant_Name :: string
  tenant_Slug :: string
  tenant_Status :: TenantStatus
  tenant_CreatedAt :: time
  tenant_UpdatedAt :: time

record 'w TenantRepository =
  TenantRepository_Create :: "Tenant \<Rightarrow> 'w \<Rightarrow> (err + Tenant) \<times> 'w"
  TenantRepository_FindByID :: "string \<Rightarrow> 'w \<Rightarrow> err + Tenant"
  TenantRepository_FindBySlug :: "string \<Rightarrow> 'w \<Rightarrow> err + Tenant"
  TenantRepository_UpdateStatus :: "string \<Rightarrow> TenantStatus \<Rightarrow> 'w \<Rightarrow> (err + unit) \<times> 'w"
  TenantRepository_Delete :: "string \<Rightarrow> 'w \<Rightarrow> (err + unit) \<times> 'w"

record Membership =
  mem_UserID :: string
  mem_TenantID :: string
  mem_Roles :: "string list"
  mem_CreatedAt :: time
  mem_UpdatedAt :: time

record 'w MembershipRepository =
  MembershipRepository_Create :: "Membership \<Rightarrow> 'w \<Rightarrow> (err + Membership) \<times> 'w"
  MembershipRepository_FindByUserAndTenant :: "string \<Rightarrow> string \<Rightarrow> 'w \<Rightarrow> err + Membership"
  MembershipRepository_ListByUser :: "string \<Rightarrow> 'w \<Rightarrow> err + Membership list"
  MembershipRepository_UpdateRoles ::
    "string \<Rightarrow> string \<Rightarrow> string list \<Rightarrow> 'w \<Rightarrow> (err + unit) \<times> 'w"
  MembershipRepository_Delete :: "string \<Rightarrow> string \<Rightarrow> 'w \<Rightarrow> (err + unit) \<times> 'w"

record Team =
  team_ID :: string
  team_TenantID :: string
  team_Name :: string
  team_Slug :: string
  team_CreatedAt :: time
  team_UpdatedAt :: time

record 'w TeamRepository =
  TeamRepository_Create :: "Team \<Rightarrow> 'w \<Rightarrow> (err + Team) \<times> 'w"
  TeamRepository_FindByID :: "string \<Rightarrow> 'w \<Rightarrow> err + Team"
  TeamRepository_FindBySlug :: "string \<Rightarrow> string \<Rightarrow> 'w \<Rightarrow> err + Team"
  TeamRepository_ListByTenant :: "string \<Rightarrow> 'w \<Rightarrow> err + Team list"
  TeamRepository_Update :: "Team \<Rightarrow> 'w \<Rightarrow> (err + unit) \<times> 'w"
  TeamRepository_Delete :: "string \<Rightarrow> 'w \<Rightarrow> (err + unit) \<times> 'w"

record TeamMembership =
  tm_UserID :: string
  tm_TeamID :: string
  tm_Roles :: "string list"
  tm_CreatedAt :: time
  tm_UpdatedAt :: time

record 'w TeamMembershipRepository =
  TeamMembershipRepository_Create :: "TeamMembership \<Rightarrow> 'w \<Rightarrow> (err + TeamMembership) \<times> 'w"
  TeamMembershipRepository_FindByUserAndTeam :: "string \<Rightarrow> string \<Rightarrow> 'w \<Rightarrow> err + TeamMembership"
  TeamMembershipRepository_ListByUser :: "string \<Rightarrow> 'w \<Rightarrow> err + TeamMembership list"
  TeamMembershipRepository_ListByTeam :: "string \<Rightarrow> 'w \<Rightarrow> err + TeamMembership list"
  TeamMembershipRepository_UpdateRoles ::
    "string \<Rightarrow> string \<Rightarrow> string list \<Rightarrow> 'w \<Rightarrow> (err + unit) \<times> 'w"
  TeamMembershipRepository_Delete :: "string \<Rightarrow> string \<Rightarrow> 'w \<Rightarrow> (err + unit) \<times> 'w"

section \<open>Access control: ACL entries, role permissions, permissions, policies\<close>

record ACLPermission =
  acl_ID :: string
  acl_TenantID :: string
  acl_SubjectType :: string
  acl_SubjectID :: string
  acl_ResourceType :: string
  acl_ResourceID :: string
  acl_Permission :: string
  acl_Effect :: string
  acl_CreatedAt :: time
  acl_UpdatedAt :: time

record 'w ACLRepository =
  ACLRepository_Create :: "ACLPermission \<Rightarrow> 'w \<Rightarrow> (err + ACLPermission) \<times> 'w"
  ACLRepository_FindByID :: "string \<Rightarrow> 'w \<Rightarrow> err + ACLPermission"
  ACLRepository_FindBySubject :: "string \<Rightarrow> string \<Rightarrow> string \<Rightarrow> 'w \<Rightarrow> err + ACLPermission list"
  ACLRepository_FindByResource :: "string \<Rightarrow> string \<Rightarrow> string \<Rightarrow> 'w \<Rightarrow> err + ACLPermission list"
  ACLRepository_CheckPermission ::
    "string \<Rightarrow> string \<Rightarrow> string \<Rightarrow> string \<Rightarrow> string \<Rightarrow> string \<Rightarrow> 'w \<Rightarrow> err + ACLPermission"
  ACLRepository_Delete :: "string \<Rightarrow> 'w \<Rightarrow> (err + unit) \<times> 'w"
  ACLRepository_DeleteBySubjectAndResource ::
    "string \<Rightarrow> string \<Rightarrow> string \<Rightarrow> string \<Rightarrow> string \<Rightarrow> 'w \<Rightarrow> (err + unit) \<times> 'w"

record RolePermission =
  rp_ID :: string
  rp_TenantID :: string
  rp_RoleName :: string
  rp_Permission :: string
  rp_CreatedAt :: time

record 'w RolePermissionRepository =
  RolePermissionRepository_Create :: "RolePermission \<Rightarrow> 'w \<Rightarrow> (err + RolePermission) \<times> 'w"
  RolePermissionRepository_FindByRole :: "string \<Rightarrow> string \<Rightarrow> 'w \<Rightarrow> err + RolePermission list"
  RolePermissionRepository_FindByTenant :: "string \<Rightarrow> 'w \<Rightarrow> err + RolePermission list"
  RolePermissionRepository_Delete :: "string \<Rightarrow> 'w \<Rightarrow> (err + unit) \<times> 'w"
  RolePermissionRepository_DeleteByRole :: "string \<Rightarrow> string \<Rightarrow> 'w \<Rightarrow> (err + unit) \<times> 'w"

record Permission =
  perm_ID :: string
  perm_TenantID :: string
  perm_Name :: string
  perm_Description :: string
  perm_CreatedAt :: time

record 'w PermissionRepository =
  PermissionRepository_Create :: "Permission \<Rightarrow> 'w \<Rightarrow> (err + Permission) \<times> 'w"
  PermissionRepository_FindByID :: "string \<Rightarrow> 'w \<Rightarrow> err + Permission"
  PermissionRepository_FindByTenant :: "string \<Rightarrow> 'w \<Rightarrow> err + Permission list"
  PermissionRepository_Delete :: "string \<Rightarrow> 'w \<Rightarrow> (err + unit) \<times> 'w"

record Policy =
  pol_ID :: string
  pol_TenantID :: string
  pol_Name :: string
  pol_Description :: string
  pol_Rego :: string
  pol_Version :: int
  pol_IsActive :: bool
  pol_CreatedAt :: time
  pol_UpdatedAt :: time

record 'w PolicyRepository =
  PolicyRepository_Create :: "Policy \<Rightarrow> 'w \<Rightarrow> (err + Policy) \<times> 'w"
  PolicyRepository_FindByID :: "string \<Rightarrow> 'w \<Rightarrow> err + Policy"
  PolicyRepository_FindByName :: "string \<Rightarrow> string \<Rightarrow> 'w \<Rightarrow> err + Policy"
  PolicyRepository_FindActiveByTenant :: "string \<Rightarrow> 'w \<Rightarrow> err + Policy list"
  PolicyRepository_ListByTenant :: "string \<Rightarrow> 'w \<Rightarrow> err + Policy list"
  PolicyRepository_Update :: "Policy \<Rightarrow> 'w \<Rightarrow> (err + unit) \<times> 'w"
  PolicyRepository_Delete :: "string \<Rightarrow> 'w \<Rightarrow> (err + unit) \<times> 'w"

text \<open>
  \<open>Role\<close> (role.go) is the walking skeleton's role with its own permission list;
  \<open>HasPermission\<close> is its linear search.
\<close>

record Role =
  role_Name :: string
  role_Permissions :: "string list"

definition Role_HasPermission :: "Role \<Rightarrow> string \<Rightarrow> bool" where
  "Role_HasPermission r permission = any_loop (\<lambda>p. p = permission) (role_Permissions r)"

end
