(* ===== verification/Contracts.thy ===== *)
theory Contracts
  imports Domain
begin

text \<open>
  The contracts the services rely on, as locales over the repository interfaces of \<open>Domain\<close>.
  A repository is seen through a view, the set of entities the world holds. Role lists pass
  through one comma-separated column, so what is read back is \<open>csv_roles\<close> of what was written.
\<close>

definition csv_roles :: "string list \<Rightarrow> string list" where
  "csv_roles roles =
     (let s = strings_Join roles '','' in if s \<noteq> [] then strings_Split s (CHR '','') else [])"

text \<open>A role list survives the column iff no role contains a comma and it is not one empty name.\<close>

lemma csv_roles_id: "csv_roles roles = roles \<longleftrightarrow> (\<forall>r\<in>set roles. CHR '','' \<notin> set r) \<and> roles \<noteq> [[]]"
proof
  assume *: "csv_roles roles = roles"
  show "(\<forall>r\<in>set roles. CHR '','' \<notin> set r) \<and> roles \<noteq> [[]]"
  proof (cases "strings_Join roles '','' = []")
    case True
    then show ?thesis using * by (simp add: csv_roles_def)
  next
    case False
    then have "strings_Split (strings_Join roles '','') (CHR '','') = roles"
      using * by (simp add: csv_roles_def)
    then have "\<forall>r\<in>set roles. CHR '','' \<notin> set r" using strings_Split_fields by metis
    then show ?thesis using False by auto
  qed
next
  assume *: "(\<forall>r\<in>set roles. CHR '','' \<notin> set r) \<and> roles \<noteq> [[]]"
  show "csv_roles roles = roles"
  proof (cases "roles = []")
    case True
    then show ?thesis by (simp add: csv_roles_def)
  next
    case False
    then have "strings_Join roles '','' \<noteq> []" using * by (simp add: strings_Join_eq_Nil)
    then show ?thesis using * False by (simp add: csv_roles_def strings_Split_Join)
  qed
qed

lemma csv_roles_no_comma: "r \<in> set (csv_roles roles) \<Longrightarrow> CHR '','' \<notin> set r"
  by (auto simp: csv_roles_def Let_def dest: strings_Split_fields split: if_splits)

lemma csv_roles_idem [simp]: "csv_roles (csv_roles roles) = csv_roles roles"
proof -
  have "csv_roles roles \<noteq> [[]]"
    by (auto simp: csv_roles_def Let_def) (metis strings_Join.simps(2) strings_Join_Split)
  then show ?thesis using csv_roles_no_comma by (simp add: csv_roles_id)
qed

section \<open>Users\<close>

definition unique_users :: "User set \<Rightarrow> bool" where
  "unique_users us \<longleftrightarrow> inj_on user_ID us \<and> inj_on user_Email us"

locale user_repository =
  fixes U :: "'w UserRepository"
    and users :: "'w \<Rightarrow> User set"
  assumes user_Create_ok: "UserRepository_Create U u w = (Inr u', w') \<Longrightarrow>
          users w' = insert u' (users w) \<and>
          user_Email u' = user_Email u \<and> user_PasswordHash u' = user_PasswordHash u \<and>
          (\<forall>v\<in>users w. user_ID v \<noteq> user_ID u' \<and> user_Email v \<noteq> user_Email u)"
    and user_Create_err: "UserRepository_Create U u w = (Inl e, w') \<Longrightarrow> users w' = users w"
    and FindByEmail_hit: "UserRepository_FindByEmail U email w = Inr u \<Longrightarrow>
          u \<in> users w \<and> user_Email u = email"
    and FindByEmail_miss: "UserRepository_FindByEmail U email w = Inl (IdErr ErrUserNotFound) \<Longrightarrow>
          u \<in> users w \<Longrightarrow> user_Email u \<noteq> email"
    and user_FindByID_hit: "UserRepository_FindByID U ident w = Inr u \<Longrightarrow>
          u \<in> users w \<and> user_ID u = ident"
begin

lemma user_Create_unique:
  "UserRepository_Create U u w = (r, w') \<Longrightarrow> unique_users (users w) \<Longrightarrow> unique_users (users w')"
  using user_Create_ok [of u w _ w'] user_Create_err [of u w _ w']
  by (cases r) (fastforce simp: unique_users_def inj_on_def)+

lemma FindByEmail_created:
  assumes "UserRepository_Create U u w = (Inr u', w')"
    and "UserRepository_FindByEmail U (user_Email u) w' = Inr v"
  shows "v = u'"
  using user_Create_ok [OF assms(1)] FindByEmail_hit [OF assms(2)] by auto

lemma FindByEmail_found:
  assumes "UserRepository_Create U u w = (Inr u', w')"
  shows "UserRepository_FindByEmail U (user_Email u) w' \<noteq> Inl (IdErr ErrUserNotFound)"
  using user_Create_ok [OF assms] FindByEmail_miss [of "user_Email u" w' u'] by auto

end

section \<open>Tenants\<close>

locale tenant_repository =
  fixes T :: "'w TenantRepository"
    and tenants :: "'w \<Rightarrow> Tenant set"
  assumes tenant_Create_ok: "TenantRepository_Create T t w = (Inr t', w') \<Longrightarrow>
          tenants w' = insert t' (tenants w) \<and>
          tenant_Slug t' = tenant_Slug t \<and> tenant_Name t' = tenant_Name t \<and>
          tenant_Status t' = (if tenant_Status t = [] then TenantStatusActive else tenant_Status t) \<and>
          (\<forall>v\<in>tenants w. tenant_ID v \<noteq> tenant_ID t' \<and> tenant_Slug v \<noteq> tenant_Slug t)"
    and tenant_Create_err: "TenantRepository_Create T t w = (Inl e, w') \<Longrightarrow> tenants w' = tenants w"
    and tenant_FindByID_hit: "TenantRepository_FindByID T ident w = Inr t \<Longrightarrow>
          t \<in> tenants w \<and> tenant_ID t = ident"
    and tenant_FindByID_miss: "TenantRepository_FindByID T ident w = Inl (IdErr ErrTenantNotFound) \<Longrightarrow>
          t \<in> tenants w \<Longrightarrow> tenant_ID t \<noteq> ident"
    and UpdateStatus_ok: "TenantRepository_UpdateStatus T ident s w = (Inr (), w') \<Longrightarrow> s \<noteq> [] \<Longrightarrow>
          (\<exists>t\<in>tenants w. tenant_ID t = ident) \<and>
          (\<forall>t'\<in>tenants w'. if tenant_ID t' = ident then tenant_Status t' = s else t' \<in> tenants w)"
begin

text \<open>Whatever tenant the ID then finds has the new status.\<close>

lemma UpdateStatus_FindByID:
  "TenantRepository_UpdateStatus T ident s w = (Inr (), w') \<Longrightarrow> s \<noteq> [] \<Longrightarrow>
   TenantRepository_FindByID T ident w' = Inr t \<Longrightarrow> tenant_Status t = s"
  using UpdateStatus_ok [of ident s w w'] tenant_FindByID_hit [of ident w' t] by auto

end

section \<open>Role assignments\<close>

text \<open>
  What memberships and team memberships have in common: entities keyed by a user and a scope
  (tenant or team) that carry a role list.
\<close>

locale role_assignments =
  fixes create :: "'m \<Rightarrow> 'w \<Rightarrow> (err + 'm) \<times> 'w"
    and find :: "string \<Rightarrow> string \<Rightarrow> 'w \<Rightarrow> err + 'm"
    and list_by_user :: "string \<Rightarrow> 'w \<Rightarrow> err + 'm list"
    and update_roles :: "string \<Rightarrow> string \<Rightarrow> string list \<Rightarrow> 'w \<Rightarrow> (err + unit) \<times> 'w"
    and delete :: "string \<Rightarrow> string \<Rightarrow> 'w \<Rightarrow> (err + unit) \<times> 'w"
    and assigned :: "'w \<Rightarrow> 'm set"
    and user :: "'m \<Rightarrow> string"
    and scope :: "'m \<Rightarrow> string"
    and roles :: "'m \<Rightarrow> string list"
    and not_found :: err
  assumes create_ok: "create m w = (Inr m', w') \<Longrightarrow>
          (\<exists>x. assigned w' = insert x (assigned w) \<and> user x = user m \<and> scope x = scope m \<and>
               roles x = csv_roles (roles m)) \<and>
          (\<forall>x\<in>assigned w. \<not> (user x = user m \<and> scope x = scope m))"
    and create_err: "create m w = (Inl e, w') \<Longrightarrow> assigned w' = assigned w"
    and find_hit: "find u s w = Inr m \<Longrightarrow> m \<in> assigned w \<and> user m = u \<and> scope m = s"
    and find_miss: "find u s w = Inl not_found \<Longrightarrow> m \<in> assigned w \<Longrightarrow> \<not> (user m = u \<and> scope m = s)"
    and list_rows: "list_by_user u w = Inr ms \<Longrightarrow> set ms = {m \<in> assigned w. user m = u}"
    and update_ok: "update_roles u s rs w = (Inr (), w') \<Longrightarrow>
          (\<exists>m\<in>assigned w. user m = u \<and> scope m = s) \<and>
          (\<forall>m\<in>assigned w'. if user m = u \<and> scope m = s then roles m = csv_roles rs else m \<in> assigned w)"
    and delete_ok: "delete u s w = (Inr (), w') \<Longrightarrow>
          assigned w' = {m \<in> assigned w. \<not> (user m = u \<and> scope m = s)}"
begin

lemma find_created:
  assumes "create m w = (Inr m', w')" and "find (user m) (scope m) w' = Inr x"
  shows "roles x = csv_roles (roles m)"
  using create_ok [OF assms(1)] find_hit [OF assms(2)] by auto

lemma find_created_hit:
  assumes "create m w = (Inr m', w')"
  shows "find (user m) (scope m) w' \<noteq> Inl not_found"
proof
  assume "find (user m) (scope m) w' = Inl not_found"
  then show False using create_ok [OF assms] find_miss [of "user m" "scope m" w'] by blast
qed

lemma find_updated:
  "update_roles u s rs w = (Inr (), w') \<Longrightarrow> find u s w' = Inr x \<Longrightarrow> roles x = csv_roles rs"
  using update_ok [of u s rs w w'] find_hit [of u s w' x] by auto

lemma find_deleted:
  "delete u s w = (Inr (), w') \<Longrightarrow> find u s w' \<noteq> Inr x"
  using delete_ok [of u s w w'] find_hit [of u s w' x] by auto

end

section \<open>One-time tokens\<close>

text \<open>
  Magic links and password-reset tokens: found by the token's text, spent by the entry's ID.
  \<open>sound\<close> is what every operation keeps (no two entries have one hash); \<open>spent tk w\<close> says that no
  unused entry has the hash of \<open>tk\<close>.
\<close>

locale one_time_tokens =
  fixes create :: "'m \<Rightarrow> 'w \<Rightarrow> (err + 'm) \<times> 'w"
    and find :: "time \<Rightarrow> string \<Rightarrow> 'w \<Rightarrow> err + 'm"
    and mark_used :: "time \<Rightarrow> string \<Rightarrow> 'w \<Rightarrow> (err + unit) \<times> 'w"
    and delete_expired :: "time \<Rightarrow> 'w \<Rightarrow> (err + unit) \<times> 'w"
    and sound :: "'w \<Rightarrow> bool"
    and spent :: "string \<Rightarrow> 'w \<Rightarrow> bool"
    and digest :: "string \<Rightarrow> string"
    and ident :: "'m \<Rightarrow> string"
    and owner :: "'m \<Rightarrow> string \<times> string"
    and text_of :: "'m \<Rightarrow> string"
    and expires :: "'m \<Rightarrow> time"
    and used :: "'m \<Rightarrow> time option"
  assumes create_sound: "sound w \<Longrightarrow> create m w = (r, w') \<Longrightarrow> sound w'"
    and mark_sound: "sound w \<Longrightarrow> mark_used n i w = (rm, w') \<Longrightarrow> sound w'"
    and sweep_sound: "sound w \<Longrightarrow> delete_expired n w = (rm, w') \<Longrightarrow> sound w'"
    and find_live: "find n tk w = Inr m \<Longrightarrow> used m = None \<and> n \<le> expires m"
    and mark_spends: "sound w \<Longrightarrow> find n tk w = Inr m \<Longrightarrow> mark_used n' (ident m) w = (Inr (), w') \<Longrightarrow>
          spent tk w'"
    and spent_find: "spent tk w \<Longrightarrow> find n tk w \<noteq> Inr m"
    and create_spent: "spent tk w \<Longrightarrow> digest (text_of m) \<noteq> digest tk \<Longrightarrow> create m w = (r, w') \<Longrightarrow> spent tk w'"
    and mark_spent: "spent tk w \<Longrightarrow> mark_used n i w = (rm, w') \<Longrightarrow> spent tk w'"
    and sweep_spent: "spent tk w \<Longrightarrow> delete_expired n w = (rm, w') \<Longrightarrow> spent tk w'"
    and create_find: "sound w \<Longrightarrow> create m w = (Inr m', w') \<Longrightarrow> find n (text_of m) w' = Inr x \<Longrightarrow>
          owner x = owner m \<and> expires x = expires m"
begin

text \<open>A second redemption of the same text fails, whatever the clock says.\<close>

lemma redeem_once:
  assumes "sound w" and "find n tk w = Inr m" and "mark_used n' (ident m) w = (Inr (), w')"
  shows "\<exists>e. find n'' tk w' = Inl e"
  using spent_find [OF mark_spends [OF assms]] by (cases "find n'' tk w'") auto

end

end
