(* ===== verification/Codec.thy ===== *)
theory Codec
  imports Domain "HOL-Library.Char_ord" "HOL-Library.List_Lexorder"
begin

text \<open>
  The encoders of Go's standard library that the source calls: decimal numbers
  (\<open>fmt.Sprintf("%d")\<close>), hexadecimal, base64 (URL alphabet, padded), base32, and JSON. A Go
  string is a list of bytes, here a \<open>string\<close> (each \<open>char\<close> is one byte).

  JSON is modelled as \<open>encoding/json\<close> writes it: object keys in byte order, no blanks, the
  characters of HTML escaped. Texts are taken to be valid UTF-8 without U+2028 and U+2029
  (bytes from 128 on are copied). The decoder reads back what the repositories wrote: an
  array of strings or \<open>null\<close>; nil and empty slices are the same list here.
\<close>

section \<open>Numbers\<close>

fun show_nat :: "nat \<Rightarrow> string" where
  "show_nat n = (if n < 10 then [char_of (48 + n)] else show_nat (n div 10) @ [char_of (48 + n mod 10)])"

declare show_nat.simps [simp del]

definition show_int :: "int \<Rightarrow> string" where
  "show_int i = (if i < 0 then CHR ''-'' # show_nat (nat (- i)) else show_nat (nat i))"

fun read_nat :: "nat \<Rightarrow> string \<Rightarrow> nat" where
  "read_nat acc [] = acc"
| "read_nat acc (c # cs) = read_nat (10 * acc + (of_char c - 48)) cs"

lemma of_char_digit: "d < 10 \<Longrightarrow> of_char (char_of (48 + d) :: char) = (48 + d :: nat)"
  by (simp add: of_char_of)

lemma read_nat_append: "read_nat acc (xs @ ys) = read_nat (read_nat acc xs) ys"
  by (induction xs arbitrary: acc) auto

lemma read_show_nat: "read_nat 0 (show_nat n) = n"
proof (induction n rule: show_nat.induct)
  case (1 n)
  show ?case
  proof (cases "n < 10")
    case True
    then show ?thesis by (simp add: show_nat.simps [of n] of_char_digit)
  next
    case False
    then have "read_nat 0 (show_nat (n div 10)) = n div 10" using 1 by simp
    then show ?thesis using False
      by (simp add: show_nat.simps [of n] read_nat_append of_char_digit)
  qed
qed

lemma show_nat_inj: "show_nat m = show_nat n \<Longrightarrow> m = n"
  by (metis read_show_nat)

lemma show_nat_digits: "c \<in> set (show_nat n) \<Longrightarrow> \<exists>d<10. c = char_of (48 + d :: nat)"
proof (induction n rule: show_nat.induct)
  case (1 n)
  show ?case
  proof (cases "n < 10")
    case True
    then show ?thesis using 1 by (auto simp: show_nat.simps [of n])
  next
    case False
    from 1 False have "c \<in> set (show_nat (n div 10)) \<or> c = char_of (48 + n mod 10)"
      by (auto simp: show_nat.simps [of n])
    moreover have "n mod 10 < 10" by simp
    ultimately show ?thesis using 1 False by blast
  qed
qed

lemma show_nat_no_minus: "CHR ''-'' \<notin> set (show_nat n)"
proof
  assume "CHR ''-'' \<in> set (show_nat n)"
  then obtain d :: nat where d: "d < 10" "CHR ''-'' = (char_of (48 + d) :: char)"
    using show_nat_digits by blast
  then have "of_char (CHR ''-'') = (48 + d :: nat)" using of_char_digit by metis
  then show False by simp
qed

lemma show_int_inj: "show_int i = show_int j \<Longrightarrow> i = j"
proof -
  have minus: "show_nat n \<noteq> CHR ''-'' # s" for n s
    using show_nat_no_minus [of n] by (metis list.set_intros(1))
  assume "show_int i = show_int j"
  then show "i = j"
    by (auto simp: show_int_def minus minus [symmetric] dest!: show_nat_inj split: if_splits)
qed

section \<open>Hexadecimal, base64, base32\<close>

definition hex_digit :: "nat \<Rightarrow> char" where
  "hex_digit n = ''0123456789abcdef'' ! n"

text \<open>\<open>hex.EncodeToString\<close>.\<close>

fun hex_EncodeToString :: "string \<Rightarrow> string" where
  "hex_EncodeToString [] = []"
| "hex_EncodeToString (b # bs) =
     hex_digit (of_char b div 16) # hex_digit (of_char b mod 16) # hex_EncodeToString bs"

lemma length_hex [simp]: "length (hex_EncodeToString bs) = 2 * length bs"
  by (induction bs) auto

definition b64_char :: "nat \<Rightarrow> char" where
  "b64_char n = ''ABCDEFGHIJKLMNOPQRSTUVWXYZabcdefghijklmnopqrstuvwxyz0123456789-_'' ! n"

text \<open>\<open>base64.URLEncoding.EncodeToString\<close>, with its padding.\<close>

fun base64_URLEncode :: "string \<Rightarrow> string" where
  "base64_URLEncode [] = []"
| "base64_URLEncode [a] =
     (let x = of_char a :: nat in [b64_char (x div 4), b64_char (x mod 4 * 16), CHR ''='', CHR ''=''])"
| "base64_URLEncode [a, b] =
     (let x = of_char a :: nat; y = of_char b :: nat in
      [b64_char (x div 4), b64_char (x mod 4 * 16 + y div 16), b64_char (y mod 16 * 4), CHR ''=''])"
| "base64_URLEncode (a # b # c # rest) =
     (let x = of_char a :: nat; y = of_char b :: nat; z = of_char c :: nat in
      b64_char (x div 4) # b64_char (x mod 4 * 16 + y div 16) #
      b64_char (y mod 16 * 4 + z div 64) # b64_char (z mod 64) # base64_URLEncode rest)"

lemma length_base64: "length (base64_URLEncode bs) = 4 * ((length bs + 2) div 3)"
proof (induction bs rule: base64_URLEncode.induct)
  case (4 a b c rest)
  have "(5 + length rest) div 3 = Suc ((length rest + 2) div 3)" by simp
  with 4 show ?case by (simp add: Let_def)
qed (auto simp: Let_def)

text \<open>Without padding (\<open>RawURLEncoding\<close>): the same text with the trailing \<open>=\<close> dropped.\<close>

definition base64_RawURLEncode :: "string \<Rightarrow> string" where
  "base64_RawURLEncode bs = filter (\<lambda>c. c \<noteq> CHR ''='') (base64_URLEncode bs)"

lemma base64_pads: "length bs mod 3 = 2 \<Longrightarrow> last (base64_URLEncode bs) = CHR ''=''"
proof (induction bs rule: base64_URLEncode.induct)
  case (4 a b c rest)
  then have "rest \<noteq> []" by auto
  then have "base64_URLEncode rest \<noteq> []" by (cases rest rule: base64_URLEncode.cases) (auto simp: Let_def)
  with 4 show ?case by (simp add: Let_def)
qed (auto simp: Let_def)

definition b32_char :: "nat \<Rightarrow> char" where
  "b32_char n = ''ABCDEFGHIJKLMNOPQRSTUVWXYZ234567'' ! n"

text \<open>
  \<open>base32.StdEncoding.EncodeToString\<close>: the bytes as bits, cut into groups of five, padded with
  \<open>=\<close> to a multiple of eight characters.
\<close>

definition byte_bits :: "char \<Rightarrow> bool list" where
  "byte_bits c = map (\<lambda>i. (of_char c :: nat) div 2 ^ i mod 2 = 1) (rev [0..<8])"

fun bits_nat :: "bool list \<Rightarrow> nat" where
  "bits_nat [] = 0"
| "bits_nat (b # bs) = (if b then 2 ^ length bs else 0) + bits_nat bs"

function b32_groups :: "bool list \<Rightarrow> string" where
  "b32_groups bs =
     (if bs = [] then []
      else b32_char (bits_nat (take 5 (bs @ replicate 5 False))) # b32_groups (drop 5 bs))"
  by pat_completeness auto
termination
  by (relation "measure length") auto

declare b32_groups.simps [simp del]

definition base32_Encode :: "string \<Rightarrow> string" where
  "base32_Encode bs = (let g = b32_groups (concat (map byte_bits bs)) in
     g @ replicate ((8 - length g mod 8) mod 8) (CHR ''=''))"

lemma length_b32_groups: "length (b32_groups bs) = (length bs + 4) div 5"
proof (induction bs rule: b32_groups.induct)
  case (1 bs)
  show ?case
  proof (cases "bs = []")
    case True
    then show ?thesis by (simp add: b32_groups.simps)
  next
    case False
    then have pos: "0 < length bs" by simp
    have "length (b32_groups bs) = Suc ((length bs - 5 + 4) div 5)"
      using False 1 by (simp add: b32_groups.simps [of bs])
    also have "\<dots> = (length bs + 4) div 5" 
    proof (cases "length bs < 5")
      case True
      then have "length bs = 1 \<or> length bs = 2 \<or> length bs = 3 \<or> length bs = 4" using pos by arith
      then show ?thesis by (elim disjE) simp_all
    next
      case False
      then have "length bs + 4 = length bs - 5 + 4 + 5" by arith
      then show ?thesis by (simp only: div_add_self2)
    qed
    finally show ?thesis .
  qed
qed

lemma length_concat_bits: "length (concat (map byte_bits bs)) = 8 * length bs"
  by (induction bs) (auto simp: byte_bits_def)

lemma length_base32_ge: "(8 * length bs + 4) div 5 \<le> length (base32_Encode bs)"
  by (simp add: base32_Encode_def Let_def length_b32_groups length_concat_bits)

section \<open>JSON\<close>

definition json_escape :: "char \<Rightarrow> string" where
  "json_escape c =
     (if c = CHR 0x22 then [CHR 0x5C, CHR 0x22]
      else if c = CHR 0x5C then [CHR 0x5C, CHR 0x5C]
      else if c = CHR 0x08 then CHR 0x5C # ''b''
      else if c = CHR 0x0C then CHR 0x5C # ''f''
      else if c = CHR 0x0A then CHR 0x5C # ''n''
      else if c = CHR 0x0D then CHR 0x5C # ''r''
      else if c = CHR 0x09 then CHR 0x5C # ''t''
      else if (of_char c :: nat) < 32 \<or> c \<in> set ''<>&''
      then CHR 0x5C # ''u00'' @ [hex_digit (of_char c div 16), hex_digit (of_char c mod 16)]
      else [c])"

definition json_string :: "string \<Rightarrow> string" where
  "json_string s = [CHR 0x22] @ concat (map json_escape s) @ [CHR 0x22]"

fun json_Marshal :: "any \<Rightarrow> string" where
  "json_Marshal ANull = ''null''"
| "json_Marshal (ABool b) = (if b then ''true'' else ''false'')"
| "json_Marshal (AInt i) = show_int i"
| "json_Marshal (AStr s) = json_string s"
| "json_Marshal (ARaw s) = s"
| "json_Marshal (AList xs) = ''['' @ strings_Join (map json_Marshal xs) '','' @ '']''"
| "json_Marshal (AMap es) =
     ''{'' @ strings_Join (map snd (sort_key fst (map (\<lambda>(k, v). (k, json_string k @ '':'' @ json_Marshal v)) es))) '','' @ ''}''"

definition json_Marshal_map :: "any_map \<Rightarrow> string" where
  "json_Marshal_map m = (case m of None \<Rightarrow> ''null'' | Some es \<Rightarrow> json_Marshal (AMap es))"

definition json_Marshal_strings :: "string list \<Rightarrow> string" where
  "json_Marshal_strings xs = json_Marshal (AList (map AStr xs))"

text \<open>Reading an array of strings. The text after the opening quote, up to the closing one:\<close>

definition hex_value :: "char \<Rightarrow> nat option" where
  "hex_value c =
     (let n = of_char c :: nat in
      if 48 \<le> n \<and> n < 58 then Some (n - 48)
      else if 97 \<le> n \<and> n < 103 then Some (n - 87)
      else if 65 \<le> n \<and> n < 71 then Some (n - 55) else None)"

definition json_short_escape :: "char \<Rightarrow> char option" where
  "json_short_escape c =
     (if c = CHR 0x22 \<or> c = CHR 0x5C \<or> c = CHR ''/'' then Some c
      else if c = CHR ''b'' then Some (CHR 0x08) else if c = CHR ''f'' then Some (CHR 0x0C)
      else if c = CHR ''n'' then Some (CHR 0x0A) else if c = CHR ''r'' then Some (CHR 0x0D)
      else if c = CHR ''t'' then Some (CHR 0x09) else None)"

fun json_read_string :: "string \<Rightarrow> (string \<times> string) option" where
  "json_read_string [] = None"
| "json_read_string (c # cs) =
     (if c = CHR 0x22 then Some ([], cs)
      else if c = CHR 0x5C then
        (case cs of
           [] \<Rightarrow> None
         | e # es \<Rightarrow>
             (if e = CHR ''u'' then
                (case es of
                   z1 # z2 # h # l # rest \<Rightarrow>
                     (case (z1 = CHR ''0'' \<and> z2 = CHR ''0'', hex_value h, hex_value l) of
                        (True, Some a, Some b) \<Rightarrow>
                          map_option (\<lambda>(s, r). (char_of (16 * a + b) # s, r)) (json_read_string rest)
                      | _ \<Rightarrow> None)
                 | _ \<Rightarrow> None)
              else (case json_short_escape e of
                      None \<Rightarrow> None
                    | Some x \<Rightarrow> map_option (\<lambda>(s, r). (x # s, r)) (json_read_string es))))
      else map_option (\<lambda>(s, r). (c # s, r)) (json_read_string cs))"

text \<open>After \<open>[\<close> or a comma: a string, then a comma and more, or the closing bracket.\<close>

fun json_read_items :: "nat \<Rightarrow> string \<Rightarrow> string list option" where
  "json_read_items 0 cs = None"
| "json_read_items (Suc fuel) cs =
     (case cs of
        c # r \<Rightarrow>
          (if c = CHR 0x22 then
             (case json_read_string r of
                None \<Rightarrow> None
              | Some (s, r') \<Rightarrow>
                  (case r' of
                     d # r'' \<Rightarrow>
                       (if d = CHR '','' then map_option ((#) s) (json_read_items fuel r'')
                        else if d = CHR '']'' \<and> r'' = [] then Some [s] else None)
                   | [] \<Rightarrow> None))
           else None)
      | [] \<Rightarrow> None)"

definition json_Unmarshal_strings :: "string \<Rightarrow> string list" where
  "json_Unmarshal_strings s =
     (if s = ''[]'' then []
      else (case s of
              c # r \<Rightarrow>
                (if c = CHR ''['' then
                   (case json_read_items (length r) r of None \<Rightarrow> [] | Some xs \<Rightarrow> xs)
                 else [])
            | [] \<Rightarrow> []))"

text \<open>Reading back what was written, for every byte string.\<close>

lemma hex_value_digit: "n < 16 \<Longrightarrow> hex_value (hex_digit n) = Some n"
proof -
  assume "n < 16"
  then have "n \<in> set [0..<16]" by simp
  moreover have "\<forall>k\<in>set [0..<16]. hex_value (hex_digit k) = Some k"
    by (simp add: upt_rec hex_value_def hex_digit_def)
  ultimately show ?thesis by blast
qed

lemma char_of_div_mod: "char_of (16 * (of_char c div 16) + of_char c mod 16 :: nat) = (c :: char)"
  by (metis char_of_char mult_div_mod_eq)

lemma json_read_escape:
  "json_read_string (json_escape c @ t) = map_option (\<lambda>(s, r). (c # s, r)) (json_read_string t)"
proof (cases "(of_char c :: nat) < 32 \<or> c \<in> set ''<>&''")
  case True
  have "(of_char c :: nat) < 256" by simp
  then have "of_char c div 16 < (16 :: nat)" by (simp add: less_mult_imp_div_less)
  moreover have "of_char c mod 16 < (16 :: nat)" by simp
  ultimately show ?thesis using True
    by (auto simp: json_escape_def json_short_escape_def hex_value_digit char_of_div_mod)
next
  case False
  then show ?thesis by (auto simp: json_escape_def json_short_escape_def)
qed

lemma json_read_concat:
  "json_read_string (concat (map json_escape s) @ CHR 0x22 # r) = Some (s, r)"
  by (induction s) (simp_all add: json_read_escape)

lemma json_read_items_Join:
  "xs \<noteq> [] \<Longrightarrow> length xs \<le> fuel \<Longrightarrow>
   json_read_items fuel (strings_Join (map json_string xs) '','' @ '']'') = Some xs"
proof (induction xs arbitrary: fuel)
  case Nil
  then show ?case by simp
next
  case (Cons x xs)
  then obtain f where f: "fuel = Suc f" by (cases fuel) auto
  show ?case
  proof (cases xs)
    case Nil
    then show ?thesis using f by (simp add: json_string_def json_read_concat)
  next
    case (Cons y ys)
    then have "json_read_items f (strings_Join (map json_string xs) '','' @ '']'') = Some xs"
      using Cons.IH Cons.prems f by simp
    then have rest: "json_read_items f (strings_Join (json_string y # map json_string ys) '','' @ '']'') = Some xs"
      using Cons by simp
    have "strings_Join (map json_string (x # xs)) '','' @ '']'' = CHR 0x22 # (concat (map json_escape x) @ CHR 0x22 #
        CHR '','' # (strings_Join (json_string y # map json_string ys) '','' @ '']''))"
      using Cons by (simp add: json_string_def [of x])
    then show ?thesis using rest f by (simp add: json_read_concat)
  qed
qed

text \<open>A JSON column of strings holds exactly the list that was written.\<close>

lemma json_strings_roundtrip [conv_simps]:
  "json_Unmarshal_strings (json_Marshal_strings xs) = xs"
proof (cases xs)
  case Nil
  then show ?thesis by (simp add: json_Marshal_strings_def json_Unmarshal_strings_def)
next
  case (Cons x ys)
  define body where "body = strings_Join (map json_string xs) '','' @ '']''"
  have enc: "json_Marshal_strings xs = CHR ''['' # body"
    by (simp add: json_Marshal_strings_def body_def comp_def)
  have "length xs \<le> length (strings_Join (map json_string xs) '','')" for xs
    by (induction xs rule: induct_list012) (auto simp: json_string_def)
  then have "length xs \<le> length body" by (simp add: body_def le_SucI)
  then have "json_read_items (length body) body = Some xs"
    unfolding body_def using Cons by (intro json_read_items_Join) auto
  moreover have "body \<noteq> '']''" using Cons by (cases ys) (auto simp: body_def json_string_def)
  ultimately show ?thesis by (simp add: enc json_Unmarshal_strings_def)
qed

end
