(* ===== verification/Credentials.thy ===== *)
theory Credentials
  imports Codec
begin

text \<open>
  Passwords and session tokens: service/password.go and service/token.go. The libraries behind them
  are parameters: \<open>bcrypt_lib\<close> (golang.org/x/crypto/bcrypt, the random salt an argument) and
  \<open>jwt_lib\<close> (golang-jwt/jwt). The locales state what their documentation promises; \<open>plain_bcrypt\<close>
  and \<open>plain_jwt\<close> are executable instances for the witnesses.
\<close>

section \<open>Passwords\<close>

record bcrypt_lib =
  bcrypt_GenerateFromPassword :: "string \<Rightarrow> string \<Rightarrow> int \<Rightarrow> err + string"
  bcrypt_CompareHashAndPassword :: "string \<Rightarrow> string \<Rightarrow> err option"

definition bcrypt_DefaultCost :: int where "bcrypt_DefaultCost = 10"

record PasswordHasher =
  ph_lib :: bcrypt_lib
  ph_cost :: int

definition NewPasswordHasher :: "bcrypt_lib \<Rightarrow> PasswordHasher" where
  "NewPasswordHasher lib = \<lparr>ph_lib = lib, ph_cost = bcrypt_DefaultCost\<rparr>"

definition PasswordHasher_Hash :: "PasswordHasher \<Rightarrow> string \<Rightarrow> string \<Rightarrow> err + string" where [svc_simps]:
  "PasswordHasher_Hash h salt password =
     (case bcrypt_GenerateFromPassword (ph_lib h) salt password (ph_cost h) of
        Inl e \<Rightarrow> Inl e
      | Inr b \<Rightarrow> Inr b)"

definition PasswordHasher_Verify :: "PasswordHasher \<Rightarrow> string \<Rightarrow> string \<Rightarrow> bool" where [svc_simps]:
  "PasswordHasher_Verify h hash password \<longleftrightarrow> bcrypt_CompareHashAndPassword (ph_lib h) hash password = None"

locale password_hasher =
  fixes lib :: bcrypt_lib
  assumes compare_generated:
    "bcrypt_GenerateFromPassword lib salt p cost = Inr h \<Longrightarrow> bcrypt_CompareHashAndPassword lib h p = None"
begin

lemma Verify_Hash:
  "PasswordHasher_Hash (NewPasswordHasher lib) salt p = Inr h \<Longrightarrow>
   PasswordHasher_Verify (NewPasswordHasher lib) h p"
  by (auto simp: PasswordHasher_Hash_def PasswordHasher_Verify_def NewPasswordHasher_def compare_generated
           split: sum.splits)

end

definition plain_bcrypt :: bcrypt_lib where
  "plain_bcrypt = \<lparr>
     bcrypt_GenerateFromPassword = (\<lambda>salt p cost.
       if 72 < length p then Inl (LibErr ''bcrypt: password length exceeds 72 bytes'') else Inr (''$2a$'' @ p)),
     bcrypt_CompareHashAndPassword = (\<lambda>h p. if h = ''$2a$'' @ p then None else Some (LibErr ''mismatch''))\<rparr>"

interpretation plain_bcrypt: password_hasher plain_bcrypt
  by unfold_locales (auto simp: plain_bcrypt_def split: if_splits)

section \<open>Tokens\<close>

text \<open>The claims, with the registered ones the source sets. Times are truncated to seconds.\<close>

record Claims =
  cl_UserID :: string
  cl_TenantID :: string
  cl_Roles :: "string list"
  cl_IssuedAt :: time
  cl_ExpiresAt :: time
  cl_Subject :: string

definition jwt_NewNumericDate :: "time \<Rightarrow> time" where
  "jwt_NewNumericDate t = t - t mod time_Second"

datatype jwt_method = SigningMethodHMAC | SigningMethodOther string

text \<open>
  \<open>jwt_SignedString key claims\<close> signs with HS256. \<open>jwt_ParseWithClaims tok keyfunc now\<close> calls
  \<open>keyfunc\<close> with the token's method, checks the signature with the key it gets and the expiry
  against the clock, and returns the claims and \<open>token.Valid\<close>.
\<close>

record jwt_lib =
  jwt_SignedString :: "string \<Rightarrow> Claims \<Rightarrow> err + string"
  jwt_ParseWithClaims :: "string \<Rightarrow> (jwt_method \<Rightarrow> err + string) \<Rightarrow> time \<Rightarrow> err + (Claims \<times> bool)"

record TokenService =
  ts_jwt :: jwt_lib
  ts_secret :: string
  ts_accessTokenTTL :: duration
  ts_refreshTokenTTL :: duration

definition NewTokenService :: "jwt_lib \<Rightarrow> string \<Rightarrow> duration \<Rightarrow> duration \<Rightarrow> TokenService" where
  "NewTokenService lib secret accessTTL refreshTTL =
     \<lparr>ts_jwt = lib, ts_secret = secret, ts_accessTokenTTL = accessTTL, ts_refreshTokenTTL = refreshTTL\<rparr>"

definition token_claims :: "time \<Rightarrow> string \<Rightarrow> string \<Rightarrow> string list \<Rightarrow> duration \<Rightarrow> Claims" where
  "token_claims now userID tenantID roles ttl =
     \<lparr>cl_UserID = userID, cl_TenantID = tenantID, cl_Roles = roles,
      cl_IssuedAt = jwt_NewNumericDate now, cl_ExpiresAt = jwt_NewNumericDate (now + ttl), cl_Subject = userID\<rparr>"

definition TokenService_generate ::
    "TokenService \<Rightarrow> time \<Rightarrow> string \<Rightarrow> string \<Rightarrow> string list \<Rightarrow> duration \<Rightarrow> err + string" where [svc_simps]:
  "TokenService_generate s now userID tenantID roles ttl =
     jwt_SignedString (ts_jwt s) (ts_secret s) (token_claims now userID tenantID roles ttl)"

definition TokenService_GenerateAccessToken ::
    "TokenService \<Rightarrow> time \<Rightarrow> string \<Rightarrow> string \<Rightarrow> string list \<Rightarrow> err + string" where [svc_simps]:
  "TokenService_GenerateAccessToken s now userID tenantID roles =
     TokenService_generate s now userID tenantID roles (ts_accessTokenTTL s)"

definition TokenService_GenerateRefreshToken ::
    "TokenService \<Rightarrow> time \<Rightarrow> string \<Rightarrow> string \<Rightarrow> string list \<Rightarrow> err + string" where [svc_simps]:
  "TokenService_GenerateRefreshToken s now userID tenantID roles =
     TokenService_generate s now userID tenantID roles (ts_refreshTokenTTL s)"

text \<open>The key function refuses every method that is not an HMAC.\<close>

definition TokenService_keyfunc :: "TokenService \<Rightarrow> jwt_method \<Rightarrow> err + string" where
  "TokenService_keyfunc s m =
     (case m of SigningMethodHMAC \<Rightarrow> Inr (ts_secret s) | SigningMethodOther _ \<Rightarrow> Inl (SvcAuthErr service_ErrInvalidToken))"

definition TokenService_Parse :: "TokenService \<Rightarrow> time \<Rightarrow> string \<Rightarrow> err + Claims" where [svc_simps]:
  "TokenService_Parse s now tokenString =
     (case jwt_ParseWithClaims (ts_jwt s) tokenString (TokenService_keyfunc s) now of
        Inl e \<Rightarrow> Inl (SvcAuthErr service_ErrInvalidToken)
      | Inr (claims, valid) \<Rightarrow> (if \<not> valid then Inl (SvcAuthErr service_ErrInvalidToken) else Inr claims))"

text \<open>
  The library's promises: a signed token parses to its claims under its key before its expiry
  and never at or after it.
\<close>

locale jwt_library =
  fixes lib :: jwt_lib
  assumes parse_signed: "jwt_SignedString lib k c = Inr tok \<Longrightarrow> kf SigningMethodHMAC = Inr k \<Longrightarrow>
          now < cl_ExpiresAt c \<Longrightarrow> jwt_ParseWithClaims lib tok kf now = Inr (c, True)"
    and parse_expired: "jwt_ParseWithClaims lib tok kf now = Inr (c, True) \<Longrightarrow> now < cl_ExpiresAt c"
begin

lemma Parse_generate:
  assumes "TokenService_generate s t u tn rs ttl = Inr tok" and "ts_jwt s = lib"
    and "now < jwt_NewNumericDate (t + ttl)"
  shows "TokenService_Parse s now tok = Inr (token_claims t u tn rs ttl)"
proof -
  have "jwt_ParseWithClaims lib tok (TokenService_keyfunc s) now = Inr (token_claims t u tn rs ttl, True)"
    using assms by (intro parse_signed) (auto simp: TokenService_generate_def TokenService_keyfunc_def token_claims_def)
  then show ?thesis using assms(2) by (simp add: TokenService_Parse_def)
qed

lemma Parse_live:
  assumes "TokenService_Parse s now tok = Inr c" and "ts_jwt s = lib"
  shows "now < cl_ExpiresAt c"
proof -
  have "jwt_ParseWithClaims lib tok (TokenService_keyfunc s) now = Inr (c, True)"
    using assms by (auto simp: TokenService_Parse_def split: sum.splits prod.splits if_splits)
  then show ?thesis by (rule parse_expired)
qed

end

text \<open>The executable instance writes the key and the claims as one JSON array.\<close>

definition read_int :: "string \<Rightarrow> int" where
  "read_int s = (case s of c # r \<Rightarrow> if c = CHR ''-'' then - int (read_nat 0 r) else int (read_nat 0 s) | [] \<Rightarrow> 0)"

lemma read_show_int: "read_int (show_int i) = i"
proof (cases "i < 0")
  case True
  then show ?thesis by (simp add: show_int_def read_int_def read_show_nat)
next
  case False
  obtain c r where s: "show_nat (nat i) = c # r"
    by (cases "show_nat (nat i)") (auto simp: show_nat.simps [of "nat i"] split: if_splits)
  then have "c \<noteq> CHR ''-''" using show_nat_no_minus [of "nat i"] by auto
  moreover have "int (read_nat 0 (c # r)) = i" using read_show_nat [of "nat i"] s False by simp
  ultimately show ?thesis using False s by (simp add: show_int_def read_int_def del: read_nat.simps)
qed

definition plain_sign :: "string \<Rightarrow> Claims \<Rightarrow> string" where
  "plain_sign k c = json_Marshal_strings
     ([k, cl_UserID c, cl_TenantID c, cl_Subject c, show_int (cl_IssuedAt c), show_int (cl_ExpiresAt c)] @ cl_Roles c)"

definition plain_parse :: "string \<Rightarrow> (jwt_method \<Rightarrow> err + string) \<Rightarrow> time \<Rightarrow> err + (Claims \<times> bool)" where
  "plain_parse tok kf now =
     (case json_Unmarshal_strings tok of
        k # u # tn # sb # iat # exp # rs \<Rightarrow>
          (if kf SigningMethodHMAC = Inr k \<and> now < read_int exp
           then Inr (\<lparr>cl_UserID = u, cl_TenantID = tn, cl_Roles = rs, cl_IssuedAt = read_int iat,
                      cl_ExpiresAt = read_int exp, cl_Subject = sb\<rparr>, True)
           else Inl (LibErr ''token is unverifiable''))
      | _ \<Rightarrow> Inl (LibErr ''token is malformed''))"

definition plain_jwt :: jwt_lib where
  "plain_jwt = \<lparr>jwt_SignedString = (\<lambda>k c. Inr (plain_sign k c)), jwt_ParseWithClaims = plain_parse\<rparr>"

interpretation plain_jwt: jwt_library plain_jwt
proof (unfold_locales, goal_cases)
  case (1 k c tok kf now)
  then show ?case
    by (auto simp: plain_jwt_def plain_sign_def plain_parse_def json_strings_roundtrip read_show_int)
next
  case (2 tok kf now c)
  then show ?case by (auto simp: plain_jwt_def plain_parse_def split: list.splits if_splits)
qed

end
