(* ===== verification/Rbac.thy ===== *)
theory Rbac
  imports Credentials
begin

text \<open>
  Coarse role-based access control: the static table and the search of service/rbac.go, and the two
  middleware functions of middleware/auth.go. A middleware either aborts the request with a
  response or hands the context on.
\<close>

text \<open>A map lookup of an absent key yields the nil slice.\<close>

definition rolePermissions :: "string \<Rightarrow> string list" where
  "rolePermissions role =
     (if role = ''member'' then [''self:read'', ''self:write'']
      else if role = ''admin'' then [''self:read'', ''self:write'', ''users:read'', ''users:write'']
      else [])"

fun RBACService_Allow :: "string list \<Rightarrow> string \<Rightarrow> bool" where
  "RBACService_Allow [] permission = False"
| "RBACService_Allow (role # roles) permission =
     (if any_loop (\<lambda>p. p = permission) (rolePermissions role) then True
      else RBACService_Allow roles permission)"

lemma Allow_iff: "RBACService_Allow roles p \<longleftrightarrow> (\<exists>r\<in>set roles. p \<in> set (rolePermissions r))"
  by (induction roles) auto

declare RBACService_Allow.simps(2) [simp del]

lemma Allow_append: "RBACService_Allow (xs @ ys) p \<longleftrightarrow> RBACService_Allow xs p \<or> RBACService_Allow ys p"
  by (auto simp: Allow_iff)

lemma rolePermissions_users:
  assumes "p = ''users:read'' \<or> p = ''users:write''"
  shows "p \<in> set (rolePermissions r) \<longleftrightarrow> r = ''admin''"
proof (cases "r = ''admin''")
  case True
  show ?thesis unfolding True using assms by (elim disjE) (simp_all add: rolePermissions_def)
next
  case False
  then show ?thesis using assms
    by (cases "r = ''member''") (elim disjE, simp_all add: rolePermissions_def)
qed

lemma Allow_users:
  "p = ''users:read'' \<or> p = ''users:write'' \<Longrightarrow> RBACService_Allow roles p \<longleftrightarrow> ''admin'' \<in> set roles"
  by (simp add: Allow_iff rolePermissions_users)

section \<open>Middleware\<close>

text \<open>What the request context carries after authentication; an HTTP error has a status and a code.\<close>

record request_identity =
  ctx_userID :: string
  ctx_tenantID :: string
  ctx_roles :: "string list"

datatype http_abort = Abort (abort_status: int) (abort_code: string)

definition RequireAuth :: "TokenService \<Rightarrow> time \<Rightarrow> string \<Rightarrow> http_abort + request_identity" where
  "RequireAuth tokens now header =
     (if \<not> strings_HasPrefix header ''Bearer '' then Inl (Abort 401 ''missing_token'')
      else case TokenService_Parse tokens now (strings_TrimPrefix header ''Bearer '') of
             Inl e \<Rightarrow> Inl (Abort 401 ''invalid_token'')
           | Inr claims \<Rightarrow>
               Inr \<lparr>ctx_userID = cl_UserID claims, ctx_tenantID = cl_TenantID claims, ctx_roles = cl_Roles claims\<rparr>)"

text \<open>Without \<open>RequireAuth\<close> before it the context has no roles, and the role list is nil.\<close>

definition RequirePermission :: "string \<Rightarrow> request_identity option \<Rightarrow> http_abort + request_identity option" where
  "RequirePermission permission ctx =
     (let roleList = (case ctx of None \<Rightarrow> [] | Some i \<Rightarrow> ctx_roles i) in
      if \<not> RBACService_Allow roleList permission then Inl (Abort 403 ''forbidden'') else Inr ctx)"

lemma strings_HasPrefix_append [simp]: "strings_HasPrefix (p @ s) p"
  by (simp add: strings_HasPrefix_def)

lemma strings_TrimPrefix_append [simp]: "strings_TrimPrefix (p @ s) p = s"
  by (simp add: strings_TrimPrefix_def)

lemma strings_HasPrefix_iff: "strings_HasPrefix s p \<longleftrightarrow> (\<exists>t. s = p @ t)"
  unfolding strings_HasPrefix_def by (metis append_eq_conv_conj append_take_drop_id)

lemma RequireAuth_ok:
  assumes "RequireAuth tokens now header = Inr i"
  shows "\<exists>tok c. header = ''Bearer '' @ tok \<and> TokenService_Parse tokens now tok = Inr c \<and>
     i = \<lparr>ctx_userID = cl_UserID c, ctx_tenantID = cl_TenantID c, ctx_roles = cl_Roles c\<rparr>"
proof -
  define bearer where "bearer = ''Bearer ''"
  have *: "strings_HasPrefix header bearer"
    using assms by (auto simp: RequireAuth_def bearer_def split: if_splits)
  then obtain tok where tok: "header = bearer @ tok" by (auto simp: strings_HasPrefix_iff)
  then show ?thesis
    using assms unfolding RequireAuth_def bearer_def [symmetric] by (auto split: sum.splits if_splits)
qed

lemma RequireAuth_bearer:
  "TokenService_Parse tokens now tok = Inr c \<Longrightarrow>
   RequireAuth tokens now (''Bearer '' @ tok) =
     Inr \<lparr>ctx_userID = cl_UserID c, ctx_tenantID = cl_TenantID c, ctx_roles = cl_Roles c\<rparr>"
  unfolding RequireAuth_def by (simp only: strings_HasPrefix_append strings_TrimPrefix_append) simp

end
