(* ===== verification/AuthService.thy ===== *)
theory AuthService
  imports Domain Contracts Rbac
begin

text \<open>
  service/auth.go, service/tenant.go and service/team.go: registration, login and tenant switching,
  tenant provisioning, teams. A service is a record of the repositories it is given, over any world
  \<open>'w\<close>; a method that changes the world returns it.
\<close>

record 'w AuthService =
  as_users :: "'w UserRepository"
  as_tenants :: "'w TenantRepository"
  as_memberships :: "'w MembershipRepository"
  as_teamMemberships :: "'w TeamMembershipRepository"
  as_teams :: "'w TeamRepository"
  as_hasher :: PasswordHasher
  as_tokens :: TokenService

definition NewAuthService :: "'w UserRepository \<Rightarrow> 'w TenantRepository \<Rightarrow> 'w MembershipRepository \<Rightarrow>
    'w TeamMembershipRepository \<Rightarrow> 'w TeamRepository \<Rightarrow> PasswordHasher \<Rightarrow> TokenService \<Rightarrow> 'w AuthService" where
  "NewAuthService users tenants memberships teamMemberships teams hasher tokens = \<lparr>
     as_users = users, as_tenants = tenants, as_memberships = memberships,
     as_teamMemberships = teamMemberships, as_teams = teams, as_hasher = hasher, as_tokens = tokens\<rparr>"

record AuthResult =
  ar_AccessToken :: string
  ar_RefreshToken :: string
  ar_User :: User
  ar_TenantID :: string
  ar_Roles :: "string list"

text \<open>The clock is read once for each of the two tokens.\<close>

definition AuthService_issueTokens :: "'w AuthService \<Rightarrow> time \<times> time \<Rightarrow> User \<Rightarrow> string \<Rightarrow> string list \<Rightarrow>
    err + AuthResult" where [svc_simps]:
  "AuthService_issueTokens s clock user tenantID roles =
     (case TokenService_GenerateAccessToken (as_tokens s) (fst clock) (user_ID user) tenantID roles of
        Inl e \<Rightarrow> Inl e
      | Inr access \<Rightarrow>
          (case TokenService_GenerateRefreshToken (as_tokens s) (snd clock) (user_ID user) tenantID roles of
             Inl e \<Rightarrow> Inl e
           | Inr refresh \<Rightarrow>
               Inr \<lparr>ar_AccessToken = access, ar_RefreshToken = refresh, ar_User = user,
                    ar_TenantID = tenantID, ar_Roles = roles\<rparr>))"

text \<open>The loop over the user's team memberships; a team that cannot be read is skipped.\<close>

fun team_roles :: "'w TeamRepository \<Rightarrow> string \<Rightarrow> 'w \<Rightarrow> TeamMembership list \<Rightarrow> string list \<Rightarrow> string list" where
  "team_roles teams tenantID w [] roles = roles"
| "team_roles teams tenantID w (tm # tms) roles =
     (case TeamRepository_FindByID teams (tm_TeamID tm) w of
        Inl e \<Rightarrow> team_roles teams tenantID w tms roles
      | Inr team \<Rightarrow>
          team_roles teams tenantID w tms
            (if team_TenantID team = tenantID then roles @ tm_Roles tm else roles))"

definition AuthService_rolesForTenant ::
    "'w AuthService \<Rightarrow> string \<Rightarrow> string \<Rightarrow> 'w \<Rightarrow> err + string list" where [svc_simps]:
  "AuthService_rolesForTenant s userID tenantID w =
     (case TenantRepository_FindByID (as_tenants s) tenantID w of
        Inl e \<Rightarrow> Inl e
      | Inr tenant \<Rightarrow>
          (if tenant_Status tenant \<noteq> TenantStatusActive then Inl (IdErr ErrTenantSuspended)
           else case MembershipRepository_FindByUserAndTenant (as_memberships s) userID tenantID w of
             Inl e \<Rightarrow> Inl e
           | Inr membership \<Rightarrow>
               (case TeamMembershipRepository_ListByUser (as_teamMemberships s) userID w of
                  Inl e \<Rightarrow> Inl e
                | Inr teamMemberships \<Rightarrow>
                    Inr (team_roles (as_teams s) tenantID w teamMemberships (mem_Roles membership)))))"

definition AuthService_Register :: "'w AuthService \<Rightarrow> string \<Rightarrow> time \<times> time \<Rightarrow> string \<Rightarrow> string \<Rightarrow> string \<Rightarrow>
    'w \<Rightarrow> (err + AuthResult) \<times> 'w" where [svc_simps]:
  "AuthService_Register s salt clock email password tenantID w =
     (case PasswordHasher_Hash (as_hasher s) salt password of
        Inl e \<Rightarrow> (Inl e, w)
      | Inr hash \<Rightarrow>
          (case UserRepository_Create (as_users s)
                  \<lparr>user_ID = [], user_Email = email, user_PasswordHash = hash,
                   user_CreatedAt = zero_time, user_UpdatedAt = zero_time\<rparr> w of
             (Inl e, w1) \<Rightarrow> (Inl e, w1)
           | (Inr user, w1) \<Rightarrow>
               (if tenantID \<noteq> [] then
                  (case TenantRepository_FindByID (as_tenants s) tenantID w1 of
                     Inl e \<Rightarrow> (Inl e, w1)
                   | Inr tenant \<Rightarrow>
                       (if tenant_Status tenant \<noteq> TenantStatusActive then (Inl (IdErr ErrTenantSuspended), w1)
                        else case MembershipRepository_Create (as_memberships s)
                                    \<lparr>mem_UserID = user_ID user, mem_TenantID = tenantID,
                                     mem_Roles = [''admin''], mem_CreatedAt = zero_time,
                                     mem_UpdatedAt = zero_time\<rparr> w1 of
                          (Inl e, w2) \<Rightarrow> (Inl e, w2)
                        | (Inr membership, w2) \<Rightarrow>
                            (AuthService_issueTokens s clock user tenantID [''admin''], w2)))
                else (AuthService_issueTokens s clock user tenantID [], w1))))"

definition AuthService_Login :: "'w AuthService \<Rightarrow> time \<times> time \<Rightarrow> string \<Rightarrow> string \<Rightarrow> string \<Rightarrow>
    'w \<Rightarrow> err + AuthResult" where [svc_simps]:
  "AuthService_Login s clock email password tenantID w =
     (case UserRepository_FindByEmail (as_users s) email w of
        Inl e \<Rightarrow> Inl (if e = IdErr ErrUserNotFound then IdErr ErrInvalidCredentials else e)
      | Inr user \<Rightarrow>
          (if \<not> PasswordHasher_Verify (as_hasher s) (user_PasswordHash user) password
           then Inl (IdErr ErrInvalidCredentials)
           else if tenantID \<noteq> [] then
             (case AuthService_rolesForTenant s (user_ID user) tenantID w of
                Inl e \<Rightarrow> Inl e
              | Inr roles \<Rightarrow> AuthService_issueTokens s clock user tenantID roles)
           else AuthService_issueTokens s clock user tenantID []))"

definition AuthService_SwitchTenant :: "'w AuthService \<Rightarrow> time \<times> time \<Rightarrow> string \<Rightarrow> string \<Rightarrow> 'w \<Rightarrow>
    err + AuthResult" where [svc_simps]:
  "AuthService_SwitchTenant s clock userID tenantID w =
     (case UserRepository_FindByID (as_users s) userID w of
        Inl e \<Rightarrow> Inl e
      | Inr user \<Rightarrow>
          (case AuthService_rolesForTenant s userID tenantID w of
             Inl e \<Rightarrow> Inl e
           | Inr roles \<Rightarrow> AuthService_issueTokens s clock user tenantID roles))"

definition AuthService_LeaveTenant :: "'w AuthService \<Rightarrow> string \<Rightarrow> string \<Rightarrow> 'w \<Rightarrow> (err + unit) \<times> 'w" where [svc_simps]:
  "AuthService_LeaveTenant s userID tenantID w = MembershipRepository_Delete (as_memberships s) userID tenantID w"

section \<open>Tenants\<close>

definition TenantService_new :: "string \<Rightarrow> string \<Rightarrow> TenantStatus \<Rightarrow> Tenant" where
  "TenantService_new name slug status =
     \<lparr>tenant_ID = [], tenant_Name = name, tenant_Slug = slug, tenant_Status = status,
      tenant_CreatedAt = zero_time, tenant_UpdatedAt = zero_time\<rparr>"

definition TenantService_Create :: "'w TenantRepository \<Rightarrow> string \<Rightarrow> string \<Rightarrow> 'w \<Rightarrow> (err + Tenant) \<times> 'w" where [svc_simps]:
  "TenantService_Create tenants name slug w =
     TenantRepository_Create tenants (TenantService_new name slug TenantStatusPending) w"

definition TenantService_CreateActive :: "'w TenantRepository \<Rightarrow> string \<Rightarrow> string \<Rightarrow> 'w \<Rightarrow> (err + Tenant) \<times> 'w" where [svc_simps]:
  "TenantService_CreateActive tenants name slug w =
     TenantRepository_Create tenants (TenantService_new name slug TenantStatusActive) w"

definition TenantService_Activate :: "'w TenantRepository \<Rightarrow> string \<Rightarrow> 'w \<Rightarrow> (err + unit) \<times> 'w" where [svc_simps]:
  "TenantService_Activate tenants tenantID w = TenantRepository_UpdateStatus tenants tenantID TenantStatusActive w"

definition TenantService_Suspend :: "'w TenantRepository \<Rightarrow> string \<Rightarrow> 'w \<Rightarrow> (err + unit) \<times> 'w" where [svc_simps]:
  "TenantService_Suspend tenants tenantID w = TenantRepository_UpdateStatus tenants tenantID TenantStatusSuspended w"

definition TenantService_Reactivate :: "'w TenantRepository \<Rightarrow> string \<Rightarrow> 'w \<Rightarrow> (err + unit) \<times> 'w" where [svc_simps]:
  "TenantService_Reactivate tenants tenantID w = TenantRepository_UpdateStatus tenants tenantID TenantStatusActive w"

definition TenantService_Delete :: "'w TenantRepository \<Rightarrow> string \<Rightarrow> 'w \<Rightarrow> (err + unit) \<times> 'w" where [svc_simps]:
  "TenantService_Delete tenants tenantID w = TenantRepository_Delete tenants tenantID w"

definition TenantService_GetBySlug :: "'w TenantRepository \<Rightarrow> string \<Rightarrow> 'w \<Rightarrow> err + Tenant" where [svc_simps]:
  "TenantService_GetBySlug tenants slug w = TenantRepository_FindBySlug tenants slug w"

section \<open>Teams\<close>

definition TeamService_Create :: "'w TeamRepository \<Rightarrow> string \<Rightarrow> string \<Rightarrow> string \<Rightarrow> 'w \<Rightarrow> (err + Team) \<times> 'w" where [svc_simps]:
  "TeamService_Create teams tenantID name slug w =
     TeamRepository_Create teams \<lparr>team_ID = [], team_TenantID = tenantID, team_Name = name, team_Slug = slug,
       team_CreatedAt = zero_time, team_UpdatedAt = zero_time\<rparr> w"

definition TeamService_GetByID :: "'w TeamRepository \<Rightarrow> string \<Rightarrow> 'w \<Rightarrow> err + Team" where [svc_simps]:
  "TeamService_GetByID teams uid w = TeamRepository_FindByID teams uid w"

definition TeamService_GetBySlug :: "'w TeamRepository \<Rightarrow> string \<Rightarrow> string \<Rightarrow> 'w \<Rightarrow> err + Team" where [svc_simps]:
  "TeamService_GetBySlug teams tenantID slug w = TeamRepository_FindBySlug teams tenantID slug w"

definition TeamService_ListByTenant :: "'w TeamRepository \<Rightarrow> string \<Rightarrow> 'w \<Rightarrow> err + Team list" where [svc_simps]:
  "TeamService_ListByTenant teams tenantID w = TeamRepository_ListByTenant teams tenantID w"

definition TeamService_Update :: "'w TeamRepository \<Rightarrow> Team \<Rightarrow> 'w \<Rightarrow> (err + unit) \<times> 'w" where [svc_simps]:
  "TeamService_Update teams team w = TeamRepository_Update teams team w"

definition TeamService_Delete :: "'w TeamRepository \<Rightarrow> string \<Rightarrow> 'w \<Rightarrow> (err + unit) \<times> 'w" where [svc_simps]:
  "TeamService_Delete teams uid w = TeamRepository_Delete teams uid w"

definition TeamMembershipService_AddMember :: "'w TeamMembershipRepository \<Rightarrow> 'w TeamRepository \<Rightarrow> string \<Rightarrow>
    string \<Rightarrow> string list \<Rightarrow> 'w \<Rightarrow> (err + TeamMembership) \<times> 'w" where [svc_simps]:
  "TeamMembershipService_AddMember teamMemberships teams userID teamID roles w =
     (case TeamRepository_FindByID teams teamID w of
        Inl e \<Rightarrow> (Inl e, w)
      | Inr team \<Rightarrow>
          TeamMembershipRepository_Create teamMemberships \<lparr>tm_UserID = userID, tm_TeamID = teamID,
            tm_Roles = roles, tm_CreatedAt = zero_time, tm_UpdatedAt = zero_time\<rparr> w)"

definition TeamMembershipService_GetMembership ::
    "'w TeamMembershipRepository \<Rightarrow> string \<Rightarrow> string \<Rightarrow> 'w \<Rightarrow> err + TeamMembership" where [svc_simps]:
  "TeamMembershipService_GetMembership tms userID teamID w =
     TeamMembershipRepository_FindByUserAndTeam tms userID teamID w"

definition TeamMembershipService_ListUserMemberships ::
    "'w TeamMembershipRepository \<Rightarrow> string \<Rightarrow> 'w \<Rightarrow> err + TeamMembership list" where [svc_simps]:
  "TeamMembershipService_ListUserMemberships tms userID w = TeamMembershipRepository_ListByUser tms userID w"

definition TeamMembershipService_ListTeamMembers ::
    "'w TeamMembershipRepository \<Rightarrow> string \<Rightarrow> 'w \<Rightarrow> err + TeamMembership list" where [svc_simps]:
  "TeamMembershipService_ListTeamMembers tms teamID w = TeamMembershipRepository_ListByTeam tms teamID w"

definition TeamMembershipService_UpdateRoles ::
    "'w TeamMembershipRepository \<Rightarrow> string \<Rightarrow> string \<Rightarrow> string list \<Rightarrow> 'w \<Rightarrow> (err + unit) \<times> 'w" where [svc_simps]:
  "TeamMembershipService_UpdateRoles tms userID teamID roles w =
     TeamMembershipRepository_UpdateRoles tms userID teamID roles w"

definition TeamMembershipService_RemoveMember ::
    "'w TeamMembershipRepository \<Rightarrow> string \<Rightarrow> string \<Rightarrow> 'w \<Rightarrow> (err + unit) \<times> 'w" where [svc_simps]:
  "TeamMembershipService_RemoveMember tms userID teamID w = TeamMembershipRepository_Delete tms userID teamID w"

section \<open>Facts\<close>

lemma team_roles_mem:
  "r \<in> set (team_roles teams t w tms roles) \<Longrightarrow> r \<in> set roles \<or>
   (\<exists>tm\<in>set tms. \<exists>team. TeamRepository_FindByID teams (tm_TeamID tm) w = Inr team \<and> team_TenantID team = t \<and>
      r \<in> set (tm_Roles tm))"
  by (induction tms arbitrary: roles) (fastforce split: sum.splits if_splits)+

lemma team_roles_keeps: "r \<in> set roles \<Longrightarrow> r \<in> set (team_roles teams t w tms roles)"
  by (induction tms arbitrary: roles) (auto split: sum.splits)

lemma rolesForTenant_ok:
  "AuthService_rolesForTenant s u t w = Inr roles \<Longrightarrow>
   \<exists>tenant m tms. TenantRepository_FindByID (as_tenants s) t w = Inr tenant \<and>
     tenant_Status tenant = TenantStatusActive \<and>
     MembershipRepository_FindByUserAndTenant (as_memberships s) u t w = Inr m \<and>
     TeamMembershipRepository_ListByUser (as_teamMemberships s) u w = Inr tms \<and>
     roles = team_roles (as_teams s) t w tms (mem_Roles m)"
  by (auto simp: AuthService_rolesForTenant_def split: sum.splits if_splits)

lemma issueTokens_ok:
  "AuthService_issueTokens s clock user t roles = Inr res \<Longrightarrow>
   ar_User res = user \<and> ar_TenantID res = t \<and> ar_Roles res = roles \<and>
   TokenService_GenerateAccessToken (as_tokens s) (fst clock) (user_ID user) t roles = Inr (ar_AccessToken res) \<and>
   TokenService_GenerateRefreshToken (as_tokens s) (snd clock) (user_ID user) t roles = Inr (ar_RefreshToken res)"
  by (auto simp: AuthService_issueTokens_def split: sum.splits)

lemma Login_ok:
  assumes "AuthService_Login s clock email pw t w = Inr res"
  obtains user where "UserRepository_FindByEmail (as_users s) email w = Inr user"
    and "PasswordHasher_Verify (as_hasher s) (user_PasswordHash user) pw"
    and "AuthService_issueTokens s clock user t (ar_Roles res) = Inr res"
    and "t \<noteq> [] \<Longrightarrow> AuthService_rolesForTenant s (user_ID user) t w = Inr (ar_Roles res)"
    and "t = [] \<Longrightarrow> ar_Roles res = []"
proof -
  from assms obtain user where u: "UserRepository_FindByEmail (as_users s) email w = Inr user"
      "PasswordHasher_Verify (as_hasher s) (user_PasswordHash user) pw"
    by (auto simp: AuthService_Login_def split: sum.splits if_splits)
  show ?thesis
  proof (cases "t = []")
    case True
    then have "AuthService_issueTokens s clock user t [] = Inr res"
      using assms u by (simp add: AuthService_Login_def)
    then show ?thesis using that u True issueTokens_ok [of s clock user t "[]" res] by metis
  next
    case False
    then obtain roles where r: "AuthService_rolesForTenant s (user_ID user) t w = Inr roles"
        "AuthService_issueTokens s clock user t roles = Inr res"
      using assms u by (auto simp: AuthService_Login_def split: sum.splits)
    then show ?thesis using that u False issueTokens_ok [of s clock user t roles res] by metis
  qed
qed

end
