(* ===== verification/Gorm.thy ===== *)
theory Gorm
  imports Prelude "HOL-Library.Multiset"
begin

text \<open>
  The database. The repositories reach PostgreSQL through the mapper GORM, neither of which
  is part of the repository, so the mapper is a parameter: a record \<open>'r gorm\<close> of the calls
  the source makes on a table of rows \<open>'r\<close>. A table is the list of its rows; a chain such as
  \<open>db.Where("email = ?", e).First(&m)\<close> is the call \<open>g_First\<close> with the WHERE clause as a
  predicate on rows. What the code relies on is the locale \<open>gorm_table\<close>: documented behaviour of
  the calls, with every call free to fail for reasons of its own (a lost connection, a timeout).

  \<^item> \<open>clash x y\<close>: two rows that agree on the primary key or on a column with a unique index.
  \<^item> \<open>same r r'\<close>: \<open>r'\<close> is the row \<open>r\<close> as inserted, that is, up to the columns the database fills
    in: a zero value where the column has a default, and the two timestamps.
  \<^item> \<open>kept r r'\<close>: \<open>r'\<close> is the row \<open>r\<close> up to the two timestamps, which an update maintains.
  \<^item> \<open>patch m r\<close>: the row \<open>r\<close> after \<open>Updates(m)\<close> with a struct \<open>m\<close>. GORM documents that
    \<open>Updates\<close> with a struct writes the non-zero fields of the struct only.

  \<open>mem_gorm\<close> is an executable instance, with which the witnesses run; the locale
  \<open>mem_table\<close> shows that it satisfies the laws for any row type.
\<close>

section \<open>The calls\<close>

datatype 'r order = Asc "'r \<Rightarrow> int" | Desc "'r \<Rightarrow> int"

text \<open>
  \<open>g_FirstOrd\<close> and \<open>g_FindOrd\<close> are \<open>Order(...).First\<close> and \<open>Order(...).Limit(...).Offset(...).Find\<close>;
  a limit or offset that is not set is 0. \<open>g_Update\<close> sets one column (the function on rows).
\<close>

record 'r gorm =
  g_First :: "('r \<Rightarrow> bool) \<Rightarrow> 'r list \<Rightarrow> gorm_error + 'r"
  g_FirstOrd :: "('r \<Rightarrow> bool) \<Rightarrow> 'r order \<Rightarrow> 'r list \<Rightarrow> gorm_error + 'r"
  g_Find :: "('r \<Rightarrow> bool) \<Rightarrow> 'r list \<Rightarrow> gorm_error + 'r list"
  g_FindOrd :: "('r \<Rightarrow> bool) \<Rightarrow> 'r order \<Rightarrow> int \<Rightarrow> int \<Rightarrow> 'r list \<Rightarrow> gorm_error + 'r list"
  g_Count :: "('r \<Rightarrow> bool) \<Rightarrow> 'r list \<Rightarrow> gorm_error + nat"
  g_Create :: "'r \<Rightarrow> 'r list \<Rightarrow> (gorm_error + 'r) \<times> 'r list"
  g_Updates :: "('r \<Rightarrow> bool) \<Rightarrow> 'r \<Rightarrow> 'r list \<Rightarrow> (gorm_error + nat) \<times> 'r list"
  g_Update :: "('r \<Rightarrow> bool) \<Rightarrow> ('r \<Rightarrow> 'r) \<Rightarrow> 'r list \<Rightarrow> (gorm_error + nat) \<times> 'r list"
  g_Save :: "'r \<Rightarrow> 'r list \<Rightarrow> (gorm_error + 'r) \<times> 'r list"
  g_Upsert :: "'r \<Rightarrow> 'r list \<Rightarrow> (gorm_error + 'r) \<times> 'r list"
  g_Delete :: "('r \<Rightarrow> bool) \<Rightarrow> 'r list \<Rightarrow> (gorm_error + nat) \<times> 'r list"

text \<open>Which rows come before which: \<open>ordered_le ob x y\<close> says that \<open>x\<close> may stand before \<open>y\<close>.\<close>

fun ordered_le :: "'r order \<Rightarrow> 'r \<Rightarrow> 'r \<Rightarrow> bool" where
  "ordered_le (Asc k) x y \<longleftrightarrow> k x \<le> k y"
| "ordered_le (Desc k) x y \<longleftrightarrow> k y \<le> k x"

section \<open>The laws\<close>

locale gorm_table =
  fixes G :: "'r gorm"
    and clash :: "'r \<Rightarrow> 'r \<Rightarrow> bool"
    and same :: "'r \<Rightarrow> 'r \<Rightarrow> bool"
    and kept :: "'r \<Rightarrow> 'r \<Rightarrow> bool"
    and patch :: "'r \<Rightarrow> 'r \<Rightarrow> 'r"
  assumes First_hit: "g_First G P t = Inr r \<Longrightarrow> r \<in> set t \<and> P r"
    and First_miss: "g_First G P t = Inl gorm_ErrRecordNotFound \<Longrightarrow> r \<in> set t \<Longrightarrow> \<not> P r"
    and FirstOrd_hit: "g_FirstOrd G P ob t = Inr r \<Longrightarrow>
          r \<in> set t \<and> P r \<and> (\<forall>x\<in>set t. P x \<longrightarrow> ordered_le ob r x)"
    and Find_rows: "g_Find G P t = Inr rs \<Longrightarrow> mset rs = mset (filter P t)"
    and FindOrd_rows: "g_FindOrd G P ob 0 0 t = Inr rs \<Longrightarrow>
          mset rs = mset (filter P t) \<and> sorted_wrt (ordered_le ob) rs"
    and Count_rows: "g_Count G P t = Inr n \<Longrightarrow> n = length (filter P t)"
    and Create_row: "g_Create G r t = (Inr r', t') \<Longrightarrow>
          t' = t @ [r'] \<and> same r r' \<and> (\<forall>x\<in>set t. \<not> clash x r')"
    and Create_fail: "g_Create G r t = (Inl e, t') \<Longrightarrow> t' = t"
    and Updates_rows: "g_Updates G P m t = (Inr n, t') \<Longrightarrow>
          n = length (filter P t) \<and>
          list_all2 (\<lambda>r r'. if P r then kept (patch m r) r' else r' = r) t t'"
    and Updates_fail: "g_Updates G P m t = (Inl e, t') \<Longrightarrow> t' = t"
    and Update_rows: "g_Update G P f t = (Inr n, t') \<Longrightarrow>
          n = length (filter P t) \<and>
          list_all2 (\<lambda>r r'. if P r then kept (f r) r' else r' = r) t t'"
    and Update_fail: "g_Update G P f t = (Inl e, t') \<Longrightarrow> t' = t"
    and Delete_rows: "g_Delete G P t = (Inr n, t') \<Longrightarrow>
          n = length (filter P t) \<and> t' = filter (\<lambda>r. \<not> P r) t"
    and Delete_fail: "g_Delete G P t = (Inl e, t') \<Longrightarrow> t' = t"
begin

lemma Find_set: "g_Find G P t = Inr rs \<Longrightarrow> set rs = {r \<in> set t. P r}"
  using Find_rows [of P t rs] by (metis set_filter set_mset_mset)

lemma FindOrd_set: "g_FindOrd G P ob 0 0 t = Inr rs \<Longrightarrow> set rs = {r \<in> set t. P r}"
  using FindOrd_rows [of P ob t rs] by (metis set_filter set_mset_mset)

lemma First_unique:
  "g_First G P t = Inr r \<Longrightarrow> x \<in> set t \<Longrightarrow> P x \<Longrightarrow>
   (\<And>y z. y \<in> set t \<Longrightarrow> z \<in> set t \<Longrightarrow> P y \<Longrightarrow> P z \<Longrightarrow> y = z) \<Longrightarrow> r = x"
  using First_hit by blast

lemma Create_set: "g_Create G r t = (Inr r', t') \<Longrightarrow> set t' = insert r' (set t)"
  using Create_row by fastforce

lemma Delete_set: "g_Delete G P t = (Inr n, t') \<Longrightarrow> set t' = {r \<in> set t. \<not> P r}"
  using Delete_rows [of P t n t'] by auto

lemma Delete_zero: "g_Delete G P t = (Inr 0, t') \<Longrightarrow> r \<in> set t \<Longrightarrow> \<not> P r"
  using Delete_rows [of P t 0 t'] by (auto simp: filter_empty_conv)

lemma Update_zero: "g_Update G P f t = (Inr 0, t') \<Longrightarrow> r \<in> set t \<Longrightarrow> \<not> P r"
  using Update_rows [of P f t 0 t'] by (auto simp: filter_empty_conv)

lemma Updates_zero: "g_Updates G P m t = (Inr 0, t') \<Longrightarrow> r \<in> set t \<Longrightarrow> \<not> P r"
  using Updates_rows [of P m t 0 t'] by (auto simp: filter_empty_conv)

text \<open>Every stored row after an update comes from a row before it.\<close>

lemma Update_origin:
  assumes "g_Update G P f t = (Inr n, t')" and "r' \<in> set t'"
  obtains r where "r \<in> set t" and "if P r then kept (f r) r' else r' = r"
  using list_all2_set2 [OF conjunct2 [OF Update_rows [OF assms(1)]] assms(2)] that by blast

text \<open>A property of all rows that an operation keeps.\<close>

lemma Create_all:
  assumes "g_Create G r t = (x, t')" and "\<forall>q\<in>set t. Q q" and "\<And>r'. same r r' \<Longrightarrow> Q r'"
  shows "\<forall>q\<in>set t'. Q q"
  using assms Create_row [of r t _ t'] Create_fail [of r t _ t'] by (cases x) auto

lemma Update_all:
  assumes "g_Update G P f t = (x, t')" and "\<forall>q\<in>set t. Q q"
    and "\<And>r r'. r \<in> set t \<Longrightarrow> P r \<Longrightarrow> kept (f r) r' \<Longrightarrow> Q r'"
  shows "\<forall>q\<in>set t'. Q q"
proof (cases x)
  case (Inl e)
  then show ?thesis using Update_fail assms(1,2) by blast
next
  case (Inr n)
  show ?thesis
  proof
    fix q assume "q \<in> set t'"
    then obtain r where "r \<in> set t" "if P r then kept (f r) q else q = r"
      using Update_origin assms(1) Inr by blast
    then show "Q q" using assms(2,3) by (auto split: if_splits)
  qed
qed

lemma Delete_all:
  assumes "g_Delete G P t = (x, t')" and "\<forall>q\<in>set t. Q q"
  shows "\<forall>q\<in>set t'. Q q"
  using assms Delete_rows [of P t _ t'] Delete_fail [of P t _ t'] by (cases x) auto

text \<open>A column an update does not touch.\<close>

lemma Update_column:
  assumes "g_Update G P f t = (x, t')" and "\<And>r r'. P r \<Longrightarrow> kept (f r) r' \<Longrightarrow> h r' = h r"
  shows "map h t' = map h t"
proof (cases x)
  case (Inl e)
  then show ?thesis using Update_fail assms(1) by blast
next
  case (Inr n)
  then have "list_all2 (\<lambda>r r'. if P r then kept (f r) r' else r' = r) t t'"
    using Update_rows assms(1) by blast
  then have "list_all2 (\<lambda>r r'. h r' = h r) t t'"
    by (rule list_all2_mono) (auto simp: assms(2) split: if_splits)
  then show ?thesis by (induction rule: list_all2_induct) auto
qed

lemma Create_distinct:
  assumes "g_Create G r t = (x, t')" and "distinct (map h t)" and "\<And>y z. h y = h z \<Longrightarrow> clash y z"
  shows "distinct (map h t')"
proof (cases x)
  case (Inl e)
  then show ?thesis using Create_fail assms by blast
next
  case (Inr r')
  then show ?thesis using Create_row [of r t r' t'] assms by force
qed

lemma Delete_distinct:
  assumes "g_Delete G P t = (x, t')" and "distinct (map h t)"
  shows "distinct (map h t')"
  using assms Delete_fail [of P t _ t'] Delete_rows [of P t _ t']
  by (cases x) (auto simp: distinct_map_filter)

lemma Update_view:
  assumes "g_Update G P f t = (Inr n, t')" and "n \<noteq> 0"
  shows "(\<exists>r\<in>set t. P r) \<and> (\<forall>r'\<in>set t'. r' \<in> set t \<and> \<not> P r' \<or> (\<exists>r\<in>set t. P r \<and> kept (f r) r'))"
proof
  show "\<exists>r\<in>set t. P r" using Update_rows [OF assms(1)] assms(2) by (metis filter_False list.size(3))
  show "\<forall>r'\<in>set t'. r' \<in> set t \<and> \<not> P r' \<or> (\<exists>r\<in>set t. P r \<and> kept (f r) r')"
    by (metis Update_origin [OF assms(1)])
qed

lemma Update_image:
  assumes "g_Update G P f t = (Inr n, t')" and "r \<in> set t"
  obtains r' where "r' \<in> set t'" and "if P r then kept (f r) r' else r' = r"
  using list_all2_set1 [OF conjunct2 [OF Update_rows [OF assms(1)]] assms(2)] that by blast

lemma Updates_origin:
  assumes "g_Updates G P m t = (Inr n, t')" and "r' \<in> set t'"
  obtains r where "r \<in> set t" and "if P r then kept (patch m r) r' else r' = r"
  using list_all2_set2 [OF conjunct2 [OF Updates_rows [OF assms(1)]] assms(2)] that by blast

lemma Updates_view:
  assumes "g_Updates G P m t = (Inr n, t')" and "n \<noteq> 0"
  shows "(\<exists>r\<in>set t. P r) \<and>
         (\<forall>r'\<in>set t'. r' \<in> set t \<and> \<not> P r' \<or> (\<exists>r\<in>set t. P r \<and> kept (patch m r) r'))"
proof
  show "\<exists>r\<in>set t. P r" using Updates_rows [OF assms(1)] assms(2) by (metis filter_False list.size(3))
  show "\<forall>r'\<in>set t'. r' \<in> set t \<and> \<not> P r' \<or> (\<exists>r\<in>set t. P r \<and> kept (patch m r) r')"
    by (metis Updates_origin [OF assms(1)])
qed

end

section \<open>An executable instance\<close>

definition find_first :: "('r \<Rightarrow> bool) \<Rightarrow> 'r list \<Rightarrow> gorm_error + 'r" where
  "find_first P t = (case filter P t of [] \<Rightarrow> Inl gorm_ErrRecordNotFound | r # _ \<Rightarrow> Inr r)"

fun order_rows :: "'r order \<Rightarrow> 'r list \<Rightarrow> 'r list" where
  "order_rows (Asc k) t = sort_key k t"
| "order_rows (Desc k) t = sort_key (\<lambda>r. - k r) t"

definition limit_rows :: "int \<Rightarrow> int \<Rightarrow> 'r list \<Rightarrow> 'r list" where
  "limit_rows l off t = (if 0 < l then take (nat l) (drop (nat off) t) else drop (nat off) t)"

text \<open>
  \<open>fill n r\<close> is the row \<open>r\<close> as stored in a table of \<open>n\<close> rows; a row that clashes with a stored
  one is refused. \<open>Save\<close> and \<open>Upsert\<close> replace the row with the same key, if there is one.
\<close>

definition mem_put :: "('r \<Rightarrow> 'r \<Rightarrow> bool) \<Rightarrow> (nat \<Rightarrow> 'r \<Rightarrow> 'r) \<Rightarrow> 'r \<Rightarrow> 'r list \<Rightarrow>
    (gorm_error + 'r) \<times> 'r list" where
  "mem_put clash fill m t =
     (if list_ex (\<lambda>r. clash r m) t
      then (Inr m, map (\<lambda>r. if clash r m then m else r) t)
      else (Inr (fill (length t) m), t @ [fill (length t) m]))"

definition mem_gorm :: "(nat \<Rightarrow> 'r \<Rightarrow> 'r) \<Rightarrow> ('r \<Rightarrow> 'r \<Rightarrow> bool) \<Rightarrow> ('r \<Rightarrow> 'r \<Rightarrow> 'r) \<Rightarrow> 'r gorm" where
  "mem_gorm fill clash patch = \<lparr>
     g_First = find_first,
     g_FirstOrd = (\<lambda>P ob t. find_first P (order_rows ob t)),
     g_Find = (\<lambda>P t. Inr (filter P t)),
     g_FindOrd = (\<lambda>P ob l off t. Inr (limit_rows l off (order_rows ob (filter P t)))),
     g_Count = (\<lambda>P t. Inr (length (filter P t))),
     g_Create = (\<lambda>r t. let r' = fill (length t) r in
        if list_ex (\<lambda>x. clash x r') t then (Inl gorm_ErrDuplicatedKey, t) else (Inr r', t @ [r'])),
     g_Updates = (\<lambda>P m t. (Inr (length (filter P t)), map (\<lambda>r. if P r then patch m r else r) t)),
     g_Update = (\<lambda>P f t. (Inr (length (filter P t)), map (\<lambda>r. if P r then f r else r) t)),
     g_Save = mem_put clash fill,
     g_Upsert = mem_put clash fill,
     g_Delete = (\<lambda>P t. (Inr (length (filter P t)), filter (\<lambda>r. \<not> P r) t)) \<rparr>"

lemma find_first_hit: "find_first P t = Inr r \<Longrightarrow> r \<in> set t \<and> P r"
  unfolding find_first_def
  by (auto split: list.splits dest!: arg_cong [where f = set])

lemma find_first_miss: "find_first P t = Inl e \<Longrightarrow> r \<in> set t \<Longrightarrow> \<not> P r"
  by (auto simp: find_first_def filter_empty_conv split: list.splits)

lemma mset_order_rows [simp]: "mset (order_rows ob t) = mset t"
  by (cases ob) auto

lemma set_order_rows [simp]: "set (order_rows ob t) = set t"
  by (cases ob) auto

lemma sorted_order_rows: "sorted_wrt (ordered_le ob) (order_rows ob t)"
proof (cases ob)
  case (Asc k)
  have "ordered_le (Asc k) = (\<lambda>x y. k x \<le> k y)" by (intro ext) simp
  then show ?thesis using sorted_sort_key [of k t] Asc by (simp add: sorted_wrt_map)
next
  case (Desc k)
  have "ordered_le (Desc k) = (\<lambda>x y. - k x \<le> - k y)" by (intro ext) simp
  then show ?thesis using sorted_sort_key [of "\<lambda>r. - k r" t] Desc by (simp add: sorted_wrt_map)
qed

lemma ordered_le_refl [simp]: "ordered_le ob x x"
  by (cases ob) auto

lemma find_first_ordered:
  "sorted_wrt (ordered_le ob) t \<Longrightarrow> find_first P t = Inr r \<Longrightarrow> x \<in> set t \<Longrightarrow> P x \<Longrightarrow> ordered_le ob r x"
  by (induction t) (auto simp: find_first_def split: list.splits if_splits)

locale mem_table =
  fixes fill :: "nat \<Rightarrow> 'r \<Rightarrow> 'r"
    and clash :: "'r \<Rightarrow> 'r \<Rightarrow> bool"
    and same :: "'r \<Rightarrow> 'r \<Rightarrow> bool"
    and kept :: "'r \<Rightarrow> 'r \<Rightarrow> bool"
    and patch :: "'r \<Rightarrow> 'r \<Rightarrow> 'r"
  assumes same_fill: "same r (fill n r)"
    and kept_refl: "kept r r"

sublocale mem_table \<subseteq> gorm_table "mem_gorm fill clash patch" clash same kept patch
proof (unfold_locales, goal_cases)
  case (1 P t r)
  then have "find_first P t = Inr r" by (simp add: mem_gorm_def)
  then show ?case by (rule find_first_hit)
next
  case (2 P t r)
  then have "find_first P t = Inl gorm_ErrRecordNotFound" by (simp add: mem_gorm_def)
  then show ?case using 2(2) by (rule find_first_miss)
next
  case (3 P ob t r)
  then have "find_first P (order_rows ob t) = Inr r" by (simp add: mem_gorm_def)
  then show ?case
    using find_first_hit find_first_ordered [OF sorted_order_rows] by fastforce
next
  case (5 P ob t rs)
  then show ?case by (auto simp: mem_gorm_def limit_rows_def sorted_order_rows)
next
  case (7 r t r' t')
  then show ?case by (auto simp: mem_gorm_def Let_def list_ex_iff same_fill split: if_splits)
next
  case (9 P m t n t')
  then show ?case by (auto simp: mem_gorm_def list_all2_map2 kept_refl intro!: list_all2_refl)
next
  case (11 P f t n t')
  then show ?case by (auto simp: mem_gorm_def list_all2_map2 kept_refl intro!: list_all2_refl)
qed (auto simp: mem_gorm_def Let_def split: if_splits)

end
