(* ===== verification/Models.thy ===== *)
theory Models
  imports Codec Gorm
begin

text \<open>
  The table rows of backend/internal/repository/models.go for identity and access control.
  For a row type there are, from the tags of the Go struct and from GORM's documentation,
  \<open>clash\<close> (primary key or unique index), \<open>same\<close> (as inserted: a zero value of a column with a
  default is replaced), \<open>kept\<close> (up to the timestamps the mapper maintains) and \<open>patch\<close>
  (\<open>Updates\<close> with a struct: non-zero fields only); \<open>fill\<close> is the executable instance's
  choice of the defaults. The permission and
  policy tables both tag \<open>Name\<close> alone with the unique index \<open>idx_tenant_name\<close>.
\<close>

definition fresh_id :: "nat \<Rightarrow> string" where
  "fresh_id n = ''row-'' @ show_nat n"

text \<open>Table \<open>users\<close>.\<close>

record userModel =
  um_ID :: string
  um_Email :: string
  um_PasswordHash :: string
  um_CreatedAt :: time
  um_UpdatedAt :: time

definition clash_user :: "userModel \<Rightarrow> userModel \<Rightarrow> bool" where
  "clash_user x y \<longleftrightarrow> um_ID x = um_ID y \<or> um_Email x = um_Email y"

definition same_user :: "userModel \<Rightarrow> userModel \<Rightarrow> bool" where
  "same_user r r' \<longleftrightarrow>
     (um_ID r = [] \<or> um_ID r' = um_ID r) \<and>
     um_Email r' = um_Email r \<and>
     um_PasswordHash r' = um_PasswordHash r"

definition kept_user :: "userModel \<Rightarrow> userModel \<Rightarrow> bool" where
  "kept_user r r' \<longleftrightarrow>
     um_ID r' = um_ID r \<and>
     um_Email r' = um_Email r \<and>
     um_PasswordHash r' = um_PasswordHash r"

definition patch_user :: "userModel \<Rightarrow> userModel \<Rightarrow> userModel" where
  "patch_user m r = r\<lparr>
     um_ID := (if um_ID m = [] then um_ID r else um_ID m),
     um_Email := (if um_Email m = [] then um_Email r else um_Email m),
     um_PasswordHash := (if um_PasswordHash m = [] then um_PasswordHash r else um_PasswordHash m)\<rparr>"

definition fill_user :: "nat \<Rightarrow> userModel \<Rightarrow> userModel" where
  "fill_user n r = r\<lparr>um_ID := (if um_ID r = [] then fresh_id n else um_ID r)\<rparr>"

lemmas row_user_defs = clash_user_def same_user_def kept_user_def patch_user_def fill_user_def

interpretation mem_user: mem_table fill_user clash_user same_user kept_user patch_user
  by unfold_locales (simp_all add: same_user_def kept_user_def fill_user_def)

text \<open>Table \<open>tenants\<close>.\<close>

record tenantModel =
  tnm_ID :: string
  tnm_Name :: string
  tnm_Slug :: string
  tnm_Status :: string
  tnm_CreatedAt :: time
  tnm_UpdatedAt :: time

definition clash_tenant :: "tenantModel \<Rightarrow> tenantModel \<Rightarrow> bool" where
  "clash_tenant x y \<longleftrightarrow> tnm_ID x = tnm_ID y \<or> tnm_Slug x = tnm_Slug y"

definition same_tenant :: "tenantModel \<Rightarrow> tenantModel \<Rightarrow> bool" where
  "same_tenant r r' \<longleftrightarrow>
     (tnm_ID r = [] \<or> tnm_ID r' = tnm_ID r) \<and>
     tnm_Name r' = tnm_Name r \<and>
     tnm_Slug r' = tnm_Slug r \<and>
     (tnm_Status r' = tnm_Status r \<or> tnm_Status r = [] \<and> tnm_Status r' = ''active'')"

definition kept_tenant :: "tenantModel \<Rightarrow> tenantModel \<Rightarrow> bool" where
  "kept_tenant r r' \<longleftrightarrow>
     tnm_ID r' = tnm_ID r \<and>
     tnm_Name r' = tnm_Name r \<and>
     tnm_Slug r' = tnm_Slug r \<and>
     tnm_Status r' = tnm_Status r"

definition patch_tenant :: "tenantModel \<Rightarrow> tenantModel \<Rightarrow> tenantModel" where
  "patch_tenant m r = r\<lparr>
     tnm_ID := (if tnm_ID m = [] then tnm_ID r else tnm_ID m),
     tnm_Name := (if tnm_Name m = [] then tnm_Name r else tnm_Name m),
     tnm_Slug := (if tnm_Slug m = [] then tnm_Slug r else tnm_Slug m),
     tnm_Status := (if tnm_Status m = [] then tnm_Status r else tnm_Status m)\<rparr>"

definition fill_tenant :: "nat \<Rightarrow> tenantModel \<Rightarrow> tenantModel" where
  "fill_tenant n r = r\<lparr>tnm_ID := (if tnm_ID r = [] then fresh_id n else tnm_ID r),
     tnm_Status := (if tnm_Status r = [] then ''active'' else tnm_Status r)\<rparr>"

lemmas row_tenant_defs = clash_tenant_def same_tenant_def kept_tenant_def patch_tenant_def fill_tenant_def

interpretation mem_tenant: mem_table fill_tenant clash_tenant same_tenant kept_tenant patch_tenant
  by unfold_locales (simp_all add: same_tenant_def kept_tenant_def fill_tenant_def)

text \<open>Table \<open>memberships\<close>.\<close>

record membershipModel =
  mm_UserID :: string
  mm_TenantID :: string
  mm_Roles :: string
  mm_CreatedAt :: time
  mm_UpdatedAt :: time

definition clash_membership :: "membershipModel \<Rightarrow> membershipModel \<Rightarrow> bool" where
  "clash_membership x y \<longleftrightarrow> (mm_UserID x = mm_UserID y \<and> mm_TenantID x = mm_TenantID y)"

definition same_membership :: "membershipModel \<Rightarrow> membershipModel \<Rightarrow> bool" where
  "same_membership r r' \<longleftrightarrow>
     mm_UserID r' = mm_UserID r \<and>
     mm_TenantID r' = mm_TenantID r \<and>
     mm_Roles r' = mm_Roles r"

definition kept_membership :: "membershipModel \<Rightarrow> membershipModel \<Rightarrow> bool" where
  "kept_membership r r' \<longleftrightarrow>
     mm_UserID r' = mm_UserID r \<and>
     mm_TenantID r' = mm_TenantID r \<and>
     mm_Roles r' = mm_Roles r"

definition patch_membership :: "membershipModel \<Rightarrow> membershipModel \<Rightarrow> membershipModel" where
  "patch_membership m r = r\<lparr>
     mm_UserID := (if mm_UserID m = [] then mm_UserID r else mm_UserID m),
     mm_TenantID := (if mm_TenantID m = [] then mm_TenantID r else mm_TenantID m),
     mm_Roles := (if mm_Roles m = [] then mm_Roles r else mm_Roles m)\<rparr>"

definition fill_membership :: "nat \<Rightarrow> membershipModel \<Rightarrow> membershipModel" where
  "fill_membership n r = r"

lemmas row_membership_defs = clash_membership_def same_membership_def kept_membership_def patch_membership_def fill_membership_def

interpretation mem_membership: mem_table fill_membership clash_membership same_membership kept_membership patch_membership
  by unfold_locales (simp_all add: same_membership_def kept_membership_def fill_membership_def)

text \<open>Table \<open>teams\<close>.\<close>

record teamModel =
  tem_ID :: string
  tem_TenantID :: string
  tem_Name :: string
  tem_Slug :: string
  tem_CreatedAt :: time
  tem_UpdatedAt :: time

definition clash_team :: "teamModel \<Rightarrow> teamModel \<Rightarrow> bool" where
  "clash_team x y \<longleftrightarrow> tem_ID x = tem_ID y"

definition same_team :: "teamModel \<Rightarrow> teamModel \<Rightarrow> bool" where
  "same_team r r' \<longleftrightarrow>
     (tem_ID r = [] \<or> tem_ID r' = tem_ID r) \<and>
     tem_TenantID r' = tem_TenantID r \<and>
     tem_Name r' = tem_Name r \<and>
     tem_Slug r' = tem_Slug r"

definition kept_team :: "teamModel \<Rightarrow> teamModel \<Rightarrow> bool" where
  "kept_team r r' \<longleftrightarrow>
     tem_ID r' = tem_ID r \<and>
     tem_TenantID r' = tem_TenantID r \<and>
     tem_Name r' = tem_Name r \<and>
     tem_Slug r' = tem_Slug r"

definition patch_team :: "teamModel \<Rightarrow> teamModel \<Rightarrow> teamModel" where
  "patch_team m r = r\<lparr>
     tem_ID := (if tem_ID m = [] then tem_ID r else tem_ID m),
     tem_TenantID := (if tem_TenantID m = [] then tem_TenantID r else tem_TenantID m),
     tem_Name := (if tem_Name m = [] then tem_Name r else tem_Name m),
     tem_Slug := (if tem_Slug m = [] then tem_Slug r else tem_Slug m)\<rparr>"

definition fill_team :: "nat \<Rightarrow> teamModel \<Rightarrow> teamModel" where
  "fill_team n r = r\<lparr>tem_ID := (if tem_ID r = [] then fresh_id n else tem_ID r)\<rparr>"

lemmas row_team_defs = clash_team_def same_team_def kept_team_def patch_team_def fill_team_def

interpretation mem_team: mem_table fill_team clash_team same_team kept_team patch_team
  by unfold_locales (simp_all add: same_team_def kept_team_def fill_team_def)

text \<open>Table \<open>team_memberships\<close>.\<close>

record teamMembershipModel =
  tmm_UserID :: string
  tmm_TeamID :: string
  tmm_Roles :: string
  tmm_CreatedAt :: time
  tmm_UpdatedAt :: time

definition clash_team_membership :: "teamMembershipModel \<Rightarrow> teamMembershipModel \<Rightarrow> bool" where
  "clash_team_membership x y \<longleftrightarrow> (tmm_UserID x = tmm_UserID y \<and> tmm_TeamID x = tmm_TeamID y)"

definition same_team_membership :: "teamMembershipModel \<Rightarrow> teamMembershipModel \<Rightarrow> bool" where
  "same_team_membership r r' \<longleftrightarrow>
     tmm_UserID r' = tmm_UserID r \<and>
     tmm_TeamID r' = tmm_TeamID r \<and>
     tmm_Roles r' = tmm_Roles r"

definition kept_team_membership :: "teamMembershipModel \<Rightarrow> teamMembershipModel \<Rightarrow> bool" where
  "kept_team_membership r r' \<longleftrightarrow>
     tmm_UserID r' = tmm_UserID r \<and>
     tmm_TeamID r' = tmm_TeamID r \<and>
     tmm_Roles r' = tmm_Roles r"

definition patch_team_membership :: "teamMembershipModel \<Rightarrow> teamMembershipModel \<Rightarrow> teamMembershipModel" where
  "patch_team_membership m r = r\<lparr>
     tmm_UserID := (if tmm_UserID m = [] then tmm_UserID r else tmm_UserID m),
     tmm_TeamID := (if tmm_TeamID m = [] then tmm_TeamID r else tmm_TeamID m),
     tmm_Roles := (if tmm_Roles m = [] then tmm_Roles r else tmm_Roles m)\<rparr>"

definition fill_team_membership :: "nat \<Rightarrow> teamMembershipModel \<Rightarrow> teamMembershipModel" where
  "fill_team_membership n r = r"

lemmas row_team_membership_defs = clash_team_membership_def same_team_membership_def kept_team_membership_def patch_team_membership_def fill_team_membership_def

interpretation mem_team_membership: mem_table fill_team_membership clash_team_membership same_team_membership kept_team_membership patch_team_membership
  by unfold_locales (simp_all add: same_team_membership_def kept_team_membership_def fill_team_membership_def)

text \<open>Table \<open>acl_permissions\<close>.\<close>

record aclModel =
  am_ID :: string
  am_TenantID :: string
  am_SubjectType :: string
  am_SubjectID :: string
  am_ResourceType :: string
  am_ResourceID :: string
  am_Permission :: string
  am_Effect :: string
  am_CreatedAt :: time
  am_UpdatedAt :: time

definition clash_acl :: "aclModel \<Rightarrow> aclModel \<Rightarrow> bool" where
  "clash_acl x y \<longleftrightarrow> am_ID x = am_ID y"

definition same_acl :: "aclModel \<Rightarrow> aclModel \<Rightarrow> bool" where
  "same_acl r r' \<longleftrightarrow>
     (am_ID r = [] \<or> am_ID r' = am_ID r) \<and>
     am_TenantID r' = am_TenantID r \<and>
     am_SubjectType r' = am_SubjectType r \<and>
     am_SubjectID r' = am_SubjectID r \<and>
     am_ResourceType r' = am_ResourceType r \<and>
     am_ResourceID r' = am_ResourceID r \<and>
     am_Permission r' = am_Permission r \<and>
     (am_Effect r' = am_Effect r \<or> am_Effect r = [] \<and> am_Effect r' = ''allow'')"

definition kept_acl :: "aclModel \<Rightarrow> aclModel \<Rightarrow> bool" where
  "kept_acl r r' \<longleftrightarrow>
     am_ID r' = am_ID r \<and>
     am_TenantID r' = am_TenantID r \<and>
     am_SubjectType r' = am_SubjectType r \<and>
     am_SubjectID r' = am_SubjectID r \<and>
     am_ResourceType r' = am_ResourceType r \<and>
     am_ResourceID r' = am_ResourceID r \<and>
     am_Permission r' = am_Permission r \<and>
     am_Effect r' = am_Effect r"

definition patch_acl :: "aclModel \<Rightarrow> aclModel \<Rightarrow> aclModel" where
  "patch_acl m r = r\<lparr>
     am_ID := (if am_ID m = [] then am_ID r else am_ID m),
     am_TenantID := (if am_TenantID m = [] then am_TenantID r else am_TenantID m),
     am_SubjectType := (if am_SubjectType m = [] then am_SubjectType r else am_SubjectType m),
     am_SubjectID := (if am_SubjectID m = [] then am_SubjectID r else am_SubjectID m),
     am_ResourceType := (if am_ResourceType m = [] then am_ResourceType r else am_ResourceType m),
     am_ResourceID := (if am_ResourceID m = [] then am_ResourceID r else am_ResourceID m),
     am_Permission := (if am_Permission m = [] then am_Permission r else am_Permission m),
     am_Effect := (if am_Effect m = [] then am_Effect r else am_Effect m)\<rparr>"

definition fill_acl :: "nat \<Rightarrow> aclModel \<Rightarrow> aclModel" where
  "fill_acl n r = r\<lparr>am_ID := (if am_ID r = [] then fresh_id n else am_ID r),
     am_Effect := (if am_Effect r = [] then ''allow'' else am_Effect r)\<rparr>"

lemmas row_acl_defs = clash_acl_def same_acl_def kept_acl_def patch_acl_def fill_acl_def

interpretation mem_acl: mem_table fill_acl clash_acl same_acl kept_acl patch_acl
  by unfold_locales (simp_all add: same_acl_def kept_acl_def fill_acl_def)

text \<open>Table \<open>role_permissions\<close>.\<close>

record rolePermissionModel =
  rpm_ID :: string
  rpm_TenantID :: string
  rpm_RoleName :: string
  rpm_Permission :: string
  rpm_CreatedAt :: time

definition clash_role_permission :: "rolePermissionModel \<Rightarrow> rolePermissionModel \<Rightarrow> bool" where
  "clash_role_permission x y \<longleftrightarrow> rpm_ID x = rpm_ID y"

definition same_role_permission :: "rolePermissionModel \<Rightarrow> rolePermissionModel \<Rightarrow> bool" where
  "same_role_permission r r' \<longleftrightarrow>
     (rpm_ID r = [] \<or> rpm_ID r' = rpm_ID r) \<and>
     rpm_TenantID r' = rpm_TenantID r \<and>
     rpm_RoleName r' = rpm_RoleName r \<and>
     rpm_Permission r' = rpm_Permission r"

definition kept_role_permission :: "rolePermissionModel \<Rightarrow> rolePermissionModel \<Rightarrow> bool" where
  "kept_role_permission r r' \<longleftrightarrow>
     rpm_ID r' = rpm_ID r \<and>
     rpm_TenantID r' = rpm_TenantID r \<and>
     rpm_RoleName r' = rpm_RoleName r \<and>
     rpm_Permission r' = rpm_Permission r"

definition patch_role_permission :: "rolePermissionModel \<Rightarrow> rolePermissionModel \<Rightarrow> rolePermissionModel" where
  "patch_role_permission m r = r\<lparr>
     rpm_ID := (if rpm_ID m = [] then rpm_ID r else rpm_ID m),
     rpm_TenantID := (if rpm_TenantID m = [] then rpm_TenantID r else rpm_TenantID m),
     rpm_RoleName := (if rpm_RoleName m = [] then rpm_RoleName r else rpm_RoleName m),
     rpm_Permission := (if rpm_Permission m = [] then rpm_Permission r else rpm_Permission m)\<rparr>"

definition fill_role_permission :: "nat \<Rightarrow> rolePermissionModel \<Rightarrow> rolePermissionModel" where
  "fill_role_permission n r = r\<lparr>rpm_ID := (if rpm_ID r = [] then fresh_id n else rpm_ID r)\<rparr>"

lemmas row_role_permission_defs = clash_role_permission_def same_role_permission_def kept_role_permission_def patch_role_permission_def fill_role_permission_def

interpretation mem_role_permission: mem_table fill_role_permission clash_role_permission same_role_permission kept_role_permission patch_role_permission
  by unfold_locales (simp_all add: same_role_permission_def kept_role_permission_def fill_role_permission_def)

text \<open>Table \<open>permissions\<close>.\<close>

record permissionModel =
  pem_ID :: string
  pem_TenantID :: string
  pem_Name :: string
  pem_Description :: string
  pem_CreatedAt :: time

definition clash_permission :: "permissionModel \<Rightarrow> permissionModel \<Rightarrow> bool" where
  "clash_permission x y \<longleftrightarrow> pem_ID x = pem_ID y \<or> pem_Name x = pem_Name y"

definition same_permission :: "permissionModel \<Rightarrow> permissionModel \<Rightarrow> bool" where
  "same_permission r r' \<longleftrightarrow>
     (pem_ID r = [] \<or> pem_ID r' = pem_ID r) \<and>
     pem_TenantID r' = pem_TenantID r \<and>
     pem_Name r' = pem_Name r \<and>
     pem_Description r' = pem_Description r"

definition kept_permission :: "permissionModel \<Rightarrow> permissionModel \<Rightarrow> bool" where
  "kept_permission r r' \<longleftrightarrow>
     pem_ID r' = pem_ID r \<and>
     pem_TenantID r' = pem_TenantID r \<and>
     pem_Name r' = pem_Name r \<and>
     pem_Description r' = pem_Description r"

definition patch_permission :: "permissionModel \<Rightarrow> permissionModel \<Rightarrow> permissionModel" where
  "patch_permission m r = r\<lparr>
     pem_ID := (if pem_ID m = [] then pem_ID r else pem_ID m),
     pem_TenantID := (if pem_TenantID m = [] then pem_TenantID r else pem_TenantID m),
     pem_Name := (if pem_Name m = [] then pem_Name r else pem_Name m),
     pem_Description := (if pem_Description m = [] then pem_Description r else pem_Description m)\<rparr>"

definition fill_permission :: "nat \<Rightarrow> permissionModel \<Rightarrow> permissionModel" where
  "fill_permission n r = r\<lparr>pem_ID := (if pem_ID r = [] then fresh_id n else pem_ID r)\<rparr>"

lemmas row_permission_defs = clash_permission_def same_permission_def kept_permission_def patch_permission_def fill_permission_def

interpretation mem_permission: mem_table fill_permission clash_permission same_permission kept_permission patch_permission
  by unfold_locales (simp_all add: same_permission_def kept_permission_def fill_permission_def)

text \<open>Table \<open>policies\<close>.\<close>

record policyModel =
  pom_ID :: string
  pom_TenantID :: string
  pom_Name :: string
  pom_Description :: string
  pom_Rego :: string
  pom_Version :: int
  pom_IsActive :: bool
  pom_CreatedAt :: time
  pom_UpdatedAt :: time

definition clash_policy :: "policyModel \<Rightarrow> policyModel \<Rightarrow> bool" where
  "clash_policy x y \<longleftrightarrow> pom_ID x = pom_ID y \<or> pom_Name x = pom_Name y"

definition same_policy :: "policyModel \<Rightarrow> policyModel \<Rightarrow> bool" where
  "same_policy r r' \<longleftrightarrow>
     (pom_ID r = [] \<or> pom_ID r' = pom_ID r) \<and>
     pom_TenantID r' = pom_TenantID r \<and>
     pom_Name r' = pom_Name r \<and>
     pom_Description r' = pom_Description r \<and>
     pom_Rego r' = pom_Rego r \<and>
     (pom_Version r' = pom_Version r \<or> pom_Version r = 0 \<and> pom_Version r' = 1) \<and>
     pom_IsActive r' = pom_IsActive r"

definition kept_policy :: "policyModel \<Rightarrow> policyModel \<Rightarrow> bool" where
  "kept_policy r r' \<longleftrightarrow>
     pom_ID r' = pom_ID r \<and>
     pom_TenantID r' = pom_TenantID r \<and>
     pom_Name r' = pom_Name r \<and>
     pom_Description r' = pom_Description r \<and>
     pom_Rego r' = pom_Rego r \<and>
     pom_Version r' = pom_Version r \<and>
     pom_IsActive r' = pom_IsActive r"

definition patch_policy :: "policyModel \<Rightarrow> policyModel \<Rightarrow> policyModel" where
  "patch_policy m r = r\<lparr>
     pom_ID := (if pom_ID m = [] then pom_ID r else pom_ID m),
     pom_TenantID := (if pom_TenantID m = [] then pom_TenantID r else pom_TenantID m),
     pom_Name := (if pom_Name m = [] then pom_Name r else pom_Name m),
     pom_Description := (if pom_Description m = [] then pom_Description r else pom_Description m),
     pom_Rego := (if pom_Rego m = [] then pom_Rego r else pom_Rego m),
     pom_Version := (if pom_Version m = 0 then pom_Version r else pom_Version m),
     pom_IsActive := (pom_IsActive m \<or> pom_IsActive r)\<rparr>"

definition fill_policy :: "nat \<Rightarrow> policyModel \<Rightarrow> policyModel" where
  "fill_policy n r = r\<lparr>pom_ID := (if pom_ID r = [] then fresh_id n else pom_ID r),
     pom_Version := (if pom_Version r = 0 then 1 else pom_Version r)\<rparr>"

lemmas row_policy_defs = clash_policy_def same_policy_def kept_policy_def patch_policy_def fill_policy_def

interpretation mem_policy: mem_table fill_policy clash_policy same_policy kept_policy patch_policy
  by unfold_locales (simp_all add: same_policy_def kept_policy_def fill_policy_def)

end
