(* ===== verification/ModelsExt.thy ===== *)
theory ModelsExt
  imports Models
begin

text \<open>
  The table rows of backend/internal/repository/models.go for one-time tokens, password
  policy, the identity provider, second factors and the audit log, in the manner of
  \<open>Models\<close>.
\<close>

text \<open>Table \<open>magic_links\<close>.\<close>

record magicLinkModel =
  mlm_ID :: string
  mlm_UserID :: string
  mlm_TenantID :: string
  mlm_TokenHash :: string
  mlm_ExpiresAt :: time
  mlm_UsedAt :: "time option"
  mlm_CreatedAt :: time

definition clash_magic_link :: "magicLinkModel \<Rightarrow> magicLinkModel \<Rightarrow> bool" where
  "clash_magic_link x y \<longleftrightarrow> mlm_ID x = mlm_ID y \<or> mlm_TokenHash x = mlm_TokenHash y"

definition same_magic_link :: "magicLinkModel \<Rightarrow> magicLinkModel \<Rightarrow> bool" where
  "same_magic_link r r' \<longleftrightarrow>
     (mlm_ID r = [] \<or> mlm_ID r' = mlm_ID r) \<and>
     mlm_UserID r' = mlm_UserID r \<and>
     mlm_TenantID r' = mlm_TenantID r \<and>
     mlm_TokenHash r' = mlm_TokenHash r \<and>
     mlm_ExpiresAt r' = mlm_ExpiresAt r \<and>
     mlm_UsedAt r' = mlm_UsedAt r"

definition kept_magic_link :: "magicLinkModel \<Rightarrow> magicLinkModel \<Rightarrow> bool" where
  "kept_magic_link r r' \<longleftrightarrow>
     mlm_ID r' = mlm_ID r \<and>
     mlm_UserID r' = mlm_UserID r \<and>
     mlm_TenantID r' = mlm_TenantID r \<and>
     mlm_TokenHash r' = mlm_TokenHash r \<and>
     mlm_ExpiresAt r' = mlm_ExpiresAt r \<and>
     mlm_UsedAt r' = mlm_UsedAt r"

definition patch_magic_link :: "magicLinkModel \<Rightarrow> magicLinkModel \<Rightarrow> magicLinkModel" where
  "patch_magic_link m r = r\<lparr>
     mlm_ID := (if mlm_ID m = [] then mlm_ID r else mlm_ID m),
     mlm_UserID := (if mlm_UserID m = [] then mlm_UserID r else mlm_UserID m),
     mlm_TenantID := (if mlm_TenantID m = [] then mlm_TenantID r else mlm_TenantID m),
     mlm_TokenHash := (if mlm_TokenHash m = [] then mlm_TokenHash r else mlm_TokenHash m),
     mlm_ExpiresAt := (if time_IsZero (mlm_ExpiresAt m) then mlm_ExpiresAt r else mlm_ExpiresAt m),
     mlm_UsedAt := (if mlm_UsedAt m = None then mlm_UsedAt r else mlm_UsedAt m)\<rparr>"

definition fill_magic_link :: "nat \<Rightarrow> magicLinkModel \<Rightarrow> magicLinkModel" where
  "fill_magic_link n r = r\<lparr>mlm_ID := (if mlm_ID r = [] then fresh_id n else mlm_ID r)\<rparr>"

lemmas row_magic_link_defs = clash_magic_link_def same_magic_link_def kept_magic_link_def patch_magic_link_def fill_magic_link_def

interpretation mem_magic_link: mem_table fill_magic_link clash_magic_link same_magic_link kept_magic_link patch_magic_link
  by unfold_locales (simp_all add: same_magic_link_def kept_magic_link_def fill_magic_link_def)

text \<open>Table \<open>password_policies\<close>.\<close>

record passwordPolicyModel =
  ppm_TenantID :: string
  ppm_MinLength :: int
  ppm_RequireUppercase :: bool
  ppm_RequireLowercase :: bool
  ppm_RequireNumber :: bool
  ppm_RequireSpecial :: bool
  ppm_MaxAgeDays :: int
  ppm_HistoryCount :: int
  ppm_BreachCheckEnabled :: bool
  ppm_LockoutThreshold :: int
  ppm_LockoutDurationMin :: int
  ppm_CreatedAt :: time
  ppm_UpdatedAt :: time

definition clash_password_policy :: "passwordPolicyModel \<Rightarrow> passwordPolicyModel \<Rightarrow> bool" where
  "clash_password_policy x y \<longleftrightarrow> ppm_TenantID x = ppm_TenantID y"

definition same_password_policy :: "passwordPolicyModel \<Rightarrow> passwordPolicyModel \<Rightarrow> bool" where
  "same_password_policy r r' \<longleftrightarrow>
     ppm_TenantID r' = ppm_TenantID r \<and>
     (ppm_MinLength r' = ppm_MinLength r \<or> ppm_MinLength r = 0 \<and> ppm_MinLength r' = 8) \<and>
     ppm_RequireUppercase r' = ppm_RequireUppercase r \<and>
     ppm_RequireLowercase r' = ppm_RequireLowercase r \<and>
     ppm_RequireNumber r' = ppm_RequireNumber r \<and>
     ppm_RequireSpecial r' = ppm_RequireSpecial r \<and>
     ppm_MaxAgeDays r' = ppm_MaxAgeDays r \<and>
     (ppm_HistoryCount r' = ppm_HistoryCount r \<or> ppm_HistoryCount r = 0 \<and> ppm_HistoryCount r' = 5) \<and>
     (ppm_BreachCheckEnabled r \<longrightarrow> ppm_BreachCheckEnabled r') \<and>
     (ppm_LockoutThreshold r' = ppm_LockoutThreshold r \<or> ppm_LockoutThreshold r = 0 \<and> ppm_LockoutThreshold r' = 5) \<and>
     (ppm_LockoutDurationMin r' = ppm_LockoutDurationMin r \<or> ppm_LockoutDurationMin r = 0 \<and> ppm_LockoutDurationMin r' = 15)"

definition kept_password_policy :: "passwordPolicyModel \<Rightarrow> passwordPolicyModel \<Rightarrow> bool" where
  "kept_password_policy r r' \<longleftrightarrow>
     ppm_TenantID r' = ppm_TenantID r \<and>
     ppm_MinLength r' = ppm_MinLength r \<and>
     ppm_RequireUppercase r' = ppm_RequireUppercase r \<and>
     ppm_RequireLowercase r' = ppm_RequireLowercase r \<and>
     ppm_RequireNumber r' = ppm_RequireNumber r \<and>
     ppm_RequireSpecial r' = ppm_RequireSpecial r \<and>
     ppm_MaxAgeDays r' = ppm_MaxAgeDays r \<and>
     ppm_HistoryCount r' = ppm_HistoryCount r \<and>
     ppm_BreachCheckEnabled r' = ppm_BreachCheckEnabled r \<and>
     ppm_LockoutThreshold r' = ppm_LockoutThreshold r \<and>
     ppm_LockoutDurationMin r' = ppm_LockoutDurationMin r"

definition patch_password_policy :: "passwordPolicyModel \<Rightarrow> passwordPolicyModel \<Rightarrow> passwordPolicyModel" where
  "patch_password_policy m r = r\<lparr>
     ppm_TenantID := (if ppm_TenantID m = [] then ppm_TenantID r else ppm_TenantID m),
     ppm_MinLength := (if ppm_MinLength m = 0 then ppm_MinLength r else ppm_MinLength m),
     ppm_RequireUppercase := (ppm_RequireUppercase m \<or> ppm_RequireUppercase r),
     ppm_RequireLowercase := (ppm_RequireLowercase m \<or> ppm_RequireLowercase r),
     ppm_RequireNumber := (ppm_RequireNumber m \<or> ppm_RequireNumber r),
     ppm_RequireSpecial := (ppm_RequireSpecial m \<or> ppm_RequireSpecial r),
     ppm_MaxAgeDays := (if ppm_MaxAgeDays m = 0 then ppm_MaxAgeDays r else ppm_MaxAgeDays m),
     ppm_HistoryCount := (if ppm_HistoryCount m = 0 then ppm_HistoryCount r else ppm_HistoryCount m),
     ppm_BreachCheckEnabled := (ppm_BreachCheckEnabled m \<or> ppm_BreachCheckEnabled r),
     ppm_LockoutThreshold := (if ppm_LockoutThreshold m = 0 then ppm_LockoutThreshold r else ppm_LockoutThreshold m),
     ppm_LockoutDurationMin := (if ppm_LockoutDurationMin m = 0 then ppm_LockoutDurationMin r else ppm_LockoutDurationMin m)\<rparr>"

definition fill_password_policy :: "nat \<Rightarrow> passwordPolicyModel \<Rightarrow> passwordPolicyModel" where
  "fill_password_policy n r = r\<lparr>ppm_MinLength := (if ppm_MinLength r = 0 then 8 else ppm_MinLength r),
     ppm_HistoryCount := (if ppm_HistoryCount r = 0 then 5 else ppm_HistoryCount r),
     ppm_BreachCheckEnabled := True,
     ppm_LockoutThreshold := (if ppm_LockoutThreshold r = 0 then 5 else ppm_LockoutThreshold r),
     ppm_LockoutDurationMin := (if ppm_LockoutDurationMin r = 0 then 15 else ppm_LockoutDurationMin r)\<rparr>"

lemmas row_password_policy_defs = clash_password_policy_def same_password_policy_def kept_password_policy_def patch_password_policy_def fill_password_policy_def

interpretation mem_password_policy: mem_table fill_password_policy clash_password_policy same_password_policy kept_password_policy patch_password_policy
  by unfold_locales (simp_all add: same_password_policy_def kept_password_policy_def fill_password_policy_def)

text \<open>Table \<open>failed_login_attempts\<close>.\<close>

record failedLoginAttemptModel =
  flm_ID :: string
  flm_Email :: string
  flm_TenantID :: string
  flm_IP :: string
  flm_Count :: int
  flm_LockedUntil :: "time option"
  flm_CreatedAt :: time
  flm_UpdatedAt :: time

definition clash_failed_login :: "failedLoginAttemptModel \<Rightarrow> failedLoginAttemptModel \<Rightarrow> bool" where
  "clash_failed_login x y \<longleftrightarrow> flm_ID x = flm_ID y"

definition same_failed_login :: "failedLoginAttemptModel \<Rightarrow> failedLoginAttemptModel \<Rightarrow> bool" where
  "same_failed_login r r' \<longleftrightarrow>
     (flm_ID r = [] \<or> flm_ID r' = flm_ID r) \<and>
     flm_Email r' = flm_Email r \<and>
     flm_TenantID r' = flm_TenantID r \<and>
     flm_IP r' = flm_IP r \<and>
     flm_Count r' = flm_Count r \<and>
     flm_LockedUntil r' = flm_LockedUntil r"

definition kept_failed_login :: "failedLoginAttemptModel \<Rightarrow> failedLoginAttemptModel \<Rightarrow> bool" where
  "kept_failed_login r r' \<longleftrightarrow>
     flm_ID r' = flm_ID r \<and>
     flm_Email r' = flm_Email r \<and>
     flm_TenantID r' = flm_TenantID r \<and>
     flm_IP r' = flm_IP r \<and>
     flm_Count r' = flm_Count r \<and>
     flm_LockedUntil r' = flm_LockedUntil r"

definition patch_failed_login :: "failedLoginAttemptModel \<Rightarrow> failedLoginAttemptModel \<Rightarrow> failedLoginAttemptModel" where
  "patch_failed_login m r = r\<lparr>
     flm_ID := (if flm_ID m = [] then flm_ID r else flm_ID m),
     flm_Email := (if flm_Email m = [] then flm_Email r else flm_Email m),
     flm_TenantID := (if flm_TenantID m = [] then flm_TenantID r else flm_TenantID m),
     flm_IP := (if flm_IP m = [] then flm_IP r else flm_IP m),
     flm_Count := (if flm_Count m = 0 then flm_Count r else flm_Count m),
     flm_LockedUntil := (if flm_LockedUntil m = None then flm_LockedUntil r else flm_LockedUntil m)\<rparr>"

definition fill_failed_login :: "nat \<Rightarrow> failedLoginAttemptModel \<Rightarrow> failedLoginAttemptModel" where
  "fill_failed_login n r = r\<lparr>flm_ID := (if flm_ID r = [] then fresh_id n else flm_ID r)\<rparr>"

lemmas row_failed_login_defs = clash_failed_login_def same_failed_login_def kept_failed_login_def patch_failed_login_def fill_failed_login_def

interpretation mem_failed_login: mem_table fill_failed_login clash_failed_login same_failed_login kept_failed_login patch_failed_login
  by unfold_locales (simp_all add: same_failed_login_def kept_failed_login_def fill_failed_login_def)

text \<open>Table \<open>password_reset_tokens\<close>.\<close>

record passwordResetTokenModel =
  prm_ID :: string
  prm_UserID :: string
  prm_TenantID :: string
  prm_TokenHash :: string
  prm_ExpiresAt :: time
  prm_UsedAt :: "time option"
  prm_CreatedAt :: time

definition clash_password_reset :: "passwordResetTokenModel \<Rightarrow> passwordResetTokenModel \<Rightarrow> bool" where
  "clash_password_reset x y \<longleftrightarrow> prm_ID x = prm_ID y \<or> prm_TokenHash x = prm_TokenHash y"

definition same_password_reset :: "passwordResetTokenModel \<Rightarrow> passwordResetTokenModel \<Rightarrow> bool" where
  "same_password_reset r r' \<longleftrightarrow>
     (prm_ID r = [] \<or> prm_ID r' = prm_ID r) \<and>
     prm_UserID r' = prm_UserID r \<and>
     prm_TenantID r' = prm_TenantID r \<and>
     prm_TokenHash r' = prm_TokenHash r \<and>
     prm_ExpiresAt r' = prm_ExpiresAt r \<and>
     prm_UsedAt r' = prm_UsedAt r"

definition kept_password_reset :: "passwordResetTokenModel \<Rightarrow> passwordResetTokenModel \<Rightarrow> bool" where
  "kept_password_reset r r' \<longleftrightarrow>
     prm_ID r' = prm_ID r \<and>
     prm_UserID r' = prm_UserID r \<and>
     prm_TenantID r' = prm_TenantID r \<and>
     prm_TokenHash r' = prm_TokenHash r \<and>
     prm_ExpiresAt r' = prm_ExpiresAt r \<and>
     prm_UsedAt r' = prm_UsedAt r"

definition patch_password_reset :: "passwordResetTokenModel \<Rightarrow> passwordResetTokenModel \<Rightarrow> passwordResetTokenModel" where
  "patch_password_reset m r = r\<lparr>
     prm_ID := (if prm_ID m = [] then prm_ID r else prm_ID m),
     prm_UserID := (if prm_UserID m = [] then prm_UserID r else prm_UserID m),
     prm_TenantID := (if prm_TenantID m = [] then prm_TenantID r else prm_TenantID m),
     prm_TokenHash := (if prm_TokenHash m = [] then prm_TokenHash r else prm_TokenHash m),
     prm_ExpiresAt := (if time_IsZero (prm_ExpiresAt m) then prm_ExpiresAt r else prm_ExpiresAt m),
     prm_UsedAt := (if prm_UsedAt m = None then prm_UsedAt r else prm_UsedAt m)\<rparr>"

definition fill_password_reset :: "nat \<Rightarrow> passwordResetTokenModel \<Rightarrow> passwordResetTokenModel" where
  "fill_password_reset n r = r\<lparr>prm_ID := (if prm_ID r = [] then fresh_id n else prm_ID r)\<rparr>"

lemmas row_password_reset_defs = clash_password_reset_def same_password_reset_def kept_password_reset_def patch_password_reset_def fill_password_reset_def

interpretation mem_password_reset: mem_table fill_password_reset clash_password_reset same_password_reset kept_password_reset patch_password_reset
  by unfold_locales (simp_all add: same_password_reset_def kept_password_reset_def fill_password_reset_def)

text \<open>Table \<open>email_verification_tokens\<close>.\<close>

record emailVerificationTokenModel =
  evm_ID :: string
  evm_UserID :: string
  evm_TenantID :: string
  evm_Email :: string
  evm_TokenHash :: string
  evm_ExpiresAt :: time
  evm_VerifiedAt :: "time option"
  evm_CreatedAt :: time

definition clash_email_verification :: "emailVerificationTokenModel \<Rightarrow> emailVerificationTokenModel \<Rightarrow> bool" where
  "clash_email_verification x y \<longleftrightarrow> evm_ID x = evm_ID y \<or> evm_TokenHash x = evm_TokenHash y"

definition same_email_verification :: "emailVerificationTokenModel \<Rightarrow> emailVerificationTokenModel \<Rightarrow> bool" where
  "same_email_verification r r' \<longleftrightarrow>
     (evm_ID r = [] \<or> evm_ID r' = evm_ID r) \<and>
     evm_UserID r' = evm_UserID r \<and>
     evm_TenantID r' = evm_TenantID r \<and>
     evm_Email r' = evm_Email r \<and>
     evm_TokenHash r' = evm_TokenHash r \<and>
     evm_ExpiresAt r' = evm_ExpiresAt r \<and>
     evm_VerifiedAt r' = evm_VerifiedAt r"

definition kept_email_verification :: "emailVerificationTokenModel \<Rightarrow> emailVerificationTokenModel \<Rightarrow> bool" where
  "kept_email_verification r r' \<longleftrightarrow>
     evm_ID r' = evm_ID r \<and>
     evm_UserID r' = evm_UserID r \<and>
     evm_TenantID r' = evm_TenantID r \<and>
     evm_Email r' = evm_Email r \<and>
     evm_TokenHash r' = evm_TokenHash r \<and>
     evm_ExpiresAt r' = evm_ExpiresAt r \<and>
     evm_VerifiedAt r' = evm_VerifiedAt r"

definition patch_email_verification :: "emailVerificationTokenModel \<Rightarrow> emailVerificationTokenModel \<Rightarrow> emailVerificationTokenModel" where
  "patch_email_verification m r = r\<lparr>
     evm_ID := (if evm_ID m = [] then evm_ID r else evm_ID m),
     evm_UserID := (if evm_UserID m = [] then evm_UserID r else evm_UserID m),
     evm_TenantID := (if evm_TenantID m = [] then evm_TenantID r else evm_TenantID m),
     evm_Email := (if evm_Email m = [] then evm_Email r else evm_Email m),
     evm_TokenHash := (if evm_TokenHash m = [] then evm_TokenHash r else evm_TokenHash m),
     evm_ExpiresAt := (if time_IsZero (evm_ExpiresAt m) then evm_ExpiresAt r else evm_ExpiresAt m),
     evm_VerifiedAt := (if evm_VerifiedAt m = None then evm_VerifiedAt r else evm_VerifiedAt m)\<rparr>"

definition fill_email_verification :: "nat \<Rightarrow> emailVerificationTokenModel \<Rightarrow> emailVerificationTokenModel" where
  "fill_email_verification n r = r\<lparr>evm_ID := (if evm_ID r = [] then fresh_id n else evm_ID r)\<rparr>"

lemmas row_email_verification_defs = clash_email_verification_def same_email_verification_def kept_email_verification_def patch_email_verification_def fill_email_verification_def

interpretation mem_email_verification: mem_table fill_email_verification clash_email_verification same_email_verification kept_email_verification patch_email_verification
  by unfold_locales (simp_all add: same_email_verification_def kept_email_verification_def fill_email_verification_def)

text \<open>Table \<open>oauth2_clients\<close>.\<close>

record oauth2ClientModel =
  ocm_ID :: string
  ocm_TenantID :: string
  ocm_Name :: string
  ocm_ClientID :: string
  ocm_ClientSecretHash :: string
  ocm_RedirectURIs :: string
  ocm_Scopes :: string
  ocm_GrantTypes :: string
  ocm_ResponseTypes :: string
  ocm_TokenEndpointAuthMethod :: string
  ocm_LogoURI :: string
  ocm_ClientURI :: string
  ocm_PolicyURI :: string
  ocm_TOSURI :: string
  ocm_JWKSURI :: string
  ocm_Contacts :: string
  ocm_Enabled :: bool
  ocm_CreatedAt :: time
  ocm_UpdatedAt :: time
  ocm_CreatedBy :: string

definition clash_oauth2_client :: "oauth2ClientModel \<Rightarrow> oauth2ClientModel \<Rightarrow> bool" where
  "clash_oauth2_client x y \<longleftrightarrow> ocm_ID x = ocm_ID y \<or> ocm_ClientID x = ocm_ClientID y"

definition same_oauth2_client :: "oauth2ClientModel \<Rightarrow> oauth2ClientModel \<Rightarrow> bool" where
  "same_oauth2_client r r' \<longleftrightarrow>
     (ocm_ID r = [] \<or> ocm_ID r' = ocm_ID r) \<and>
     ocm_TenantID r' = ocm_TenantID r \<and>
     ocm_Name r' = ocm_Name r \<and>
     ocm_ClientID r' = ocm_ClientID r \<and>
     ocm_ClientSecretHash r' = ocm_ClientSecretHash r \<and>
     ocm_RedirectURIs r' = ocm_RedirectURIs r \<and>
     ocm_Scopes r' = ocm_Scopes r \<and>
     ocm_GrantTypes r' = ocm_GrantTypes r \<and>
     ocm_ResponseTypes r' = ocm_ResponseTypes r \<and>
     (ocm_TokenEndpointAuthMethod r' = ocm_TokenEndpointAuthMethod r \<or> ocm_TokenEndpointAuthMethod r = [] \<and> ocm_TokenEndpointAuthMethod r' = ''client_secret_basic'') \<and>
     ocm_LogoURI r' = ocm_LogoURI r \<and>
     ocm_ClientURI r' = ocm_ClientURI r \<and>
     ocm_PolicyURI r' = ocm_PolicyURI r \<and>
     ocm_TOSURI r' = ocm_TOSURI r \<and>
     ocm_JWKSURI r' = ocm_JWKSURI r \<and>
     ocm_Contacts r' = ocm_Contacts r \<and>
     (ocm_Enabled r \<longrightarrow> ocm_Enabled r') \<and>
     ocm_CreatedBy r' = ocm_CreatedBy r"

definition kept_oauth2_client :: "oauth2ClientModel \<Rightarrow> oauth2ClientModel \<Rightarrow> bool" where
  "kept_oauth2_client r r' \<longleftrightarrow>
     ocm_ID r' = ocm_ID r \<and>
     ocm_TenantID r' = ocm_TenantID r \<and>
     ocm_Name r' = ocm_Name r \<and>
     ocm_ClientID r' = ocm_ClientID r \<and>
     ocm_ClientSecretHash r' = ocm_ClientSecretHash r \<and>
     ocm_RedirectURIs r' = ocm_RedirectURIs r \<and>
     ocm_Scopes r' = ocm_Scopes r \<and>
     ocm_GrantTypes r' = ocm_GrantTypes r \<and>
     ocm_ResponseTypes r' = ocm_ResponseTypes r \<and>
     ocm_TokenEndpointAuthMethod r' = ocm_TokenEndpointAuthMethod r \<and>
     ocm_LogoURI r' = ocm_LogoURI r \<and>
     ocm_ClientURI r' = ocm_ClientURI r \<and>
     ocm_PolicyURI r' = ocm_PolicyURI r \<and>
     ocm_TOSURI r' = ocm_TOSURI r \<and>
     ocm_JWKSURI r' = ocm_JWKSURI r \<and>
     ocm_Contacts r' = ocm_Contacts r \<and>
     ocm_Enabled r' = ocm_Enabled r \<and>
     ocm_CreatedBy r' = ocm_CreatedBy r"

definition patch_oauth2_client :: "oauth2ClientModel \<Rightarrow> oauth2ClientModel \<Rightarrow> oauth2ClientModel" where
  "patch_oauth2_client m r = r\<lparr>
     ocm_ID := (if ocm_ID m = [] then ocm_ID r else ocm_ID m),
     ocm_TenantID := (if ocm_TenantID m = [] then ocm_TenantID r else ocm_TenantID m),
     ocm_Name := (if ocm_Name m = [] then ocm_Name r else ocm_Name m),
     ocm_ClientID := (if ocm_ClientID m = [] then ocm_ClientID r else ocm_ClientID m),
     ocm_ClientSecretHash := (if ocm_ClientSecretHash m = [] then ocm_ClientSecretHash r else ocm_ClientSecretHash m),
     ocm_RedirectURIs := (if ocm_RedirectURIs m = [] then ocm_RedirectURIs r else ocm_RedirectURIs m),
     ocm_Scopes := (if ocm_Scopes m = [] then ocm_Scopes r else ocm_Scopes m),
     ocm_GrantTypes := (if ocm_GrantTypes m = [] then ocm_GrantTypes r else ocm_GrantTypes m),
     ocm_ResponseTypes := (if ocm_ResponseTypes m = [] then ocm_ResponseTypes r else ocm_ResponseTypes m),
     ocm_TokenEndpointAuthMethod := (if ocm_TokenEndpointAuthMethod m = [] then ocm_TokenEndpointAuthMethod r else ocm_TokenEndpointAuthMethod m),
     ocm_LogoURI := (if ocm_LogoURI m = [] then ocm_LogoURI r else ocm_LogoURI m),
     ocm_ClientURI := (if ocm_ClientURI m = [] then ocm_ClientURI r else ocm_ClientURI m),
     ocm_PolicyURI := (if ocm_PolicyURI m = [] then ocm_PolicyURI r else ocm_PolicyURI m),
     ocm_TOSURI := (if ocm_TOSURI m = [] then ocm_TOSURI r else ocm_TOSURI m),
     ocm_JWKSURI := (if ocm_JWKSURI m = [] then ocm_JWKSURI r else ocm_JWKSURI m),
     ocm_Contacts := (if ocm_Contacts m = [] then ocm_Contacts r else ocm_Contacts m),
     ocm_Enabled := (ocm_Enabled m \<or> ocm_Enabled r),
     ocm_CreatedBy := (if ocm_CreatedBy m = [] then ocm_CreatedBy r else ocm_CreatedBy m)\<rparr>"

definition fill_oauth2_client :: "nat \<Rightarrow> oauth2ClientModel \<Rightarrow> oauth2ClientModel" where
  "fill_oauth2_client n r = r\<lparr>ocm_ID := (if ocm_ID r = [] then fresh_id n else ocm_ID r),
     ocm_TokenEndpointAuthMethod := (if ocm_TokenEndpointAuthMethod r = [] then ''client_secret_basic'' else ocm_TokenEndpointAuthMethod r),
     ocm_Enabled := True\<rparr>"

lemmas row_oauth2_client_defs = clash_oauth2_client_def same_oauth2_client_def kept_oauth2_client_def patch_oauth2_client_def fill_oauth2_client_def

interpretation mem_oauth2_client: mem_table fill_oauth2_client clash_oauth2_client same_oauth2_client kept_oauth2_client patch_oauth2_client
  by unfold_locales (simp_all add: same_oauth2_client_def kept_oauth2_client_def fill_oauth2_client_def)

text \<open>Table \<open>oauth2_auth_codes\<close>.\<close>

record oauth2AuthCodeModel =
  acm_ID :: string
  acm_ClientID :: string
  acm_UserID :: string
  acm_TenantID :: string
  acm_RedirectURI :: string
  acm_Scopes :: string
  acm_CodeChallenge :: string
  acm_CodeChallengeMethod :: string
  acm_Nonce :: string
  acm_ExpiresAt :: time
  acm_CreatedAt :: time

definition clash_oauth2_auth_code :: "oauth2AuthCodeModel \<Rightarrow> oauth2AuthCodeModel \<Rightarrow> bool" where
  "clash_oauth2_auth_code x y \<longleftrightarrow> acm_ID x = acm_ID y"

definition same_oauth2_auth_code :: "oauth2AuthCodeModel \<Rightarrow> oauth2AuthCodeModel \<Rightarrow> bool" where
  "same_oauth2_auth_code r r' \<longleftrightarrow>
     (acm_ID r = [] \<or> acm_ID r' = acm_ID r) \<and>
     acm_ClientID r' = acm_ClientID r \<and>
     acm_UserID r' = acm_UserID r \<and>
     acm_TenantID r' = acm_TenantID r \<and>
     acm_RedirectURI r' = acm_RedirectURI r \<and>
     acm_Scopes r' = acm_Scopes r \<and>
     acm_CodeChallenge r' = acm_CodeChallenge r \<and>
     acm_CodeChallengeMethod r' = acm_CodeChallengeMethod r \<and>
     acm_Nonce r' = acm_Nonce r \<and>
     acm_ExpiresAt r' = acm_ExpiresAt r"

definition kept_oauth2_auth_code :: "oauth2AuthCodeModel \<Rightarrow> oauth2AuthCodeModel \<Rightarrow> bool" where
  "kept_oauth2_auth_code r r' \<longleftrightarrow>
     acm_ID r' = acm_ID r \<and>
     acm_ClientID r' = acm_ClientID r \<and>
     acm_UserID r' = acm_UserID r \<and>
     acm_TenantID r' = acm_TenantID r \<and>
     acm_RedirectURI r' = acm_RedirectURI r \<and>
     acm_Scopes r' = acm_Scopes r \<and>
     acm_CodeChallenge r' = acm_CodeChallenge r \<and>
     acm_CodeChallengeMethod r' = acm_CodeChallengeMethod r \<and>
     acm_Nonce r' = acm_Nonce r \<and>
     acm_ExpiresAt r' = acm_ExpiresAt r"

definition patch_oauth2_auth_code :: "oauth2AuthCodeModel \<Rightarrow> oauth2AuthCodeModel \<Rightarrow> oauth2AuthCodeModel" where
  "patch_oauth2_auth_code m r = r\<lparr>
     acm_ID := (if acm_ID m = [] then acm_ID r else acm_ID m),
     acm_ClientID := (if acm_ClientID m = [] then acm_ClientID r else acm_ClientID m),
     acm_UserID := (if acm_UserID m = [] then acm_UserID r else acm_UserID m),
     acm_TenantID := (if acm_TenantID m = [] then acm_TenantID r else acm_TenantID m),
     acm_RedirectURI := (if acm_RedirectURI m = [] then acm_RedirectURI r else acm_RedirectURI m),
     acm_Scopes := (if acm_Scopes m = [] then acm_Scopes r else acm_Scopes m),
     acm_CodeChallenge := (if acm_CodeChallenge m = [] then acm_CodeChallenge r else acm_CodeChallenge m),
     acm_CodeChallengeMethod := (if acm_CodeChallengeMethod m = [] then acm_CodeChallengeMethod r else acm_CodeChallengeMethod m),
     acm_Nonce := (if acm_Nonce m = [] then acm_Nonce r else acm_Nonce m),
     acm_ExpiresAt := (if time_IsZero (acm_ExpiresAt m) then acm_ExpiresAt r else acm_ExpiresAt m)\<rparr>"

definition fill_oauth2_auth_code :: "nat \<Rightarrow> oauth2AuthCodeModel \<Rightarrow> oauth2AuthCodeModel" where
  "fill_oauth2_auth_code n r = r\<lparr>acm_ID := (if acm_ID r = [] then fresh_id n else acm_ID r)\<rparr>"

lemmas row_oauth2_auth_code_defs = clash_oauth2_auth_code_def same_oauth2_auth_code_def kept_oauth2_auth_code_def patch_oauth2_auth_code_def fill_oauth2_auth_code_def

interpretation mem_oauth2_auth_code: mem_table fill_oauth2_auth_code clash_oauth2_auth_code same_oauth2_auth_code kept_oauth2_auth_code patch_oauth2_auth_code
  by unfold_locales (simp_all add: same_oauth2_auth_code_def kept_oauth2_auth_code_def fill_oauth2_auth_code_def)

text \<open>Table \<open>oauth2_consents\<close>.\<close>

record oauth2ConsentModel =
  com_ID :: string
  com_UserID :: string
  com_ClientID :: string
  com_TenantID :: string
  com_Scopes :: string
  com_ExpiresAt :: "time option"
  com_CreatedAt :: time
  com_UpdatedAt :: time

definition clash_oauth2_consent :: "oauth2ConsentModel \<Rightarrow> oauth2ConsentModel \<Rightarrow> bool" where
  "clash_oauth2_consent x y \<longleftrightarrow> com_ID x = com_ID y"

definition same_oauth2_consent :: "oauth2ConsentModel \<Rightarrow> oauth2ConsentModel \<Rightarrow> bool" where
  "same_oauth2_consent r r' \<longleftrightarrow>
     (com_ID r = [] \<or> com_ID r' = com_ID r) \<and>
     com_UserID r' = com_UserID r \<and>
     com_ClientID r' = com_ClientID r \<and>
     com_TenantID r' = com_TenantID r \<and>
     com_Scopes r' = com_Scopes r \<and>
     com_ExpiresAt r' = com_ExpiresAt r"

definition kept_oauth2_consent :: "oauth2ConsentModel \<Rightarrow> oauth2ConsentModel \<Rightarrow> bool" where
  "kept_oauth2_consent r r' \<longleftrightarrow>
     com_ID r' = com_ID r \<and>
     com_UserID r' = com_UserID r \<and>
     com_ClientID r' = com_ClientID r \<and>
     com_TenantID r' = com_TenantID r \<and>
     com_Scopes r' = com_Scopes r \<and>
     com_ExpiresAt r' = com_ExpiresAt r"

definition patch_oauth2_consent :: "oauth2ConsentModel \<Rightarrow> oauth2ConsentModel \<Rightarrow> oauth2ConsentModel" where
  "patch_oauth2_consent m r = r\<lparr>
     com_ID := (if com_ID m = [] then com_ID r else com_ID m),
     com_UserID := (if com_UserID m = [] then com_UserID r else com_UserID m),
     com_ClientID := (if com_ClientID m = [] then com_ClientID r else com_ClientID m),
     com_TenantID := (if com_TenantID m = [] then com_TenantID r else com_TenantID m),
     com_Scopes := (if com_Scopes m = [] then com_Scopes r else com_Scopes m),
     com_ExpiresAt := (if com_ExpiresAt m = None then com_ExpiresAt r else com_ExpiresAt m)\<rparr>"

definition fill_oauth2_consent :: "nat \<Rightarrow> oauth2ConsentModel \<Rightarrow> oauth2ConsentModel" where
  "fill_oauth2_consent n r = r\<lparr>com_ID := (if com_ID r = [] then fresh_id n else com_ID r)\<rparr>"

lemmas row_oauth2_consent_defs = clash_oauth2_consent_def same_oauth2_consent_def kept_oauth2_consent_def patch_oauth2_consent_def fill_oauth2_consent_def

interpretation mem_oauth2_consent: mem_table fill_oauth2_consent clash_oauth2_consent same_oauth2_consent kept_oauth2_consent patch_oauth2_consent
  by unfold_locales (simp_all add: same_oauth2_consent_def kept_oauth2_consent_def fill_oauth2_consent_def)

text \<open>Table \<open>signing_keys\<close>.\<close>

record signingKeyModel =
  skm_ID :: string
  skm_KeyID :: string
  skm_Algorithm :: string
  skm_PrivateKey :: string
  skm_PublicKey :: string
  skm_IsActive :: bool
  skm_CreatedAt :: time
  skm_ExpiresAt :: "time option"

definition clash_signing_key :: "signingKeyModel \<Rightarrow> signingKeyModel \<Rightarrow> bool" where
  "clash_signing_key x y \<longleftrightarrow> skm_ID x = skm_ID y \<or> skm_KeyID x = skm_KeyID y"

definition same_signing_key :: "signingKeyModel \<Rightarrow> signingKeyModel \<Rightarrow> bool" where
  "same_signing_key r r' \<longleftrightarrow>
     (skm_ID r = [] \<or> skm_ID r' = skm_ID r) \<and>
     skm_KeyID r' = skm_KeyID r \<and>
     (skm_Algorithm r' = skm_Algorithm r \<or> skm_Algorithm r = [] \<and> skm_Algorithm r' = ''RS256'') \<and>
     skm_PrivateKey r' = skm_PrivateKey r \<and>
     skm_PublicKey r' = skm_PublicKey r \<and>
     skm_IsActive r' = skm_IsActive r \<and>
     skm_ExpiresAt r' = skm_ExpiresAt r"

definition kept_signing_key :: "signingKeyModel \<Rightarrow> signingKeyModel \<Rightarrow> bool" where
  "kept_signing_key r r' \<longleftrightarrow>
     skm_ID r' = skm_ID r \<and>
     skm_KeyID r' = skm_KeyID r \<and>
     skm_Algorithm r' = skm_Algorithm r \<and>
     skm_PrivateKey r' = skm_PrivateKey r \<and>
     skm_PublicKey r' = skm_PublicKey r \<and>
     skm_IsActive r' = skm_IsActive r \<and>
     skm_ExpiresAt r' = skm_ExpiresAt r"

definition patch_signing_key :: "signingKeyModel \<Rightarrow> signingKeyModel \<Rightarrow> signingKeyModel" where
  "patch_signing_key m r = r\<lparr>
     skm_ID := (if skm_ID m = [] then skm_ID r else skm_ID m),
     skm_KeyID := (if skm_KeyID m = [] then skm_KeyID r else skm_KeyID m),
     skm_Algorithm := (if skm_Algorithm m = [] then skm_Algorithm r else skm_Algorithm m),
     skm_PrivateKey := (if skm_PrivateKey m = [] then skm_PrivateKey r else skm_PrivateKey m),
     skm_PublicKey := (if skm_PublicKey m = [] then skm_PublicKey r else skm_PublicKey m),
     skm_IsActive := (skm_IsActive m \<or> skm_IsActive r),
     skm_ExpiresAt := (if skm_ExpiresAt m = None then skm_ExpiresAt r else skm_ExpiresAt m)\<rparr>"

definition fill_signing_key :: "nat \<Rightarrow> signingKeyModel \<Rightarrow> signingKeyModel" where
  "fill_signing_key n r = r\<lparr>skm_ID := (if skm_ID r = [] then fresh_id n else skm_ID r),
     skm_Algorithm := (if skm_Algorithm r = [] then ''RS256'' else skm_Algorithm r)\<rparr>"

lemmas row_signing_key_defs = clash_signing_key_def same_signing_key_def kept_signing_key_def patch_signing_key_def fill_signing_key_def

interpretation mem_signing_key: mem_table fill_signing_key clash_signing_key same_signing_key kept_signing_key patch_signing_key
  by unfold_locales (simp_all add: same_signing_key_def kept_signing_key_def fill_signing_key_def)

text \<open>Table \<open>mfa_methods\<close>.\<close>

record mfaMethodModel =
  mfm_ID :: string
  mfm_UserID :: string
  mfm_TenantID :: string
  mfm_Type :: string
  mfm_Name :: string
  mfm_Secret :: string
  mfm_BackupCodes :: string
  mfm_IsPrimary :: bool
  mfm_VerifiedAt :: "time option"
  mfm_LastUsedAt :: "time option"
  mfm_CreatedAt :: time
  mfm_UpdatedAt :: time

definition clash_mfa_method :: "mfaMethodModel \<Rightarrow> mfaMethodModel \<Rightarrow> bool" where
  "clash_mfa_method x y \<longleftrightarrow> mfm_ID x = mfm_ID y"

definition same_mfa_method :: "mfaMethodModel \<Rightarrow> mfaMethodModel \<Rightarrow> bool" where
  "same_mfa_method r r' \<longleftrightarrow>
     (mfm_ID r = [] \<or> mfm_ID r' = mfm_ID r) \<and>
     mfm_UserID r' = mfm_UserID r \<and>
     mfm_TenantID r' = mfm_TenantID r \<and>
     mfm_Type r' = mfm_Type r \<and>
     mfm_Name r' = mfm_Name r \<and>
     mfm_Secret r' = mfm_Secret r \<and>
     mfm_BackupCodes r' = mfm_BackupCodes r \<and>
     mfm_IsPrimary r' = mfm_IsPrimary r \<and>
     mfm_VerifiedAt r' = mfm_VerifiedAt r \<and>
     mfm_LastUsedAt r' = mfm_LastUsedAt r"

definition kept_mfa_method :: "mfaMethodModel \<Rightarrow> mfaMethodModel \<Rightarrow> bool" where
  "kept_mfa_method r r' \<longleftrightarrow>
     mfm_ID r' = mfm_ID r \<and>
     mfm_UserID r' = mfm_UserID r \<and>
     mfm_TenantID r' = mfm_TenantID r \<and>
     mfm_Type r' = mfm_Type r \<and>
     mfm_Name r' = mfm_Name r \<and>
     mfm_Secret r' = mfm_Secret r \<and>
     mfm_BackupCodes r' = mfm_BackupCodes r \<and>
     mfm_IsPrimary r' = mfm_IsPrimary r \<and>
     mfm_VerifiedAt r' = mfm_VerifiedAt r \<and>
     mfm_LastUsedAt r' = mfm_LastUsedAt r"

definition patch_mfa_method :: "mfaMethodModel \<Rightarrow> mfaMethodModel \<Rightarrow> mfaMethodModel" where
  "patch_mfa_method m r = r\<lparr>
     mfm_ID := (if mfm_ID m = [] then mfm_ID r else mfm_ID m),
     mfm_UserID := (if mfm_UserID m = [] then mfm_UserID r else mfm_UserID m),
     mfm_TenantID := (if mfm_TenantID m = [] then mfm_TenantID r else mfm_TenantID m),
     mfm_Type := (if mfm_Type m = [] then mfm_Type r else mfm_Type m),
     mfm_Name := (if mfm_Name m = [] then mfm_Name r else mfm_Name m),
     mfm_Secret := (if mfm_Secret m = [] then mfm_Secret r else mfm_Secret m),
     mfm_BackupCodes := (if mfm_BackupCodes m = [] then mfm_BackupCodes r else mfm_BackupCodes m),
     mfm_IsPrimary := (mfm_IsPrimary m \<or> mfm_IsPrimary r),
     mfm_VerifiedAt := (if mfm_VerifiedAt m = None then mfm_VerifiedAt r else mfm_VerifiedAt m),
     mfm_LastUsedAt := (if mfm_LastUsedAt m = None then mfm_LastUsedAt r else mfm_LastUsedAt m)\<rparr>"

definition fill_mfa_method :: "nat \<Rightarrow> mfaMethodModel \<Rightarrow> mfaMethodModel" where
  "fill_mfa_method n r = r\<lparr>mfm_ID := (if mfm_ID r = [] then fresh_id n else mfm_ID r)\<rparr>"

lemmas row_mfa_method_defs = clash_mfa_method_def same_mfa_method_def kept_mfa_method_def patch_mfa_method_def fill_mfa_method_def

interpretation mem_mfa_method: mem_table fill_mfa_method clash_mfa_method same_mfa_method kept_mfa_method patch_mfa_method
  by unfold_locales (simp_all add: same_mfa_method_def kept_mfa_method_def fill_mfa_method_def)

text \<open>Table \<open>audit_logs\<close>.\<close>

record auditLogModel =
  alm_ID :: string
  alm_TenantID :: string
  alm_EventType :: string
  alm_ActorID :: string
  alm_ActorType :: string
  alm_ResourceType :: string
  alm_ResourceID :: string
  alm_Action :: string
  alm_Before :: string
  alm_After :: string
  alm_Metadata :: string
  alm_Timestamp :: time
  alm_Hash :: string
  alm_PrevHash :: string

definition clash_audit_log :: "auditLogModel \<Rightarrow> auditLogModel \<Rightarrow> bool" where
  "clash_audit_log x y \<longleftrightarrow> alm_ID x = alm_ID y \<or> alm_Hash x = alm_Hash y"

definition same_audit_log :: "auditLogModel \<Rightarrow> auditLogModel \<Rightarrow> bool" where
  "same_audit_log r r' \<longleftrightarrow>
     (alm_ID r = [] \<or> alm_ID r' = alm_ID r) \<and>
     alm_TenantID r' = alm_TenantID r \<and>
     alm_EventType r' = alm_EventType r \<and>
     alm_ActorID r' = alm_ActorID r \<and>
     alm_ActorType r' = alm_ActorType r \<and>
     alm_ResourceType r' = alm_ResourceType r \<and>
     alm_ResourceID r' = alm_ResourceID r \<and>
     alm_Action r' = alm_Action r \<and>
     alm_Before r' = alm_Before r \<and>
     alm_After r' = alm_After r \<and>
     alm_Metadata r' = alm_Metadata r \<and>
     alm_Timestamp r' = alm_Timestamp r \<and>
     alm_Hash r' = alm_Hash r \<and>
     alm_PrevHash r' = alm_PrevHash r"

definition kept_audit_log :: "auditLogModel \<Rightarrow> auditLogModel \<Rightarrow> bool" where
  "kept_audit_log r r' \<longleftrightarrow>
     alm_ID r' = alm_ID r \<and>
     alm_TenantID r' = alm_TenantID r \<and>
     alm_EventType r' = alm_EventType r \<and>
     alm_ActorID r' = alm_ActorID r \<and>
     alm_ActorType r' = alm_ActorType r \<and>
     alm_ResourceType r' = alm_ResourceType r \<and>
     alm_ResourceID r' = alm_ResourceID r \<and>
     alm_Action r' = alm_Action r \<and>
     alm_Before r' = alm_Before r \<and>
     alm_After r' = alm_After r \<and>
     alm_Metadata r' = alm_Metadata r \<and>
     alm_Timestamp r' = alm_Timestamp r \<and>
     alm_Hash r' = alm_Hash r \<and>
     alm_PrevHash r' = alm_PrevHash r"

definition patch_audit_log :: "auditLogModel \<Rightarrow> auditLogModel \<Rightarrow> auditLogModel" where
  "patch_audit_log m r = r\<lparr>
     alm_ID := (if alm_ID m = [] then alm_ID r else alm_ID m),
     alm_TenantID := (if alm_TenantID m = [] then alm_TenantID r else alm_TenantID m),
     alm_EventType := (if alm_EventType m = [] then alm_EventType r else alm_EventType m),
     alm_ActorID := (if alm_ActorID m = [] then alm_ActorID r else alm_ActorID m),
     alm_ActorType := (if alm_ActorType m = [] then alm_ActorType r else alm_ActorType m),
     alm_ResourceType := (if alm_ResourceType m = [] then alm_ResourceType r else alm_ResourceType m),
     alm_ResourceID := (if alm_ResourceID m = [] then alm_ResourceID r else alm_ResourceID m),
     alm_Action := (if alm_Action m = [] then alm_Action r else alm_Action m),
     alm_Before := (if alm_Before m = [] then alm_Before r else alm_Before m),
     alm_After := (if alm_After m = [] then alm_After r else alm_After m),
     alm_Metadata := (if alm_Metadata m = [] then alm_Metadata r else alm_Metadata m),
     alm_Timestamp := (if time_IsZero (alm_Timestamp m) then alm_Timestamp r else alm_Timestamp m),
     alm_Hash := (if alm_Hash m = [] then alm_Hash r else alm_Hash m),
     alm_PrevHash := (if alm_PrevHash m = [] then alm_PrevHash r else alm_PrevHash m)\<rparr>"

definition fill_audit_log :: "nat \<Rightarrow> auditLogModel \<Rightarrow> auditLogModel" where
  "fill_audit_log n r = r\<lparr>alm_ID := (if alm_ID r = [] then fresh_id n else alm_ID r)\<rparr>"

lemmas row_audit_log_defs = clash_audit_log_def same_audit_log_def kept_audit_log_def patch_audit_log_def fill_audit_log_def

interpretation mem_audit_log: mem_table fill_audit_log clash_audit_log same_audit_log kept_audit_log patch_audit_log
  by unfold_locales (simp_all add: same_audit_log_def kept_audit_log_def fill_audit_log_def)

end
