(* ===== verification/ModelsFed.thy ===== *)
theory ModelsFed
  imports ModelsExt "HOL-Library.Word"
begin

text \<open>
  The table rows of backend/internal/repository/models.go for federated login, WebAuthn
  credentials and data exports, in the manner of \<open>Models\<close>; and the database, the record of all
  tables.
\<close>

text \<open>Table \<open>oauth2_providers\<close>.\<close>

record oauth2ProviderModel =
  opm_ID :: string
  opm_TenantID :: string
  opm_Name :: string
  opm_ClientID :: string
  opm_ClientSecret :: string
  opm_AuthURL :: string
  opm_TokenURL :: string
  opm_UserInfoURL :: string
  opm_Scopes :: string
  opm_IssuerURL :: string
  opm_ProviderType :: string
  opm_Enabled :: bool
  opm_CreatedAt :: time
  opm_UpdatedAt :: time

definition clash_oauth2_provider :: "oauth2ProviderModel \<Rightarrow> oauth2ProviderModel \<Rightarrow> bool" where
  "clash_oauth2_provider x y \<longleftrightarrow> opm_ID x = opm_ID y"

definition same_oauth2_provider :: "oauth2ProviderModel \<Rightarrow> oauth2ProviderModel \<Rightarrow> bool" where
  "same_oauth2_provider r r' \<longleftrightarrow>
     (opm_ID r = [] \<or> opm_ID r' = opm_ID r) \<and>
     opm_TenantID r' = opm_TenantID r \<and>
     opm_Name r' = opm_Name r \<and>
     opm_ClientID r' = opm_ClientID r \<and>
     opm_ClientSecret r' = opm_ClientSecret r \<and>
     opm_AuthURL r' = opm_AuthURL r \<and>
     opm_TokenURL r' = opm_TokenURL r \<and>
     opm_UserInfoURL r' = opm_UserInfoURL r \<and>
     opm_Scopes r' = opm_Scopes r \<and>
     opm_IssuerURL r' = opm_IssuerURL r \<and>
     opm_ProviderType r' = opm_ProviderType r \<and>
     (opm_Enabled r \<longrightarrow> opm_Enabled r')"

definition kept_oauth2_provider :: "oauth2ProviderModel \<Rightarrow> oauth2ProviderModel \<Rightarrow> bool" where
  "kept_oauth2_provider r r' \<longleftrightarrow>
     opm_ID r' = opm_ID r \<and>
     opm_TenantID r' = opm_TenantID r \<and>
     opm_Name r' = opm_Name r \<and>
     opm_ClientID r' = opm_ClientID r \<and>
     opm_ClientSecret r' = opm_ClientSecret r \<and>
     opm_AuthURL r' = opm_AuthURL r \<and>
     opm_TokenURL r' = opm_TokenURL r \<and>
     opm_UserInfoURL r' = opm_UserInfoURL r \<and>
     opm_Scopes r' = opm_Scopes r \<and>
     opm_IssuerURL r' = opm_IssuerURL r \<and>
     opm_ProviderType r' = opm_ProviderType r \<and>
     opm_Enabled r' = opm_Enabled r"

definition patch_oauth2_provider :: "oauth2ProviderModel \<Rightarrow> oauth2ProviderModel \<Rightarrow> oauth2ProviderModel" where
  "patch_oauth2_provider m r = r\<lparr>
     opm_ID := (if opm_ID m = [] then opm_ID r else opm_ID m),
     opm_TenantID := (if opm_TenantID m = [] then opm_TenantID r else opm_TenantID m),
     opm_Name := (if opm_Name m = [] then opm_Name r else opm_Name m),
     opm_ClientID := (if opm_ClientID m = [] then opm_ClientID r else opm_ClientID m),
     opm_ClientSecret := (if opm_ClientSecret m = [] then opm_ClientSecret r else opm_ClientSecret m),
     opm_AuthURL := (if opm_AuthURL m = [] then opm_AuthURL r else opm_AuthURL m),
     opm_TokenURL := (if opm_TokenURL m = [] then opm_TokenURL r else opm_TokenURL m),
     opm_UserInfoURL := (if opm_UserInfoURL m = [] then opm_UserInfoURL r else opm_UserInfoURL m),
     opm_Scopes := (if opm_Scopes m = [] then opm_Scopes r else opm_Scopes m),
     opm_IssuerURL := (if opm_IssuerURL m = [] then opm_IssuerURL r else opm_IssuerURL m),
     opm_ProviderType := (if opm_ProviderType m = [] then opm_ProviderType r else opm_ProviderType m),
     opm_Enabled := (opm_Enabled m \<or> opm_Enabled r)\<rparr>"

definition fill_oauth2_provider :: "nat \<Rightarrow> oauth2ProviderModel \<Rightarrow> oauth2ProviderModel" where
  "fill_oauth2_provider n r = r\<lparr>opm_ID := (if opm_ID r = [] then fresh_id n else opm_ID r),
     opm_Enabled := True\<rparr>"

lemmas row_oauth2_provider_defs = clash_oauth2_provider_def same_oauth2_provider_def kept_oauth2_provider_def patch_oauth2_provider_def fill_oauth2_provider_def

interpretation mem_oauth2_provider: mem_table fill_oauth2_provider clash_oauth2_provider same_oauth2_provider kept_oauth2_provider patch_oauth2_provider
  by unfold_locales (simp_all add: same_oauth2_provider_def kept_oauth2_provider_def fill_oauth2_provider_def)

text \<open>Table \<open>oauth2_states\<close>.\<close>

record oauth2StateModel =
  osm_ID :: string
  osm_State :: string
  osm_ProviderID :: string
  osm_TenantID :: string
  osm_RedirectURI :: string
  osm_CodeChallenge :: string
  osm_CodeChallengeMethod :: string
  osm_ExpiresAt :: time
  osm_CreatedAt :: time

definition clash_oauth2_state :: "oauth2StateModel \<Rightarrow> oauth2StateModel \<Rightarrow> bool" where
  "clash_oauth2_state x y \<longleftrightarrow> osm_ID x = osm_ID y \<or> osm_State x = osm_State y"

definition same_oauth2_state :: "oauth2StateModel \<Rightarrow> oauth2StateModel \<Rightarrow> bool" where
  "same_oauth2_state r r' \<longleftrightarrow>
     (osm_ID r = [] \<or> osm_ID r' = osm_ID r) \<and>
     osm_State r' = osm_State r \<and>
     osm_ProviderID r' = osm_ProviderID r \<and>
     osm_TenantID r' = osm_TenantID r \<and>
     osm_RedirectURI r' = osm_RedirectURI r \<and>
     osm_CodeChallenge r' = osm_CodeChallenge r \<and>
     osm_CodeChallengeMethod r' = osm_CodeChallengeMethod r \<and>
     osm_ExpiresAt r' = osm_ExpiresAt r"

definition kept_oauth2_state :: "oauth2StateModel \<Rightarrow> oauth2StateModel \<Rightarrow> bool" where
  "kept_oauth2_state r r' \<longleftrightarrow>
     osm_ID r' = osm_ID r \<and>
     osm_State r' = osm_State r \<and>
     osm_ProviderID r' = osm_ProviderID r \<and>
     osm_TenantID r' = osm_TenantID r \<and>
     osm_RedirectURI r' = osm_RedirectURI r \<and>
     osm_CodeChallenge r' = osm_CodeChallenge r \<and>
     osm_CodeChallengeMethod r' = osm_CodeChallengeMethod r \<and>
     osm_ExpiresAt r' = osm_ExpiresAt r"

definition patch_oauth2_state :: "oauth2StateModel \<Rightarrow> oauth2StateModel \<Rightarrow> oauth2StateModel" where
  "patch_oauth2_state m r = r\<lparr>
     osm_ID := (if osm_ID m = [] then osm_ID r else osm_ID m),
     osm_State := (if osm_State m = [] then osm_State r else osm_State m),
     osm_ProviderID := (if osm_ProviderID m = [] then osm_ProviderID r else osm_ProviderID m),
     osm_TenantID := (if osm_TenantID m = [] then osm_TenantID r else osm_TenantID m),
     osm_RedirectURI := (if osm_RedirectURI m = [] then osm_RedirectURI r else osm_RedirectURI m),
     osm_CodeChallenge := (if osm_CodeChallenge m = [] then osm_CodeChallenge r else osm_CodeChallenge m),
     osm_CodeChallengeMethod := (if osm_CodeChallengeMethod m = [] then osm_CodeChallengeMethod r else osm_CodeChallengeMethod m),
     osm_ExpiresAt := (if time_IsZero (osm_ExpiresAt m) then osm_ExpiresAt r else osm_ExpiresAt m)\<rparr>"

definition fill_oauth2_state :: "nat \<Rightarrow> oauth2StateModel \<Rightarrow> oauth2StateModel" where
  "fill_oauth2_state n r = r\<lparr>osm_ID := (if osm_ID r = [] then fresh_id n else osm_ID r)\<rparr>"

lemmas row_oauth2_state_defs = clash_oauth2_state_def same_oauth2_state_def kept_oauth2_state_def patch_oauth2_state_def fill_oauth2_state_def

interpretation mem_oauth2_state: mem_table fill_oauth2_state clash_oauth2_state same_oauth2_state kept_oauth2_state patch_oauth2_state
  by unfold_locales (simp_all add: same_oauth2_state_def kept_oauth2_state_def fill_oauth2_state_def)

text \<open>Table \<open>saml_providers\<close>.\<close>

record samlProviderModel =
  spm_ID :: string
  spm_TenantID :: string
  spm_Name :: string
  spm_EntityID :: string
  spm_SSOURL :: string
  spm_SLOURL :: string
  spm_X509Cert :: string
  spm_PrivateKey :: string
  spm_AttributeMapping :: string
  spm_Enabled :: bool
  spm_CreatedAt :: time
  spm_UpdatedAt :: time

definition clash_saml_provider :: "samlProviderModel \<Rightarrow> samlProviderModel \<Rightarrow> bool" where
  "clash_saml_provider x y \<longleftrightarrow> spm_ID x = spm_ID y"

definition same_saml_provider :: "samlProviderModel \<Rightarrow> samlProviderModel \<Rightarrow> bool" where
  "same_saml_provider r r' \<longleftrightarrow>
     (spm_ID r = [] \<or> spm_ID r' = spm_ID r) \<and>
     spm_TenantID r' = spm_TenantID r \<and>
     spm_Name r' = spm_Name r \<and>
     spm_EntityID r' = spm_EntityID r \<and>
     spm_SSOURL r' = spm_SSOURL r \<and>
     spm_SLOURL r' = spm_SLOURL r \<and>
     spm_X509Cert r' = spm_X509Cert r \<and>
     spm_PrivateKey r' = spm_PrivateKey r \<and>
     spm_AttributeMapping r' = spm_AttributeMapping r \<and>
     (spm_Enabled r \<longrightarrow> spm_Enabled r')"

definition kept_saml_provider :: "samlProviderModel \<Rightarrow> samlProviderModel \<Rightarrow> bool" where
  "kept_saml_provider r r' \<longleftrightarrow>
     spm_ID r' = spm_ID r \<and>
     spm_TenantID r' = spm_TenantID r \<and>
     spm_Name r' = spm_Name r \<and>
     spm_EntityID r' = spm_EntityID r \<and>
     spm_SSOURL r' = spm_SSOURL r \<and>
     spm_SLOURL r' = spm_SLOURL r \<and>
     spm_X509Cert r' = spm_X509Cert r \<and>
     spm_PrivateKey r' = spm_PrivateKey r \<and>
     spm_AttributeMapping r' = spm_AttributeMapping r \<and>
     spm_Enabled r' = spm_Enabled r"

definition patch_saml_provider :: "samlProviderModel \<Rightarrow> samlProviderModel \<Rightarrow> samlProviderModel" where
  "patch_saml_provider m r = r\<lparr>
     spm_ID := (if spm_ID m = [] then spm_ID r else spm_ID m),
     spm_TenantID := (if spm_TenantID m = [] then spm_TenantID r else spm_TenantID m),
     spm_Name := (if spm_Name m = [] then spm_Name r else spm_Name m),
     spm_EntityID := (if spm_EntityID m = [] then spm_EntityID r else spm_EntityID m),
     spm_SSOURL := (if spm_SSOURL m = [] then spm_SSOURL r else spm_SSOURL m),
     spm_SLOURL := (if spm_SLOURL m = [] then spm_SLOURL r else spm_SLOURL m),
     spm_X509Cert := (if spm_X509Cert m = [] then spm_X509Cert r else spm_X509Cert m),
     spm_PrivateKey := (if spm_PrivateKey m = [] then spm_PrivateKey r else spm_PrivateKey m),
     spm_AttributeMapping := (if spm_AttributeMapping m = [] then spm_AttributeMapping r else spm_AttributeMapping m),
     spm_Enabled := (spm_Enabled m \<or> spm_Enabled r)\<rparr>"

definition fill_saml_provider :: "nat \<Rightarrow> samlProviderModel \<Rightarrow> samlProviderModel" where
  "fill_saml_provider n r = r\<lparr>spm_ID := (if spm_ID r = [] then fresh_id n else spm_ID r),
     spm_Enabled := True\<rparr>"

lemmas row_saml_provider_defs = clash_saml_provider_def same_saml_provider_def kept_saml_provider_def patch_saml_provider_def fill_saml_provider_def

interpretation mem_saml_provider: mem_table fill_saml_provider clash_saml_provider same_saml_provider kept_saml_provider patch_saml_provider
  by unfold_locales (simp_all add: same_saml_provider_def kept_saml_provider_def fill_saml_provider_def)

text \<open>Table \<open>webauthn_credentials\<close>.\<close>

record webAuthnCredentialModel =
  wam_ID :: string
  wam_UserID :: string
  wam_TenantID :: string
  wam_CredentialID :: string
  wam_PublicKey :: string
  wam_AttestationType :: string
  wam_Transport :: string
  wam_SignCount :: "32 word"
  wam_DeviceName :: string
  wam_CreatedAt :: time
  wam_LastUsedAt :: "time option"

definition clash_webauthn :: "webAuthnCredentialModel \<Rightarrow> webAuthnCredentialModel \<Rightarrow> bool" where
  "clash_webauthn x y \<longleftrightarrow> wam_ID x = wam_ID y \<or> wam_CredentialID x = wam_CredentialID y"

definition same_webauthn :: "webAuthnCredentialModel \<Rightarrow> webAuthnCredentialModel \<Rightarrow> bool" where
  "same_webauthn r r' \<longleftrightarrow>
     (wam_ID r = [] \<or> wam_ID r' = wam_ID r) \<and>
     wam_UserID r' = wam_UserID r \<and>
     wam_TenantID r' = wam_TenantID r \<and>
     wam_CredentialID r' = wam_CredentialID r \<and>
     wam_PublicKey r' = wam_PublicKey r \<and>
     wam_AttestationType r' = wam_AttestationType r \<and>
     wam_Transport r' = wam_Transport r \<and>
     wam_SignCount r' = wam_SignCount r \<and>
     wam_DeviceName r' = wam_DeviceName r \<and>
     wam_LastUsedAt r' = wam_LastUsedAt r"

definition kept_webauthn :: "webAuthnCredentialModel \<Rightarrow> webAuthnCredentialModel \<Rightarrow> bool" where
  "kept_webauthn r r' \<longleftrightarrow>
     wam_ID r' = wam_ID r \<and>
     wam_UserID r' = wam_UserID r \<and>
     wam_TenantID r' = wam_TenantID r \<and>
     wam_CredentialID r' = wam_CredentialID r \<and>
     wam_PublicKey r' = wam_PublicKey r \<and>
     wam_AttestationType r' = wam_AttestationType r \<and>
     wam_Transport r' = wam_Transport r \<and>
     wam_SignCount r' = wam_SignCount r \<and>
     wam_DeviceName r' = wam_DeviceName r \<and>
     wam_LastUsedAt r' = wam_LastUsedAt r"

definition patch_webauthn :: "webAuthnCredentialModel \<Rightarrow> webAuthnCredentialModel \<Rightarrow> webAuthnCredentialModel" where
  "patch_webauthn m r = r\<lparr>
     wam_ID := (if wam_ID m = [] then wam_ID r else wam_ID m),
     wam_UserID := (if wam_UserID m = [] then wam_UserID r else wam_UserID m),
     wam_TenantID := (if wam_TenantID m = [] then wam_TenantID r else wam_TenantID m),
     wam_CredentialID := (if wam_CredentialID m = [] then wam_CredentialID r else wam_CredentialID m),
     wam_PublicKey := (if wam_PublicKey m = [] then wam_PublicKey r else wam_PublicKey m),
     wam_AttestationType := (if wam_AttestationType m = [] then wam_AttestationType r else wam_AttestationType m),
     wam_Transport := (if wam_Transport m = [] then wam_Transport r else wam_Transport m),
     wam_SignCount := (if wam_SignCount m = 0 then wam_SignCount r else wam_SignCount m),
     wam_DeviceName := (if wam_DeviceName m = [] then wam_DeviceName r else wam_DeviceName m),
     wam_LastUsedAt := (if wam_LastUsedAt m = None then wam_LastUsedAt r else wam_LastUsedAt m)\<rparr>"

definition fill_webauthn :: "nat \<Rightarrow> webAuthnCredentialModel \<Rightarrow> webAuthnCredentialModel" where
  "fill_webauthn n r = r\<lparr>wam_ID := (if wam_ID r = [] then fresh_id n else wam_ID r)\<rparr>"

lemmas row_webauthn_defs = clash_webauthn_def same_webauthn_def kept_webauthn_def patch_webauthn_def fill_webauthn_def

interpretation mem_webauthn: mem_table fill_webauthn clash_webauthn same_webauthn kept_webauthn patch_webauthn
  by unfold_locales (simp_all add: same_webauthn_def kept_webauthn_def fill_webauthn_def)

text \<open>Table \<open>audit_exports\<close>.\<close>

record auditExportModel =
  aem_RequestID :: string
  aem_UserID :: string
  aem_TenantID :: string
  aem_Email :: string
  aem_Data :: string
  aem_Status :: string
  aem_CreatedAt :: time
  aem_ExpiresAt :: time

definition clash_audit_export :: "auditExportModel \<Rightarrow> auditExportModel \<Rightarrow> bool" where
  "clash_audit_export x y \<longleftrightarrow> aem_RequestID x = aem_RequestID y"

definition same_audit_export :: "auditExportModel \<Rightarrow> auditExportModel \<Rightarrow> bool" where
  "same_audit_export r r' \<longleftrightarrow>
     (aem_RequestID r = [] \<or> aem_RequestID r' = aem_RequestID r) \<and>
     aem_UserID r' = aem_UserID r \<and>
     aem_TenantID r' = aem_TenantID r \<and>
     aem_Email r' = aem_Email r \<and>
     aem_Data r' = aem_Data r \<and>
     (aem_Status r' = aem_Status r \<or> aem_Status r = [] \<and> aem_Status r' = ''pending'') \<and>
     aem_ExpiresAt r' = aem_ExpiresAt r"

definition kept_audit_export :: "auditExportModel \<Rightarrow> auditExportModel \<Rightarrow> bool" where
  "kept_audit_export r r' \<longleftrightarrow>
     aem_RequestID r' = aem_RequestID r \<and>
     aem_UserID r' = aem_UserID r \<and>
     aem_TenantID r' = aem_TenantID r \<and>
     aem_Email r' = aem_Email r \<and>
     aem_Data r' = aem_Data r \<and>
     aem_Status r' = aem_Status r \<and>
     aem_ExpiresAt r' = aem_ExpiresAt r"

definition patch_audit_export :: "auditExportModel \<Rightarrow> auditExportModel \<Rightarrow> auditExportModel" where
  "patch_audit_export m r = r\<lparr>
     aem_RequestID := (if aem_RequestID m = [] then aem_RequestID r else aem_RequestID m),
     aem_UserID := (if aem_UserID m = [] then aem_UserID r else aem_UserID m),
     aem_TenantID := (if aem_TenantID m = [] then aem_TenantID r else aem_TenantID m),
     aem_Email := (if aem_Email m = [] then aem_Email r else aem_Email m),
     aem_Data := (if aem_Data m = [] then aem_Data r else aem_Data m),
     aem_Status := (if aem_Status m = [] then aem_Status r else aem_Status m),
     aem_ExpiresAt := (if time_IsZero (aem_ExpiresAt m) then aem_ExpiresAt r else aem_ExpiresAt m)\<rparr>"

definition fill_audit_export :: "nat \<Rightarrow> auditExportModel \<Rightarrow> auditExportModel" where
  "fill_audit_export n r = r\<lparr>aem_RequestID := (if aem_RequestID r = [] then fresh_id n else aem_RequestID r),
     aem_Status := (if aem_Status r = [] then ''pending'' else aem_Status r)\<rparr>"

lemmas row_audit_export_defs = clash_audit_export_def same_audit_export_def kept_audit_export_def patch_audit_export_def fill_audit_export_def

interpretation mem_audit_export: mem_table fill_audit_export clash_audit_export same_audit_export kept_audit_export patch_audit_export
  by unfold_locales (simp_all add: same_audit_export_def kept_audit_export_def fill_audit_export_def)

text \<open>The database: one list of rows per table.\<close>

record db =
  t_users :: "userModel list"
  t_tenants :: "tenantModel list"
  t_memberships :: "membershipModel list"
  t_teams :: "teamModel list"
  t_team_memberships :: "teamMembershipModel list"
  t_acl_permissions :: "aclModel list"
  t_role_permissions :: "rolePermissionModel list"
  t_permissions :: "permissionModel list"
  t_policies :: "policyModel list"
  t_magic_links :: "magicLinkModel list"
  t_password_policies :: "passwordPolicyModel list"
  t_failed_login_attempts :: "failedLoginAttemptModel list"
  t_password_reset_tokens :: "passwordResetTokenModel list"
  t_email_verification_tokens :: "emailVerificationTokenModel list"
  t_oauth2_clients :: "oauth2ClientModel list"
  t_oauth2_auth_codes :: "oauth2AuthCodeModel list"
  t_oauth2_consents :: "oauth2ConsentModel list"
  t_signing_keys :: "signingKeyModel list"
  t_mfa_methods :: "mfaMethodModel list"
  t_audit_logs :: "auditLogModel list"
  t_oauth2_providers :: "oauth2ProviderModel list"
  t_oauth2_states :: "oauth2StateModel list"
  t_saml_providers :: "samlProviderModel list"
  t_webauthn_credentials :: "webAuthnCredentialModel list"
  t_audit_exports :: "auditExportModel list"

definition empty_db :: db where
  "empty_db = \<lparr>t_users = [], t_tenants = [], t_memberships = [], t_teams = [], t_team_memberships = [], t_acl_permissions = [], t_role_permissions = [], t_permissions = [], t_policies = [], t_magic_links = [], t_password_policies = [], t_failed_login_attempts = [], t_password_reset_tokens = [], t_email_verification_tokens = [], t_oauth2_clients = [], t_oauth2_auth_codes = [], t_oauth2_consents = [], t_signing_keys = [], t_mfa_methods = [], t_audit_logs = [], t_oauth2_providers = [], t_oauth2_states = [], t_saml_providers = [], t_webauthn_credentials = [], t_audit_exports = []\<rparr>"

end
