(* ===== verification/Database.thy ===== *)
theory Database
  imports ModelsFed
begin

text \<open>
  The mapper's calls on every table, as one parameter \<open>G :: gorms\<close> of the repositories, and
  the locale \<open>database\<close>: on each table the calls obey the laws of \<open>gorm_table\<close>. Properties that
  need the database assume \<open>database G\<close>; \<open>mem_gorms\<close> is the executable instance.
\<close>

record gorms =
  gorm_users :: "userModel gorm"
  gorm_tenants :: "tenantModel gorm"
  gorm_memberships :: "membershipModel gorm"
  gorm_teams :: "teamModel gorm"
  gorm_team_memberships :: "teamMembershipModel gorm"
  gorm_acl_permissions :: "aclModel gorm"
  gorm_role_permissions :: "rolePermissionModel gorm"
  gorm_permissions :: "permissionModel gorm"
  gorm_policies :: "policyModel gorm"
  gorm_magic_links :: "magicLinkModel gorm"
  gorm_password_policies :: "passwordPolicyModel gorm"
  gorm_failed_login_attempts :: "failedLoginAttemptModel gorm"
  gorm_password_reset_tokens :: "passwordResetTokenModel gorm"
  gorm_email_verification_tokens :: "emailVerificationTokenModel gorm"
  gorm_oauth2_clients :: "oauth2ClientModel gorm"
  gorm_oauth2_auth_codes :: "oauth2AuthCodeModel gorm"
  gorm_oauth2_consents :: "oauth2ConsentModel gorm"
  gorm_signing_keys :: "signingKeyModel gorm"
  gorm_mfa_methods :: "mfaMethodModel gorm"
  gorm_audit_logs :: "auditLogModel gorm"
  gorm_oauth2_providers :: "oauth2ProviderModel gorm"
  gorm_oauth2_states :: "oauth2StateModel gorm"
  gorm_saml_providers :: "samlProviderModel gorm"
  gorm_webauthn_credentials :: "webAuthnCredentialModel gorm"
  gorm_audit_exports :: "auditExportModel gorm"

locale database =
  fixes G :: gorms
  assumes user_table: "gorm_table (gorm_users G) clash_user same_user kept_user patch_user"
    and tenant_table: "gorm_table (gorm_tenants G) clash_tenant same_tenant kept_tenant patch_tenant"
    and membership_table: "gorm_table (gorm_memberships G) clash_membership same_membership kept_membership patch_membership"
    and team_table: "gorm_table (gorm_teams G) clash_team same_team kept_team patch_team"
    and team_membership_table: "gorm_table (gorm_team_memberships G) clash_team_membership same_team_membership kept_team_membership patch_team_membership"
    and acl_table: "gorm_table (gorm_acl_permissions G) clash_acl same_acl kept_acl patch_acl"
    and role_permission_table: "gorm_table (gorm_role_permissions G) clash_role_permission same_role_permission kept_role_permission patch_role_permission"
    and permission_table: "gorm_table (gorm_permissions G) clash_permission same_permission kept_permission patch_permission"
    and policy_table: "gorm_table (gorm_policies G) clash_policy same_policy kept_policy patch_policy"
    and magic_link_table: "gorm_table (gorm_magic_links G) clash_magic_link same_magic_link kept_magic_link patch_magic_link"
    and password_policy_table: "gorm_table (gorm_password_policies G) clash_password_policy same_password_policy kept_password_policy patch_password_policy"
    and failed_login_table: "gorm_table (gorm_failed_login_attempts G) clash_failed_login same_failed_login kept_failed_login patch_failed_login"
    and password_reset_table: "gorm_table (gorm_password_reset_tokens G) clash_password_reset same_password_reset kept_password_reset patch_password_reset"
    and email_verification_table: "gorm_table (gorm_email_verification_tokens G) clash_email_verification same_email_verification kept_email_verification patch_email_verification"
    and oauth2_client_table: "gorm_table (gorm_oauth2_clients G) clash_oauth2_client same_oauth2_client kept_oauth2_client patch_oauth2_client"
    and oauth2_auth_code_table: "gorm_table (gorm_oauth2_auth_codes G) clash_oauth2_auth_code same_oauth2_auth_code kept_oauth2_auth_code patch_oauth2_auth_code"
    and oauth2_consent_table: "gorm_table (gorm_oauth2_consents G) clash_oauth2_consent same_oauth2_consent kept_oauth2_consent patch_oauth2_consent"
    and signing_key_table: "gorm_table (gorm_signing_keys G) clash_signing_key same_signing_key kept_signing_key patch_signing_key"
    and mfa_method_table: "gorm_table (gorm_mfa_methods G) clash_mfa_method same_mfa_method kept_mfa_method patch_mfa_method"
    and audit_log_table: "gorm_table (gorm_audit_logs G) clash_audit_log same_audit_log kept_audit_log patch_audit_log"
    and oauth2_provider_table: "gorm_table (gorm_oauth2_providers G) clash_oauth2_provider same_oauth2_provider kept_oauth2_provider patch_oauth2_provider"
    and oauth2_state_table: "gorm_table (gorm_oauth2_states G) clash_oauth2_state same_oauth2_state kept_oauth2_state patch_oauth2_state"
    and saml_provider_table: "gorm_table (gorm_saml_providers G) clash_saml_provider same_saml_provider kept_saml_provider patch_saml_provider"
    and webauthn_table: "gorm_table (gorm_webauthn_credentials G) clash_webauthn same_webauthn kept_webauthn patch_webauthn"
    and audit_export_table: "gorm_table (gorm_audit_exports G) clash_audit_export same_audit_export kept_audit_export patch_audit_export"

sublocale database \<subseteq> user: gorm_table "gorm_users G" clash_user same_user kept_user patch_user
  by (fact user_table)

sublocale database \<subseteq> tenant: gorm_table "gorm_tenants G" clash_tenant same_tenant kept_tenant patch_tenant
  by (fact tenant_table)

sublocale database \<subseteq> membership: gorm_table "gorm_memberships G" clash_membership same_membership kept_membership patch_membership
  by (fact membership_table)

sublocale database \<subseteq> team: gorm_table "gorm_teams G" clash_team same_team kept_team patch_team
  by (fact team_table)

sublocale database \<subseteq> team_membership: gorm_table "gorm_team_memberships G" clash_team_membership same_team_membership kept_team_membership patch_team_membership
  by (fact team_membership_table)

sublocale database \<subseteq> acl: gorm_table "gorm_acl_permissions G" clash_acl same_acl kept_acl patch_acl
  by (fact acl_table)

sublocale database \<subseteq> role_permission: gorm_table "gorm_role_permissions G" clash_role_permission same_role_permission kept_role_permission patch_role_permission
  by (fact role_permission_table)

sublocale database \<subseteq> permission: gorm_table "gorm_permissions G" clash_permission same_permission kept_permission patch_permission
  by (fact permission_table)

sublocale database \<subseteq> policy: gorm_table "gorm_policies G" clash_policy same_policy kept_policy patch_policy
  by (fact policy_table)

sublocale database \<subseteq> magic_link: gorm_table "gorm_magic_links G" clash_magic_link same_magic_link kept_magic_link patch_magic_link
  by (fact magic_link_table)

sublocale database \<subseteq> password_policy: gorm_table "gorm_password_policies G" clash_password_policy same_password_policy kept_password_policy patch_password_policy
  by (fact password_policy_table)

sublocale database \<subseteq> failed_login: gorm_table "gorm_failed_login_attempts G" clash_failed_login same_failed_login kept_failed_login patch_failed_login
  by (fact failed_login_table)

sublocale database \<subseteq> password_reset: gorm_table "gorm_password_reset_tokens G" clash_password_reset same_password_reset kept_password_reset patch_password_reset
  by (fact password_reset_table)

sublocale database \<subseteq> email_verification: gorm_table "gorm_email_verification_tokens G" clash_email_verification same_email_verification kept_email_verification patch_email_verification
  by (fact email_verification_table)

sublocale database \<subseteq> oauth2_client: gorm_table "gorm_oauth2_clients G" clash_oauth2_client same_oauth2_client kept_oauth2_client patch_oauth2_client
  by (fact oauth2_client_table)

sublocale database \<subseteq> oauth2_auth_code: gorm_table "gorm_oauth2_auth_codes G" clash_oauth2_auth_code same_oauth2_auth_code kept_oauth2_auth_code patch_oauth2_auth_code
  by (fact oauth2_auth_code_table)

sublocale database \<subseteq> oauth2_consent: gorm_table "gorm_oauth2_consents G" clash_oauth2_consent same_oauth2_consent kept_oauth2_consent patch_oauth2_consent
  by (fact oauth2_consent_table)

sublocale database \<subseteq> signing_key: gorm_table "gorm_signing_keys G" clash_signing_key same_signing_key kept_signing_key patch_signing_key
  by (fact signing_key_table)

sublocale database \<subseteq> mfa_method: gorm_table "gorm_mfa_methods G" clash_mfa_method same_mfa_method kept_mfa_method patch_mfa_method
  by (fact mfa_method_table)

sublocale database \<subseteq> audit_log: gorm_table "gorm_audit_logs G" clash_audit_log same_audit_log kept_audit_log patch_audit_log
  by (fact audit_log_table)

sublocale database \<subseteq> oauth2_provider: gorm_table "gorm_oauth2_providers G" clash_oauth2_provider same_oauth2_provider kept_oauth2_provider patch_oauth2_provider
  by (fact oauth2_provider_table)

sublocale database \<subseteq> oauth2_state: gorm_table "gorm_oauth2_states G" clash_oauth2_state same_oauth2_state kept_oauth2_state patch_oauth2_state
  by (fact oauth2_state_table)

sublocale database \<subseteq> saml_provider: gorm_table "gorm_saml_providers G" clash_saml_provider same_saml_provider kept_saml_provider patch_saml_provider
  by (fact saml_provider_table)

sublocale database \<subseteq> webauthn: gorm_table "gorm_webauthn_credentials G" clash_webauthn same_webauthn kept_webauthn patch_webauthn
  by (fact webauthn_table)

sublocale database \<subseteq> audit_export: gorm_table "gorm_audit_exports G" clash_audit_export same_audit_export kept_audit_export patch_audit_export
  by (fact audit_export_table)

definition mem_gorms :: gorms where
  "mem_gorms = \<lparr>
     gorm_users = mem_gorm fill_user clash_user patch_user,
     gorm_tenants = mem_gorm fill_tenant clash_tenant patch_tenant,
     gorm_memberships = mem_gorm fill_membership clash_membership patch_membership,
     gorm_teams = mem_gorm fill_team clash_team patch_team,
     gorm_team_memberships = mem_gorm fill_team_membership clash_team_membership patch_team_membership,
     gorm_acl_permissions = mem_gorm fill_acl clash_acl patch_acl,
     gorm_role_permissions = mem_gorm fill_role_permission clash_role_permission patch_role_permission,
     gorm_permissions = mem_gorm fill_permission clash_permission patch_permission,
     gorm_policies = mem_gorm fill_policy clash_policy patch_policy,
     gorm_magic_links = mem_gorm fill_magic_link clash_magic_link patch_magic_link,
     gorm_password_policies = mem_gorm fill_password_policy clash_password_policy patch_password_policy,
     gorm_failed_login_attempts = mem_gorm fill_failed_login clash_failed_login patch_failed_login,
     gorm_password_reset_tokens = mem_gorm fill_password_reset clash_password_reset patch_password_reset,
     gorm_email_verification_tokens = mem_gorm fill_email_verification clash_email_verification patch_email_verification,
     gorm_oauth2_clients = mem_gorm fill_oauth2_client clash_oauth2_client patch_oauth2_client,
     gorm_oauth2_auth_codes = mem_gorm fill_oauth2_auth_code clash_oauth2_auth_code patch_oauth2_auth_code,
     gorm_oauth2_consents = mem_gorm fill_oauth2_consent clash_oauth2_consent patch_oauth2_consent,
     gorm_signing_keys = mem_gorm fill_signing_key clash_signing_key patch_signing_key,
     gorm_mfa_methods = mem_gorm fill_mfa_method clash_mfa_method patch_mfa_method,
     gorm_audit_logs = mem_gorm fill_audit_log clash_audit_log patch_audit_log,
     gorm_oauth2_providers = mem_gorm fill_oauth2_provider clash_oauth2_provider patch_oauth2_provider,
     gorm_oauth2_states = mem_gorm fill_oauth2_state clash_oauth2_state patch_oauth2_state,
     gorm_saml_providers = mem_gorm fill_saml_provider clash_saml_provider patch_saml_provider,
     gorm_webauthn_credentials = mem_gorm fill_webauthn clash_webauthn patch_webauthn,
     gorm_audit_exports = mem_gorm fill_audit_export clash_audit_export patch_audit_export\<rparr>"

text \<open>The executable database satisfies the laws.\<close>

interpretation mem: database mem_gorms
  unfolding database_def mem_gorms_def gorms.simps
  by (intro conjI mem_user.gorm_table_axioms
      mem_tenant.gorm_table_axioms
      mem_membership.gorm_table_axioms
      mem_team.gorm_table_axioms
      mem_team_membership.gorm_table_axioms
      mem_acl.gorm_table_axioms
      mem_role_permission.gorm_table_axioms
      mem_permission.gorm_table_axioms
      mem_policy.gorm_table_axioms
      mem_magic_link.gorm_table_axioms
      mem_password_policy.gorm_table_axioms
      mem_failed_login.gorm_table_axioms
      mem_password_reset.gorm_table_axioms
      mem_email_verification.gorm_table_axioms
      mem_oauth2_client.gorm_table_axioms
      mem_oauth2_auth_code.gorm_table_axioms
      mem_oauth2_consent.gorm_table_axioms
      mem_signing_key.gorm_table_axioms
      mem_mfa_method.gorm_table_axioms
      mem_audit_log.gorm_table_axioms
      mem_oauth2_provider.gorm_table_axioms
      mem_oauth2_state.gorm_table_axioms
      mem_saml_provider.gorm_table_axioms
      mem_webauthn.gorm_table_axioms
      mem_audit_export.gorm_table_axioms)

lemmas mem_database = mem.database_axioms

text \<open>
  A database that does not fail for reasons of its own when identity is read: \<open>First\<close> only misses,
  \<open>Find\<close> succeeds.
\<close>

locale reliable_database = database +
  assumes user_First_total: "g_First (gorm_users G) P t = Inl e \<Longrightarrow> e = gorm_ErrRecordNotFound"
    and tenant_First_total: "g_First (gorm_tenants G) Q u = Inl e \<Longrightarrow> e = gorm_ErrRecordNotFound"
    and membership_First_total: "g_First (gorm_memberships G) R v = Inl e \<Longrightarrow> e = gorm_ErrRecordNotFound"
    and team_membership_Find_total: "\<exists>rs. g_Find (gorm_team_memberships G) S x = Inr rs"

interpretation mem: reliable_database mem_gorms
  by unfold_locales (auto simp: mem_gorms_def mem_gorm_def find_first_def split: list.splits)

lemmas mem_reliable = mem.reliable_database_axioms

end
