(* ===== verification/RepoIdentity.thy ===== *)
theory RepoIdentity
  imports Database Contracts
begin

text \<open>
  The repositories of identity over the database: user_repository.go, tenant_repository.go,
  membership_repository.go and team_repository.go (package \<open>repository\<close>). An operation takes the
  mapper \<open>G\<close> and the database; \<open>New...Repository G\<close> is the interface record the services
  receive. A role list is one comma-separated column.
\<close>

section \<open>Users\<close>

definition toUserModel :: "User \<Rightarrow> userModel" where [conv_simps]:
  "toUserModel u = \<lparr>um_ID = user_ID u, um_Email = user_Email u, um_PasswordHash = user_PasswordHash u,
     um_CreatedAt = zero_time, um_UpdatedAt = zero_time\<rparr>"

definition fromUserModel :: "userModel \<Rightarrow> User" where [conv_simps]:
  "fromUserModel m = \<lparr>user_ID = um_ID m, user_Email = um_Email m, user_PasswordHash = um_PasswordHash m,
     user_CreatedAt = um_CreatedAt m, user_UpdatedAt = um_UpdatedAt m\<rparr>"

definition userRepository_Create :: "gorms \<Rightarrow> User \<Rightarrow> db \<Rightarrow> (err + User) \<times> db" where [repo_simps]:
  "userRepository_Create G user d =
     (case g_Create (gorm_users G) (toUserModel user) (t_users d) of
        (Inl e, t) \<Rightarrow>
          (Inl (if e = gorm_ErrDuplicatedKey then IdErr ErrUserAlreadyExists else GormErr e), d\<lparr>t_users := t\<rparr>)
      | (Inr m, t) \<Rightarrow>
          (Inr (user\<lparr>user_ID := um_ID m, user_CreatedAt := um_CreatedAt m, user_UpdatedAt := um_UpdatedAt m\<rparr>),
           d\<lparr>t_users := t\<rparr>))"

definition userRepository_FindByEmail :: "gorms \<Rightarrow> string \<Rightarrow> db \<Rightarrow> err + User" where [repo_simps]:
  "userRepository_FindByEmail G email d =
     (case g_First (gorm_users G) (\<lambda>m. um_Email m = email) (t_users d) of
        Inl e \<Rightarrow> Inl (if e = gorm_ErrRecordNotFound then IdErr ErrUserNotFound else GormErr e)
      | Inr m \<Rightarrow> Inr (fromUserModel m))"

definition userRepository_FindByID :: "gorms \<Rightarrow> string \<Rightarrow> db \<Rightarrow> err + User" where [repo_simps]:
  "userRepository_FindByID G uid d =
     (case g_First (gorm_users G) (\<lambda>m. um_ID m = uid) (t_users d) of
        Inl e \<Rightarrow> Inl (if e = gorm_ErrRecordNotFound then IdErr ErrUserNotFound else GormErr e)
      | Inr m \<Rightarrow> Inr (fromUserModel m))"

definition NewUserRepository :: "gorms \<Rightarrow> db UserRepository" where
  "NewUserRepository G = \<lparr>
     UserRepository_Create = userRepository_Create G,
     UserRepository_FindByEmail = userRepository_FindByEmail G,
     UserRepository_FindByID = userRepository_FindByID G\<rparr>"

section \<open>Tenants\<close>

definition fromTenantModel :: "tenantModel \<Rightarrow> Tenant" where [conv_simps]:
  "fromTenantModel m = \<lparr>tenant_ID = tnm_ID m, tenant_Name = tnm_Name m, tenant_Slug = tnm_Slug m,
     tenant_Status = tnm_Status m, tenant_CreatedAt = tnm_CreatedAt m, tenant_UpdatedAt = tnm_UpdatedAt m\<rparr>"

definition tenantRepository_Create :: "gorms \<Rightarrow> Tenant \<Rightarrow> db \<Rightarrow> (err + Tenant) \<times> db" where [repo_simps]:
  "tenantRepository_Create G tenant d =
     (let tenant = (if tenant_Status tenant = [] then tenant\<lparr>tenant_Status := TenantStatusActive\<rparr> else tenant);
          m = \<lparr>tnm_ID = tenant_ID tenant, tnm_Name = tenant_Name tenant, tnm_Slug = tenant_Slug tenant,
               tnm_Status = tenant_Status tenant, tnm_CreatedAt = zero_time, tnm_UpdatedAt = zero_time\<rparr>
      in case g_Create (gorm_tenants G) m (t_tenants d) of
           (Inl e, t) \<Rightarrow>
             (Inl (if e = gorm_ErrDuplicatedKey then IdErr ErrTenantAlreadyExists else GormErr e),
              d\<lparr>t_tenants := t\<rparr>)
         | (Inr m', t) \<Rightarrow>
             (Inr (tenant\<lparr>tenant_ID := tnm_ID m', tenant_CreatedAt := tnm_CreatedAt m',
                          tenant_UpdatedAt := tnm_UpdatedAt m'\<rparr>),
              d\<lparr>t_tenants := t\<rparr>))"

definition tenantRepository_FindByID :: "gorms \<Rightarrow> string \<Rightarrow> db \<Rightarrow> err + Tenant" where [repo_simps]:
  "tenantRepository_FindByID G uid d =
     (case g_First (gorm_tenants G) (\<lambda>m. tnm_ID m = uid) (t_tenants d) of
        Inl e \<Rightarrow> Inl (if e = gorm_ErrRecordNotFound then IdErr ErrTenantNotFound else GormErr e)
      | Inr m \<Rightarrow> Inr (fromTenantModel m))"

definition tenantRepository_FindBySlug :: "gorms \<Rightarrow> string \<Rightarrow> db \<Rightarrow> err + Tenant" where [repo_simps]:
  "tenantRepository_FindBySlug G slug d =
     (case g_First (gorm_tenants G) (\<lambda>m. tnm_Slug m = slug) (t_tenants d) of
        Inl e \<Rightarrow> Inl (if e = gorm_ErrRecordNotFound then IdErr ErrTenantNotFound else GormErr e)
      | Inr m \<Rightarrow> Inr (fromTenantModel m))"

definition tenantRepository_UpdateStatus ::
    "gorms \<Rightarrow> string \<Rightarrow> TenantStatus \<Rightarrow> db \<Rightarrow> (err + unit) \<times> db" where [repo_simps]:
  "tenantRepository_UpdateStatus G uid status d =
     (case g_Update (gorm_tenants G) (\<lambda>m. tnm_ID m = uid) (\<lambda>m. m\<lparr>tnm_Status := status\<rparr>) (t_tenants d) of
        (Inl e, t) \<Rightarrow> (Inl (GormErr e), d\<lparr>t_tenants := t\<rparr>)
      | (Inr n, t) \<Rightarrow> (if n = 0 then Inl (IdErr ErrTenantNotFound) else Inr (), d\<lparr>t_tenants := t\<rparr>))"

definition tenantRepository_Delete :: "gorms \<Rightarrow> string \<Rightarrow> db \<Rightarrow> (err + unit) \<times> db" where [repo_simps]:
  "tenantRepository_Delete G uid d =
     (case g_Delete (gorm_tenants G) (\<lambda>m. tnm_ID m = uid) (t_tenants d) of
        (Inl e, t) \<Rightarrow> (Inl (GormErr e), d\<lparr>t_tenants := t\<rparr>)
      | (Inr n, t) \<Rightarrow> (if n = 0 then Inl (IdErr ErrTenantNotFound) else Inr (), d\<lparr>t_tenants := t\<rparr>))"

definition NewTenantRepository :: "gorms \<Rightarrow> db TenantRepository" where
  "NewTenantRepository G = \<lparr>
     TenantRepository_Create = tenantRepository_Create G,
     TenantRepository_FindByID = tenantRepository_FindByID G,
     TenantRepository_FindBySlug = tenantRepository_FindBySlug G,
     TenantRepository_UpdateStatus = tenantRepository_UpdateStatus G,
     TenantRepository_Delete = tenantRepository_Delete G\<rparr>"

section \<open>Memberships\<close>

definition toMembershipModel :: "Membership \<Rightarrow> membershipModel" where [conv_simps]:
  "toMembershipModel m = \<lparr>mm_UserID = mem_UserID m, mm_TenantID = mem_TenantID m,
     mm_Roles = strings_Join (mem_Roles m) '','', mm_CreatedAt = zero_time, mm_UpdatedAt = zero_time\<rparr>"

definition fromMembershipModel :: "membershipModel \<Rightarrow> Membership" where [conv_simps]:
  "fromMembershipModel m = \<lparr>mem_UserID = mm_UserID m, mem_TenantID = mm_TenantID m,
     mem_Roles = (if mm_Roles m \<noteq> [] then strings_Split (mm_Roles m) (CHR '','') else []),
     mem_CreatedAt = mm_CreatedAt m, mem_UpdatedAt = mm_UpdatedAt m\<rparr>"

definition membershipRepository_Create ::
    "gorms \<Rightarrow> Membership \<Rightarrow> db \<Rightarrow> (err + Membership) \<times> db" where [repo_simps]:
  "membershipRepository_Create G membership d =
     (case g_Create (gorm_memberships G) (toMembershipModel membership) (t_memberships d) of
        (Inl e, t) \<Rightarrow>
          (Inl (if e = gorm_ErrDuplicatedKey then IdErr ErrMembershipAlreadyExists else GormErr e),
           d\<lparr>t_memberships := t\<rparr>)
      | (Inr m, t) \<Rightarrow>
          (Inr (membership\<lparr>mem_CreatedAt := mm_CreatedAt m, mem_UpdatedAt := mm_UpdatedAt m\<rparr>),
           d\<lparr>t_memberships := t\<rparr>))"

definition membershipRepository_FindByUserAndTenant ::
    "gorms \<Rightarrow> string \<Rightarrow> string \<Rightarrow> db \<Rightarrow> err + Membership" where [repo_simps]:
  "membershipRepository_FindByUserAndTenant G userID tenantID d =
     (case g_First (gorm_memberships G) (\<lambda>m. mm_UserID m = userID \<and> mm_TenantID m = tenantID) (t_memberships d) of
        Inl e \<Rightarrow> Inl (if e = gorm_ErrRecordNotFound then IdErr ErrMembershipNotFound else GormErr e)
      | Inr m \<Rightarrow> Inr (fromMembershipModel m))"

definition membershipRepository_ListByUser :: "gorms \<Rightarrow> string \<Rightarrow> db \<Rightarrow> err + Membership list" where [repo_simps]:
  "membershipRepository_ListByUser G userID d =
     (case g_Find (gorm_memberships G) (\<lambda>m. mm_UserID m = userID) (t_memberships d) of
        Inl e \<Rightarrow> Inl (GormErr e)
      | Inr models \<Rightarrow> Inr (map fromMembershipModel models))"

definition membershipRepository_UpdateRoles ::
    "gorms \<Rightarrow> string \<Rightarrow> string \<Rightarrow> string list \<Rightarrow> db \<Rightarrow> (err + unit) \<times> db" where [repo_simps]:
  "membershipRepository_UpdateRoles G userID tenantID roles d =
     (case g_Update (gorm_memberships G) (\<lambda>m. mm_UserID m = userID \<and> mm_TenantID m = tenantID)
             (\<lambda>m. m\<lparr>mm_Roles := strings_Join roles '',''\<rparr>) (t_memberships d) of
        (Inl e, t) \<Rightarrow> (Inl (GormErr e), d\<lparr>t_memberships := t\<rparr>)
      | (Inr n, t) \<Rightarrow> (if n = 0 then Inl (IdErr ErrMembershipNotFound) else Inr (), d\<lparr>t_memberships := t\<rparr>))"

definition membershipRepository_Delete ::
    "gorms \<Rightarrow> string \<Rightarrow> string \<Rightarrow> db \<Rightarrow> (err + unit) \<times> db" where [repo_simps]:
  "membershipRepository_Delete G userID tenantID d =
     (case g_Delete (gorm_memberships G) (\<lambda>m. mm_UserID m = userID \<and> mm_TenantID m = tenantID) (t_memberships d) of
        (Inl e, t) \<Rightarrow> (Inl (GormErr e), d\<lparr>t_memberships := t\<rparr>)
      | (Inr n, t) \<Rightarrow> (if n = 0 then Inl (IdErr ErrMembershipNotFound) else Inr (), d\<lparr>t_memberships := t\<rparr>))"

definition NewMembershipRepository :: "gorms \<Rightarrow> db MembershipRepository" where
  "NewMembershipRepository G = \<lparr>
     MembershipRepository_Create = membershipRepository_Create G,
     MembershipRepository_FindByUserAndTenant = membershipRepository_FindByUserAndTenant G,
     MembershipRepository_ListByUser = membershipRepository_ListByUser G,
     MembershipRepository_UpdateRoles = membershipRepository_UpdateRoles G,
     MembershipRepository_Delete = membershipRepository_Delete G\<rparr>"

section \<open>Teams\<close>

definition fromTeamModel :: "teamModel \<Rightarrow> Team" where [conv_simps]:
  "fromTeamModel m = \<lparr>team_ID = tem_ID m, team_TenantID = tem_TenantID m, team_Name = tem_Name m,
     team_Slug = tem_Slug m, team_CreatedAt = tem_CreatedAt m, team_UpdatedAt = tem_UpdatedAt m\<rparr>"

definition teamRepository_Create :: "gorms \<Rightarrow> Team \<Rightarrow> db \<Rightarrow> (err + Team) \<times> db" where [repo_simps]:
  "teamRepository_Create G team d =
     (let m = \<lparr>tem_ID = team_ID team, tem_TenantID = team_TenantID team, tem_Name = team_Name team,
               tem_Slug = team_Slug team, tem_CreatedAt = zero_time, tem_UpdatedAt = zero_time\<rparr>
      in case g_Create (gorm_teams G) m (t_teams d) of
           (Inl e, t) \<Rightarrow>
             (Inl (if e = gorm_ErrDuplicatedKey then IdErr ErrTeamAlreadyExists else GormErr e), d\<lparr>t_teams := t\<rparr>)
         | (Inr m', t) \<Rightarrow>
             (Inr (team\<lparr>team_ID := tem_ID m', team_CreatedAt := tem_CreatedAt m', team_UpdatedAt := tem_UpdatedAt m'\<rparr>),
              d\<lparr>t_teams := t\<rparr>))"

definition teamRepository_FindByID :: "gorms \<Rightarrow> string \<Rightarrow> db \<Rightarrow> err + Team" where [repo_simps]:
  "teamRepository_FindByID G uid d =
     (case g_First (gorm_teams G) (\<lambda>m. tem_ID m = uid) (t_teams d) of
        Inl e \<Rightarrow> Inl (if e = gorm_ErrRecordNotFound then IdErr ErrTeamNotFound else GormErr e)
      | Inr m \<Rightarrow> Inr (fromTeamModel m))"

definition teamRepository_FindBySlug :: "gorms \<Rightarrow> string \<Rightarrow> string \<Rightarrow> db \<Rightarrow> err + Team" where [repo_simps]:
  "teamRepository_FindBySlug G tenantID slug d =
     (case g_First (gorm_teams G) (\<lambda>m. tem_TenantID m = tenantID \<and> tem_Slug m = slug) (t_teams d) of
        Inl e \<Rightarrow> Inl (if e = gorm_ErrRecordNotFound then IdErr ErrTeamNotFound else GormErr e)
      | Inr m \<Rightarrow> Inr (fromTeamModel m))"

definition teamRepository_ListByTenant :: "gorms \<Rightarrow> string \<Rightarrow> db \<Rightarrow> err + Team list" where [repo_simps]:
  "teamRepository_ListByTenant G tenantID d =
     (case g_Find (gorm_teams G) (\<lambda>m. tem_TenantID m = tenantID) (t_teams d) of
        Inl e \<Rightarrow> Inl (GormErr e)
      | Inr models \<Rightarrow> Inr (map fromTeamModel models))"

definition teamRepository_Update :: "gorms \<Rightarrow> Team \<Rightarrow> db \<Rightarrow> (err + unit) \<times> db" where [repo_simps]:
  "teamRepository_Update G team d =
     (let m = \<lparr>tem_ID = team_ID team, tem_TenantID = team_TenantID team, tem_Name = team_Name team,
               tem_Slug = team_Slug team, tem_CreatedAt = zero_time, tem_UpdatedAt = zero_time\<rparr>
      in case g_Updates (gorm_teams G) (\<lambda>r. tem_ID r = team_ID team) m (t_teams d) of
           (Inl e, t) \<Rightarrow> (Inl (GormErr e), d\<lparr>t_teams := t\<rparr>)
         | (Inr n, t) \<Rightarrow> (if n = 0 then Inl (IdErr ErrTeamNotFound) else Inr (), d\<lparr>t_teams := t\<rparr>))"

definition teamRepository_Delete :: "gorms \<Rightarrow> string \<Rightarrow> db \<Rightarrow> (err + unit) \<times> db" where [repo_simps]:
  "teamRepository_Delete G uid d =
     (case g_Delete (gorm_teams G) (\<lambda>m. tem_ID m = uid) (t_teams d) of
        (Inl e, t) \<Rightarrow> (Inl (GormErr e), d\<lparr>t_teams := t\<rparr>)
      | (Inr n, t) \<Rightarrow> (if n = 0 then Inl (IdErr ErrTeamNotFound) else Inr (), d\<lparr>t_teams := t\<rparr>))"

definition NewTeamRepository :: "gorms \<Rightarrow> db TeamRepository" where
  "NewTeamRepository G = \<lparr>
     TeamRepository_Create = teamRepository_Create G,
     TeamRepository_FindByID = teamRepository_FindByID G,
     TeamRepository_FindBySlug = teamRepository_FindBySlug G,
     TeamRepository_ListByTenant = teamRepository_ListByTenant G,
     TeamRepository_Update = teamRepository_Update G,
     TeamRepository_Delete = teamRepository_Delete G\<rparr>"

section \<open>Team memberships\<close>

definition toTeamMembershipModel :: "TeamMembership \<Rightarrow> teamMembershipModel" where [conv_simps]:
  "toTeamMembershipModel tm = \<lparr>tmm_UserID = tm_UserID tm, tmm_TeamID = tm_TeamID tm,
     tmm_Roles = strings_Join (tm_Roles tm) '','', tmm_CreatedAt = zero_time, tmm_UpdatedAt = zero_time\<rparr>"

definition fromTeamMembershipModel :: "teamMembershipModel \<Rightarrow> TeamMembership" where [conv_simps]:
  "fromTeamMembershipModel m = \<lparr>tm_UserID = tmm_UserID m, tm_TeamID = tmm_TeamID m,
     tm_Roles = (if tmm_Roles m \<noteq> [] then strings_Split (tmm_Roles m) (CHR '','') else []),
     tm_CreatedAt = tmm_CreatedAt m, tm_UpdatedAt = tmm_UpdatedAt m\<rparr>"

definition teamMembershipRepository_Create ::
    "gorms \<Rightarrow> TeamMembership \<Rightarrow> db \<Rightarrow> (err + TeamMembership) \<times> db" where [repo_simps]:
  "teamMembershipRepository_Create G tm d =
     (case g_Create (gorm_team_memberships G) (toTeamMembershipModel tm) (t_team_memberships d) of
        (Inl e, t) \<Rightarrow>
          (Inl (if e = gorm_ErrDuplicatedKey then IdErr ErrTeamMembershipAlreadyExists else GormErr e),
           d\<lparr>t_team_memberships := t\<rparr>)
      | (Inr m, t) \<Rightarrow>
          (Inr (tm\<lparr>tm_CreatedAt := tmm_CreatedAt m, tm_UpdatedAt := tmm_UpdatedAt m\<rparr>),
           d\<lparr>t_team_memberships := t\<rparr>))"

definition teamMembershipRepository_FindByUserAndTeam ::
    "gorms \<Rightarrow> string \<Rightarrow> string \<Rightarrow> db \<Rightarrow> err + TeamMembership" where [repo_simps]:
  "teamMembershipRepository_FindByUserAndTeam G userID teamID d =
     (case g_First (gorm_team_memberships G) (\<lambda>m. tmm_UserID m = userID \<and> tmm_TeamID m = teamID)
             (t_team_memberships d) of
        Inl e \<Rightarrow> Inl (if e = gorm_ErrRecordNotFound then IdErr ErrTeamMembershipNotFound else GormErr e)
      | Inr m \<Rightarrow> Inr (fromTeamMembershipModel m))"

definition teamMembershipRepository_ListByUser ::
    "gorms \<Rightarrow> string \<Rightarrow> db \<Rightarrow> err + TeamMembership list" where [repo_simps]:
  "teamMembershipRepository_ListByUser G userID d =
     (case g_Find (gorm_team_memberships G) (\<lambda>m. tmm_UserID m = userID) (t_team_memberships d) of
        Inl e \<Rightarrow> Inl (GormErr e)
      | Inr models \<Rightarrow> Inr (map fromTeamMembershipModel models))"

definition teamMembershipRepository_ListByTeam ::
    "gorms \<Rightarrow> string \<Rightarrow> db \<Rightarrow> err + TeamMembership list" where [repo_simps]:
  "teamMembershipRepository_ListByTeam G teamID d =
     (case g_Find (gorm_team_memberships G) (\<lambda>m. tmm_TeamID m = teamID) (t_team_memberships d) of
        Inl e \<Rightarrow> Inl (GormErr e)
      | Inr models \<Rightarrow> Inr (map fromTeamMembershipModel models))"

definition teamMembershipRepository_UpdateRoles ::
    "gorms \<Rightarrow> string \<Rightarrow> string \<Rightarrow> string list \<Rightarrow> db \<Rightarrow> (err + unit) \<times> db" where [repo_simps]:
  "teamMembershipRepository_UpdateRoles G userID teamID roles d =
     (case g_Update (gorm_team_memberships G) (\<lambda>m. tmm_UserID m = userID \<and> tmm_TeamID m = teamID)
             (\<lambda>m. m\<lparr>tmm_Roles := strings_Join roles '',''\<rparr>) (t_team_memberships d) of
        (Inl e, t) \<Rightarrow> (Inl (GormErr e), d\<lparr>t_team_memberships := t\<rparr>)
      | (Inr n, t) \<Rightarrow>
          (if n = 0 then Inl (IdErr ErrTeamMembershipNotFound) else Inr (), d\<lparr>t_team_memberships := t\<rparr>))"

definition teamMembershipRepository_Delete ::
    "gorms \<Rightarrow> string \<Rightarrow> string \<Rightarrow> db \<Rightarrow> (err + unit) \<times> db" where [repo_simps]:
  "teamMembershipRepository_Delete G userID teamID d =
     (case g_Delete (gorm_team_memberships G) (\<lambda>m. tmm_UserID m = userID \<and> tmm_TeamID m = teamID)
             (t_team_memberships d) of
        (Inl e, t) \<Rightarrow> (Inl (GormErr e), d\<lparr>t_team_memberships := t\<rparr>)
      | (Inr n, t) \<Rightarrow>
          (if n = 0 then Inl (IdErr ErrTeamMembershipNotFound) else Inr (), d\<lparr>t_team_memberships := t\<rparr>))"

definition NewTeamMembershipRepository :: "gorms \<Rightarrow> db TeamMembershipRepository" where
  "NewTeamMembershipRepository G = \<lparr>
     TeamMembershipRepository_Create = teamMembershipRepository_Create G,
     TeamMembershipRepository_FindByUserAndTeam = teamMembershipRepository_FindByUserAndTeam G,
     TeamMembershipRepository_ListByUser = teamMembershipRepository_ListByUser G,
     TeamMembershipRepository_ListByTeam = teamMembershipRepository_ListByTeam G,
     TeamMembershipRepository_UpdateRoles = teamMembershipRepository_UpdateRoles G,
     TeamMembershipRepository_Delete = teamMembershipRepository_Delete G\<rparr>"

lemmas identity_repositories = NewUserRepository_def NewTenantRepository_def
  NewMembershipRepository_def NewTeamRepository_def NewTeamMembershipRepository_def

section \<open>The contracts hold\<close>

definition db_users :: "db \<Rightarrow> User set" where
  "db_users d = fromUserModel ` set (t_users d)"

definition db_tenants :: "db \<Rightarrow> Tenant set" where
  "db_tenants d = fromTenantModel ` set (t_tenants d)"

definition db_memberships :: "db \<Rightarrow> Membership set" where
  "db_memberships d = fromMembershipModel ` set (t_memberships d)"

definition db_team_memberships :: "db \<Rightarrow> TeamMembership set" where
  "db_team_memberships d = fromTeamMembershipModel ` set (t_team_memberships d)"

lemmas db_views = db_users_def db_tenants_def db_memberships_def db_team_memberships_def

lemma fromMembershipModel_roles [simp]: "mem_Roles (fromMembershipModel m) =
    (if mm_Roles m \<noteq> [] then strings_Split (mm_Roles m) (CHR '','') else [])"
  by (simp add: fromMembershipModel_def)

sublocale database \<subseteq> user_repository "NewUserRepository G" db_users
proof (unfold_locales, goal_cases)
  case (1 u w u' w')
  then show ?case
    using user.Create_row [of "toUserModel u" "t_users w"]
    by (auto simp: NewUserRepository_def userRepository_Create_def db_users_def conv_simps row_user_defs
             split: prod.splits sum.splits)
next
  case (2 u w e w')
  then show ?case
    using user.Create_fail [of "toUserModel u" "t_users w"]
    by (auto simp: NewUserRepository_def userRepository_Create_def db_users_def split: prod.splits sum.splits)
next
  case (3 email w u)
  then show ?case
    by (auto simp: NewUserRepository_def userRepository_FindByEmail_def db_users_def conv_simps
             dest!: user.First_hit split: sum.splits)
next
  case (4 email w u)
  then show ?case
    by (auto simp: NewUserRepository_def userRepository_FindByEmail_def db_users_def conv_simps
             dest: user.First_miss split: sum.splits if_splits)
next
  case (5 ident w u)
  then show ?case
    by (auto simp: NewUserRepository_def userRepository_FindByID_def db_users_def conv_simps
             dest!: user.First_hit split: sum.splits)
qed

sublocale database \<subseteq> tenant_repository "NewTenantRepository G" db_tenants
proof (unfold_locales, goal_cases)
  case (1 t w t' w')
  let ?s = "if tenant_Status t = [] then TenantStatusActive else tenant_Status t"
  show ?case
    using 1 tenant.Create_row [of "\<lparr>tnm_ID = tenant_ID t, tnm_Name = tenant_Name t, tnm_Slug = tenant_Slug t,
               tnm_Status = ?s, tnm_CreatedAt = zero_time, tnm_UpdatedAt = zero_time\<rparr>" "t_tenants w"]
    by (auto simp: NewTenantRepository_def tenantRepository_Create_def db_tenants_def conv_simps row_tenant_defs
          TenantStatusActive_def split: prod.splits sum.splits if_splits)
next
  case (2 t w e w')
  then show ?case
    by (auto simp: NewTenantRepository_def tenantRepository_Create_def db_tenants_def Let_def
             dest!: tenant.Create_fail split: prod.splits sum.splits)
next
  case (3 ident w t)
  then show ?case
    by (auto simp: NewTenantRepository_def tenantRepository_FindByID_def db_tenants_def conv_simps
             dest!: tenant.First_hit split: sum.splits)
next
  case (4 ident w t)
  then show ?case
    by (auto simp: NewTenantRepository_def tenantRepository_FindByID_def db_tenants_def conv_simps
             dest: tenant.First_miss split: sum.splits if_splits)
next
  case (5 ident s w w')
  then obtain n t where u: "g_Update (gorm_tenants G) (\<lambda>m. tnm_ID m = ident) (\<lambda>m. m\<lparr>tnm_Status := s\<rparr>) (t_tenants w)
      = (Inr n, t)" "n \<noteq> 0" "w' = w\<lparr>t_tenants := t\<rparr>"
    by (auto simp: NewTenantRepository_def tenantRepository_UpdateStatus_def split: prod.splits sum.splits if_splits)
  show ?case using tenant.Update_view [OF u(1,2)] 5(2) u(3)
    by (force simp: kept_tenant_def fromTenantModel_def db_tenants_def)
qed

text \<open>The rows of the two role-assignment tables: found by user and scope, with one column that holds the roles.\<close>

locale role_rows = gorm_table G clash same kept patch
  for G :: "'r gorm" and clash same kept patch +
  fixes holder :: "'r \<Rightarrow> string"
    and scope :: "'r \<Rightarrow> string"
    and column :: "'r \<Rightarrow> string"
    and put :: "string \<Rightarrow> 'r \<Rightarrow> 'r"
  assumes kept_put: "kept (put rs r) r' \<Longrightarrow> holder r' = holder r \<and> scope r' = scope r \<and> column r' = rs"
begin

lemma put_view:
  assumes "g_Update G (\<lambda>r. holder r = u \<and> scope r = s) (put rs) t = (Inr n, t')" and "n \<noteq> 0"
  shows "\<exists>r\<in>set t. holder r = u \<and> scope r = s"
    and "r \<in> set t' \<Longrightarrow> holder r = u \<Longrightarrow> scope r = s \<Longrightarrow> column r = rs"
    and "r \<in> set t' \<Longrightarrow> \<not> (holder r = u \<and> scope r = s) \<Longrightarrow> r \<in> set t"
proof -
  note v = Update_view [OF assms]
  show "\<exists>r\<in>set t. holder r = u \<and> scope r = s" using v ..
  show "column r = rs" if "r \<in> set t'" "holder r = u" "scope r = s"
    using conjunct2 [OF v] that kept_put by blast
  show "r \<in> set t" if "r \<in> set t'" "\<not> (holder r = u \<and> scope r = s)"
    using conjunct2 [OF v] that kept_put by metis
qed

end

text \<open>The two role-assignment repositories.\<close>

sublocale database \<subseteq> membership_rows: role_rows "gorm_memberships G" clash_membership same_membership kept_membership patch_membership
  mm_UserID mm_TenantID mm_Roles "\<lambda>rs m. m\<lparr>mm_Roles := rs\<rparr>"
  by unfold_locales (simp add: kept_membership_def)

sublocale database \<subseteq> member: role_assignments "membershipRepository_Create G"
  "membershipRepository_FindByUserAndTenant G" "membershipRepository_ListByUser G"
  "membershipRepository_UpdateRoles G" "membershipRepository_Delete G"
  db_memberships mem_UserID mem_TenantID mem_Roles "IdErr ErrMembershipNotFound"
proof (unfold_locales, goal_cases)
  case (1 m w m' w')
  then obtain x t where c: "g_Create (gorm_memberships G) (toMembershipModel m) (t_memberships w) = (Inr x, t)"
      "w' = w\<lparr>t_memberships := t\<rparr>"
    by (auto simp: membershipRepository_Create_def split: prod.splits sum.splits)
  show ?case using membership.Create_row [OF c(1)] c(2)
    by (intro conjI exI [of _ "fromMembershipModel x"])
      (auto simp: db_memberships_def conv_simps row_membership_defs csv_roles_def)
next
  case (2 m w e w')
  then show ?case
    by (auto simp: membershipRepository_Create_def db_memberships_def
             dest!: membership.Create_fail split: prod.splits sum.splits)
next
  case (3 u s w m)
  then show ?case
    by (auto simp: membershipRepository_FindByUserAndTenant_def db_memberships_def fromMembershipModel_def
             dest!: membership.First_hit split: sum.splits)
next
  case (4 u s w m)
  then show ?case
    by (auto simp: membershipRepository_FindByUserAndTenant_def db_memberships_def fromMembershipModel_def
             dest: membership.First_miss split: sum.splits if_splits)
next
  case (5 u w ms)
  then show ?case
    by (auto simp: membershipRepository_ListByUser_def db_memberships_def fromMembershipModel_def
             dest!: membership.Find_set split: sum.splits)
next
  case (6 u s rs w w')
  then obtain n t where u: "g_Update (gorm_memberships G) (\<lambda>m. mm_UserID m = u \<and> mm_TenantID m = s)
      (\<lambda>m. m\<lparr>mm_Roles := strings_Join rs '',''\<rparr>) (t_memberships w) = (Inr n, t)" "n \<noteq> 0" "w' = w\<lparr>t_memberships := t\<rparr>"
    by (auto simp: membershipRepository_UpdateRoles_def split: prod.splits sum.splits if_splits)
  show ?case using membership_rows.put_view [OF u(1,2)] u(3)
    by (auto simp: db_memberships_def fromMembershipModel_def csv_roles_def)
next
  case (7 u s w w')
  then show ?case
    by (auto simp: membershipRepository_Delete_def db_memberships_def fromMembershipModel_def
             dest!: membership.Delete_set split: prod.splits sum.splits if_splits)
qed

sublocale database \<subseteq> team_membership_rows: role_rows "gorm_team_memberships G" clash_team_membership same_team_membership kept_team_membership patch_team_membership
  tmm_UserID tmm_TeamID tmm_Roles "\<lambda>rs m. m\<lparr>tmm_Roles := rs\<rparr>"
  by unfold_locales (simp add: kept_team_membership_def)

sublocale database \<subseteq> team_member: role_assignments "teamMembershipRepository_Create G"
  "teamMembershipRepository_FindByUserAndTeam G" "teamMembershipRepository_ListByUser G"
  "teamMembershipRepository_UpdateRoles G" "teamMembershipRepository_Delete G"
  db_team_memberships tm_UserID tm_TeamID tm_Roles "IdErr ErrTeamMembershipNotFound"
proof (unfold_locales, goal_cases)
  case (1 m w m' w')
  then obtain x t where c: "g_Create (gorm_team_memberships G) (toTeamMembershipModel m) (t_team_memberships w) = (Inr x, t)"
      "w' = w\<lparr>t_team_memberships := t\<rparr>"
    by (auto simp: teamMembershipRepository_Create_def split: prod.splits sum.splits)
  show ?case using team_membership.Create_row [OF c(1)] c(2)
    by (intro conjI exI [of _ "fromTeamMembershipModel x"])
      (auto simp: db_team_memberships_def conv_simps row_team_membership_defs csv_roles_def)
next
  case (2 m w e w')
  then show ?case
    by (auto simp: teamMembershipRepository_Create_def db_team_memberships_def
             dest!: team_membership.Create_fail split: prod.splits sum.splits)
next
  case (3 u s w m)
  then show ?case
    by (auto simp: teamMembershipRepository_FindByUserAndTeam_def db_team_memberships_def fromTeamMembershipModel_def
             dest!: team_membership.First_hit split: sum.splits)
next
  case (4 u s w m)
  then show ?case
    by (auto simp: teamMembershipRepository_FindByUserAndTeam_def db_team_memberships_def fromTeamMembershipModel_def
             dest: team_membership.First_miss split: sum.splits if_splits)
next
  case (5 u w ms)
  then show ?case
    by (auto simp: teamMembershipRepository_ListByUser_def db_team_memberships_def fromTeamMembershipModel_def
             dest!: team_membership.Find_set split: sum.splits)
next
  case (6 u s rs w w')
  then obtain n t where u: "g_Update (gorm_team_memberships G) (\<lambda>m. tmm_UserID m = u \<and> tmm_TeamID m = s)
      (\<lambda>m. m\<lparr>tmm_Roles := strings_Join rs '',''\<rparr>) (t_team_memberships w) = (Inr n, t)" "n \<noteq> 0" "w' = w\<lparr>t_team_memberships := t\<rparr>"
    by (auto simp: teamMembershipRepository_UpdateRoles_def split: prod.splits sum.splits if_splits)
  show ?case using team_membership_rows.put_view [OF u(1,2)] u(3)
    by (auto simp: db_team_memberships_def fromTeamMembershipModel_def csv_roles_def)
next
  case (7 u s w w')
  then show ?case
    by (auto simp: teamMembershipRepository_Delete_def db_team_memberships_def fromTeamMembershipModel_def
             dest!: team_membership.Delete_set split: prod.splits sum.splits if_splits)
qed

end
