(* ===== verification/IdentityProps.thy ===== *)
theory IdentityProps
  imports AuthService RepoIdentity
begin

text \<open>
  The identity services over the repositories they get in main.go, and their properties.
\<close>

definition main_auth :: "gorms \<Rightarrow> bcrypt_lib \<Rightarrow> TokenService \<Rightarrow> db AuthService" where
  "main_auth G lib tokens =
     NewAuthService (NewUserRepository G) (NewTenantRepository G) (NewMembershipRepository G)
       (NewTeamMembershipRepository G) (NewTeamRepository G) (NewPasswordHasher lib) tokens"

lemma main_auth_simps [simp]:
  "as_users (main_auth G lib tokens) = NewUserRepository G"
  "as_tenants (main_auth G lib tokens) = NewTenantRepository G"
  "as_memberships (main_auth G lib tokens) = NewMembershipRepository G"
  "as_teamMemberships (main_auth G lib tokens) = NewTeamMembershipRepository G"
  "as_teams (main_auth G lib tokens) = NewTeamRepository G"
  "as_hasher (main_auth G lib tokens) = NewPasswordHasher lib"
  "as_tokens (main_auth G lib tokens) = tokens"
  by (simp_all add: main_auth_def NewAuthService_def)

lemma identity_repository_simps [simp]:
  "UserRepository_Create (NewUserRepository G) = userRepository_Create G"
  "UserRepository_FindByEmail (NewUserRepository G) = userRepository_FindByEmail G"
  "UserRepository_FindByID (NewUserRepository G) = userRepository_FindByID G"
  "TenantRepository_Create (NewTenantRepository G) = tenantRepository_Create G"
  "TenantRepository_FindByID (NewTenantRepository G) = tenantRepository_FindByID G"
  "TenantRepository_UpdateStatus (NewTenantRepository G) = tenantRepository_UpdateStatus G"
  "MembershipRepository_Create (NewMembershipRepository G) = membershipRepository_Create G"
  "MembershipRepository_FindByUserAndTenant (NewMembershipRepository G) = membershipRepository_FindByUserAndTenant G"
  "MembershipRepository_ListByUser (NewMembershipRepository G) = membershipRepository_ListByUser G"
  "MembershipRepository_Delete (NewMembershipRepository G) = membershipRepository_Delete G"
  "TeamMembershipRepository_ListByUser (NewTeamMembershipRepository G) = teamMembershipRepository_ListByUser G"
  "TeamMembershipRepository_Create (NewTeamMembershipRepository G) = teamMembershipRepository_Create G"
  "TeamRepository_FindByID (NewTeamRepository G) = teamRepository_FindByID G"
  by (simp_all add: identity_repositories)

definition db_teams :: "db \<Rightarrow> Team set" where
  "db_teams d = fromTeamModel ` set (t_teams d)"

lemma team_FindByID_hit:
  "database G \<Longrightarrow> teamRepository_FindByID G i d = Inr team \<Longrightarrow> team \<in> db_teams d \<and> team_ID team = i"
  by (auto simp: teamRepository_FindByID_def db_teams_def fromTeamModel_def split: sum.splits
           dest!: gorm_table.First_hit [OF database.team_table])

text \<open>Reads depend on their own tables only.\<close>

lemma identity_frames:
  "t_users d' = t_users d \<Longrightarrow> userRepository_FindByEmail G e d' = userRepository_FindByEmail G e d"
  "t_tenants d' = t_tenants d \<Longrightarrow> tenantRepository_FindByID G i d' = tenantRepository_FindByID G i d"
  by (simp_all add: userRepository_FindByEmail_def tenantRepository_FindByID_def)

lemma Create_frames:
  "userRepository_Create G u d = (x, d') \<Longrightarrow>
     t_tenants d' = t_tenants d \<and> t_memberships d' = t_memberships d \<and> t_team_memberships d' = t_team_memberships d"
  "membershipRepository_Create G m d = (y, d') \<Longrightarrow> t_users d' = t_users d \<and> t_tenants d' = t_tenants d"
  by (auto simp: userRepository_Create_def membershipRepository_Create_def split: prod.splits sum.splits)

section \<open>Login\<close>

text \<open>What a role of a tenant session comes from.\<close>

definition role_in_tenant :: "db \<Rightarrow> string \<Rightarrow> string \<Rightarrow> string \<Rightarrow> bool" where
  "role_in_tenant d u t r \<longleftrightarrow>
     (\<exists>m\<in>db_memberships d. mem_UserID m = u \<and> mem_TenantID m = t \<and> r \<in> set (mem_Roles m)) \<or>
     (\<exists>tm\<in>db_team_memberships d. \<exists>team\<in>db_teams d. tm_UserID tm = u \<and> tm_TeamID tm = team_ID team \<and>
        team_TenantID team = t \<and> r \<in> set (tm_Roles tm))"

context database
begin

lemma rolesForTenant_isolated:
  assumes r: "AuthService_rolesForTenant (main_auth G lib tokens) u t d = Inr roles" "r \<in> set roles"
  shows "role_in_tenant d u t r"
proof -
  from rolesForTenant_ok [OF r(1)] obtain m tms
    where m: "membershipRepository_FindByUserAndTenant G u t d = Inr m"
      and tms: "teamMembershipRepository_ListByUser G u d = Inr tms"
      and roles: "roles = team_roles (NewTeamRepository G) t d tms (mem_Roles m)"
    by auto
  note m' = member.find_hit [OF m]
  note tms' = team_member.list_rows [OF tms]
  from r(2) roles team_roles_mem consider "r \<in> set (mem_Roles m)"
    | tm team where "tm \<in> set tms" "teamRepository_FindByID G (tm_TeamID tm) d = Inr team"
        "team_TenantID team = t" "r \<in> set (tm_Roles tm)" by force
  then show ?thesis
  proof cases
    case 1
    then show ?thesis using m' by (auto simp: role_in_tenant_def)
  next
    case 2
    then show ?thesis using tms' team_FindByID_hit [OF database_axioms 2(2)]
      by (fastforce simp: role_in_tenant_def)
  qed
qed

lemma rolesForTenant_active_member:
  assumes r: "AuthService_rolesForTenant (main_auth G lib tokens) u t d = Inr roles"
  shows "(\<exists>tn\<in>db_tenants d. tenant_ID tn = t \<and> tenant_Status tn = TenantStatusActive) \<and>
         (\<exists>m\<in>db_memberships d. mem_UserID m = u \<and> mem_TenantID m = t)"
proof -
  from rolesForTenant_ok [OF r] obtain tn m
    where tn: "TenantRepository_FindByID (NewTenantRepository G) t d = Inr tn" "tenant_Status tn = TenantStatusActive"
      and m: "membershipRepository_FindByUserAndTenant G u t d = Inr m" by auto
  then show ?thesis using tenant_FindByID_hit [OF tn(1)] member.find_hit [OF m] by auto
qed

text \<open>A tenant whose status was set to anything but active grants no session.\<close>

lemma rolesForTenant_suspended:
  assumes "tenantRepository_UpdateStatus G t s d = (Inr (), d')" and "s \<noteq> []" and "s \<noteq> TenantStatusActive"
  shows "AuthService_rolesForTenant (main_auth G lib tokens) u t d' \<noteq> Inr roles"
proof
  assume "AuthService_rolesForTenant (main_auth G lib tokens) u t d' = Inr roles"
  from rolesForTenant_ok [OF this] obtain tn
    where tn: "TenantRepository_FindByID (NewTenantRepository G) t d' = Inr tn" "tenant_Status tn = TenantStatusActive"
    by auto
  have "tenant_Status tn = s"
    using UpdateStatus_FindByID [OF _ assms(2) tn(1)] assms(1) by simp
  then show False using tn(2) assms(3) by simp
qed

lemma rolesForTenant_left:
  assumes "membershipRepository_Delete G u t d = (Inr (), d')"
  shows "AuthService_rolesForTenant (main_auth G lib tokens) u t d' \<noteq> Inr roles"
proof
  assume "AuthService_rolesForTenant (main_auth G lib tokens) u t d' = Inr roles"
  from rolesForTenant_ok [OF this] obtain m
    where "membershipRepository_FindByUserAndTenant G u t d' = Inr m" by auto
  then show False using member.find_deleted [OF assms] by simp
qed

lemma membership_roles_updated:
  "membershipRepository_UpdateRoles G u t roles d = (Inr (), d') \<Longrightarrow>
   membershipRepository_FindByUserAndTenant G u t d' = Inr m \<Longrightarrow> mem_Roles m = csv_roles roles"
  by (rule member.find_updated)

lemma Register_unique:
  assumes "AuthService_Register (main_auth G lib tokens) salt clock email pw t d = (res, d')"
    and "unique_users (db_users d)"
  shows "unique_users (db_users d')"
proof -
  have c: "unique_users (db_users d1)" if "userRepository_Create G u d = (x, d1)" for u x d1
    using user_Create_unique [of u d x d1] that assms(2) by simp
  have m: "db_users d2 = db_users d1" if "membershipRepository_Create G m d1 = (x, d2)" for m x d1 d2
    using Create_frames(2) [OF that] by (simp add: db_users_def)
  show ?thesis using assms c m
    by (auto simp: AuthService_Register_def split: sum.splits prod.splits if_splits)
qed

end

section \<open>Registration and login\<close>

text \<open>What a successful registration did.\<close>

lemma Register_ok:
  assumes "AuthService_Register (main_auth G lib tokens) salt clock email pw t d = (Inr res, d')"
  shows "\<exists>hash user d1. PasswordHasher_Hash (NewPasswordHasher lib) salt pw = Inr hash \<and>
    userRepository_Create G \<lparr>user_ID = [], user_Email = email, user_PasswordHash = hash,
      user_CreatedAt = zero_time, user_UpdatedAt = zero_time\<rparr> d = (Inr user, d1) \<and>
    AuthService_issueTokens (main_auth G lib tokens) clock user t (if t = [] then [] else [''admin'']) = Inr res \<and>
    (if t = [] then d' = d1
     else \<exists>tn m. tenantRepository_FindByID G t d1 = Inr tn \<and> tenant_Status tn = TenantStatusActive \<and>
       membershipRepository_Create G \<lparr>mem_UserID = user_ID user, mem_TenantID = t,
         mem_Roles = [''admin''], mem_CreatedAt = zero_time, mem_UpdatedAt = zero_time\<rparr> d1 = (Inr m, d'))"
  using assms by (auto simp: AuthService_Register_def split: sum.splits prod.splits if_splits)

lemma csv_roles_admin [simp]: "csv_roles [''admin''] = [''admin'']"
  by (simp add: csv_roles_id)

text \<open>Signing fails for no claims; then issuing a session never fails.\<close>

definition signs_all :: "TokenService \<Rightarrow> bool" where
  "signs_all tokens \<longleftrightarrow> (\<forall>k c. \<exists>tok. jwt_SignedString (ts_jwt tokens) k c = Inr tok)"

lemma issueTokens_total:
  assumes "signs_all (as_tokens s)"
  shows "\<exists>res. AuthService_issueTokens s clock user t roles = Inr res"
proof -
  obtain f where "\<And>k c. jwt_SignedString (ts_jwt (as_tokens s)) k c = Inr (f k c)"
    using assms unfolding signs_all_def by metis
  then show ?thesis by (simp add: svc_simps)
qed

context reliable_database
begin

lemma rolesForTenant_found:
  assumes tn: "tenantRepository_FindByID G t d = Inr tn" "tenant_Status tn = TenantStatusActive"
    and m: "membershipRepository_FindByUserAndTenant G u t d \<noteq> Inl (IdErr ErrMembershipNotFound)"
    and roles: "\<And>m. membershipRepository_FindByUserAndTenant G u t d = Inr m \<Longrightarrow> mem_Roles m = rs"
  shows "\<exists>roles. AuthService_rolesForTenant (main_auth G lib tokens) u t d = Inr roles \<and> set rs \<subseteq> set roles"
proof -
  obtain m where m': "membershipRepository_FindByUserAndTenant G u t d = Inr m"
    using m membership_First_total
    by (auto simp: membershipRepository_FindByUserAndTenant_def split: sum.splits if_splits)
  obtain tms where tms: "teamMembershipRepository_ListByUser G u d = Inr tms"
    using team_membership_Find_total [of "\<lambda>m. tmm_UserID m = u" "t_team_memberships d"]
    by (auto simp: teamMembershipRepository_ListByUser_def)
  have "set rs \<subseteq> set (team_roles (NewTeamRepository G) t d tms (mem_Roles m))"
    using roles [OF m'] team_roles_keeps by fastforce
  then show ?thesis using tn m' tms by (simp add: AuthService_rolesForTenant_def)
qed

lemma Register_Login:
  assumes hasher: "password_hasher lib" and sign: "signs_all tokens"
    and reg: "AuthService_Register (main_auth G lib tokens) salt clock email pw t d = (Inr res, d')"
  shows "\<exists>res'. AuthService_Login (main_auth G lib tokens) clock' email pw t d' = Inr res' \<and>
           ar_User res' = ar_User res \<and> ar_TenantID res' = t \<and> set (ar_Roles res) \<subseteq> set (ar_Roles res')"
proof -
  let ?s = "main_auth G lib tokens"
  from Register_ok [OF reg] obtain hash user d1
    where hash: "PasswordHasher_Hash (NewPasswordHasher lib) salt pw = Inr hash"
      and c: "userRepository_Create G \<lparr>user_ID = [], user_Email = email, user_PasswordHash = hash,
        user_CreatedAt = zero_time, user_UpdatedAt = zero_time\<rparr> d = (Inr user, d1)"
      and res: "AuthService_issueTokens ?s clock user t (if t = [] then [] else [''admin'']) = Inr res"
      and rest: "if t = [] then d' = d1
        else \<exists>tn m. tenantRepository_FindByID G t d1 = Inr tn \<and> tenant_Status tn = TenantStatusActive \<and>
          membershipRepository_Create G \<lparr>mem_UserID = user_ID user, mem_TenantID = t,
            mem_Roles = [''admin''], mem_CreatedAt = zero_time, mem_UpdatedAt = zero_time\<rparr> d1 = (Inr m, d')"
    by blast
  note res' = issueTokens_ok [OF res]
  have frames: "t_users d' = t_users d1" "t_tenants d' = t_tenants d1"
    using rest Create_frames(2) by (auto split: if_splits)
  have created: "UserRepository_Create (NewUserRepository G) \<lparr>user_ID = [], user_Email = email,
      user_PasswordHash = hash, user_CreatedAt = zero_time, user_UpdatedAt = zero_time\<rparr> d = (Inr user, d1)"
    using c by simp
  have find: "userRepository_FindByEmail G email d' = Inr user"
  proof (cases "userRepository_FindByEmail G email d1")
    case (Inl e)
    then have "e = IdErr ErrUserNotFound"
      using user_First_total by (auto simp: userRepository_FindByEmail_def split: sum.splits if_splits)
    then show ?thesis using FindByEmail_found [OF created] Inl by simp
  next
    case (Inr v)
    then show ?thesis using FindByEmail_created [OF created, of v] identity_frames(1) [OF frames(1)] by simp
  qed
  have verify: "PasswordHasher_Verify (NewPasswordHasher lib) (user_PasswordHash user) pw"
    using password_hasher.Verify_Hash [OF hasher hash] user_Create_ok [OF created] by simp
  show ?thesis
  proof (cases "t = []")
    case True
    then show ?thesis using find verify issueTokens_total [of ?s clock' user t "[]"] sign res'
      by (auto simp: AuthService_Login_def dest: issueTokens_ok)
  next
    case False
    then obtain tn m where tn: "tenantRepository_FindByID G t d1 = Inr tn" "tenant_Status tn = TenantStatusActive"
      and m: "membershipRepository_Create G \<lparr>mem_UserID = user_ID user, mem_TenantID = t,
        mem_Roles = [''admin''], mem_CreatedAt = zero_time, mem_UpdatedAt = zero_time\<rparr> d1 = (Inr m, d')"
      using rest by auto
    have "\<exists>roles. AuthService_rolesForTenant ?s (user_ID user) t d' = Inr roles \<and> set [''admin''] \<subseteq> set roles"
      using member.find_created_hit [OF m] member.find_created [OF m] tn identity_frames(2) [OF frames(2)]
      by (intro rolesForTenant_found) auto
    then obtain roles where roles: "AuthService_rolesForTenant ?s (user_ID user) t d' = Inr roles"
        "''admin'' \<in> set roles" by auto
    then show ?thesis
      using find verify False issueTokens_total [of ?s clock' user t roles] sign res'
      by (auto simp: AuthService_Login_def dest: issueTokens_ok)
  qed
qed

end

section \<open>A concrete database\<close>

text \<open>
  One user, an active and a suspended tenant, a membership in both, a team of the first tenant
  and one of another tenant with the user in both.
\<close>

definition demo_db :: db where
  "demo_db = empty_db\<lparr>
     t_users := [\<lparr>um_ID = ''u1'', um_Email = ''ann'', um_PasswordHash = ''$2a$pw'', um_CreatedAt = 0, um_UpdatedAt = 0\<rparr>],
     t_tenants := [\<lparr>tnm_ID = ''t1'', tnm_Name = ''One'', tnm_Slug = ''one'', tnm_Status = ''active'',
         tnm_CreatedAt = 0, tnm_UpdatedAt = 0\<rparr>,
       \<lparr>tnm_ID = ''t2'', tnm_Name = ''Two'', tnm_Slug = ''two'', tnm_Status = ''suspended'',
         tnm_CreatedAt = 0, tnm_UpdatedAt = 0\<rparr>],
     t_memberships := [
       \<lparr>mm_UserID = ''u1'', mm_TenantID = ''t1'', mm_Roles = ''member,editor'', mm_CreatedAt = 0, mm_UpdatedAt = 0\<rparr>,
       \<lparr>mm_UserID = ''u1'', mm_TenantID = ''t2'', mm_Roles = ''admin'', mm_CreatedAt = 0, mm_UpdatedAt = 0\<rparr>],
     t_teams := [
       \<lparr>tem_ID = ''g1'', tem_TenantID = ''t1'', tem_Name = ''G'', tem_Slug = ''g'', tem_CreatedAt = 0, tem_UpdatedAt = 0\<rparr>,
       \<lparr>tem_ID = ''g2'', tem_TenantID = ''t2'', tem_Name = ''H'', tem_Slug = ''h'', tem_CreatedAt = 0, tem_UpdatedAt = 0\<rparr>],
     t_team_memberships := [
       \<lparr>tmm_UserID = ''u1'', tmm_TeamID = ''g1'', tmm_Roles = ''reviewer'', tmm_CreatedAt = 0, tmm_UpdatedAt = 0\<rparr>,
       \<lparr>tmm_UserID = ''u1'', tmm_TeamID = ''g2'', tmm_Roles = ''admin'', tmm_CreatedAt = 0, tmm_UpdatedAt = 0\<rparr>]\<rparr>"

definition demo_tokens :: TokenService where
  "demo_tokens = NewTokenService plain_jwt ''secret'' (15 * time_Minute) (168 * time_Hour)"

definition demo_auth :: "db AuthService" where
  "demo_auth = main_auth mem_gorms plain_bcrypt demo_tokens"

text \<open>Evaluating the repositories over the executable mapper.\<close>

lemmas eval_mapper = mem_gorms_def mem_gorm_def find_first_def

lemma empty_db_simps [simp]:
  "t_users empty_db = []" "t_tenants empty_db = []" "t_memberships empty_db = []"
  "t_teams empty_db = []" "t_team_memberships empty_db = []"
  by (simp_all add: empty_db_def)

lemma signs_all_demo [simp]: "signs_all demo_tokens"
  by (simp add: signs_all_def demo_tokens_def NewTokenService_def plain_jwt_def)

lemma demo_tokens_jwt [simp]: "ts_jwt demo_tokens = plain_jwt"
  by (simp add: demo_tokens_def NewTokenService_def)

lemma demo_roles:
  "AuthService_rolesForTenant demo_auth ''u1'' ''t1'' demo_db = Inr [''member'', ''editor'', ''reviewer'']"
  by (simp add: AuthService_rolesForTenant_def demo_auth_def demo_db_def repo_simps eval_mapper conv_simps
      TenantStatusActive_def)

lemma demo_login:
  "\<exists>res. AuthService_Login demo_auth (5, 6) ''ann'' ''pw'' ''t1'' demo_db = Inr res \<and>
     ar_Roles res = [''member'', ''editor'', ''reviewer''] \<and> user_ID (ar_User res) = ''u1''"
proof -
  have f: "UserRepository_FindByEmail (as_users demo_auth) ''ann'' demo_db = Inr \<lparr>user_ID = ''u1'',
      user_Email = ''ann'', user_PasswordHash = ''$2a$pw'', user_CreatedAt = 0, user_UpdatedAt = 0\<rparr>"
    by (simp add: demo_auth_def demo_db_def userRepository_FindByEmail_def eval_mapper conv_simps)
  have v: "PasswordHasher_Verify (as_hasher demo_auth) ''$2a$pw'' ''pw''"
    by (simp add: demo_auth_def PasswordHasher_Verify_def NewPasswordHasher_def plain_bcrypt_def)
  have "\<exists>res. AuthService_issueTokens demo_auth (5, 6) \<lparr>user_ID = ''u1'', user_Email = ''ann'',
      user_PasswordHash = ''$2a$pw'', user_CreatedAt = 0, user_UpdatedAt = 0\<rparr> ''t1''
      [''member'', ''editor'', ''reviewer''] = Inr res"
    by (rule issueTokens_total) (simp add: demo_auth_def)
  then obtain res where i: "AuthService_issueTokens demo_auth (5, 6) \<lparr>user_ID = ''u1'', user_Email = ''ann'',
      user_PasswordHash = ''$2a$pw'', user_CreatedAt = 0, user_UpdatedAt = 0\<rparr> ''t1''
      [''member'', ''editor'', ''reviewer''] = Inr res" ..
  then show ?thesis using f v issueTokens_ok [OF i] by (simp add: AuthService_Login_def demo_roles)
qed

section \<open>Properties\<close>

text \<open>C1: Tenant isolation. Every role of a session for a tenant comes from the user's membership in
  that tenant or from a team of that tenant; the tenant is active and the user is its member.\<close>

theorem login_roles_isolated:
  assumes "database G"
    and "AuthService_Login (main_auth G lib tokens) clock email pw t d = Inr res" and "t \<noteq> []"
  shows "(\<forall>r\<in>set (ar_Roles res). role_in_tenant d (user_ID (ar_User res)) t r) \<and>
         (\<exists>tn\<in>db_tenants d. tenant_ID tn = t \<and> tenant_Status tn = TenantStatusActive) \<and>
         (\<exists>m\<in>db_memberships d. mem_UserID m = user_ID (ar_User res) \<and> mem_TenantID m = t)"
proof -
  obtain user where i: "AuthService_issueTokens (main_auth G lib tokens) clock user t (ar_Roles res) = Inr res"
    and r: "AuthService_rolesForTenant (main_auth G lib tokens) (user_ID user) t d = Inr (ar_Roles res)"
    using Login_ok [OF assms(2)] assms(3) by metis
  have "ar_User res = user" using issueTokens_ok [OF i] by simp
  then show ?thesis
    using database.rolesForTenant_isolated [OF assms(1) r] database.rolesForTenant_active_member [OF assms(1) r]
    by simp
qed

theorem login_roles_isolated_witness:
  "\<exists>res. AuthService_Login demo_auth (5, 6) ''ann'' ''pw'' ''t1'' demo_db = Inr res \<and>
     ar_Roles res = [''member'', ''editor'', ''reviewer''] \<and>
     (\<forall>r\<in>set (ar_Roles res). role_in_tenant demo_db ''u1'' ''t1'' r)"
proof -
  obtain res where r: "AuthService_Login demo_auth (5, 6) ''ann'' ''pw'' ''t1'' demo_db = Inr res"
    "ar_Roles res = [''member'', ''editor'', ''reviewer'']" "user_ID (ar_User res) = ''u1''"
    using demo_login by blast
  show ?thesis using login_roles_isolated [OF mem_database r(1) [unfolded demo_auth_def]] r by auto
qed

text \<open>C4: Session round trip. The access token and the refresh token of a login both authenticate
  until they expire, and \<open>RequireAuth\<close> then puts the user, the tenant and the roles of the login
  into the request context (so a refresh token is accepted wherever an access token is).\<close>

theorem login_session_roundtrip:
  assumes "jwt_library (ts_jwt (as_tokens s))"
    and "AuthService_Login s (n1, n2) email pw t w = Inr res"
    and "now < jwt_NewNumericDate (n1 + ts_accessTokenTTL (as_tokens s))"
    and "now < jwt_NewNumericDate (n2 + ts_refreshTokenTTL (as_tokens s))"
  shows "let i = \<lparr>ctx_userID = user_ID (ar_User res), ctx_tenantID = t, ctx_roles = ar_Roles res\<rparr> in
         RequireAuth (as_tokens s) now (''Bearer '' @ ar_AccessToken res) = Inr i \<and>
         RequireAuth (as_tokens s) now (''Bearer '' @ ar_RefreshToken res) = Inr i"
proof -
  obtain user where "AuthService_issueTokens s (n1, n2) user t (ar_Roles res) = Inr res"
    using Login_ok [OF assms(2)] by metis
  note ok = issueTokens_ok [OF this]
  have a: "TokenService_Parse (as_tokens s) now (ar_AccessToken res) =
      Inr (token_claims n1 (user_ID user) t (ar_Roles res) (ts_accessTokenTTL (as_tokens s)))"
    using ok by (intro jwt_library.Parse_generate [OF assms(1) _ _ assms(3)])
      (auto simp: TokenService_GenerateAccessToken_def)
  have b: "TokenService_Parse (as_tokens s) now (ar_RefreshToken res) =
      Inr (token_claims n2 (user_ID user) t (ar_Roles res) (ts_refreshTokenTTL (as_tokens s)))"
    using ok by (intro jwt_library.Parse_generate [OF assms(1) _ _ assms(4)])
      (auto simp: TokenService_GenerateRefreshToken_def)
  show ?thesis unfolding Let_def RequireAuth_bearer [OF a] RequireAuth_bearer [OF b]
    using ok by (simp add: token_claims_def)
qed

theorem login_session_roundtrip_witness:
  "\<exists>res. AuthService_Login demo_auth (5, 6) ''ann'' ''pw'' ''t1'' demo_db = Inr res \<and>
     RequireAuth demo_tokens 7 (''Bearer '' @ ar_RefreshToken res) =
       Inr \<lparr>ctx_userID = ''u1'', ctx_tenantID = ''t1'', ctx_roles = [''member'', ''editor'', ''reviewer'']\<rparr>"
proof -
  obtain res where r: "AuthService_Login demo_auth (5, 6) ''ann'' ''pw'' ''t1'' demo_db = Inr res"
    "ar_Roles res = [''member'', ''editor'', ''reviewer'']" "user_ID (ar_User res) = ''u1''"
    using demo_login by blast
  have j: "jwt_library (ts_jwt (as_tokens demo_auth))"
    by (simp add: demo_auth_def plain_jwt.jwt_library_axioms)
  show ?thesis
    using login_session_roundtrip [OF j r(1), of 7] r
    by (simp add: Let_def demo_auth_def demo_tokens_def NewTokenService_def jwt_NewNumericDate_def time_defs)
qed

text \<open>C5: Register, then log in. On a database that does not fail, with a hasher that recognises its
  hashes and a signer that always signs, whoever registered can log in with the same
  password, as the same user, with at least the roles the registration gave.\<close>

theorem register_then_login:
  assumes "reliable_database G" and "password_hasher lib" and "signs_all tokens"
    and "AuthService_Register (main_auth G lib tokens) salt clock email pw t d = (Inr res, d')"
  shows "\<exists>res'. AuthService_Login (main_auth G lib tokens) clock' email pw t d' = Inr res' \<and>
           ar_User res' = ar_User res \<and> ar_TenantID res' = t \<and> set (ar_Roles res) \<subseteq> set (ar_Roles res')"
  by (rule reliable_database.Register_Login [OF assms])

lemma demo_register:
  "\<exists>res d'. AuthService_Register demo_auth ''salt'' (5, 6) ''bob'' ''pw2'' ''t1'' demo_db = (Inr res, d') \<and>
     ar_Roles res = [''admin'']"
proof -
  let ?h = "''$2a$pw2''" and ?i = "fresh_id 1"
  let ?row = "\<lparr>um_ID = ?i, um_Email = ''bob'', um_PasswordHash = ?h, um_CreatedAt = zero_time, um_UpdatedAt = zero_time\<rparr>"
  let ?user = "\<lparr>user_ID = ?i, user_Email = ''bob'', user_PasswordHash = ?h,
      user_CreatedAt = zero_time, user_UpdatedAt = zero_time\<rparr>"
  let ?d1 = "demo_db\<lparr>t_users := t_users demo_db @ [?row]\<rparr>"
  have i: "?i = ''row-1''" by (simp add: fresh_id_def show_nat.simps char_of_def bit_simps)
  have h: "PasswordHasher_Hash (as_hasher demo_auth) ''salt'' ''pw2'' = Inr ?h"
    by (simp add: demo_auth_def PasswordHasher_Hash_def NewPasswordHasher_def plain_bcrypt_def)
  have c: "UserRepository_Create (as_users demo_auth) \<lparr>user_ID = [], user_Email = ''bob'',
      user_PasswordHash = ?h, user_CreatedAt = zero_time, user_UpdatedAt = zero_time\<rparr> demo_db = (Inr ?user, ?d1)"
    unfolding i by (simp add: demo_auth_def demo_db_def userRepository_Create_def eval_mapper conv_simps
        row_user_defs Let_def fresh_id_def show_nat.simps char_of_def bit_simps)
  have t: "TenantRepository_FindByID (as_tenants demo_auth) ''t1'' ?d1 = Inr \<lparr>tenant_ID = ''t1'', tenant_Name = ''One'',
      tenant_Slug = ''one'', tenant_Status = ''active'', tenant_CreatedAt = 0, tenant_UpdatedAt = 0\<rparr>"
    by (simp add: demo_auth_def demo_db_def tenantRepository_FindByID_def eval_mapper conv_simps)
  have m: "\<exists>m d'. MembershipRepository_Create (as_memberships demo_auth) \<lparr>mem_UserID = ?i, mem_TenantID = ''t1'',
      mem_Roles = [''admin''], mem_CreatedAt = zero_time, mem_UpdatedAt = zero_time\<rparr> ?d1 = (Inr m, d')"
    unfolding i by (simp add: demo_auth_def demo_db_def membershipRepository_Create_def eval_mapper conv_simps
        row_membership_defs Let_def)
  have iss: "\<exists>res. AuthService_issueTokens demo_auth (5, 6) ?user ''t1'' [''admin''] = Inr res"
    by (rule issueTokens_total) (simp add: demo_auth_def)
  show ?thesis using h c t m iss issueTokens_ok
    by (fastforce simp: AuthService_Register_def TenantStatusActive_def)
qed

theorem register_then_login_witness:
  "\<exists>res d' res'. AuthService_Register demo_auth ''salt'' (5, 6) ''bob'' ''pw2'' ''t1'' demo_db = (Inr res, d') \<and>
     AuthService_Login demo_auth (7, 8) ''bob'' ''pw2'' ''t1'' d' = Inr res' \<and> ''admin'' \<in> set (ar_Roles res')"
proof -
  obtain res d' where r: "AuthService_Register demo_auth ''salt'' (5, 6) ''bob'' ''pw2'' ''t1'' demo_db = (Inr res, d')"
    "ar_Roles res = [''admin'']" using demo_register by blast
  show ?thesis
    using register_then_login [OF mem_reliable plain_bcrypt.password_hasher_axioms signs_all_demo
        r(1) [unfolded demo_auth_def], of "(7, 8)"] r
    by (auto simp: demo_auth_def)
qed

text \<open>C7: Suspension takes effect at once. After a tenant is suspended neither login nor tenant
  switching issues a session for it, for any user.\<close>

theorem suspended_tenant_no_session:
  assumes "database G" and "TenantService_Suspend (NewTenantRepository G) t d = (Inr (), d')" and "t \<noteq> []"
  shows "AuthService_Login (main_auth G lib tokens) clock email pw t d' \<noteq> Inr res \<and>
         AuthService_SwitchTenant (main_auth G lib tokens) clock u t d' \<noteq> Inr res"
proof -
  have none: "AuthService_rolesForTenant (main_auth G lib tokens) v t d' \<noteq> Inr roles" for v roles
    using assms(2) database.rolesForTenant_suspended [OF assms(1), of t TenantStatusSuspended d d']
    by (simp add: TenantService_Suspend_def TenantStatus_defs)
  then have "AuthService_SwitchTenant (main_auth G lib tokens) clock u t d' \<noteq> Inr res"
    by (auto simp: AuthService_SwitchTenant_def split: sum.splits)
  moreover have "AuthService_Login (main_auth G lib tokens) clock email pw t d' \<noteq> Inr res"
    using none assms(3) by (metis Login_ok)
  ultimately show ?thesis by simp
qed

theorem suspended_tenant_no_session_witness:
  "\<exists>d'. TenantService_Suspend (NewTenantRepository mem_gorms) ''t1'' demo_db = (Inr (), d') \<and>
     (\<forall>res. AuthService_Login demo_auth (5, 6) ''ann'' ''pw'' ''t1'' d' \<noteq> Inr res)"
proof -
  obtain d' where d': "TenantService_Suspend (NewTenantRepository mem_gorms) ''t1'' demo_db = (Inr (), d')"
    by (simp add: TenantService_Suspend_def tenantRepository_UpdateStatus_def demo_db_def eval_mapper)
  show ?thesis
    using suspended_tenant_no_session [OF mem_database d', of plain_bcrypt demo_tokens "(5, 6)" "''ann''" "''pw''"] d'
    by (auto simp: demo_auth_def)
qed

text \<open>Leaving a tenant revokes it. After \<open>LeaveTenant\<close> the user cannot switch into the tenant.\<close>

theorem left_tenant_no_switch:
  assumes "database G" and "AuthService_LeaveTenant (main_auth G lib tokens) u t d = (Inr (), d')"
  shows "AuthService_SwitchTenant (main_auth G lib tokens) clock u t d' \<noteq> Inr res"
  using assms(2) database.rolesForTenant_left [OF assms(1), of u t d d']
  by (auto simp: AuthService_LeaveTenant_def AuthService_SwitchTenant_def split: sum.splits)

theorem left_tenant_no_switch_witness:
  "\<exists>d'. AuthService_LeaveTenant demo_auth ''u1'' ''t1'' demo_db = (Inr (), d') \<and>
     (\<forall>res. AuthService_SwitchTenant demo_auth (5, 6) ''u1'' ''t1'' d' \<noteq> Inr res)"
proof -
  obtain d' where d': "AuthService_LeaveTenant demo_auth ''u1'' ''t1'' demo_db = (Inr (), d')"
    by (simp add: AuthService_LeaveTenant_def membershipRepository_Delete_def demo_db_def demo_auth_def eval_mapper)
  show ?thesis using left_tenant_no_switch [OF mem_database d' [unfolded demo_auth_def], of "(5, 6)"] d'
    by (auto simp: demo_auth_def)
qed

text \<open>Registration grants administration. Whoever registers with the ID of a tenant and succeeds is
  its administrator, with \<open>users:write\<close>, whatever members the tenant already has.\<close>

theorem register_grants_admin:
  assumes "AuthService_Register s salt clock email pw t w = (Inr res, w')" and "t \<noteq> []"
  shows "ar_Roles res = [''admin''] \<and> RBACService_Allow (ar_Roles res) ''users:write''"
proof -
  have "ar_Roles res = [''admin'']"
    using assms by (auto simp: AuthService_Register_def split: sum.splits prod.splits if_splits dest: issueTokens_ok)
  then show ?thesis by (simp add: Allow_users)
qed

theorem register_grants_admin_witness:
  "(\<exists>m\<in>db_memberships demo_db. mem_TenantID m = ''t1'') \<and>
   (\<exists>res d'. AuthService_Register demo_auth ''salt'' (5, 6) ''bob'' ''pw2'' ''t1'' demo_db = (Inr res, d') \<and>
      RBACService_Allow (ar_Roles res) ''users:write'')"
proof
  show "\<exists>m\<in>db_memberships demo_db. mem_TenantID m = ''t1''"
    by (simp add: db_memberships_def demo_db_def fromMembershipModel_def)
  obtain res d' where r: "AuthService_Register demo_auth ''salt'' (5, 6) ''bob'' ''pw2'' ''t1'' demo_db = (Inr res, d')"
    using demo_register by blast
  have "RBACService_Allow (ar_Roles res) ''users:write''"
    by (rule conjunct2 [OF register_grants_admin [OF r]]) simp
  with r show "\<exists>res d'. AuthService_Register demo_auth ''salt'' (5, 6) ''bob'' ''pw2'' ''t1'' demo_db = (Inr res, d') \<and>
      RBACService_Allow (ar_Roles res) ''users:write''"
    by blast
qed

text \<open>Login does not tell accounts apart. An unknown address and a wrong password give the
  same error, before the tenant is looked at.\<close>

theorem login_hides_accounts:
  assumes "UserRepository_FindByEmail (as_users s) email w = Inl (IdErr ErrUserNotFound) \<or>
    (\<exists>u. UserRepository_FindByEmail (as_users s) email w = Inr u \<and>
       \<not> PasswordHasher_Verify (as_hasher s) (user_PasswordHash u) pw)"
  shows "AuthService_Login s clock email pw t w = Inl (IdErr ErrInvalidCredentials)"
  using assms by (auto simp: AuthService_Login_def)

theorem login_hides_accounts_witness:
  "AuthService_Login demo_auth (5, 6) ''eve'' ''pw'' ''t1'' demo_db = Inl (IdErr ErrInvalidCredentials) \<and>
   AuthService_Login demo_auth (5, 6) ''ann'' ''wrong'' ''t1'' demo_db = Inl (IdErr ErrInvalidCredentials)"
  by (intro conjI login_hides_accounts)
    (simp_all add: demo_auth_def demo_db_def userRepository_FindByEmail_def eval_mapper conv_simps
      PasswordHasher_Verify_def NewPasswordHasher_def plain_bcrypt_def)

text \<open>C11: Role lists in the membership table. What \<open>FindByUserAndTenant\<close> returns after \<open>UpdateRoles\<close>
  are the roles written iff none contains a comma and they are not the single empty name.\<close>

theorem membership_roles_readback:
  assumes "database G" and "membershipRepository_UpdateRoles G u t roles d = (Inr (), d')"
    and "membershipRepository_FindByUserAndTenant G u t d' = Inr m"
  shows "mem_Roles m = csv_roles roles \<and>
         (mem_Roles m = roles \<longleftrightarrow> (\<forall>r\<in>set roles. CHR '','' \<notin> set r) \<and> roles \<noteq> [[]])"
proof -
  have "mem_Roles m = csv_roles roles"
    using database.membership_roles_updated [OF assms] .
  then show ?thesis by (simp add: csv_roles_id)
qed

theorem membership_roles_readback_witness:
  "\<exists>d' m. membershipRepository_UpdateRoles mem_gorms ''u1'' ''t1'' [''member,admin''] demo_db = (Inr (), d') \<and>
     membershipRepository_FindByUserAndTenant mem_gorms ''u1'' ''t1'' d' = Inr m \<and>
     mem_Roles m = [''member'', ''admin'']"
proof -
  obtain d' m where
    d': "membershipRepository_UpdateRoles mem_gorms ''u1'' ''t1'' [''member,admin''] demo_db = (Inr (), d')"
      "membershipRepository_FindByUserAndTenant mem_gorms ''u1'' ''t1'' d' = Inr m"
    by (simp add: membershipRepository_UpdateRoles_def membershipRepository_FindByUserAndTenant_def
        demo_db_def eval_mapper conv_simps)
  show ?thesis using membership_roles_readback [OF mem_database d'] d' by (simp add: csv_roles_def)
qed

text \<open>C12: Accounts stay distinct. Registration, whether it succeeds or fails half-way, keeps user IDs
  and addresses pairwise different.\<close>

theorem register_keeps_users_unique:
  assumes "database G" and "unique_users (db_users d)"
    and "AuthService_Register (main_auth G lib tokens) salt clock email pw t d = (res, d')"
  shows "unique_users (db_users d')"
  by (rule database.Register_unique [OF assms(1,3,2)])

theorem register_keeps_users_unique_witness:
  "unique_users (db_users (snd (AuthService_Register demo_auth ''salt'' (5, 6) ''bob'' ''pw2'' ''t2'' demo_db)))"
proof -
  have u: "unique_users (db_users demo_db)" by (simp add: unique_users_def db_users_def demo_db_def)
  show ?thesis unfolding demo_auth_def
    by (rule register_keeps_users_unique [OF mem_database u surjective_pairing])
qed

end
