(* ===== verification/DomainExt.thy ===== *)
theory DomainExt
  imports Domain
begin

text \<open>
  Package \<open>domain\<close>, continued: the audit log (audit.go) and the authentication extensions
  (auth_ext.go), entities and repository interfaces. A method whose implementation reads
  the clock takes the reading as its first argument (the log's \<open>Create\<close> reads it three
  times). \<open>*time.Time\<close> is \<open>time option\<close>.
\<close>

section \<open>Audit log and data exports\<close>

type_synonym AuditEventType = string

record AuditLog =
  al_ID :: string
  al_TenantID :: string
  al_EventType :: AuditEventType
  al_ActorID :: string
  al_ActorType :: string
  al_ResourceType :: string
  al_ResourceID :: string
  al_Action :: string
  al_Before :: any_map
  al_After :: any_map
  al_Metadata :: any_map
  al_Timestamp :: time
  al_Hash :: string
  al_PrevHash :: string

record AuditLogFilter =
  af_TenantID :: string
  af_EventTypes :: "AuditEventType list"
  af_ActorID :: string
  af_ResourceType :: string
  af_ResourceID :: string
  af_StartTime :: time
  af_EndTime :: time
  af_Limit :: int
  af_Offset :: int
  af_SortOrder :: string

record 'w AuditLogRepository =
  AuditLogRepository_Create :: "time \<times> time \<times> time \<Rightarrow> AuditLog \<Rightarrow> 'w \<Rightarrow> (err + AuditLog) \<times> 'w"
  AuditLogRepository_FindByID :: "string \<Rightarrow> 'w \<Rightarrow> err + AuditLog"
  AuditLogRepository_List :: "AuditLogFilter \<Rightarrow> 'w \<Rightarrow> err + AuditLog list"
  AuditLogRepository_Count :: "AuditLogFilter \<Rightarrow> 'w \<Rightarrow> err + nat"
  AuditLogRepository_VerifyChain :: "string \<Rightarrow> time \<Rightarrow> 'w \<Rightarrow> err + bool"

record AuditExport =
  ae_RequestID :: string
  ae_UserID :: string
  ae_TenantID :: string
  ae_Email :: string
  ae_Data :: any_map
  ae_CreatedAt :: time
  ae_ExpiresAt :: time
  ae_Status :: string

record 'w AuditExportRepository =
  AuditExportRepository_Create :: "AuditExport \<Rightarrow> 'w \<Rightarrow> (err + AuditExport) \<times> 'w"
  AuditExportRepository_FindByID :: "string \<Rightarrow> 'w \<Rightarrow> err + AuditExport"
  AuditExportRepository_FindByEmailAndStatus :: "string \<Rightarrow> string \<Rightarrow> 'w \<Rightarrow> err + AuditExport option"
  AuditExportRepository_Update :: "AuditExport \<Rightarrow> 'w \<Rightarrow> (err + unit) \<times> 'w"
  AuditExportRepository_DeleteExpired :: "time \<Rightarrow> 'w \<Rightarrow> (err + unit) \<times> 'w"

section \<open>External identity providers\<close>

record OAuth2Provider =
  op_ID :: string
  op_TenantID :: string
  op_Name :: string
  op_ClientID :: string
  op_ClientSecret :: string
  op_AuthURL :: string
  op_TokenURL :: string
  op_UserInfoURL :: string
  op_Scopes :: "string list"
  op_IssuerURL :: string
  op_ProviderType :: string
  op_Enabled :: bool
  op_CreatedAt :: time
  op_UpdatedAt :: time

record 'w OAuth2ProviderRepository =
  OAuth2ProviderRepository_Create :: "OAuth2Provider \<Rightarrow> 'w \<Rightarrow> (err + OAuth2Provider) \<times> 'w"
  OAuth2ProviderRepository_FindByID :: "string \<Rightarrow> 'w \<Rightarrow> err + OAuth2Provider"
  OAuth2ProviderRepository_FindByTenant :: "string \<Rightarrow> 'w \<Rightarrow> err + OAuth2Provider list"
  OAuth2ProviderRepository_FindByTenantAndName :: "string \<Rightarrow> string \<Rightarrow> 'w \<Rightarrow> err + OAuth2Provider"
  OAuth2ProviderRepository_Update :: "OAuth2Provider \<Rightarrow> 'w \<Rightarrow> (err + unit) \<times> 'w"
  OAuth2ProviderRepository_Delete :: "string \<Rightarrow> 'w \<Rightarrow> (err + unit) \<times> 'w"

record OAuth2State =
  os_ID :: string
  os_State :: string
  os_ProviderID :: string
  os_TenantID :: string
  os_RedirectURI :: string
  os_CodeChallenge :: string
  os_CodeChallengeMethod :: string
  os_ExpiresAt :: time
  os_CreatedAt :: time

record 'w OAuth2StateRepository =
  OAuth2StateRepository_Create :: "OAuth2State \<Rightarrow> 'w \<Rightarrow> (err + OAuth2State) \<times> 'w"
  OAuth2StateRepository_FindByState :: "string \<Rightarrow> 'w \<Rightarrow> err + OAuth2State option"
  OAuth2StateRepository_Delete :: "string \<Rightarrow> 'w \<Rightarrow> (err + unit) \<times> 'w"
  OAuth2StateRepository_DeleteExpired :: "time \<Rightarrow> 'w \<Rightarrow> (err + unit) \<times> 'w"

section \<open>Second factors\<close>

record MFAMethod =
  mfa_ID :: string
  mfa_UserID :: string
  mfa_TenantID :: string
  mfa_Type :: string
  mfa_Name :: string
  mfa_Secret :: string
  mfa_BackupCodes :: "string list"
  mfa_IsPrimary :: bool
  mfa_VerifiedAt :: "time option"
  mfa_LastUsedAt :: "time option"
  mfa_CreatedAt :: time
  mfa_UpdatedAt :: time

record 'w MFAMethodRepository =
  MFAMethodRepository_Create :: "MFAMethod \<Rightarrow> 'w \<Rightarrow> (err + MFAMethod) \<times> 'w"
  MFAMethodRepository_FindByID :: "string \<Rightarrow> 'w \<Rightarrow> err + MFAMethod"
  MFAMethodRepository_FindByUser :: "string \<Rightarrow> 'w \<Rightarrow> err + MFAMethod list"
  MFAMethodRepository_FindPrimaryByUser :: "string \<Rightarrow> 'w \<Rightarrow> err + MFAMethod option"
  MFAMethodRepository_Update :: "MFAMethod \<Rightarrow> 'w \<Rightarrow> (err + unit) \<times> 'w"
  MFAMethodRepository_Delete :: "string \<Rightarrow> 'w \<Rightarrow> (err + unit) \<times> 'w"

section \<open>One-time tokens and password policy\<close>

record MagicLink =
  ml_ID :: string
  ml_UserID :: string
  ml_TenantID :: string
  ml_Token :: string
  ml_ExpiresAt :: time
  ml_UsedAt :: "time option"
  ml_CreatedAt :: time

record 'w MagicLinkRepository =
  MagicLinkRepository_Create :: "MagicLink \<Rightarrow> 'w \<Rightarrow> (err + MagicLink) \<times> 'w"
  MagicLinkRepository_FindByToken :: "time \<Rightarrow> string \<Rightarrow> 'w \<Rightarrow> err + MagicLink"
  MagicLinkRepository_MarkUsed :: "time \<Rightarrow> string \<Rightarrow> 'w \<Rightarrow> (err + unit) \<times> 'w"
  MagicLinkRepository_DeleteExpired :: "time \<Rightarrow> 'w \<Rightarrow> (err + unit) \<times> 'w"

record PasswordPolicy =
  pp_TenantID :: string
  pp_MinLength :: int
  pp_RequireUppercase :: bool
  pp_RequireLowercase :: bool
  pp_RequireNumber :: bool
  pp_RequireSpecial :: bool
  pp_MaxAgeDays :: int
  pp_HistoryCount :: int
  pp_BreachCheckEnabled :: bool
  pp_LockoutThreshold :: int
  pp_LockoutDurationMin :: int
  pp_CreatedAt :: time
  pp_UpdatedAt :: time

record 'w PasswordPolicyRepository =
  PasswordPolicyRepository_Get :: "string \<Rightarrow> 'w \<Rightarrow> err + PasswordPolicy"
  PasswordPolicyRepository_Update :: "PasswordPolicy \<Rightarrow> 'w \<Rightarrow> (err + unit) \<times> 'w"

record FailedLoginAttempt =
  fl_ID :: string
  fl_Email :: string
  fl_TenantID :: string
  fl_IP :: string
  fl_Count :: int
  fl_LockedUntil :: "time option"
  fl_CreatedAt :: time
  fl_UpdatedAt :: time

record 'w FailedLoginAttemptRepository =
  FailedLoginAttemptRepository_Increment ::
    "time \<Rightarrow> string \<Rightarrow> string \<Rightarrow> string \<Rightarrow> 'w \<Rightarrow> (err + FailedLoginAttempt) \<times> 'w"
  FailedLoginAttemptRepository_Reset :: "string \<Rightarrow> string \<Rightarrow> string \<Rightarrow> 'w \<Rightarrow> (err + unit) \<times> 'w"
  FailedLoginAttemptRepository_Find ::
    "string \<Rightarrow> string \<Rightarrow> string \<Rightarrow> 'w \<Rightarrow> err + FailedLoginAttempt option"

record PasswordResetToken =
  prt_ID :: string
  prt_UserID :: string
  prt_TenantID :: string
  prt_Token :: string
  prt_ExpiresAt :: time
  prt_UsedAt :: "time option"
  prt_CreatedAt :: time

record 'w PasswordResetTokenRepository =
  PasswordResetTokenRepository_Create :: "PasswordResetToken \<Rightarrow> 'w \<Rightarrow> (err + PasswordResetToken) \<times> 'w"
  PasswordResetTokenRepository_FindByToken :: "time \<Rightarrow> string \<Rightarrow> 'w \<Rightarrow> err + PasswordResetToken"
  PasswordResetTokenRepository_MarkUsed :: "time \<Rightarrow> string \<Rightarrow> 'w \<Rightarrow> (err + unit) \<times> 'w"
  PasswordResetTokenRepository_DeleteExpired :: "time \<Rightarrow> 'w \<Rightarrow> (err + unit) \<times> 'w"

record EmailVerificationToken =
  evt_ID :: string
  evt_UserID :: string
  evt_TenantID :: string
  evt_Email :: string
  evt_Token :: string
  evt_ExpiresAt :: time
  evt_VerifiedAt :: "time option"
  evt_CreatedAt :: time

record 'w EmailVerificationTokenRepository =
  EmailVerificationTokenRepository_Create ::
    "EmailVerificationToken \<Rightarrow> 'w \<Rightarrow> (err + EmailVerificationToken) \<times> 'w"
  EmailVerificationTokenRepository_FindByToken ::
    "time \<Rightarrow> string \<Rightarrow> 'w \<Rightarrow> err + EmailVerificationToken"
  EmailVerificationTokenRepository_MarkVerified :: "time \<Rightarrow> string \<Rightarrow> 'w \<Rightarrow> (err + unit) \<times> 'w"
  EmailVerificationTokenRepository_DeleteExpired :: "time \<Rightarrow> 'w \<Rightarrow> (err + unit) \<times> 'w"

section \<open>Hoviyat as identity provider\<close>

record OAuth2Client =
  oc_ID :: string
  oc_TenantID :: string
  oc_Name :: string
  oc_ClientID :: string
  oc_ClientSecret :: string
  oc_RedirectURIs :: "string list"
  oc_Scopes :: "string list"
  oc_GrantTypes :: "string list"
  oc_ResponseTypes :: "string list"
  oc_TokenEndpointAuthMethod :: string
  oc_LogoURI :: string
  oc_ClientURI :: string
  oc_PolicyURI :: string
  oc_TOSURI :: string
  oc_JWKSURI :: string
  oc_Contacts :: "string list"
  oc_Enabled :: bool
  oc_CreatedAt :: time
  oc_UpdatedAt :: time
  oc_CreatedBy :: string

record 'w OAuth2ClientRepository =
  OAuth2ClientRepository_Create :: "OAuth2Client \<Rightarrow> 'w \<Rightarrow> (err + OAuth2Client) \<times> 'w"
  OAuth2ClientRepository_FindByID :: "string \<Rightarrow> 'w \<Rightarrow> err + OAuth2Client"
  OAuth2ClientRepository_FindByClientID :: "string \<Rightarrow> 'w \<Rightarrow> err + OAuth2Client"
  OAuth2ClientRepository_FindByTenant :: "string \<Rightarrow> 'w \<Rightarrow> err + OAuth2Client list"
  OAuth2ClientRepository_Update :: "OAuth2Client \<Rightarrow> 'w \<Rightarrow> (err + unit) \<times> 'w"
  OAuth2ClientRepository_Delete :: "string \<Rightarrow> 'w \<Rightarrow> (err + unit) \<times> 'w"

record OAuth2AuthorizationCode =
  ac_ID :: string
  ac_ClientID :: string
  ac_UserID :: string
  ac_TenantID :: string
  ac_RedirectURI :: string
  ac_Scopes :: "string list"
  ac_CodeChallenge :: string
  ac_CodeChallengeMethod :: string
  ac_Nonce :: string
  ac_ExpiresAt :: time
  ac_CreatedAt :: time

text \<open>\<open>FindByCode\<close> deletes a code it finds expired, so it returns the world.\<close>

record 'w OAuth2AuthorizationCodeRepository =
  OAuth2AuthorizationCodeRepository_Create ::
    "OAuth2AuthorizationCode \<Rightarrow> 'w \<Rightarrow> (err + OAuth2AuthorizationCode) \<times> 'w"
  OAuth2AuthorizationCodeRepository_FindByCode ::
    "time \<Rightarrow> string \<Rightarrow> 'w \<Rightarrow> (err + OAuth2AuthorizationCode option) \<times> 'w"
  OAuth2AuthorizationCodeRepository_Delete :: "string \<Rightarrow> 'w \<Rightarrow> (err + unit) \<times> 'w"
  OAuth2AuthorizationCodeRepository_DeleteExpired :: "time \<Rightarrow> 'w \<Rightarrow> (err + unit) \<times> 'w"

record OAuth2Consent =
  con_ID :: string
  con_UserID :: string
  con_ClientID :: string
  con_TenantID :: string
  con_Scopes :: "string list"
  con_ExpiresAt :: "time option"
  con_CreatedAt :: time
  con_UpdatedAt :: time

record 'w OAuth2ConsentRepository =
  OAuth2ConsentRepository_Create :: "OAuth2Consent \<Rightarrow> 'w \<Rightarrow> (err + OAuth2Consent) \<times> 'w"
  OAuth2ConsentRepository_FindByUserAndClient ::
    "time \<Rightarrow> string \<Rightarrow> string \<Rightarrow> 'w \<Rightarrow> err + OAuth2Consent option"
  OAuth2ConsentRepository_FindByUser :: "time \<Rightarrow> string \<Rightarrow> 'w \<Rightarrow> err + OAuth2Consent list"
  OAuth2ConsentRepository_Update :: "OAuth2Consent \<Rightarrow> 'w \<Rightarrow> (err + unit) \<times> 'w"
  OAuth2ConsentRepository_Delete :: "string \<Rightarrow> string \<Rightarrow> 'w \<Rightarrow> (err + unit) \<times> 'w"

record SigningKey =
  sk_ID :: string
  sk_KeyID :: string
  sk_Algorithm :: string
  sk_PrivateKey :: string
  sk_PublicKey :: string
  sk_IsActive :: bool
  sk_CreatedAt :: time
  sk_ExpiresAt :: "time option"

record 'w SigningKeyRepository =
  SigningKeyRepository_Create :: "SigningKey \<Rightarrow> 'w \<Rightarrow> (err + SigningKey) \<times> 'w"
  SigningKeyRepository_FindActive :: "time \<Rightarrow> 'w \<Rightarrow> err + SigningKey option"
  SigningKeyRepository_FindByID :: "string \<Rightarrow> 'w \<Rightarrow> err + SigningKey option"
  SigningKeyRepository_FindByKeyID :: "string \<Rightarrow> 'w \<Rightarrow> err + SigningKey option"
  SigningKeyRepository_List :: "'w \<Rightarrow> err + SigningKey list"
  SigningKeyRepository_Update :: "SigningKey \<Rightarrow> 'w \<Rightarrow> (err + unit) \<times> 'w"

end
