(* ===== verification/Sha256.thy ===== *)
theory Sha256
  imports Codec "HOL-Library.Word"
begin

unbundle bit_operations_syntax

text \<open>
  \<open>crypto/sha256.Sum256\<close> of the standard library (FIPS 180-4), on strings of bytes: padding, the
  message schedule and the 64 rounds over 32-bit words. The proofs use nothing of it but that it is
  a function; what would need collision resistance is stated with the collision in the conclusion.
\<close>

type_synonym w32 = "32 word"

definition sha256_K :: "w32 list" where
  "sha256_K = [
     1116352408, 1899447441, 3049323471, 3921009573, 961987163, 1508970993,
     2453635748, 2870763221, 3624381080, 310598401, 607225278, 1426881987,
     1925078388, 2162078206, 2614888103, 3248222580, 3835390401, 4022224774,
     264347078, 604807628, 770255983, 1249150122, 1555081692, 1996064986,
     2554220882, 2821834349, 2952996808, 3210313671, 3336571891, 3584528711,
     113926993, 338241895, 666307205, 773529912, 1294757372, 1396182291,
     1695183700, 1986661051, 2177026350, 2456956037, 2730485921, 2820302411,
     3259730800, 3345764771, 3516065817, 3600352804, 4094571909, 275423344,
     430227734, 506948616, 659060556, 883997877, 958139571, 1322822218,
     1537002063, 1747873779, 1955562222, 2024104815, 2227730452, 2361852424,
     2428436474, 2756734187, 3204031479, 3329325298]"

definition sha256_init :: "w32 list" where
  "sha256_init = [
     1779033703, 3144134277, 1013904242, 2773480762, 1359893119, 2600822924,
     528734635, 1541459225]"

definition sha256_pad :: "string \<Rightarrow> nat list" where
  "sha256_pad s =
     (let bs = map of_char s; l = length s; z = (119 - l mod 64) mod 64
      in bs @ [128] @ replicate z 0 @ map (\<lambda>i. (8 * l) div 256 ^ i mod 256) (rev [0..<8]))"

fun be_words :: "nat list \<Rightarrow> w32 list" where
  "be_words (a # b # c # d # rest) = of_nat (((a * 256 + b) * 256 + c) * 256 + d) # be_words rest"
| "be_words _ = []"

definition sigma0 :: "w32 \<Rightarrow> w32" where
  "sigma0 x = word_rotr 7 x XOR word_rotr 18 x XOR drop_bit 3 x"

definition sigma1 :: "w32 \<Rightarrow> w32" where
  "sigma1 x = word_rotr 17 x XOR word_rotr 19 x XOR drop_bit 10 x"

text \<open>The schedule, latest word first.\<close>

fun sha256_extend :: "nat \<Rightarrow> w32 list \<Rightarrow> w32 list" where
  "sha256_extend 0 ws = ws"
| "sha256_extend (Suc n) ws =
     sha256_extend n ((sigma1 (ws ! 1) + ws ! 6 + sigma0 (ws ! 14) + ws ! 15) # ws)"

fun sha256_round :: "w32 list \<Rightarrow> w32 \<times> w32 \<Rightarrow> w32 list" where
  "sha256_round [a, b, c, d, e, f, g, h] (k, w) =
     (let s1 = word_rotr 6 e XOR word_rotr 11 e XOR word_rotr 25 e;
          ch = (e AND f) XOR (NOT e AND g);
          t1 = h + s1 + ch + k + w;
          s0 = word_rotr 2 a XOR word_rotr 13 a XOR word_rotr 22 a;
          maj = (a AND b) XOR (a AND c) XOR (b AND c)
      in [t1 + s0 + maj, a, b, c, d + t1, e, f, g])"
| "sha256_round st _ = st"

definition sha256_block :: "w32 list \<Rightarrow> w32 list \<Rightarrow> w32 list" where
  "sha256_block st ws =
     map2 (+) st (foldl sha256_round st (zip sha256_K (rev (sha256_extend 48 (rev ws)))))"

fun sha256_blocks :: "nat \<Rightarrow> w32 list \<Rightarrow> w32 list \<Rightarrow> w32 list" where
  "sha256_blocks 0 st ws = st"
| "sha256_blocks (Suc n) st ws = sha256_blocks n (sha256_block st (take 16 ws)) (drop 16 ws)"

definition word_bytes :: "w32 \<Rightarrow> string" where
  "word_bytes w = map (\<lambda>i. char_of (unat w div 256 ^ i mod 256)) (rev [0..<4])"

definition sha256_Sum256 :: "string \<Rightarrow> string" where
  "sha256_Sum256 s =
     (let ws = be_words (sha256_pad s)
      in concat (map word_bytes (sha256_blocks (length ws div 16) sha256_init ws)))"

text \<open>The digest has 32 bytes.\<close>

lemma length_sha256_round [simp]: "length (sha256_round st p) = length st"
  by (cases "(st, p)" rule: sha256_round.cases) (auto simp: Let_def)

lemma length_sha256_rounds: "length (foldl sha256_round st ps) = length st"
  by (induction ps arbitrary: st) auto

lemma length_sha256_blocks: "length (sha256_blocks n st ws) = length st"
  by (induction n arbitrary: st ws) (auto simp: sha256_block_def length_sha256_rounds)

lemma length_sha256 [simp]: "length (sha256_Sum256 s) = 32"
proof -
  have "length (concat (map word_bytes xs)) = 4 * length xs" for xs
    by (induction xs) (auto simp: word_bytes_def)
  then show ?thesis by (simp add: sha256_Sum256_def Let_def length_sha256_blocks sha256_init_def)
qed

definition hex_sha256 :: "string \<Rightarrow> string" where
  "hex_sha256 s = hex_EncodeToString (sha256_Sum256 s)"

lemma length_hex_sha256 [simp]: "length (hex_sha256 s) = 64"
  by (simp add: hex_sha256_def)

end
