(* ===== verification/RepoAuth.thy ===== *)
theory RepoAuth
  imports Database DomainExt Contracts Sha256
begin

text \<open>
  auth_ext_repository.go over the database: magic links, password policies, failed logins,
  password-reset and email-verification tokens. A token is stored as the hexadecimal SHA-256 of
  its text, and read back without it.
\<close>

definition hashToken :: "string \<Rightarrow> string" where
  "hashToken token = hex_EncodeToString (sha256_Sum256 token)"

section \<open>Magic links\<close>

definition toMagicLinkModel :: "MagicLink \<Rightarrow> magicLinkModel" where [conv_simps]:
  "toMagicLinkModel x = \<lparr>
     mlm_ID = ml_ID x, mlm_UserID = ml_UserID x, mlm_TenantID = ml_TenantID x,
     mlm_TokenHash = hashToken (ml_Token x), mlm_ExpiresAt = ml_ExpiresAt x, mlm_UsedAt = None,
     mlm_CreatedAt = zero_time\<rparr>"

definition fromMagicLinkModel :: "magicLinkModel \<Rightarrow> MagicLink" where [conv_simps]:
  "fromMagicLinkModel m = \<lparr>
     ml_ID = mlm_ID m, ml_UserID = mlm_UserID m, ml_TenantID = mlm_TenantID m, ml_Token = [],
     ml_ExpiresAt = mlm_ExpiresAt m, ml_UsedAt = mlm_UsedAt m, ml_CreatedAt = mlm_CreatedAt m\<rparr>"

definition magicLinkRepository_Create ::
    "gorms \<Rightarrow> MagicLink \<Rightarrow> db \<Rightarrow> (err + MagicLink) \<times> db" where [repo_simps]:
  "magicLinkRepository_Create G ml d =
     (case g_Create (gorm_magic_links G) (toMagicLinkModel ml) (t_magic_links d) of
        (Inl e, t) \<Rightarrow> (Inl (GormErr e), d\<lparr>t_magic_links := t\<rparr>)
      | (Inr m, t) \<Rightarrow>
          (Inr (ml\<lparr>ml_ID := mlm_ID m, ml_CreatedAt := mlm_CreatedAt m\<rparr>),
           d\<lparr>t_magic_links := t\<rparr>))"

definition magicLinkRepository_FindByToken ::
    "gorms \<Rightarrow> time \<Rightarrow> string \<Rightarrow> db \<Rightarrow> err + MagicLink" where [repo_simps]:
  "magicLinkRepository_FindByToken G now token d =
     (case g_First (gorm_magic_links G) (\<lambda>m. mlm_TokenHash m = hashToken token) (t_magic_links d) of
        Inl e \<Rightarrow> Inl (if e = gorm_ErrRecordNotFound then ExtErr ErrMagicLinkNotFound else GormErr e)
      | Inr m \<Rightarrow>
          (if mlm_UsedAt m \<noteq> None then Inl (ExtErr ErrMagicLinkUsed)
          else if time_After now (mlm_ExpiresAt m) then Inl (ExtErr ErrMagicLinkExpired)
           else Inr (fromMagicLinkModel m)))"

definition magicLinkRepository_MarkUsed ::
    "gorms \<Rightarrow> time \<Rightarrow> string \<Rightarrow> db \<Rightarrow> (err + unit) \<times> db" where [repo_simps]:
  "magicLinkRepository_MarkUsed G now uid d =
     (case g_Update (gorm_magic_links G) (\<lambda>m. mlm_ID m = uid) (\<lambda>m. m\<lparr>mlm_UsedAt := Some now\<rparr>) (t_magic_links d) of
        (Inl e, t) \<Rightarrow> (Inl (GormErr e), d\<lparr>t_magic_links := t\<rparr>)
      | (Inr n, t) \<Rightarrow> (Inr (), d\<lparr>t_magic_links := t\<rparr>))"

definition magicLinkRepository_DeleteExpired ::
    "gorms \<Rightarrow> time \<Rightarrow> db \<Rightarrow> (err + unit) \<times> db" where [repo_simps]:
  "magicLinkRepository_DeleteExpired G now d =
     (case g_Delete (gorm_magic_links G) (\<lambda>m. mlm_ExpiresAt m < now) (t_magic_links d) of
        (Inl e, t) \<Rightarrow> (Inl (GormErr e), d\<lparr>t_magic_links := t\<rparr>)
      | (Inr n, t) \<Rightarrow> (Inr (), d\<lparr>t_magic_links := t\<rparr>))"

definition NewMagicLinkRepository :: "gorms \<Rightarrow> db MagicLinkRepository" where
  "NewMagicLinkRepository G = \<lparr>
     MagicLinkRepository_Create = magicLinkRepository_Create G,
     MagicLinkRepository_FindByToken = magicLinkRepository_FindByToken G,
     MagicLinkRepository_MarkUsed = magicLinkRepository_MarkUsed G,
     MagicLinkRepository_DeleteExpired = magicLinkRepository_DeleteExpired G\<rparr>"

section \<open>Password policies\<close>

definition toPasswordPolicyModel :: "PasswordPolicy \<Rightarrow> passwordPolicyModel" where [conv_simps]:
  "toPasswordPolicyModel x = \<lparr>
     ppm_TenantID = pp_TenantID x, ppm_MinLength = pp_MinLength x,
     ppm_RequireUppercase = pp_RequireUppercase x, ppm_RequireLowercase = pp_RequireLowercase x,
     ppm_RequireNumber = pp_RequireNumber x, ppm_RequireSpecial = pp_RequireSpecial x,
     ppm_MaxAgeDays = pp_MaxAgeDays x, ppm_HistoryCount = pp_HistoryCount x,
     ppm_BreachCheckEnabled = pp_BreachCheckEnabled x,
     ppm_LockoutThreshold = pp_LockoutThreshold x,
     ppm_LockoutDurationMin = pp_LockoutDurationMin x, ppm_CreatedAt = zero_time,
     ppm_UpdatedAt = zero_time\<rparr>"

definition fromPasswordPolicyModel :: "passwordPolicyModel \<Rightarrow> PasswordPolicy" where [conv_simps]:
  "fromPasswordPolicyModel m = \<lparr>
     pp_TenantID = ppm_TenantID m, pp_MinLength = ppm_MinLength m,
     pp_RequireUppercase = ppm_RequireUppercase m, pp_RequireLowercase = ppm_RequireLowercase m,
     pp_RequireNumber = ppm_RequireNumber m, pp_RequireSpecial = ppm_RequireSpecial m,
     pp_MaxAgeDays = ppm_MaxAgeDays m, pp_HistoryCount = ppm_HistoryCount m,
     pp_BreachCheckEnabled = ppm_BreachCheckEnabled m,
     pp_LockoutThreshold = ppm_LockoutThreshold m,
     pp_LockoutDurationMin = ppm_LockoutDurationMin m, pp_CreatedAt = ppm_CreatedAt m,
     pp_UpdatedAt = ppm_UpdatedAt m\<rparr>"

definition default_password_policy :: "string \<Rightarrow> PasswordPolicy" where
  "default_password_policy tenantID = \<lparr>
     pp_TenantID = tenantID, pp_MinLength = 8, pp_RequireUppercase = False, pp_RequireLowercase = False,
     pp_RequireNumber = False, pp_RequireSpecial = False, pp_MaxAgeDays = 0, pp_HistoryCount = 5,
     pp_BreachCheckEnabled = True, pp_LockoutThreshold = 5, pp_LockoutDurationMin = 15,
     pp_CreatedAt = zero_time, pp_UpdatedAt = zero_time\<rparr>"

definition passwordPolicyRepository_Get :: "gorms \<Rightarrow> string \<Rightarrow> db \<Rightarrow> err + PasswordPolicy" where [repo_simps]:
  "passwordPolicyRepository_Get G tenantID d =
     (case g_First (gorm_password_policies G) (\<lambda>m. ppm_TenantID m = tenantID) (t_password_policies d) of
        Inl e \<Rightarrow> (if e = gorm_ErrRecordNotFound then Inr (default_password_policy tenantID) else Inl (GormErr e))
      | Inr m \<Rightarrow> Inr (fromPasswordPolicyModel m))"

definition passwordPolicyRepository_Update ::
    "gorms \<Rightarrow> PasswordPolicy \<Rightarrow> db \<Rightarrow> (err + unit) \<times> db" where [repo_simps]:
  "passwordPolicyRepository_Update G p d =
     (case g_Upsert (gorm_password_policies G) (toPasswordPolicyModel p) (t_password_policies d) of
        (Inl e, t) \<Rightarrow> (Inl (GormErr e), d\<lparr>t_password_policies := t\<rparr>)
      | (Inr m, t) \<Rightarrow> (Inr (), d\<lparr>t_password_policies := t\<rparr>))"

definition NewPasswordPolicyRepository :: "gorms \<Rightarrow> db PasswordPolicyRepository" where
  "NewPasswordPolicyRepository G = \<lparr>
     PasswordPolicyRepository_Get = passwordPolicyRepository_Get G,
     PasswordPolicyRepository_Update = passwordPolicyRepository_Update G\<rparr>"

section \<open>Failed logins\<close>

definition fromFailedLoginAttemptModel :: "failedLoginAttemptModel \<Rightarrow> FailedLoginAttempt" where [conv_simps]:
  "fromFailedLoginAttemptModel m = \<lparr>
     fl_ID = flm_ID m, fl_Email = flm_Email m, fl_TenantID = flm_TenantID m, fl_IP = flm_IP m,
     fl_Count = flm_Count m, fl_LockedUntil = flm_LockedUntil m, fl_CreatedAt = flm_CreatedAt m,
     fl_UpdatedAt = flm_UpdatedAt m\<rparr>"

definition failedLoginAttemptRepository_Increment ::
    "gorms \<Rightarrow> time \<Rightarrow> string \<Rightarrow> string \<Rightarrow> string \<Rightarrow> db \<Rightarrow> (err + FailedLoginAttempt) \<times> db" where [repo_simps]:
  "failedLoginAttemptRepository_Increment G now email tenantID ip d =
     (case g_First (gorm_failed_login_attempts G)
             (\<lambda>m. flm_Email m = email \<and> flm_TenantID m = tenantID \<and> flm_IP m = ip) (t_failed_login_attempts d) of
        Inl e \<Rightarrow>
          (if e = gorm_ErrRecordNotFound then
             (let m = \<lparr>flm_ID = [], flm_Email = email, flm_TenantID = tenantID, flm_IP = ip, flm_Count = 1,
                       flm_LockedUntil = None, flm_CreatedAt = zero_time, flm_UpdatedAt = zero_time\<rparr>
              in case g_Create (gorm_failed_login_attempts G) m (t_failed_login_attempts d) of
                   (Inl e', t) \<Rightarrow> (Inl (GormErr e'), d\<lparr>t_failed_login_attempts := t\<rparr>)
                 | (Inr m', t) \<Rightarrow>
                     (Inr (fromFailedLoginAttemptModel m'), d\<lparr>t_failed_login_attempts := t\<rparr>))
           else (Inl (GormErr e), d))
      | Inr m \<Rightarrow>
          (let m1 = m\<lparr>flm_Count := flm_Count m + 1\<rparr>;
               m2 = (case flm_LockedUntil m1 of
                       None \<Rightarrow> m1
                     | Some u \<Rightarrow> if time_After now u then m1\<lparr>flm_LockedUntil := None\<rparr> else m1)
           in case g_Save (gorm_failed_login_attempts G) m2 (t_failed_login_attempts d) of
                (Inl e, t) \<Rightarrow> (Inl (GormErr e), d\<lparr>t_failed_login_attempts := t\<rparr>)
              | (Inr m', t) \<Rightarrow>
                  (Inr (fromFailedLoginAttemptModel m'), d\<lparr>t_failed_login_attempts := t\<rparr>)))"

definition failedLoginAttemptRepository_Reset ::
    "gorms \<Rightarrow> string \<Rightarrow> string \<Rightarrow> string \<Rightarrow> db \<Rightarrow> (err + unit) \<times> db" where [repo_simps]:
  "failedLoginAttemptRepository_Reset G email tenantID ip d =
     (case g_Delete (gorm_failed_login_attempts G) (\<lambda>m. flm_Email m = email \<and> flm_TenantID m = tenantID \<and> flm_IP m = ip) (t_failed_login_attempts d) of
        (Inl e, t) \<Rightarrow> (Inl (GormErr e), d\<lparr>t_failed_login_attempts := t\<rparr>)
      | (Inr n, t) \<Rightarrow> (Inr (), d\<lparr>t_failed_login_attempts := t\<rparr>))"

definition failedLoginAttemptRepository_Find ::
    "gorms \<Rightarrow> string \<Rightarrow> string \<Rightarrow> string \<Rightarrow> db \<Rightarrow> err + FailedLoginAttempt option" where [repo_simps]:
  "failedLoginAttemptRepository_Find G email tenantID ip d =
     (case g_First (gorm_failed_login_attempts G) (\<lambda>m. flm_Email m = email \<and> flm_TenantID m = tenantID \<and> flm_IP m = ip) (t_failed_login_attempts d) of
        Inl e \<Rightarrow> (if e = gorm_ErrRecordNotFound then Inr None else Inl (GormErr e))
      | Inr m \<Rightarrow> Inr (Some (fromFailedLoginAttemptModel m)))"

definition NewFailedLoginAttemptRepository :: "gorms \<Rightarrow> db FailedLoginAttemptRepository" where
  "NewFailedLoginAttemptRepository G = \<lparr>
     FailedLoginAttemptRepository_Increment = failedLoginAttemptRepository_Increment G,
     FailedLoginAttemptRepository_Reset = failedLoginAttemptRepository_Reset G,
     FailedLoginAttemptRepository_Find = failedLoginAttemptRepository_Find G\<rparr>"

section \<open>Password-reset tokens\<close>

definition toPasswordResetTokenModel :: "PasswordResetToken \<Rightarrow> passwordResetTokenModel" where [conv_simps]:
  "toPasswordResetTokenModel x = \<lparr>
     prm_ID = prt_ID x, prm_UserID = prt_UserID x, prm_TenantID = prt_TenantID x,
     prm_TokenHash = hashToken (prt_Token x), prm_ExpiresAt = prt_ExpiresAt x, prm_UsedAt = None,
     prm_CreatedAt = zero_time\<rparr>"

definition fromPasswordResetTokenModel :: "passwordResetTokenModel \<Rightarrow> PasswordResetToken" where [conv_simps]:
  "fromPasswordResetTokenModel m = \<lparr>
     prt_ID = prm_ID m, prt_UserID = prm_UserID m, prt_TenantID = prm_TenantID m, prt_Token = [],
     prt_ExpiresAt = prm_ExpiresAt m, prt_UsedAt = prm_UsedAt m, prt_CreatedAt = prm_CreatedAt m\<rparr>"

definition passwordResetTokenRepository_Create ::
    "gorms \<Rightarrow> PasswordResetToken \<Rightarrow> db \<Rightarrow> (err + PasswordResetToken) \<times> db" where [repo_simps]:
  "passwordResetTokenRepository_Create G tk d =
     (case g_Create (gorm_password_reset_tokens G) (toPasswordResetTokenModel tk) (t_password_reset_tokens d) of
        (Inl e, t) \<Rightarrow> (Inl (GormErr e), d\<lparr>t_password_reset_tokens := t\<rparr>)
      | (Inr m, t) \<Rightarrow>
          (Inr (tk\<lparr>prt_ID := prm_ID m, prt_CreatedAt := prm_CreatedAt m\<rparr>),
           d\<lparr>t_password_reset_tokens := t\<rparr>))"

definition passwordResetTokenRepository_FindByToken ::
    "gorms \<Rightarrow> time \<Rightarrow> string \<Rightarrow> db \<Rightarrow> err + PasswordResetToken" where [repo_simps]:
  "passwordResetTokenRepository_FindByToken G now token d =
     (case g_First (gorm_password_reset_tokens G) (\<lambda>m. prm_TokenHash m = hashToken token) (t_password_reset_tokens d) of
        Inl e \<Rightarrow> Inl (if e = gorm_ErrRecordNotFound then ExtErr ErrPasswordResetTokenNotFound else GormErr e)
      | Inr m \<Rightarrow>
          (if prm_UsedAt m \<noteq> None then Inl (ExtErr ErrPasswordResetTokenUsed)
          else if time_After now (prm_ExpiresAt m) then Inl (ExtErr ErrPasswordResetTokenExpired)
           else Inr (fromPasswordResetTokenModel m)))"

definition passwordResetTokenRepository_MarkUsed ::
    "gorms \<Rightarrow> time \<Rightarrow> string \<Rightarrow> db \<Rightarrow> (err + unit) \<times> db" where [repo_simps]:
  "passwordResetTokenRepository_MarkUsed G now uid d =
     (case g_Update (gorm_password_reset_tokens G) (\<lambda>m. prm_ID m = uid) (\<lambda>m. m\<lparr>prm_UsedAt := Some now\<rparr>) (t_password_reset_tokens d) of
        (Inl e, t) \<Rightarrow> (Inl (GormErr e), d\<lparr>t_password_reset_tokens := t\<rparr>)
      | (Inr n, t) \<Rightarrow> (Inr (), d\<lparr>t_password_reset_tokens := t\<rparr>))"

definition passwordResetTokenRepository_DeleteExpired ::
    "gorms \<Rightarrow> time \<Rightarrow> db \<Rightarrow> (err + unit) \<times> db" where [repo_simps]:
  "passwordResetTokenRepository_DeleteExpired G now d =
     (case g_Delete (gorm_password_reset_tokens G) (\<lambda>m. prm_ExpiresAt m < now) (t_password_reset_tokens d) of
        (Inl e, t) \<Rightarrow> (Inl (GormErr e), d\<lparr>t_password_reset_tokens := t\<rparr>)
      | (Inr n, t) \<Rightarrow> (Inr (), d\<lparr>t_password_reset_tokens := t\<rparr>))"

definition NewPasswordResetTokenRepository :: "gorms \<Rightarrow> db PasswordResetTokenRepository" where
  "NewPasswordResetTokenRepository G = \<lparr>
     PasswordResetTokenRepository_Create = passwordResetTokenRepository_Create G,
     PasswordResetTokenRepository_FindByToken = passwordResetTokenRepository_FindByToken G,
     PasswordResetTokenRepository_MarkUsed = passwordResetTokenRepository_MarkUsed G,
     PasswordResetTokenRepository_DeleteExpired = passwordResetTokenRepository_DeleteExpired G\<rparr>"

section \<open>Email-verification tokens\<close>

definition toEmailVerificationTokenModel :: "EmailVerificationToken \<Rightarrow> emailVerificationTokenModel" where [conv_simps]:
  "toEmailVerificationTokenModel x = \<lparr>
     evm_ID = evt_ID x, evm_UserID = evt_UserID x, evm_TenantID = evt_TenantID x,
     evm_Email = evt_Email x, evm_TokenHash = hashToken (evt_Token x),
     evm_ExpiresAt = evt_ExpiresAt x, evm_VerifiedAt = None, evm_CreatedAt = zero_time\<rparr>"

definition fromEmailVerificationTokenModel :: "emailVerificationTokenModel \<Rightarrow> EmailVerificationToken" where [conv_simps]:
  "fromEmailVerificationTokenModel m = \<lparr>
     evt_ID = evm_ID m, evt_UserID = evm_UserID m, evt_TenantID = evm_TenantID m,
     evt_Email = evm_Email m, evt_Token = [], evt_ExpiresAt = evm_ExpiresAt m,
     evt_VerifiedAt = evm_VerifiedAt m, evt_CreatedAt = evm_CreatedAt m\<rparr>"

definition emailVerificationTokenRepository_Create ::
    "gorms \<Rightarrow> EmailVerificationToken \<Rightarrow> db \<Rightarrow> (err + EmailVerificationToken) \<times> db" where [repo_simps]:
  "emailVerificationTokenRepository_Create G tk d =
     (case g_Create (gorm_email_verification_tokens G) (toEmailVerificationTokenModel tk) (t_email_verification_tokens d) of
        (Inl e, t) \<Rightarrow> (Inl (GormErr e), d\<lparr>t_email_verification_tokens := t\<rparr>)
      | (Inr m, t) \<Rightarrow>
          (Inr (tk\<lparr>evt_ID := evm_ID m, evt_CreatedAt := evm_CreatedAt m\<rparr>),
           d\<lparr>t_email_verification_tokens := t\<rparr>))"

definition emailVerificationTokenRepository_FindByToken ::
    "gorms \<Rightarrow> time \<Rightarrow> string \<Rightarrow> db \<Rightarrow> err + EmailVerificationToken" where [repo_simps]:
  "emailVerificationTokenRepository_FindByToken G now token d =
     (case g_First (gorm_email_verification_tokens G) (\<lambda>m. evm_TokenHash m = hashToken token) (t_email_verification_tokens d) of
        Inl e \<Rightarrow> Inl (if e = gorm_ErrRecordNotFound then ExtErr ErrEmailVerificationTokenNotFound else GormErr e)
      | Inr m \<Rightarrow>
          (if time_After now (evm_ExpiresAt m) then Inl (ExtErr ErrEmailVerificationTokenExpired)
           else Inr (fromEmailVerificationTokenModel m)))"

definition emailVerificationTokenRepository_MarkVerified ::
    "gorms \<Rightarrow> time \<Rightarrow> string \<Rightarrow> db \<Rightarrow> (err + unit) \<times> db" where [repo_simps]:
  "emailVerificationTokenRepository_MarkVerified G now uid d =
     (case g_Update (gorm_email_verification_tokens G) (\<lambda>m. evm_ID m = uid) (\<lambda>m. m\<lparr>evm_VerifiedAt := Some now\<rparr>) (t_email_verification_tokens d) of
        (Inl e, t) \<Rightarrow> (Inl (GormErr e), d\<lparr>t_email_verification_tokens := t\<rparr>)
      | (Inr n, t) \<Rightarrow> (Inr (), d\<lparr>t_email_verification_tokens := t\<rparr>))"

definition emailVerificationTokenRepository_DeleteExpired ::
    "gorms \<Rightarrow> time \<Rightarrow> db \<Rightarrow> (err + unit) \<times> db" where [repo_simps]:
  "emailVerificationTokenRepository_DeleteExpired G now d =
     (case g_Delete (gorm_email_verification_tokens G) (\<lambda>m. evm_ExpiresAt m < now) (t_email_verification_tokens d) of
        (Inl e, t) \<Rightarrow> (Inl (GormErr e), d\<lparr>t_email_verification_tokens := t\<rparr>)
      | (Inr n, t) \<Rightarrow> (Inr (), d\<lparr>t_email_verification_tokens := t\<rparr>))"

definition NewEmailVerificationTokenRepository :: "gorms \<Rightarrow> db EmailVerificationTokenRepository" where
  "NewEmailVerificationTokenRepository G = \<lparr>
     EmailVerificationTokenRepository_Create = emailVerificationTokenRepository_Create G,
     EmailVerificationTokenRepository_FindByToken = emailVerificationTokenRepository_FindByToken G,
     EmailVerificationTokenRepository_MarkVerified = emailVerificationTokenRepository_MarkVerified G,
     EmailVerificationTokenRepository_DeleteExpired = emailVerificationTokenRepository_DeleteExpired G\<rparr>"

section \<open>Tables of hashed tokens\<close>

text \<open>
  What the tables of magic links and of reset tokens share: rows found by a unique hash, with an owner, an
  expiry and a mark that is stamped when the token is used.
\<close>

locale hashed_tokens = gorm_table G clash same kept patch
  for G :: "'r gorm" and clash same kept patch +
  fixes hash :: "'r \<Rightarrow> string"
    and ident :: "'r \<Rightarrow> string"
    and used :: "'r \<Rightarrow> time option"
    and expires :: "'r \<Rightarrow> time"
    and stamp :: "time \<Rightarrow> 'r \<Rightarrow> 'r"
  assumes clash_hash: "hash x = hash y \<Longrightarrow> clash x y"
    and same_hash: "same r r' \<Longrightarrow> hash r' = hash r"
    and kept_hash: "kept (stamp n r) r' \<Longrightarrow> hash r' = hash r"
    and kept_used: "kept (stamp n r) r' \<Longrightarrow> used r' \<noteq> None"
begin

definition all_spent :: "string \<Rightarrow> 'r list \<Rightarrow> bool" where
  "all_spent h t \<longleftrightarrow> (\<forall>r\<in>set t. hash r = h \<longrightarrow> used r \<noteq> None)"

lemma create_distinct:
  "g_Create G r t = (x, t') \<Longrightarrow> distinct (map hash t) \<Longrightarrow> distinct (map hash t')"
  by (erule Create_distinct) (auto intro: clash_hash)

lemma stamp_distinct:
  assumes "g_Update G P (stamp n) t = (x, t')" and "distinct (map hash t)"
  shows "distinct (map hash t')"
proof -
  have "map hash t' = map hash t" by (rule Update_column [OF assms(1)]) (rule kept_hash)
  then show ?thesis using assms(2) by simp
qed

lemma stamp_spends:
  assumes "g_Update G (\<lambda>r. ident r = ident q) (stamp n) t = (Inr k, t')"
    and "distinct (map hash t)" and "q \<in> set t"
  shows "all_spent (hash q) t'"
  unfolding all_spent_def
proof (intro ballI impI)
  fix r'
  assume r': "r' \<in> set t'" "hash r' = hash q"
  obtain x where x: "x \<in> set t" "if ident x = ident q then kept (stamp n x) r' else r' = x"
    using Update_origin [OF assms(1) r'(1)] by blast
  then have "hash x = hash q" using r'(2) kept_hash by (auto split: if_splits)
  then have "x = q" using assms(2,3) x(1) by (simp add: distinct_map inj_on_def)
  then show "used r' \<noteq> None" using x(2) kept_used by simp
qed

lemma create_spent:
  "g_Create G r t = (x, t') \<Longrightarrow> all_spent h t \<Longrightarrow> hash r \<noteq> h \<Longrightarrow> all_spent h t'"
  unfolding all_spent_def by (erule Create_all) (auto dest: same_hash)

lemma stamp_spent:
  "g_Update G P (stamp n) t = (x, t') \<Longrightarrow> all_spent h t \<Longrightarrow> all_spent h t'"
  unfolding all_spent_def by (erule Update_all) (auto dest: kept_used)

lemma delete_spent: "g_Delete G P t = (x, t') \<Longrightarrow> all_spent h t \<Longrightarrow> all_spent h t'"
  unfolding all_spent_def by (erule Delete_all) auto

lemma create_first:
  assumes "g_Create G r t = (Inr r', t')" and "g_First G (\<lambda>q. hash q = hash r) t' = Inr q"
  shows "q = r'"
  using Create_row [OF assms(1)] First_hit [OF assms(2)] same_hash clash_hash by force

end

section \<open>Magic links and reset tokens are one-time tokens\<close>

definition magic_links_sound :: "db \<Rightarrow> bool" where
  "magic_links_sound d \<longleftrightarrow> distinct (map mlm_TokenHash (t_magic_links d))"

definition reset_tokens_sound :: "db \<Rightarrow> bool" where
  "reset_tokens_sound d \<longleftrightarrow> distinct (map prm_TokenHash (t_password_reset_tokens d))"

definition magic_spent :: "string \<Rightarrow> db \<Rightarrow> bool" where
  "magic_spent tok d \<longleftrightarrow> (\<forall>r\<in>set (t_magic_links d). mlm_TokenHash r = hashToken tok \<longrightarrow> mlm_UsedAt r \<noteq> None)"

definition reset_spent :: "string \<Rightarrow> db \<Rightarrow> bool" where
  "reset_spent tok d \<longleftrightarrow> (\<forall>r\<in>set (t_password_reset_tokens d). prm_TokenHash r = hashToken tok \<longrightarrow> prm_UsedAt r \<noteq> None)"

sublocale database \<subseteq> magic_rows: hashed_tokens "gorm_magic_links G" clash_magic_link same_magic_link kept_magic_link patch_magic_link
  mlm_TokenHash mlm_ID mlm_UsedAt mlm_ExpiresAt "\<lambda>n m. m\<lparr>mlm_UsedAt := Some n\<rparr>"
  by unfold_locales (auto simp: clash_magic_link_def same_magic_link_def kept_magic_link_def)

sublocale database \<subseteq> magic: one_time_tokens "magicLinkRepository_Create G" "magicLinkRepository_FindByToken G"
  "magicLinkRepository_MarkUsed G" "magicLinkRepository_DeleteExpired G" magic_links_sound magic_spent hashToken
  ml_ID "\<lambda>m. (ml_UserID m, ml_TenantID m)" ml_Token ml_ExpiresAt ml_UsedAt
proof (unfold_locales, goal_cases)
  case (1 w m r w')
  then show ?case
    by (auto simp: magicLinkRepository_Create_def magic_links_sound_def split: prod.splits sum.splits dest: magic_rows.create_distinct)
next
  case (2 w n i r w')
  then show ?case
    by (auto simp: magicLinkRepository_MarkUsed_def magic_links_sound_def split: prod.splits sum.splits dest: magic_rows.stamp_distinct)
next
  case (3 w n r w')
  then show ?case
    by (auto simp: magicLinkRepository_DeleteExpired_def magic_links_sound_def split: prod.splits sum.splits intro: magic_link.Delete_distinct)
next
  case (4 n tk w m)
  then show ?case by (auto simp: magicLinkRepository_FindByToken_def fromMagicLinkModel_def time_defs split: sum.splits if_splits)
next
  case (5 w n tk m n' w')
  obtain q where q: "q \<in> set (t_magic_links w)" "mlm_TokenHash q = hashToken tk" "ml_ID m = mlm_ID q"
    using 5(2) by (auto simp: magicLinkRepository_FindByToken_def fromMagicLinkModel_def split: sum.splits if_splits dest!: magic_link.First_hit)
  then show ?case
    using 5(1,3) magic_rows.stamp_spends [OF _ _ q(1)]
    by (auto simp: magicLinkRepository_MarkUsed_def magic_links_sound_def magic_spent_def magic_rows.all_spent_def split: prod.splits sum.splits)
next
  case (6 tk w n m)
  then show ?case
    by (auto simp: magicLinkRepository_FindByToken_def magic_spent_def split: sum.splits if_splits dest!: magic_link.First_hit)
next
  case (7 tk w m r w')
  then show ?case using magic_rows.create_spent [of "toMagicLinkModel m" "t_magic_links w" _ _ "hashToken tk"]
    by (auto simp: magicLinkRepository_Create_def magic_spent_def magic_rows.all_spent_def toMagicLinkModel_def split: prod.splits sum.splits)
next
  case (8 tk w n i r w')
  then show ?case using magic_rows.stamp_spent [of _ n "t_magic_links w" _ _ "hashToken tk"]
    by (auto simp: magicLinkRepository_MarkUsed_def magic_spent_def magic_rows.all_spent_def split: prod.splits sum.splits)
next
  case (9 tk w n r w')
  then show ?case using magic_rows.delete_spent [of _ "t_magic_links w" _ _ "hashToken tk"]
    by (auto simp: magicLinkRepository_DeleteExpired_def magic_spent_def magic_rows.all_spent_def split: prod.splits sum.splits)
next
  case (10 w m m' w' n x)
  obtain r t' where c: "g_Create (gorm_magic_links G) (toMagicLinkModel m) (t_magic_links w) = (Inr r, t')" "w' = w\<lparr>t_magic_links := t'\<rparr>"
    using 10(2) by (auto simp: magicLinkRepository_Create_def split: prod.splits sum.splits)
  have "g_First (gorm_magic_links G) (\<lambda>q. mlm_TokenHash q = hashToken (ml_Token m)) t' = Inr q \<Longrightarrow> q = r" for q
    using magic_rows.create_first [OF c(1), of q] by (simp add: toMagicLinkModel_def)
  then show ?case using 10(3) c(2) magic_link.Create_row [OF c(1)]
    by (auto simp: magicLinkRepository_FindByToken_def fromMagicLinkModel_def toMagicLinkModel_def same_magic_link_def split: sum.splits if_splits)
qed

sublocale database \<subseteq> reset_rows: hashed_tokens "gorm_password_reset_tokens G" clash_password_reset same_password_reset kept_password_reset patch_password_reset
  prm_TokenHash prm_ID prm_UsedAt prm_ExpiresAt "\<lambda>n m. m\<lparr>prm_UsedAt := Some n\<rparr>"
  by unfold_locales (auto simp: clash_password_reset_def same_password_reset_def kept_password_reset_def)

sublocale database \<subseteq> reset: one_time_tokens "passwordResetTokenRepository_Create G" "passwordResetTokenRepository_FindByToken G"
  "passwordResetTokenRepository_MarkUsed G" "passwordResetTokenRepository_DeleteExpired G" reset_tokens_sound reset_spent hashToken
  prt_ID "\<lambda>m. (prt_UserID m, prt_TenantID m)" prt_Token prt_ExpiresAt prt_UsedAt
proof (unfold_locales, goal_cases)
  case (1 w m r w')
  then show ?case
    by (auto simp: passwordResetTokenRepository_Create_def reset_tokens_sound_def split: prod.splits sum.splits dest: reset_rows.create_distinct)
next
  case (2 w n i r w')
  then show ?case
    by (auto simp: passwordResetTokenRepository_MarkUsed_def reset_tokens_sound_def split: prod.splits sum.splits dest: reset_rows.stamp_distinct)
next
  case (3 w n r w')
  then show ?case
    by (auto simp: passwordResetTokenRepository_DeleteExpired_def reset_tokens_sound_def split: prod.splits sum.splits intro: password_reset.Delete_distinct)
next
  case (4 n tk w m)
  then show ?case by (auto simp: passwordResetTokenRepository_FindByToken_def fromPasswordResetTokenModel_def time_defs split: sum.splits if_splits)
next
  case (5 w n tk m n' w')
  obtain q where q: "q \<in> set (t_password_reset_tokens w)" "prm_TokenHash q = hashToken tk" "prt_ID m = prm_ID q"
    using 5(2) by (auto simp: passwordResetTokenRepository_FindByToken_def fromPasswordResetTokenModel_def split: sum.splits if_splits dest!: password_reset.First_hit)
  then show ?case
    using 5(1,3) reset_rows.stamp_spends [OF _ _ q(1)]
    by (auto simp: passwordResetTokenRepository_MarkUsed_def reset_tokens_sound_def reset_spent_def reset_rows.all_spent_def split: prod.splits sum.splits)
next
  case (6 tk w n m)
  then show ?case
    by (auto simp: passwordResetTokenRepository_FindByToken_def reset_spent_def split: sum.splits if_splits dest!: password_reset.First_hit)
next
  case (7 tk w m r w')
  then show ?case using reset_rows.create_spent [of "toPasswordResetTokenModel m" "t_password_reset_tokens w" _ _ "hashToken tk"]
    by (auto simp: passwordResetTokenRepository_Create_def reset_spent_def reset_rows.all_spent_def toPasswordResetTokenModel_def split: prod.splits sum.splits)
next
  case (8 tk w n i r w')
  then show ?case using reset_rows.stamp_spent [of _ n "t_password_reset_tokens w" _ _ "hashToken tk"]
    by (auto simp: passwordResetTokenRepository_MarkUsed_def reset_spent_def reset_rows.all_spent_def split: prod.splits sum.splits)
next
  case (9 tk w n r w')
  then show ?case using reset_rows.delete_spent [of _ "t_password_reset_tokens w" _ _ "hashToken tk"]
    by (auto simp: passwordResetTokenRepository_DeleteExpired_def reset_spent_def reset_rows.all_spent_def split: prod.splits sum.splits)
next
  case (10 w m m' w' n x)
  obtain r t' where c: "g_Create (gorm_password_reset_tokens G) (toPasswordResetTokenModel m) (t_password_reset_tokens w) = (Inr r, t')" "w' = w\<lparr>t_password_reset_tokens := t'\<rparr>"
    using 10(2) by (auto simp: passwordResetTokenRepository_Create_def split: prod.splits sum.splits)
  have "g_First (gorm_password_reset_tokens G) (\<lambda>q. prm_TokenHash q = hashToken (prt_Token m)) t' = Inr q \<Longrightarrow> q = r" for q
    using reset_rows.create_first [OF c(1), of q] by (simp add: toPasswordResetTokenModel_def)
  then show ?case using 10(3) c(2) password_reset.Create_row [OF c(1)]
    by (auto simp: passwordResetTokenRepository_FindByToken_def fromPasswordResetTokenModel_def toPasswordResetTokenModel_def same_password_reset_def split: sum.splits if_splits)
qed

end
