(* ===== verification/Passwordless.thy ===== *)
theory Passwordless
  imports IdentityProps RepoAuth
begin

text \<open>
  service/passwordless.go: login by a magic link sent by mail. The mail gateway is the parameter
  \<open>EmailSender\<close>; of its methods the service calls \<open>SendMagicLink\<close> only. The 32 bytes of
  \<open>crypto/rand\<close> a link is made from are an argument. \<open>VerifyMagicLink\<close> reads the clock when it
  looks the link up, when it marks it used, and once for each token it issues.
\<close>

record 'w EmailSender =
  EmailSender_SendMagicLink :: "string \<Rightarrow> string \<Rightarrow> 'w \<Rightarrow> (err + unit) \<times> 'w"
  EmailSender_SendPasswordReset :: "string \<Rightarrow> string \<Rightarrow> 'w \<Rightarrow> (err + unit) \<times> 'w"
  EmailSender_SendEmailVerification :: "string \<Rightarrow> string \<Rightarrow> 'w \<Rightarrow> (err + unit) \<times> 'w"
  EmailSender_SendOTP :: "string \<Rightarrow> string \<Rightarrow> 'w \<Rightarrow> (err + unit) \<times> 'w"
  EmailSender_SendSMS :: "string \<Rightarrow> string \<Rightarrow> 'w \<Rightarrow> (err + unit) \<times> 'w"

record 'w PasswordlessService =
  ps_magicLinks :: "'w MagicLinkRepository"
  ps_users :: "'w UserRepository"
  ps_memberships :: "'w MembershipRepository"
  ps_teams :: "'w TeamRepository"
  ps_teamMemberships :: "'w TeamMembershipRepository"
  ps_tokens :: TokenService
  ps_emailSender :: "'w EmailSender"

definition NewPasswordlessService :: "'w MagicLinkRepository \<Rightarrow> 'w UserRepository \<Rightarrow>
    'w MembershipRepository \<Rightarrow> 'w TeamRepository \<Rightarrow> 'w TeamMembershipRepository \<Rightarrow> TokenService \<Rightarrow>
    'w EmailSender \<Rightarrow> 'w PasswordlessService" where
  "NewPasswordlessService magicLinks users memberships teams teamMemberships tokens emailSender = \<lparr>
     ps_magicLinks = magicLinks, ps_users = users, ps_memberships = memberships, ps_teams = teams,
     ps_teamMemberships = teamMemberships, ps_tokens = tokens, ps_emailSender = emailSender\<rparr>"

definition generateToken :: "string \<Rightarrow> string" where
  "generateToken b = base64_URLEncode b"

text \<open>An unknown address gives no link and no error.\<close>

definition PasswordlessService_CreateMagicLink :: "'w PasswordlessService \<Rightarrow> string \<Rightarrow> time \<Rightarrow>
    string \<Rightarrow> string \<Rightarrow> string \<Rightarrow> 'w \<Rightarrow> (err + (MagicLink \<times> string) option) \<times> 'w" where [svc_simps]:
  "PasswordlessService_CreateMagicLink s rnd now email tenantID baseURL w =
     (case UserRepository_FindByEmail (ps_users s) email w of
        Inl e \<Rightarrow> (if e = IdErr ErrUserNotFound then Inr None else Inl e, w)
      | Inr user \<Rightarrow>
          (case MembershipRepository_FindByUserAndTenant (ps_memberships s) (user_ID user) tenantID w of
             Inl e \<Rightarrow> (Inl e, w)
           | Inr membership \<Rightarrow>
               (let token = generateToken rnd;
                    magicLink = \<lparr>ml_ID = [], ml_UserID = user_ID user, ml_TenantID = tenantID,
                      ml_Token = token, ml_ExpiresAt = now + 15 * time_Minute, ml_UsedAt = None,
                      ml_CreatedAt = zero_time\<rparr>
                in case MagicLinkRepository_Create (ps_magicLinks s) magicLink w of
                     (Inl e, w1) \<Rightarrow> (Inl e, w1)
                   | (Inr magicLink', w1) \<Rightarrow>
                       (Inr (Some (magicLink', baseURL @ ''/auth/magic-link?token='' @ token)), w1))))"

definition PasswordlessService_SendMagicLink :: "'w PasswordlessService \<Rightarrow> string \<Rightarrow> time \<Rightarrow>
    string \<Rightarrow> string \<Rightarrow> string \<Rightarrow> 'w \<Rightarrow> (err + unit) \<times> 'w" where [svc_simps]:
  "PasswordlessService_SendMagicLink s rnd now email tenantID baseURL w =
     (case PasswordlessService_CreateMagicLink s rnd now email tenantID baseURL w of
        (Inl e, w1) \<Rightarrow> (Inl e, w1)
      | (Inr None, w1) \<Rightarrow> (Inr (), w1)
      | (Inr (Some (magicLink, link)), w1) \<Rightarrow> EmailSender_SendMagicLink (ps_emailSender s) email link w1)"

text \<open>The tenant's status is not read here, and team memberships that cannot be read are left out.\<close>

definition PasswordlessService_getRolesForTenant ::
    "'w PasswordlessService \<Rightarrow> string \<Rightarrow> string \<Rightarrow> 'w \<Rightarrow> err + string list" where [svc_simps]:
  "PasswordlessService_getRolesForTenant s userID tenantID w =
     (case MembershipRepository_FindByUserAndTenant (ps_memberships s) userID tenantID w of
        Inl e \<Rightarrow> Inl e
      | Inr membership \<Rightarrow>
          (case TeamMembershipRepository_ListByUser (ps_teamMemberships s) userID w of
             Inl e \<Rightarrow> Inr (mem_Roles membership)
           | Inr teamMemberships \<Rightarrow>
               Inr (team_roles (ps_teams s) tenantID w teamMemberships (mem_Roles membership))))"

definition PasswordlessService_issueTokens :: "'w PasswordlessService \<Rightarrow> time \<times> time \<Rightarrow> User \<Rightarrow> string \<Rightarrow>
    string list \<Rightarrow> err + AuthResult" where [svc_simps]:
  "PasswordlessService_issueTokens s clock user tenantID roles =
     (case TokenService_GenerateAccessToken (ps_tokens s) (fst clock) (user_ID user) tenantID roles of
        Inl e \<Rightarrow> Inl e
      | Inr access \<Rightarrow>
          (case TokenService_GenerateRefreshToken (ps_tokens s) (snd clock) (user_ID user) tenantID roles of
             Inl e \<Rightarrow> Inl e
           | Inr refresh \<Rightarrow>
               Inr \<lparr>ar_AccessToken = access, ar_RefreshToken = refresh, ar_User = user,
                    ar_TenantID = tenantID, ar_Roles = roles\<rparr>))"

definition PasswordlessService_VerifyMagicLink :: "'w PasswordlessService \<Rightarrow> time \<times> time \<Rightarrow> time \<times> time \<Rightarrow>
    string \<Rightarrow> string \<Rightarrow> 'w \<Rightarrow> (err + AuthResult) \<times> 'w" where [svc_simps]:
  "PasswordlessService_VerifyMagicLink s look clock token tenantID w =
     (case MagicLinkRepository_FindByToken (ps_magicLinks s) (fst look) token w of
        Inl e \<Rightarrow> (Inl e, w)
      | Inr magicLink \<Rightarrow>
          (if ml_TenantID magicLink \<noteq> tenantID then (Inl (SvcAuthErr service_ErrMagicLinkNotFound), w)
           else case MagicLinkRepository_MarkUsed (ps_magicLinks s) (snd look) (ml_ID magicLink) w of
             (Inl e, w1) \<Rightarrow> (Inl e, w1)
           | (Inr u, w1) \<Rightarrow>
               (case UserRepository_FindByID (ps_users s) (ml_UserID magicLink) w1 of
                  Inl e \<Rightarrow> (Inl e, w1)
                | Inr user \<Rightarrow>
                    (case PasswordlessService_getRolesForTenant s (user_ID user) tenantID w1 of
                       Inl e \<Rightarrow> (Inl e, w1)
                     | Inr roles \<Rightarrow> (PasswordlessService_issueTokens s clock user tenantID roles, w1)))))"

section \<open>The service of main.go\<close>

definition main_passwordless :: "gorms \<Rightarrow> TokenService \<Rightarrow> db EmailSender \<Rightarrow> db PasswordlessService" where
  "main_passwordless G tokens mail =
     NewPasswordlessService (NewMagicLinkRepository G) (NewUserRepository G) (NewMembershipRepository G)
       (NewTeamRepository G) (NewTeamMembershipRepository G) tokens mail"

lemma main_passwordless_simps [simp]:
  "ps_magicLinks (main_passwordless G tokens mail) = NewMagicLinkRepository G"
  "ps_users (main_passwordless G tokens mail) = NewUserRepository G"
  "ps_memberships (main_passwordless G tokens mail) = NewMembershipRepository G"
  "ps_teams (main_passwordless G tokens mail) = NewTeamRepository G"
  "ps_teamMemberships (main_passwordless G tokens mail) = NewTeamMembershipRepository G"
  "ps_tokens (main_passwordless G tokens mail) = tokens"
  "ps_emailSender (main_passwordless G tokens mail) = mail"
  by (simp_all add: main_passwordless_def NewPasswordlessService_def)

lemma magic_link_repository_simps [simp]:
  "MagicLinkRepository_Create (NewMagicLinkRepository G) = magicLinkRepository_Create G"
  "MagicLinkRepository_FindByToken (NewMagicLinkRepository G) = magicLinkRepository_FindByToken G"
  "MagicLinkRepository_MarkUsed (NewMagicLinkRepository G) = magicLinkRepository_MarkUsed G"
  by (simp_all add: NewMagicLinkRepository_def)

section \<open>Facts\<close>

text \<open>What a successful verification went through.\<close>

lemma VerifyMagicLink_ok:
  assumes "PasswordlessService_VerifyMagicLink s look clock token t w = (Inr res, w')"
  shows "\<exists>m roles. MagicLinkRepository_FindByToken (ps_magicLinks s) (fst look) token w = Inr m \<and>
    ml_TenantID m = t \<and>
    MagicLinkRepository_MarkUsed (ps_magicLinks s) (snd look) (ml_ID m) w = (Inr (), w') \<and>
    UserRepository_FindByID (ps_users s) (ml_UserID m) w' = Inr (ar_User res) \<and>
    PasswordlessService_getRolesForTenant s (user_ID (ar_User res)) t w' = Inr roles \<and>
    ar_Roles res = roles \<and> ar_TenantID res = t"
  using assms
  by (auto simp: PasswordlessService_VerifyMagicLink_def PasswordlessService_issueTokens_def
      split: sum.splits prod.splits if_splits)

lemma CreateMagicLink_ok:
  assumes "PasswordlessService_CreateMagicLink s rnd now email t base w = (Inr (Some (m, link)), w')"
  shows "\<exists>u. UserRepository_FindByEmail (ps_users s) email w = Inr u \<and>
    MagicLinkRepository_Create (ps_magicLinks s) \<lparr>ml_ID = [], ml_UserID = user_ID u, ml_TenantID = t,
      ml_Token = generateToken rnd, ml_ExpiresAt = now + 15 * time_Minute, ml_UsedAt = None,
      ml_CreatedAt = zero_time\<rparr> w = (Inr m, w') \<and>
    link = base @ ''/auth/magic-link?token='' @ generateToken rnd"
  using assms unfolding PasswordlessService_CreateMagicLink_def Let_def
  by (cases "UserRepository_FindByEmail (ps_users s) email w")
    (auto split: sum.splits prod.splits if_splits simp del: append.simps)

lemma getRolesForTenant_ok:
  "PasswordlessService_getRolesForTenant s u t w = Inr roles \<Longrightarrow>
   \<exists>m. MembershipRepository_FindByUserAndTenant (ps_memberships s) u t w = Inr m \<and>
     (roles = mem_Roles m \<or>
      (\<exists>tms. TeamMembershipRepository_ListByUser (ps_teamMemberships s) u w = Inr tms \<and>
         roles = team_roles (ps_teams s) t w tms (mem_Roles m)))"
  by (auto simp: PasswordlessService_getRolesForTenant_def split: sum.splits)

lemma MarkUsed_frames:
  "magicLinkRepository_MarkUsed G n i d = (r, d') \<Longrightarrow> t_users d' = t_users d \<and>
     t_memberships d' = t_memberships d \<and> t_teams d' = t_teams d \<and> t_team_memberships d' = t_team_memberships d \<and>
     t_tenants d' = t_tenants d"
  by (auto simp: magicLinkRepository_MarkUsed_def split: prod.splits sum.splits)

lemma FindByToken_row:
  assumes "database G" and "magicLinkRepository_FindByToken G now tok d = Inr m"
  shows "\<exists>r\<in>set (t_magic_links d). mlm_TokenHash r = hashToken tok \<and> mlm_UsedAt r = None \<and>
           now \<le> mlm_ExpiresAt r \<and> mlm_UserID r = ml_UserID m \<and> mlm_TenantID r = ml_TenantID m"
  using assms(2)
  by (auto simp: magicLinkRepository_FindByToken_def fromMagicLinkModel_def time_defs split: sum.splits if_splits
      dest!: gorm_table.First_hit [OF database.magic_link_table [OF assms(1)]])

text \<open>
  What can happen between two redemptions of a token: links with another hash are made, links are
  marked used, expired ones are swept, and anything that leaves the table of links alone.
\<close>

inductive link_history :: "gorms \<Rightarrow> string \<Rightarrow> db \<Rightarrow> db \<Rightarrow> bool" for G tok where
  link_history_refl: "link_history G tok d d"
| link_history_other: "link_history G tok d d1 \<Longrightarrow> t_magic_links d2 = t_magic_links d1 \<Longrightarrow> link_history G tok d d2"
| link_history_create: "link_history G tok d d1 \<Longrightarrow> hashToken (ml_Token m) \<noteq> hashToken tok \<Longrightarrow>
    magicLinkRepository_Create G m d1 = (r, d2) \<Longrightarrow> link_history G tok d d2"
| link_history_mark: "link_history G tok d d1 \<Longrightarrow> magicLinkRepository_MarkUsed G n i d1 = (ru, d2) \<Longrightarrow>
    link_history G tok d d2"
| link_history_sweep: "link_history G tok d d1 \<Longrightarrow> magicLinkRepository_DeleteExpired G n d1 = (ru, d2) \<Longrightarrow>
    link_history G tok d d2"

context database
begin

lemmas member_find_hit = member.find_hit
lemmas magic_create_find = magic.create_find
lemmas magic_find_live = magic.find_live
lemmas user_FindByID_in = user_FindByID_hit
lemmas user_FindByEmail_in = FindByEmail_hit

lemma passwordless_roles_isolated:
  assumes r: "PasswordlessService_getRolesForTenant (main_passwordless G tokens mail) u t d = Inr roles"
    and "x \<in> set roles"
  shows "role_in_tenant d u t x"
proof -
  from getRolesForTenant_ok [OF r] obtain m
    where m: "membershipRepository_FindByUserAndTenant G u t d = Inr m"
      and roles: "roles = mem_Roles m \<or> (\<exists>tms. teamMembershipRepository_ListByUser G u d = Inr tms \<and>
        roles = team_roles (NewTeamRepository G) t d tms (mem_Roles m))" by auto
  note m' = member.find_hit [OF m]
  show ?thesis
  proof (cases "x \<in> set (mem_Roles m)")
    case True
    then show ?thesis using m' by (auto simp: role_in_tenant_def)
  next
    case False
    then obtain tms where tms: "teamMembershipRepository_ListByUser G u d = Inr tms"
      and "x \<in> set (team_roles (NewTeamRepository G) t d tms (mem_Roles m))" using roles assms(2) by auto
    then obtain tm team where tm: "tm \<in> set tms" "teamRepository_FindByID G (tm_TeamID tm) d = Inr team"
        "team_TenantID team = t" "x \<in> set (tm_Roles tm)"
      using team_roles_mem [of x "NewTeamRepository G"] False by force
    then show ?thesis using team_member.list_rows [OF tms] team_FindByID_hit [OF database_axioms tm(2)]
      by (fastforce simp: role_in_tenant_def)
  qed
qed

lemma Verify_spends:
  assumes "magic_links_sound d"
    and "PasswordlessService_VerifyMagicLink (main_passwordless G tokens mail) look clock tok t d = (Inr res, d')"
  shows "magic_spent tok d'"
proof -
  from VerifyMagicLink_ok [OF assms(2)] obtain m
    where "magicLinkRepository_FindByToken G (fst look) tok d = Inr m"
      "magicLinkRepository_MarkUsed G (snd look) (ml_ID m) d = (Inr (), d')" by auto
  then show ?thesis by (rule magic.mark_spends [OF assms(1)])
qed

lemma link_history_spent: "link_history G tok d d' \<Longrightarrow> magic_spent tok d \<Longrightarrow> magic_spent tok d'"
proof (induction rule: link_history.induct)
  case (link_history_other d d1 d2)
  then show ?case by (simp add: magic_spent_def)
qed (auto intro: magic.create_spent magic.mark_spent magic.sweep_spent)

lemma spent_no_session:
  assumes "magic_spent tok d"
  shows "\<exists>e. PasswordlessService_VerifyMagicLink (main_passwordless G tokens mail) look clock tok t d = (Inl e, d)"
  using magic.spent_find [OF assms, of "fst look"]
  by (cases "magicLinkRepository_FindByToken G (fst look) tok d")
    (auto simp: PasswordlessService_VerifyMagicLink_def)

end

section \<open>A concrete link\<close>

definition demo_mail :: "db EmailSender" where
  "demo_mail = \<lparr>EmailSender_SendMagicLink = (\<lambda>email link d. (Inr (), d)),
     EmailSender_SendPasswordReset = (\<lambda>email link d. (Inr (), d)),
     EmailSender_SendEmailVerification = (\<lambda>email link d. (Inr (), d)),
     EmailSender_SendOTP = (\<lambda>email otp d. (Inr (), d)), EmailSender_SendSMS = (\<lambda>phone otp d. (Inr (), d))\<rparr>"

definition demo_passwordless :: "db PasswordlessService" where
  "demo_passwordless = main_passwordless mem_gorms demo_tokens demo_mail"

definition links_db :: db where
  "links_db = demo_db\<lparr>t_magic_links := [\<lparr>mlm_ID = ''m1'', mlm_UserID = ''u1'', mlm_TenantID = ''t1'',
     mlm_TokenHash = hashToken ''tok'', mlm_ExpiresAt = 100, mlm_UsedAt = None, mlm_CreatedAt = 0\<rparr>]\<rparr>"

lemma issueTokens_demo:
  "\<exists>res. PasswordlessService_issueTokens demo_passwordless clock user t roles = Inr res \<and>
     ar_User res = user \<and> ar_Roles res = roles \<and> ar_TenantID res = t"
  by (simp add: demo_passwordless_def svc_simps plain_jwt_def)

lemma demo_verify:
  "\<exists>res d1. PasswordlessService_VerifyMagicLink demo_passwordless (5, 6) (7, 8) ''tok'' ''t1'' links_db = (Inr res, d1) \<and>
     user_ID (ar_User res) = ''u1'' \<and> ar_Roles res = [''member'', ''editor'', ''reviewer'']"
proof -
  let ?d1 = "demo_db\<lparr>t_magic_links := [\<lparr>mlm_ID = ''m1'', mlm_UserID = ''u1'', mlm_TenantID = ''t1'',
     mlm_TokenHash = hashToken ''tok'', mlm_ExpiresAt = 100, mlm_UsedAt = Some 6, mlm_CreatedAt = 0\<rparr>]\<rparr>"
  let ?user = "\<lparr>user_ID = ''u1'', user_Email = ''ann'', user_PasswordHash = ''$2a$pw'', user_CreatedAt = 0, user_UpdatedAt = 0\<rparr>"
  have f: "magicLinkRepository_FindByToken mem_gorms 5 ''tok'' links_db = Inr \<lparr>ml_ID = ''m1'', ml_UserID = ''u1'',
      ml_TenantID = ''t1'', ml_Token = [], ml_ExpiresAt = 100, ml_UsedAt = None, ml_CreatedAt = 0\<rparr>"
    by (simp add: links_db_def magicLinkRepository_FindByToken_def eval_mapper conv_simps time_defs)
  have m: "magicLinkRepository_MarkUsed mem_gorms 6 ''m1'' links_db = (Inr (), ?d1)"
    by (simp add: links_db_def magicLinkRepository_MarkUsed_def eval_mapper)
  have u: "userRepository_FindByID mem_gorms ''u1'' ?d1 = Inr ?user"
    by (simp add: demo_db_def userRepository_FindByID_def eval_mapper conv_simps)
  have r: "PasswordlessService_getRolesForTenant demo_passwordless ''u1'' ''t1'' ?d1 = Inr [''member'', ''editor'', ''reviewer'']"
    by (simp add: PasswordlessService_getRolesForTenant_def demo_passwordless_def demo_db_def repo_simps eval_mapper conv_simps)
  show ?thesis
    using f m u r issueTokens_demo [of "(7, 8)" ?user "''t1''" "[''member'', ''editor'', ''reviewer'']"]
    by (auto simp: PasswordlessService_VerifyMagicLink_def demo_passwordless_def)
qed

lemma links_db_sound: "magic_links_sound links_db"
  by (simp add: magic_links_sound_def links_db_def)

section \<open>Properties\<close>

text \<open>C13: What a magic link opens. A verified link was stored for that user and tenant, unused and not
  expired, the user is a member of the tenant, and every role of the session comes from the user's
  membership in the tenant or from a team of the tenant.\<close>

theorem magic_link_session_bound:
  assumes "database G"
    and "PasswordlessService_VerifyMagicLink (main_passwordless G tokens mail) look clock tok t d = (Inr res, d')"
  shows "(\<exists>r\<in>set (t_magic_links d). mlm_TokenHash r = hashToken tok \<and> mlm_UsedAt r = None \<and>
            fst look \<le> mlm_ExpiresAt r \<and> mlm_UserID r = user_ID (ar_User res) \<and> mlm_TenantID r = t) \<and>
         (\<exists>m\<in>db_memberships d. mem_UserID m = user_ID (ar_User res) \<and> mem_TenantID m = t) \<and>
         (\<forall>x\<in>set (ar_Roles res). role_in_tenant d (user_ID (ar_User res)) t x)"
proof -
  let ?s = "main_passwordless G tokens mail"
  from VerifyMagicLink_ok [OF assms(2)] obtain m
    where m: "magicLinkRepository_FindByToken G (fst look) tok d = Inr m" "ml_TenantID m = t"
      and mark: "magicLinkRepository_MarkUsed G (snd look) (ml_ID m) d = (Inr (), d')"
      and user: "UserRepository_FindByID (NewUserRepository G) (ml_UserID m) d' = Inr (ar_User res)"
      and roles: "PasswordlessService_getRolesForTenant ?s (user_ID (ar_User res)) t d' = Inr (ar_Roles res)"
    by auto
  note same = MarkUsed_frames [OF mark]
  have uid: "user_ID (ar_User res) = ml_UserID m"
    using database.user_FindByID_in [OF assms(1) user] by simp
  have views: "db_memberships d' = db_memberships d" "role_in_tenant d' = role_in_tenant d"
    using same by (auto simp: db_memberships_def role_in_tenant_def db_team_memberships_def db_teams_def fun_eq_iff)
  obtain mm where "membershipRepository_FindByUserAndTenant G (user_ID (ar_User res)) t d' = Inr mm"
    using getRolesForTenant_ok [OF roles] by auto
  then have mem: "mm \<in> db_memberships d" "mem_UserID mm = user_ID (ar_User res)" "mem_TenantID mm = t"
    using database.member_find_hit [OF assms(1)] views by auto
  show ?thesis using FindByToken_row [OF assms(1) m(1)] m(2) uid mem
      database.passwordless_roles_isolated [OF assms(1) roles] views by auto
qed

theorem magic_link_session_bound_witness:
  "\<exists>res d1. PasswordlessService_VerifyMagicLink demo_passwordless (5, 6) (7, 8) ''tok'' ''t1'' links_db = (Inr res, d1) \<and>
     ar_Roles res \<noteq> [] \<and> (\<forall>x\<in>set (ar_Roles res). role_in_tenant links_db ''u1'' ''t1'' x)"
proof -
  obtain res d1 where v: "PasswordlessService_VerifyMagicLink demo_passwordless (5, 6) (7, 8) ''tok'' ''t1'' links_db = (Inr res, d1)"
    "user_ID (ar_User res) = ''u1''" "ar_Roles res = [''member'', ''editor'', ''reviewer'']"
    using demo_verify by blast
  show ?thesis using magic_link_session_bound [OF mem_database v(1) [unfolded demo_passwordless_def]] v by auto
qed

text \<open>C14: A magic link works once. After a link was redeemed, whatever happens next to the database
  (other links are made, spent or swept, anything outside the table of links), no second
  verification of the same token succeeds, for any tenant and at any time.\<close>

theorem magic_link_single_use:
  assumes "database G" and "magic_links_sound d"
    and "PasswordlessService_VerifyMagicLink (main_passwordless G tokens mail) look clock tok t d = (Inr res, d1)"
    and "link_history G tok d1 d2"
  shows "\<exists>e. PasswordlessService_VerifyMagicLink (main_passwordless G tokens mail) look' clock' tok t' d2 = (Inl e, d2)"
  by (intro database.spent_no_session [OF assms(1)] database.link_history_spent [OF assms(1,4)]
      database.Verify_spends [OF assms(1-3)])

theorem magic_link_single_use_witness:
  "\<exists>res d1. PasswordlessService_VerifyMagicLink demo_passwordless (5, 6) (7, 8) ''tok'' ''t1'' links_db = (Inr res, d1) \<and>
     (\<exists>e. PasswordlessService_VerifyMagicLink demo_passwordless (9, 10) (11, 12) ''tok'' ''t1'' (d1\<lparr>t_users := []\<rparr>)
        = (Inl e, d1\<lparr>t_users := []\<rparr>))"
proof -
  obtain res d1 where v: "PasswordlessService_VerifyMagicLink demo_passwordless (5, 6) (7, 8) ''tok'' ''t1'' links_db = (Inr res, d1)"
    using demo_verify by blast
  have "link_history mem_gorms ''tok'' d1 (d1\<lparr>t_users := []\<rparr>)"
    by (rule link_history_other [OF link_history_refl]) simp
  with v show ?thesis
    using magic_link_single_use [OF mem_database links_db_sound v [unfolded demo_passwordless_def]]
    by (auto simp: demo_passwordless_def)
qed


lemma demo_link_cycle:
  "\<exists>m link d1 res d2. PasswordlessService_CreateMagicLink demo_passwordless ''seed'' 1 ''ann'' ''t1'' ''https://h'' demo_db
       = (Inr (Some (m, link)), d1) \<and>
     PasswordlessService_VerifyMagicLink demo_passwordless (5, 6) (7, 8) (generateToken ''seed'') ''t1'' d1 = (Inr res, d2)"
proof -
  let ?row = "\<lambda>used. \<lparr>mlm_ID = fresh_id 0, mlm_UserID = ''u1'', mlm_TenantID = ''t1'',
     mlm_TokenHash = hashToken (generateToken ''seed''), mlm_ExpiresAt = 1 + 15 * time_Minute, mlm_UsedAt = used,
     mlm_CreatedAt = zero_time\<rparr>"
  let ?user = "\<lparr>user_ID = ''u1'', user_Email = ''ann'', user_PasswordHash = ''$2a$pw'', user_CreatedAt = 0, user_UpdatedAt = 0\<rparr>"
  have ml: "t_magic_links demo_db = []" by (simp add: demo_db_def empty_db_def)
  have c: "\<exists>m. magicLinkRepository_Create mem_gorms \<lparr>ml_ID = [], ml_UserID = ''u1'', ml_TenantID = ''t1'',
      ml_Token = generateToken ''seed'', ml_ExpiresAt = 1 + 15 * time_Minute, ml_UsedAt = None,
      ml_CreatedAt = zero_time\<rparr> demo_db = (Inr m, demo_db\<lparr>t_magic_links := [?row None]\<rparr>)"
    by (simp add: ml magicLinkRepository_Create_def toMagicLinkModel_def eval_mapper row_magic_link_defs Let_def)
  have e: "userRepository_FindByEmail mem_gorms ''ann'' demo_db = Inr ?user"
    and b: "\<exists>m. membershipRepository_FindByUserAndTenant mem_gorms ''u1'' ''t1'' demo_db = Inr m"
    by (simp_all add: demo_db_def userRepository_FindByEmail_def membershipRepository_FindByUserAndTenant_def
        eval_mapper conv_simps)
  have "\<exists>m link. PasswordlessService_CreateMagicLink demo_passwordless ''seed'' 1 ''ann'' ''t1'' ''https://h'' demo_db
      = (Inr (Some (m, link)), demo_db\<lparr>t_magic_links := [?row None]\<rparr>)"
    using c e b by (auto simp: PasswordlessService_CreateMagicLink_def Let_def demo_passwordless_def simp del: append.simps)
  moreover have f: "\<exists>x. magicLinkRepository_FindByToken mem_gorms 5 (generateToken ''seed'')
      (demo_db\<lparr>t_magic_links := [?row None]\<rparr>) = Inr x \<and> ml_ID x = fresh_id 0 \<and> ml_UserID x = ''u1'' \<and> ml_TenantID x = ''t1''"
    by (simp add: magicLinkRepository_FindByToken_def eval_mapper conv_simps time_defs)
  moreover have "magicLinkRepository_MarkUsed mem_gorms 6 (fresh_id 0) (demo_db\<lparr>t_magic_links := [?row None]\<rparr>) =
      (Inr (), demo_db\<lparr>t_magic_links := [?row (Some 6)]\<rparr>)"
    by (simp add: magicLinkRepository_MarkUsed_def eval_mapper)
  moreover have "userRepository_FindByID mem_gorms ''u1'' (demo_db\<lparr>t_magic_links := [?row (Some 6)]\<rparr>) = Inr ?user"
    by (simp add: demo_db_def userRepository_FindByID_def eval_mapper conv_simps)
  moreover have "PasswordlessService_getRolesForTenant demo_passwordless ''u1'' ''t1'' (demo_db\<lparr>t_magic_links := [?row (Some 6)]\<rparr>)
      = Inr [''member'', ''editor'', ''reviewer'']"
    by (simp add: PasswordlessService_getRolesForTenant_def demo_passwordless_def demo_db_def repo_simps eval_mapper conv_simps)
  ultimately show ?thesis
    using issueTokens_demo [of "(7, 8)" ?user "''t1''" "[''member'', ''editor'', ''reviewer'']"]
    by (fastforce simp: PasswordlessService_VerifyMagicLink_def demo_passwordless_def)
qed


text \<open>Suspension does not stop magic links. The outcome of a verification and its effect on every other
  table do not depend on the tenants' table: a link for a suspended tenant opens the same session as
  before the suspension.\<close>

theorem magic_link_ignores_tenants:
  "(case PasswordlessService_VerifyMagicLink (main_passwordless G tokens mail) look clock tok t d of (r, d1) \<Rightarrow>
      PasswordlessService_VerifyMagicLink (main_passwordless G tokens mail) look clock tok t (d\<lparr>t_tenants := ts\<rparr>)
        = (r, d1\<lparr>t_tenants := ts\<rparr>))"
proof -
  let ?s = "main_passwordless G tokens mail"
  have team: "team_roles (NewTeamRepository G) t (e\<lparr>t_tenants := ts\<rparr>) tms roles = team_roles (NewTeamRepository G) t e tms roles"
    for e tms roles
    by (induction tms arbitrary: roles) (auto simp: teamRepository_FindByID_def split: sum.splits)
  have roles: "PasswordlessService_getRolesForTenant ?s u t (e\<lparr>t_tenants := ts\<rparr>) =
      PasswordlessService_getRolesForTenant ?s u t e" for e u
    by (simp add: PasswordlessService_getRolesForTenant_def membershipRepository_FindByUserAndTenant_def
        teamMembershipRepository_ListByUser_def team split: sum.splits)
  have mark: "magicLinkRepository_MarkUsed G n i (d\<lparr>t_tenants := ts\<rparr>) =
      (case magicLinkRepository_MarkUsed G n i d of (r, d1) \<Rightarrow> (r, d1\<lparr>t_tenants := ts\<rparr>))" for n i
    by (auto simp: magicLinkRepository_MarkUsed_def split: sum.splits prod.splits)
  have reads: "magicLinkRepository_FindByToken G n tok (e\<lparr>t_tenants := ts\<rparr>) = magicLinkRepository_FindByToken G n tok e"
    "userRepository_FindByID G i (e\<lparr>t_tenants := ts\<rparr>) = userRepository_FindByID G i e" for e n i
    by (simp_all add: magicLinkRepository_FindByToken_def userRepository_FindByID_def)
  show ?thesis
    by (simp add: PasswordlessService_VerifyMagicLink_def mark reads roles PasswordlessService_issueTokens_def
        split: sum.split prod.split)
qed

end
