(* ===== verification/Races.thy ===== *)
theory Races
  imports Passwordless
begin

text \<open>
  Two requests that redeem the same magic link at the same time. The server runs every request in a goroutine
  of its own and service/passwordless.go takes no lock and opens no transaction, so the database
  may serve another request between the lookup of a link and its redemption.
\<close>

section \<open>A verification in two steps\<close>

text \<open>Where a request stands: before the lookup, with the link it found, answered.\<close>

datatype verify_pc = Looking | Found MagicLink | Answered "err + AuthResult"

definition verify_step :: "'w PasswordlessService \<Rightarrow> time \<times> time \<Rightarrow> time \<times> time \<Rightarrow> string \<Rightarrow> string \<Rightarrow>
    verify_pc \<Rightarrow> 'w \<Rightarrow> verify_pc \<times> 'w" where
  "verify_step s look clock token tenantID pc w =
     (case pc of
        Looking \<Rightarrow>
          (case MagicLinkRepository_FindByToken (ps_magicLinks s) (fst look) token w of
             Inl e \<Rightarrow> (Answered (Inl e), w)
           | Inr magicLink \<Rightarrow>
               (if ml_TenantID magicLink \<noteq> tenantID then (Answered (Inl (SvcAuthErr service_ErrMagicLinkNotFound)), w)
                else (Found magicLink, w)))
      | Found magicLink \<Rightarrow>
          (case MagicLinkRepository_MarkUsed (ps_magicLinks s) (snd look) (ml_ID magicLink) w of
             (Inl e, w1) \<Rightarrow> (Answered (Inl e), w1)
           | (Inr u, w1) \<Rightarrow>
               (case UserRepository_FindByID (ps_users s) (ml_UserID magicLink) w1 of
                  Inl e \<Rightarrow> (Answered (Inl e), w1)
                | Inr user \<Rightarrow>
                    (case PasswordlessService_getRolesForTenant s (user_ID user) tenantID w1 of
                       Inl e \<Rightarrow> (Answered (Inl e), w1)
                     | Inr roles \<Rightarrow> (Answered (PasswordlessService_issueTokens s clock user tenantID roles), w1))))
      | Answered r \<Rightarrow> (Answered r, w))"

lemma verify_step_Answered [simp]: "verify_step s look clock token t (Answered r) w = (Answered r, w)"
  by (simp add: verify_step_def)

text \<open>Run without interruption, the steps are the method.\<close>

lemma verify_alone:
  "(case verify_step s look clock token t Looking w of (pc, w1) \<Rightarrow> verify_step s look clock token t pc w1) =
   (case PasswordlessService_VerifyMagicLink s look clock token t w of (r, w') \<Rightarrow> (Answered r, w'))"
  by (simp add: verify_step_def PasswordlessService_VerifyMagicLink_def split: sum.split prod.split)

text \<open>Two requests under a schedule: \<open>True\<close> lets the first one make its step.\<close>

fun race :: "(verify_pc \<Rightarrow> 'w \<Rightarrow> verify_pc \<times> 'w) \<Rightarrow> (verify_pc \<Rightarrow> 'w \<Rightarrow> verify_pc \<times> 'w) \<Rightarrow> bool list \<Rightarrow>
    verify_pc \<times> verify_pc \<times> 'w \<Rightarrow> verify_pc \<times> verify_pc \<times> 'w" where
  "race A B [] st = st"
| "race A B (first # sched) (a, b, w) =
     (if first then (case A a w of (a', w') \<Rightarrow> race A B sched (a', b, w'))
      else (case B b w of (b', w') \<Rightarrow> race A B sched (a, b', w')))"

section \<open>Frames\<close>

lemma MarkUsed_reads:
  assumes "magicLinkRepository_MarkUsed G n i d = (r, d')"
  shows "userRepository_FindByID G u d' = userRepository_FindByID G u d"
    and "PasswordlessService_getRolesForTenant (main_passwordless G tokens mail) v t d' =
      PasswordlessService_getRolesForTenant (main_passwordless G tokens mail) v t d"
proof -
  note f = MarkUsed_frames [OF assms]
  show "userRepository_FindByID G u d' = userRepository_FindByID G u d"
    using f by (simp add: userRepository_FindByID_def)
  have team: "teamRepository_FindByID G x d' = teamRepository_FindByID G x d" for x
    using f by (simp add: teamRepository_FindByID_def)
  have "team_roles (NewTeamRepository G) t d' tms rs = team_roles (NewTeamRepository G) t d tms rs" for tms rs
    by (induction tms arbitrary: rs) (simp_all add: NewTeamRepository_def team split: sum.split)
  then show "PasswordlessService_getRolesForTenant (main_passwordless G tokens mail) v t d' =
      PasswordlessService_getRolesForTenant (main_passwordless G tokens mail) v t d"
    using f by (simp add: PasswordlessService_getRolesForTenant_def NewMembershipRepository_def NewTeamMembershipRepository_def
        membershipRepository_FindByUserAndTenant_def teamMembershipRepository_ListByUser_def split: sum.split)
qed

lemma passwordless_issueTokens_total:
  assumes "signs_all (ps_tokens s)"
  shows "\<exists>b. PasswordlessService_issueTokens s clock user t roles = Inr b \<and> ar_User b = user \<and>
    ar_TenantID b = t \<and> ar_Roles b = roles"
proof -
  have "\<exists>x. TokenService_GenerateAccessToken (ps_tokens s) n u t roles = Inr x"
      "\<exists>x. TokenService_GenerateRefreshToken (ps_tokens s) n u t roles = Inr x" for n u
    using assms by (simp_all add: signs_all_def TokenService_GenerateAccessToken_def TokenService_GenerateRefreshToken_def
        TokenService_generate_def)
  then obtain x y where "TokenService_GenerateAccessToken (ps_tokens s) (fst clock) (user_ID user) t roles = Inr x"
      "TokenService_GenerateRefreshToken (ps_tokens s) (snd clock) (user_ID user) t roles = Inr y" by blast
  then show ?thesis by (simp add: PasswordlessService_issueTokens_def)
qed

text \<open>The second request's redemption repeats the first one's, on a database that differs in links only.\<close>

lemma second_redemption:
  assumes "verify_step (main_passwordless G tokens mail) look clock tok t (Found m) d = (Answered (Inr a), d1)"
    and "signs_all tokens" and "\<exists>d2. magicLinkRepository_MarkUsed G (snd look') (ml_ID m) d1 = (Inr (), d2)"
  shows "\<exists>b d2. verify_step (main_passwordless G tokens mail) look' clock' tok t (Found m) d1 = (Answered (Inr b), d2) \<and>
    ar_User b = ar_User a \<and> ar_TenantID b = ar_TenantID a \<and> ar_Roles b = ar_Roles a"
proof -
  let ?s = "main_passwordless G tokens mail"
  obtain roles where mark: "magicLinkRepository_MarkUsed G (snd look) (ml_ID m) d = (Inr (), d1)"
      and u: "userRepository_FindByID G (ml_UserID m) d1 = Inr (ar_User a)"
      and r: "PasswordlessService_getRolesForTenant ?s (user_ID (ar_User a)) t d1 = Inr roles"
      and a: "ar_Roles a = roles" "ar_TenantID a = t"
    using assms(1) by (auto simp: verify_step_def PasswordlessService_issueTokens_def NewUserRepository_def
        split: sum.splits prod.splits)
  obtain d2 where d2: "magicLinkRepository_MarkUsed G (snd look') (ml_ID m) d1 = (Inr (), d2)" using assms(3) ..
  obtain b where "PasswordlessService_issueTokens ?s clock' (ar_User a) t roles = Inr b"
      "ar_User b = ar_User a" "ar_TenantID b = t" "ar_Roles b = roles"
    using passwordless_issueTokens_total [of ?s clock' "ar_User a" t roles] assms(2) by auto
  then show ?thesis using d2 u r a MarkUsed_reads [OF d2] by (simp add: verify_step_def NewUserRepository_def)
qed

section \<open>The race\<close>

text \<open>C15: Two requests with one magic link. If both look the link up before either redeems it, both get a session
  for the same user, tenant and roles, as long as the database lets both mark the link. If the
  first is answered with a session before the second starts, the second gets none.\<close>

theorem magic_link_race:
  fixes tokens mail tok t
  defines "req \<equiv> \<lambda>G look clock. verify_step (main_passwordless G tokens mail) look clock tok t"
  assumes "database G" and "magic_links_sound d" and "signs_all tokens"
    and "\<And>n i d1. \<exists>d2. magicLinkRepository_MarkUsed G n i d1 = (Inr (), d2)"
    and "magicLinkRepository_FindByToken G (fst look') tok d = magicLinkRepository_FindByToken G (fst look) tok d"
    and "PasswordlessService_VerifyMagicLink (main_passwordless G tokens mail) look clock tok t d = (Inr a, d1)"
  shows "(\<exists>b d2. race (req G look clock) (req G look' clock') [True, False, True, False] (Looking, Looking, d) =
      (Answered (Inr a), Answered (Inr b), d2) \<and>
      ar_User b = ar_User a \<and> ar_TenantID b = ar_TenantID a \<and> ar_Roles b = ar_Roles a) \<and>
    (\<exists>e d2. race (req G look clock) (req G look' clock') [True, True, False, False] (Looking, Looking, d) =
      (Answered (Inr a), Answered (Inl e), d2))"
proof -
  let ?s = "main_passwordless G tokens mail"
  from VerifyMagicLink_ok [OF assms(7)] obtain m
    where m: "magicLinkRepository_FindByToken G (fst look) tok d = Inr m" "ml_TenantID m = t" by auto
  have l: "verify_step ?s look clock tok t Looking d = (Found m, d)" "verify_step ?s look' clock' tok t Looking d = (Found m, d)"
    using m assms(6) by (simp_all add: verify_step_def)
  have f: "verify_step ?s look clock tok t (Found m) d = (Answered (Inr a), d1)"
    using verify_alone [of ?s look clock tok t d] l(1) assms(7) by simp
  obtain b d2 where b: "verify_step ?s look' clock' tok t (Found m) d1 = (Answered (Inr b), d2)"
      "ar_User b = ar_User a" "ar_TenantID b = ar_TenantID a" "ar_Roles b = ar_Roles a"
    using second_redemption [OF f assms(4,5)] by blast
  have "magic_spent tok d1" using database.Verify_spends [OF assms(2,3,7)] .
  then obtain e where "PasswordlessService_VerifyMagicLink ?s look' clock' tok t d1 = (Inl e, d1)"
    using database.spent_no_session [OF assms(2)] by blast
  then have s: "(case verify_step ?s look' clock' tok t Looking d1 of (pc, w1) \<Rightarrow> verify_step ?s look' clock' tok t pc w1) =
      (Answered (Inl e), d1)"
    using verify_alone [of ?s look' clock' tok t d1] by simp
  show ?thesis
  proof
    show "\<exists>b d2. race (req G look clock) (req G look' clock') [True, False, True, False] (Looking, Looking, d) =
      (Answered (Inr a), Answered (Inr b), d2) \<and>
      ar_User b = ar_User a \<and> ar_TenantID b = ar_TenantID a \<and> ar_Roles b = ar_Roles a"
      using l f b by (simp add: req_def)
    show "\<exists>e d2. race (req G look clock) (req G look' clock') [True, True, False, False] (Looking, Looking, d) =
      (Answered (Inr a), Answered (Inl e), d2)"
      using l f s by (simp add: req_def split: prod.splits)
  qed
qed

theorem magic_link_race_witness:
  "\<exists>a b d2. race (verify_step demo_passwordless (5, 6) (7, 8) ''tok'' ''t1'') (verify_step demo_passwordless (5, 9) (9, 10) ''tok'' ''t1'')
     [True, False, True, False] (Looking, Looking, links_db) = (Answered (Inr a), Answered (Inr b), d2) \<and>
     user_ID (ar_User b) = ''u1''"
proof -
  obtain a d1 where v: "PasswordlessService_VerifyMagicLink demo_passwordless (5, 6) (7, 8) ''tok'' ''t1'' links_db = (Inr a, d1)"
      "user_ID (ar_User a) = ''u1''" using demo_verify by blast
  have mark: "\<exists>d2. magicLinkRepository_MarkUsed mem_gorms n i d1 = (Inr (), d2)" for n i d1
    by (simp add: magicLinkRepository_MarkUsed_def eval_mapper)
  have s: "signs_all demo_tokens" by simp
  show ?thesis
    using magic_link_race [OF mem_database links_db_sound s mark _ v(1) [unfolded demo_passwordless_def], of "(5, 9)" "(9, 10)"] v(2)
    by (fastforce simp: demo_passwordless_def)
qed

end
