(* ===== verification/RepoIdp.thy ===== *)
theory RepoIdp
  imports Database DomainExt Contracts
begin

text \<open>
  idp_repository.go over the database: OAuth2 clients, authorization codes, consents and signing
  keys. String lists are JSON columns. \<open>FindByCode\<close> deletes the code it finds expired and ignores
  the outcome of that deletion.
\<close>

section \<open>Clients\<close>

definition toOAuth2ClientModel :: "OAuth2Client \<Rightarrow> oauth2ClientModel" where [conv_simps]:
  "toOAuth2ClientModel x = \<lparr>
     ocm_ID = oc_ID x, ocm_TenantID = oc_TenantID x, ocm_Name = oc_Name x,
     ocm_ClientID = oc_ClientID x, ocm_ClientSecretHash = oc_ClientSecret x,
     ocm_RedirectURIs = json_Marshal_strings (oc_RedirectURIs x),
     ocm_Scopes = json_Marshal_strings (oc_Scopes x),
     ocm_GrantTypes = json_Marshal_strings (oc_GrantTypes x),
     ocm_ResponseTypes = json_Marshal_strings (oc_ResponseTypes x),
     ocm_TokenEndpointAuthMethod = oc_TokenEndpointAuthMethod x, ocm_LogoURI = oc_LogoURI x,
     ocm_ClientURI = oc_ClientURI x, ocm_PolicyURI = oc_PolicyURI x, ocm_TOSURI = oc_TOSURI x,
     ocm_JWKSURI = oc_JWKSURI x, ocm_Contacts = json_Marshal_strings (oc_Contacts x),
     ocm_Enabled = oc_Enabled x, ocm_CreatedAt = zero_time, ocm_UpdatedAt = zero_time,
     ocm_CreatedBy = oc_CreatedBy x\<rparr>"

definition fromOAuth2ClientModel :: "oauth2ClientModel \<Rightarrow> OAuth2Client" where [conv_simps]:
  "fromOAuth2ClientModel m = \<lparr>
     oc_ID = ocm_ID m, oc_TenantID = ocm_TenantID m, oc_Name = ocm_Name m,
     oc_ClientID = ocm_ClientID m, oc_ClientSecret = ocm_ClientSecretHash m,
     oc_RedirectURIs = json_Unmarshal_strings (ocm_RedirectURIs m),
     oc_Scopes = json_Unmarshal_strings (ocm_Scopes m),
     oc_GrantTypes = json_Unmarshal_strings (ocm_GrantTypes m),
     oc_ResponseTypes = json_Unmarshal_strings (ocm_ResponseTypes m),
     oc_TokenEndpointAuthMethod = ocm_TokenEndpointAuthMethod m, oc_LogoURI = ocm_LogoURI m,
     oc_ClientURI = ocm_ClientURI m, oc_PolicyURI = ocm_PolicyURI m, oc_TOSURI = ocm_TOSURI m,
     oc_JWKSURI = ocm_JWKSURI m, oc_Contacts = json_Unmarshal_strings (ocm_Contacts m),
     oc_Enabled = ocm_Enabled m, oc_CreatedAt = ocm_CreatedAt m, oc_UpdatedAt = ocm_UpdatedAt m,
     oc_CreatedBy = ocm_CreatedBy m\<rparr>"

definition oauth2ClientRepository_Create ::
    "gorms \<Rightarrow> OAuth2Client \<Rightarrow> db \<Rightarrow> (err + OAuth2Client) \<times> db" where [repo_simps]:
  "oauth2ClientRepository_Create G c d =
     (case g_Create (gorm_oauth2_clients G) (toOAuth2ClientModel c) (t_oauth2_clients d) of
        (Inl e, t) \<Rightarrow> (Inl (if e = gorm_ErrDuplicatedKey then ExtErr ErrOAuth2ClientNotFound else GormErr e), d\<lparr>t_oauth2_clients := t\<rparr>)
      | (Inr m, t) \<Rightarrow>
          (Inr (c\<lparr>oc_ID := ocm_ID m, oc_CreatedAt := ocm_CreatedAt m, oc_UpdatedAt := ocm_UpdatedAt m\<rparr>),
           d\<lparr>t_oauth2_clients := t\<rparr>))"

definition oauth2ClientRepository_FindByID ::
    "gorms \<Rightarrow> string \<Rightarrow> db \<Rightarrow> err + OAuth2Client" where [repo_simps]:
  "oauth2ClientRepository_FindByID G uid d =
     (case g_First (gorm_oauth2_clients G) (\<lambda>m. ocm_ID m = uid) (t_oauth2_clients d) of
        Inl e \<Rightarrow> Inl (if e = gorm_ErrRecordNotFound then ExtErr ErrOAuth2ClientNotFound else GormErr e)
      | Inr m \<Rightarrow> Inr (fromOAuth2ClientModel m))"

definition oauth2ClientRepository_FindByClientID ::
    "gorms \<Rightarrow> string \<Rightarrow> db \<Rightarrow> err + OAuth2Client" where [repo_simps]:
  "oauth2ClientRepository_FindByClientID G clientID d =
     (case g_First (gorm_oauth2_clients G) (\<lambda>m. ocm_ClientID m = clientID) (t_oauth2_clients d) of
        Inl e \<Rightarrow> Inl (if e = gorm_ErrRecordNotFound then ExtErr ErrOAuth2ClientNotFound else GormErr e)
      | Inr m \<Rightarrow> Inr (fromOAuth2ClientModel m))"

definition oauth2ClientRepository_FindByTenant ::
    "gorms \<Rightarrow> string \<Rightarrow> db \<Rightarrow> err + OAuth2Client list" where [repo_simps]:
  "oauth2ClientRepository_FindByTenant G tenantID d =
     (case g_Find (gorm_oauth2_clients G) (\<lambda>m. ocm_TenantID m = tenantID) (t_oauth2_clients d) of
        Inl e \<Rightarrow> Inl (GormErr e)
      | Inr models \<Rightarrow> Inr (map fromOAuth2ClientModel models))"

definition oauth2ClientRepository_Update ::
    "gorms \<Rightarrow> OAuth2Client \<Rightarrow> db \<Rightarrow> (err + unit) \<times> db" where [repo_simps]:
  "oauth2ClientRepository_Update G c d =
     (case g_Updates (gorm_oauth2_clients G) (\<lambda>m. ocm_ID m = oc_ID c) ((toOAuth2ClientModel c)\<lparr>ocm_CreatedBy := []\<rparr>) (t_oauth2_clients d) of
        (Inl e, t) \<Rightarrow> (Inl (GormErr e), d\<lparr>t_oauth2_clients := t\<rparr>)
      | (Inr n, t) \<Rightarrow> (if n = 0 then Inl (ExtErr ErrOAuth2ClientNotFound) else Inr (), d\<lparr>t_oauth2_clients := t\<rparr>))"

definition oauth2ClientRepository_Delete ::
    "gorms \<Rightarrow> string \<Rightarrow> db \<Rightarrow> (err + unit) \<times> db" where [repo_simps]:
  "oauth2ClientRepository_Delete G uid d =
     (case g_Delete (gorm_oauth2_clients G) (\<lambda>m. ocm_ID m = uid) (t_oauth2_clients d) of
        (Inl e, t) \<Rightarrow> (Inl (GormErr e), d\<lparr>t_oauth2_clients := t\<rparr>)
      | (Inr n, t) \<Rightarrow> (if n = 0 then Inl (ExtErr ErrOAuth2ClientNotFound) else Inr (), d\<lparr>t_oauth2_clients := t\<rparr>))"

definition NewOAuth2ClientRepository :: "gorms \<Rightarrow> db OAuth2ClientRepository" where
  "NewOAuth2ClientRepository G = \<lparr>
     OAuth2ClientRepository_Create = oauth2ClientRepository_Create G,
     OAuth2ClientRepository_FindByID = oauth2ClientRepository_FindByID G,
     OAuth2ClientRepository_FindByClientID = oauth2ClientRepository_FindByClientID G,
     OAuth2ClientRepository_FindByTenant = oauth2ClientRepository_FindByTenant G,
     OAuth2ClientRepository_Update = oauth2ClientRepository_Update G,
     OAuth2ClientRepository_Delete = oauth2ClientRepository_Delete G\<rparr>"

section \<open>Authorization codes\<close>

definition toOAuth2AuthCodeModel :: "OAuth2AuthorizationCode \<Rightarrow> oauth2AuthCodeModel" where [conv_simps]:
  "toOAuth2AuthCodeModel x = \<lparr>
     acm_ID = ac_ID x, acm_ClientID = ac_ClientID x, acm_UserID = ac_UserID x,
     acm_TenantID = ac_TenantID x, acm_RedirectURI = ac_RedirectURI x,
     acm_Scopes = json_Marshal_strings (ac_Scopes x), acm_CodeChallenge = ac_CodeChallenge x,
     acm_CodeChallengeMethod = ac_CodeChallengeMethod x, acm_Nonce = ac_Nonce x,
     acm_ExpiresAt = ac_ExpiresAt x, acm_CreatedAt = zero_time\<rparr>"

definition fromOAuth2AuthCodeModel :: "oauth2AuthCodeModel \<Rightarrow> OAuth2AuthorizationCode" where [conv_simps]:
  "fromOAuth2AuthCodeModel m = \<lparr>
     ac_ID = acm_ID m, ac_ClientID = acm_ClientID m, ac_UserID = acm_UserID m,
     ac_TenantID = acm_TenantID m, ac_RedirectURI = acm_RedirectURI m,
     ac_Scopes = json_Unmarshal_strings (acm_Scopes m), ac_CodeChallenge = acm_CodeChallenge m,
     ac_CodeChallengeMethod = acm_CodeChallengeMethod m, ac_Nonce = acm_Nonce m,
     ac_ExpiresAt = acm_ExpiresAt m, ac_CreatedAt = acm_CreatedAt m\<rparr>"

definition oauth2AuthCodeRepository_Create ::
    "gorms \<Rightarrow> OAuth2AuthorizationCode \<Rightarrow> db \<Rightarrow> (err + OAuth2AuthorizationCode) \<times> db" where [repo_simps]:
  "oauth2AuthCodeRepository_Create G c d =
     (case g_Create (gorm_oauth2_auth_codes G) (toOAuth2AuthCodeModel c) (t_oauth2_auth_codes d) of
        (Inl e, t) \<Rightarrow> (Inl (GormErr e), d\<lparr>t_oauth2_auth_codes := t\<rparr>)
      | (Inr m, t) \<Rightarrow>
          (Inr (c\<lparr>ac_ID := acm_ID m, ac_CreatedAt := acm_CreatedAt m\<rparr>),
           d\<lparr>t_oauth2_auth_codes := t\<rparr>))"

definition oauth2AuthCodeRepository_FindByCode ::
    "gorms \<Rightarrow> time \<Rightarrow> string \<Rightarrow> db \<Rightarrow> (err + OAuth2AuthorizationCode option) \<times> db" where [repo_simps]:
  "oauth2AuthCodeRepository_FindByCode G now code d =
     (case g_First (gorm_oauth2_auth_codes G) (\<lambda>m. acm_ID m = code) (t_oauth2_auth_codes d) of
        Inl e \<Rightarrow> (if e = gorm_ErrRecordNotFound then Inr None else Inl (GormErr e), d)
      | Inr m \<Rightarrow>
          (if time_After now (acm_ExpiresAt m) then
             (Inr None, d\<lparr>t_oauth2_auth_codes :=
                snd (g_Delete (gorm_oauth2_auth_codes G) (\<lambda>x. acm_ID x = acm_ID m) (t_oauth2_auth_codes d))\<rparr>)
           else (Inr (Some (fromOAuth2AuthCodeModel m)), d)))"

definition oauth2AuthCodeRepository_Delete ::
    "gorms \<Rightarrow> string \<Rightarrow> db \<Rightarrow> (err + unit) \<times> db" where [repo_simps]:
  "oauth2AuthCodeRepository_Delete G code d =
     (case g_Delete (gorm_oauth2_auth_codes G) (\<lambda>m. acm_ID m = code) (t_oauth2_auth_codes d) of
        (Inl e, t) \<Rightarrow> (Inl (GormErr e), d\<lparr>t_oauth2_auth_codes := t\<rparr>)
      | (Inr n, t) \<Rightarrow> (Inr (), d\<lparr>t_oauth2_auth_codes := t\<rparr>))"

definition oauth2AuthCodeRepository_DeleteExpired ::
    "gorms \<Rightarrow> time \<Rightarrow> db \<Rightarrow> (err + unit) \<times> db" where [repo_simps]:
  "oauth2AuthCodeRepository_DeleteExpired G now d =
     (case g_Delete (gorm_oauth2_auth_codes G) (\<lambda>m. acm_ExpiresAt m < now) (t_oauth2_auth_codes d) of
        (Inl e, t) \<Rightarrow> (Inl (GormErr e), d\<lparr>t_oauth2_auth_codes := t\<rparr>)
      | (Inr n, t) \<Rightarrow> (Inr (), d\<lparr>t_oauth2_auth_codes := t\<rparr>))"

definition NewOAuth2AuthCodeRepository :: "gorms \<Rightarrow> db OAuth2AuthorizationCodeRepository" where
  "NewOAuth2AuthCodeRepository G = \<lparr>
     OAuth2AuthorizationCodeRepository_Create = oauth2AuthCodeRepository_Create G,
     OAuth2AuthorizationCodeRepository_FindByCode = oauth2AuthCodeRepository_FindByCode G,
     OAuth2AuthorizationCodeRepository_Delete = oauth2AuthCodeRepository_Delete G,
     OAuth2AuthorizationCodeRepository_DeleteExpired = oauth2AuthCodeRepository_DeleteExpired G\<rparr>"

section \<open>Consents\<close>

definition toOAuth2ConsentModel :: "OAuth2Consent \<Rightarrow> oauth2ConsentModel" where [conv_simps]:
  "toOAuth2ConsentModel x = \<lparr>
     com_ID = con_ID x, com_UserID = con_UserID x, com_ClientID = con_ClientID x,
     com_TenantID = con_TenantID x, com_Scopes = json_Marshal_strings (con_Scopes x),
     com_ExpiresAt = con_ExpiresAt x, com_CreatedAt = zero_time, com_UpdatedAt = zero_time\<rparr>"

definition fromOAuth2ConsentModel :: "oauth2ConsentModel \<Rightarrow> OAuth2Consent" where [conv_simps]:
  "fromOAuth2ConsentModel m = \<lparr>
     con_ID = com_ID m, con_UserID = com_UserID m, con_ClientID = com_ClientID m,
     con_TenantID = com_TenantID m, con_Scopes = json_Unmarshal_strings (com_Scopes m),
     con_ExpiresAt = com_ExpiresAt m, con_CreatedAt = com_CreatedAt m,
     con_UpdatedAt = com_UpdatedAt m\<rparr>"

definition oauth2ConsentRepository_Create ::
    "gorms \<Rightarrow> OAuth2Consent \<Rightarrow> db \<Rightarrow> (err + OAuth2Consent) \<times> db" where [repo_simps]:
  "oauth2ConsentRepository_Create G c d =
     (case g_Create (gorm_oauth2_consents G) (toOAuth2ConsentModel c) (t_oauth2_consents d) of
        (Inl e, t) \<Rightarrow> (Inl (GormErr e), d\<lparr>t_oauth2_consents := t\<rparr>)
      | (Inr m, t) \<Rightarrow>
          (Inr (c\<lparr>con_ID := com_ID m, con_CreatedAt := com_CreatedAt m, con_UpdatedAt := com_UpdatedAt m\<rparr>),
           d\<lparr>t_oauth2_consents := t\<rparr>))"

definition expired_at :: "time \<Rightarrow> time option \<Rightarrow> bool" where
  "expired_at now t \<longleftrightarrow> (case t of None \<Rightarrow> False | Some e \<Rightarrow> time_After now e)"

definition oauth2ConsentRepository_FindByUserAndClient ::
    "gorms \<Rightarrow> time \<Rightarrow> string \<Rightarrow> string \<Rightarrow> db \<Rightarrow> err + OAuth2Consent option" where [repo_simps]:
  "oauth2ConsentRepository_FindByUserAndClient G now userID clientID d =
     (case g_First (gorm_oauth2_consents G) (\<lambda>m. com_UserID m = userID \<and> com_ClientID m = clientID)
             (t_oauth2_consents d) of
        Inl e \<Rightarrow> (if e = gorm_ErrRecordNotFound then Inr None else Inl (GormErr e))
      | Inr m \<Rightarrow>
          (if expired_at now (com_ExpiresAt m) then Inr None else Inr (Some (fromOAuth2ConsentModel m))))"

definition oauth2ConsentRepository_FindByUser ::
    "gorms \<Rightarrow> time \<Rightarrow> string \<Rightarrow> db \<Rightarrow> err + OAuth2Consent list" where [repo_simps]:
  "oauth2ConsentRepository_FindByUser G now userID d =
     (case g_Find (gorm_oauth2_consents G) (\<lambda>m. com_UserID m = userID) (t_oauth2_consents d) of
        Inl e \<Rightarrow> Inl (GormErr e)
      | Inr models \<Rightarrow>
          Inr (map fromOAuth2ConsentModel (filter (\<lambda>m. \<not> expired_at now (com_ExpiresAt m)) models)))"

definition oauth2ConsentRepository_Update ::
    "gorms \<Rightarrow> OAuth2Consent \<Rightarrow> db \<Rightarrow> (err + unit) \<times> db" where [repo_simps]:
  "oauth2ConsentRepository_Update G c d =
     (case g_Updates (gorm_oauth2_consents G) (\<lambda>m. com_ID m = con_ID c) (toOAuth2ConsentModel c) (t_oauth2_consents d) of
        (Inl e, t) \<Rightarrow> (Inl (GormErr e), d\<lparr>t_oauth2_consents := t\<rparr>)
      | (Inr n, t) \<Rightarrow> (if n = 0 then Inl (FmtErr ''consent not found'') else Inr (), d\<lparr>t_oauth2_consents := t\<rparr>))"

definition oauth2ConsentRepository_Delete ::
    "gorms \<Rightarrow> string \<Rightarrow> string \<Rightarrow> db \<Rightarrow> (err + unit) \<times> db" where [repo_simps]:
  "oauth2ConsentRepository_Delete G userID clientID d =
     (case g_Delete (gorm_oauth2_consents G) (\<lambda>m. com_UserID m = userID \<and> com_ClientID m = clientID) (t_oauth2_consents d) of
        (Inl e, t) \<Rightarrow> (Inl (GormErr e), d\<lparr>t_oauth2_consents := t\<rparr>)
      | (Inr n, t) \<Rightarrow> (Inr (), d\<lparr>t_oauth2_consents := t\<rparr>))"

definition NewOAuth2ConsentRepository :: "gorms \<Rightarrow> db OAuth2ConsentRepository" where
  "NewOAuth2ConsentRepository G = \<lparr>
     OAuth2ConsentRepository_Create = oauth2ConsentRepository_Create G,
     OAuth2ConsentRepository_FindByUserAndClient = oauth2ConsentRepository_FindByUserAndClient G,
     OAuth2ConsentRepository_FindByUser = oauth2ConsentRepository_FindByUser G,
     OAuth2ConsentRepository_Update = oauth2ConsentRepository_Update G,
     OAuth2ConsentRepository_Delete = oauth2ConsentRepository_Delete G\<rparr>"

section \<open>Signing keys\<close>

definition toSigningKeyModel :: "SigningKey \<Rightarrow> signingKeyModel" where [conv_simps]:
  "toSigningKeyModel x = \<lparr>
     skm_ID = sk_ID x, skm_KeyID = sk_KeyID x, skm_Algorithm = sk_Algorithm x,
     skm_PrivateKey = sk_PrivateKey x, skm_PublicKey = sk_PublicKey x,
     skm_IsActive = sk_IsActive x, skm_CreatedAt = zero_time, skm_ExpiresAt = sk_ExpiresAt x\<rparr>"

definition fromSigningKeyModel :: "signingKeyModel \<Rightarrow> SigningKey" where [conv_simps]:
  "fromSigningKeyModel m = \<lparr>
     sk_ID = skm_ID m, sk_KeyID = skm_KeyID m, sk_Algorithm = skm_Algorithm m,
     sk_PrivateKey = skm_PrivateKey m, sk_PublicKey = skm_PublicKey m,
     sk_IsActive = skm_IsActive m, sk_CreatedAt = skm_CreatedAt m, sk_ExpiresAt = skm_ExpiresAt m\<rparr>"

definition signingKeyRepository_Create ::
    "gorms \<Rightarrow> SigningKey \<Rightarrow> db \<Rightarrow> (err + SigningKey) \<times> db" where [repo_simps]:
  "signingKeyRepository_Create G k d =
     (case g_Create (gorm_signing_keys G) (toSigningKeyModel k) (t_signing_keys d) of
        (Inl e, t) \<Rightarrow> (Inl (GormErr e), d\<lparr>t_signing_keys := t\<rparr>)
      | (Inr m, t) \<Rightarrow>
          (Inr (k\<lparr>sk_ID := skm_ID m, sk_CreatedAt := skm_CreatedAt m\<rparr>),
           d\<lparr>t_signing_keys := t\<rparr>))"

definition signingKeyRepository_FindActive ::
    "gorms \<Rightarrow> time \<Rightarrow> db \<Rightarrow> err + SigningKey option" where [repo_simps]:
  "signingKeyRepository_FindActive G now d =
     (case g_First (gorm_signing_keys G) (\<lambda>m. skm_IsActive m) (t_signing_keys d) of
        Inl e \<Rightarrow> (if e = gorm_ErrRecordNotFound then Inr None else Inl (GormErr e))
      | Inr m \<Rightarrow>
          (if expired_at now (skm_ExpiresAt m) then Inr None else Inr (Some (fromSigningKeyModel m))))"

definition signingKeyRepository_FindByID ::
    "gorms \<Rightarrow> string \<Rightarrow> db \<Rightarrow> err + SigningKey option" where [repo_simps]:
  "signingKeyRepository_FindByID G uid d =
     (case g_First (gorm_signing_keys G) (\<lambda>m. skm_ID m = uid) (t_signing_keys d) of
        Inl e \<Rightarrow> (if e = gorm_ErrRecordNotFound then Inr None else Inl (GormErr e))
      | Inr m \<Rightarrow> Inr (Some (fromSigningKeyModel m)))"

definition signingKeyRepository_FindByKeyID ::
    "gorms \<Rightarrow> string \<Rightarrow> db \<Rightarrow> err + SigningKey option" where [repo_simps]:
  "signingKeyRepository_FindByKeyID G keyID d =
     (case g_First (gorm_signing_keys G) (\<lambda>m. skm_KeyID m = keyID) (t_signing_keys d) of
        Inl e \<Rightarrow> (if e = gorm_ErrRecordNotFound then Inr None else Inl (GormErr e))
      | Inr m \<Rightarrow> Inr (Some (fromSigningKeyModel m)))"

definition signingKeyRepository_List ::
    "gorms \<Rightarrow> db \<Rightarrow> err + SigningKey list" where [repo_simps]:
  "signingKeyRepository_List G d =
     (case g_Find (gorm_signing_keys G) (\<lambda>m. True) (t_signing_keys d) of
        Inl e \<Rightarrow> Inl (GormErr e)
      | Inr models \<Rightarrow> Inr (map fromSigningKeyModel models))"

definition signingKeyRepository_Update ::
    "gorms \<Rightarrow> SigningKey \<Rightarrow> db \<Rightarrow> (err + unit) \<times> db" where [repo_simps]:
  "signingKeyRepository_Update G k d =
     (case g_Updates (gorm_signing_keys G) (\<lambda>m. skm_ID m = sk_ID k) (toSigningKeyModel k) (t_signing_keys d) of
        (Inl e, t) \<Rightarrow> (Inl (GormErr e), d\<lparr>t_signing_keys := t\<rparr>)
      | (Inr n, t) \<Rightarrow> (if n = 0 then Inl (FmtErr ''signing key not found'') else Inr (), d\<lparr>t_signing_keys := t\<rparr>))"

definition NewSigningKeyRepository :: "gorms \<Rightarrow> db SigningKeyRepository" where
  "NewSigningKeyRepository G = \<lparr>
     SigningKeyRepository_Create = signingKeyRepository_Create G,
     SigningKeyRepository_FindActive = signingKeyRepository_FindActive G,
     SigningKeyRepository_FindByID = signingKeyRepository_FindByID G,
     SigningKeyRepository_FindByKeyID = signingKeyRepository_FindByKeyID G,
     SigningKeyRepository_List = signingKeyRepository_List G,
     SigningKeyRepository_Update = signingKeyRepository_Update G\<rparr>"

section \<open>Facts\<close>

text \<open>A client's row reads back as the client.\<close>

lemma fromOAuth2ClientModel_to:
  "fromOAuth2ClientModel (toOAuth2ClientModel c) = c\<lparr>oc_CreatedAt := zero_time, oc_UpdatedAt := zero_time\<rparr>"
  by (simp add: conv_simps)

lemma patch_toOAuth2ClientModel_disabled:
  "\<not> oc_Enabled c \<Longrightarrow> ocm_Enabled (patch_oauth2_client (toOAuth2ClientModel c) r) = ocm_Enabled r"
  by (simp add: patch_oauth2_client_def toOAuth2ClientModel_def)

lemma patch_toSigningKeyModel_inactive:
  "\<not> sk_IsActive k \<Longrightarrow> skm_IsActive (patch_signing_key (toSigningKeyModel k) r) = skm_IsActive r"
  by (simp add: patch_signing_key_def toSigningKeyModel_def)

text \<open>A code that was deleted is not found again.\<close>

lemma FindByCode_live:
  "oauth2AuthCodeRepository_FindByCode G now code d = (Inr (Some c), d') \<Longrightarrow>
   d' = d \<and> now \<le> ac_ExpiresAt c"
  by (auto simp: oauth2AuthCodeRepository_FindByCode_def fromOAuth2AuthCodeModel_def time_defs
           split: sum.splits if_splits)

lemma FindByCode_ID:
  "database G \<Longrightarrow> oauth2AuthCodeRepository_FindByCode G now code d = (Inr (Some c), d') \<Longrightarrow> ac_ID c = code"
  by (auto simp: oauth2AuthCodeRepository_FindByCode_def fromOAuth2AuthCodeModel_def
           split: sum.splits if_splits
           dest!: gorm_table.First_hit [OF database.oauth2_auth_code_table])

lemma FindByCode_deleted:
  assumes "database G" and "oauth2AuthCodeRepository_Delete G code d = (Inr (), d')"
  shows "fst (oauth2AuthCodeRepository_FindByCode G now code d') \<noteq> Inr (Some c)"
  using assms(2) gorm_table.Delete_set [OF database.oauth2_auth_code_table [OF assms(1)]]
  by (auto simp: oauth2AuthCodeRepository_FindByCode_def oauth2AuthCodeRepository_Delete_def
           split: sum.splits prod.splits if_splits
           dest!: gorm_table.First_hit [OF database.oauth2_auth_code_table [OF assms(1)]])

end
