(* ===== verification/DomainFed.thy ===== *)
theory DomainFed
  imports DomainExt "HOL-Library.Word"
begin

text \<open>
  Package \<open>domain\<close>, continued: SAML identity providers and WebAuthn credentials (auth_ext.go).
  A signature counter is a 32-bit word; \<open>map[string]string\<close> is an association list, \<open>None\<close> for the nil map.
\<close>

record SAMLProvider =
  sp_ID :: string
  sp_TenantID :: string
  sp_Name :: string
  sp_EntityID :: string
  sp_SSOURL :: string
  sp_SLOURL :: string
  sp_X509Cert :: string
  sp_PrivateKey :: string
  sp_AttributeMapping :: "(string \<times> string) list option"
  sp_Enabled :: bool
  sp_CreatedAt :: time
  sp_UpdatedAt :: time

record 'w SAMLProviderRepository =
  SAMLProviderRepository_Create :: "SAMLProvider \<Rightarrow> 'w \<Rightarrow> (err + SAMLProvider) \<times> 'w"
  SAMLProviderRepository_FindByID :: "string \<Rightarrow> 'w \<Rightarrow> err + SAMLProvider"
  SAMLProviderRepository_FindByTenant :: "string \<Rightarrow> 'w \<Rightarrow> err + SAMLProvider list"
  SAMLProviderRepository_Update :: "SAMLProvider \<Rightarrow> 'w \<Rightarrow> (err + unit) \<times> 'w"
  SAMLProviderRepository_Delete :: "string \<Rightarrow> 'w \<Rightarrow> (err + unit) \<times> 'w"

record WebAuthnCredential =
  wa_ID :: string
  wa_UserID :: string
  wa_TenantID :: string
  wa_CredentialID :: string
  wa_PublicKey :: string
  wa_AttestationType :: string
  wa_Transport :: "string list"
  wa_SignCount :: "32 word"
  wa_DeviceName :: string
  wa_CreatedAt :: time
  wa_LastUsedAt :: "time option"

record 'w WebAuthnCredentialRepository =
  WebAuthnCredentialRepository_Create :: "WebAuthnCredential \<Rightarrow> 'w \<Rightarrow> (err + WebAuthnCredential) \<times> 'w"
  WebAuthnCredentialRepository_FindByID :: "string \<Rightarrow> 'w \<Rightarrow> err + WebAuthnCredential option"
  WebAuthnCredentialRepository_FindByUser :: "string \<Rightarrow> 'w \<Rightarrow> err + WebAuthnCredential list"
  WebAuthnCredentialRepository_FindByCredentialID :: "string \<Rightarrow> 'w \<Rightarrow> err + WebAuthnCredential option"
  WebAuthnCredentialRepository_Update :: "WebAuthnCredential \<Rightarrow> 'w \<Rightarrow> (err + unit) \<times> 'w"
  WebAuthnCredentialRepository_Delete :: "string \<Rightarrow> 'w \<Rightarrow> (err + unit) \<times> 'w"

end
