(* ===== verification/RepoMfa.thy ===== *)
theory RepoMfa
  imports Database DomainFed
begin

text \<open>
  mfa_repository.go over the database: second factors and WebAuthn credentials. \<open>Update\<close> writes
  the non-zero fields of its argument, so a cleared \<open>IsPrimary\<close> is not stored; updating a
  credential that is not there succeeds.
\<close>

section \<open>Second factors\<close>

definition toMFAMethodModel :: "MFAMethod \<Rightarrow> mfaMethodModel" where [conv_simps]:
  "toMFAMethodModel x = \<lparr>
     mfm_ID = mfa_ID x, mfm_UserID = mfa_UserID x, mfm_TenantID = mfa_TenantID x,
     mfm_Type = mfa_Type x, mfm_Name = mfa_Name x, mfm_Secret = mfa_Secret x,
     mfm_BackupCodes = json_Marshal_strings (mfa_BackupCodes x), mfm_IsPrimary = mfa_IsPrimary x,
     mfm_VerifiedAt = mfa_VerifiedAt x, mfm_LastUsedAt = mfa_LastUsedAt x,
     mfm_CreatedAt = zero_time, mfm_UpdatedAt = zero_time\<rparr>"

definition fromMFAMethodModel :: "mfaMethodModel \<Rightarrow> MFAMethod" where [conv_simps]:
  "fromMFAMethodModel m = \<lparr>
     mfa_ID = mfm_ID m, mfa_UserID = mfm_UserID m, mfa_TenantID = mfm_TenantID m,
     mfa_Type = mfm_Type m, mfa_Name = mfm_Name m, mfa_Secret = mfm_Secret m,
     mfa_BackupCodes = json_Unmarshal_strings (mfm_BackupCodes m),
     mfa_IsPrimary = mfm_IsPrimary m, mfa_VerifiedAt = mfm_VerifiedAt m,
     mfa_LastUsedAt = mfm_LastUsedAt m, mfa_CreatedAt = mfm_CreatedAt m,
     mfa_UpdatedAt = mfm_UpdatedAt m\<rparr>"

definition mfaMethodRepository_Create ::
    "gorms \<Rightarrow> MFAMethod \<Rightarrow> db \<Rightarrow> (err + MFAMethod) \<times> db" where [repo_simps]:
  "mfaMethodRepository_Create G m0 d =
     (case g_Create (gorm_mfa_methods G) (toMFAMethodModel m0) (t_mfa_methods d) of
        (Inl e, t) \<Rightarrow> (Inl (GormErr e), d\<lparr>t_mfa_methods := t\<rparr>)
      | (Inr m, t) \<Rightarrow>
          (Inr (m0\<lparr>mfa_ID := mfm_ID m, mfa_CreatedAt := mfm_CreatedAt m, mfa_UpdatedAt := mfm_UpdatedAt m\<rparr>),
           d\<lparr>t_mfa_methods := t\<rparr>))"

definition mfaMethodRepository_FindByID ::
    "gorms \<Rightarrow> string \<Rightarrow> db \<Rightarrow> err + MFAMethod" where [repo_simps]:
  "mfaMethodRepository_FindByID G uid d =
     (case g_First (gorm_mfa_methods G) (\<lambda>m. mfm_ID m = uid) (t_mfa_methods d) of
        Inl e \<Rightarrow> Inl (if e = gorm_ErrRecordNotFound then ExtErr ErrMFAMethodNotFound else GormErr e)
      | Inr m \<Rightarrow> Inr (fromMFAMethodModel m))"

definition mfaMethodRepository_FindByUser ::
    "gorms \<Rightarrow> string \<Rightarrow> db \<Rightarrow> err + MFAMethod list" where [repo_simps]:
  "mfaMethodRepository_FindByUser G userID d =
     (case g_Find (gorm_mfa_methods G) (\<lambda>m. mfm_UserID m = userID) (t_mfa_methods d) of
        Inl e \<Rightarrow> Inl (GormErr e)
      | Inr models \<Rightarrow> Inr (map fromMFAMethodModel models))"

definition mfaMethodRepository_FindPrimaryByUser ::
    "gorms \<Rightarrow> string \<Rightarrow> db \<Rightarrow> err + MFAMethod option" where [repo_simps]:
  "mfaMethodRepository_FindPrimaryByUser G userID d =
     (case g_First (gorm_mfa_methods G) (\<lambda>m. mfm_UserID m = userID \<and> mfm_IsPrimary m) (t_mfa_methods d) of
        Inl e \<Rightarrow> (if e = gorm_ErrRecordNotFound then Inr None else Inl (GormErr e))
      | Inr m \<Rightarrow> Inr (Some (fromMFAMethodModel m)))"

definition mfaMethodRepository_Update ::
    "gorms \<Rightarrow> MFAMethod \<Rightarrow> db \<Rightarrow> (err + unit) \<times> db" where [repo_simps]:
  "mfaMethodRepository_Update G m0 d =
     (case g_Updates (gorm_mfa_methods G) (\<lambda>m. mfm_ID m = mfa_ID m0) (toMFAMethodModel m0) (t_mfa_methods d) of
        (Inl e, t) \<Rightarrow> (Inl (GormErr e), d\<lparr>t_mfa_methods := t\<rparr>)
      | (Inr n, t) \<Rightarrow> (if n = 0 then Inl (ExtErr ErrMFAMethodNotFound) else Inr (), d\<lparr>t_mfa_methods := t\<rparr>))"

definition mfaMethodRepository_Delete ::
    "gorms \<Rightarrow> string \<Rightarrow> db \<Rightarrow> (err + unit) \<times> db" where [repo_simps]:
  "mfaMethodRepository_Delete G uid d =
     (case g_Delete (gorm_mfa_methods G) (\<lambda>m. mfm_ID m = uid) (t_mfa_methods d) of
        (Inl e, t) \<Rightarrow> (Inl (GormErr e), d\<lparr>t_mfa_methods := t\<rparr>)
      | (Inr n, t) \<Rightarrow> (if n = 0 then Inl (ExtErr ErrMFAMethodNotFound) else Inr (), d\<lparr>t_mfa_methods := t\<rparr>))"

definition NewMFAMethodRepository :: "gorms \<Rightarrow> db MFAMethodRepository" where
  "NewMFAMethodRepository G = \<lparr>
     MFAMethodRepository_Create = mfaMethodRepository_Create G,
     MFAMethodRepository_FindByID = mfaMethodRepository_FindByID G,
     MFAMethodRepository_FindByUser = mfaMethodRepository_FindByUser G,
     MFAMethodRepository_FindPrimaryByUser = mfaMethodRepository_FindPrimaryByUser G,
     MFAMethodRepository_Update = mfaMethodRepository_Update G,
     MFAMethodRepository_Delete = mfaMethodRepository_Delete G\<rparr>"

section \<open>WebAuthn credentials\<close>

definition toWebAuthnCredentialModel :: "WebAuthnCredential \<Rightarrow> webAuthnCredentialModel" where [conv_simps]:
  "toWebAuthnCredentialModel x = \<lparr>
     wam_ID = wa_ID x, wam_UserID = wa_UserID x, wam_TenantID = wa_TenantID x,
     wam_CredentialID = wa_CredentialID x, wam_PublicKey = wa_PublicKey x,
     wam_AttestationType = wa_AttestationType x,
     wam_Transport = json_Marshal_strings (wa_Transport x), wam_SignCount = wa_SignCount x,
     wam_DeviceName = wa_DeviceName x, wam_CreatedAt = zero_time, wam_LastUsedAt = wa_LastUsedAt x\<rparr>"

definition fromWebAuthnCredentialModel :: "webAuthnCredentialModel \<Rightarrow> WebAuthnCredential" where [conv_simps]:
  "fromWebAuthnCredentialModel m = \<lparr>
     wa_ID = wam_ID m, wa_UserID = wam_UserID m, wa_TenantID = wam_TenantID m,
     wa_CredentialID = wam_CredentialID m, wa_PublicKey = wam_PublicKey m,
     wa_AttestationType = wam_AttestationType m,
     wa_Transport = json_Unmarshal_strings (wam_Transport m), wa_SignCount = wam_SignCount m,
     wa_DeviceName = wam_DeviceName m, wa_CreatedAt = wam_CreatedAt m,
     wa_LastUsedAt = wam_LastUsedAt m\<rparr>"

definition webAuthnCredentialRepository_Create ::
    "gorms \<Rightarrow> WebAuthnCredential \<Rightarrow> db \<Rightarrow> (err + WebAuthnCredential) \<times> db" where [repo_simps]:
  "webAuthnCredentialRepository_Create G c d =
     (case g_Create (gorm_webauthn_credentials G) ((toWebAuthnCredentialModel c)\<lparr>wam_LastUsedAt := None\<rparr>) (t_webauthn_credentials d) of
        (Inl e, t) \<Rightarrow> (Inl (GormErr e), d\<lparr>t_webauthn_credentials := t\<rparr>)
      | (Inr m, t) \<Rightarrow>
          (Inr (c\<lparr>wa_ID := wam_ID m, wa_CreatedAt := wam_CreatedAt m\<rparr>),
           d\<lparr>t_webauthn_credentials := t\<rparr>))"

definition webAuthnCredentialRepository_FindByID ::
    "gorms \<Rightarrow> string \<Rightarrow> db \<Rightarrow> err + WebAuthnCredential option" where [repo_simps]:
  "webAuthnCredentialRepository_FindByID G uid d =
     (case g_First (gorm_webauthn_credentials G) (\<lambda>m. wam_ID m = uid) (t_webauthn_credentials d) of
        Inl e \<Rightarrow> (if e = gorm_ErrRecordNotFound then Inr None else Inl (GormErr e))
      | Inr m \<Rightarrow> Inr (Some (fromWebAuthnCredentialModel m)))"

definition webAuthnCredentialRepository_FindByUser ::
    "gorms \<Rightarrow> string \<Rightarrow> db \<Rightarrow> err + WebAuthnCredential list" where [repo_simps]:
  "webAuthnCredentialRepository_FindByUser G userID d =
     (case g_Find (gorm_webauthn_credentials G) (\<lambda>m. wam_UserID m = userID) (t_webauthn_credentials d) of
        Inl e \<Rightarrow> Inl (GormErr e)
      | Inr models \<Rightarrow> Inr (map fromWebAuthnCredentialModel models))"

definition webAuthnCredentialRepository_FindByCredentialID ::
    "gorms \<Rightarrow> string \<Rightarrow> db \<Rightarrow> err + WebAuthnCredential option" where [repo_simps]:
  "webAuthnCredentialRepository_FindByCredentialID G credentialID d =
     (case g_First (gorm_webauthn_credentials G) (\<lambda>m. wam_CredentialID m = credentialID) (t_webauthn_credentials d) of
        Inl e \<Rightarrow> (if e = gorm_ErrRecordNotFound then Inr None else Inl (GormErr e))
      | Inr m \<Rightarrow> Inr (Some (fromWebAuthnCredentialModel m)))"

definition webAuthnCredentialRepository_Update ::
    "gorms \<Rightarrow> WebAuthnCredential \<Rightarrow> db \<Rightarrow> (err + unit) \<times> db" where [repo_simps]:
  "webAuthnCredentialRepository_Update G c d =
     (case g_Updates (gorm_webauthn_credentials G) (\<lambda>m. wam_ID m = wa_ID c) (toWebAuthnCredentialModel c) (t_webauthn_credentials d) of
        (Inl e, t) \<Rightarrow> (Inl (GormErr e), d\<lparr>t_webauthn_credentials := t\<rparr>)
      | (Inr n, t) \<Rightarrow> (Inr (), d\<lparr>t_webauthn_credentials := t\<rparr>))"

definition webAuthnCredentialRepository_Delete ::
    "gorms \<Rightarrow> string \<Rightarrow> db \<Rightarrow> (err + unit) \<times> db" where [repo_simps]:
  "webAuthnCredentialRepository_Delete G uid d =
     (case g_Delete (gorm_webauthn_credentials G) (\<lambda>m. wam_ID m = uid) (t_webauthn_credentials d) of
        (Inl e, t) \<Rightarrow> (Inl (GormErr e), d\<lparr>t_webauthn_credentials := t\<rparr>)
      | (Inr n, t) \<Rightarrow> (Inr (), d\<lparr>t_webauthn_credentials := t\<rparr>))"

definition NewWebAuthnCredentialRepository :: "gorms \<Rightarrow> db WebAuthnCredentialRepository" where
  "NewWebAuthnCredentialRepository G = \<lparr>
     WebAuthnCredentialRepository_Create = webAuthnCredentialRepository_Create G,
     WebAuthnCredentialRepository_FindByID = webAuthnCredentialRepository_FindByID G,
     WebAuthnCredentialRepository_FindByUser = webAuthnCredentialRepository_FindByUser G,
     WebAuthnCredentialRepository_FindByCredentialID = webAuthnCredentialRepository_FindByCredentialID G,
     WebAuthnCredentialRepository_Update = webAuthnCredentialRepository_Update G,
     WebAuthnCredentialRepository_Delete = webAuthnCredentialRepository_Delete G\<rparr>"

section \<open>Facts\<close>

lemma patch_toMFAMethodModel_primary:
  "\<not> mfa_IsPrimary m \<Longrightarrow> mfm_IsPrimary (patch_mfa_method (toMFAMethodModel m) r) = mfm_IsPrimary r"
  by (simp add: patch_mfa_method_def toMFAMethodModel_def)

lemma json_Marshal_strings_nonempty [simp]: "json_Marshal_strings xs \<noteq> []"
  by (simp add: json_Marshal_strings_def)

lemma patch_toMFAMethodModel_codes:
  "mfm_BackupCodes (patch_mfa_method (toMFAMethodModel m) r) = json_Marshal_strings (mfa_BackupCodes m)"
  by (simp add: patch_mfa_method_def toMFAMethodModel_def)

end
