(* ===== verification/RepoFed.thy ===== *)
theory RepoFed
  imports Database DomainFed
begin

text \<open>
  oauth2_repository.go over the database: the external identity providers of a tenant and the
  states of pending authorization requests. \<open>FindByState\<close> does not look at the expiry time.
\<close>

section \<open>Providers\<close>

definition toOAuth2ProviderModel :: "OAuth2Provider \<Rightarrow> oauth2ProviderModel" where [conv_simps]:
  "toOAuth2ProviderModel x = \<lparr>
     opm_ID = op_ID x, opm_TenantID = op_TenantID x, opm_Name = op_Name x,
     opm_ClientID = op_ClientID x, opm_ClientSecret = op_ClientSecret x,
     opm_AuthURL = op_AuthURL x, opm_TokenURL = op_TokenURL x, opm_UserInfoURL = op_UserInfoURL x,
     opm_Scopes = json_Marshal_strings (op_Scopes x), opm_IssuerURL = op_IssuerURL x,
     opm_ProviderType = op_ProviderType x, opm_Enabled = op_Enabled x, opm_CreatedAt = zero_time,
     opm_UpdatedAt = zero_time\<rparr>"

definition fromOAuth2ProviderModel :: "oauth2ProviderModel \<Rightarrow> OAuth2Provider" where [conv_simps]:
  "fromOAuth2ProviderModel m = \<lparr>
     op_ID = opm_ID m, op_TenantID = opm_TenantID m, op_Name = opm_Name m,
     op_ClientID = opm_ClientID m, op_ClientSecret = opm_ClientSecret m,
     op_AuthURL = opm_AuthURL m, op_TokenURL = opm_TokenURL m, op_UserInfoURL = opm_UserInfoURL m,
     op_Scopes = json_Unmarshal_strings (opm_Scopes m), op_IssuerURL = opm_IssuerURL m,
     op_ProviderType = opm_ProviderType m, op_Enabled = opm_Enabled m,
     op_CreatedAt = opm_CreatedAt m, op_UpdatedAt = opm_UpdatedAt m\<rparr>"

definition oauth2ProviderRepository_Create ::
    "gorms \<Rightarrow> OAuth2Provider \<Rightarrow> db \<Rightarrow> (err + OAuth2Provider) \<times> db" where [repo_simps]:
  "oauth2ProviderRepository_Create G p d =
     (case g_Create (gorm_oauth2_providers G) (toOAuth2ProviderModel p) (t_oauth2_providers d) of
        (Inl e, t) \<Rightarrow> (Inl (if e = gorm_ErrDuplicatedKey then ExtErr ErrOAuth2ProviderNotFound else GormErr e), d\<lparr>t_oauth2_providers := t\<rparr>)
      | (Inr m, t) \<Rightarrow>
          (Inr (p\<lparr>op_ID := opm_ID m, op_CreatedAt := opm_CreatedAt m, op_UpdatedAt := opm_UpdatedAt m\<rparr>),
           d\<lparr>t_oauth2_providers := t\<rparr>))"

definition oauth2ProviderRepository_FindByID ::
    "gorms \<Rightarrow> string \<Rightarrow> db \<Rightarrow> err + OAuth2Provider" where [repo_simps]:
  "oauth2ProviderRepository_FindByID G uid d =
     (case g_First (gorm_oauth2_providers G) (\<lambda>m. opm_ID m = uid) (t_oauth2_providers d) of
        Inl e \<Rightarrow> Inl (if e = gorm_ErrRecordNotFound then ExtErr ErrOAuth2ProviderNotFound else GormErr e)
      | Inr m \<Rightarrow> Inr (fromOAuth2ProviderModel m))"

definition oauth2ProviderRepository_FindByTenant ::
    "gorms \<Rightarrow> string \<Rightarrow> db \<Rightarrow> err + OAuth2Provider list" where [repo_simps]:
  "oauth2ProviderRepository_FindByTenant G tenantID d =
     (case g_Find (gorm_oauth2_providers G) (\<lambda>m. opm_TenantID m = tenantID) (t_oauth2_providers d) of
        Inl e \<Rightarrow> Inl (GormErr e)
      | Inr models \<Rightarrow> Inr (map fromOAuth2ProviderModel models))"

definition oauth2ProviderRepository_FindByTenantAndName ::
    "gorms \<Rightarrow> string \<Rightarrow> string \<Rightarrow> db \<Rightarrow> err + OAuth2Provider" where [repo_simps]:
  "oauth2ProviderRepository_FindByTenantAndName G tenantID name d =
     (case g_First (gorm_oauth2_providers G) (\<lambda>m. opm_TenantID m = tenantID \<and> opm_Name m = name) (t_oauth2_providers d) of
        Inl e \<Rightarrow> Inl (if e = gorm_ErrRecordNotFound then ExtErr ErrOAuth2ProviderNotFound else GormErr e)
      | Inr m \<Rightarrow> Inr (fromOAuth2ProviderModel m))"

definition oauth2ProviderRepository_Update ::
    "gorms \<Rightarrow> OAuth2Provider \<Rightarrow> db \<Rightarrow> (err + unit) \<times> db" where [repo_simps]:
  "oauth2ProviderRepository_Update G p d =
     (case g_Updates (gorm_oauth2_providers G) (\<lambda>m. opm_ID m = op_ID p) (toOAuth2ProviderModel p) (t_oauth2_providers d) of
        (Inl e, t) \<Rightarrow> (Inl (GormErr e), d\<lparr>t_oauth2_providers := t\<rparr>)
      | (Inr n, t) \<Rightarrow> (if n = 0 then Inl (ExtErr ErrOAuth2ProviderNotFound) else Inr (), d\<lparr>t_oauth2_providers := t\<rparr>))"

definition oauth2ProviderRepository_Delete ::
    "gorms \<Rightarrow> string \<Rightarrow> db \<Rightarrow> (err + unit) \<times> db" where [repo_simps]:
  "oauth2ProviderRepository_Delete G uid d =
     (case g_Delete (gorm_oauth2_providers G) (\<lambda>m. opm_ID m = uid) (t_oauth2_providers d) of
        (Inl e, t) \<Rightarrow> (Inl (GormErr e), d\<lparr>t_oauth2_providers := t\<rparr>)
      | (Inr n, t) \<Rightarrow> (if n = 0 then Inl (ExtErr ErrOAuth2ProviderNotFound) else Inr (), d\<lparr>t_oauth2_providers := t\<rparr>))"

definition NewOAuth2ProviderRepository :: "gorms \<Rightarrow> db OAuth2ProviderRepository" where
  "NewOAuth2ProviderRepository G = \<lparr>
     OAuth2ProviderRepository_Create = oauth2ProviderRepository_Create G,
     OAuth2ProviderRepository_FindByID = oauth2ProviderRepository_FindByID G,
     OAuth2ProviderRepository_FindByTenant = oauth2ProviderRepository_FindByTenant G,
     OAuth2ProviderRepository_FindByTenantAndName = oauth2ProviderRepository_FindByTenantAndName G,
     OAuth2ProviderRepository_Update = oauth2ProviderRepository_Update G,
     OAuth2ProviderRepository_Delete = oauth2ProviderRepository_Delete G\<rparr>"

section \<open>States\<close>

definition toOAuth2StateModel :: "OAuth2State \<Rightarrow> oauth2StateModel" where [conv_simps]:
  "toOAuth2StateModel x = \<lparr>
     osm_ID = os_ID x, osm_State = os_State x, osm_ProviderID = os_ProviderID x,
     osm_TenantID = os_TenantID x, osm_RedirectURI = os_RedirectURI x,
     osm_CodeChallenge = os_CodeChallenge x, osm_CodeChallengeMethod = os_CodeChallengeMethod x,
     osm_ExpiresAt = os_ExpiresAt x, osm_CreatedAt = zero_time\<rparr>"

definition fromOAuth2StateModel :: "oauth2StateModel \<Rightarrow> OAuth2State" where [conv_simps]:
  "fromOAuth2StateModel m = \<lparr>
     os_ID = osm_ID m, os_State = osm_State m, os_ProviderID = osm_ProviderID m,
     os_TenantID = osm_TenantID m, os_RedirectURI = osm_RedirectURI m,
     os_CodeChallenge = osm_CodeChallenge m, os_CodeChallengeMethod = osm_CodeChallengeMethod m,
     os_ExpiresAt = osm_ExpiresAt m, os_CreatedAt = osm_CreatedAt m\<rparr>"

definition oauth2StateRepository_Create ::
    "gorms \<Rightarrow> OAuth2State \<Rightarrow> db \<Rightarrow> (err + OAuth2State) \<times> db" where [repo_simps]:
  "oauth2StateRepository_Create G s d =
     (case g_Create (gorm_oauth2_states G) (toOAuth2StateModel s) (t_oauth2_states d) of
        (Inl e, t) \<Rightarrow> (Inl (GormErr e), d\<lparr>t_oauth2_states := t\<rparr>)
      | (Inr m, t) \<Rightarrow>
          (Inr (s\<lparr>os_ID := osm_ID m, os_CreatedAt := osm_CreatedAt m\<rparr>),
           d\<lparr>t_oauth2_states := t\<rparr>))"

definition oauth2StateRepository_FindByState ::
    "gorms \<Rightarrow> string \<Rightarrow> db \<Rightarrow> err + OAuth2State option" where [repo_simps]:
  "oauth2StateRepository_FindByState G state d =
     (case g_First (gorm_oauth2_states G) (\<lambda>m. osm_State m = state) (t_oauth2_states d) of
        Inl e \<Rightarrow> (if e = gorm_ErrRecordNotFound then Inr None else Inl (GormErr e))
      | Inr m \<Rightarrow> Inr (Some (fromOAuth2StateModel m)))"

definition oauth2StateRepository_Delete ::
    "gorms \<Rightarrow> string \<Rightarrow> db \<Rightarrow> (err + unit) \<times> db" where [repo_simps]:
  "oauth2StateRepository_Delete G state d =
     (case g_Delete (gorm_oauth2_states G) (\<lambda>m. osm_State m = state) (t_oauth2_states d) of
        (Inl e, t) \<Rightarrow> (Inl (GormErr e), d\<lparr>t_oauth2_states := t\<rparr>)
      | (Inr n, t) \<Rightarrow> (Inr (), d\<lparr>t_oauth2_states := t\<rparr>))"

definition oauth2StateRepository_DeleteExpired ::
    "gorms \<Rightarrow> time \<Rightarrow> db \<Rightarrow> (err + unit) \<times> db" where [repo_simps]:
  "oauth2StateRepository_DeleteExpired G now d =
     (case g_Delete (gorm_oauth2_states G) (\<lambda>m. osm_ExpiresAt m < now) (t_oauth2_states d) of
        (Inl e, t) \<Rightarrow> (Inl (GormErr e), d\<lparr>t_oauth2_states := t\<rparr>)
      | (Inr n, t) \<Rightarrow> (Inr (), d\<lparr>t_oauth2_states := t\<rparr>))"

definition NewOAuth2StateRepository :: "gorms \<Rightarrow> db OAuth2StateRepository" where
  "NewOAuth2StateRepository G = \<lparr>
     OAuth2StateRepository_Create = oauth2StateRepository_Create G,
     OAuth2StateRepository_FindByState = oauth2StateRepository_FindByState G,
     OAuth2StateRepository_Delete = oauth2StateRepository_Delete G,
     OAuth2StateRepository_DeleteExpired = oauth2StateRepository_DeleteExpired G\<rparr>"

end
