(* ===== verification/Json.thy ===== *)
theory Json
  imports Codec
begin

text \<open>
  \<open>json.Unmarshal\<close> into \<open>any\<close> and into \<open>map[string]any\<close>, on the compact texts \<open>json_Marshal\<close>
  writes. A number is kept as its text (\<open>ARaw\<close>; the source never computes with it). Each call
  spends one unit of fuel and every second call consumes a character, so twice the length of the
  text is enough.
\<close>

definition json_number_char :: "char \<Rightarrow> bool" where
  "json_number_char c \<longleftrightarrow> c \<in> set ''0123456789+-.eE''"

fun json_value :: "nat \<Rightarrow> string \<Rightarrow> (any \<times> string) option"
  and json_items :: "nat \<Rightarrow> string \<Rightarrow> (any list \<times> string) option"
  and json_members :: "nat \<Rightarrow> string \<Rightarrow> ((string \<times> any) list \<times> string) option" where
  "json_value 0 s = None"
| "json_value (Suc n) s =
     (if strings_HasPrefix s ''null'' then Some (ANull, drop 4 s)
      else if strings_HasPrefix s ''true'' then Some (ABool True, drop 4 s)
      else if strings_HasPrefix s ''false'' then Some (ABool False, drop 5 s)
      else case s of
        [] \<Rightarrow> None
      | c # r \<Rightarrow>
          (if c = CHR 0x22 then map_option (\<lambda>(x, r'). (AStr x, r')) (json_read_string r)
           else if c = CHR ''['' then
             (if strings_HasPrefix r '']'' then Some (AList [], tl r)
              else map_option (\<lambda>(xs, r'). (AList xs, r')) (json_items n r))
           else if c = CHR ''{'' then
             (if strings_HasPrefix r ''}'' then Some (AMap [], tl r)
              else map_option (\<lambda>(es, r'). (AMap es, r')) (json_members n r))
           else if json_number_char c then
             Some (ARaw (takeWhile json_number_char s), dropWhile json_number_char s)
           else None))"
| "json_items 0 s = None"
| "json_items (Suc n) s =
     (case json_value n s of
        Some (v, d # r) \<Rightarrow>
          (if d = CHR '','' then map_option (\<lambda>(vs, r'). (v # vs, r')) (json_items n r)
           else if d = CHR '']'' then Some ([v], r) else None)
      | _ \<Rightarrow> None)"
| "json_members 0 s = None"
| "json_members (Suc n) s =
     (case s of
        [] \<Rightarrow> None
      | q # t \<Rightarrow>
          (if q \<noteq> CHR 0x22 then None
           else case json_read_string t of
             Some (k, e # r) \<Rightarrow>
               (if e \<noteq> CHR '':'' then None
                else case json_value n r of
                  Some (v, d # r') \<Rightarrow>
                    (if d = CHR '','' then map_option (\<lambda>(es, r''). ((k, v) # es, r'')) (json_members n r')
                     else if d = CHR ''}'' then Some ([(k, v)], r') else None)
                | _ \<Rightarrow> None)
           | _ \<Rightarrow> None))"

text \<open>A text that is not one object leaves the target map nil.\<close>

definition json_Unmarshal_map :: "string \<Rightarrow> any_map" where
  "json_Unmarshal_map s =
     (case json_value (Suc (Suc (2 * length s))) s of Some (AMap es, []) \<Rightarrow> Some es | _ \<Rightarrow> None)"

lemma json_Unmarshal_null [simp]: "json_Unmarshal_map (json_Marshal_map None) = None"
  by (simp add: json_Unmarshal_map_def json_Marshal_map_def strings_HasPrefix_def numeral_eq_Suc)

text \<open>An object of strings, such as the audit log's metadata, survives up to the order of its keys.\<close>

definition string_map :: "(string \<times> string) list \<Rightarrow> (string \<times> any) list" where
  "string_map es = map (\<lambda>(k, s). (k, AStr s)) es"

lemma json_value_string:
  "json_value (Suc n) (json_string s @ r) = Some (AStr s, r)"
  by (simp add: json_string_def json_read_concat strings_HasPrefix_def)

lemma json_members_strings:
  "es \<noteq> [] \<Longrightarrow> length es < n \<Longrightarrow>
   json_members n (strings_Join (map (\<lambda>(k, s). json_string k @ '':'' @ json_string s) es) '','' @ ''}'' @ r)
     = Some (string_map es, r)"
proof (induction es arbitrary: n)
  case Nil
  then show ?case by simp
next
  case (Cons e es)
  obtain k s where e: "e = (k, s)" by (cases e)
  obtain m where n: "n = Suc (Suc m)" using Cons.prems by (cases n; cases "n - 1") auto
  have rd: "json_members n (json_string k @ '':'' @ json_string s @ d # t) =
      (if d = CHR '','' then map_option (\<lambda>(es, r''). ((k, AStr s) # es, r'')) (json_members (Suc m) t)
       else if d = CHR ''}'' then Some ([(k, AStr s)], t) else None)" for d t
    using json_value_string [of m s "d # t"]
    by (simp add: n json_string_def [of k] json_read_concat del: json_value.simps)
  show ?case
  proof (cases es)
    case Nil
    then show ?thesis using rd [of "CHR ''}''" r] by (simp add: e string_map_def del: json_members.simps)
  next
    case (Cons f fs)
    then have "json_members (Suc m) (strings_Join (map (\<lambda>(k, s). json_string k @ '':'' @ json_string s) es) '','' @ ''}'' @ r)
        = Some (string_map es, r)" using Cons.IH [of "Suc m"] Cons.prems n by simp
    then show ?thesis
      using rd [of "CHR '',''"] Cons by (simp add: e string_map_def del: json_members.simps)
  qed
qed

end
