(* ===== verification/RepoAudit.thy ===== *)
theory RepoAudit
  imports Database DomainExt Json Sha256
begin

text \<open>
  audit_repository.go and export_repository.go over the database. Every log of a tenant carries
  the hash of its fields behind the hash of its predecessor; \<open>VerifyChain\<close> recomputes the hashes.
\<close>

section \<open>The hash of a log\<close>

text \<open>\<open>t.UnixNano()\<close>: an \<open>int64\<close> that wraps around outside the years 1678 to 2262.\<close>

definition time_UnixNano :: "time \<Rightarrow> int" where
  "time_UnixNano t = (t + 2 ^ 63) mod 2 ^ 64 - 2 ^ 63"

definition time_Nanosecond :: "time \<Rightarrow> int" where
  "time_Nanosecond t = t mod time_Second"

definition marshalJSON :: "any_map \<Rightarrow> string" where
  "marshalJSON v = (if v = None then ''{}'' else json_Marshal_map v)"

definition generateID :: "time \<Rightarrow> time \<Rightarrow> string" where
  "generateID now1 now2 = ''audit_'' @ show_int (time_UnixNano now1) @ ''_'' @ show_int (time_Nanosecond now2)"

definition audit_hash_input :: "AuditLog \<Rightarrow> string" where
  "audit_hash_input log =
     strings_Join [al_TenantID log, al_EventType log, al_ActorID log, al_ActorType log, al_ResourceType log,
       al_ResourceID log, al_Action log, marshalJSON (al_Before log), marshalJSON (al_After log),
       marshalJSON (al_Metadata log), show_int (time_UnixNano (al_Timestamp log))] ''|''"

text \<open>The hash input as \<open>VerifyChain\<close> reconstructs it from a stored row.\<close>

definition chain_hash_input :: "auditLogModel \<Rightarrow> string" where
  "chain_hash_input m =
     strings_Join [alm_TenantID m, alm_EventType m, alm_ActorID m, alm_ActorType m, alm_ResourceType m,
       alm_ResourceID m, alm_Action m, alm_Before m, alm_After m, alm_Metadata m,
       show_int (time_UnixNano (alm_Timestamp m))] ''|''"

section \<open>The audit log\<close>

definition toAuditLogModel :: "AuditLog \<Rightarrow> auditLogModel" where [conv_simps]:
  "toAuditLogModel log = \<lparr>
     alm_ID = al_ID log, alm_TenantID = al_TenantID log, alm_EventType = al_EventType log,
     alm_ActorID = al_ActorID log, alm_ActorType = al_ActorType log,
     alm_ResourceType = al_ResourceType log, alm_ResourceID = al_ResourceID log,
     alm_Action = al_Action log, alm_Before = json_Marshal_map (al_Before log),
     alm_After = json_Marshal_map (al_After log), alm_Metadata = json_Marshal_map (al_Metadata log),
     alm_Timestamp = al_Timestamp log, alm_Hash = al_Hash log, alm_PrevHash = al_PrevHash log\<rparr>"

text \<open>The hash a log gets, and the \<open>PrevHash\<close> stored beside it.\<close>

definition audit_seal :: "gorms \<Rightarrow> AuditLog \<Rightarrow> db \<Rightarrow> string \<times> string" where
  "audit_seal G log d =
     (let hashInput = audit_hash_input log in
      if al_PrevHash log \<noteq> [] then
        (hex_EncodeToString (sha256_Sum256 (al_PrevHash log @ ''|'' @ hashInput)), [])
      else case g_FirstOrd (gorm_audit_logs G) (\<lambda>m. alm_TenantID m = al_TenantID log) (Desc alm_Timestamp)
                  (t_audit_logs d) of
             Inr lastLog \<Rightarrow>
               (hex_EncodeToString (sha256_Sum256 (alm_Hash lastLog @ ''|'' @ hashInput)), alm_Hash lastLog)
           | Inl e \<Rightarrow> (hex_EncodeToString (sha256_Sum256 hashInput), []))"

definition auditLogRepository_Create ::
    "gorms \<Rightarrow> time \<times> time \<times> time \<Rightarrow> AuditLog \<Rightarrow> db \<Rightarrow> (err + AuditLog) \<times> db" where [repo_simps]:
  "auditLogRepository_Create G clock log d =
     (case clock of (now1, now2, now3) \<Rightarrow>
      (case audit_seal G log d of (hash, prevHash) \<Rightarrow>
        (let log' = log\<lparr>al_Hash := hash, al_PrevHash := prevHash, al_ID := generateID now1 now2,
                        al_Timestamp := now3\<rparr>
         in case g_Create (gorm_audit_logs G) (toAuditLogModel log') (t_audit_logs d) of
              (Inl e, t) \<Rightarrow> (Inl (GormErr e), d\<lparr>t_audit_logs := t\<rparr>)
            | (Inr m, t) \<Rightarrow> (Inr log', d\<lparr>t_audit_logs := t\<rparr>))))"

definition auditLog_modelToDomain :: "auditLogModel \<Rightarrow> AuditLog" where [conv_simps]:
  "auditLog_modelToDomain m = \<lparr>
     al_ID = alm_ID m, al_TenantID = alm_TenantID m, al_EventType = alm_EventType m,
     al_ActorID = alm_ActorID m, al_ActorType = alm_ActorType m, al_ResourceType = alm_ResourceType m,
     al_ResourceID = alm_ResourceID m, al_Action = alm_Action m,
     al_Before = json_Unmarshal_map (alm_Before m), al_After = json_Unmarshal_map (alm_After m),
     al_Metadata = json_Unmarshal_map (alm_Metadata m), al_Timestamp = alm_Timestamp m,
     al_Hash = alm_Hash m, al_PrevHash = alm_PrevHash m\<rparr>"

definition auditLogRepository_FindByID :: "gorms \<Rightarrow> string \<Rightarrow> db \<Rightarrow> err + AuditLog" where [repo_simps]:
  "auditLogRepository_FindByID G uid d =
     (case g_First (gorm_audit_logs G) (\<lambda>m. alm_ID m = uid) (t_audit_logs d) of
        Inl e \<Rightarrow> Inl (if e = gorm_ErrRecordNotFound then AcErr ErrAuditLogNotFound else GormErr e)
      | Inr m \<Rightarrow> Inr (auditLog_modelToDomain m))"

text \<open>The WHERE clauses that \<open>List\<close> and \<open>Count\<close> accumulate.\<close>

definition audit_filter :: "AuditLogFilter \<Rightarrow> auditLogModel \<Rightarrow> bool" where
  "audit_filter f m \<longleftrightarrow>
     (af_TenantID f \<noteq> [] \<longrightarrow> alm_TenantID m = af_TenantID f) \<and>
     (af_EventTypes f \<noteq> [] \<longrightarrow> alm_EventType m \<in> set (af_EventTypes f)) \<and>
     (af_ActorID f \<noteq> [] \<longrightarrow> alm_ActorID m = af_ActorID f) \<and>
     (af_ResourceType f \<noteq> [] \<longrightarrow> alm_ResourceType m = af_ResourceType f) \<and>
     (af_ResourceID f \<noteq> [] \<longrightarrow> alm_ResourceID m = af_ResourceID f) \<and>
     (\<not> time_IsZero (af_StartTime f) \<longrightarrow> af_StartTime f \<le> alm_Timestamp m) \<and>
     (\<not> time_IsZero (af_EndTime f) \<longrightarrow> alm_Timestamp m \<le> af_EndTime f)"

definition auditLogRepository_List :: "gorms \<Rightarrow> AuditLogFilter \<Rightarrow> db \<Rightarrow> err + AuditLog list" where [repo_simps]:
  "auditLogRepository_List G f d =
     (let sortOrder = (if af_SortOrder f = ''asc'' then Asc alm_Timestamp else Desc alm_Timestamp);
          limit = (if 0 < af_Limit f then af_Limit f else 0);
          offset = (if 0 < af_Offset f then af_Offset f else 0)
      in case g_FindOrd (gorm_audit_logs G) (audit_filter f) sortOrder limit offset (t_audit_logs d) of
           Inl e \<Rightarrow> Inl (GormErr e)
         | Inr models \<Rightarrow> Inr (map auditLog_modelToDomain models))"

definition auditLogRepository_Count :: "gorms \<Rightarrow> AuditLogFilter \<Rightarrow> db \<Rightarrow> err + nat" where [repo_simps]:
  "auditLogRepository_Count G f d =
     (case g_Count (gorm_audit_logs G) (audit_filter f) (t_audit_logs d) of
        Inl e \<Rightarrow> Inl (GormErr e)
      | Inr n \<Rightarrow> Inr n)"

text \<open>The loop of \<open>VerifyChain\<close> from the second log on.\<close>

fun verify_loop :: "string \<Rightarrow> auditLogModel list \<Rightarrow> err + bool" where
  "verify_loop prevHash [] = Inr True"
| "verify_loop prevHash (log # logs) =
     (let hashInput = chain_hash_input log;
          hashInput' = (if prevHash \<noteq> [] then prevHash @ ''|'' @ hashInput else hashInput);
          expected = hex_EncodeToString (sha256_Sum256 hashInput')
      in if alm_Hash log \<noteq> expected
         then Inl (FmtErr (''chain broken at log '' @ alm_ID log @ '': expected '' @ expected @ '', got '' @ alm_Hash log))
         else verify_loop (alm_Hash log) logs)"

definition verify_logs :: "auditLogModel list \<Rightarrow> err + bool" where
  "verify_logs logs = (case logs of [] \<Rightarrow> Inr True | log # rest \<Rightarrow> verify_loop (alm_PrevHash log) rest)"

definition auditLogRepository_VerifyChain :: "gorms \<Rightarrow> string \<Rightarrow> time \<Rightarrow> db \<Rightarrow> err + bool" where [repo_simps]:
  "auditLogRepository_VerifyChain G tenantID fromTimestamp d =
     (case g_FindOrd (gorm_audit_logs G) (\<lambda>m. alm_TenantID m = tenantID \<and> fromTimestamp \<le> alm_Timestamp m)
             (Asc alm_Timestamp) 0 0 (t_audit_logs d) of
        Inl e \<Rightarrow> Inl (GormErr e)
      | Inr logs \<Rightarrow> verify_logs logs)"

definition NewAuditLogRepository :: "gorms \<Rightarrow> db AuditLogRepository" where
  "NewAuditLogRepository G = \<lparr>
     AuditLogRepository_Create = auditLogRepository_Create G,
     AuditLogRepository_FindByID = auditLogRepository_FindByID G,
     AuditLogRepository_List = auditLogRepository_List G,
     AuditLogRepository_Count = auditLogRepository_Count G,
     AuditLogRepository_VerifyChain = auditLogRepository_VerifyChain G\<rparr>"

section \<open>Data exports\<close>

definition toAuditExportModel :: "AuditExport \<Rightarrow> auditExportModel" where [conv_simps]:
  "toAuditExportModel x = \<lparr>
     aem_RequestID = ae_RequestID x, aem_UserID = ae_UserID x, aem_TenantID = ae_TenantID x,
     aem_Email = ae_Email x, aem_Data = json_Marshal_map (ae_Data x), aem_Status = ae_Status x,
     aem_CreatedAt = ae_CreatedAt x, aem_ExpiresAt = ae_ExpiresAt x\<rparr>"

definition auditExport_modelToDomain :: "auditExportModel \<Rightarrow> AuditExport" where [conv_simps]:
  "auditExport_modelToDomain m = \<lparr>
     ae_RequestID = aem_RequestID m, ae_UserID = aem_UserID m, ae_TenantID = aem_TenantID m,
     ae_Email = aem_Email m, ae_Data = json_Unmarshal_map (aem_Data m),
     ae_CreatedAt = aem_CreatedAt m, ae_ExpiresAt = aem_ExpiresAt m, ae_Status = aem_Status m\<rparr>"

definition auditExportRepository_Create ::
    "gorms \<Rightarrow> AuditExport \<Rightarrow> db \<Rightarrow> (err + AuditExport) \<times> db" where [repo_simps]:
  "auditExportRepository_Create G export d =
     (case g_Create (gorm_audit_exports G) (toAuditExportModel export) (t_audit_exports d) of
        (Inl e, t) \<Rightarrow> (Inl (if e = gorm_ErrDuplicatedKey then AcErr ErrAuditExportNotFound else GormErr e), d\<lparr>t_audit_exports := t\<rparr>)
      | (Inr m, t) \<Rightarrow>
          (Inr (export\<lparr>ae_RequestID := aem_RequestID m\<rparr>),
           d\<lparr>t_audit_exports := t\<rparr>))"

definition auditExportRepository_FindByID ::
    "gorms \<Rightarrow> string \<Rightarrow> db \<Rightarrow> err + AuditExport" where [repo_simps]:
  "auditExportRepository_FindByID G requestID d =
     (case g_First (gorm_audit_exports G) (\<lambda>m. aem_RequestID m = requestID) (t_audit_exports d) of
        Inl e \<Rightarrow> Inl (if e = gorm_ErrRecordNotFound then AcErr ErrAuditExportNotFound else GormErr e)
      | Inr m \<Rightarrow> Inr (auditExport_modelToDomain m))"

definition auditExportRepository_FindByEmailAndStatus ::
    "gorms \<Rightarrow> string \<Rightarrow> string \<Rightarrow> db \<Rightarrow> err + AuditExport option" where [repo_simps]:
  "auditExportRepository_FindByEmailAndStatus G email status d =
     (case g_First (gorm_audit_exports G) (\<lambda>m. aem_Email m = email \<and> aem_Status m = status) (t_audit_exports d) of
        Inl e \<Rightarrow> (if e = gorm_ErrRecordNotFound then Inr None else Inl (GormErr e))
      | Inr m \<Rightarrow> Inr (Some (auditExport_modelToDomain m)))"

definition auditExportRepository_Update ::
    "gorms \<Rightarrow> AuditExport \<Rightarrow> db \<Rightarrow> (err + unit) \<times> db" where [repo_simps]:
  "auditExportRepository_Update G export d =
     (case g_Updates (gorm_audit_exports G) (\<lambda>m. aem_RequestID m = ae_RequestID export) (toAuditExportModel export) (t_audit_exports d) of
        (Inl e, t) \<Rightarrow> (Inl (GormErr e), d\<lparr>t_audit_exports := t\<rparr>)
      | (Inr n, t) \<Rightarrow> (if n = 0 then Inl (AcErr ErrAuditExportNotFound) else Inr (), d\<lparr>t_audit_exports := t\<rparr>))"

definition auditExportRepository_DeleteExpired ::
    "gorms \<Rightarrow> time \<Rightarrow> db \<Rightarrow> (err + unit) \<times> db" where [repo_simps]:
  "auditExportRepository_DeleteExpired G now d =
     (case g_Delete (gorm_audit_exports G) (\<lambda>m. aem_ExpiresAt m < now) (t_audit_exports d) of
        (Inl e, t) \<Rightarrow> (Inl (GormErr e), d\<lparr>t_audit_exports := t\<rparr>)
      | (Inr n, t) \<Rightarrow> (Inr (), d\<lparr>t_audit_exports := t\<rparr>))"

definition NewAuditExportRepository :: "gorms \<Rightarrow> db AuditExportRepository" where
  "NewAuditExportRepository G = \<lparr>
     AuditExportRepository_Create = auditExportRepository_Create G,
     AuditExportRepository_FindByID = auditExportRepository_FindByID G,
     AuditExportRepository_FindByEmailAndStatus = auditExportRepository_FindByEmailAndStatus G,
     AuditExportRepository_Update = auditExportRepository_Update G,
     AuditExportRepository_DeleteExpired = auditExportRepository_DeleteExpired G\<rparr>"

section \<open>Facts\<close>

text \<open>A chain link: a log's hash is the hash of its fields behind the given predecessor hash.\<close>

definition linked :: "string \<Rightarrow> auditLogModel \<Rightarrow> bool" where
  "linked prevHash m \<longleftrightarrow>
     alm_Hash m = hex_sha256 (if prevHash \<noteq> [] then prevHash @ ''|'' @ chain_hash_input m else chain_hash_input m)"

fun chain_linked :: "string \<Rightarrow> auditLogModel list \<Rightarrow> bool" where
  "chain_linked prevHash [] = True"
| "chain_linked prevHash (m # ms) \<longleftrightarrow> linked prevHash m \<and> chain_linked (alm_Hash m) ms"

lemma verify_loop_iff: "verify_loop prevHash logs = Inr True \<longleftrightarrow> chain_linked prevHash logs"
  by (induction prevHash logs rule: verify_loop.induct) (auto simp: linked_def hex_sha256_def Let_def)

lemma verify_loop_result: "verify_loop prevHash logs = Inr b \<Longrightarrow> b"
  by (induction prevHash logs rule: verify_loop.induct) (auto simp: Let_def split: if_splits)

text \<open>The texts whose hashes a chain consists of, and an explicit collision of two texts.\<close>

fun link_inputs :: "string \<Rightarrow> auditLogModel list \<Rightarrow> string list" where
  "link_inputs prevHash [] = []"
| "link_inputs prevHash (m # ms) =
     (if prevHash \<noteq> [] then prevHash @ ''|'' @ chain_hash_input m else chain_hash_input m) # link_inputs (alm_Hash m) ms"

definition sha_collision :: "string \<Rightarrow> string \<Rightarrow> bool" where
  "sha_collision x y \<longleftrightarrow> x \<noteq> y \<and> hex_sha256 x = hex_sha256 y"

lemma length_link_inputs [simp]: "length (link_inputs p ms) = length ms"
  by (induction p ms rule: link_inputs.induct) auto

lemma chain_linked_hashes: "chain_linked p ms \<longleftrightarrow> map alm_Hash ms = map hex_sha256 (link_inputs p ms)"
  by (induction p ms rule: link_inputs.induct) (auto simp: linked_def)

text \<open>Two chains with the same hashes hash the same texts, or two of those texts collide.\<close>

lemma chain_linked_inj:
  assumes "chain_linked p ms" and "chain_linked p ms'" and "map alm_Hash ms = map alm_Hash ms'"
  shows "link_inputs p ms = link_inputs p ms' \<or>
    (\<exists>i<length ms. sha_collision (link_inputs p ms ! i) (link_inputs p ms' ! i))"
proof (rule disjCI)
  assume none: "\<not> (\<exists>i<length ms. sha_collision (link_inputs p ms ! i) (link_inputs p ms' ! i))"
  have eq: "map hex_sha256 (link_inputs p ms) = map hex_sha256 (link_inputs p ms')"
    using assms by (simp add: chain_linked_hashes)
  have len: "length ms' = length ms" using assms(3) map_eq_imp_length_eq by metis
  show "link_inputs p ms = link_inputs p ms'"
  proof (rule nth_equalityI)
    fix i assume i: "i < length (link_inputs p ms)"
    then have "hex_sha256 (link_inputs p ms ! i) = hex_sha256 (link_inputs p ms' ! i)"
      using arg_cong [OF eq, of "\<lambda>xs. xs ! i"] len by simp
    then show "link_inputs p ms ! i = link_inputs p ms' ! i" using none i by (auto simp: sha_collision_def)
  qed (simp add: len)
qed

lemma link_inputs_inputs:
  "map alm_Hash ms = map alm_Hash ms' \<Longrightarrow> link_inputs p ms = link_inputs p ms' \<Longrightarrow>
   map chain_hash_input ms = map chain_hash_input ms'"
proof (induction ms arbitrary: p ms')
  case (Cons m ms)
  then obtain m' ms'' where "ms' = m' # ms''" by (cases ms') auto
  then show ?case using Cons by (auto split: if_splits)
qed simp

end
