(* ===== verification/AccessServices.thy ===== *)
theory AccessServices
  imports Domain Contracts
begin

text \<open>
  service/acl.go and service/policy.go: ACL entries, permissions of roles, permission names and
  policies, over any repositories.
\<close>

section \<open>ACL entries\<close>

record ACLGrantRequest =
  gr_SubjectType :: string
  gr_SubjectID :: string
  gr_ResourceType :: string
  gr_ResourceID :: string
  gr_Permission :: string
  gr_Effect :: string

definition ACLService_Grant ::
    "'w ACLRepository \<Rightarrow> string \<Rightarrow> ACLGrantRequest \<Rightarrow> 'w \<Rightarrow> (err + ACLPermission) \<times> 'w" where [svc_simps]:
  "ACLService_Grant acls tenantID req w =
     (let req = (if gr_Effect req = [] then req\<lparr>gr_Effect := ''allow''\<rparr> else req)
      in ACLRepository_Create acls
           \<lparr>acl_ID = [], acl_TenantID = tenantID, acl_SubjectType = gr_SubjectType req,
            acl_SubjectID = gr_SubjectID req, acl_ResourceType = gr_ResourceType req,
            acl_ResourceID = gr_ResourceID req, acl_Permission = gr_Permission req,
            acl_Effect = gr_Effect req, acl_CreatedAt = zero_time, acl_UpdatedAt = zero_time\<rparr> w)"

definition ACLService_Revoke ::
    "'w ACLRepository \<Rightarrow> string \<Rightarrow> string \<Rightarrow> string \<Rightarrow> string \<Rightarrow> string \<Rightarrow> 'w \<Rightarrow> (err + unit) \<times> 'w" where [svc_simps]:
  "ACLService_Revoke acls tenantID subjectType subjectID resourceType resourceID w = ACLRepository_DeleteBySubjectAndResource acls tenantID subjectType subjectID resourceType resourceID w"

definition ACLService_RevokeByID ::
    "'w ACLRepository \<Rightarrow> string \<Rightarrow> 'w \<Rightarrow> (err + unit) \<times> 'w" where [svc_simps]:
  "ACLService_RevokeByID acls uid w = ACLRepository_Delete acls uid w"

definition ACLService_ListBySubject ::
    "'w ACLRepository \<Rightarrow> string \<Rightarrow> string \<Rightarrow> string \<Rightarrow> 'w \<Rightarrow> err + ACLPermission list" where [svc_simps]:
  "ACLService_ListBySubject acls tenantID subjectType subjectID w = ACLRepository_FindBySubject acls tenantID subjectType subjectID w"

definition ACLService_ListByResource ::
    "'w ACLRepository \<Rightarrow> string \<Rightarrow> string \<Rightarrow> string \<Rightarrow> 'w \<Rightarrow> err + ACLPermission list" where [svc_simps]:
  "ACLService_ListByResource acls tenantID resourceType resourceID w = ACLRepository_FindByResource acls tenantID resourceType resourceID w"

definition ACLService_Check ::
    "'w ACLRepository \<Rightarrow> string \<Rightarrow> string \<Rightarrow> string \<Rightarrow> string \<Rightarrow> string \<Rightarrow> string \<Rightarrow> 'w \<Rightarrow> err + ACLPermission" where [svc_simps]:
  "ACLService_Check acls tenantID subjectType subjectID resourceType resourceID permission w = ACLRepository_CheckPermission acls tenantID subjectType subjectID resourceType resourceID permission w"

section \<open>Permissions of roles\<close>

definition RolePermissionService_Grant ::
    "'w RolePermissionRepository \<Rightarrow> string \<Rightarrow> string \<Rightarrow> string \<Rightarrow> 'w \<Rightarrow> (err + RolePermission) \<times> 'w" where [svc_simps]:
  "RolePermissionService_Grant rps tenantID roleName permission w =
     RolePermissionRepository_Create rps
       \<lparr>rp_ID = [], rp_TenantID = tenantID, rp_RoleName = roleName, rp_Permission = permission,
        rp_CreatedAt = zero_time\<rparr> w"

text \<open>The first entry with the permission is deleted.\<close>

fun revoke_loop :: "'w RolePermissionRepository \<Rightarrow> string \<Rightarrow> RolePermission list \<Rightarrow> 'w \<Rightarrow> (err + unit) \<times> 'w" where
  "revoke_loop rps permission [] w = (Inl (AcErr ErrACLNotFound), w)"
| "revoke_loop rps permission (rp # rest) w =
     (if rp_Permission rp = permission then RolePermissionRepository_Delete rps (rp_ID rp) w
      else revoke_loop rps permission rest w)"

definition RolePermissionService_Revoke ::
    "'w RolePermissionRepository \<Rightarrow> string \<Rightarrow> string \<Rightarrow> string \<Rightarrow> 'w \<Rightarrow> (err + unit) \<times> 'w" where [svc_simps]:
  "RolePermissionService_Revoke rps tenantID roleName permission w =
     (case RolePermissionRepository_FindByRole rps tenantID roleName w of
        Inl e \<Rightarrow> (Inl e, w)
      | Inr found \<Rightarrow> revoke_loop rps permission found w)"

definition RolePermissionService_RevokeAllForRole ::
    "'w RolePermissionRepository \<Rightarrow> string \<Rightarrow> string \<Rightarrow> 'w \<Rightarrow> (err + unit) \<times> 'w" where [svc_simps]:
  "RolePermissionService_RevokeAllForRole rps tenantID roleName w = RolePermissionRepository_DeleteByRole rps tenantID roleName w"

definition RolePermissionService_ListByRole ::
    "'w RolePermissionRepository \<Rightarrow> string \<Rightarrow> string \<Rightarrow> 'w \<Rightarrow> err + RolePermission list" where [svc_simps]:
  "RolePermissionService_ListByRole rps tenantID roleName w = RolePermissionRepository_FindByRole rps tenantID roleName w"

definition RolePermissionService_ListByTenant ::
    "'w RolePermissionRepository \<Rightarrow> string \<Rightarrow> 'w \<Rightarrow> err + RolePermission list" where [svc_simps]:
  "RolePermissionService_ListByTenant rps tenantID w = RolePermissionRepository_FindByTenant rps tenantID w"

section \<open>Permission names\<close>

definition PermissionService_Create ::
    "'w PermissionRepository \<Rightarrow> string \<Rightarrow> string \<Rightarrow> string \<Rightarrow> 'w \<Rightarrow> (err + Permission) \<times> 'w" where [svc_simps]:
  "PermissionService_Create perms tenantID name description w =
     PermissionRepository_Create perms
       \<lparr>perm_ID = [], perm_TenantID = tenantID, perm_Name = name, perm_Description = description,
        perm_CreatedAt = zero_time\<rparr> w"

definition PermissionService_Get ::
    "'w PermissionRepository \<Rightarrow> string \<Rightarrow> 'w \<Rightarrow> err + Permission" where [svc_simps]:
  "PermissionService_Get perms uid w = PermissionRepository_FindByID perms uid w"

definition PermissionService_List ::
    "'w PermissionRepository \<Rightarrow> string \<Rightarrow> 'w \<Rightarrow> err + Permission list" where [svc_simps]:
  "PermissionService_List perms tenantID w = PermissionRepository_FindByTenant perms tenantID w"

definition PermissionService_Delete ::
    "'w PermissionRepository \<Rightarrow> string \<Rightarrow> 'w \<Rightarrow> (err + unit) \<times> 'w" where [svc_simps]:
  "PermissionService_Delete perms uid w = PermissionRepository_Delete perms uid w"

section \<open>Policies\<close>

definition PolicyService_Create ::
    "'w PolicyRepository \<Rightarrow> string \<Rightarrow> string \<Rightarrow> string \<Rightarrow> string \<Rightarrow> 'w \<Rightarrow> (err + Policy) \<times> 'w" where [svc_simps]:
  "PolicyService_Create policies tenantID name description rego w =
     PolicyRepository_Create policies
       \<lparr>pol_ID = [], pol_TenantID = tenantID, pol_Name = name, pol_Description = description,
        pol_Rego = rego, pol_Version = 1, pol_IsActive = False, pol_CreatedAt = zero_time,
        pol_UpdatedAt = zero_time\<rparr> w"

definition PolicyService_Get ::
    "'w PolicyRepository \<Rightarrow> string \<Rightarrow> 'w \<Rightarrow> err + Policy" where [svc_simps]:
  "PolicyService_Get policies uid w = PolicyRepository_FindByID policies uid w"

definition PolicyService_GetByName ::
    "'w PolicyRepository \<Rightarrow> string \<Rightarrow> string \<Rightarrow> 'w \<Rightarrow> err + Policy" where [svc_simps]:
  "PolicyService_GetByName policies tenantID name w = PolicyRepository_FindByName policies tenantID name w"

definition PolicyService_List ::
    "'w PolicyRepository \<Rightarrow> string \<Rightarrow> 'w \<Rightarrow> err + Policy list" where [svc_simps]:
  "PolicyService_List policies tenantID w = PolicyRepository_ListByTenant policies tenantID w"

definition PolicyService_ListActive ::
    "'w PolicyRepository \<Rightarrow> string \<Rightarrow> 'w \<Rightarrow> err + Policy list" where [svc_simps]:
  "PolicyService_ListActive policies tenantID w = PolicyRepository_FindActiveByTenant policies tenantID w"

definition PolicyService_Update :: "'w PolicyRepository \<Rightarrow> Policy \<Rightarrow> 'w \<Rightarrow> (err + unit) \<times> 'w" where [svc_simps]:
  "PolicyService_Update policies policy w =
     PolicyRepository_Update policies (policy\<lparr>pol_Version := pol_Version policy + 1\<rparr>) w"

text \<open>The loop of \<open>Activate\<close>: it stops at the first update that fails.\<close>

fun activate_loop :: "'w PolicyRepository \<Rightarrow> string \<Rightarrow> Policy list \<Rightarrow> 'w \<Rightarrow> (err + unit) \<times> 'w" where
  "activate_loop policies policyID [] w = (Inr (), w)"
| "activate_loop policies policyID (p # ps) w =
     (if pol_ID p = policyID then
        (case PolicyRepository_Update policies (p\<lparr>pol_IsActive := True\<rparr>) w of
           (Inl e, w') \<Rightarrow> (Inl e, w')
         | (Inr _, w') \<Rightarrow> activate_loop policies policyID ps w')
      else if pol_IsActive p then
        (case PolicyRepository_Update policies (p\<lparr>pol_IsActive := False\<rparr>) w of
           (Inl e, w') \<Rightarrow> (Inl e, w')
         | (Inr _, w') \<Rightarrow> activate_loop policies policyID ps w')
      else activate_loop policies policyID ps w)"

definition PolicyService_Activate ::
    "'w PolicyRepository \<Rightarrow> string \<Rightarrow> string \<Rightarrow> 'w \<Rightarrow> (err + unit) \<times> 'w" where [svc_simps]:
  "PolicyService_Activate policies tenantID policyID w =
     (case PolicyRepository_ListByTenant policies tenantID w of
        Inl e \<Rightarrow> (Inl e, w)
      | Inr ps \<Rightarrow> activate_loop policies policyID ps w)"

definition PolicyService_Deactivate :: "'w PolicyRepository \<Rightarrow> string \<Rightarrow> 'w \<Rightarrow> (err + unit) \<times> 'w" where [svc_simps]:
  "PolicyService_Deactivate policies policyID w =
     (case PolicyRepository_FindByID policies policyID w of
        Inl e \<Rightarrow> (Inl e, w)
      | Inr policy \<Rightarrow> PolicyRepository_Update policies (policy\<lparr>pol_IsActive := False\<rparr>) w)"

definition PolicyService_Delete ::
    "'w PolicyRepository \<Rightarrow> string \<Rightarrow> 'w \<Rightarrow> (err + unit) \<times> 'w" where [svc_simps]:
  "PolicyService_Delete policies uid w = PolicyRepository_Delete policies uid w"

end
