(* ===== verification/AuthzCache.thy ===== *)
theory AuthzCache
  imports Json
begin

text \<open>
  service/authz_cache.go: decisions cached in Redis under a key built from the request, and the
  invalidation of keys by pattern. The Redis client is a parameter, a record of the commands the
  source sends over a world \<open>'w\<close>; \<open>redis_store\<close> is what its documentation promises, with
  entries free to expire. \<open>plain_redis\<close> is an executable instance without expiry.
\<close>

section \<open>The client\<close>

record 'w redis_client =
  redis_Get :: "string \<Rightarrow> 'w \<Rightarrow> err + string"
  redis_Set :: "string \<Rightarrow> string \<Rightarrow> duration \<Rightarrow> 'w \<Rightarrow> (err + unit) \<times> 'w"
  redis_Keys :: "string \<Rightarrow> 'w \<Rightarrow> err + string list"
  redis_Del :: "string list \<Rightarrow> 'w \<Rightarrow> (err + unit) \<times> 'w"

text \<open>The patterns of \<open>KEYS\<close>: a star stands for any text. (The other wildcards are not covered.)\<close>

fun redis_match :: "string \<Rightarrow> string \<Rightarrow> bool" where
  "redis_match [] s \<longleftrightarrow> s = []"
| "redis_match (p # ps) [] \<longleftrightarrow> p = CHR ''*'' \<and> redis_match ps []"
| "redis_match (p # ps) (c # s) \<longleftrightarrow>
     (if p = CHR ''*'' then redis_match ps (c # s) \<or> redis_match (p # ps) s
      else c = p \<and> redis_match ps s)"

definition plain_pattern :: "string \<Rightarrow> bool" where
  "plain_pattern p \<longleftrightarrow> (\<forall>c\<in>set p. c \<noteq> CHR ''?'' \<and> c \<noteq> CHR ''['' \<and> c \<noteq> CHR 0x5C)"

locale redis_store =
  fixes R :: "'w redis_client"
    and stored :: "'w \<Rightarrow> string \<rightharpoonup> string"
  assumes Get_stored: "redis_Get R k w = Inr v \<Longrightarrow> stored w k = Some v"
    and Set_stored: "redis_Set R k v ttl w = (Inr (), w') \<Longrightarrow> stored w' = (stored w)(k \<mapsto> v)"
    and Set_failed: "redis_Set R k v ttl w = (Inl e, w') \<Longrightarrow> stored w' = stored w"
    and Keys_all: "redis_Keys R p w = Inr ks \<Longrightarrow> plain_pattern p \<Longrightarrow>
          set ks = {k. k \<in> dom (stored w) \<and> redis_match p k}"
    and Del_stored: "redis_Del R ks w = (Inr (), w') \<Longrightarrow> stored w' = (stored w) |` (- set ks)"
    and Del_failed: "redis_Del R ks w = (Inl e, w') \<Longrightarrow> stored w' = stored w"

definition plain_redis :: "(string \<times> string) list redis_client" where
  "plain_redis = \<lparr>
     redis_Get = (\<lambda>k w. case map_of w k of None \<Rightarrow> Inl (LibErr ''redis: nil'') | Some v \<Rightarrow> Inr v),
     redis_Set = (\<lambda>k v ttl w. (Inr (), (k, v) # w)),
     redis_Keys = (\<lambda>p w. Inr (filter (redis_match p) (map fst w))),
     redis_Del = (\<lambda>ks w. (Inr (), filter (\<lambda>e. fst e \<notin> set ks) w))\<rparr>"

lemma map_of_filter_keys: "map_of (filter (\<lambda>e. fst e \<notin> K) w) = (map_of w) |` (- K)"
  by (induction w) (auto simp: restrict_map_def fun_eq_iff)

interpretation plain_redis: redis_store plain_redis map_of
  by unfold_locales
    (auto simp: plain_redis_def map_of_filter_keys dom_map_of_conv_image_fst split: option.splits)

section \<open>Decisions\<close>

record AuthzResult =
  az_Allowed :: bool
  az_Reason :: string
  az_MatchedBy :: string

definition authz_Marshal :: "AuthzResult \<Rightarrow> string" where
  "authz_Marshal r =
     ''{'' @ json_string ''Allowed'' @ '':'' @ json_Marshal (ABool (az_Allowed r)) @ '','' @
       json_string ''Reason'' @ '':'' @ json_Marshal (AStr (az_Reason r)) @ '','' @
       json_string ''MatchedBy'' @ '':'' @ json_Marshal (AStr (az_MatchedBy r)) @ ''}''"

text \<open>A field that is absent or null keeps its zero value; one of another type is an error.\<close>

definition bool_field :: "(string \<times> any) list \<Rightarrow> string \<Rightarrow> bool option" where
  "bool_field es k = (case map_of es k of
     None \<Rightarrow> Some False | Some ANull \<Rightarrow> Some False | Some (ABool b) \<Rightarrow> Some b | _ \<Rightarrow> None)"

definition string_field :: "(string \<times> any) list \<Rightarrow> string \<Rightarrow> string option" where
  "string_field es k = (case map_of es k of
     None \<Rightarrow> Some [] | Some ANull \<Rightarrow> Some [] | Some (AStr s) \<Rightarrow> Some s | _ \<Rightarrow> None)"

definition authz_Unmarshal :: "string \<Rightarrow> AuthzResult option" where
  "authz_Unmarshal s =
     (case json_Unmarshal_map s of
        None \<Rightarrow> None
      | Some es \<Rightarrow>
          (case (bool_field es ''Allowed'', string_field es ''Reason'', string_field es ''MatchedBy'') of
             (Some a, Some r, Some m) \<Rightarrow> Some \<lparr>az_Allowed = a, az_Reason = r, az_MatchedBy = m\<rparr>
           | _ \<Rightarrow> None))"

lemma json_value_bool: "json_value (Suc n) ((if b then ''true'' else ''false'') @ r) = Some (ABool b, r)"
  by (simp add: strings_HasPrefix_def)

lemma json_members_step:
  assumes "json_value n (v @ d # r) = Some (x, d # r)"
  shows "json_members (Suc n) (json_string k @ '':'' @ v @ d # r) =
    (if d = CHR '','' then map_option (\<lambda>(es, r''). ((k, x) # es, r'')) (json_members n r)
     else if d = CHR ''}'' then Some ([(k, x)], r) else None)"
  using assms by (simp add: json_string_def json_read_concat)

lemma authz_roundtrip: "authz_Unmarshal (authz_Marshal r) = Some r"
proof -
  let ?b = "if az_Allowed r then ''true'' else ''false''"
  let ?t3 = "json_string ''MatchedBy'' @ '':'' @ json_string (az_MatchedBy r) @ CHR ''}'' # []"
  let ?t2 = "json_string ''Reason'' @ '':'' @ json_string (az_Reason r) @ CHR '','' # ?t3"
  let ?t1 = "json_string ''Allowed'' @ '':'' @ ?b @ CHR '','' # ?t2"
  have s3: "json_members (Suc (Suc n)) ?t3 = Some ([(''MatchedBy'', AStr (az_MatchedBy r))], [])" for n
    using json_members_step [OF json_value_string] by simp
  have s2: "json_members (Suc (Suc (Suc n))) ?t2 =
      Some ([(''Reason'', AStr (az_Reason r)), (''MatchedBy'', AStr (az_MatchedBy r))], [])" for n
    unfolding json_members_step [OF json_value_string] by simp
  have s1: "json_members (Suc (Suc (Suc (Suc n)))) ?t1 = Some ([(''Allowed'', ABool (az_Allowed r)),
      (''Reason'', AStr (az_Reason r)), (''MatchedBy'', AStr (az_MatchedBy r))], [])" for n
    unfolding json_members_step [OF json_value_bool] by (simp only: s2) simp
  have m: "authz_Marshal r = CHR ''{'' # ?t1" by (simp add: authz_Marshal_def)
  obtain n where n: "2 * length (CHR ''{'' # ?t1) = Suc (Suc (Suc n))"
    by (rule that [of "2 * length (CHR ''{'' # ?t1) - 3"]) (simp add: json_string_def)
  have np: "\<not> strings_HasPrefix ?t1 ''}''" by (simp add: json_string_def strings_HasPrefix_def)
  have "json_value (Suc (Suc (2 * length (CHR ''{'' # ?t1)))) (CHR ''{'' # ?t1) =
      map_option (\<lambda>(es, r'). (AMap es, r')) (json_members (Suc (2 * length (CHR ''{'' # ?t1))) ?t1)"
    using np by (simp add: strings_HasPrefix_def del: json_members.simps)
  then have "json_Unmarshal_map (authz_Marshal r) = Some [(''Allowed'', ABool (az_Allowed r)),
      (''Reason'', AStr (az_Reason r)), (''MatchedBy'', AStr (az_MatchedBy r))]"
    unfolding json_Unmarshal_map_def m n by (simp only: s1) simp
  then show ?thesis by (simp add: authz_Unmarshal_def bool_field_def string_field_def)
qed

section \<open>The cache\<close>

record 'w AuthzCache =
  cache_client :: "'w redis_client"
  cache_ttl :: duration

definition cacheKey :: "string \<Rightarrow> string \<Rightarrow> string \<Rightarrow> string \<Rightarrow> string \<Rightarrow> string" where
  "cacheKey tenantID userID resourceType resourceID action =
     ''authz:'' @ tenantID @ '':'' @ userID @ '':'' @ resourceType @ '':'' @ resourceID @ '':'' @ action"

definition AuthzCache_Get ::
    "'w AuthzCache \<Rightarrow> string \<Rightarrow> string \<Rightarrow> string \<Rightarrow> string \<Rightarrow> string \<Rightarrow> 'w \<Rightarrow> AuthzResult option" where [svc_simps]:
  "AuthzCache_Get c tenantID userID resourceType resourceID action w =
     (case redis_Get (cache_client c) (cacheKey tenantID userID resourceType resourceID action) w of
        Inl e \<Rightarrow> None
      | Inr data \<Rightarrow> authz_Unmarshal data)"

definition AuthzCache_Set :: "'w AuthzCache \<Rightarrow> string \<Rightarrow> string \<Rightarrow> string \<Rightarrow> string \<Rightarrow> string \<Rightarrow> AuthzResult \<Rightarrow>
    'w \<Rightarrow> (err + unit) \<times> 'w" where [svc_simps]:
  "AuthzCache_Set c tenantID userID resourceType resourceID action result w =
     redis_Set (cache_client c) (cacheKey tenantID userID resourceType resourceID action)
       (authz_Marshal result) (cache_ttl c) w"

text \<open>The body the five invalidation methods share: list the keys of a pattern, delete them if any.\<close>

definition invalidate_pattern :: "'w AuthzCache \<Rightarrow> string \<Rightarrow> 'w \<Rightarrow> (err + unit) \<times> 'w" where
  "invalidate_pattern c pattern w =
     (case redis_Keys (cache_client c) pattern w of
        Inl e \<Rightarrow> (Inl e, w)
      | Inr keys \<Rightarrow> (if 0 < length keys then redis_Del (cache_client c) keys w else (Inr (), w)))"

definition AuthzCache_Invalidate ::
    "'w AuthzCache \<Rightarrow> string \<Rightarrow> string \<Rightarrow> string \<Rightarrow> string \<Rightarrow> 'w \<Rightarrow> (err + unit) \<times> 'w" where
  "AuthzCache_Invalidate c tenantID userID resourceType resourceID =
     invalidate_pattern c (''authz:'' @ tenantID @ '':'' @ userID @ '':'' @ resourceType @ '':'' @ resourceID @ '':*'')"

definition AuthzCache_InvalidateBySubject ::
    "'w AuthzCache \<Rightarrow> string \<Rightarrow> string \<Rightarrow> string \<Rightarrow> 'w \<Rightarrow> (err + unit) \<times> 'w" where
  "AuthzCache_InvalidateBySubject c tenantID subjectType subjectID =
     invalidate_pattern c (''authz:'' @ tenantID @ '':'' @ subjectType @ '':'' @ subjectID @ '':*'')"

definition AuthzCache_InvalidateByResource ::
    "'w AuthzCache \<Rightarrow> string \<Rightarrow> string \<Rightarrow> string \<Rightarrow> 'w \<Rightarrow> (err + unit) \<times> 'w" where
  "AuthzCache_InvalidateByResource c tenantID resourceType resourceID =
     invalidate_pattern c (''authz:'' @ tenantID @ '':*:'' @ resourceType @ '':'' @ resourceID @ '':*'')"

definition AuthzCache_InvalidateByTenant :: "'w AuthzCache \<Rightarrow> string \<Rightarrow> 'w \<Rightarrow> (err + unit) \<times> 'w" where
  "AuthzCache_InvalidateByTenant c tenantID = invalidate_pattern c (''authz:'' @ tenantID @ '':*'')"

definition AuthzCache_InvalidateAll :: "'w AuthzCache \<Rightarrow> 'w \<Rightarrow> (err + unit) \<times> 'w" where
  "AuthzCache_InvalidateAll c = invalidate_pattern c ''authz:*''"

section \<open>Invalidation messages\<close>

text \<open>\<open>parseInvalidationMessage\<close> cuts at the first colon; \<open>Start\<close> dispatches on the type.\<close>

fun parse_at_colon :: "string \<Rightarrow> string \<Rightarrow> string list" where
  "parse_at_colon pre [] = [pre]"
| "parse_at_colon pre (c # cs) = (if c = CHR '':'' then [pre, cs] else parse_at_colon (pre @ [c]) cs)"

definition parseInvalidationMessage :: "string \<Rightarrow> string list" where
  "parseInvalidationMessage msg = parse_at_colon [] msg"

definition PushInvalidation_message :: "string \<Rightarrow> string \<Rightarrow> string" where
  "PushInvalidation_message eventType payload = eventType @ '':'' @ payload"

definition PushInvalidation_dispatch :: "(string \<rightharpoonup> (string \<Rightarrow> 'w \<Rightarrow> 'w)) \<Rightarrow> string \<Rightarrow> 'w \<Rightarrow> 'w" where
  "PushInvalidation_dispatch handlers msg w =
     (let parts = parseInvalidationMessage msg in
      if 2 \<le> length parts then
        (case handlers (parts ! 0) of None \<Rightarrow> w | Some handler \<Rightarrow> handler (parts ! 1) w)
      else w)"

lemma parse_at_colon_message:
  "CHR '':'' \<notin> set t \<Longrightarrow> parse_at_colon pre (t @ '':'' @ payload) = [pre @ t, payload]"
  by (induction t arbitrary: pre) auto

section \<open>Facts\<close>

lemma redis_match_literal:
  "CHR ''*'' \<notin> set p \<Longrightarrow> redis_match (p @ q) s \<longleftrightarrow> (\<exists>s'. s = p @ s' \<and> redis_match q s')"
proof (induction p arbitrary: s)
  case Nil
  then show ?case by simp
next
  case (Cons c p)
  then have c: "c \<noteq> CHR ''*''" by auto
  show ?case
  proof (cases s)
    case Nil
    then show ?thesis using c by simp
  next
    case (Cons d t)
    then show ?thesis using c Cons.IH [of t] Cons.prems by auto
  qed
qed

lemma redis_match_star [simp]: "redis_match ''*'' s"
  by (induction s) auto

text \<open>The keys of a pattern that ends in a star are those with its prefix.\<close>

lemma redis_match_prefix: "CHR ''*'' \<notin> set p \<Longrightarrow> redis_match (p @ ''*'') s \<longleftrightarrow> strings_HasPrefix s p"
proof -
  assume "CHR ''*'' \<notin> set p"
  then have "redis_match (p @ ''*'') s \<longleftrightarrow> (\<exists>s'. s = p @ s')"
    using redis_match_literal [of p "''*''" s] redis_match_star by blast
  also have "\<dots> \<longleftrightarrow> strings_HasPrefix s p"
    unfolding strings_HasPrefix_def by (metis append_eq_conv_conj append_take_drop_id)
  finally show ?thesis .
qed

context redis_store
begin

lemma invalidate_pattern_ok:
  assumes "cache_client c = R" and "plain_pattern p" and "invalidate_pattern c p w = (Inr (), w')"
  shows "stored w' = (stored w) |` {k. \<not> redis_match p k}"
proof -
  obtain ks where ks: "redis_Keys R p w = Inr ks"
    and del: "(if 0 < length ks then redis_Del R ks w else (Inr (), w)) = (Inr (), w')"
    using assms(1,3) by (auto simp: invalidate_pattern_def split: sum.splits)
  have set: "set ks = {k. k \<in> dom (stored w) \<and> redis_match p k}"
    by (rule Keys_all [OF ks assms(2)])
  show ?thesis
  proof (cases "ks = []")
    case True
    then have "w' = w" using del by simp
    then show ?thesis using set True by (auto simp: restrict_map_def fun_eq_iff)
  next
    case False
    then have "stored w' = (stored w) |` (- set ks)" using del Del_stored by simp
    then show ?thesis using set by (auto simp: restrict_map_def fun_eq_iff)
  qed
qed

end

end
