(* ===== verification/Authorization.thy ===== *)
theory Authorization
  imports AccessServices AuthzCache Rbac AuthService
begin

text \<open>
  service/abac.go and service/authorization.go: the policy engine and the decision of a request.
  The Open Policy Agent library is a parameter; a prepared query has a type \<open>'q\<close> of its choice.
  The engine's table of prepared queries is state in memory beside the world.
\<close>

section \<open>Attribute-based access control\<close>

text \<open>
  \<open>rego_Prepare source\<close> compiles the query \<open>data.hoviyat.authz.allow\<close> over a module;
  \<open>rego_Eval q input\<close> gives the result set, each result a list of expression values.
\<close>

record 'q rego_lib =
  rego_Prepare :: "string \<Rightarrow> err + 'q"
  rego_Eval :: "'q \<Rightarrow> string \<Rightarrow> err + any list list"

type_synonym 'q prepared = "string \<rightharpoonup> 'q"

definition ABACService_PrepareQuery ::
    "'q rego_lib \<Rightarrow> string \<Rightarrow> string \<Rightarrow> 'q prepared \<Rightarrow> (err + unit) \<times> 'q prepared" where
  "ABACService_PrepareQuery lib policyID regoSource pq =
     (case rego_Prepare lib regoSource of
        Inl e \<Rightarrow> (Inl (FmtErr ''prepare query''), pq)
      | Inr query \<Rightarrow> (Inr (), pq(policyID \<mapsto> query)))"

record PolicyEvaluationInput =
  pi_User :: any_map
  pi_Resource :: any_map
  pi_Action :: string
  pi_Context :: any_map

text \<open>\<open>json.Marshal\<close> of the struct, its fields in order of declaration.\<close>

definition marshal_input :: "PolicyEvaluationInput \<Rightarrow> string" where
  "marshal_input i =
     ''{'' @ json_string ''User'' @ '':'' @ json_Marshal_map (pi_User i) @ '','' @
       json_string ''Resource'' @ '':'' @ json_Marshal_map (pi_Resource i) @ '','' @
       json_string ''Action'' @ '':'' @ json_string (pi_Action i) @ '','' @
       json_string ''Context'' @ '':'' @ json_Marshal_map (pi_Context i) @ ''}''"

definition ABACService_Evaluate ::
    "'q rego_lib \<Rightarrow> 'q prepared \<Rightarrow> string \<Rightarrow> PolicyEvaluationInput \<Rightarrow> err + bool" where
  "ABACService_Evaluate lib pq policyID input =
     (case pq policyID of
        None \<Rightarrow> Inl (FmtErr (''policy not prepared: '' @ policyID))
      | Some query \<Rightarrow>
          (case rego_Eval lib query (marshal_input input) of
             Inl e \<Rightarrow> Inl (FmtErr ''eval query'')
           | Inr results \<Rightarrow>
               (case results of
                  [] \<Rightarrow> Inr False
                | expressions # _ \<Rightarrow>
                    (case expressions of
                       [] \<Rightarrow> Inr False
                     | value # _ \<Rightarrow> (case value of ABool b \<Rightarrow> Inr b | _ \<Rightarrow> Inr False)))))"

text \<open>The results map: an entry that is there is overwritten.\<close>

definition results_put :: "string \<Rightarrow> bool \<Rightarrow> (string \<times> bool) list \<Rightarrow> (string \<times> bool) list" where
  "results_put k v rs = filter (\<lambda>e. fst e \<noteq> k) rs @ [(k, v)]"

fun evaluate_loop :: "'q rego_lib \<Rightarrow> 'q prepared \<Rightarrow> PolicyEvaluationInput \<Rightarrow> string list \<Rightarrow>
    (string \<times> bool) list \<Rightarrow> err + (string \<times> bool) list" where
  "evaluate_loop lib pq input [] results = Inr results"
| "evaluate_loop lib pq input (policyID # ids) results =
     (case ABACService_Evaluate lib pq policyID input of
        Inl e \<Rightarrow> Inl e
      | Inr allowed \<Rightarrow> evaluate_loop lib pq input ids (results_put policyID allowed results))"

definition ABACService_EvaluateAll ::
    "'q rego_lib \<Rightarrow> 'q prepared \<Rightarrow> string list \<Rightarrow> PolicyEvaluationInput \<Rightarrow> err + (string \<times> bool) list" where
  "ABACService_EvaluateAll lib pq policyIDs input = evaluate_loop lib pq input policyIDs []"

section \<open>The decision\<close>

record AuthzRequest =
  req_UserID :: string
  req_TenantID :: string
  req_ResourceType :: string
  req_ResourceID :: string
  req_Action :: string
  req_Context :: any_map

record ('w, 'q) AuthorizationService =
  az_acl :: "'w ACLRepository"
  az_abac :: "'q rego_lib"
  az_policies :: "'w PolicyRepository"
  az_cache :: "'w AuthzCache option"
  az_membership :: "'w MembershipRepository"
  az_teamMemberships :: "'w TeamMembershipRepository"
  az_teams :: "'w TeamRepository"

text \<open>An unreadable list of team memberships leaves the tenant roles.\<close>

definition getEffectiveRoles :: "('w, 'q) AuthorizationService \<Rightarrow> string \<Rightarrow> string \<Rightarrow> 'w \<Rightarrow> err + string list" where
  "getEffectiveRoles s userID tenantID w =
     (case MembershipRepository_FindByUserAndTenant (az_membership s) userID tenantID w of
        Inl e \<Rightarrow> Inl e
      | Inr membership \<Rightarrow>
          (case TeamMembershipRepository_ListByUser (az_teamMemberships s) userID w of
             Inl e \<Rightarrow> Inr (mem_Roles membership)
           | Inr tms \<Rightarrow> Inr (team_roles (az_teams s) tenantID w tms (mem_Roles membership))))"

definition actionToPermission :: "string \<Rightarrow> string \<Rightarrow> string" where
  "actionToPermission resourceType action = resourceType @ '':'' @ action"

text \<open>The result an ACL entry of a level (user, team, role) gives.\<close>

definition acl_result :: "string \<Rightarrow> ACLPermission \<Rightarrow> AuthzResult" where
  "acl_result level acl =
     (if acl_Effect acl = ''allow''
      then \<lparr>az_Allowed = True, az_Reason = ''granted by '' @ level @ '' ACL'', az_MatchedBy = ''acl''\<rparr>
      else \<lparr>az_Allowed = False, az_Reason = ''denied by '' @ level @ '' ACL'', az_MatchedBy = ''acl''\<rparr>)"

definition check_acl :: "('w, 'q) AuthorizationService \<Rightarrow> AuthzRequest \<Rightarrow> string \<Rightarrow> string \<Rightarrow> 'w \<Rightarrow> err + ACLPermission" where
  "check_acl s req subjectType subjectID w =
     ACLService_Check (az_acl s) (req_TenantID req) subjectType subjectID (req_ResourceType req)
       (req_ResourceID req) (actionToPermission (req_ResourceType req) (req_Action req)) w"

fun team_acl_loop :: "('w, 'q) AuthorizationService \<Rightarrow> AuthzRequest \<Rightarrow> TeamMembership list \<Rightarrow> 'w \<Rightarrow> AuthzResult option" where
  "team_acl_loop s req [] w = None"
| "team_acl_loop s req (tm # tms) w =
     (case TeamRepository_FindByID (az_teams s) (tm_TeamID tm) w of
        Inl e \<Rightarrow> team_acl_loop s req tms w
      | Inr team \<Rightarrow>
          (if team_TenantID team \<noteq> req_TenantID req then team_acl_loop s req tms w
           else case check_acl s req ''team'' (tm_TeamID tm) w of
             Inl e \<Rightarrow> team_acl_loop s req tms w
           | Inr acl \<Rightarrow> Some (acl_result ''team'' acl)))"

fun role_acl_loop :: "('w, 'q) AuthorizationService \<Rightarrow> AuthzRequest \<Rightarrow> string list \<Rightarrow> 'w \<Rightarrow> AuthzResult option" where
  "role_acl_loop s req [] w = None"
| "role_acl_loop s req (role # roles) w =
     (case check_acl s req ''role'' role w of
        Inl e \<Rightarrow> role_acl_loop s req roles w
      | Inr acl \<Rightarrow> Some (acl_result ''role'' acl))"

text \<open>
  The preparation loop: a policy whose ID has a prepared query keeps it; a failure to prepare is
  ignored.
\<close>

fun prepare_loop :: "'q rego_lib \<Rightarrow> Policy list \<Rightarrow> 'q prepared \<Rightarrow> 'q prepared" where
  "prepare_loop lib [] pq = pq"
| "prepare_loop lib (p # ps) pq =
     prepare_loop lib ps
       (if pq (pol_ID p) = None then snd (ABACService_PrepareQuery lib (pol_ID p) (pol_Rego p) pq) else pq)"

definition abac_input :: "AuthzRequest \<Rightarrow> string list \<Rightarrow> PolicyEvaluationInput" where
  "abac_input req roles = \<lparr>
     pi_User = Some [(''id'', AStr (req_UserID req)), (''roles'', AList (map AStr roles))],
     pi_Resource = Some [(''type'', AStr (req_ResourceType req)), (''id'', AStr (req_ResourceID req))],
     pi_Action = req_Action req, pi_Context = req_Context req\<rparr>"

text \<open>The answer of a policy.\<close>

definition abac_result :: "string \<Rightarrow> bool \<Rightarrow> AuthzResult" where
  "abac_result policyID allowed =
     (if allowed
      then \<lparr>az_Allowed = True, az_Reason = ''granted by policy '' @ policyID, az_MatchedBy = ''abac''\<rparr>
      else \<lparr>az_Allowed = False, az_Reason = ''denied by policy'', az_MatchedBy = ''abac''\<rparr>)"

text \<open>
  Step 4. Ranging over the results map starts anywhere: \<open>k\<close> is the entry the runtime happens to
  visit first, and the loop returns on it.
\<close>

definition abac_step :: "('w, 'q) AuthorizationService \<Rightarrow> nat \<Rightarrow> AuthzRequest \<Rightarrow> string list \<Rightarrow> 'q prepared \<Rightarrow> 'w \<Rightarrow>
    AuthzResult option \<times> 'q prepared" where
  "abac_step s k req roles pq w =
     (case PolicyService_ListActive (az_policies s) (req_TenantID req) w of
        Inl e \<Rightarrow> (None, pq)
      | Inr activePolicies \<Rightarrow>
          (if activePolicies = [] then (None, pq)
           else
             (let pq' = prepare_loop (az_abac s) activePolicies pq in
              case ABACService_EvaluateAll (az_abac s) pq' (map pol_ID activePolicies) (abac_input req roles) of
                Inl e \<Rightarrow> (None, pq')
              | Inr [] \<Rightarrow> (None, pq')
              | Inr results \<Rightarrow>
                  (case results ! (k mod length results) of (policyID, allowed) \<Rightarrow>
                     (Some (abac_result policyID allowed), pq')))))"

definition cache_set :: "('w, 'q) AuthorizationService \<Rightarrow> AuthzRequest \<Rightarrow> AuthzResult \<Rightarrow> 'w \<Rightarrow> 'w" where
  "cache_set s req result w =
     (case az_cache s of
        None \<Rightarrow> w
      | Some c \<Rightarrow>
          snd (AuthzCache_Set c (req_TenantID req) (req_UserID req) (req_ResourceType req) (req_ResourceID req)
                 (req_Action req) result w))"

definition cache_get :: "('w, 'q) AuthorizationService \<Rightarrow> AuthzRequest \<Rightarrow> 'w \<Rightarrow> AuthzResult option" where
  "cache_get s req w =
     (case az_cache s of
        None \<Rightarrow> None
      | Some c \<Rightarrow>
          AuthzCache_Get c (req_TenantID req) (req_UserID req) (req_ResourceType req) (req_ResourceID req)
            (req_Action req) w)"

definition AuthorizationService_Check :: "('w, 'q) AuthorizationService \<Rightarrow> nat \<Rightarrow> AuthzRequest \<Rightarrow> 'q prepared \<Rightarrow> 'w \<Rightarrow>
    (err + AuthzResult) \<times> 'q prepared \<times> 'w" where
  "AuthorizationService_Check s k req pq w =
     (case cache_get s req w of
        Some cached \<Rightarrow> (Inr cached, pq, w)
      | None \<Rightarrow>
        (case getEffectiveRoles s (req_UserID req) (req_TenantID req) w of
           Inl e \<Rightarrow> (Inl e, pq, w)
         | Inr roles \<Rightarrow>
           (let permission = actionToPermission (req_ResourceType req) (req_Action req) in
            if RBACService_Allow roles permission then
              (let result = \<lparr>az_Allowed = True, az_Reason = ''granted by role'', az_MatchedBy = ''rbac''\<rparr>
               in (Inr result, pq, cache_set s req result w))
            else
              (case check_acl s req ''user'' (req_UserID req) w of
                 Inr acl \<Rightarrow> (Inr (acl_result ''user'' acl), pq, cache_set s req (acl_result ''user'' acl) w)
               | Inl _ \<Rightarrow>
                 (case (case TeamMembershipRepository_ListByUser (az_teamMemberships s) (req_UserID req) w of
                          Inl _ \<Rightarrow> None
                        | Inr tms \<Rightarrow> team_acl_loop s req tms w) of
                    Some result \<Rightarrow> (Inr result, pq, cache_set s req result w)
                  | None \<Rightarrow>
                    (case role_acl_loop s req roles w of
                       Some result \<Rightarrow> (Inr result, pq, cache_set s req result w)
                     | None \<Rightarrow>
                       (case abac_step s k req roles pq w of
                          (Some result, pq') \<Rightarrow> (Inr result, pq', cache_set s req result w)
                        | (None, pq') \<Rightarrow>
                          (let result = \<lparr>az_Allowed = False, az_Reason = ''no matching rule'', az_MatchedBy = ''none''\<rparr>
                           in (Inr result, pq', cache_set s req result w)))))))))"

definition AuthorizationService_DryRun :: "('w, 'q) AuthorizationService \<Rightarrow> nat \<Rightarrow> AuthzRequest \<Rightarrow> 'q prepared \<Rightarrow> 'w \<Rightarrow>
    (err + AuthzResult) \<times> 'q prepared \<times> 'w" where
  "AuthorizationService_DryRun s k req pq w = AuthorizationService_Check s k req pq w"

end
