(* ===== verification/RepoAccess.thy ===== *)
theory RepoAccess
  imports Database
begin

text \<open>
  The repositories of access control over the database: acl_repository.go,
  role_permission_repository.go, permission_repository.go and policy_repository.go. All four
  report a missing row with \<open>ErrACLNotFound\<close> and a clash with \<open>ErrACLAlreadyExists\<close>. The
  \<open>UpdatedAt\<close> that \<open>policyRepository.Update\<close> copies back into its argument is dropped.
\<close>

section \<open>ACL entries\<close>

definition toACLModel :: "ACLPermission \<Rightarrow> aclModel" where [conv_simps]:
  "toACLModel x = \<lparr>
     am_ID = acl_ID x, am_TenantID = acl_TenantID x, am_SubjectType = acl_SubjectType x,
     am_SubjectID = acl_SubjectID x, am_ResourceType = acl_ResourceType x,
     am_ResourceID = acl_ResourceID x, am_Permission = acl_Permission x, am_Effect = acl_Effect x,
     am_CreatedAt = zero_time, am_UpdatedAt = zero_time\<rparr>"

definition fromACLModel :: "aclModel \<Rightarrow> ACLPermission" where [conv_simps]:
  "fromACLModel m = \<lparr>
     acl_ID = am_ID m, acl_TenantID = am_TenantID m, acl_SubjectType = am_SubjectType m,
     acl_SubjectID = am_SubjectID m, acl_ResourceType = am_ResourceType m,
     acl_ResourceID = am_ResourceID m, acl_Permission = am_Permission m, acl_Effect = am_Effect m,
     acl_CreatedAt = am_CreatedAt m, acl_UpdatedAt = am_UpdatedAt m\<rparr>"

definition aclRepository_Create ::
    "gorms \<Rightarrow> ACLPermission \<Rightarrow> db \<Rightarrow> (err + ACLPermission) \<times> db" where [repo_simps]:
  "aclRepository_Create G acl d =
     (case g_Create (gorm_acl_permissions G) (toACLModel acl) (t_acl_permissions d) of
        (Inl e, t) \<Rightarrow> (Inl (if e = gorm_ErrDuplicatedKey then AcErr ErrACLAlreadyExists else GormErr e), d\<lparr>t_acl_permissions := t\<rparr>)
      | (Inr m, t) \<Rightarrow>
          (Inr (acl\<lparr>acl_ID := am_ID m, acl_CreatedAt := am_CreatedAt m, acl_UpdatedAt := am_UpdatedAt m\<rparr>),
           d\<lparr>t_acl_permissions := t\<rparr>))"

definition aclRepository_FindByID ::
    "gorms \<Rightarrow> string \<Rightarrow> db \<Rightarrow> err + ACLPermission" where [repo_simps]:
  "aclRepository_FindByID G uid d =
     (case g_First (gorm_acl_permissions G) (\<lambda>m. am_ID m = uid) (t_acl_permissions d) of
        Inl e \<Rightarrow> Inl (if e = gorm_ErrRecordNotFound then AcErr ErrACLNotFound else GormErr e)
      | Inr m \<Rightarrow> Inr (fromACLModel m))"

definition aclRepository_FindBySubject ::
    "gorms \<Rightarrow> string \<Rightarrow> string \<Rightarrow> string \<Rightarrow> db \<Rightarrow> err + ACLPermission list" where [repo_simps]:
  "aclRepository_FindBySubject G tenantID subjectType subjectID d =
     (case g_Find (gorm_acl_permissions G) (\<lambda>m. am_TenantID m = tenantID \<and> am_SubjectType m = subjectType \<and> am_SubjectID m = subjectID) (t_acl_permissions d) of
        Inl e \<Rightarrow> Inl (GormErr e)
      | Inr models \<Rightarrow> Inr (map fromACLModel models))"

definition aclRepository_FindByResource ::
    "gorms \<Rightarrow> string \<Rightarrow> string \<Rightarrow> string \<Rightarrow> db \<Rightarrow> err + ACLPermission list" where [repo_simps]:
  "aclRepository_FindByResource G tenantID resourceType resourceID d =
     (case g_Find (gorm_acl_permissions G) (\<lambda>m. am_TenantID m = tenantID \<and> am_ResourceType m = resourceType \<and> am_ResourceID m = resourceID) (t_acl_permissions d) of
        Inl e \<Rightarrow> Inl (GormErr e)
      | Inr models \<Rightarrow> Inr (map fromACLModel models))"

definition aclRepository_CheckPermission ::
    "gorms \<Rightarrow> string \<Rightarrow> string \<Rightarrow> string \<Rightarrow> string \<Rightarrow> string \<Rightarrow> string \<Rightarrow> db \<Rightarrow> err + ACLPermission" where [repo_simps]:
  "aclRepository_CheckPermission G tenantID subjectType subjectID resourceType resourceID permission d =
     (case g_First (gorm_acl_permissions G) (\<lambda>m. am_TenantID m = tenantID \<and> am_SubjectType m = subjectType \<and>
             am_SubjectID m = subjectID \<and> am_ResourceType m = resourceType \<and> am_ResourceID m = resourceID \<and>
             am_Permission m = permission) (t_acl_permissions d) of
        Inl e \<Rightarrow> Inl (if e = gorm_ErrRecordNotFound then AcErr ErrACLNotFound else GormErr e)
      | Inr m \<Rightarrow> Inr (fromACLModel m))"

definition aclRepository_Delete ::
    "gorms \<Rightarrow> string \<Rightarrow> db \<Rightarrow> (err + unit) \<times> db" where [repo_simps]:
  "aclRepository_Delete G uid d =
     (case g_Delete (gorm_acl_permissions G) (\<lambda>m. am_ID m = uid) (t_acl_permissions d) of
        (Inl e, t) \<Rightarrow> (Inl (GormErr e), d\<lparr>t_acl_permissions := t\<rparr>)
      | (Inr n, t) \<Rightarrow> (if n = 0 then Inl (AcErr ErrACLNotFound) else Inr (), d\<lparr>t_acl_permissions := t\<rparr>))"

definition aclRepository_DeleteBySubjectAndResource ::
    "gorms \<Rightarrow> string \<Rightarrow> string \<Rightarrow> string \<Rightarrow> string \<Rightarrow> string \<Rightarrow> db \<Rightarrow> (err + unit) \<times> db" where [repo_simps]:
  "aclRepository_DeleteBySubjectAndResource G tenantID subjectType subjectID resourceType resourceID d =
     (case g_Delete (gorm_acl_permissions G) (\<lambda>m. am_TenantID m = tenantID \<and> am_SubjectType m = subjectType \<and>
             am_SubjectID m = subjectID \<and> am_ResourceType m = resourceType \<and> am_ResourceID m = resourceID) (t_acl_permissions d) of
        (Inl e, t) \<Rightarrow> (Inl (GormErr e), d\<lparr>t_acl_permissions := t\<rparr>)
      | (Inr n, t) \<Rightarrow> (Inr (), d\<lparr>t_acl_permissions := t\<rparr>))"

definition NewACLRepository :: "gorms \<Rightarrow> db ACLRepository" where
  "NewACLRepository G = \<lparr>
     ACLRepository_Create = aclRepository_Create G,
     ACLRepository_FindByID = aclRepository_FindByID G,
     ACLRepository_FindBySubject = aclRepository_FindBySubject G,
     ACLRepository_FindByResource = aclRepository_FindByResource G,
     ACLRepository_CheckPermission = aclRepository_CheckPermission G,
     ACLRepository_Delete = aclRepository_Delete G,
     ACLRepository_DeleteBySubjectAndResource = aclRepository_DeleteBySubjectAndResource G\<rparr>"

section \<open>Permissions of roles\<close>

definition toRolePermissionModel :: "RolePermission \<Rightarrow> rolePermissionModel" where [conv_simps]:
  "toRolePermissionModel x = \<lparr>
     rpm_ID = rp_ID x, rpm_TenantID = rp_TenantID x, rpm_RoleName = rp_RoleName x,
     rpm_Permission = rp_Permission x, rpm_CreatedAt = zero_time\<rparr>"

definition fromRolePermissionModel :: "rolePermissionModel \<Rightarrow> RolePermission" where [conv_simps]:
  "fromRolePermissionModel m = \<lparr>
     rp_ID = rpm_ID m, rp_TenantID = rpm_TenantID m, rp_RoleName = rpm_RoleName m,
     rp_Permission = rpm_Permission m, rp_CreatedAt = rpm_CreatedAt m\<rparr>"

definition rolePermissionRepository_Create ::
    "gorms \<Rightarrow> RolePermission \<Rightarrow> db \<Rightarrow> (err + RolePermission) \<times> db" where [repo_simps]:
  "rolePermissionRepository_Create G rp d =
     (case g_Create (gorm_role_permissions G) (toRolePermissionModel rp) (t_role_permissions d) of
        (Inl e, t) \<Rightarrow> (Inl (if e = gorm_ErrDuplicatedKey then AcErr ErrACLAlreadyExists else GormErr e), d\<lparr>t_role_permissions := t\<rparr>)
      | (Inr m, t) \<Rightarrow>
          (Inr (rp\<lparr>rp_ID := rpm_ID m, rp_CreatedAt := rpm_CreatedAt m\<rparr>),
           d\<lparr>t_role_permissions := t\<rparr>))"

definition rolePermissionRepository_FindByRole ::
    "gorms \<Rightarrow> string \<Rightarrow> string \<Rightarrow> db \<Rightarrow> err + RolePermission list" where [repo_simps]:
  "rolePermissionRepository_FindByRole G tenantID roleName d =
     (case g_Find (gorm_role_permissions G) (\<lambda>m. rpm_TenantID m = tenantID \<and> rpm_RoleName m = roleName) (t_role_permissions d) of
        Inl e \<Rightarrow> Inl (GormErr e)
      | Inr models \<Rightarrow> Inr (map fromRolePermissionModel models))"

definition rolePermissionRepository_FindByTenant ::
    "gorms \<Rightarrow> string \<Rightarrow> db \<Rightarrow> err + RolePermission list" where [repo_simps]:
  "rolePermissionRepository_FindByTenant G tenantID d =
     (case g_Find (gorm_role_permissions G) (\<lambda>m. rpm_TenantID m = tenantID) (t_role_permissions d) of
        Inl e \<Rightarrow> Inl (GormErr e)
      | Inr models \<Rightarrow> Inr (map fromRolePermissionModel models))"

definition rolePermissionRepository_Delete ::
    "gorms \<Rightarrow> string \<Rightarrow> db \<Rightarrow> (err + unit) \<times> db" where [repo_simps]:
  "rolePermissionRepository_Delete G uid d =
     (case g_Delete (gorm_role_permissions G) (\<lambda>m. rpm_ID m = uid) (t_role_permissions d) of
        (Inl e, t) \<Rightarrow> (Inl (GormErr e), d\<lparr>t_role_permissions := t\<rparr>)
      | (Inr n, t) \<Rightarrow> (if n = 0 then Inl (AcErr ErrACLNotFound) else Inr (), d\<lparr>t_role_permissions := t\<rparr>))"

definition rolePermissionRepository_DeleteByRole ::
    "gorms \<Rightarrow> string \<Rightarrow> string \<Rightarrow> db \<Rightarrow> (err + unit) \<times> db" where [repo_simps]:
  "rolePermissionRepository_DeleteByRole G tenantID roleName d =
     (case g_Delete (gorm_role_permissions G) (\<lambda>m. rpm_TenantID m = tenantID \<and> rpm_RoleName m = roleName) (t_role_permissions d) of
        (Inl e, t) \<Rightarrow> (Inl (GormErr e), d\<lparr>t_role_permissions := t\<rparr>)
      | (Inr n, t) \<Rightarrow> (Inr (), d\<lparr>t_role_permissions := t\<rparr>))"

definition NewRolePermissionRepository :: "gorms \<Rightarrow> db RolePermissionRepository" where
  "NewRolePermissionRepository G = \<lparr>
     RolePermissionRepository_Create = rolePermissionRepository_Create G,
     RolePermissionRepository_FindByRole = rolePermissionRepository_FindByRole G,
     RolePermissionRepository_FindByTenant = rolePermissionRepository_FindByTenant G,
     RolePermissionRepository_Delete = rolePermissionRepository_Delete G,
     RolePermissionRepository_DeleteByRole = rolePermissionRepository_DeleteByRole G\<rparr>"

section \<open>Permission names\<close>

definition toPermissionModel :: "Permission \<Rightarrow> permissionModel" where [conv_simps]:
  "toPermissionModel x = \<lparr>
     pem_ID = perm_ID x, pem_TenantID = perm_TenantID x, pem_Name = perm_Name x,
     pem_Description = perm_Description x, pem_CreatedAt = zero_time\<rparr>"

definition fromPermissionModel :: "permissionModel \<Rightarrow> Permission" where [conv_simps]:
  "fromPermissionModel m = \<lparr>
     perm_ID = pem_ID m, perm_TenantID = pem_TenantID m, perm_Name = pem_Name m,
     perm_Description = pem_Description m, perm_CreatedAt = pem_CreatedAt m\<rparr>"

definition permissionRepository_Create ::
    "gorms \<Rightarrow> Permission \<Rightarrow> db \<Rightarrow> (err + Permission) \<times> db" where [repo_simps]:
  "permissionRepository_Create G perm d =
     (case g_Create (gorm_permissions G) (toPermissionModel perm) (t_permissions d) of
        (Inl e, t) \<Rightarrow> (Inl (if e = gorm_ErrDuplicatedKey then AcErr ErrACLAlreadyExists else GormErr e), d\<lparr>t_permissions := t\<rparr>)
      | (Inr m, t) \<Rightarrow>
          (Inr (perm\<lparr>perm_ID := pem_ID m, perm_CreatedAt := pem_CreatedAt m\<rparr>),
           d\<lparr>t_permissions := t\<rparr>))"

definition permissionRepository_FindByID ::
    "gorms \<Rightarrow> string \<Rightarrow> db \<Rightarrow> err + Permission" where [repo_simps]:
  "permissionRepository_FindByID G uid d =
     (case g_First (gorm_permissions G) (\<lambda>m. pem_ID m = uid) (t_permissions d) of
        Inl e \<Rightarrow> Inl (if e = gorm_ErrRecordNotFound then AcErr ErrACLNotFound else GormErr e)
      | Inr m \<Rightarrow> Inr (fromPermissionModel m))"

definition permissionRepository_FindByTenant ::
    "gorms \<Rightarrow> string \<Rightarrow> db \<Rightarrow> err + Permission list" where [repo_simps]:
  "permissionRepository_FindByTenant G tenantID d =
     (case g_Find (gorm_permissions G) (\<lambda>m. pem_TenantID m = tenantID) (t_permissions d) of
        Inl e \<Rightarrow> Inl (GormErr e)
      | Inr models \<Rightarrow> Inr (map fromPermissionModel models))"

definition permissionRepository_Delete ::
    "gorms \<Rightarrow> string \<Rightarrow> db \<Rightarrow> (err + unit) \<times> db" where [repo_simps]:
  "permissionRepository_Delete G uid d =
     (case g_Delete (gorm_permissions G) (\<lambda>m. pem_ID m = uid) (t_permissions d) of
        (Inl e, t) \<Rightarrow> (Inl (GormErr e), d\<lparr>t_permissions := t\<rparr>)
      | (Inr n, t) \<Rightarrow> (if n = 0 then Inl (AcErr ErrACLNotFound) else Inr (), d\<lparr>t_permissions := t\<rparr>))"

definition NewPermissionRepository :: "gorms \<Rightarrow> db PermissionRepository" where
  "NewPermissionRepository G = \<lparr>
     PermissionRepository_Create = permissionRepository_Create G,
     PermissionRepository_FindByID = permissionRepository_FindByID G,
     PermissionRepository_FindByTenant = permissionRepository_FindByTenant G,
     PermissionRepository_Delete = permissionRepository_Delete G\<rparr>"

section \<open>Policies\<close>

definition toPolicyModel :: "Policy \<Rightarrow> policyModel" where [conv_simps]:
  "toPolicyModel x = \<lparr>
     pom_ID = pol_ID x, pom_TenantID = pol_TenantID x, pom_Name = pol_Name x,
     pom_Description = pol_Description x, pom_Rego = pol_Rego x, pom_Version = pol_Version x,
     pom_IsActive = pol_IsActive x, pom_CreatedAt = zero_time, pom_UpdatedAt = zero_time\<rparr>"

definition fromPolicyModel :: "policyModel \<Rightarrow> Policy" where [conv_simps]:
  "fromPolicyModel m = \<lparr>
     pol_ID = pom_ID m, pol_TenantID = pom_TenantID m, pol_Name = pom_Name m,
     pol_Description = pom_Description m, pol_Rego = pom_Rego m, pol_Version = pom_Version m,
     pol_IsActive = pom_IsActive m, pol_CreatedAt = pom_CreatedAt m,
     pol_UpdatedAt = pom_UpdatedAt m\<rparr>"

definition policyRepository_Create ::
    "gorms \<Rightarrow> Policy \<Rightarrow> db \<Rightarrow> (err + Policy) \<times> db" where [repo_simps]:
  "policyRepository_Create G policy d =
     (case g_Create (gorm_policies G) (toPolicyModel policy) (t_policies d) of
        (Inl e, t) \<Rightarrow> (Inl (if e = gorm_ErrDuplicatedKey then AcErr ErrACLAlreadyExists else GormErr e), d\<lparr>t_policies := t\<rparr>)
      | (Inr m, t) \<Rightarrow>
          (Inr (policy\<lparr>pol_ID := pom_ID m, pol_CreatedAt := pom_CreatedAt m, pol_UpdatedAt := pom_UpdatedAt m\<rparr>),
           d\<lparr>t_policies := t\<rparr>))"

definition policyRepository_FindByID ::
    "gorms \<Rightarrow> string \<Rightarrow> db \<Rightarrow> err + Policy" where [repo_simps]:
  "policyRepository_FindByID G uid d =
     (case g_First (gorm_policies G) (\<lambda>m. pom_ID m = uid) (t_policies d) of
        Inl e \<Rightarrow> Inl (if e = gorm_ErrRecordNotFound then AcErr ErrACLNotFound else GormErr e)
      | Inr m \<Rightarrow> Inr (fromPolicyModel m))"

definition policyRepository_FindByName ::
    "gorms \<Rightarrow> string \<Rightarrow> string \<Rightarrow> db \<Rightarrow> err + Policy" where [repo_simps]:
  "policyRepository_FindByName G tenantID name d =
     (case g_First (gorm_policies G) (\<lambda>m. pom_TenantID m = tenantID \<and> pom_Name m = name) (t_policies d) of
        Inl e \<Rightarrow> Inl (if e = gorm_ErrRecordNotFound then AcErr ErrACLNotFound else GormErr e)
      | Inr m \<Rightarrow> Inr (fromPolicyModel m))"

definition policyRepository_FindActiveByTenant ::
    "gorms \<Rightarrow> string \<Rightarrow> db \<Rightarrow> err + Policy list" where [repo_simps]:
  "policyRepository_FindActiveByTenant G tenantID d =
     (case g_Find (gorm_policies G) (\<lambda>m. pom_TenantID m = tenantID \<and> pom_IsActive m) (t_policies d) of
        Inl e \<Rightarrow> Inl (GormErr e)
      | Inr models \<Rightarrow> Inr (map fromPolicyModel models))"

definition policyRepository_ListByTenant ::
    "gorms \<Rightarrow> string \<Rightarrow> db \<Rightarrow> err + Policy list" where [repo_simps]:
  "policyRepository_ListByTenant G tenantID d =
     (case g_Find (gorm_policies G) (\<lambda>m. pom_TenantID m = tenantID) (t_policies d) of
        Inl e \<Rightarrow> Inl (GormErr e)
      | Inr models \<Rightarrow> Inr (map fromPolicyModel models))"

definition policyRepository_Update ::
    "gorms \<Rightarrow> Policy \<Rightarrow> db \<Rightarrow> (err + unit) \<times> db" where [repo_simps]:
  "policyRepository_Update G policy d =
     (case g_Updates (gorm_policies G) (\<lambda>m. pom_ID m = pol_ID policy) (toPolicyModel policy) (t_policies d) of
        (Inl e, t) \<Rightarrow> (Inl (GormErr e), d\<lparr>t_policies := t\<rparr>)
      | (Inr n, t) \<Rightarrow> (if n = 0 then Inl (AcErr ErrACLNotFound) else Inr (), d\<lparr>t_policies := t\<rparr>))"

definition policyRepository_Delete ::
    "gorms \<Rightarrow> string \<Rightarrow> db \<Rightarrow> (err + unit) \<times> db" where [repo_simps]:
  "policyRepository_Delete G uid d =
     (case g_Delete (gorm_policies G) (\<lambda>m. pom_ID m = uid) (t_policies d) of
        (Inl e, t) \<Rightarrow> (Inl (GormErr e), d\<lparr>t_policies := t\<rparr>)
      | (Inr n, t) \<Rightarrow> (if n = 0 then Inl (AcErr ErrACLNotFound) else Inr (), d\<lparr>t_policies := t\<rparr>))"

definition NewPolicyRepository :: "gorms \<Rightarrow> db PolicyRepository" where
  "NewPolicyRepository G = \<lparr>
     PolicyRepository_Create = policyRepository_Create G,
     PolicyRepository_FindByID = policyRepository_FindByID G,
     PolicyRepository_FindByName = policyRepository_FindByName G,
     PolicyRepository_FindActiveByTenant = policyRepository_FindActiveByTenant G,
     PolicyRepository_ListByTenant = policyRepository_ListByTenant G,
     PolicyRepository_Update = policyRepository_Update G,
     PolicyRepository_Delete = policyRepository_Delete G\<rparr>"

section \<open>Facts\<close>

text \<open>What a policy row becomes under \<open>Update\<close>: a zero field of the policy leaves the column alone.\<close>

lemma patch_toPolicyModel_inactive:
  "\<not> pol_IsActive p \<Longrightarrow> pom_IsActive (patch_policy (toPolicyModel p) r) = pom_IsActive r"
  by (simp add: patch_policy_def toPolicyModel_def)

definition db_acls :: "db \<Rightarrow> ACLPermission set" where
  "db_acls d = fromACLModel ` set (t_acl_permissions d)"

lemma aclRepository_CheckPermission_hit:
  assumes "database G"
    and "aclRepository_CheckPermission G t st sid rt rid p d = Inr acl"
  shows "acl \<in> db_acls d \<and> acl_TenantID acl = t \<and> acl_SubjectType acl = st \<and> acl_SubjectID acl = sid \<and>
         acl_ResourceType acl = rt \<and> acl_ResourceID acl = rid \<and> acl_Permission acl = p"
  using assms(2)
  by (auto simp: aclRepository_CheckPermission_def db_acls_def fromACLModel_def split: sum.splits
           dest!: gorm_table.First_hit [OF database.acl_table [OF assms(1)]])

lemma aclRepository_CheckPermission_miss:
  assumes "database G"
    and "aclRepository_CheckPermission G t st sid rt rid p d = Inl (AcErr ErrACLNotFound)"
    and "acl \<in> db_acls d"
  shows "\<not> (acl_TenantID acl = t \<and> acl_SubjectType acl = st \<and> acl_SubjectID acl = sid \<and>
         acl_ResourceType acl = rt \<and> acl_ResourceID acl = rid \<and> acl_Permission acl = p)"
  using assms(2,3)
  by (auto simp: aclRepository_CheckPermission_def db_acls_def fromACLModel_def split: sum.splits if_splits
           dest: gorm_table.First_miss [OF database.acl_table [OF assms(1)]])

lemma policyRepository_FindActive_set:
  assumes "database G" and "policyRepository_FindActiveByTenant G t d = Inr ps"
  shows "set ps = fromPolicyModel ` {m \<in> set (t_policies d). pom_TenantID m = t \<and> pom_IsActive m}"
  using assms(2)
  by (auto simp: policyRepository_FindActiveByTenant_def split: sum.splits
           dest!: gorm_table.Find_set [OF database.policy_table [OF assms(1)]])

end
