(* ===== verification/AuthzProps.thy ===== *)
theory AuthzProps
  imports Authorization IdentityProps RepoAccess
begin

text \<open>
  The decision service as main.go wires it: the repositories over the database, the cache in Redis.
  The world is the pair of the database and the state of Redis; the lifts say that a repository
  touches the first component only and the client the second. Then the properties of decisions.
\<close>

section \<open>The wired service\<close>

definition on_db :: "('d \<Rightarrow> 'r \<times> 'd) \<Rightarrow> 'd \<times> 'c \<Rightarrow> 'r \<times> 'd \<times> 'c" where
  "on_db f w = (case f (fst w) of (r, d) \<Rightarrow> (r, d, snd w))"

definition on_redis :: "('c \<Rightarrow> 'r \<times> 'c) \<Rightarrow> 'd \<times> 'c \<Rightarrow> 'r \<times> 'd \<times> 'c" where
  "on_redis f w = (case f (snd w) of (r, c) \<Rightarrow> (r, fst w, c))"

definition lift_acl :: "'d ACLRepository \<Rightarrow> ('d \<times> 'c) ACLRepository" where
  "lift_acl R = \<lparr>
     ACLRepository_Create = (\<lambda>a. on_db (ACLRepository_Create R a)),
     ACLRepository_FindByID = (\<lambda>i w. ACLRepository_FindByID R i (fst w)),
     ACLRepository_FindBySubject = (\<lambda>t a b w. ACLRepository_FindBySubject R t a b (fst w)),
     ACLRepository_FindByResource = (\<lambda>t a b w. ACLRepository_FindByResource R t a b (fst w)),
     ACLRepository_CheckPermission = (\<lambda>t a b x y p w. ACLRepository_CheckPermission R t a b x y p (fst w)),
     ACLRepository_Delete = (\<lambda>i. on_db (ACLRepository_Delete R i)),
     ACLRepository_DeleteBySubjectAndResource =
       (\<lambda>t a b x y. on_db (ACLRepository_DeleteBySubjectAndResource R t a b x y))\<rparr>"

definition lift_policies :: "'d PolicyRepository \<Rightarrow> ('d \<times> 'c) PolicyRepository" where
  "lift_policies R = \<lparr>
     PolicyRepository_Create = (\<lambda>p. on_db (PolicyRepository_Create R p)),
     PolicyRepository_FindByID = (\<lambda>i w. PolicyRepository_FindByID R i (fst w)),
     PolicyRepository_FindByName = (\<lambda>t n w. PolicyRepository_FindByName R t n (fst w)),
     PolicyRepository_FindActiveByTenant = (\<lambda>t w. PolicyRepository_FindActiveByTenant R t (fst w)),
     PolicyRepository_ListByTenant = (\<lambda>t w. PolicyRepository_ListByTenant R t (fst w)),
     PolicyRepository_Update = (\<lambda>p. on_db (PolicyRepository_Update R p)),
     PolicyRepository_Delete = (\<lambda>i. on_db (PolicyRepository_Delete R i))\<rparr>"

definition lift_memberships :: "'d MembershipRepository \<Rightarrow> ('d \<times> 'c) MembershipRepository" where
  "lift_memberships R = \<lparr>
     MembershipRepository_Create = (\<lambda>m. on_db (MembershipRepository_Create R m)),
     MembershipRepository_FindByUserAndTenant = (\<lambda>u t w. MembershipRepository_FindByUserAndTenant R u t (fst w)),
     MembershipRepository_ListByUser = (\<lambda>u w. MembershipRepository_ListByUser R u (fst w)),
     MembershipRepository_UpdateRoles = (\<lambda>u t rs. on_db (MembershipRepository_UpdateRoles R u t rs)),
     MembershipRepository_Delete = (\<lambda>u t. on_db (MembershipRepository_Delete R u t))\<rparr>"

definition lift_team_memberships :: "'d TeamMembershipRepository \<Rightarrow> ('d \<times> 'c) TeamMembershipRepository" where
  "lift_team_memberships R = \<lparr>
     TeamMembershipRepository_Create = (\<lambda>m. on_db (TeamMembershipRepository_Create R m)),
     TeamMembershipRepository_FindByUserAndTeam = (\<lambda>u t w. TeamMembershipRepository_FindByUserAndTeam R u t (fst w)),
     TeamMembershipRepository_ListByUser = (\<lambda>u w. TeamMembershipRepository_ListByUser R u (fst w)),
     TeamMembershipRepository_ListByTeam = (\<lambda>t w. TeamMembershipRepository_ListByTeam R t (fst w)),
     TeamMembershipRepository_UpdateRoles = (\<lambda>u t rs. on_db (TeamMembershipRepository_UpdateRoles R u t rs)),
     TeamMembershipRepository_Delete = (\<lambda>u t. on_db (TeamMembershipRepository_Delete R u t))\<rparr>"

definition lift_teams :: "'d TeamRepository \<Rightarrow> ('d \<times> 'c) TeamRepository" where
  "lift_teams R = \<lparr>
     TeamRepository_Create = (\<lambda>t. on_db (TeamRepository_Create R t)),
     TeamRepository_FindByID = (\<lambda>i w. TeamRepository_FindByID R i (fst w)),
     TeamRepository_FindBySlug = (\<lambda>t s w. TeamRepository_FindBySlug R t s (fst w)),
     TeamRepository_ListByTenant = (\<lambda>t w. TeamRepository_ListByTenant R t (fst w)),
     TeamRepository_Update = (\<lambda>t. on_db (TeamRepository_Update R t)),
     TeamRepository_Delete = (\<lambda>i. on_db (TeamRepository_Delete R i))\<rparr>"

definition lift_redis :: "'c redis_client \<Rightarrow> ('d \<times> 'c) redis_client" where
  "lift_redis R = \<lparr>
     redis_Get = (\<lambda>k w. redis_Get R k (snd w)),
     redis_Set = (\<lambda>k v ttl. on_redis (redis_Set R k v ttl)),
     redis_Keys = (\<lambda>p w. redis_Keys R p (snd w)),
     redis_Del = (\<lambda>ks. on_redis (redis_Del R ks))\<rparr>"

text \<open>The cache is absent when its URL does not parse.\<close>

definition main_authz :: "gorms \<Rightarrow> 'q rego_lib \<Rightarrow> ('c redis_client \<times> duration) option \<Rightarrow>
    (db \<times> 'c, 'q) AuthorizationService" where
  "main_authz G rego cache = \<lparr>
     az_acl = lift_acl (NewACLRepository G), az_abac = rego,
     az_policies = lift_policies (NewPolicyRepository G),
     az_cache = map_option (\<lambda>(c, ttl). \<lparr>cache_client = lift_redis c, cache_ttl = ttl\<rparr>) cache,
     az_membership = lift_memberships (NewMembershipRepository G),
     az_teamMemberships = lift_team_memberships (NewTeamMembershipRepository G),
     az_teams = lift_teams (NewTeamRepository G)\<rparr>"

lemmas lift_defs = lift_acl_def lift_policies_def lift_memberships_def lift_team_memberships_def
  lift_teams_def lift_redis_def

lemma main_authz_reads [simp]:
  "ACLRepository_CheckPermission (az_acl (main_authz G rego cache)) t st sid rt rid p w =
     aclRepository_CheckPermission G t st sid rt rid p (fst w)"
  "PolicyRepository_FindActiveByTenant (az_policies (main_authz G rego cache)) t w =
     policyRepository_FindActiveByTenant G t (fst w)"
  "MembershipRepository_FindByUserAndTenant (az_membership (main_authz G rego cache)) u t w =
     membershipRepository_FindByUserAndTenant G u t (fst w)"
  "TeamMembershipRepository_ListByUser (az_teamMemberships (main_authz G rego cache)) u w =
     teamMembershipRepository_ListByUser G u (fst w)"
  "TeamRepository_FindByID (az_teams (main_authz G rego cache)) i w = teamRepository_FindByID G i (fst w)"
  "az_abac (main_authz G rego cache) = rego"
  by (simp_all add: main_authz_def lift_defs identity_repositories NewACLRepository_def NewPolicyRepository_def)

lemma main_authz_team_roles [simp]:
  "team_roles (az_teams (main_authz G rego cache)) t w tms rs = team_roles (NewTeamRepository G) t (fst w) tms rs"
  by (induction tms arbitrary: rs) (simp_all split: sum.splits)

lemma main_authz_check_acl [simp]:
  "check_acl (main_authz G rego cache) req st sid w =
     aclRepository_CheckPermission G (req_TenantID req) st sid (req_ResourceType req) (req_ResourceID req)
       (actionToPermission (req_ResourceType req) (req_Action req)) (fst w)"
  by (simp add: check_acl_def ACLService_Check_def)

section \<open>The rules in order\<close>

fun first_some :: "'a option list \<Rightarrow> 'a \<Rightarrow> 'a" where
  "first_some [] dflt = dflt"
| "first_some (x # xs) dflt = (case x of None \<Rightarrow> first_some xs dflt | Some y \<Rightarrow> y)"

text \<open>The specification: the first of five rules that has an answer decides, else the request is denied.\<close>

definition authz_rules :: "('w, 'q) AuthorizationService \<Rightarrow> nat \<Rightarrow> AuthzRequest \<Rightarrow> string list \<Rightarrow> 'q prepared \<Rightarrow> 'w \<Rightarrow>
    AuthzResult option list" where
  "authz_rules s k req roles pq w = [
     if RBACService_Allow roles (actionToPermission (req_ResourceType req) (req_Action req))
     then Some \<lparr>az_Allowed = True, az_Reason = ''granted by role'', az_MatchedBy = ''rbac''\<rparr> else None,
     case check_acl s req ''user'' (req_UserID req) w of Inl _ \<Rightarrow> None | Inr acl \<Rightarrow> Some (acl_result ''user'' acl),
     case TeamMembershipRepository_ListByUser (az_teamMemberships s) (req_UserID req) w of
       Inl _ \<Rightarrow> None | Inr tms \<Rightarrow> team_acl_loop s req tms w,
     role_acl_loop s req roles w,
     fst (abac_step s k req roles pq w)]"

definition no_rule :: AuthzResult where
  "no_rule = \<lparr>az_Allowed = False, az_Reason = ''no matching rule'', az_MatchedBy = ''none''\<rparr>"

definition authz_decide :: "('w, 'q) AuthorizationService \<Rightarrow> nat \<Rightarrow> AuthzRequest \<Rightarrow> 'q prepared \<Rightarrow> 'w \<Rightarrow>
    err + AuthzResult" where
  "authz_decide s k req pq w =
     (case getEffectiveRoles s (req_UserID req) (req_TenantID req) w of
        Inl e \<Rightarrow> Inl e
      | Inr roles \<Rightarrow> Inr (first_some (authz_rules s k req roles pq w) no_rule))"

lemma Check_decide:
  assumes "cache_get s req w = None"
  shows "fst (AuthorizationService_Check s k req pq w) = authz_decide s k req pq w"
proof (cases "getEffectiveRoles s (req_UserID req) (req_TenantID req) w")
  case (Inl e)
  then show ?thesis using assms by (simp add: AuthorizationService_Check_def authz_decide_def)
next
  case (Inr roles)
  obtain ab pq' where ab: "abac_step s k req roles pq w = (ab, pq')" by fastforce
  show ?thesis using assms Inr ab
    by (auto simp: AuthorizationService_Check_def authz_decide_def authz_rules_def no_rule_def Let_def
        split: sum.splits option.splits)
qed

text \<open>What \<open>Check\<close> leaves in the world: the old one, or the decision written to the cache.\<close>

lemma Check_world:
  assumes "AuthorizationService_Check s k req pq w = (Inr res, pq', w')" and "cache_get s req w = None"
  shows "w' = cache_set s req res w"
proof -
  obtain roles where roles: "getEffectiveRoles s (req_UserID req) (req_TenantID req) w = Inr roles"
    using assms by (auto simp: AuthorizationService_Check_def split: sum.splits)
  obtain ab pqa where ab: "abac_step s k req roles pq w = (ab, pqa)" by fastforce
  show ?thesis using assms roles ab
    by (auto simp: AuthorizationService_Check_def Let_def split: sum.splits option.splits if_splits)
qed

section \<open>Where an answer comes from\<close>

lemma first_some_default: "first_some xs dflt = y \<Longrightarrow> y = dflt \<or> Some y \<in> set xs"
  by (induction xs) (auto split: option.splits)

lemma team_acl_loop_some:
  "team_acl_loop s req tms w = Some r \<Longrightarrow>
   \<exists>tm\<in>set tms. \<exists>team acl. TeamRepository_FindByID (az_teams s) (tm_TeamID tm) w = Inr team \<and>
     team_TenantID team = req_TenantID req \<and> check_acl s req ''team'' (tm_TeamID tm) w = Inr acl \<and>
     r = acl_result ''team'' acl"
  by (induction tms) (auto split: sum.splits if_splits)

lemma role_acl_loop_some:
  "role_acl_loop s req roles w = Some r \<Longrightarrow>
   \<exists>role\<in>set roles. \<exists>acl. check_acl s req ''role'' role w = Inr acl \<and> r = acl_result ''role'' acl"
  by (induction roles) (auto split: sum.splits)

lemma evaluate_loop_results:
  "evaluate_loop lib pq input ids rs0 = Inr rs \<Longrightarrow> (i, b) \<in> set rs \<Longrightarrow>
   (i, b) \<in> set rs0 \<or> i \<in> set ids \<and> ABACService_Evaluate lib pq i input = Inr b"
proof (induction ids arbitrary: rs0)
  case Nil
  then show ?case by simp
next
  case (Cons j ids)
  then obtain v where v: "ABACService_Evaluate lib pq j input = Inr v"
      "evaluate_loop lib pq input ids (results_put j v rs0) = Inr rs"
    by (auto split: sum.splits)
  from Cons.IH [OF v(2) Cons.prems(2)] v(1) show ?case by (auto simp: results_put_def)
qed

lemma abac_step_some:
  assumes "abac_step s k req roles pq w = (Some r, pq')"
  shows "\<exists>ps p. PolicyRepository_FindActiveByTenant (az_policies s) (req_TenantID req) w = Inr ps \<and> p \<in> set ps \<and>
    pq' = prepare_loop (az_abac s) ps pq \<and> az_MatchedBy r = ''abac'' \<and>
    ABACService_Evaluate (az_abac s) pq' (pol_ID p) (abac_input req roles) = Inr (az_Allowed r)"
proof -
  obtain ps where ps: "PolicyService_ListActive (az_policies s) (req_TenantID req) w = Inr ps" "ps \<noteq> []"
    using assms by (auto simp: abac_step_def split: sum.splits if_splits)
  let ?pq = "prepare_loop (az_abac s) ps pq"
  obtain rs where rs: "ABACService_EvaluateAll (az_abac s) ?pq (map pol_ID ps) (abac_input req roles) = Inr rs"
    using assms ps
    by (cases "ABACService_EvaluateAll (az_abac s) ?pq (map pol_ID ps) (abac_input req roles)")
      (auto simp: abac_step_def Let_def)
  have ne: "rs \<noteq> []" using assms ps rs by (cases rs) (auto simp: abac_step_def Let_def)
  obtain i b where ib: "rs ! (k mod length rs) = (i, b)" by fastforce
  have "abac_step s k req roles pq w = (Some (abac_result i b), ?pq)"
  proof (cases rs)
    case Nil
    then show ?thesis using ne by simp
  next
    case (Cons x xs)
    then have "\<exists>y ys. rs = y # ys" by simp
    then show ?thesis unfolding abac_step_def Let_def ps(1) sum.case if_not_P [OF ps(2)] rs
      using ib by auto
  qed
  then have r: "pq' = ?pq" "az_MatchedBy r = ''abac''" "az_Allowed r = b"
    using assms by (simp_all add: abac_result_def split: if_splits)
  have "(i, b) \<in> set rs" using ib ne by (metis length_greater_0_conv mod_less_divisor nth_mem)
  then have "i \<in> set (map pol_ID ps) \<and> ABACService_Evaluate (az_abac s) ?pq i (abac_input req roles) = Inr b"
    using evaluate_loop_results rs by (fastforce simp: ABACService_EvaluateAll_def)
  then show ?thesis using ps r by (auto simp: PolicyService_ListActive_def)
qed

lemma acl_result_simps [simp]:
  "az_Allowed (acl_result level acl) \<longleftrightarrow> acl_Effect acl = ''allow''" "az_MatchedBy (acl_result level acl) = ''acl''"
  by (simp_all add: acl_result_def)

section \<open>Justified answers\<close>

text \<open>An ACL entry speaks for the request: same tenant, resource and permission.\<close>

definition acl_matches :: "AuthzRequest \<Rightarrow> ACLPermission \<Rightarrow> bool" where
  "acl_matches req acl \<longleftrightarrow> acl_TenantID acl = req_TenantID req \<and> acl_ResourceType acl = req_ResourceType req \<and>
     acl_ResourceID acl = req_ResourceID req \<and>
     acl_Permission acl = actionToPermission (req_ResourceType req) (req_Action req)"

text \<open>Its subject is the user, a team of the tenant the user is in, or a role the user has there.\<close>

definition acl_subject :: "db \<Rightarrow> AuthzRequest \<Rightarrow> ACLPermission \<Rightarrow> bool" where
  "acl_subject d req acl \<longleftrightarrow>
     acl_SubjectType acl = ''user'' \<and> acl_SubjectID acl = req_UserID req \<or>
     acl_SubjectType acl = ''team'' \<and> (\<exists>tm\<in>db_team_memberships d. \<exists>team\<in>db_teams d. tm_UserID tm = req_UserID req \<and>
        tm_TeamID tm = team_ID team \<and> team_TenantID team = req_TenantID req \<and> acl_SubjectID acl = team_ID team) \<or>
     acl_SubjectType acl = ''role'' \<and> role_in_tenant d (req_UserID req) (req_TenantID req) (acl_SubjectID acl)"

definition acl_decides :: "db \<Rightarrow> AuthzRequest \<Rightarrow> AuthzResult \<Rightarrow> bool" where
  "acl_decides d req r \<longleftrightarrow>
     (\<exists>acl\<in>db_acls d. acl_matches req acl \<and> acl_subject d req acl \<and> (az_Allowed r \<longleftrightarrow> acl_Effect acl = ''allow''))"

text \<open>
  A positive answer is justified by a role's permission, an allowing ACL entry, or an active policy
  that evaluates to true on the user's effective roles, in the table of prepared queries the
  decision works with.
\<close>

definition policy_allows :: "('w, 'q) AuthorizationService \<Rightarrow> 'q prepared \<Rightarrow> 'w \<Rightarrow> AuthzRequest \<Rightarrow> Policy \<Rightarrow> bool" where
  "policy_allows s pq w req p \<longleftrightarrow>
     (\<exists>ps roles. PolicyRepository_FindActiveByTenant (az_policies s) (req_TenantID req) w = Inr ps \<and>
        getEffectiveRoles s (req_UserID req) (req_TenantID req) w = Inr roles \<and>
        ABACService_Evaluate (az_abac s) (prepare_loop (az_abac s) ps pq) (pol_ID p) (abac_input req roles) = Inr True)"

definition justified :: "gorms \<Rightarrow> 'q rego_lib \<Rightarrow> ('c redis_client \<times> duration) option \<Rightarrow> 'q prepared \<Rightarrow> db \<times> 'c \<Rightarrow>
    AuthzRequest \<Rightarrow> AuthzResult \<Rightarrow> bool" where
  "justified G rego cache pq w req r \<longleftrightarrow>
     az_MatchedBy r = ''rbac'' \<and> (\<exists>role. role_in_tenant (fst w) (req_UserID req) (req_TenantID req) role \<and>
       actionToPermission (req_ResourceType req) (req_Action req) \<in> set (rolePermissions role)) \<or>
     az_MatchedBy r = ''acl'' \<and> acl_decides (fst w) req r \<or>
     az_MatchedBy r = ''abac'' \<and> (\<exists>m\<in>set (t_policies (fst w)). pom_TenantID m = req_TenantID req \<and> pom_IsActive m \<and>
       policy_allows (main_authz G rego cache) pq w req (fromPolicyModel m))"

context database
begin

lemma effective_roles_isolated:
  assumes "getEffectiveRoles (main_authz G rego cache) u t w = Inr roles" and "r \<in> set roles"
  shows "role_in_tenant (fst w) u t r"
proof -
  obtain m where m: "membershipRepository_FindByUserAndTenant G u t (fst w) = Inr m"
    using assms(1) by (auto simp: getEffectiveRoles_def split: sum.splits)
  note hit = member.find_hit [OF m]
  show ?thesis
  proof (cases "teamMembershipRepository_ListByUser G u (fst w)")
    case (Inl e)
    then show ?thesis using assms m hit by (auto simp: getEffectiveRoles_def role_in_tenant_def)
  next
    case (Inr tms)
    then have roles: "roles = team_roles (NewTeamRepository G) t (fst w) tms (mem_Roles m)"
      using assms(1) m by (simp add: getEffectiveRoles_def)
    from assms(2) team_roles_mem consider "r \<in> set (mem_Roles m)"
      | tm team where "tm \<in> set tms" "teamRepository_FindByID G (tm_TeamID tm) (fst w) = Inr team"
          "team_TenantID team = t" "r \<in> set (tm_Roles tm)" unfolding roles by force
    then show ?thesis
    proof cases
      case 1
      then show ?thesis using hit by (auto simp: role_in_tenant_def)
    next
      case 2
      then show ?thesis using team_member.list_rows [OF Inr] team_FindByID_hit [OF database_axioms 2(2)]
        by (fastforce simp: role_in_tenant_def)
    qed
  qed
qed

lemma check_acl_hit:
  "check_acl (main_authz G rego cache) req st sid w = Inr acl \<Longrightarrow>
   acl \<in> db_acls (fst w) \<and> acl_matches req acl \<and> acl_SubjectType acl = st \<and> acl_SubjectID acl = sid"
  using aclRepository_CheckPermission_hit [OF database_axioms] by (auto simp: acl_matches_def)

lemma team_acl_decides:
  assumes "teamMembershipRepository_ListByUser G (req_UserID req) (fst w) = Inr tms"
    and "team_acl_loop (main_authz G rego cache) req tms w = Some r"
  shows "acl_decides (fst w) req r \<and> az_MatchedBy r = ''acl''"
proof -
  obtain tm team acl where *: "tm \<in> set tms" "teamRepository_FindByID G (tm_TeamID tm) (fst w) = Inr team"
      "team_TenantID team = req_TenantID req" "check_acl (main_authz G rego cache) req ''team'' (tm_TeamID tm) w = Inr acl"
      "r = acl_result ''team'' acl"
    using team_acl_loop_some [OF assms(2)] by auto
  note hit = check_acl_hit [OF *(4)] and team = team_FindByID_hit [OF database_axioms *(2)]
  have "tm \<in> db_team_memberships (fst w)" "tm_UserID tm = req_UserID req"
    using team_member.list_rows [OF assms(1)] *(1) by auto
  then have "acl_subject (fst w) req acl" using hit team *(3) unfolding acl_subject_def by metis
  then show ?thesis using hit *(5) by (auto simp: acl_decides_def)
qed

lemma role_acl_decides:
  assumes "getEffectiveRoles (main_authz G rego cache) (req_UserID req) (req_TenantID req) w = Inr roles"
    and "role_acl_loop (main_authz G rego cache) req roles w = Some r"
  shows "acl_decides (fst w) req r \<and> az_MatchedBy r = ''acl''"
proof -
  obtain role acl where *: "role \<in> set roles" "check_acl (main_authz G rego cache) req ''role'' role w = Inr acl"
      "r = acl_result ''role'' acl"
    using role_acl_loop_some [OF assms(2)] by auto
  note hit = check_acl_hit [OF *(2)]
  have "acl_subject (fst w) req acl"
    using hit effective_roles_isolated [OF assms(1) *(1)] unfolding acl_subject_def by metis
  then show ?thesis using hit *(3) by (auto simp: acl_decides_def)
qed

lemma user_acl_decides:
  assumes "check_acl (main_authz G rego cache) req ''user'' (req_UserID req) w = Inr acl"
  shows "acl_decides (fst w) req (acl_result ''user'' acl)"
proof -
  note hit = check_acl_hit [OF assms]
  have "acl_subject (fst w) req acl" using hit unfolding acl_subject_def by metis
  then show ?thesis using hit by (auto simp: acl_decides_def)
qed

text \<open>Whatever rule answered, a positive answer is justified.\<close>

lemma decide_justified:
  assumes dec: "authz_decide (main_authz G rego cache) k req pq w = Inr res" and allowed: "az_Allowed res"
  shows "justified G rego cache pq w req res"
proof -
  let ?s = "main_authz G rego cache"
  obtain roles where roles: "getEffectiveRoles ?s (req_UserID req) (req_TenantID req) w = Inr roles"
    and res: "first_some (authz_rules ?s k req roles pq w) no_rule = res"
    using dec by (auto simp: authz_decide_def split: sum.splits)
  have "res \<noteq> no_rule" using allowed by (auto simp: no_rule_def)
  then have "Some res \<in> set (authz_rules ?s k req roles pq w)" using first_some_default [OF res] by blast
  then consider (rbac) "RBACService_Allow roles (actionToPermission (req_ResourceType req) (req_Action req))"
      "az_MatchedBy res = ''rbac''"
    | (user) acl where "check_acl ?s req ''user'' (req_UserID req) w = Inr acl" "res = acl_result ''user'' acl"
    | (team) tms where "teamMembershipRepository_ListByUser G (req_UserID req) (fst w) = Inr tms"
        "team_acl_loop ?s req tms w = Some res"
    | (role) "role_acl_loop ?s req roles w = Some res"
    | (abac) "fst (abac_step ?s k req roles pq w) = Some res"
    unfolding authz_rules_def by (auto split: sum.splits if_splits)
  then show ?thesis
  proof cases
    case rbac
    then show ?thesis
      using effective_roles_isolated [OF roles] unfolding justified_def Allow_iff by blast
  next
    case user
    then show ?thesis using user_acl_decides unfolding justified_def by fastforce
  next
    case team
    then show ?thesis using team_acl_decides unfolding justified_def by blast
  next
    case role
    then show ?thesis using role_acl_decides [OF roles] unfolding justified_def by blast
  next
    case abac
    then obtain pq' where "abac_step ?s k req roles pq w = (Some res, pq')" by (metis prod.collapse)
    from abac_step_some [OF this] obtain ps p where
        p: "policyRepository_FindActiveByTenant G (req_TenantID req) (fst w) = Inr ps" "p \<in> set ps"
        "az_MatchedBy res = ''abac''" "pq' = prepare_loop rego ps pq"
        "ABACService_Evaluate rego pq' (pol_ID p) (abac_input req roles) = Inr (az_Allowed res)" by auto
    obtain row where row: "row \<in> set (t_policies (fst w))" "pom_TenantID row = req_TenantID req" "pom_IsActive row"
        "p = fromPolicyModel row"
      using policyRepository_FindActive_set [OF database_axioms p(1)] p(2) by auto
    have "policy_allows ?s pq w req p"
      using p allowed roles by (auto simp: policy_allows_def)
    then show ?thesis using p(3) row unfolding justified_def by blast
  qed
qed

end

section \<open>A concrete world\<close>

text \<open>
  The database of \<open>IdentityProps\<close> with an ACL entry that denies Ann \<open>self:read\<close>, one that allows her
  to read document \<open>d1\<close>, and an active policy; an engine whose query answers whether its source is
  the word \<open>allow\<close>.
\<close>

definition demo_acl :: "string \<Rightarrow> string \<Rightarrow> string \<Rightarrow> string \<Rightarrow> string \<Rightarrow> aclModel" where
  "demo_acl i rt rid p e = \<lparr>am_ID = i, am_TenantID = ''t1'', am_SubjectType = ''user'', am_SubjectID = ''u1'',
     am_ResourceType = rt, am_ResourceID = rid, am_Permission = p, am_Effect = e, am_CreatedAt = 0, am_UpdatedAt = 0\<rparr>"

definition authz_db :: db where
  "authz_db = demo_db\<lparr>
     t_acl_permissions := [demo_acl ''a1'' ''self'' ''x'' ''self:read'' ''deny'', demo_acl ''a2'' ''doc'' ''d1'' ''doc:read'' ''allow''],
     t_policies := [\<lparr>pom_ID = ''p1'', pom_TenantID = ''t1'', pom_Name = ''P'', pom_Description = [], pom_Rego = ''allow'',
       pom_Version = 1, pom_IsActive = True, pom_CreatedAt = 0, pom_UpdatedAt = 0\<rparr>]\<rparr>"

definition demo_rego :: "string rego_lib" where
  "demo_rego = \<lparr>rego_Prepare = Inr, rego_Eval = (\<lambda>q i. Inr [[ABool (q = ''allow'')]])\<rparr>"

definition demo_request :: "string \<Rightarrow> string \<Rightarrow> string \<Rightarrow> AuthzRequest" where
  "demo_request rt rid action = \<lparr>req_UserID = ''u1'', req_TenantID = ''t1'', req_ResourceType = rt,
     req_ResourceID = rid, req_Action = action, req_Context = None\<rparr>"

lemma demo_effective_roles:
  "getEffectiveRoles (main_authz mem_gorms rego cache) ''u1'' ''t1'' (authz_db, c) =
     Inr [''member'', ''editor'', ''reviewer'']"
  by (simp add: getEffectiveRoles_def authz_db_def demo_db_def repo_simps eval_mapper conv_simps)

lemma cache_get_None [simp]: "cache_get (main_authz G rego None) req w = None"
  by (simp add: cache_get_def main_authz_def)

lemma cache_set_None [simp]: "cache_set (main_authz G rego None) req r w = w"
  by (simp add: cache_set_def main_authz_def)

lemma Allow_Cons: "RBACService_Allow (r # rs) p \<longleftrightarrow> p \<in> set (rolePermissions r) \<or> RBACService_Allow rs p"
  by (simp add: Allow_iff)

lemma demo_no_rbac: "\<not> RBACService_Allow [''member'', ''editor'', ''reviewer''] ''doc:read''"
  "\<not> RBACService_Allow [''member'', ''editor'', ''reviewer''] ''doc:write''"
  by (simp_all add: Allow_Cons rolePermissions_def)

lemma demo_rbac: "RBACService_Allow [''member'', ''editor'', ''reviewer''] ''self:read''"
  by (simp add: Allow_Cons rolePermissions_def)

section \<open>Properties\<close>



text \<open>C3: No access without a grant. When a request that is not answered from the cache is allowed, the
  database holds the reason: a role of the user in that tenant with the permission, an allowing ACL
  entry of that tenant for the user, one of the user's teams or roles there, or an active policy of
  the tenant that evaluates to true.\<close>

theorem allowed_is_justified:
  assumes "database G" and "cache_get (main_authz G rego cache) req w = None"
    and "AuthorizationService_Check (main_authz G rego cache) k req pq w = (Inr res, pq1, w')"
    and "az_Allowed res"
  shows "justified G rego cache pq w req res"
proof -
  have "authz_decide (main_authz G rego cache) k req pq w = Inr res"
    using Check_decide [OF assms(2), of k pq] assms(3) by simp
  then show ?thesis using database.decide_justified [OF assms(1)] assms(4) by blast
qed

lemma demo_check_doc:
  "AuthorizationService_Check (main_authz mem_gorms demo_rego None) 0 (demo_request ''doc'' ''d1'' ''read'')
     Map.empty (authz_db, ()) = (Inr \<lparr>az_Allowed = True, az_Reason = ''granted by user ACL'', az_MatchedBy = ''acl''\<rparr>,
       Map.empty, (authz_db, ()))"
proof -
  have acl: "check_acl (main_authz mem_gorms demo_rego None) (demo_request ''doc'' ''d1'' ''read'') ''user'' ''u1'' (authz_db, ())
      = Inr (fromACLModel (demo_acl ''a2'' ''doc'' ''d1'' ''doc:read'' ''allow''))"
    by (simp add: demo_request_def actionToPermission_def aclRepository_CheckPermission_def authz_db_def demo_acl_def eval_mapper)
  have p: "actionToPermission (req_ResourceType (demo_request ''doc'' ''d1'' ''read''))
      (req_Action (demo_request ''doc'' ''d1'' ''read'')) = ''doc:read''"
    by (simp add: actionToPermission_def demo_request_def)
  have u: "req_UserID (demo_request ''doc'' ''d1'' ''read'') = ''u1''"
      "req_TenantID (demo_request ''doc'' ''d1'' ''read'') = ''t1''" by (simp_all add: demo_request_def)
  show ?thesis unfolding AuthorizationService_Check_def p u demo_effective_roles acl cache_get_None
    using demo_no_rbac by (simp add: Let_def acl_result_def fromACLModel_def demo_acl_def)
qed

theorem allowed_is_justified_witness:
  "justified mem_gorms demo_rego None Map.empty (authz_db, ()) (demo_request ''doc'' ''d1'' ''read'')
     \<lparr>az_Allowed = True, az_Reason = ''granted by user ACL'', az_MatchedBy = ''acl''\<rparr>"
  by (rule allowed_is_justified [OF mem_database cache_get_None demo_check_doc]) simp

end
