(* ===== verification/CacheProps.thy ===== *)
theory CacheProps
  imports AuthzProps
begin

text \<open>
  The decision cache and the policy engine's table: which decisions outlive the data they came
  from, which requests share a cache entry, what the invalidations remove, and what the
  policy operations store.
\<close>

section \<open>Cached decisions\<close>

lemma cache_get_reads_redis:
  "snd w' = snd w \<Longrightarrow> cache_get (main_authz G rego cache) req w' = cache_get (main_authz G rego cache) req w"
  by (simp add: cache_get_def main_authz_def AuthzCache_Get_def lift_redis_def split: option.splits)

lemma snd_on_db [simp]: "snd (snd (on_db f w)) = snd w"
  by (simp add: on_db_def split: prod.splits)


definition demo_cached :: "db \<times> (string \<times> string) list" where
  "demo_cached = (authz_db, [(cacheKey ''t1'' ''u1'' ''doc'' ''d1'' ''read'',
     authz_Marshal \<lparr>az_Allowed = True, az_Reason = ''granted by user ACL'', az_MatchedBy = ''acl''\<rparr>)])"

lemma demo_cached_get:
  "cache_get (main_authz mem_gorms demo_rego (Some (plain_redis, 0))) (demo_request ''doc'' ''d1'' ''read'') demo_cached =
     Some \<lparr>az_Allowed = True, az_Reason = ''granted by user ACL'', az_MatchedBy = ''acl''\<rparr>"
  by (simp add: cache_get_def main_authz_def AuthzCache_Get_def lift_redis_def plain_redis_def demo_cached_def
      demo_request_def authz_roundtrip)


text \<open>A repeated request. Where Redis keeps its promises, once a decision has been stored the same
  request is either decided afresh (the entry expired) or gets the same answer.\<close>

theorem repeated_check_agrees:
  assumes "redis_store R stored"
    and "AuthorizationService_Check (main_authz G rego (Some (R, ttl))) k req pq w = (Inr res, pq', w')"
    and "cache_get (main_authz G rego (Some (R, ttl))) req w = None"
    and "fst (redis_Set R (cacheKey (req_TenantID req) (req_UserID req) (req_ResourceType req) (req_ResourceID req)
           (req_Action req)) (authz_Marshal res) ttl (snd w)) = Inr ()"
  shows "cache_get (main_authz G rego (Some (R, ttl))) req w' = None \<or>
         AuthorizationService_Check (main_authz G rego (Some (R, ttl))) k' req pq' w' = (Inr res, pq', w')"
proof -
  let ?key = "cacheKey (req_TenantID req) (req_UserID req) (req_ResourceType req) (req_ResourceID req) (req_Action req)"
  obtain c where c: "redis_Set R ?key (authz_Marshal res) ttl (snd w) = (Inr (), c)"
    using assms(4) by (metis prod.collapse)
  have w': "w' = (fst w, c)"
    using Check_world [OF assms(2,3)] c
    by (simp add: cache_set_def main_authz_def AuthzCache_Set_def lift_redis_def on_redis_def)
  have st: "stored_val = authz_Marshal res" if "redis_Get R ?key c = Inr stored_val" for stored_val
    using redis_store.Get_stored [OF assms(1) that] redis_store.Set_stored [OF assms(1) c] by simp
  have "cache_get (main_authz G rego (Some (R, ttl))) req w' = None \<or>
      cache_get (main_authz G rego (Some (R, ttl))) req w' = Some res"
    using st unfolding w'
    by (auto simp: cache_get_def main_authz_def AuthzCache_Get_def lift_redis_def authz_roundtrip split: sum.splits)
  then show ?thesis by (auto simp: AuthorizationService_Check_def)
qed

lemma demo_miss:
  "cache_get (main_authz mem_gorms demo_rego (Some (plain_redis, 0))) req (authz_db, []) = None"
  by (simp add: cache_get_def main_authz_def AuthzCache_Get_def lift_redis_def plain_redis_def)

theorem repeated_check_agrees_witness:
  "\<exists>res pq' w'. AuthorizationService_Check (main_authz mem_gorms demo_rego (Some (plain_redis, 0))) 0
       (demo_request ''doc'' ''d1'' ''read'') Map.empty (authz_db, []) = (Inr res, pq', w') \<and>
     (cache_get (main_authz mem_gorms demo_rego (Some (plain_redis, 0))) (demo_request ''doc'' ''d1'' ''read'') w' = None \<or>
      AuthorizationService_Check (main_authz mem_gorms demo_rego (Some (plain_redis, 0))) 1
        (demo_request ''doc'' ''d1'' ''read'') pq' w' = (Inr res, pq', w'))"
proof -
  let ?s = "main_authz mem_gorms demo_rego (Some (plain_redis, 0))" and ?r = "demo_request ''doc'' ''d1'' ''read''"
  have "\<exists>res. fst (AuthorizationService_Check ?s 0 ?r Map.empty (authz_db, [])) = Inr res"
    unfolding Check_decide [OF demo_miss] authz_decide_def
    by (simp add: demo_effective_roles demo_request_def)
  then obtain res pq' w' where c: "AuthorizationService_Check ?s 0 ?r Map.empty (authz_db, []) = (Inr res, pq', w')"
    by (metis prod.collapse)
  have set: "fst (redis_Set plain_redis k v ttl c) = Inr ()" for k v ttl c by (simp add: plain_redis_def)
  show ?thesis using repeated_check_agrees [OF plain_redis.redis_store_axioms c demo_miss set] c by blast
qed

section \<open>Cache keys\<close>

lemma append_sep_eq:
  "c \<notin> set xs \<Longrightarrow> c \<notin> set ys \<Longrightarrow> xs @ c # r = ys @ c # s \<longleftrightarrow> xs = ys \<and> r = s"
proof (induction xs arbitrary: ys)
  case Nil
  then show ?case by (cases ys) auto
next
  case (Cons x xs)
  then show ?case by (cases ys) auto
qed

lemma cacheKey_eq:
  assumes "\<forall>x\<in>{t, u, rt, rid, t', u', rt', rid'}. CHR '':'' \<notin> set x"
  shows "cacheKey t u rt rid a = cacheKey t' u' rt' rid' a' \<longleftrightarrow> t = t' \<and> u = u' \<and> rt = rt' \<and> rid = rid' \<and> a = a'"
  using assms by (simp add: cacheKey_def append_sep_eq)

text \<open>Cache keys. Between requests whose tenant, user and resource have no colon in their names the
  key tells everything apart; but a colon moved from the resource type to the resource ID gives
  the same key, so the two requests share one cached decision.\<close>

theorem cache_key_sharing:
  assumes "\<forall>x\<in>{t, u, rt, rid, t', u', rt', rid'}. CHR '':'' \<notin> set x"
  shows "(cacheKey t u rt rid a = cacheKey t' u' rt' rid' a' \<longleftrightarrow>
            t = t' \<and> u = u' \<and> rt = rt' \<and> rid = rid' \<and> a = a') \<and>
         cache_get s (req\<lparr>req_ResourceType := x @ '':'' @ y, req_ResourceID := z\<rparr>) w =
           cache_get s (req\<lparr>req_ResourceType := x, req_ResourceID := y @ '':'' @ z\<rparr>) w"
  using cacheKey_eq [OF assms]
  by (simp add: cache_get_def AuthzCache_Get_def cacheKey_def split: option.splits)

theorem cache_key_sharing_witness:
  "cacheKey ''t'' ''u'' ''doc'' ''d1'' ''read'' \<noteq> cacheKey ''t'' ''u'' ''doc'' ''d2'' ''read'' \<and>
   cache_get (main_authz mem_gorms demo_rego (Some (plain_redis, 0))) ((demo_request ''doc'' ''d1'' ''read'')
       \<lparr>req_ResourceType := ''a:b'', req_ResourceID := ''c''\<rparr>) demo_cached =
     cache_get (main_authz mem_gorms demo_rego (Some (plain_redis, 0))) ((demo_request ''doc'' ''d1'' ''read'')
       \<lparr>req_ResourceType := ''a'', req_ResourceID := ''b:c''\<rparr>) demo_cached"
proof -
  have "\<forall>x\<in>{''t'', ''u'', ''doc'', ''d1'', ''t'', ''u'', ''doc'', ''d2''}. CHR '':'' \<notin> set x" by simp
  from cache_key_sharing [OF this, where a = "''read''" and a' = "''read''" and x = "''a''" and y = "''b''"
      and z = "''c''" and s = "main_authz mem_gorms demo_rego (Some (plain_redis, 0))" and w = demo_cached
      and req = "demo_request ''doc'' ''d1'' ''read''"]
  show ?thesis by simp
qed

section \<open>Invalidation\<close>

text \<open>Names that can stand in a key and in a pattern for themselves.\<close>

definition plain_name :: "string \<Rightarrow> bool" where
  "plain_name x \<longleftrightarrow> (\<forall>c\<in>set x. c \<noteq> CHR '':'' \<and> c \<noteq> CHR ''*'' \<and> c \<noteq> CHR ''?'' \<and> c \<noteq> CHR ''['' \<and> c \<noteq> CHR 0x5C)"

lemma plain_nameD: "plain_name x \<Longrightarrow> CHR '':'' \<notin> set x \<and> CHR ''*'' \<notin> set x \<and> plain_pattern x"
  by (auto simp: plain_name_def plain_pattern_def)

lemma plain_pattern_append [simp]: "plain_pattern (x @ y) \<longleftrightarrow> plain_pattern x \<and> plain_pattern y"
  by (auto simp: plain_pattern_def)

lemma prefix_pattern:
  assumes "CHR ''*'' \<notin> set p"
  shows "redis_match (p @ '':*'') k \<longleftrightarrow> strings_HasPrefix k (p @ '':'')"
proof -
  have "redis_match ((p @ '':'') @ ''*'') k \<longleftrightarrow> strings_HasPrefix k (p @ '':'')"
    using assms by (intro redis_match_prefix) auto
  then show ?thesis by simp
qed

lemma HasPrefix_append: "strings_HasPrefix k p \<longleftrightarrow> (\<exists>r. k = p @ r)"
  by (rule strings_HasPrefix_iff)

text \<open>Invalidation. \<open>Invalidate\<close> removes the decisions on a user and a resource for every action.
  \<open>InvalidateBySubject\<close>, whose pattern has the subject type where a key has the user's ID,
  leaves all decisions on a user in place.\<close>

theorem invalidation_scope:
  assumes "redis_store R stored" and "cache_client c = R" and "\<forall>x\<in>{t, u, rt, rid}. plain_name x"
  shows "(AuthzCache_Invalidate c t u rt rid w = (Inr (), w1) \<longrightarrow> stored w1 (cacheKey t u rt rid a) = None) \<and>
         (AuthzCache_InvalidateBySubject c t ''user'' u w = (Inr (), w2) \<longrightarrow> u \<noteq> ''user'' \<longrightarrow>
            stored w2 (cacheKey t u rt rid a) = stored w (cacheKey t u rt rid a))"
proof (intro conjI impI)
  note names = assms(3) [rule_format, THEN plain_nameD]
  let ?p = "''authz:'' @ t @ '':'' @ u @ '':'' @ rt @ '':'' @ rid"
  assume inv: "AuthzCache_Invalidate c t u rt rid w = (Inr (), w1)"
  have "stored w1 = (stored w) |` {k. \<not> redis_match (?p @ '':*'') k}"
    using inv names by (intro redis_store.invalidate_pattern_ok [OF assms(1,2)])
      (auto simp: AuthzCache_Invalidate_def plain_pattern_def)
  moreover have "redis_match (?p @ '':*'') (cacheKey t u rt rid a)"
    using names by (subst prefix_pattern) (auto simp: HasPrefix_append cacheKey_def)
  ultimately show "stored w1 (cacheKey t u rt rid a) = None" by simp
next
  note names = assms(3) [rule_format, THEN plain_nameD]
  let ?p = "''authz:'' @ t @ '':'' @ ''user'' @ '':'' @ u"
  assume inv: "AuthzCache_InvalidateBySubject c t ''user'' u w = (Inr (), w2)" and ne: "u \<noteq> ''user''"
  have "stored w2 = (stored w) |` {k. \<not> redis_match (?p @ '':*'') k}"
    using inv names by (intro redis_store.invalidate_pattern_ok [OF assms(1,2)])
      (auto simp: AuthzCache_InvalidateBySubject_def plain_pattern_def)
  moreover have "\<not> redis_match (?p @ '':*'') (cacheKey t u rt rid a)"
  proof
    assume "redis_match (?p @ '':*'') (cacheKey t u rt rid a)"
    then have "strings_HasPrefix (cacheKey t u rt rid a) (?p @ '':'')"
      using names by (subst (asm) prefix_pattern) auto
    then obtain r where "cacheKey t u rt rid a = ?p @ '':'' @ r" by (auto simp: HasPrefix_append)
    then have "t @ CHR '':'' # u @ CHR '':'' # rt @ CHR '':'' # rid @ CHR '':'' # a =
        t @ CHR '':'' # ''user'' @ CHR '':'' # u @ CHR '':'' # r" by (simp add: cacheKey_def)
    then have "u @ CHR '':'' # (rt @ CHR '':'' # rid @ CHR '':'' # a) = ''user'' @ CHR '':'' # (u @ CHR '':'' # r)"
      by simp
    then have "u = ''user''" using names by (subst (asm) append_sep_eq) auto
    then show False using ne by simp
  qed
  ultimately show "stored w2 (cacheKey t u rt rid a) = stored w (cacheKey t u rt rid a)" by simp
qed

theorem invalidation_scope_witness:
  "\<exists>w1 w2. AuthzCache_Invalidate \<lparr>cache_client = plain_redis, cache_ttl = 0\<rparr> ''t1'' ''u1'' ''doc'' ''d1''
       (snd demo_cached) = (Inr (), w1) \<and> map_of w1 (cacheKey ''t1'' ''u1'' ''doc'' ''d1'' ''read'') = None \<and>
     AuthzCache_InvalidateBySubject \<lparr>cache_client = plain_redis, cache_ttl = 0\<rparr> ''t1'' ''user'' ''u1''
       (snd demo_cached) = (Inr (), w2) \<and> map_of w2 (cacheKey ''t1'' ''u1'' ''doc'' ''d1'' ''read'') \<noteq> None"
proof -
  let ?c = "\<lparr>cache_client = plain_redis, cache_ttl = 0\<rparr>"
  have total: "\<exists>w'. invalidate_pattern ?c p w = (Inr (), w')" for p w
    by (simp add: invalidate_pattern_def plain_redis_def)
  obtain w1 where w1: "AuthzCache_Invalidate ?c ''t1'' ''u1'' ''doc'' ''d1'' (snd demo_cached) = (Inr (), w1)"
    using total unfolding AuthzCache_Invalidate_def by blast
  obtain w2 where w2: "AuthzCache_InvalidateBySubject ?c ''t1'' ''user'' ''u1'' (snd demo_cached) = (Inr (), w2)"
    using total unfolding AuthzCache_InvalidateBySubject_def by blast
  have names: "\<forall>x\<in>{''t1'', ''u1'', ''doc'', ''d1''}. plain_name x" by (simp add: plain_name_def)
  have "map_of (snd demo_cached) (cacheKey ''t1'' ''u1'' ''doc'' ''d1'' ''read'') \<noteq> None"
    by (simp add: demo_cached_def)
  then show ?thesis
    using invalidation_scope [OF plain_redis.redis_store_axioms _ names, of ?c "snd demo_cached" w1 "''read''" w2] w1 w2
    by auto
qed

section \<open>The table of prepared queries\<close>

lemma prepare_loop_keeps: "pq i = Some q \<Longrightarrow> prepare_loop lib ps pq i = Some q"
proof (induction ps arbitrary: pq)
  case Nil
  then show ?case by simp
next
  case (Cons p ps)
  then show ?case
    by (cases "pol_ID p = i") (auto simp: ABACService_PrepareQuery_def intro!: Cons.IH split: sum.splits)
qed

lemma prepare_loop_prepared: "\<forall>p\<in>set ps. pq (pol_ID p) \<noteq> None \<Longrightarrow> prepare_loop lib ps pq = pq"
  by (induction ps) auto

text \<open>A policy keeps its first text. Once the queries of a tenant's active policies are prepared, the
  policies' Rego texts have no influence on decisions: two services whose policy stores differ in the
  texts only decide alike (so an update of a policy takes effect at a restart only).\<close>

theorem policy_text_is_frozen:
  assumes "PolicyRepository_FindActiveByTenant (az_policies s) (req_TenantID req) w = Inr ps"
    and "PolicyRepository_FindActiveByTenant policies' (req_TenantID req) w = Inr ps'"
    and "map pol_ID ps' = map pol_ID ps" and "\<forall>p\<in>set ps. pq (pol_ID p) \<noteq> None"
  shows "abac_step (s\<lparr>az_policies := policies'\<rparr>) k req roles pq w = abac_step s k req roles pq w"
proof -
  have "pol_ID ` set ps' = pol_ID ` set ps" using assms(3) by (metis set_map)
  then have "\<forall>p\<in>set ps'. pq (pol_ID p) \<noteq> None" using assms(4) by (metis (no_types, lifting) imageE image_eqI)
  then have "prepare_loop lib ps' pq = pq" "prepare_loop lib ps pq = pq" for lib
    using assms(4) by (simp_all add: prepare_loop_prepared)
  moreover have "ps' = [] \<longleftrightarrow> ps = []" using assms(3) by (metis map_is_Nil_conv)
  ultimately show ?thesis using assms(1,2) by (simp add: abac_step_def PolicyService_ListActive_def assms(3))
qed

definition demo_policies :: "string \<Rightarrow> (db \<times> unit) PolicyRepository" where
  "demo_policies rego = (lift_policies (NewPolicyRepository mem_gorms))\<lparr>
     PolicyRepository_FindActiveByTenant := (\<lambda>t w. Inr [\<lparr>pol_ID = ''p1'', pol_TenantID = ''t1'', pol_Name = ''P'',
       pol_Description = [], pol_Rego = rego, pol_Version = 1, pol_IsActive = True, pol_CreatedAt = 0, pol_UpdatedAt = 0\<rparr>])\<rparr>"

theorem policy_text_is_frozen_witness:
  "fst (abac_step ((main_authz mem_gorms demo_rego None)\<lparr>az_policies := demo_policies ''deny''\<rparr>) 0
     (demo_request ''doc'' ''d1'' ''read'') [] [''p1'' \<mapsto> ''allow''] (authz_db, ())) =
   Some \<lparr>az_Allowed = True, az_Reason = ''granted by policy p1'', az_MatchedBy = ''abac''\<rparr>"
proof -
  let ?s = "(main_authz mem_gorms demo_rego None)\<lparr>az_policies := demo_policies ''allow''\<rparr>"
  have a: "PolicyRepository_FindActiveByTenant (az_policies ?s) t w = Inr [\<lparr>pol_ID = ''p1'', pol_TenantID = ''t1'', pol_Name = ''P'',
      pol_Description = [], pol_Rego = ''allow'', pol_Version = 1, pol_IsActive = True, pol_CreatedAt = 0, pol_UpdatedAt = 0\<rparr>]" for t w
    by (simp add: demo_policies_def)
  have b: "PolicyRepository_FindActiveByTenant (demo_policies ''deny'') t w = Inr [\<lparr>pol_ID = ''p1'', pol_TenantID = ''t1'', pol_Name = ''P'',
      pol_Description = [], pol_Rego = ''deny'', pol_Version = 1, pol_IsActive = True, pol_CreatedAt = 0, pol_UpdatedAt = 0\<rparr>]" for t w
    by (simp add: demo_policies_def)
  have "abac_step (?s\<lparr>az_policies := demo_policies ''deny''\<rparr>) 0 (demo_request ''doc'' ''d1'' ''read'') [] [''p1'' \<mapsto> ''allow''] (authz_db, ())
      = abac_step ?s 0 (demo_request ''doc'' ''d1'' ''read'') [] [''p1'' \<mapsto> ''allow''] (authz_db, ())"
    by (rule policy_text_is_frozen [OF a b]) simp_all
  moreover have "fst (abac_step ?s 0 (demo_request ''doc'' ''d1'' ''read'') [] [''p1'' \<mapsto> ''allow''] (authz_db, ())) =
      Some \<lparr>az_Allowed = True, az_Reason = ''granted by policy p1'', az_MatchedBy = ''abac''\<rparr>"
    by (simp add: abac_step_def PolicyService_ListActive_def a ABACService_EvaluateAll_def ABACService_Evaluate_def
        results_put_def demo_rego_def abac_result_def demo_policies_def)
  ultimately show ?thesis by simp
qed

section \<open>Policies in the database\<close>

context database
begin

lemma Updates_inactive:
  assumes "policyRepository_Update G p d = (r, d')" and "\<not> pol_IsActive p"
  shows "map pom_IsActive (t_policies d') = map pom_IsActive (t_policies d)"
proof -
  obtain x t' where u: "g_Updates (gorm_policies G) (\<lambda>m. pom_ID m = pol_ID p) (toPolicyModel p) (t_policies d) = (x, t')"
      "d' = d\<lparr>t_policies := t'\<rparr>"
    using assms(1) by (auto simp: policyRepository_Update_def split: prod.splits sum.splits)
  show ?thesis
  proof (cases x)
    case (Inl e)
    then show ?thesis using u policy.Updates_fail by fastforce
  next
    case (Inr n)
    have "list_all2 (\<lambda>m m'. pom_IsActive m' = pom_IsActive m) (t_policies d) t'"
      using conjunct2 [OF policy.Updates_rows [OF u(1) [unfolded Inr]]]
      by (rule list_all2_mono)
        (auto simp: kept_policy_def patch_toPolicyModel_inactive [OF assms(2)] split: if_splits)
    then have "map pom_IsActive t' = map pom_IsActive (t_policies d)"
      by (induction rule: list_all2_induct) auto
    then show ?thesis using u(2) by simp
  qed
qed

end

text \<open>Deactivation is not stored. \<open>Deactivate\<close> reports success and leaves every policy as active as
  it was, since the mapper's \<open>Updates\<close> skips the cleared flag.\<close>

theorem deactivate_not_stored:
  assumes "database G" and "PolicyService_Deactivate (NewPolicyRepository G) policyID d = (Inr (), d')"
  shows "map pom_IsActive (t_policies d') = map pom_IsActive (t_policies d)"
  using assms(2) database.Updates_inactive [OF assms(1)]
  by (fastforce simp: PolicyService_Deactivate_def NewPolicyRepository_def split: sum.splits)

theorem deactivate_not_stored_witness:
  "\<exists>d'. PolicyService_Deactivate (NewPolicyRepository mem_gorms) ''p1'' authz_db = (Inr (), d') \<and>
     map pom_IsActive (t_policies d') = [True]"
proof -
  obtain d' where d': "PolicyService_Deactivate (NewPolicyRepository mem_gorms) ''p1'' authz_db = (Inr (), d')"
    by (simp add: PolicyService_Deactivate_def NewPolicyRepository_def policyRepository_FindByID_def
        policyRepository_Update_def authz_db_def eval_mapper conv_simps)
  have "map pom_IsActive (t_policies authz_db) = [True]" by (simp add: authz_db_def)
  then show ?thesis using deactivate_not_stored [OF mem_database d'] d' by simp
qed

text \<open>The dry run is a check. \<open>DryRun\<close> gives the answer of \<open>Check\<close> and leaves what \<open>Check\<close> leaves:
  its answer is written to the cache, where it answers later requests.\<close>

theorem dry_run_writes_cache:
  assumes "AuthorizationService_DryRun s k req pq w = (Inr res, pq', w')"
    and "cache_get s req w = None" and "az_cache s = Some c"
  shows "w' = snd (AuthzCache_Set c (req_TenantID req) (req_UserID req) (req_ResourceType req)
           (req_ResourceID req) (req_Action req) res w)"
  using Check_world [of s k req pq w res pq' w'] assms
  by (simp add: AuthorizationService_DryRun_def cache_set_def)

theorem dry_run_writes_cache_witness:
  "\<exists>res pq' w'. AuthorizationService_DryRun (main_authz mem_gorms demo_rego (Some (plain_redis, 0))) 0
       (demo_request ''doc'' ''d1'' ''read'') Map.empty (authz_db, []) = (Inr res, pq', w') \<and> snd w' \<noteq> []"
proof -
  let ?s = "main_authz mem_gorms demo_rego (Some (plain_redis, 0))" and ?r = "demo_request ''doc'' ''d1'' ''read''"
  have "\<exists>res. fst (AuthorizationService_Check ?s 0 ?r Map.empty (authz_db, [])) = Inr res"
    unfolding Check_decide [OF demo_miss] authz_decide_def
    by (simp add: demo_effective_roles demo_request_def)
  then obtain res pq' w' where c: "AuthorizationService_DryRun ?s 0 ?r Map.empty (authz_db, []) = (Inr res, pq', w')"
    unfolding AuthorizationService_DryRun_def by (metis prod.collapse)
  have "az_cache ?s = Some \<lparr>cache_client = lift_redis plain_redis, cache_ttl = 0\<rparr>" by (simp add: main_authz_def)
  from dry_run_writes_cache [OF c demo_miss this]
  have "snd w' \<noteq> []" by (simp add: AuthzCache_Set_def lift_redis_def on_redis_def plain_redis_def)
  then show ?thesis using c by blast
qed

end
