(* ===== verification/Http.thy ===== *)
theory Http
  imports Rbac
begin

text \<open>
  What the handlers of package \<open>api\<close> share. gin's decoding of a request is not under src/: a handler
  takes the result of its \<open>ShouldBind\<close> call (\<open>Requests\<close> says what the tags admit), the path and query values and the client's IP as
  arguments. Its answer is a \<open>response\<close>: \<open>Fail\<close> for \<open>writeError\<close> with status and error code (the
  message, English text, is left out), \<open>Reply\<close> for \<open>c.JSON\<close>, \<open>Status\<close> for \<open>c.Status\<close>,
  \<open>Redirect\<close> for \<open>c.Redirect\<close>.
\<close>

datatype 'a response = Fail int string | Reply int 'a | Status int | Redirect int string

definition writeError :: "int \<Rightarrow> string \<Rightarrow> 'a response" where
  "writeError status code = Fail status code"

text \<open>The identity a route's middleware has put into the context; a key nobody set reads as the empty text.\<close>

definition ctx_GetUserID :: "request_identity option \<Rightarrow> string" where
  "ctx_GetUserID ctx = (case ctx of None \<Rightarrow> [] | Some i \<Rightarrow> ctx_userID i)"

definition ctx_GetTenantID :: "request_identity option \<Rightarrow> string" where
  "ctx_GetTenantID ctx = (case ctx of None \<Rightarrow> [] | Some i \<Rightarrow> ctx_tenantID i)"

end
