(* ===== verification/RateLimit.thy ===== *)
theory RateLimit
  imports Rbac
begin

text \<open>
  middleware/rate_limit.go: the sliding-window limiter in front of tenant signup. The map from keys
  to the times of the granted requests is a partial function; the clock is read inside the lock,
  so the readings of successive calls do not decrease (\<open>time.Now\<close> is monotonic).
\<close>

record TenantSignupRateLimiter =
  rl_requests :: "string \<rightharpoonup> time list"
  rl_window :: duration
  rl_limit :: int

definition NewTenantSignupRateLimiter :: "int \<Rightarrow> duration \<Rightarrow> TenantSignupRateLimiter" where
  "NewTenantSignupRateLimiter limit window = \<lparr>rl_requests = Map.empty, rl_window = window, rl_limit = limit\<rparr>"

text \<open>A key that is not in the map has no requests.\<close>

definition requests_of :: "TenantSignupRateLimiter \<Rightarrow> string \<Rightarrow> time list" where
  "requests_of rl key = (case rl_requests rl key of None \<Rightarrow> [] | Some ts \<Rightarrow> ts)"

definition TenantSignupRateLimiter_allow ::
    "TenantSignupRateLimiter \<Rightarrow> time \<Rightarrow> string \<Rightarrow> bool \<times> TenantSignupRateLimiter" where
  "TenantSignupRateLimiter_allow rl now key =
     (let cutoff = now - rl_window rl;
          valid = filter (\<lambda>t. time_After t cutoff) (requests_of rl key)
      in if int (length valid) \<ge> rl_limit rl
         then (False, rl\<lparr>rl_requests := (rl_requests rl)(key \<mapsto> valid)\<rparr>)
         else (True, rl\<lparr>rl_requests := (rl_requests rl)(key \<mapsto> valid @ [now])\<rparr>))"

text \<open>The first position of the seven bytes \<open>"email"\<close>, quotes included; -1 if there is none.\<close>

fun find_email_from :: "int \<Rightarrow> string \<Rightarrow> int" where
  "find_email_from i [] = -1"
| "find_email_from i (c # cs) =
     (if 6 < length (c # cs) \<and> c = CHR 0x22 \<and> take 7 (c # cs) = [CHR 0x22] @ ''email'' @ [CHR 0x22] then i
      else find_email_from (i + 1) cs)"

definition findEmailInJSON :: "string \<Rightarrow> int" where
  "findEmailInJSON data = find_email_from 0 data"

definition email_bucket :: string where "email_bucket = ''tenant_signup:email:extracted''"

definition ip_bucket :: "string \<Rightarrow> string" where "ip_bucket ip = ''tenant_signup:ip:'' @ ip"

text \<open>
  The middleware: an abort, or the body the handler can still read (\<open>Some\<close> when it was put back).
  The clock is read once for each bucket that is asked.
\<close>

definition TenantSignupRateLimiter_Middleware :: "TenantSignupRateLimiter \<Rightarrow> time \<times> time \<Rightarrow> string \<Rightarrow>
    err + string \<Rightarrow> (http_abort + string option) \<times> TenantSignupRateLimiter" where
  "TenantSignupRateLimiter_Middleware rl clock ip body =
     (case TenantSignupRateLimiter_allow rl (fst clock) (ip_bucket ip) of
        (False, rl1) \<Rightarrow> (Inl (Abort 429 ''rate_limited''), rl1)
      | (True, rl1) \<Rightarrow>
          (case body of
             Inl e \<Rightarrow> (Inr None, rl1)
           | Inr b \<Rightarrow>
               (if b = [] then (Inr None, rl1)
                else if hd b = CHR ''{'' \<and> findEmailInJSON b \<ge> 0
                then (case TenantSignupRateLimiter_allow rl1 (snd clock) email_bucket of
                        (False, rl2) \<Rightarrow> (Inl (Abort 429 ''rate_limited''), rl2)
                      | (True, rl2) \<Rightarrow> (Inr (Some b), rl2))
                else (Inr (Some b), rl1))))"

section \<open>Runs of the limiter\<close>

text \<open>
  \<open>limiter_run rl0 log clk rl\<close>: calls of \<open>allow\<close> at non-decreasing times lead from the fresh limiter
  \<open>rl0\<close> to \<open>rl\<close>; \<open>log\<close> lists the granted requests, \<open>clk\<close> is the time of the last call.
\<close>

inductive limiter_run :: "TenantSignupRateLimiter \<Rightarrow> (string \<times> time) list \<Rightarrow> time \<Rightarrow> TenantSignupRateLimiter \<Rightarrow> bool"
  for rl0 where
  run_start: "limiter_run rl0 [] clk rl0"
| run_grant: "limiter_run rl0 log clk rl \<Longrightarrow> clk \<le> now \<Longrightarrow> TenantSignupRateLimiter_allow rl now key = (True, rl') \<Longrightarrow>
    limiter_run rl0 (log @ [(key, now)]) now rl'"
| run_refuse: "limiter_run rl0 log clk rl \<Longrightarrow> clk \<le> now \<Longrightarrow> TenantSignupRateLimiter_allow rl now key = (False, rl') \<Longrightarrow>
    limiter_run rl0 log now rl'"

text \<open>The times at which a key was granted, after an instant and up to another.\<close>

definition granted :: "(string \<times> time) list \<Rightarrow> string \<Rightarrow> time list" where
  "granted log key = map snd (filter (\<lambda>e. fst e = key) log)"

definition grants_in :: "(string \<times> time) list \<Rightarrow> string \<Rightarrow> time \<Rightarrow> time \<Rightarrow> nat" where
  "grants_in log key lo hi = length (filter (\<lambda>t. lo < t \<and> t \<le> hi) (granted log key))"

lemma granted_simps [simp]:
  "granted [] key = []"
  "granted (log @ [(k, t)]) key = granted log key @ (if k = key then [t] else [])"
  by (simp_all add: granted_def)

lemma allow_params:
  "TenantSignupRateLimiter_allow rl now key = (b, rl') \<Longrightarrow> rl_window rl' = rl_window rl \<and> rl_limit rl' = rl_limit rl"
  by (auto simp: TenantSignupRateLimiter_allow_def Let_def split: if_splits)

lemma requests_of_upd [simp]:
  "requests_of (rl\<lparr>rl_requests := (rl_requests rl)(key \<mapsto> ts)\<rparr>) k = (if k = key then ts else requests_of rl k)"
  by (simp add: requests_of_def)

text \<open>
  The invariant: the limiter remembers exactly the grants that can still count, that is those later
  than any cutoff the next call can have.
\<close>

definition remembers :: "TenantSignupRateLimiter \<Rightarrow> (string \<times> time) list \<Rightarrow> time \<Rightarrow> bool" where
  "remembers rl log clk \<longleftrightarrow>
     (\<forall>key since. clk - rl_window rl \<le> since \<longrightarrow>
        filter (\<lambda>t. since < t) (requests_of rl key) = filter (\<lambda>t. since < t) (granted log key)) \<and>
     (\<forall>key. \<forall>t\<in>set (granted log key). t \<le> clk)"

lemma filter_later: "c \<le> c' \<Longrightarrow> filter (\<lambda>t. c' < t) (filter (\<lambda>t. c < (t::int)) ts) = filter (\<lambda>t. c' < t) ts"
  by (induction ts) auto

lemma remembers_requests:
  "remembers rl log clk \<Longrightarrow> clk - rl_window rl \<le> since \<Longrightarrow>
   filter (\<lambda>t. since < t) (requests_of rl key) = filter (\<lambda>t. since < t) (granted log key)"
  by (simp add: remembers_def)

lemma remembers_past: "remembers rl log clk \<Longrightarrow> t \<in> set (granted log key) \<Longrightarrow> t \<le> clk"
  by (auto simp: remembers_def)

lemma remembers_allow:
  assumes r: "remembers rl log clk" and le: "clk \<le> now"
    and a: "TenantSignupRateLimiter_allow rl now key = (b, rl')"
  shows "remembers rl' (if b then log @ [(key, now)] else log) now"
proof -
  let ?log' = "if b then log @ [(key, now)] else log"
  let ?valid = "filter (\<lambda>t. now - rl_window rl < t) (requests_of rl key)"
  have rl': "requests_of rl' k = (if k = key then ?valid @ (if b then [now] else []) else requests_of rl k)"
    "rl_window rl' = rl_window rl" for k
    using a by (auto simp: TenantSignupRateLimiter_allow_def Let_def time_After_def split: if_splits)
  have "filter (\<lambda>t. since < t) (requests_of rl' k) = filter (\<lambda>t. since < t) (granted ?log' k)"
    if "now - rl_window rl \<le> since" for k since
    using remembers_requests [OF r, of since k] filter_later [OF that, of "requests_of rl key"] that le
    by (auto simp: rl'(1))
  moreover have "t \<le> now" if "t \<in> set (granted ?log' k)" for k t
    using remembers_past [OF r, of t k] that le by (auto split: if_splits)
  ultimately show ?thesis by (simp add: remembers_def rl'(2))
qed

lemma limiter_run_inv:
  "limiter_run rl0 log clk rl \<Longrightarrow> (\<And>key. requests_of rl0 key = []) \<Longrightarrow>
   remembers rl log clk \<and> rl_window rl = rl_window rl0 \<and> rl_limit rl = rl_limit rl0"
proof (induction rule: limiter_run.induct)
  case (run_start clk)
  then show ?case by (simp add: remembers_def)
next
  case (run_grant log clk rl now key rl')
  then show ?case using remembers_allow [of rl log clk now key True rl'] allow_params [of rl now key True rl'] by simp
next
  case (run_refuse log clk rl now key rl')
  then show ?case using remembers_allow [of rl log clk now key False rl'] allow_params [of rl now key False rl'] by simp
qed

text \<open>Whether a call grants is decided by the log.\<close>

lemma allow_by_log:
  assumes "remembers rl log clk" and "clk \<le> now"
  shows "fst (TenantSignupRateLimiter_allow rl now key) \<longleftrightarrow>
           int (grants_in log key (now - rl_window rl) now) < rl_limit rl"
proof -
  have "filter (\<lambda>t. now - rl_window rl < t \<and> t \<le> now) (granted log key) = filter (\<lambda>t. now - rl_window rl < t) (granted log key)"
    using assms(2) remembers_past [OF assms(1), of _ key] by (intro filter_cong) (auto dest: order_trans)
  also have "\<dots> = filter (\<lambda>t. now - rl_window rl < t) (requests_of rl key)"
    using remembers_requests [OF assms(1), of "now - rl_window rl" key] assms(2) by simp
  finally show ?thesis
    by (auto simp: TenantSignupRateLimiter_allow_def Let_def grants_in_def time_After_def)
qed

lemma fresh_limiter [simp]: "requests_of (NewTenantSignupRateLimiter limit window) key = []"
  by (simp add: requests_of_def NewTenantSignupRateLimiter_def)

lemma fresh_params [simp]:
  "rl_window (NewTenantSignupRateLimiter limit window) = window"
  "rl_limit (NewTenantSignupRateLimiter limit window) = limit"
  by (simp_all add: NewTenantSignupRateLimiter_def)

lemmas fresh_run_inv = limiter_run_inv [of "NewTenantSignupRateLimiter limit window" for limit window, simplified]

text \<open>What \<open>findEmailInJSON\<close> looks for.\<close>

definition quoted_email :: string where "quoted_email = [CHR 0x22] @ ''email'' @ [CHR 0x22]"

lemma length_quoted_email [simp]: "length quoted_email = 7"
  by (simp add: quoted_email_def)

lemma find_email_from_Cons:
  "find_email_from i (c # cs) = (if take 7 (c # cs) = quoted_email then i else find_email_from (i + 1) cs)"
proof -
  have "6 < length (c # cs) \<and> c = CHR 0x22" if "take 7 (c # cs) = quoted_email"
    using arg_cong [OF that, of length] arg_cong [OF that, of hd] by (simp add: quoted_email_def)
  then show ?thesis by (auto simp: quoted_email_def simp del: take_Suc_Cons)
qed

declare find_email_from.simps(2) [simp del]

lemma find_email_from_iff:
  "0 \<le> i \<Longrightarrow> 0 \<le> find_email_from i s \<longleftrightarrow> (\<exists>a b. s = a @ quoted_email @ b)"
proof (induction s arbitrary: i)
  case Nil
  then show ?case by (simp add: quoted_email_def)
next
  case (Cons c cs)
  show ?case
  proof (cases "take 7 (c # cs) = quoted_email")
    case True
    then have "c # cs = [] @ quoted_email @ drop 7 (c # cs)"
      using append_take_drop_id [of 7 "c # cs"] by simp
    moreover have "find_email_from i (c # cs) = i"
      using True by (simp add: find_email_from_Cons del: take_Suc_Cons)
    ultimately show ?thesis using Cons.prems by metis
  next
    case False
    have "a \<noteq> []" if "c # cs = a @ quoted_email @ b" for a b
      using False that by (metis append_Nil append_eq_conv_conj length_quoted_email)
    then have "(\<exists>a b. c # cs = a @ quoted_email @ b) \<longleftrightarrow> (\<exists>a b. cs = a @ quoted_email @ b)"
      by (metis append_Cons list.sel(3) neq_Nil_conv)
    then show ?thesis using False Cons.IH [of "i + 1"] Cons.prems
      by (simp add: find_email_from_Cons del: take_Suc_Cons)
  qed
qed

lemma findEmailInJSON_iff: "0 \<le> findEmailInJSON s \<longleftrightarrow> (\<exists>a b. s = a @ quoted_email @ b)"
  by (simp add: findEmailInJSON_def find_email_from_iff)

lemma grants_in_snoc:
  "grants_in (log @ [(k, now)]) key lo hi =
     grants_in log key lo hi + (if k = key \<and> lo < now \<and> now \<le> hi then 1 else 0)"
  by (simp add: grants_in_def)

text \<open>A later window with no further grants in it holds no more of the past.\<close>

lemma grants_in_mono:
  assumes "lo \<le> lo'" and "\<And>t. t \<in> set (granted log key) \<Longrightarrow> t \<le> hi"
  shows "grants_in log key lo' hi' \<le> grants_in log key lo hi"
proof -
  have "length (filter (\<lambda>t. lo' < t \<and> t \<le> hi') ts) \<le> length (filter (\<lambda>t. lo < t \<and> t \<le> hi) ts)"
    if "\<And>t. t \<in> set ts \<Longrightarrow> t \<le> hi" for ts
    using that assms(1) by (induction ts) auto
  then show ?thesis using assms(2) by (simp add: grants_in_def)
qed

lemma window_bound:
  "limiter_run rl0 log clk rl \<Longrightarrow> (\<And>key. requests_of rl0 key = []) \<Longrightarrow>
   int (grants_in log key (t - rl_window rl0) t) \<le> max 0 (rl_limit rl0)"
proof (induction rule: limiter_run.induct)
  case (run_start clk)
  then show ?case by (simp add: grants_in_def)
next
  case (run_grant log clk rl now k rl')
  note inv = limiter_run_inv [OF run_grant.hyps(1) run_grant.prems]
  show ?case
  proof (cases "k = key \<and> t - rl_window rl0 < now \<and> now \<le> t")
    case True
    have "int (grants_in log key (now - rl_window rl0) now) < rl_limit rl0"
      using allow_by_log [of rl log clk now key] inv run_grant.hyps(2,3) True by simp
    moreover have "grants_in log key (t - rl_window rl0) t \<le> grants_in log key (now - rl_window rl0) now"
      using True remembers_past [of rl log clk _ key] inv run_grant.hyps(2)
      by (intro grants_in_mono) (auto dest: order_trans)
    ultimately show ?thesis using True by (simp add: grants_in_snoc)
  next
    case False
    then show ?thesis using run_grant.IH run_grant.prems by (auto simp: grants_in_snoc)
  qed
next
  case (run_refuse log clk rl now k rl')
  then show ?case by simp
qed

section \<open>Properties\<close>

text \<open>C17: The signup limit holds in every window. In any run of the limiter, for any key and any instant,
  the requests granted for the key in the window that ends there are at most the limit.\<close>

theorem rate_limit_window:
  assumes "limiter_run (NewTenantSignupRateLimiter limit window) log clk rl"
  shows "int (grants_in log key (t - window) t) \<le> max 0 limit"
  using window_bound [OF assms fresh_limiter] by simp

theorem rate_limit_window_witness:
  "int (grants_in [(''a'', 1), (''a'', 2)] ''a'' (5 - 10) 5) \<le> max 0 2"
proof (rule rate_limit_window)
  let ?n = "NewTenantSignupRateLimiter 2 10"
  have "limiter_run ?n ([] @ [(''a'', 1)]) 1 (snd (TenantSignupRateLimiter_allow ?n 1 ''a''))"
    by (rule run_grant [OF run_start [of _ 0]])
      (simp_all add: TenantSignupRateLimiter_allow_def NewTenantSignupRateLimiter_def requests_of_def Let_def)
  then have "limiter_run ?n (([] @ [(''a'', 1)]) @ [(''a'', 2)]) 2
      (snd (TenantSignupRateLimiter_allow (snd (TenantSignupRateLimiter_allow ?n 1 ''a'')) 2 ''a''))"
    by (rule run_grant)
      (simp_all add: TenantSignupRateLimiter_allow_def NewTenantSignupRateLimiter_def requests_of_def Let_def time_After_def)
  then show "limiter_run ?n [(''a'', 1), (''a'', 2)] 2
      (snd (TenantSignupRateLimiter_allow (snd (TenantSignupRateLimiter_allow ?n 1 ''a'')) 2 ''a''))" by simp
qed

text \<open>C18: The limiter refuses only when it must. After any run, a request is granted iff fewer than the
  limit were granted for its key in the window that ends with it; refused requests and other
  keys do not count.\<close>

theorem rate_limit_exact:
  assumes "limiter_run (NewTenantSignupRateLimiter limit window) log clk rl" and "clk \<le> now"
  shows "fst (TenantSignupRateLimiter_allow rl now key) \<longleftrightarrow> int (grants_in log key (now - window) now) < limit"
  using allow_by_log [OF conjunct1 [OF fresh_run_inv [OF assms(1)]] assms(2), of key] fresh_run_inv [OF assms(1)]
  by simp

theorem rate_limit_exact_witness:
  "fst (TenantSignupRateLimiter_allow (NewTenantSignupRateLimiter 2 10) 5 ''a'')"
  using rate_limit_exact [OF run_start [of "NewTenantSignupRateLimiter 2 10" 0], of 5 "''a''"]
  by (simp add: grants_in_def)

text \<open>One bucket for every address. A signup whose body is an object that mentions a quoted email key is
  refused, whatever its address and from whatever IP, once the limit of such signups was
  granted in the window: the key of the second bucket does not contain the address.\<close>

theorem signup_email_bucket_shared:
  assumes "limiter_run (NewTenantSignupRateLimiter limit window) log clk rl" and "clk \<le> now1" and "now1 \<le> now2"
    and "limit \<le> int (grants_in log email_bucket (now2 - window) now2)"
  shows "fst (TenantSignupRateLimiter_Middleware rl (now1, now2) ip (Inr (CHR ''{'' # a @ quoted_email @ b)))
           = Inl (Abort 429 ''rate_limited'')"
proof (cases "TenantSignupRateLimiter_allow rl now1 (ip_bucket ip)")
  case (Pair ok rl1)
  have inv: "remembers rl log clk" "rl_window rl = window" "rl_limit rl = limit"
    using fresh_run_inv [OF assms(1)] by auto
  let ?log = "if ok then log @ [(ip_bucket ip, now1)] else log"
  have r1: "remembers rl1 ?log now1" by (rule remembers_allow [OF inv(1) assms(2) Pair])
  have p1: "rl_window rl1 = window" "rl_limit rl1 = limit" using allow_params [OF Pair] inv by auto
  have "limit \<le> int (grants_in ?log email_bucket (now2 - window) now2)"
    using assms(4) by (auto simp: grants_in_snoc)
  then have "\<not> fst (TenantSignupRateLimiter_allow rl1 now2 email_bucket)"
    using allow_by_log [OF r1 assms(3), of email_bucket] p1 by simp
  moreover have "0 \<le> findEmailInJSON (CHR ''{'' # a @ quoted_email @ b)"
    unfolding findEmailInJSON_iff by (metis append_Cons)
  ultimately show ?thesis using Pair
    by (auto simp: TenantSignupRateLimiter_Middleware_def split: prod.splits bool.splits)
qed

theorem signup_email_bucket_shared_witness:
  "let ann = CHR ''{'' # quoted_email @ '':ann}''; eve = CHR ''{'' # quoted_email @ '':eve}'';
       rl = snd (TenantSignupRateLimiter_Middleware (NewTenantSignupRateLimiter 1 10) (1, 2) ''10.0.0.1'' (Inr ann))
   in fst (TenantSignupRateLimiter_Middleware rl (3, 4) ''10.0.0.2'' (Inr eve)) = Inl (Abort 429 ''rate_limited'')"
proof -
  let ?n = "NewTenantSignupRateLimiter 1 10" and ?ip = "ip_bucket ''10.0.0.1''"
  let ?ann = "CHR ''{'' # [] @ quoted_email @ '':ann}''"
  have ne: "?ip \<noteq> email_bucket" by (simp add: ip_bucket_def email_bucket_def)
  obtain r1 where a1: "TenantSignupRateLimiter_allow ?n 1 ?ip = (True, r1)"
      and r1: "rl_requests r1 = [?ip \<mapsto> [1]]" "rl_limit r1 = 1"
    by (simp add: TenantSignupRateLimiter_allow_def NewTenantSignupRateLimiter_def requests_of_def Let_def)
  obtain r2 where a2: "TenantSignupRateLimiter_allow r1 2 email_bucket = (True, r2)"
    using ne r1 by (simp add: TenantSignupRateLimiter_allow_def requests_of_def Let_def)
  have run: "limiter_run ?n (([] @ [(?ip, 1)]) @ [(email_bucket, 2)]) 2 r2"
    by (rule run_grant [OF run_grant [OF run_start [of _ 0] _ a1] _ a2]) simp_all
  have found: "0 \<le> findEmailInJSON ?ann" unfolding findEmailInJSON_iff by (metis append_Cons)
  have "snd (TenantSignupRateLimiter_Middleware ?n (1, 2) ''10.0.0.1'' (Inr ?ann)) = r2"
    using a1 a2 found by (simp add: TenantSignupRateLimiter_Middleware_def)
  moreover have "fst (TenantSignupRateLimiter_Middleware r2 (3, 4) ''10.0.0.2''
      (Inr (CHR ''{'' # [] @ quoted_email @ '':eve}''))) = Inl (Abort 429 ''rate_limited'')"
    by (rule signup_email_bucket_shared [OF run]) (simp_all add: grants_in_def granted_def)
  ultimately show ?thesis by (simp add: Let_def)
qed

end
