(* ===== verification/Risk.thy ===== *)
theory Risk
  imports Prelude
begin

text \<open>
  service/risk.go: the risk scorer of tenant signup. \<open>disposableDomains\<close> maps the listed domains to
  true and is read only, so it is the list of its keys; the other two maps are partial functions.
\<close>

type_synonym RiskSignal = string

definition RiskSignalDisposableEmail :: RiskSignal where "RiskSignalDisposableEmail = ''disposable_email''"
definition RiskSignalVPNProxyTor :: RiskSignal where "RiskSignalVPNProxyTor = ''vpn_proxy_tor''"
definition RiskSignalVelocityAnomaly :: RiskSignal where "RiskSignalVelocityAnomaly = ''velocity_anomaly''"

record RiskAssessment =
  ra_Flags :: "RiskSignal list"
  ra_Score :: int
  ra_RequiresReview :: bool
  ra_Reasons :: "string list"

record RiskScorer =
  rs_disposableDomains :: "string list"
  rs_ipReputationCache :: "string \<rightharpoonup> int"
  rs_tenantVelocity :: "string \<rightharpoonup> time list"

definition NewRiskScorer :: RiskScorer where
  "NewRiskScorer = \<lparr>
     rs_disposableDomains = [''mailinator.com'', ''tempmail.com'', ''guerrillamail.com'', ''10minutemail.com'',
       ''throwawaymail.com'', ''fakeinbox.com'', ''trashmail.com'', ''maildrop.cc'', ''getnada.com'',
       ''dispostable.com'', ''yopmail.com'', ''temp-mail.org'', ''sharklasers.com'', ''grr.la'',
       ''spamgourmet.com'', ''mintemail.com'', ''spam4.me'', ''bccto.me'', ''chacuo.net'', ''0clickemail.com''],
     rs_ipReputationCache = Map.empty, rs_tenantVelocity = Map.empty\<rparr>"

text \<open>\<open>strings.ToLower\<close> on ASCII text.\<close>

definition ascii_lower :: "char \<Rightarrow> char" where
  "ascii_lower c = (if 65 \<le> (of_char c :: nat) \<and> (of_char c :: nat) \<le> 90 then char_of ((of_char c :: nat) + 32) else c)"

definition strings_ToLower :: "string \<Rightarrow> string" where
  "strings_ToLower s = map ascii_lower s"

definition extractDomain :: "string \<Rightarrow> string" where
  "extractDomain email =
     (let parts = strings_Split email (CHR ''@'')
      in if length parts = 2 then strings_ToLower (parts ! 1) else [])"

text \<open>The times recorded for an IP in the hour before \<open>now\<close>.\<close>

definition recent_creations :: "RiskScorer \<Rightarrow> time \<Rightarrow> string \<Rightarrow> time list" where
  "recent_creations rs now ip =
     filter (\<lambda>t. time_After t (now - time_Hour))
       (case rs_tenantVelocity rs ip of None \<Rightarrow> [] | Some ts \<Rightarrow> ts)"

text \<open>One signal raised: its flag, its points, its reason.\<close>

definition raise_signal :: "RiskSignal \<Rightarrow> int \<Rightarrow> string \<Rightarrow> RiskAssessment \<Rightarrow> RiskAssessment" where
  "raise_signal flag points reason a =
     a\<lparr>ra_Flags := ra_Flags a @ [flag], ra_Score := ra_Score a + points, ra_Reasons := ra_Reasons a @ [reason]\<rparr>"

definition RiskScorer_AssessSignup :: "RiskScorer \<Rightarrow> time \<Rightarrow> string \<Rightarrow> string \<Rightarrow> RiskAssessment" where
  "RiskScorer_AssessSignup rs now email ip =
     (let a0 = \<lparr>ra_Flags = [], ra_Score = 0, ra_RequiresReview = False, ra_Reasons = []\<rparr>;
          a1 = (if extractDomain email \<in> set (rs_disposableDomains rs)
                then raise_signal RiskSignalDisposableEmail 40 ''disposable email domain detected'' a0 else a0);
          a2 = (case rs_ipReputationCache rs ip of
                  Some rep \<Rightarrow> if rep < 0 then raise_signal RiskSignalVPNProxyTor 35 ''VPN/Proxy/Tor IP detected'' a1 else a1
                | None \<Rightarrow> a1);
          a3 = (if length (recent_creations rs now ip) \<ge> 5
                then raise_signal RiskSignalVelocityAnomaly 25 ''high tenant creation velocity from IP'' a2 else a2)
      in a3\<lparr>ra_RequiresReview := ra_Score a3 \<ge> 50\<rparr>)"

definition RiskScorer_RecordTenantCreation :: "RiskScorer \<Rightarrow> time \<Rightarrow> string \<Rightarrow> RiskScorer" where
  "RiskScorer_RecordTenantCreation rs now ip =
     rs\<lparr>rs_tenantVelocity := (rs_tenantVelocity rs)(ip \<mapsto>
        (case rs_tenantVelocity rs ip of None \<Rightarrow> [] | Some ts \<Rightarrow> ts) @ [now])\<rparr>"

definition RiskScorer_SetIPReputation :: "RiskScorer \<Rightarrow> string \<Rightarrow> int \<Rightarrow> RiskScorer" where
  "RiskScorer_SetIPReputation rs ip reputation =
     rs\<lparr>rs_ipReputationCache := (rs_ipReputationCache rs)(ip \<mapsto> reputation)\<rparr>"

section \<open>Facts\<close>

lemma recent_RecordTenantCreation:
  "recent_creations (RiskScorer_RecordTenantCreation rs t ip) now ip' =
     recent_creations rs now ip' @ (if ip' = ip \<and> now - time_Hour < t then [t] else [])"
  by (simp add: recent_creations_def RiskScorer_RecordTenantCreation_def time_After_def)

text \<open>The part after the only \<open>@\<close>, in lower case; nothing for no \<open>@\<close> or several.\<close>

lemma extractDomain_at:
  "CHR ''@'' \<notin> set a \<Longrightarrow> CHR ''@'' \<notin> set b \<Longrightarrow> extractDomain (a @ CHR ''@'' # b) = strings_ToLower b"
  by (simp add: extractDomain_def strings_Split_append_sep strings_Split_no_sep)

lemma extractDomain_no_at: "CHR ''@'' \<notin> set s \<Longrightarrow> extractDomain s = []"
  by (simp add: extractDomain_def strings_Split_no_sep)

definition ip_flagged :: "RiskScorer \<Rightarrow> string \<Rightarrow> bool" where
  "ip_flagged rs ip \<longleftrightarrow> (\<exists>rep. rs_ipReputationCache rs ip = Some rep \<and> rep < 0)"

section \<open>Properties\<close>

text \<open>Review takes two signals. A signup is sent to review iff at least two of the three signals are
  raised, whichever they are; a signal is raised exactly for a listed domain, for an IP with negative
  reputation, and for an IP with five tenants recorded in the last hour.\<close>

theorem review_iff_two_signals:
  "let a = RiskScorer_AssessSignup rs now email ip in
   ra_RequiresReview a = (2 \<le> length (ra_Flags a)) \<and>
   (RiskSignalDisposableEmail \<in> set (ra_Flags a)) = (extractDomain email \<in> set (rs_disposableDomains rs)) \<and>
   (RiskSignalVPNProxyTor \<in> set (ra_Flags a)) = ip_flagged rs ip \<and>
   (RiskSignalVelocityAnomaly \<in> set (ra_Flags a)) = (5 \<le> length (recent_creations rs now ip)) \<and>
   distinct (ra_Flags a) \<and> length (ra_Reasons a) = length (ra_Flags a) \<and> 0 \<le> ra_Score a \<and> ra_Score a \<le> 100"
proof -
  let ?d = "extractDomain email \<in> set (rs_disposableDomains rs)"
    and ?v = "5 \<le> length (recent_creations rs now ip)"
  have flags: "RiskSignalDisposableEmail \<noteq> RiskSignalVPNProxyTor" "RiskSignalDisposableEmail \<noteq> RiskSignalVelocityAnomaly"
    "RiskSignalVPNProxyTor \<noteq> RiskSignalVelocityAnomaly"
    by (simp_all add: RiskSignalDisposableEmail_def RiskSignalVPNProxyTor_def RiskSignalVelocityAnomaly_def)
  have ip: "(case rs_ipReputationCache rs ip of Some rep \<Rightarrow> if rep < 0 then x else y | None \<Rightarrow> y) =
      (if ip_flagged rs ip then x else y)" for x y :: RiskAssessment
    by (auto simp: ip_flagged_def split: option.splits)
  show ?thesis
    unfolding RiskScorer_AssessSignup_def Let_def ip using flags flags [symmetric]
    by (cases ?d; cases "ip_flagged rs ip"; cases ?v) (simp_all add: raise_signal_def)
qed

end
