(* ===== verification/Signup.thy ===== *)
theory Signup
  imports Http RateLimit Risk AuthService IdentityProps "HOL-Library.Sublist"
begin

text \<open>
  api/tenant_handler.go and the signup route of api/router.go: the rate limiter in front of
  \<open>TenantHandler.Create\<close>, which asks the risk scorer and provisions a pending tenant.
\<close>

record createTenantRequest =
  ctr_Name :: string
  ctr_Slug :: string
  ctr_Email :: string

text \<open>\<open>ctp_review\<close> holds the reasons and the score exactly when \<open>requires_review\<close> is true.\<close>

record tenantReply =
  ctp_ID :: string
  ctp_Name :: string
  ctp_Slug :: string
  ctp_Status :: TenantStatus
  ctp_review :: "(string list \<times> int) option"

definition toTenantResponse :: "Tenant \<Rightarrow> tenantReply" where
  "toTenantResponse tenant = \<lparr>ctp_ID = tenant_ID tenant, ctp_Name = tenant_Name tenant,
     ctp_Slug = tenant_Slug tenant, ctp_Status = tenant_Status tenant, ctp_review = None\<rparr>"

definition TenantHandler_Create :: "'w TenantRepository \<Rightarrow> RiskScorer \<Rightarrow> time \<times> time \<Rightarrow> string \<Rightarrow>
    err + createTenantRequest \<Rightarrow> 'w \<Rightarrow> tenantReply response \<times> RiskScorer \<times> 'w" where
  "TenantHandler_Create tenants rs clock ip bound w =
     (case bound of
        Inl e \<Rightarrow> (writeError 400 ''invalid_request'', rs, w)
      | Inr req \<Rightarrow>
          (let assessment = RiskScorer_AssessSignup rs (fst clock) (ctr_Email req) ip
           in case TenantService_Create tenants (ctr_Name req) (ctr_Slug req) w of
                (Inl e, w1) \<Rightarrow>
                  (if e = IdErr ErrTenantAlreadyExists then writeError 409 ''tenant_exists''
                   else writeError 500 ''internal_error'', rs, w1)
              | (Inr tenant, w1) \<Rightarrow>
                  (Reply 201 ((toTenantResponse tenant)\<lparr>ctp_review :=
                      (if ra_RequiresReview assessment then Some (ra_Reasons assessment, ra_Score assessment) else None)\<rparr>),
                   RiskScorer_RecordTenantCreation rs (snd clock) ip, w1)))"

text \<open>The four handlers that change a tenant by its ID answer alike.\<close>

definition tenant_change :: "(err + unit) \<times> 'w \<Rightarrow> tenantReply response \<times> 'w" where
  "tenant_change r =
     (case r of
        (Inl e, w) \<Rightarrow> (if e = IdErr ErrTenantNotFound then writeError 404 ''tenant_not_found''
                       else writeError 500 ''internal_error'', w)
      | (Inr u, w) \<Rightarrow> (Status 204, w))"

definition TenantHandler_Suspend :: "'w TenantRepository \<Rightarrow> string \<Rightarrow> 'w \<Rightarrow> tenantReply response \<times> 'w" where
  "TenantHandler_Suspend tenants uid w = tenant_change (TenantService_Suspend tenants uid w)"

definition TenantHandler_Reactivate :: "'w TenantRepository \<Rightarrow> string \<Rightarrow> 'w \<Rightarrow> tenantReply response \<times> 'w" where
  "TenantHandler_Reactivate tenants uid w = tenant_change (TenantService_Reactivate tenants uid w)"

definition TenantHandler_Delete :: "'w TenantRepository \<Rightarrow> string \<Rightarrow> 'w \<Rightarrow> tenantReply response \<times> 'w" where
  "TenantHandler_Delete tenants uid w = tenant_change (TenantService_Delete tenants uid w)"

definition TenantHandler_Activate :: "'w TenantRepository \<Rightarrow> string \<Rightarrow> 'w \<Rightarrow> tenantReply response \<times> 'w" where
  "TenantHandler_Activate tenants uid w = tenant_change (TenantService_Activate tenants uid w)"

section \<open>The signup route\<close>

text \<open>
  \<open>POST /api/v1/tenants\<close>: the limiter's middleware, then the handler on what gin decodes from the
  body. The request is taken to be served at one reading of the clock.
\<close>

definition signup_route :: "'w TenantRepository \<Rightarrow> TenantSignupRateLimiter \<Rightarrow> RiskScorer \<Rightarrow> time \<Rightarrow> string \<Rightarrow>
    err + string \<Rightarrow> err + createTenantRequest \<Rightarrow> 'w \<Rightarrow>
    tenantReply response \<times> TenantSignupRateLimiter \<times> RiskScorer \<times> 'w" where
  "signup_route tenants rl rs now ip body bound w =
     (case TenantSignupRateLimiter_Middleware rl (now, now) ip body of
        (Inl a, rl1) \<Rightarrow> (Fail (abort_status a) (abort_code a), rl1, rs, w)
      | (Inr b, rl1) \<Rightarrow>
          (case TenantHandler_Create tenants rs (now, now) ip bound w of (resp, rs1, w1) \<Rightarrow> (resp, rl1, rs1, w1)))"

text \<open>Runs of the route, from the limiter and the scorer of main.go (five per hour); between requests
  other parts of the program change the world, and IP reputations are fed in.\<close>

inductive signup_run :: "'w TenantRepository \<Rightarrow> time \<Rightarrow> TenantSignupRateLimiter \<Rightarrow> RiskScorer \<Rightarrow> 'w \<Rightarrow> bool" for tenants where
  signup_start: "signup_run tenants clk (NewTenantSignupRateLimiter 5 time_Hour) NewRiskScorer w"
| signup_request: "signup_run tenants clk rl rs w \<Longrightarrow> clk \<le> now \<Longrightarrow>
    signup_route tenants rl rs now ip body bound w = (resp, rl', rs', w') \<Longrightarrow> signup_run tenants now rl' rs' w'"
| signup_reputation: "signup_run tenants clk rl rs w \<Longrightarrow>
    signup_run tenants clk rl (RiskScorer_SetIPReputation rs ip rep) w"
| signup_other: "signup_run tenants clk rl rs w \<Longrightarrow> signup_run tenants clk rl rs w'"

definition velocity :: "RiskScorer \<Rightarrow> string \<Rightarrow> time list" where
  "velocity rs ip = (case rs_tenantVelocity rs ip of None \<Rightarrow> [] | Some ts \<Rightarrow> ts)"

lemma velocity_simps [simp]:
  "velocity NewRiskScorer ip = []"
  "velocity (RiskScorer_SetIPReputation rs a rep) ip = velocity rs ip"
  "velocity (RiskScorer_RecordTenantCreation rs t a) ip = velocity rs ip @ (if ip = a then [t] else [])"
  by (simp_all add: velocity_def NewRiskScorer_def RiskScorer_SetIPReputation_def RiskScorer_RecordTenantCreation_def)

lemma handler_velocity:
  "TenantHandler_Create tenants rs clock a bound w = (resp, rs', w') \<Longrightarrow>
   velocity rs' ip = velocity rs ip \<or> (ip = a \<and> velocity rs' ip = velocity rs ip @ [snd clock])"
  by (auto simp: TenantHandler_Create_def Let_def split: sum.splits prod.splits if_splits)

lemma length_filter_subseq: "subseq xs ys \<Longrightarrow> length (filter P xs) \<le> length (filter P ys)"
  by (induction rule: list_emb.induct) auto

text \<open>
  A request asks the limiter once or twice; when the IP's bucket grants, the log of grants gets the
  IP's entry (and perhaps the other bucket's).
\<close>

lemma Middleware_run:
  assumes run: "limiter_run rl0 log clk rl" and le: "clk \<le> now"
    and m: "TenantSignupRateLimiter_Middleware rl (now, now) ip body = (r, rl')"
  shows "\<exists>more. limiter_run rl0 (log @ more) now rl' \<and> (isl r \<or> (\<exists>rest. more = (ip_bucket ip, now) # rest))"
proof (cases "TenantSignupRateLimiter_allow rl now (ip_bucket ip)")
  case (Pair ok rl1)
  show ?thesis
  proof (cases ok)
    case False
    then have "limiter_run rl0 (log @ []) now rl1" "r = Inl (Abort 429 ''rate_limited'')" "rl' = rl1"
      using run_refuse [OF run le, of "ip_bucket ip" rl1] Pair m
      by (simp_all add: TenantSignupRateLimiter_Middleware_def)
    then show ?thesis by (intro exI [of _ "[]"]) simp
  next
    case True
    have r1: "limiter_run rl0 (log @ [(ip_bucket ip, now)]) now rl1"
      using run_grant [OF run le, of "ip_bucket ip" rl1] Pair True by simp
    have "rl' = rl1 \<or> (\<exists>ok2. TenantSignupRateLimiter_allow rl1 now email_bucket = (ok2, rl'))"
      using m Pair True by (auto simp: TenantSignupRateLimiter_Middleware_def split: sum.splits prod.splits bool.splits if_splits)
    then have "\<exists>rest. limiter_run rl0 (log @ (ip_bucket ip, now) # rest) now rl'"
    proof
      assume "rl' = rl1"
      then show ?thesis using r1 by blast
    next
      assume "\<exists>ok2. TenantSignupRateLimiter_allow rl1 now email_bucket = (ok2, rl')"
      then obtain ok2 where a: "TenantSignupRateLimiter_allow rl1 now email_bucket = (ok2, rl')" ..
      then show ?thesis
        using run_grant [OF r1 order_refl, of email_bucket rl'] run_refuse [OF r1 order_refl, of email_bucket rl'] r1
        by (cases ok2) auto
    qed
    then obtain rest where "limiter_run rl0 (log @ (ip_bucket ip, now) # rest) now rl'" ..
    then show ?thesis by (intro exI [of _ "(ip_bucket ip, now) # rest"]) simp
  qed
qed

lemma Middleware_grants:
  "TenantSignupRateLimiter_Middleware rl (now, now) ip body = (Inr b, rl') \<Longrightarrow>
   fst (TenantSignupRateLimiter_allow rl now (ip_bucket ip))"
  by (auto simp: TenantSignupRateLimiter_Middleware_def split: prod.splits bool.splits)

text \<open>The invariant: what the scorer has recorded for an IP was granted to that IP by the limiter.\<close>

lemma granted_append: "granted (xs @ ys) key = granted xs key @ granted ys key"
  by (simp add: granted_def)

lemma signup_run_inv:
  "signup_run tenants clk rl rs w \<Longrightarrow>
   \<exists>log. limiter_run (NewTenantSignupRateLimiter 5 time_Hour) log clk rl \<and>
     (\<forall>ip. subseq (velocity rs ip) (granted log (ip_bucket ip)))"
proof (induction rule: signup_run.induct)
  case (signup_start clk w)
  show ?case by (rule exI [of _ "[]"]) (simp add: run_start)
next
  case (signup_request clk rl rs w now ip body bound resp rl' rs' w')
  then obtain log where log: "limiter_run (NewTenantSignupRateLimiter 5 time_Hour) log clk rl"
    "\<And>ip. subseq (velocity rs ip) (granted log (ip_bucket ip))" by blast
  obtain r rl1 where m: "TenantSignupRateLimiter_Middleware rl (now, now) ip body = (r, rl1)" by fastforce
  from Middleware_run [OF log(1) signup_request.hyps(2) m] obtain more
    where more: "limiter_run (NewTenantSignupRateLimiter 5 time_Hour) (log @ more) now rl1"
      "isl r \<or> (\<exists>rest. more = (ip_bucket ip, now) # rest)" by (elim exE conjE)
  have "rl' = rl1"
    using signup_request.hyps(3) unfolding signup_route_def m
    by (cases r; cases "TenantHandler_Create tenants rs (now, now) ip bound w") simp_all
  moreover have "subseq (velocity rs' a) (granted (log @ more) (ip_bucket a))" for a
  proof (cases r)
    case (Inl e)
    then have "rs' = rs" using signup_request.hyps(3) unfolding signup_route_def m by simp
    then show ?thesis using log(2) by (simp add: granted_append subseq_rev_drop_many list_emb_append2)
  next
    case (Inr b)
    then obtain rest where rest: "more = (ip_bucket ip, now) # rest" using more(2) by auto
    have "velocity rs' a = velocity rs a \<or> (a = ip \<and> velocity rs' a = velocity rs a @ [now])"
      using signup_request.hyps(3) handler_velocity [of tenants rs "(now, now)" ip bound w _ rs' _ a]
      unfolding signup_route_def m Inr
      by (cases "TenantHandler_Create tenants rs (now, now) ip bound w") auto
    moreover have "subseq (velocity rs a @ [now]) (granted (log @ more) (ip_bucket a))" if "a = ip"
    proof -
      have "granted more (ip_bucket a) = now # granted rest (ip_bucket a)"
        using that rest by (simp add: granted_def)
      then show ?thesis using list_emb_append_mono [OF log(2) [of a], of "[now]"]
        by (simp add: granted_append)
    qed
    moreover have "subseq (velocity rs a) (granted (log @ more) (ip_bucket a))"
      using log(2) by (simp add: granted_append subseq_rev_drop_many list_emb_append2)
    ultimately show ?thesis by auto
  qed
  ultimately show ?case using more(1) by blast
next
  case (signup_reputation clk rl rs w ip rep)
  then show ?case by simp
next
  case (signup_other clk rl rs w w')
  then show ?case by simp
qed

lemma TenantHandler_Create_ok:
  assumes "TenantHandler_Create tenants rs clock ip bound w = (Reply code p, rs', w')"
  shows "\<exists>(req :: createTenantRequest) t'. TenantRepository_Create tenants (TenantService_new (ctr_Name req) (ctr_Slug req) TenantStatusPending) w
      = (Inr t', w') \<and> ctp_ID p = tenant_ID t' \<and> ctp_Status p = tenant_Status t'"
proof (cases bound)
  case (Inl e)
  then show ?thesis using assms by (simp add: TenantHandler_Create_def writeError_def)
next
  case (Inr req)
  obtain r w1 where c: "TenantRepository_Create tenants (TenantService_new (ctr_Name req) (ctr_Slug req) TenantStatusPending) w = (r, w1)"
    by fastforce
  show ?thesis
  proof (cases r)
    case (Inl e)
    then show ?thesis using assms c \<open>bound = Inr req\<close>
      by (simp add: TenantHandler_Create_def TenantService_Create_def writeError_def Let_def split: if_splits)
  next
    case (Inr t')
    then show ?thesis using assms c \<open>bound = Inr req\<close>
      by (intro exI [of _ req] exI [of _ t'])
        (auto simp: TenantHandler_Create_def TenantService_Create_def toTenantResponse_def Let_def)
  qed
qed

lemma length_velocity: "length (recent_creations rs now ip) = length (filter (\<lambda>t. now - time_Hour < t) (velocity rs ip))"
  by (simp add: recent_creations_def velocity_def time_After_def)

context database
begin

lemma tenant_Create_status:
  "TenantRepository_Create (NewTenantRepository G) t d = (Inr t', d') \<Longrightarrow>
   tenant_Status t' = (if tenant_Status t = [] then TenantStatusActive else tenant_Status t)"
  using tenant_Create_ok by blast

lemma rolesForTenant_pending:
  assumes "TenantRepository_Create (NewTenantRepository G) tn d = (Inr t', d1)" and "tenant_Status tn = TenantStatusPending"
    and "t_tenants d2 = t_tenants d1"
  shows "tenantRepository_FindByID G (tenant_ID t') d2 = Inr x \<Longrightarrow> tenant_Status x = TenantStatusPending"
proof -
  assume "tenantRepository_FindByID G (tenant_ID t') d2 = Inr x"
  then have "TenantRepository_FindByID (NewTenantRepository G) (tenant_ID t') d1 = Inr x"
    using identity_frames(2) [OF assms(3)] by simp
  from tenant_FindByID_hit [OF this] tenant_Create_ok [OF assms(1)] show ?thesis
    using assms(2) by (auto simp: TenantStatus_defs)
qed

lemma pending_no_roles:
  assumes "TenantRepository_Create (NewTenantRepository G) tn d = (Inr t', d1)" and "tenant_Status tn = TenantStatusPending"
    and "t_tenants d2 = t_tenants d1"
  shows "AuthService_rolesForTenant (main_auth G lib tokens) u (tenant_ID t') d2 \<noteq> Inr roles"
proof
  assume "AuthService_rolesForTenant (main_auth G lib tokens) u (tenant_ID t') d2 = Inr roles"
  from rolesForTenant_ok [OF this] show False
    using rolesForTenant_pending [OF assms] by (auto simp: TenantStatus_defs)
qed

end

section \<open>Properties\<close>

text \<open>The velocity signal cannot fire behind the rate limit. With the limits of main.go (five signups per
  IP and hour) and requests served at one reading of the clock, the scorer never raises the
  velocity signal (five tenants recorded in the hour before) for a request the limiter lets through.\<close>

theorem velocity_signal_unreachable:
  assumes "signup_run tenants clk rl rs w" and "clk \<le> now"
    and "TenantSignupRateLimiter_Middleware rl (now, now) ip body = (Inr b, rl')"
  shows "RiskSignalVelocityAnomaly \<notin> set (ra_Flags (RiskScorer_AssessSignup rs now email ip))"
proof -
  from signup_run_inv [OF assms(1)] obtain log
    where run: "limiter_run (NewTenantSignupRateLimiter 5 time_Hour) log clk rl"
      and sub: "subseq (velocity rs ip) (granted log (ip_bucket ip))" by blast
  note inv = fresh_run_inv [OF run]
  have "int (grants_in log (ip_bucket ip) (now - time_Hour) now) < 5"
    using allow_by_log [of rl log clk now "ip_bucket ip"] inv assms(2) Middleware_grants [OF assms(3)] by simp
  moreover have "filter (\<lambda>t. now - time_Hour < t \<and> t \<le> now) (granted log (ip_bucket ip)) =
      filter (\<lambda>t. now - time_Hour < t) (granted log (ip_bucket ip))"
    using remembers_past [of rl log clk _ "ip_bucket ip"] inv assms(2) by (intro filter_cong) (auto dest: order_trans)
  ultimately have "length (recent_creations rs now ip) < 5"
    using length_filter_subseq [OF sub, of "\<lambda>t. now - time_Hour < t"] by (simp add: length_velocity grants_in_def)
  then show ?thesis using review_iff_two_signals [of rs now email ip] by (simp add: Let_def)
qed

theorem velocity_signal_unreachable_witness:
  "RiskSignalVelocityAnomaly \<notin> set (ra_Flags (RiskScorer_AssessSignup NewRiskScorer 1 ''ann@h.org'' ''10.0.0.1''))"
proof -
  have "\<exists>rl'. TenantSignupRateLimiter_Middleware (NewTenantSignupRateLimiter 5 time_Hour) (1, 1) ''10.0.0.1'' (Inr ''x'') = (Inr (Some ''x''), rl')"
    by (simp add: TenantSignupRateLimiter_Middleware_def TenantSignupRateLimiter_allow_def requests_of_def Let_def
        NewTenantSignupRateLimiter_def)
  then obtain rl' where "TenantSignupRateLimiter_Middleware (NewTenantSignupRateLimiter 5 time_Hour) (1, 1) ''10.0.0.1'' (Inr ''x'')
    = (Inr (Some ''x''), rl')" ..
  from velocity_signal_unreachable [OF signup_start [of "NewTenantRepository mem_gorms" 0 empty_db] _ this] show ?thesis by simp
qed

text \<open>A new tenant is pending. After a signup that answered 201, nobody logs in to, switches to or
  registers with the new tenant as long as the table of tenants is not written again, whatever
  happens elsewhere in the database.\<close>

theorem signup_tenant_pending:
  assumes "database G"
    and "TenantHandler_Create (NewTenantRepository G) rs clock ip bound d = (Reply 201 p, rs', d1)"
    and "t_tenants d2 = t_tenants d1" and "ctp_ID p \<noteq> []"
  shows "ctp_Status p = TenantStatusPending \<and>
    AuthService_Login (main_auth G lib tokens) tk email pw (ctp_ID p) d2 \<noteq> Inr res \<and>
    AuthService_SwitchTenant (main_auth G lib tokens) tk u (ctp_ID p) d2 \<noteq> Inr res \<and>
    fst (AuthService_Register (main_auth G lib tokens) salt tk email pw (ctp_ID p) d2) \<noteq> Inr res"
proof -
  obtain req :: createTenantRequest and t'
    where c: "TenantRepository_Create (NewTenantRepository G) (TenantService_new (ctr_Name req) (ctr_Slug req) TenantStatusPending) d
        = (Inr t', d1)"
      and p: "ctp_ID p = tenant_ID t'" "ctp_Status p = tenant_Status t'"
    using TenantHandler_Create_ok [OF assms(2)] by blast
  have st: "tenant_Status (TenantService_new (ctr_Name req) (ctr_Slug req) TenantStatusPending) = TenantStatusPending"
    by (simp add: TenantService_new_def)
  note none = database.pending_no_roles [OF assms(1) c st assms(3), folded p(1)]
  have "ctp_Status p = TenantStatusPending"
    using database.tenant_Create_status [OF assms(1) c] st p by (simp add: TenantStatus_defs)
  moreover have "AuthService_SwitchTenant (main_auth G lib tokens) tk u (ctp_ID p) d2 \<noteq> Inr res"
    using none by (auto simp: AuthService_SwitchTenant_def split: sum.splits)
  moreover have "AuthService_Login (main_auth G lib tokens) tk email pw (ctp_ID p) d2 \<noteq> Inr res"
    using none assms(4) by (metis Login_ok)
  moreover have "fst (AuthService_Register (main_auth G lib tokens) salt tk email pw (ctp_ID p) d2) \<noteq> Inr res"
  proof
    assume "fst (AuthService_Register (main_auth G lib tokens) salt tk email pw (ctp_ID p) d2) = Inr res"
    then obtain d3 where "AuthService_Register (main_auth G lib tokens) salt tk email pw (ctp_ID p) d2 = (Inr res, d3)"
      by (metis prod.collapse)
    from Register_ok [OF this] assms(4) obtain user d4 tn hash where
      "userRepository_Create G \<lparr>user_ID = [], user_Email = email, user_PasswordHash = hash,
        user_CreatedAt = zero_time, user_UpdatedAt = zero_time\<rparr> d2 = (Inr user, d4)"
      "tenantRepository_FindByID G (ctp_ID p) d4 = Inr tn" "tenant_Status tn = TenantStatusActive" by auto
    then show False
      using database.rolesForTenant_pending [OF assms(1) c st, of d4 tn] Create_frames(1) assms(3) p(1)
      by (auto simp: TenantStatus_defs)
  qed
  ultimately show ?thesis by blast
qed

lemma demo_signup:
  "\<exists>p rs' d1. TenantHandler_Create (NewTenantRepository mem_gorms) NewRiskScorer (1, 2) ''10.0.0.1''
      (Inr \<lparr>ctr_Name = ''Three'', ctr_Slug = ''three'', ctr_Email = ''ann@h.org''\<rparr>) demo_db = (Reply 201 p, rs', d1) \<and>
     ctp_ID p = fresh_id 2"
  by (simp add: TenantHandler_Create_def TenantService_Create_def TenantService_new_def tenantRepository_Create_def
      demo_db_def eval_mapper row_tenant_defs conv_simps Let_def toTenantResponse_def TenantStatus_defs fresh_id_def show_nat.simps char_of_def bit_simps)

theorem signup_tenant_pending_witness:
  "\<exists>p rs' d1. TenantHandler_Create (NewTenantRepository mem_gorms) NewRiskScorer (1, 2) ''10.0.0.1''
      (Inr \<lparr>ctr_Name = ''Three'', ctr_Slug = ''three'', ctr_Email = ''ann@h.org''\<rparr>) demo_db = (Reply 201 p, rs', d1) \<and>
     (\<forall>res. AuthService_Login demo_auth (5, 6) ''ann'' ''pw'' (ctp_ID p) d1 \<noteq> Inr res)"
proof -
  obtain p rs' d1 where s: "TenantHandler_Create (NewTenantRepository mem_gorms) NewRiskScorer (1, 2) ''10.0.0.1''
      (Inr \<lparr>ctr_Name = ''Three'', ctr_Slug = ''three'', ctr_Email = ''ann@h.org''\<rparr>) demo_db = (Reply 201 p, rs', d1)"
    and "ctp_ID p = fresh_id 2" using demo_signup by blast
  then have "ctp_ID p \<noteq> []" by (simp add: fresh_id_def)
  with signup_tenant_pending [OF mem_database s refl] s show ?thesis unfolding demo_auth_def by blast
qed

end
