(* ===== verification/Mfa.thy ===== *)
theory Mfa
  imports RepoMfa RepoIdentity Codec
begin

text \<open>
  service/mfa.go: time-based one-time passwords and backup codes. The library behind TOTP
  (pquerna/otp) is a parameter; random bytes and clock readings are arguments. The WebAuthn methods
  are placeholders that always fail.
\<close>

record totp_key =
  totp_Secret :: string
  totp_URL :: string

text \<open>\<open>totp_Generate issuer account size random\<close>; \<open>totp_Validate now code secret\<close>.\<close>

record totp_lib =
  totp_Generate :: "string \<Rightarrow> string \<Rightarrow> int \<Rightarrow> string \<Rightarrow> err + totp_key"
  totp_Validate :: "time \<Rightarrow> string \<Rightarrow> string \<Rightarrow> bool"

record 'w MFAService =
  mfs_methods :: "'w MFAMethodRepository"
  mfs_credentials :: "'w WebAuthnCredentialRepository"
  mfs_users :: "'w UserRepository"

definition NewMFAService :: "'w MFAMethodRepository \<Rightarrow> 'w WebAuthnCredentialRepository \<Rightarrow> 'w UserRepository \<Rightarrow> 'w MFAService" where
  "NewMFAService methods credentials users =
     \<lparr>mfs_methods = methods, mfs_credentials = credentials, mfs_users = users\<rparr>"

text \<open>\<open>strings.ToUpper\<close> on ASCII text.\<close>

definition ascii_upper :: "char \<Rightarrow> char" where
  "ascii_upper c = (if 97 \<le> (of_char c :: nat) \<and> (of_char c :: nat) \<le> 122 then char_of ((of_char c :: nat) - 32) else c)"

definition strings_ToUpper :: "string \<Rightarrow> string" where
  "strings_ToUpper s = map ascii_upper s"

text \<open>One code for each block of six random bytes.\<close>

definition generateBackupCodes :: "string list \<Rightarrow> string list" where
  "generateBackupCodes blocks = map (\<lambda>b. take 8 (strings_ToUpper (base32_Encode b))) blocks"

definition MFAService_EnrollTOTP :: "totp_lib \<Rightarrow> 'w MFAService \<Rightarrow> string \<Rightarrow> string list \<Rightarrow> string \<Rightarrow> string \<Rightarrow>
    string \<Rightarrow> 'w \<Rightarrow> (err + (MFAMethod \<times> string \<times> string \<times> string list)) \<times> 'w" where [svc_simps]:
  "MFAService_EnrollTOTP lib s seed blocks userID tenantID name w =
     (case totp_Generate lib ''Hoviyat'' userID 32 seed of
        Inl e \<Rightarrow> (Inl e, w)
      | Inr key \<Rightarrow>
          (let backupCodes = generateBackupCodes blocks;
               method = \<lparr>mfa_ID = [], mfa_UserID = userID, mfa_TenantID = tenantID, mfa_Type = ''totp'',
                 mfa_Name = name, mfa_Secret = totp_Secret key, mfa_BackupCodes = backupCodes, mfa_IsPrimary = True,
                 mfa_VerifiedAt = None, mfa_LastUsedAt = None, mfa_CreatedAt = zero_time, mfa_UpdatedAt = zero_time\<rparr>
           in case MFAMethodRepository_Create (mfs_methods s) method w of
                (Inl e, w1) \<Rightarrow> (Inl e, w1)
              | (Inr method', w1) \<Rightarrow> (Inr (method', totp_Secret key, totp_URL key, backupCodes), w1)))"

text \<open>A user without a primary method: \<open>FindPrimaryByUser\<close> returns no method and no error, and reading the
  type of the missing method panics.\<close>

definition MFAService_VerifyTOTP :: "totp_lib \<Rightarrow> 'w MFAService \<Rightarrow> time \<times> time \<Rightarrow> string \<Rightarrow> string \<Rightarrow> 'w \<Rightarrow>
    ((err + unit) \<times> 'w) outcome" where [svc_simps]:
  "MFAService_VerifyTOTP lib s clock userID code w =
     (case MFAMethodRepository_FindPrimaryByUser (mfs_methods s) userID w of
        Inl e \<Rightarrow> Returns (Inl (SvcAuthErr service_ErrMFAMethodNotFound), w)
      | Inr None \<Rightarrow> Panics
      | Inr (Some method) \<Rightarrow>
          (if mfa_Type method \<noteq> ''totp'' then Returns (Inl (SvcAuthErr service_ErrMFAVerificationFailed), w)
           else if \<not> totp_Validate lib (fst clock) code (mfa_Secret method)
           then Returns (Inl (SvcAuthErr service_ErrInvalidTOTPCode), w)
           else Returns (MFAMethodRepository_Update (mfs_methods s) (method\<lparr>mfa_LastUsedAt := Some (snd clock)\<rparr>) w)))"

text \<open>The inner loop: the codes without the first that equals \<open>code\<close>, or nothing if none does.\<close>

fun remove_code :: "string \<Rightarrow> string list \<Rightarrow> string list option" where
  "remove_code code [] = None"
| "remove_code code (bc # bcs) = (if bc = code then Some bcs else map_option ((#) bc) (remove_code code bcs))"

fun backup_loop :: "'w MFAMethodRepository \<Rightarrow> time \<Rightarrow> string \<Rightarrow> MFAMethod list \<Rightarrow> 'w \<Rightarrow> (err + unit) \<times> 'w" where
  "backup_loop methods now code [] w = (Inl (SvcAuthErr service_ErrInvalidTOTPCode), w)"
| "backup_loop methods now code (method # ms) w =
     (case (if mfa_Type method = ''totp'' then remove_code code (mfa_BackupCodes method) else None) of
        Some rest \<Rightarrow>
          MFAMethodRepository_Update methods (method\<lparr>mfa_BackupCodes := rest, mfa_LastUsedAt := Some now\<rparr>) w
      | None \<Rightarrow> backup_loop methods now code ms w)"

definition MFAService_VerifyBackupCode :: "'w MFAService \<Rightarrow> time \<Rightarrow> string \<Rightarrow> string \<Rightarrow> 'w \<Rightarrow> (err + unit) \<times> 'w" where [svc_simps]:
  "MFAService_VerifyBackupCode s now userID code w =
     (case MFAMethodRepository_FindByUser (mfs_methods s) userID w of
        Inl e \<Rightarrow> (Inl (SvcAuthErr service_ErrMFAMethodNotFound), w)
      | Inr methods \<Rightarrow> backup_loop (mfs_methods s) now code methods w)"

definition MFAService_EnrollWebAuthn :: "'w MFAService \<Rightarrow> string \<Rightarrow> string \<Rightarrow> string \<Rightarrow> err + 'r" where
  "MFAService_EnrollWebAuthn s userID tenantID deviceName = Inl (FmtErr ''webauthn enrollment not yet implemented'')"

definition MFAService_CompleteWebAuthnEnrollment :: "'w MFAService \<Rightarrow> string \<Rightarrow> string \<Rightarrow> string \<Rightarrow> err + 'r" where
  "MFAService_CompleteWebAuthnEnrollment s userID tenantID deviceName = Inl (FmtErr ''webauthn enrollment not yet implemented'')"

definition MFAService_BeginWebAuthnAuthentication :: "'w MFAService \<Rightarrow> string \<Rightarrow> err + 'r" where
  "MFAService_BeginWebAuthnAuthentication s userID = Inl (FmtErr ''webauthn authentication not yet implemented'')"

definition MFAService_CompleteWebAuthnAuthentication :: "'w MFAService \<Rightarrow> string \<Rightarrow> err + 'r" where
  "MFAService_CompleteWebAuthnAuthentication s userID = Inl (FmtErr ''webauthn authentication not yet implemented'')"

definition MFAService_ListMethods :: "'w MFAService \<Rightarrow> string \<Rightarrow> 'w \<Rightarrow> err + MFAMethod list" where [svc_simps]:
  "MFAService_ListMethods s userID w = MFAMethodRepository_FindByUser (mfs_methods s) userID w"

definition MFAService_RemoveMethod :: "'w MFAService \<Rightarrow> string \<Rightarrow> string \<Rightarrow> 'w \<Rightarrow> (err + unit) \<times> 'w" where [svc_simps]:
  "MFAService_RemoveMethod s userID methodID w =
     (case MFAMethodRepository_FindByID (mfs_methods s) methodID w of
        Inl e \<Rightarrow> (Inl e, w)
      | Inr method \<Rightarrow>
          (if mfa_UserID method \<noteq> userID then (Inl (SvcAuthErr service_ErrMFAMethodNotFound), w)
           else MFAMethodRepository_Delete (mfs_methods s) methodID w))"

fun primary_loop :: "'w MFAMethodRepository \<Rightarrow> string \<Rightarrow> MFAMethod list \<Rightarrow> 'w \<Rightarrow> (err + unit) \<times> 'w" where
  "primary_loop methods methodID [] w = (Inr (), w)"
| "primary_loop methods methodID (m # ms) w =
     (case MFAMethodRepository_Update methods (m\<lparr>mfa_IsPrimary := (mfa_ID m = methodID)\<rparr>) w of
        (Inl e, w1) \<Rightarrow> (Inl e, w1)
      | (Inr u, w1) \<Rightarrow> primary_loop methods methodID ms w1)"

definition MFAService_SetPrimaryMethod :: "'w MFAService \<Rightarrow> string \<Rightarrow> string \<Rightarrow> 'w \<Rightarrow> (err + unit) \<times> 'w" where [svc_simps]:
  "MFAService_SetPrimaryMethod s userID methodID w =
     (case MFAMethodRepository_FindByUser (mfs_methods s) userID w of
        Inl e \<Rightarrow> (Inl e, w)
      | Inr methods \<Rightarrow> primary_loop (mfs_methods s) methodID methods w)"

section \<open>Facts\<close>

definition main_mfa :: "gorms \<Rightarrow> db MFAService" where
  "main_mfa G = NewMFAService (NewMFAMethodRepository G) (NewWebAuthnCredentialRepository G) (NewUserRepository G)"

lemma main_mfa_simps [simp]: "mfs_methods (main_mfa G) = NewMFAMethodRepository G"
  by (simp add: main_mfa_def NewMFAService_def)

lemma mfa_repository_simps [simp]:
  "MFAMethodRepository_Create (NewMFAMethodRepository G) = mfaMethodRepository_Create G"
  "MFAMethodRepository_FindByID (NewMFAMethodRepository G) = mfaMethodRepository_FindByID G"
  "MFAMethodRepository_FindByUser (NewMFAMethodRepository G) = mfaMethodRepository_FindByUser G"
  "MFAMethodRepository_FindPrimaryByUser (NewMFAMethodRepository G) = mfaMethodRepository_FindPrimaryByUser G"
  "MFAMethodRepository_Update (NewMFAMethodRepository G) = mfaMethodRepository_Update G"
  "MFAMethodRepository_Delete (NewMFAMethodRepository G) = mfaMethodRepository_Delete G"
  by (simp_all add: NewMFAMethodRepository_def)

lemma remove_code_None: "remove_code c xs = None \<longleftrightarrow> c \<notin> set xs"
  by (induction xs) auto

lemma remove_code_count:
  "remove_code c xs = Some ys \<Longrightarrow> count_list xs c' = count_list ys c' + (if c' = c then 1 else 0)"
  by (induction xs arbitrary: ys) (auto split: if_splits)

lemma backup_loop_cases:
  assumes "backup_loop M now c ms w = (r, w')"
  shows "(r = Inl (SvcAuthErr service_ErrInvalidTOTPCode) \<and> w' = w \<and>
      (\<forall>m\<in>set ms. mfa_Type m = ''totp'' \<longrightarrow> c \<notin> set (mfa_BackupCodes m))) \<or>
    (\<exists>m\<in>set ms. \<exists>rest. mfa_Type m = ''totp'' \<and> remove_code c (mfa_BackupCodes m) = Some rest \<and>
      MFAMethodRepository_Update M (m\<lparr>mfa_BackupCodes := rest, mfa_LastUsedAt := Some now\<rparr>) w = (r, w'))"
  using assms
proof (induction ms)
  case Nil
  then show ?case by simp
next
  case (Cons m ms)
  define found where "found = (if mfa_Type m = ''totp'' then remove_code c (mfa_BackupCodes m) else None)"
  show ?case
  proof (cases found)
    case None
    then have "mfa_Type m = ''totp'' \<longrightarrow> c \<notin> set (mfa_BackupCodes m)"
      by (auto simp: found_def remove_code_None split: if_splits)
    moreover have "backup_loop M now c ms w = (r, w')" using Cons.prems None by (simp add: found_def)
    ultimately show ?thesis using Cons.IH by auto
  next
    case (Some rest)
    then have "mfa_Type m = ''totp''" "remove_code c (mfa_BackupCodes m) = Some rest"
      by (auto simp: found_def split: if_splits)
    moreover have "MFAMethodRepository_Update M (m\<lparr>mfa_BackupCodes := rest, mfa_LastUsedAt := Some now\<rparr>) w = (r, w')"
      using Cons.prems Some by (simp add: found_def)
    ultimately show ?thesis by auto
  qed
qed

text \<open>The TOTP backup codes a row holds for a user, and how often a code stands in the table.\<close>

definition row_codes :: "string \<Rightarrow> mfaMethodModel \<Rightarrow> string list" where
  "row_codes u r = (if mfm_UserID r = u \<and> mfm_Type r = ''totp'' then json_Unmarshal_strings (mfm_BackupCodes r) else [])"

definition code_count :: "db \<Rightarrow> string \<Rightarrow> string \<Rightarrow> nat" where
  "code_count d u c = sum_list (map (\<lambda>r. count_list (row_codes u r) c) (t_mfa_methods d))"

definition mfa_ids_distinct :: "db \<Rightarrow> bool" where
  "mfa_ids_distinct d \<longleftrightarrow> distinct (map mfm_ID (t_mfa_methods d))"

lemma sum_one_changed:
  fixes f :: "'r \<Rightarrow> nat"
  assumes "list_all2 (\<lambda>r r'. if k r = i then f r = f r' + n else f r' = f r) t t'"
    and "distinct (map k t)" and "q \<in> set t" and "k q = i"
  shows "sum_list (map f t) = sum_list (map f t') + n"
  using assms
proof (induction rule: list_all2_induct)
  case Nil
  then show ?case by simp
next
  case (Cons r t r' t')
  have same: "sum_list (map f t) = sum_list (map f t')" if "i \<notin> set (map k t)"
    using Cons.hyps(2) that by (induction rule: list_all2_induct) auto
  show ?case
  proof (cases "k r = i")
    case True
    then have "i \<notin> set (map k t)" using Cons.prems by auto
    then show ?thesis using same True Cons.hyps(1) by simp
  next
    case False
    then show ?thesis using Cons by auto
  qed
qed

lemma row_codes_from: "row_codes u r = (if mfa_UserID (fromMFAMethodModel r) = u \<and> mfa_Type (fromMFAMethodModel r) = ''totp''
    then mfa_BackupCodes (fromMFAMethodModel r) else [])"
  by (simp add: row_codes_def fromMFAMethodModel_def)

context database
begin

text \<open>An update of a method that was read from its row replaces the codes of that row only.\<close>

lemma Update_codes:
  assumes "mfaMethodRepository_Update G ((fromMFAMethodModel q)\<lparr>mfa_BackupCodes := rest, mfa_LastUsedAt := Some now\<rparr>) d = (Inr (), d')"
    and q: "q \<in> set (t_mfa_methods d)" and dist: "mfa_ids_distinct d" and ty: "mfm_Type q = ''totp''"
    and n: "count_list (json_Unmarshal_strings (mfm_BackupCodes q)) c = count_list rest c + n"
  shows "code_count d u c = code_count d' u c + (if u = mfm_UserID q then n else 0)"
proof -
  let ?m = "(fromMFAMethodModel q)\<lparr>mfa_BackupCodes := rest, mfa_LastUsedAt := Some now\<rparr>"
  obtain k t' where upd: "g_Updates (gorm_mfa_methods G) (\<lambda>r. mfm_ID r = mfm_ID q) (toMFAMethodModel ?m) (t_mfa_methods d) = (Inr k, t')"
    and d': "d' = d\<lparr>t_mfa_methods := t'\<rparr>"
    using assms(1) by (auto simp: mfaMethodRepository_Update_def fromMFAMethodModel_def split: prod.splits sum.splits if_splits)
  let ?f = "\<lambda>r. count_list (row_codes u r) c"
  have row: "mfm_UserID r' = mfm_UserID q \<and> mfm_Type r' = mfm_Type q \<and> mfm_BackupCodes r' = json_Marshal_strings rest"
    if "kept_mfa_method (patch_mfa_method (toMFAMethodModel ?m) q) r'" for r'
    using that patch_toMFAMethodModel_codes [of ?m q]
    by (auto simp: kept_mfa_method_def patch_mfa_method_def toMFAMethodModel_def fromMFAMethodModel_def)
  have old: "count_list (row_codes u q) c = (if u = mfm_UserID q then count_list rest c + n else 0)"
    using n ty by (simp add: row_codes_def)
  have new: "count_list (row_codes u r') c = (if u = mfm_UserID q then count_list rest c else 0)"
    if "kept_mfa_method (patch_mfa_method (toMFAMethodModel ?m) q) r'" for r'
    using row [OF that] ty by (simp add: row_codes_def json_strings_roundtrip)
  have "list_all2 (\<lambda>r r'. if mfm_ID r = mfm_ID q then ?f r = ?f r' + (if u = mfm_UserID q then n else 0) else ?f r' = ?f r)
      (t_mfa_methods d) t'"
  proof (rule list.rel_mono_strong [OF conjunct2 [OF mfa_method.Updates_rows [OF upd]]])
    fix r r' assume "r \<in> set (t_mfa_methods d)" and "r' \<in> set t'"
      and r': "if mfm_ID r = mfm_ID q then kept_mfa_method (patch_mfa_method (toMFAMethodModel ?m) r) r' else r' = r"
    moreover have "r = q" if "mfm_ID r = mfm_ID q" "r \<in> set (t_mfa_methods d)"
      using dist q that by (auto simp: mfa_ids_distinct_def distinct_map inj_on_def)
    ultimately show "if mfm_ID r = mfm_ID q then ?f r = ?f r' + (if u = mfm_UserID q then n else 0) else ?f r' = ?f r"
      using old new [of r'] by (cases "mfm_ID r = mfm_ID q") auto
  qed
  from sum_one_changed [OF this _ q refl] dist show ?thesis
    by (simp add: code_count_def d' mfa_ids_distinct_def)
qed

lemma FindByUser_rows:
  "mfaMethodRepository_FindByUser G u d = Inr ms \<Longrightarrow>
   set ms = fromMFAMethodModel ` {r \<in> set (t_mfa_methods d). mfm_UserID r = u}"
  by (auto simp: mfaMethodRepository_FindByUser_def split: sum.splits dest!: mfa_method.Find_set)

lemma Update_ids:
  assumes "mfaMethodRepository_Update G m d = (r, d')" and "mfa_ID m \<noteq> []"
  shows "map mfm_ID (t_mfa_methods d') = map mfm_ID (t_mfa_methods d)"
proof -
  have "map mfm_ID t' = map mfm_ID (t_mfa_methods d)"
    if "g_Updates (gorm_mfa_methods G) (\<lambda>r. mfm_ID r = mfa_ID m) (toMFAMethodModel m) (t_mfa_methods d) = (x, t')" for x t'
  proof (cases x)
    case (Inl e)
    then show ?thesis using mfa_method.Updates_fail that by blast
  next
    case (Inr n)
    have "list_all2 (\<lambda>r r'. mfm_ID r' = mfm_ID r) (t_mfa_methods d) t'"
      by (rule list_all2_mono [OF conjunct2 [OF mfa_method.Updates_rows [OF that [unfolded Inr]]]])
        (auto simp: kept_mfa_method_def patch_mfa_method_def toMFAMethodModel_def split: if_splits)
    then show ?thesis by (induction rule: list_all2_induct) auto
  qed
  then show ?thesis using assms by (auto simp: mfaMethodRepository_Update_def split: prod.splits sum.splits)
qed

text \<open>An update never clears the primary flag of a row, of the method itself or of another.\<close>

lemma Update_keeps_primary:
  assumes "mfaMethodRepository_Update G m d = (x, d')" and "r \<in> set (t_mfa_methods d)" and "mfm_IsPrimary r"
    and "mfm_ID r \<noteq> []"
  shows "\<exists>r'\<in>set (t_mfa_methods d'). mfm_ID r' = mfm_ID r \<and> mfm_IsPrimary r'"
proof -
  have "\<exists>r'\<in>set t'. mfm_ID r' = mfm_ID r \<and> mfm_IsPrimary r'"
    if "g_Updates (gorm_mfa_methods G) (\<lambda>r. mfm_ID r = mfa_ID m) (toMFAMethodModel m) (t_mfa_methods d) = (y, t')" for y t'
  proof (cases y)
    case (Inl e)
    then show ?thesis using mfa_method.Updates_fail that assms by blast
  next
    case (Inr n)
    from list_all2_set1 [OF conjunct2 [OF mfa_method.Updates_rows [OF that [unfolded Inr]]] assms(2)]
    obtain r' where "r' \<in> set t'"
      and "if mfm_ID r = mfa_ID m then kept_mfa_method (patch_mfa_method (toMFAMethodModel m) r) r' else r' = r" by blast
    then show ?thesis using assms(3,4)
      by (intro bexI [of _ r'])
        (auto simp: kept_mfa_method_def patch_mfa_method_def toMFAMethodModel_def split: if_splits)
  qed
  then show ?thesis using assms(1) by (auto simp: mfaMethodRepository_Update_def split: prod.splits sum.splits)
qed

lemma primary_loop_keeps:
  "primary_loop (NewMFAMethodRepository G) i ms d = (x, d') \<Longrightarrow> r \<in> set (t_mfa_methods d) \<Longrightarrow> mfm_IsPrimary r \<Longrightarrow>
   mfm_ID r \<noteq> [] \<Longrightarrow> \<exists>r'\<in>set (t_mfa_methods d'). mfm_ID r' = mfm_ID r \<and> mfm_IsPrimary r'"
proof (induction ms arbitrary: d r)
  case Nil
  then show ?case by auto
next
  case (Cons m ms)
  obtain y d1 where u: "mfaMethodRepository_Update G (m\<lparr>mfa_IsPrimary := (mfa_ID m = i)\<rparr>) d = (y, d1)" by fastforce
  from Update_keeps_primary [OF u Cons.prems(2-4)] obtain r1
    where r1: "r1 \<in> set (t_mfa_methods d1)" "mfm_ID r1 = mfm_ID r" "mfm_IsPrimary r1" by blast
  show ?case
  proof (cases y)
    case (Inl e)
    then show ?thesis using Cons.prems(1) u r1 by auto
  next
    case (Inr v)
    then show ?thesis using Cons.IH [OF _ r1(1,3)] Cons.prems(1,4) u r1(2) by auto
  qed
qed

end

section \<open>Properties\<close>

text \<open>No method of the user takes the code: it does not stand in the table for the user.\<close>

lemma code_absent:
  assumes "database G" and "mfaMethodRepository_FindByUser G u d = Inr ms"
    and "\<forall>m\<in>set ms. mfa_Type m = ''totp'' \<longrightarrow> c \<notin> set (mfa_BackupCodes m)"
  shows "code_count d u c = 0"
proof -
  have "count_list (row_codes u q) c = 0" if "q \<in> set (t_mfa_methods d)" for q
  proof (cases "mfm_UserID q = u")
    case True
    then have "fromMFAMethodModel q \<in> set ms" using database.FindByUser_rows [OF assms(1,2)] that by auto
    then have "mfa_Type (fromMFAMethodModel q) = ''totp'' \<longrightarrow> c \<notin> set (mfa_BackupCodes (fromMFAMethodModel q))"
      using assms(3) by blast
    then show ?thesis by (auto simp: row_codes_from count_list_0_iff)
  qed (simp add: row_codes_def)
  then show ?thesis by (auto simp: code_count_def)
qed

text \<open>Storing a method without one of its codes takes that code from the table.\<close>

lemma code_taken:
  assumes "database G" and "mfa_ids_distinct d" and "\<forall>r\<in>set (t_mfa_methods d). mfm_ID r \<noteq> []"
    and q: "q \<in> set (t_mfa_methods d)" "mfm_UserID q = u" "mfm_Type q = ''totp''"
    and rest: "remove_code c (json_Unmarshal_strings (mfm_BackupCodes q)) = Some rest"
    and upd: "mfaMethodRepository_Update G ((fromMFAMethodModel q)\<lparr>mfa_BackupCodes := rest, mfa_LastUsedAt := Some now\<rparr>) d
      = (Inr (), d')"
  shows "mfa_ids_distinct d' \<and> code_count d u' c' = code_count d' u' c' + (if u' = u \<and> c' = c then 1 else 0)"
proof
  show "mfa_ids_distinct d'"
    using database.Update_ids [OF assms(1) upd] assms(2,3) q(1) by (simp add: mfa_ids_distinct_def fromMFAMethodModel_def)
  show "code_count d u' c' = code_count d' u' c' + (if u' = u \<and> c' = c then 1 else 0)"
    using database.Update_codes [OF assms(1) upd q(1) assms(2) _ remove_code_count [OF rest], of u'] q(2,3)
    by (simp add: fromMFAMethodModel_def)
qed

text \<open>C19: A backup code is worth one verification. A successful verification takes exactly one occurrence of the
  code from the user's TOTP methods and leaves every other code and user alone; the answer
  "invalid code" changes nothing and means that the user has no such code left.\<close>

theorem backup_code_consumed:
  assumes "database G" and "mfa_ids_distinct d" and "\<forall>r\<in>set (t_mfa_methods d). mfm_ID r \<noteq> []"
    and "MFAService_VerifyBackupCode (main_mfa G) now u c d = (r, d')"
  shows "case r of
      Inr _ \<Rightarrow> Suc (code_count d' u c) = code_count d u c \<and> mfa_ids_distinct d' \<and>
        (\<forall>u' c'. code_count d' u' c' = code_count d u' c' - (if u' = u \<and> c' = c then 1 else 0))
    | Inl e \<Rightarrow> if e = SvcAuthErr service_ErrInvalidTOTPCode then d' = d \<and> code_count d u c = 0 else True"
proof (cases "mfaMethodRepository_FindByUser G u d")
  case (Inl e)
  then show ?thesis using assms(4) by (auto simp: MFAService_VerifyBackupCode_def)
next
  case (Inr ms)
  have "backup_loop (NewMFAMethodRepository G) now c ms d = (r, d')"
    using assms(4) Inr by (simp add: MFAService_VerifyBackupCode_def)
  from backup_loop_cases [OF this] show ?thesis
  proof (elim disjE conjE bexE exE)
    assume "r = Inl (SvcAuthErr service_ErrInvalidTOTPCode)" and "d' = d"
      and "\<forall>m\<in>set ms. mfa_Type m = ''totp'' \<longrightarrow> c \<notin> set (mfa_BackupCodes m)"
    then show ?thesis using code_absent [OF assms(1) Inr] by simp
  next
    fix m rest
    assume m: "m \<in> set ms" and ty: "mfa_Type m = ''totp''" and rest: "remove_code c (mfa_BackupCodes m) = Some rest"
      and upd: "MFAMethodRepository_Update (NewMFAMethodRepository G)
        (m\<lparr>mfa_BackupCodes := rest, mfa_LastUsedAt := Some now\<rparr>) d = (r, d')"
    obtain q where q: "q \<in> set (t_mfa_methods d)" "m = fromMFAMethodModel q" "mfm_UserID q = u"
      using database.FindByUser_rows [OF assms(1) Inr] m by auto
    show ?thesis
    proof (cases r)
      case (Inl e)
      then have "e \<noteq> SvcAuthErr service_ErrInvalidTOTPCode"
        using upd by (auto simp: mfaMethodRepository_Update_def split: prod.splits sum.splits if_splits)
      then show ?thesis using Inl by simp
    next
      case (Inr v)
      then show ?thesis
        using code_taken [OF assms(1,2,3) q(1,3), of c rest now d'] ty rest upd q(2) by (simp add: fromMFAMethodModel_def)
    qed
  qed
qed

definition mfa_db :: db where
  "mfa_db = empty_db\<lparr>t_mfa_methods := [\<lparr>mfm_ID = ''f1'', mfm_UserID = ''u1'', mfm_TenantID = ''t1'', mfm_Type = ''totp'',
     mfm_Name = ''phone'', mfm_Secret = ''s'', mfm_BackupCodes = json_Marshal_strings [''AAAA'', ''BBBB''],
     mfm_IsPrimary = True, mfm_VerifiedAt = None, mfm_LastUsedAt = None, mfm_CreatedAt = 0, mfm_UpdatedAt = 0\<rparr>,
     \<lparr>mfm_ID = ''f2'', mfm_UserID = ''u1'', mfm_TenantID = ''t1'', mfm_Type = ''totp'',
     mfm_Name = ''tablet'', mfm_Secret = ''s2'', mfm_BackupCodes = json_Marshal_strings [],
     mfm_IsPrimary = True, mfm_VerifiedAt = None, mfm_LastUsedAt = None, mfm_CreatedAt = 0, mfm_UpdatedAt = 0\<rparr>]\<rparr>"

lemma mem_mfa_methods [simp]: "gorm_mfa_methods mem_gorms = mem_gorm fill_mfa_method clash_mfa_method patch_mfa_method"
  by (simp add: mem_gorms_def)

lemma mfa_db_ok: "mfa_ids_distinct mfa_db" "\<forall>r\<in>set (t_mfa_methods mfa_db). mfm_ID r \<noteq> []"
  by (simp_all add: mfa_ids_distinct_def mfa_db_def)

lemma demo_backup:
  "\<exists>d'. MFAService_VerifyBackupCode (main_mfa mem_gorms) 9 ''u1'' ''AAAA'' mfa_db = (Inr (), d')"
  by (simp add: MFAService_VerifyBackupCode_def mfaMethodRepository_FindByUser_def mfaMethodRepository_Update_def
      mfa_db_def mem_gorm_def fromMFAMethodModel_def json_strings_roundtrip)

theorem backup_code_consumed_witness:
  "\<exists>d'. MFAService_VerifyBackupCode (main_mfa mem_gorms) 9 ''u1'' ''AAAA'' mfa_db = (Inr (), d') \<and>
     code_count mfa_db ''u1'' ''AAAA'' = 1 \<and> code_count d' ''u1'' ''AAAA'' = 0"
proof -
  obtain d' where v: "MFAService_VerifyBackupCode (main_mfa mem_gorms) 9 ''u1'' ''AAAA'' mfa_db = (Inr (), d')"
    using demo_backup ..
  have "code_count mfa_db ''u1'' ''AAAA'' = 1"
    by (simp add: code_count_def row_codes_def mfa_db_def json_strings_roundtrip)
  then show ?thesis using backup_code_consumed [OF mem_database mfa_db_ok v] v by auto
qed

text \<open>A new primary method does not replace the old one. After \<open>SetPrimaryMethod\<close>, successful or not,
  every method that was primary still is: the mapper's \<open>Updates\<close> does not store the cleared flag.\<close>

theorem set_primary_keeps_old:
  assumes "database G" and "MFAService_SetPrimaryMethod (main_mfa G) u i d = (r, d')"
    and "m \<in> set (t_mfa_methods d)" and "mfm_IsPrimary m" and "mfm_ID m \<noteq> []"
  shows "\<exists>m'\<in>set (t_mfa_methods d'). mfm_ID m' = mfm_ID m \<and> mfm_IsPrimary m'"
proof (cases "mfaMethodRepository_FindByUser G u d")
  case (Inl e)
  then show ?thesis using assms by (auto simp: MFAService_SetPrimaryMethod_def)
next
  case (Inr ms)
  then show ?thesis
    using database.primary_loop_keeps [OF assms(1), of i ms d r d' m] assms(2-5) by (simp add: MFAService_SetPrimaryMethod_def)
qed

theorem set_primary_keeps_old_witness:
  "\<exists>d'. MFAService_SetPrimaryMethod (main_mfa mem_gorms) ''u1'' ''f2'' mfa_db = (Inr (), d') \<and>
     (\<exists>m\<in>set (t_mfa_methods d'). mfm_ID m = ''f1'' \<and> mfm_IsPrimary m)"
proof -
  obtain d' where s: "MFAService_SetPrimaryMethod (main_mfa mem_gorms) ''u1'' ''f2'' mfa_db = (Inr (), d')"
    by (simp add: MFAService_SetPrimaryMethod_def mfaMethodRepository_FindByUser_def mfaMethodRepository_Update_def
        mfa_db_def mem_gorm_def fromMFAMethodModel_def json_strings_roundtrip patch_mfa_method_def toMFAMethodModel_def)
  show ?thesis using set_primary_keeps_old [OF mem_database s, of "hd (t_mfa_methods mfa_db)"] s
    by (simp add: mfa_db_def)
qed

text \<open>Without a primary method the verification panics. When the user has no primary method,
  \<open>VerifyTOTP\<close> never answers: it dereferences the missing method, unless the database failed.\<close>

theorem verify_totp_panics:
  assumes "database G" and "\<forall>m\<in>set (t_mfa_methods d). \<not> (mfm_UserID m = u \<and> mfm_IsPrimary m)"
  shows "MFAService_VerifyTOTP lib (main_mfa G) clock u code d = Panics \<or>
    (\<exists>e. mfaMethodRepository_FindPrimaryByUser G u d = Inl (GormErr e))"
proof (cases "g_First (gorm_mfa_methods G) (\<lambda>m. mfm_UserID m = u \<and> mfm_IsPrimary m) (t_mfa_methods d)")
  case (Inl e)
  then show ?thesis by (simp add: MFAService_VerifyTOTP_def mfaMethodRepository_FindPrimaryByUser_def)
next
  case (Inr m)
  then show ?thesis using gorm_table.First_hit [OF database.mfa_method_table [OF assms(1)]] assms(2) by blast
qed

definition demo_totp :: totp_lib where
  "demo_totp = \<lparr>totp_Generate = (\<lambda>issuer account size seed. Inr \<lparr>totp_Secret = seed, totp_URL = issuer @ account\<rparr>),
     totp_Validate = (\<lambda>now code secret. code = secret)\<rparr>"

theorem verify_totp_panics_witness:
  "MFAService_VerifyTOTP demo_totp (main_mfa mem_gorms) (1, 2) ''u2'' ''123456'' mfa_db = Panics"
proof -
  have "mfaMethodRepository_FindPrimaryByUser mem_gorms ''u2'' mfa_db = Inr None"
    by (simp add: mfaMethodRepository_FindPrimaryByUser_def mfa_db_def mem_gorm_def find_first_def)
  moreover have "\<forall>m\<in>set (t_mfa_methods mfa_db). \<not> (mfm_UserID m = ''u2'' \<and> mfm_IsPrimary m)" by (simp add: mfa_db_def)
  ultimately show ?thesis using verify_totp_panics [OF mem_database, of mfa_db "''u2''" demo_totp "(1, 2)" "''123456''"] by simp
qed

text \<open>Methods are removed by their owner. A successful removal deletes the method with that ID only, and
  it belonged to the caller.\<close>

theorem remove_own_method:
  assumes "database G" and "mfa_ids_distinct d"
    and "MFAService_RemoveMethod (main_mfa G) u i d = (Inr (), d')"
  shows "\<exists>m\<in>set (t_mfa_methods d). mfm_ID m = i \<and> mfm_UserID m = u \<and>
    set (t_mfa_methods d') = set (t_mfa_methods d) - {m}"
proof -
  obtain m where m: "mfaMethodRepository_FindByID G i d = Inr m" "mfa_UserID m = u"
      and del: "mfaMethodRepository_Delete G i d = (Inr (), d')"
    using assms(3) by (auto simp: MFAService_RemoveMethod_def split: sum.splits if_splits)
  obtain q where q: "q \<in> set (t_mfa_methods d)" "mfm_ID q = i" "mfm_UserID q = u"
    using m gorm_table.First_hit [OF database.mfa_method_table [OF assms(1)]]
    by (fastforce simp: mfaMethodRepository_FindByID_def fromMFAMethodModel_def split: sum.splits if_splits)
  have "set (t_mfa_methods d') = {r \<in> set (t_mfa_methods d). mfm_ID r \<noteq> i}"
    using del gorm_table.Delete_set [OF database.mfa_method_table [OF assms(1)]]
    by (auto simp: mfaMethodRepository_Delete_def split: prod.splits sum.splits if_splits)
  moreover have "mfm_ID r = i \<longleftrightarrow> r = q" if "r \<in> set (t_mfa_methods d)" for r
    using assms(2) q that by (auto simp: mfa_ids_distinct_def distinct_map inj_on_def)
  ultimately show ?thesis using q by (intro bexI [of _ q]) auto
qed

theorem remove_own_method_witness:
  "\<exists>d'. MFAService_RemoveMethod (main_mfa mem_gorms) ''u1'' ''f2'' mfa_db = (Inr (), d') \<and>
     card (set (t_mfa_methods d')) = 1"
proof -
  obtain d' where s: "MFAService_RemoveMethod (main_mfa mem_gorms) ''u1'' ''f2'' mfa_db = (Inr (), d')"
    by (simp add: MFAService_RemoveMethod_def mfaMethodRepository_FindByID_def mfaMethodRepository_Delete_def
        mfa_db_def mem_gorm_def find_first_def fromMFAMethodModel_def)
  from remove_own_method [OF mem_database mfa_db_ok(1) s] obtain m
    where "m \<in> set (t_mfa_methods mfa_db)" "set (t_mfa_methods d') = set (t_mfa_methods mfa_db) - {m}" by blast
  moreover have "card (set (t_mfa_methods mfa_db)) = 2" by (simp add: mfa_db_def)
  ultimately show ?thesis using s by (simp add: card_Diff_singleton)
qed

end
