(* ===== verification/Jwks.thy ===== *)
theory Jwks
  imports RepoIdp Credentials
begin

text \<open>
  service/jwks.go: the signing keys Hoviyat publishes as an identity provider. RSA, X.509, PEM and
  the RS256 side of golang-jwt are the parameter \<open>rsa_lib\<close>; \<open>rsa_library\<close> states what is relied on.
  The one-slot channel used as a mutex is the flag \<open>js_free\<close>: an operation that receives from it
  while it is empty never returns, which is the outcome \<open>Blocks\<close>.
\<close>

type_synonym map_claims = "(string \<times> any) list"

record ('k, 'p) rsa_lib =
  rsa_GenerateKey :: "string \<Rightarrow> err + 'k"
  rsa_PublicKey :: "'k \<Rightarrow> 'p"
  rsa_of :: "'p \<Rightarrow> (string \<times> string) option"
  x509_MarshalPKCS1PrivateKey :: "'k \<Rightarrow> string"
  x509_ParsePKCS1PrivateKey :: "string \<Rightarrow> err + 'k"
  x509_MarshalPKIXPublicKey :: "'p \<Rightarrow> err + string"
  x509_ParsePKIXPublicKey :: "string \<Rightarrow> err + 'p"
  pem_EncodeToMemory :: "string \<Rightarrow> string \<Rightarrow> string"
  pem_Decode :: "string \<Rightarrow> string option"
  jwt_SignRS256 :: "'k \<Rightarrow> string \<Rightarrow> map_claims \<Rightarrow> err + string"
  jwt_ParseUnverified :: "string \<Rightarrow> err + string option"
  jwt_Parse :: "string \<Rightarrow> (jwt_method \<Rightarrow> err + 'p) \<Rightarrow> time \<Rightarrow> err + (map_claims \<times> bool)"

record 'w JWKSService =
  js_keys :: "'w SigningKeyRepository"
  js_currentKey :: "SigningKey option"
  js_free :: bool

definition NewJWKSService :: "'w SigningKeyRepository \<Rightarrow> 'w JWKSService" where
  "NewJWKSService keys = \<lparr>js_keys = keys, js_currentKey = None, js_free = True\<rparr>"

definition generateKeyID :: "string \<Rightarrow> string" where
  "generateKeyID b = ''kid_'' @ take 16 (base64_URLEncode b)"

text \<open>The random inputs of a rotation: the key's seed and the bytes of the key ID; then the clock.\<close>

type_synonym rotation = "string \<times> string \<times> time"

text \<open>The record of a fresh key pair.\<close>

definition new_signing_key :: "('k, 'p) rsa_lib \<Rightarrow> string \<Rightarrow> time \<Rightarrow> 'k \<Rightarrow> string \<Rightarrow> SigningKey" where
  "new_signing_key lib keyID now privateKey pubBytes = \<lparr>
     sk_ID = [], sk_KeyID = keyID, sk_Algorithm = ''RS256'',
     sk_PrivateKey = pem_EncodeToMemory lib ''RSA PRIVATE KEY'' (x509_MarshalPKCS1PrivateKey lib privateKey),
     sk_PublicKey = pem_EncodeToMemory lib ''PUBLIC KEY'' pubBytes, sk_IsActive = True, sk_CreatedAt = zero_time,
     sk_ExpiresAt = Some (now + 90 * 24 * time_Hour)\<rparr>"

text \<open>The body of \<open>RotateKey\<close> with the mutex held. The current key is marked inactive in memory first.\<close>

definition deactivate_current :: "'w JWKSService \<Rightarrow> 'w \<Rightarrow> (err + unit) \<times> 'w JWKSService \<times> 'w" where
  "deactivate_current s w =
     (case js_currentKey s of
        None \<Rightarrow> (Inr (), s, w)
      | Some k \<Rightarrow>
          (case SigningKeyRepository_Update (js_keys s) (k\<lparr>sk_IsActive := False\<rparr>) w of
             (r, w1) \<Rightarrow> (r, s\<lparr>js_currentKey := Some (k\<lparr>sk_IsActive := False\<rparr>)\<rparr>, w1)))"

definition rotate_locked :: "('k, 'p) rsa_lib \<Rightarrow> rotation \<Rightarrow> 'w JWKSService \<Rightarrow> 'w \<Rightarrow>
    (err + unit) \<times> 'w JWKSService \<times> 'w" where
  "rotate_locked lib rnd s w =
     (case rnd of (seed, kidBytes, now) \<Rightarrow>
       (case deactivate_current s w of
          (Inl e, s1, w1) \<Rightarrow> (Inl e, s1, w1)
        | (Inr u, s1, w1) \<Rightarrow>
            (case rsa_GenerateKey lib seed of
               Inl e \<Rightarrow> (Inl (FmtErr ''generate key''), s1, w1)
             | Inr privateKey \<Rightarrow>
                 (case x509_MarshalPKIXPublicKey lib (rsa_PublicKey lib privateKey) of
                    Inl e \<Rightarrow> (Inl (FmtErr ''marshal public key''), s1, w1)
                  | Inr pubBytes \<Rightarrow>
                      (case SigningKeyRepository_Create (js_keys s)
                              (new_signing_key lib (generateKeyID kidBytes) now privateKey pubBytes) w1 of
                         (Inl e, w2) \<Rightarrow> (Inl e, s1, w2)
                       | (Inr signingKey, w2) \<Rightarrow> (Inr (), s1\<lparr>js_currentKey := Some signingKey\<rparr>, w2))))))"

definition JWKSService_RotateKey :: "('k, 'p) rsa_lib \<Rightarrow> rotation \<Rightarrow> 'w JWKSService \<Rightarrow> 'w \<Rightarrow>
    ((err + unit) \<times> 'w JWKSService \<times> 'w) outcome" where
  "JWKSService_RotateKey lib rnd s w =
     (if \<not> js_free s then Blocks
      else case rotate_locked lib rnd (s\<lparr>js_free := False\<rparr>) w of
             (r, s1, w1) \<Rightarrow> Returns (r, s1\<lparr>js_free := True\<rparr>, w1))"

definition JWKSService_Initialize :: "('k, 'p) rsa_lib \<Rightarrow> rotation \<Rightarrow> time \<Rightarrow> 'w JWKSService \<Rightarrow> 'w \<Rightarrow>
    ((err + unit) \<times> 'w JWKSService \<times> 'w) outcome" where
  "JWKSService_Initialize lib rnd now s w =
     (case SigningKeyRepository_FindActive (js_keys s) now w of
        Inl e \<Rightarrow> Returns (Inl e, s, w)
      | Inr (Some activeKey) \<Rightarrow> Returns (Inr (), s\<lparr>js_currentKey := Some activeKey\<rparr>, w)
      | Inr None \<Rightarrow> JWKSService_RotateKey lib rnd s w)"

definition key_valid :: "time \<Rightarrow> SigningKey \<Rightarrow> bool" where
  "key_valid now k \<longleftrightarrow> (case sk_ExpiresAt k of None \<Rightarrow> True | Some t \<Rightarrow> time_Before now t)"

text \<open>The clock is read for the current key, by the repository, and for the key it found.\<close>

definition JWKSService_GetActiveKey :: "('k, 'p) rsa_lib \<Rightarrow> rotation \<Rightarrow> time \<times> time \<times> time \<Rightarrow> 'w JWKSService \<Rightarrow> 'w \<Rightarrow>
    ((err + SigningKey option) \<times> 'w JWKSService \<times> 'w) outcome" where
  "JWKSService_GetActiveKey lib rnd clock s w =
     (case clock of (now1, now2, now3) \<Rightarrow>
       (if \<not> js_free s then Blocks
        else let s1 = s\<lparr>js_free := False\<rparr>;
                 unlock = (\<lambda>r s' w'. Returns (r, s'\<lparr>js_free := True\<rparr>, w')) in
          if (case js_currentKey s of None \<Rightarrow> False | Some k \<Rightarrow> key_valid now1 k)
          then unlock (Inr (js_currentKey s)) s1 w
          else (case SigningKeyRepository_FindActive (js_keys s) now2 w of
                  Inl e \<Rightarrow> unlock (Inl e) s1 w
                | Inr found \<Rightarrow>
                    (if (case found of None \<Rightarrow> False | Some k \<Rightarrow> key_valid now3 k)
                     then unlock (Inr found) (s1\<lparr>js_currentKey := found\<rparr>) w
                     else case JWKSService_RotateKey lib rnd s1 w of
                            Returns (Inl e, s2, w2) \<Rightarrow> unlock (Inl e) s2 w2
                          | Returns (Inr u, s2, w2) \<Rightarrow> unlock (Inr (js_currentKey s2)) s2 w2
                          | Panics \<Rightarrow> Panics
                          | Blocks \<Rightarrow> Blocks))))"

definition JWKSService_GetKeyByID :: "'w JWKSService \<Rightarrow> string \<Rightarrow> 'w \<Rightarrow> err + SigningKey option" where
  "JWKSService_GetKeyByID s keyID w = SigningKeyRepository_FindByKeyID (js_keys s) keyID w"

section \<open>The published key set\<close>

record jwk =
  jwk_kid :: string
  jwk_alg :: string
  jwk_n :: string
  jwk_e :: string

text \<open>One round of the loop: nothing for a key that is skipped.\<close>

definition jwk_of :: "('k, 'p) rsa_lib \<Rightarrow> time \<Rightarrow> SigningKey \<Rightarrow> jwk option" where
  "jwk_of lib now k =
     (if \<not> sk_IsActive k \<and> (case sk_ExpiresAt k of None \<Rightarrow> False | Some t \<Rightarrow> time_After now t) then None
      else case pem_Decode lib (sk_PublicKey k) of
             None \<Rightarrow> None
           | Some block \<Rightarrow>
               (case x509_ParsePKIXPublicKey lib block of
                  Inl e \<Rightarrow> None
                | Inr pubKey \<Rightarrow>
                    (case rsa_of lib pubKey of
                       None \<Rightarrow> None
                     | Some (n, e) \<Rightarrow> Some \<lparr>jwk_kid = sk_KeyID k, jwk_alg = sk_Algorithm k,
                         jwk_n = base64_RawURLEncode n, jwk_e = base64_RawURLEncode e\<rparr>)))"

text \<open>The clock is read anew for each key.\<close>

fun jwks_loop :: "('k, 'p) rsa_lib \<Rightarrow> (nat \<Rightarrow> time) \<Rightarrow> nat \<Rightarrow> SigningKey list \<Rightarrow> jwk list" where
  "jwks_loop lib clock i [] = []"
| "jwks_loop lib clock i (k # ks) =
     (case jwk_of lib (clock i) k of None \<Rightarrow> [] | Some j \<Rightarrow> [j]) @ jwks_loop lib clock (Suc i) ks"

definition JWKSService_GetJWKS :: "('k, 'p) rsa_lib \<Rightarrow> (nat \<Rightarrow> time) \<Rightarrow> 'w JWKSService \<Rightarrow> 'w \<Rightarrow> err + jwk list" where
  "JWKSService_GetJWKS lib clock s w =
     (case SigningKeyRepository_List (js_keys s) w of
        Inl e \<Rightarrow> Inl e
      | Inr keys \<Rightarrow> Inr (jwks_loop lib clock 0 keys))"

section \<open>Signing and verifying\<close>

definition JWKSService_SignToken :: "('k, 'p) rsa_lib \<Rightarrow> rotation \<Rightarrow> time \<times> time \<times> time \<Rightarrow> 'w JWKSService \<Rightarrow>
    map_claims \<Rightarrow> 'w \<Rightarrow> ((err + string) \<times> 'w JWKSService \<times> 'w) outcome" where
  "JWKSService_SignToken lib rnd clock s claims w =
     (case JWKSService_GetActiveKey lib rnd clock s w of
        Blocks \<Rightarrow> Blocks
      | Panics \<Rightarrow> Panics
      | Returns (Inl e, s1, w1) \<Rightarrow> Returns (Inl e, s1, w1)
      | Returns (Inr None, s1, w1) \<Rightarrow> Returns (Inl (SvcOpsErr service_ErrNoActiveSigningKey), s1, w1)
      | Returns (Inr (Some activeKey), s1, w1) \<Rightarrow>
          Returns (case pem_Decode lib (sk_PrivateKey activeKey) of
              None \<Rightarrow> Inl (FmtErr ''invalid private key'')
            | Some block \<Rightarrow>
                (case x509_ParsePKCS1PrivateKey lib block of
                   Inl e \<Rightarrow> Inl e
                 | Inr privateKey \<Rightarrow> jwt_SignRS256 lib privateKey (sk_KeyID activeKey) claims), s1, w1))"

definition rs256_keyfunc :: "'p \<Rightarrow> jwt_method \<Rightarrow> err + 'p" where
  "rs256_keyfunc pubKey m =
     (if m = SigningMethodOther ''RSA'' then Inr pubKey else Inl (FmtErr ''unexpected signing method''))"

definition JWKSService_VerifyToken :: "('k, 'p) rsa_lib \<Rightarrow> 'w JWKSService \<Rightarrow> time \<Rightarrow> string \<Rightarrow> 'w \<Rightarrow>
    err + (map_claims \<times> bool)" where
  "JWKSService_VerifyToken lib s now tokenString w =
     (case jwt_ParseUnverified lib tokenString of
        Inl e \<Rightarrow> Inl e
      | Inr None \<Rightarrow> Inl (FmtErr ''missing kid in token header'')
      | Inr (Some kid) \<Rightarrow>
          (case SigningKeyRepository_FindByKeyID (js_keys s) kid w of
             Inl e \<Rightarrow> Inl (FmtErr ''signing key not found'')
           | Inr None \<Rightarrow> Inl (FmtErr ''signing key not found'')
           | Inr (Some signingKey) \<Rightarrow>
               (case pem_Decode lib (sk_PublicKey signingKey) of
                  None \<Rightarrow> Inl (FmtErr ''invalid public key'')
                | Some block \<Rightarrow>
                    (case x509_ParsePKIXPublicKey lib block of
                       Inl e \<Rightarrow> Inl e
                     | Inr pubKey \<Rightarrow> jwt_Parse lib tokenString (rs256_keyfunc pubKey) now))))"

text \<open>The background loop: one rotation for each tick, errors printed and dropped.\<close>

fun key_rotation_ticks :: "('k, 'p) rsa_lib \<Rightarrow> rotation list \<Rightarrow> 'w JWKSService \<Rightarrow> 'w \<Rightarrow>
    ('w JWKSService \<times> 'w) outcome" where
  "key_rotation_ticks lib [] s w = Returns (s, w)"
| "key_rotation_ticks lib (rnd # rnds) s w =
     (case JWKSService_RotateKey lib rnd s w of
        Returns (r, s1, w1) \<Rightarrow> key_rotation_ticks lib rnds s1 w1
      | Panics \<Rightarrow> Panics
      | Blocks \<Rightarrow> Blocks)"

section \<open>What is relied on\<close>

text \<open>PEM and X.509 read back what they wrote; a token carries its kid, and verifies under the public
  half of the key that signed it as long as it has not expired (\<open>not_expired\<close>).\<close>

locale rsa_library =
  fixes lib :: "('k, 'p) rsa_lib"
    and not_expired :: "time \<Rightarrow> map_claims \<Rightarrow> bool"
  assumes pem_roundtrip: "pem_Decode lib (pem_EncodeToMemory lib ty bytes) = Some bytes"
    and private_roundtrip: "x509_ParsePKCS1PrivateKey lib (x509_MarshalPKCS1PrivateKey lib k) = Inr k"
    and public_roundtrip: "x509_MarshalPKIXPublicKey lib p = Inr b \<Longrightarrow> x509_ParsePKIXPublicKey lib b = Inr p"
    and rsa_public: "rsa_of lib (rsa_PublicKey lib k) \<noteq> None"
    and signed_kid: "jwt_SignRS256 lib k kid c = Inr tok \<Longrightarrow> jwt_ParseUnverified lib tok = Inr (Some kid)"
    and signed_parse: "jwt_SignRS256 lib k kid c = Inr tok \<Longrightarrow> not_expired now c \<Longrightarrow>
        kf (SigningMethodOther ''RSA'') = Inr (rsa_PublicKey lib k) \<Longrightarrow> jwt_Parse lib tok kf now = Inr (c, True)"


text \<open>The interface holds of a library that writes keys as they are and signs by quoting: claims
  other than texts are refused.\<close>

definition text_claims :: "map_claims \<Rightarrow> string list option" where
  "text_claims c =
     (if list_all (\<lambda>(k, v). case v of AStr s \<Rightarrow> True | _ \<Rightarrow> False) c
      then Some (concat (map (\<lambda>(k, v). case v of AStr s \<Rightarrow> [k, s] | _ \<Rightarrow> []) c)) else None)"

fun claims_of :: "string list \<Rightarrow> map_claims" where
  "claims_of (k # s # r) = (k, AStr s) # claims_of r"
| "claims_of _ = []"

lemma claims_of_text: "text_claims c = Some xs \<Longrightarrow> claims_of xs = c"
proof (induction c arbitrary: xs)
  case Nil
  then show ?case by (simp add: text_claims_def)
next
  case (Cons kv c)
  then show ?case by (cases kv) (auto simp: text_claims_def split: any.splits if_splits)
qed

definition plain_rsa :: "(string, string) rsa_lib" where
  "plain_rsa = \<lparr>rsa_GenerateKey = Inr, rsa_PublicKey = (\<lambda>k. k), rsa_of = (\<lambda>p. Some (p, ''e'')),
     x509_MarshalPKCS1PrivateKey = (\<lambda>k. k), x509_ParsePKCS1PrivateKey = Inr,
     x509_MarshalPKIXPublicKey = Inr, x509_ParsePKIXPublicKey = Inr,
     pem_EncodeToMemory = (\<lambda>ty b. b), pem_Decode = Some,
     jwt_SignRS256 = (\<lambda>k kid c. case text_claims c of
         None \<Rightarrow> Inl (LibErr ''unsupported claim'')
       | Some xs \<Rightarrow> Inr (json_Marshal_strings (kid # k # xs))),
     jwt_ParseUnverified = (\<lambda>t. Inr (case json_Unmarshal_strings t of kid # r \<Rightarrow> Some kid | [] \<Rightarrow> None)),
     jwt_Parse = (\<lambda>t kf now. case json_Unmarshal_strings t of
         kid # k # xs \<Rightarrow> (if kf (SigningMethodOther ''RSA'') = Inr k then Inr (claims_of xs, True)
                        else Inl (LibErr ''token is unverifiable''))
       | _ \<Rightarrow> Inl (LibErr ''token is malformed''))\<rparr>"

interpretation plain_rsa: rsa_library plain_rsa "\<lambda>now c. True"
  by unfold_locales
    (auto simp: plain_rsa_def json_strings_roundtrip claims_of_text split: option.splits)

section \<open>Facts\<close>

text \<open>main.go: \<open>NewJWKSService(signingKeyRepo)\<close>.\<close>

definition main_jwks :: "gorms \<Rightarrow> db JWKSService" where
  "main_jwks G = NewJWKSService (NewSigningKeyRepository G)"

lemma main_jwks_simps [simp]:
  "js_keys (main_jwks G) = NewSigningKeyRepository G" "js_free (main_jwks G)" "js_currentKey (main_jwks G) = None"
  by (simp_all add: main_jwks_def NewJWKSService_def)

lemma signing_key_repository_simps [simp]:
  "SigningKeyRepository_Create (NewSigningKeyRepository G) = signingKeyRepository_Create G"
  "SigningKeyRepository_FindActive (NewSigningKeyRepository G) = signingKeyRepository_FindActive G"
  "SigningKeyRepository_FindByKeyID (NewSigningKeyRepository G) = signingKeyRepository_FindByKeyID G"
  "SigningKeyRepository_List (NewSigningKeyRepository G) = signingKeyRepository_List G"
  "SigningKeyRepository_Update (NewSigningKeyRepository G) = signingKeyRepository_Update G"
  by (simp_all add: NewSigningKeyRepository_def)

definition usable :: "time \<Rightarrow> SigningKey option \<Rightarrow> bool" where
  "usable now k \<longleftrightarrow> (case k of None \<Rightarrow> False | Some k' \<Rightarrow> key_valid now k')"

lemma RotateKey_returns:
  "JWKSService_RotateKey lib rnd s w = Blocks \<longleftrightarrow> \<not> js_free s"
  "JWKSService_RotateKey lib rnd s w \<noteq> Panics"
  by (auto simp: JWKSService_RotateKey_def split: prod.splits)

lemma GetActiveKey_blocks:
  "JWKSService_GetActiveKey lib rnd (n1, n2, n3) s w = Blocks \<longleftrightarrow>
   \<not> js_free s \<or> \<not> usable n1 (js_currentKey s) \<and>
     (\<exists>k. SigningKeyRepository_FindActive (js_keys s) n2 w = Inr k \<and> \<not> usable n3 k)"
  by (auto simp: JWKSService_GetActiveKey_def JWKSService_RotateKey_def usable_def Let_def
      split: sum.splits option.splits)

text \<open>A rotation keeps the repository and, when it answers, releases the mutex.\<close>

lemma rotate_locked_keys: "rotate_locked lib rnd s w = (r, s', w') \<Longrightarrow> js_keys s' = js_keys s \<and> js_free s' = js_free s"
  by (auto simp: rotate_locked_def deactivate_current_def split: prod.splits sum.splits option.splits)

lemma RotateKey_keys:
  "JWKSService_RotateKey lib rnd s w = Returns (r, s', w') \<Longrightarrow> js_keys s' = js_keys s \<and> js_free s'"
  using rotate_locked_keys [of lib rnd "s\<lparr>js_free := False\<rparr>" w]
  by (auto simp: JWKSService_RotateKey_def split: if_splits prod.splits)

lemma GetActiveKey_world:
  "JWKSService_GetActiveKey lib rnd clock s w = Returns (r, s', w') \<Longrightarrow> w' = w"
  by (cases clock) (auto simp: JWKSService_GetActiveKey_def JWKSService_RotateKey_def Let_def
      split: if_splits sum.splits)

text \<open>A successful rotation: the old key's update, then the new key's row.\<close>

lemma RotateKey_ok:
  assumes "JWKSService_RotateKey lib (seed, kb, now) s d = Returns (Inr (), s', d')"
    and "js_keys s = NewSigningKeyRepository G"
  obtains priv pub k d1 where "rsa_GenerateKey lib seed = Inr priv"
    and "x509_MarshalPKIXPublicKey lib (rsa_PublicKey lib priv) = Inr pub"
    and "signingKeyRepository_Create G (new_signing_key lib (generateKeyID kb) now priv pub) d1 = (Inr k, d')"
    and "js_currentKey s' = Some k"
  using assms by (auto simp: JWKSService_RotateKey_def rotate_locked_def
      split: if_splits prod.splits sum.splits)

context database begin

lemma key_Create_ok:
  assumes "signingKeyRepository_Create G k d = (Inr k', d')"
  shows "sk_KeyID k' = sk_KeyID k \<and> sk_PrivateKey k' = sk_PrivateKey k \<and> sk_PublicKey k' = sk_PublicKey k \<and>
    sk_ExpiresAt k' = sk_ExpiresAt k \<and>
    (\<exists>m. t_signing_keys d' = t_signing_keys d @ [m] \<and> skm_KeyID m = sk_KeyID k \<and> skm_PublicKey m = sk_PublicKey k \<and>
       (\<forall>x\<in>set (t_signing_keys d). skm_KeyID x \<noteq> sk_KeyID k))"
proof -
  obtain m where c: "g_Create (gorm_signing_keys G) (toSigningKeyModel k) (t_signing_keys d) = (Inr m, t_signing_keys d')"
      and k': "k' = k\<lparr>sk_ID := skm_ID m, sk_CreatedAt := skm_CreatedAt m\<rparr>"
    using assms by (auto simp: signingKeyRepository_Create_def split: prod.splits sum.splits)
  from signing_key.Create_row [OF c] show ?thesis
    by (auto simp: k' same_signing_key_def toSigningKeyModel_def clash_signing_key_def)
qed

lemma key_find:
  assumes "signingKeyRepository_FindByKeyID G kid d = Inr (Some k)"
  shows "\<exists>m\<in>set (t_signing_keys d). skm_KeyID m = kid \<and> k = fromSigningKeyModel m"
  using assms by (auto simp: signingKeyRepository_FindByKeyID_def split: sum.splits if_splits dest!: signing_key.First_hit)

lemma key_find_missing:
  assumes "signingKeyRepository_FindByKeyID G kid d = Inr None" and "m \<in> set (t_signing_keys d)"
  shows "skm_KeyID m \<noteq> kid"
  using assms by (auto simp: signingKeyRepository_FindByKeyID_def split: sum.splits if_splits dest: signing_key.First_miss)

end

text \<open>Histories of the key store: \<open>n\<close> counts the successful rotations since the table was empty. A
  process may restart and adopt the active key; other operations leave the table alone.\<close>

inductive key_history :: "('k, 'p) rsa_lib \<Rightarrow> gorms \<Rightarrow> nat \<Rightarrow> db JWKSService \<Rightarrow> db \<Rightarrow> bool" for lib G where
  keys_start: "t_signing_keys d = [] \<Longrightarrow> key_history lib G 0 (main_jwks G) d"
| keys_rotate: "key_history lib G n s d \<Longrightarrow> JWKSService_RotateKey lib rnd s d = Returns (r, s', d') \<Longrightarrow>
    key_history lib G (case r of Inl e \<Rightarrow> n | Inr u \<Rightarrow> Suc n) s' d'"
| keys_get: "key_history lib G n s d \<Longrightarrow> JWKSService_GetActiveKey lib rnd clock s d = Returns (r, s', d') \<Longrightarrow>
    key_history lib G n s' d'"
| keys_restart: "key_history lib G n s d \<Longrightarrow> key_history lib G n (main_jwks G) d"
| keys_adopt: "key_history lib G n s d \<Longrightarrow> SigningKeyRepository_FindActive (js_keys s) now d = Inr (Some k) \<Longrightarrow>
    JWKSService_Initialize lib rnd now s d = Returns (r, s', d') \<Longrightarrow> key_history lib G n s' d'"
| keys_other: "key_history lib G n s d \<Longrightarrow> t_signing_keys d' = t_signing_keys d \<Longrightarrow> key_history lib G n s d'"

text \<open>A public key as rotations write it.\<close>

definition written_key :: "('k, 'p) rsa_lib \<Rightarrow> string \<Rightarrow> bool" where
  "written_key lib pem \<longleftrightarrow> (\<exists>k pub. x509_MarshalPKIXPublicKey lib (rsa_PublicKey lib k) = Inr pub \<and>
     pem = pem_EncodeToMemory lib ''PUBLIC KEY'' pub)"

definition keys_live :: "('k, 'p) rsa_lib \<Rightarrow> nat \<Rightarrow> db JWKSService \<Rightarrow> db \<Rightarrow> bool" where
  "keys_live lib n s d \<longleftrightarrow> length (t_signing_keys d) = n \<and>
     (\<forall>m\<in>set (t_signing_keys d). skm_IsActive m \<and> written_key lib (skm_PublicKey m)) \<and>
     (\<forall>k. js_currentKey s = Some k \<longrightarrow> written_key lib (sk_PublicKey k))"

context rsa_library begin

lemma written_jwk:
  assumes "written_key lib (sk_PublicKey k)" and "sk_IsActive k"
  shows "\<exists>j. jwk_of lib now k = Some j"
proof -
  obtain p b where b: "x509_MarshalPKIXPublicKey lib (rsa_PublicKey lib p) = Inr b"
      "sk_PublicKey k = pem_EncodeToMemory lib ''PUBLIC KEY'' b"
    using assms(1) by (auto simp: written_key_def)
  obtain n e where "rsa_of lib (rsa_PublicKey lib p) = Some (n, e)" using rsa_public [of p] by auto
  then show ?thesis using assms(2) b by (simp add: jwk_of_def pem_roundtrip public_roundtrip [OF b(1)])
qed

lemma jwks_loop_length:
  "\<forall>k\<in>set ks. written_key lib (sk_PublicKey k) \<and> sk_IsActive k \<Longrightarrow> length (jwks_loop lib clock i ks) = length ks"
proof (induction ks arbitrary: i)
  case (Cons k ks)
  then show ?case using written_jwk [of k "clock i"] by auto
qed simp

end

context database begin

lemma key_Update_rows:
  "signingKeyRepository_Update G k d = (r, d') \<Longrightarrow>
   \<exists>x. g_Updates (gorm_signing_keys G) (\<lambda>m. skm_ID m = sk_ID k) (toSigningKeyModel k) (t_signing_keys d) = (x, t_signing_keys d')"
  by (auto simp: signingKeyRepository_Update_def split: prod.splits sum.splits)

lemma key_Update_live:
  assumes "signingKeyRepository_Update G k d = (r, d')" and "keys_live lib n s d" and "written_key lib (sk_PublicKey k)"
  shows "keys_live lib n s d'"
proof -
  obtain x where u: "g_Updates (gorm_signing_keys G) (\<lambda>m. skm_ID m = sk_ID k) (toSigningKeyModel k) (t_signing_keys d)
      = (x, t_signing_keys d')"
    using key_Update_rows [OF assms(1)] ..
  show ?thesis
  proof (cases x)
    case (Inl e)
    then have "t_signing_keys d' = t_signing_keys d" using u signing_key.Updates_fail by blast
    then show ?thesis using assms(2) by (simp add: keys_live_def)
  next
    case (Inr c)
    note u = u [unfolded Inr]
    have "skm_IsActive m \<and> written_key lib (skm_PublicKey m)" if m: "m \<in> set (t_signing_keys d')" for m
    proof -
      obtain q where q: "q \<in> set (t_signing_keys d)"
          "if skm_ID q = sk_ID k then kept_signing_key (patch_signing_key (toSigningKeyModel k) q) m else m = q"
        using signing_key.Updates_origin [OF u m] .
      have "skm_IsActive q" "written_key lib (skm_PublicKey q)" using q(1) assms(2) by (auto simp: keys_live_def)
      then show ?thesis using q(2) assms(3)
        by (auto simp: kept_signing_key_def patch_signing_key_def toSigningKeyModel_def split: if_splits)
    qed
    moreover have "length (t_signing_keys d') = length (t_signing_keys d)"
      using list_all2_lengthD [OF conjunct2 [OF signing_key.Updates_rows [OF u]]] by simp
    ultimately show ?thesis using assms(2) by (simp add: keys_live_def)
  qed
qed

lemma key_Create_live:
  assumes "signingKeyRepository_Create G (new_signing_key lib kid now priv pub) d = (r, d')" and "keys_live lib n s d"
    and "x509_MarshalPKIXPublicKey lib (rsa_PublicKey lib priv) = Inr pub"
  shows "case r of Inl e \<Rightarrow> keys_live lib n s d'
    | Inr k \<Rightarrow> keys_live lib (Suc n) (s\<lparr>js_currentKey := Some k\<rparr>) d'"
proof -
  let ?k = "new_signing_key lib kid now priv pub"
  have w: "written_key lib (sk_PublicKey ?k)" using assms(3) by (auto simp: written_key_def new_signing_key_def)
  obtain x t where c: "g_Create (gorm_signing_keys G) (toSigningKeyModel ?k) (t_signing_keys d) = (x, t)" by fastforce
  show ?thesis
  proof (cases x)
    case (Inl e)
    then have "r = Inl (GormErr e)" "d' = d\<lparr>t_signing_keys := t\<rparr>"
      using assms(1) c by (auto simp: signingKeyRepository_Create_def)
    moreover have "t = t_signing_keys d" using c Inl signing_key.Create_fail by blast
    ultimately show ?thesis using assms(2) by (simp add: keys_live_def)
  next
    case (Inr m)
    then obtain k where k: "r = Inr k" "t_signing_keys d' = t" using assms(1) c by (auto simp: signingKeyRepository_Create_def)
    have m: "skm_IsActive m" "skm_PublicKey m = sk_PublicKey ?k" "t = t_signing_keys d @ [m]"
      using signing_key.Create_row [OF c [unfolded Inr]]
      by (simp_all add: same_signing_key_def toSigningKeyModel_def new_signing_key_def)
    have "sk_PublicKey k = sk_PublicKey ?k" using key_Create_ok assms(1) k(1) by blast
    then show ?thesis using m assms(2) w k by (auto simp: keys_live_def)
  qed
qed

lemma deactivate_live:
  assumes "deactivate_current s d = (x, s1, d1)" and "keys_live lib n s d" and "js_keys s = NewSigningKeyRepository G"
  shows "keys_live lib n s1 d1 \<and> js_keys s1 = NewSigningKeyRepository G"
proof (cases "js_currentKey s")
  case None
  then show ?thesis using assms by (simp add: deactivate_current_def)
next
  case (Some k)
  have y: "signingKeyRepository_Update G (k\<lparr>sk_IsActive := False\<rparr>) d = (x, d1)"
      "s1 = s\<lparr>js_currentKey := Some (k\<lparr>sk_IsActive := False\<rparr>)\<rparr>"
    using assms(1,3) Some by (simp_all add: deactivate_current_def split: prod.splits)
  have w: "written_key lib (sk_PublicKey (k\<lparr>sk_IsActive := False\<rparr>))"
    using assms(2) Some by (simp add: keys_live_def)
  have "keys_live lib n s d1" by (rule key_Update_live [OF y(1) assms(2) w])
  then show ?thesis using w y(2) assms(3) by (simp add: keys_live_def)
qed

lemma rotate_locked_live:
  assumes r: "rotate_locked lib (seed, kb, now) s d = (r, s', d')" and "keys_live lib n s d"
    and keys: "js_keys s = NewSigningKeyRepository G"
  shows "keys_live lib (case r of Inl e \<Rightarrow> n | Inr u \<Rightarrow> Suc n) s' d'"
proof -
  obtain x s1 d1 where u: "deactivate_current s d = (x, s1, d1)" using prod_cases3 by blast
  note live = deactivate_live [OF u assms(2) keys]
  show ?thesis
  proof (cases "\<exists>v priv pub. x = Inr v \<and> rsa_GenerateKey lib seed = Inr priv \<and>
      x509_MarshalPKIXPublicKey lib (rsa_PublicKey lib priv) = Inr pub")
    case False
    then have "keys_live lib n s' d' \<and> (\<exists>e. r = Inl e)"
      using r u live by (auto simp: rotate_locked_def split: sum.splits)
    then show ?thesis by auto
  next
    case True
    then obtain v priv pub where m: "x = Inr v" "rsa_GenerateKey lib seed = Inr priv"
        "x509_MarshalPKIXPublicKey lib (rsa_PublicKey lib priv) = Inr pub" by blast
    obtain y d2 where c: "signingKeyRepository_Create G (new_signing_key lib (generateKeyID kb) now priv pub) d1 = (y, d2)"
      by fastforce
    from key_Create_live [OF c conjunct1 [OF live] m(3)] show ?thesis
      using r u m c keys by (cases y) (auto simp: rotate_locked_def)
  qed
qed

lemma RotateKey_live:
  assumes "JWKSService_RotateKey lib rnd s d = Returns (r, s', d')" and "keys_live lib n s d"
    and "js_keys s = NewSigningKeyRepository G"
  shows "keys_live lib (case r of Inl e \<Rightarrow> n | Inr u \<Rightarrow> Suc n) s' d'"
proof -
  obtain seed kb now where rnd: "rnd = (seed, kb, now)" using prod_cases3 by blast
  obtain s1 where l: "rotate_locked lib (seed, kb, now) (s\<lparr>js_free := False\<rparr>) d = (r, s1, d')"
      and s': "s' = s1\<lparr>js_free := True\<rparr>"
    using assms(1) rnd by (auto simp: JWKSService_RotateKey_def split: if_splits prod.splits)
  have live: "keys_live lib n (s\<lparr>js_free := False\<rparr>) d" using assms(2) by (simp add: keys_live_def)
  have keys: "js_keys (s\<lparr>js_free := False\<rparr>) = NewSigningKeyRepository G" using assms(3) by simp
  from rotate_locked_live [OF l live keys] show ?thesis by (cases r) (simp_all add: s' keys_live_def)
qed

lemma FindActive_written:
  assumes "signingKeyRepository_FindActive G now d = Inr (Some k)" and "keys_live lib n s d"
  shows "written_key lib (sk_PublicKey k)"
  using assms by (auto simp: signingKeyRepository_FindActive_def keys_live_def fromSigningKeyModel_def
      split: sum.splits if_splits dest!: signing_key.First_hit)

lemma GetActiveKey_steps:
  assumes "JWKSService_GetActiveKey lib rnd clock s d = Returns (r, s', d')"
  shows "d' = d \<and> js_keys s' = js_keys s \<and> js_free s' \<and> (js_currentKey s' = js_currentKey s \<or>
    (\<exists>k now. js_currentKey s' = Some k \<and> SigningKeyRepository_FindActive (js_keys s) now d = Inr (Some k)))"
  using assms by (cases clock)
    (auto simp: JWKSService_GetActiveKey_def JWKSService_RotateKey_def Let_def split: if_splits sum.splits option.splits)

lemma key_history_live:
  "key_history lib G n s d \<Longrightarrow> js_keys s = NewSigningKeyRepository G \<and> keys_live lib n s d"
proof (induction rule: key_history.induct)
  case (keys_start d)
  then show ?case by (simp add: keys_live_def)
next
  case (keys_rotate n s d rnd r s' d')
  then show ?case using RotateKey_live RotateKey_keys by metis
next
  case (keys_get n s d rnd clock r s' d')
  then show ?case using GetActiveKey_steps [OF keys_get(2)] FindActive_written
    by (fastforce simp: keys_live_def)
next
  case (keys_restart n s d)
  then show ?case by (simp add: keys_live_def)
next
  case (keys_adopt n s d now k rnd r s' d')
  then show ?case using FindActive_written [of now d k lib n s]
    by (auto simp: JWKSService_Initialize_def keys_live_def)
next
  case (keys_other n s d d')
  then show ?case by (simp add: keys_live_def)
qed

end

section \<open>Properties\<close>

text \<open>C20: When signing never answers. \<open>SignToken\<close> blocks exactly if somebody holds the mutex, or the cached key is
  missing or expired and the repository answers without a usable key: \<open>GetActiveKey\<close> then calls
  \<open>RotateKey\<close> while it holds the mutex. It never panics.\<close>

theorem sign_token_blocks_iff:
  "(JWKSService_SignToken lib rnd (n1, n2, n3) s claims w = Blocks \<longleftrightarrow>
      (if js_free s then \<not> usable n1 (js_currentKey s) \<and>
        (\<exists>k. SigningKeyRepository_FindActive (js_keys s) n2 w = Inr k \<and> \<not> usable n3 k) else True)) \<and>
   JWKSService_SignToken lib rnd (n1, n2, n3) s claims w \<noteq> Panics"
proof -
  have "JWKSService_GetActiveKey lib rnd (n1, n2, n3) s w \<noteq> Panics"
    by (auto simp: JWKSService_GetActiveKey_def JWKSService_RotateKey_def Let_def split: sum.splits)
  moreover have "JWKSService_SignToken lib rnd (n1, n2, n3) s claims w = Blocks \<longleftrightarrow>
      JWKSService_GetActiveKey lib rnd (n1, n2, n3) s w = Blocks"
    "JWKSService_SignToken lib rnd (n1, n2, n3) s claims w = Panics \<longleftrightarrow>
      JWKSService_GetActiveKey lib rnd (n1, n2, n3) s w = Panics"
    by (auto simp: JWKSService_SignToken_def split: outcome.splits sum.splits option.splits)
  ultimately show ?thesis by (simp add: GetActiveKey_blocks)
qed

text \<open>C22: A signing key is never retired. Whatever rotations, restarts and reads there were, the published key set
  holds one key for every successful rotation since the table was empty, expired ones included:
  the mapper's \<open>Updates\<close> does not store the cleared \<open>IsActive\<close>.\<close>

theorem every_key_stays_published:
  assumes "database G" and "rsa_library lib not_expired" and "key_history lib G n s d"
    and "JWKSService_GetJWKS lib clock s d = Inr js"
  shows "length js = n"
proof -
  note live = database.key_history_live [OF assms(1,3)]
  obtain ms where ms: "g_Find (gorm_signing_keys G) (\<lambda>m. True) (t_signing_keys d) = Inr ms"
      and js: "js = jwks_loop lib clock 0 (map fromSigningKeyModel ms)"
    using assms(4) live by (auto simp: JWKSService_GetJWKS_def signingKeyRepository_List_def split: sum.splits)
  have rows: "mset ms = mset (t_signing_keys d)"
    using gorm_table.Find_rows [OF database.signing_key_table [OF assms(1)] ms] by simp
  have "\<forall>m\<in>set ms. skm_IsActive m \<and> written_key lib (skm_PublicKey m)"
    using live mset_eq_setD [OF rows] by (auto simp: keys_live_def)
  then have "length js = length ms"
    using rsa_library.jwks_loop_length [OF assms(2), of "map fromSigningKeyModel ms"] js
    by (simp add: fromSigningKeyModel_def)
  then show ?thesis using live mset_eq_length [OF rows] by (simp add: keys_live_def)
qed

lemma mem_signing_keys [simp]:
  "gorm_signing_keys mem_gorms = mem_gorm fill_signing_key clash_signing_key patch_signing_key"
  by (simp add: mem_gorms_def)

lemma kids_differ: "generateKeyID ''0123456789abcdef'' \<noteq> generateKeyID ''fedcba9876543210''"
  by code_simp

lemma generateKeyID_not_Nil: "generateKeyID b \<noteq> []"
  by (simp add: generateKeyID_def)

text \<open>Two rotations, the second after the first key expired.\<close>

lemma two_rotations:
  "\<exists>s1 d1 s2 d2 js. JWKSService_RotateKey plain_rsa (''p'', ''0123456789abcdef'', 0) (main_jwks mem_gorms) empty_db = Returns (Inr (), s1, d1) \<and>
     JWKSService_RotateKey plain_rsa (''q'', ''fedcba9876543210'', 100 * 24 * time_Hour) s1 d1 = Returns (Inr (), s2, d2) \<and>
     JWKSService_GetJWKS plain_rsa (\<lambda>i. 100 * 24 * time_Hour) s2 d2 = Inr js"
  by (simp add: JWKSService_RotateKey_def rotate_locked_def deactivate_current_def plain_rsa_def main_jwks_def
      NewJWKSService_def signingKeyRepository_Create_def signingKeyRepository_Update_def mem_gorm_def empty_db_def
      Let_def kids_differ generateKeyID_not_Nil fresh_id_def show_nat.simps char_of_def bit_simps new_signing_key_def toSigningKeyModel_def clash_signing_key_def fill_signing_key_def
      patch_signing_key_def JWKSService_GetJWKS_def signingKeyRepository_List_def)

theorem every_key_stays_published_witness:
  "\<exists>s d js. key_history plain_rsa mem_gorms 2 s d \<and>
     JWKSService_GetJWKS plain_rsa (\<lambda>i. 100 * 24 * time_Hour) s d = Inr js \<and> length js = 2"
proof -
  obtain s1 d1 s2 d2 js
    where r1: "JWKSService_RotateKey plain_rsa (''p'', ''0123456789abcdef'', 0) (main_jwks mem_gorms) empty_db = Returns (Inr (), s1, d1)"
      and r2: "JWKSService_RotateKey plain_rsa (''q'', ''fedcba9876543210'', 100 * 24 * time_Hour) s1 d1 = Returns (Inr (), s2, d2)"
      and js: "JWKSService_GetJWKS plain_rsa (\<lambda>i. 100 * 24 * time_Hour) s2 d2 = Inr js"
    using two_rotations by blast
  have "key_history plain_rsa mem_gorms 0 (main_jwks mem_gorms) empty_db" by (rule keys_start) (simp add: empty_db_def)
  from keys_rotate [OF this r1] have "key_history plain_rsa mem_gorms 1 s1 d1" by simp
  from keys_rotate [OF this r2] have h: "key_history plain_rsa mem_gorms 2 s2 d2" by (simp add: numeral_2_eq_2)
  from every_key_stays_published [OF mem_database plain_rsa.rsa_library_axioms h js] h js show ?thesis by blast
qed

text \<open>C23: What a fresh key signs, the key store verifies. After a successful rotation, and until the key
  expires, a signed token verifies and gives back its claims, unless the database fails.\<close>

theorem sign_verify_roundtrip:
  assumes "database G" and "rsa_library lib not_expired"
    and "js_keys s = NewSigningKeyRepository G"
    and "JWKSService_RotateKey lib (seed, kb, now) s d = Returns (Inr (), s1, d1)"
    and "n1 < now + 90 * 24 * time_Hour"
    and "JWKSService_SignToken lib rnd (n1, n2, n3) s1 claims d1 = Returns (Inr tok, s2, d2)"
    and "not_expired n4 claims"
  shows "JWKSService_VerifyToken lib s2 n4 tok d2 = Inr (claims, True) \<or>
    (\<exists>kid e. signingKeyRepository_FindByKeyID G kid d2 = Inl (GormErr e))"
proof -
  note lib = assms(2)
  obtain priv pub k d0 where g: "x509_MarshalPKIXPublicKey lib (rsa_PublicKey lib priv) = Inr pub"
      and c: "signingKeyRepository_Create G (new_signing_key lib (generateKeyID kb) now priv pub) d0 = (Inr k, d1)"
      and cur: "js_currentKey s1 = Some k"
    using RotateKey_ok [OF assms(4,3)] .
  note row = database.key_Create_ok [OF assms(1) c]
  have "key_valid n1 k" using row assms(5) by (simp add: key_valid_def new_signing_key_def time_Before_def)
  then have "JWKSService_GetActiveKey lib rnd (n1, n2, n3) s1 d1 = Returns (Inr (Some k), s1, d1)"
    using cur RotateKey_keys [OF assms(4)] by (simp add: JWKSService_GetActiveKey_def Let_def)
  then have sign: "jwt_SignRS256 lib priv (sk_KeyID k) claims = Inr tok" and st: "s2 = s1" "d2 = d1"
    using assms(6) row
    by (simp_all add: JWKSService_SignToken_def new_signing_key_def rsa_library.pem_roundtrip [OF lib]
        rsa_library.private_roundtrip [OF lib])
  have keys: "js_keys s1 = NewSigningKeyRepository G" using RotateKey_keys [OF assms(4)] assms(3) by simp
  show ?thesis
  proof (cases "signingKeyRepository_FindByKeyID G (sk_KeyID k) d1")
    case (Inl e)
    then have "\<exists>x. e = GormErr x" by (auto simp: signingKeyRepository_FindByKeyID_def split: sum.splits if_splits)
    then show ?thesis using Inl st by blast
  next
    case (Inr found)
    have "\<exists>m\<in>set (t_signing_keys d1). skm_KeyID m = sk_KeyID k" using row by auto
    then obtain m where m: "m \<in> set (t_signing_keys d1)" "skm_KeyID m = sk_KeyID k" by blast
    have "found \<noteq> None" using database.key_find_missing [OF assms(1) _ m(1), of "sk_KeyID k"] Inr m(2) by auto
    then obtain k' where k': "found = Some k'" by auto
    from database.key_find [OF assms(1) Inr [unfolded k']] row
    have pk: "sk_PublicKey k' = sk_PublicKey k" by (auto simp: fromSigningKeyModel_def)
    show ?thesis
      using Inr k' pk row st keys rsa_library.signed_kid [OF lib sign]
        rsa_library.signed_parse [OF lib sign assms(7), of "rs256_keyfunc (rsa_PublicKey lib priv)"]
      by (simp add: JWKSService_VerifyToken_def new_signing_key_def rsa_library.pem_roundtrip [OF lib]
          rsa_library.public_roundtrip [OF lib g] rs256_keyfunc_def)
  qed
qed

theorem sign_verify_roundtrip_witness:
  "\<exists>s1 d1 tok s2 d2. JWKSService_RotateKey plain_rsa (''p'', ''0123456789abcdef'', 0) (main_jwks mem_gorms) empty_db = Returns (Inr (), s1, d1) \<and>
     JWKSService_SignToken plain_rsa (''q'', ''r'', 0) (1, 1, 1) s1 [(''sub'', AStr ''u1'')] d1 = Returns (Inr tok, s2, d2) \<and>
     JWKSService_VerifyToken plain_rsa s2 2 tok d2 = Inr ([(''sub'', AStr ''u1'')], True)"
proof -
  obtain s1 d1 where r: "JWKSService_RotateKey plain_rsa (''p'', ''0123456789abcdef'', 0) (main_jwks mem_gorms) empty_db
      = Returns (Inr (), s1, d1)"
    using two_rotations by blast
  obtain k where k: "js_currentKey s1 = Some k" "sk_ExpiresAt k = Some (90 * 24 * time_Hour)"
    using r by (auto simp: JWKSService_RotateKey_def rotate_locked_def deactivate_current_def plain_rsa_def main_jwks_def
      NewJWKSService_def signingKeyRepository_Create_def mem_gorm_def empty_db_def new_signing_key_def
      Let_def fill_signing_key_def toSigningKeyModel_def)
  have "JWKSService_GetActiveKey plain_rsa (''q'', ''r'', 0) (1, 1, 1) s1 d1 = Returns (Inr (Some k), s1, d1)"
    using k RotateKey_keys [OF r] by (simp add: JWKSService_GetActiveKey_def Let_def key_valid_def time_defs)
  then obtain tok where s: "JWKSService_SignToken plain_rsa (''q'', ''r'', 0) (1, 1, 1) s1 [(''sub'', AStr ''u1'')] d1
      = Returns (Inr tok, s1, d1)"
    by (simp add: JWKSService_SignToken_def plain_rsa_def text_claims_def)
  have "signingKeyRepository_FindByKeyID mem_gorms kid d1 \<noteq> Inl (GormErr e)" for kid e
    by (auto simp: signingKeyRepository_FindByKeyID_def mem_gorm_def find_first_def split: sum.splits if_splits list.splits option.splits)
  then have "JWKSService_VerifyToken plain_rsa s1 2 tok d1 = Inr ([(''sub'', AStr ''u1'')], True)"
    using sign_verify_roundtrip [OF mem_database plain_rsa.rsa_library_axioms _ r _ s, of 2]
    by (auto simp: time_defs)
  then show ?thesis using r s by blast
qed

end
