(* ===== verification/JwksProps.thy ===== *)
theory JwksProps
  imports Jwks
begin

text \<open>The background rotation: it ends every round, and what it leaves lets tokens be signed.\<close>

lemma rotation_ticks_return:
  "js_free s \<Longrightarrow> \<exists>s' w'. key_rotation_ticks lib rnds s w = Returns (s', w') \<and> js_free s'"
proof (induction rnds arbitrary: s w)
  case (Cons rnd rnds)
  obtain r s1 w1 where r: "JWKSService_RotateKey lib rnd s w = Returns (r, s1, w1)"
    using RotateKey_returns [of lib rnd s w] Cons.prems by (cases "JWKSService_RotateKey lib rnd s w") auto
  then show ?case using Cons.IH [of s1 w1] RotateKey_keys [OF r] by simp
qed simp

text \<open>C21: The rotation loop ends every round. Whatever the random bytes, the readings of the clock and the failures of the
  database, no number of ticks leaves the loop stuck or the mutex held, and afterwards signing does
  not block while the current key is valid.\<close>

theorem rotation_loop_returns:
  assumes "js_free s"
  shows "\<exists>s' w'. key_rotation_ticks lib rnds s w = Returns (s', w') \<and> js_free s' \<and>
    (usable n1 (js_currentKey s') \<longrightarrow> JWKSService_SignToken lib rnd (n1, n2, n3) s' claims w' \<noteq> Blocks)"
proof -
  obtain s' w' where t: "key_rotation_ticks lib rnds s w = Returns (s', w')" "js_free s'"
    using rotation_ticks_return [OF assms] by blast
  have "usable n1 (js_currentKey s') \<longrightarrow> JWKSService_GetActiveKey lib rnd (n1, n2, n3) s' w' \<noteq> Blocks"
    using GetActiveKey_blocks [of lib rnd n1 n2 n3 s' w'] t(2) by simp
  then have "usable n1 (js_currentKey s') \<longrightarrow> JWKSService_SignToken lib rnd (n1, n2, n3) s' claims w' \<noteq> Blocks"
    by (auto simp: JWKSService_SignToken_def split: outcome.splits sum.splits option.splits)
  then show ?thesis using t by blast
qed

theorem rotation_loop_returns_witness:
  "\<forall>rnd. \<exists>s' w'. key_rotation_ticks plain_rsa [rnd, rnd] (main_jwks mem_gorms) empty_db = Returns (s', w') \<and> js_free s'"
proof
  fix rnd
  have "js_free (main_jwks mem_gorms)" by simp
  from rotation_loop_returns [OF this, of plain_rsa "[rnd, rnd]" empty_db]
  show "\<exists>s' w'. key_rotation_ticks plain_rsa [rnd, rnd] (main_jwks mem_gorms) empty_db = Returns (s', w') \<and> js_free s'" by blast
qed

end
