(* ===== verification/Clock.thy ===== *)
theory Clock
  imports Codec
begin

text \<open>
  The layouts of package \<open>time\<close> the services print and read: \<open>2006-01-02T15:04:05Z\<close> and RFC 3339. A
  \<open>time.Time\<close> of Go prints in its own location; \<open>zone\<close> gives that location's offset from UTC in
  seconds at a time, since the time zone database is not part of the program.
\<close>

section \<open>Printing a time\<close>

text \<open>The date of a day counted from 1 January 1970, in the Gregorian calendar; years begin in March
  while counting, so that a leap day ends its year.\<close>

definition civil_date :: "int \<Rightarrow> int \<times> int \<times> int" where
  "civil_date n =
     (let z = n + 719468; era = z div 146097; doe = z mod 146097;
          yoe = (doe - doe div 1460 + doe div 36524 - doe div 146096) div 365;
          doy = doe - (365 * yoe + yoe div 4 - yoe div 100);
          mp = (5 * doy + 2) div 153;
          m = (if mp < 10 then mp + 3 else mp - 9)
      in (yoe + 400 * era + (if m \<le> 2 then 1 else 0), m, doy - (153 * mp + 2) div 5 + 1))"

definition pad :: "nat \<Rightarrow> int \<Rightarrow> string" where
  "pad w i = (if i < 0 then ''-'' else []) @
     replicate (w - length (show_nat (nat \<bar>i\<bar>))) (CHR ''0'') @ show_nat (nat \<bar>i\<bar>)"

text \<open>Layout \<open>2006-01-02T15:04:05\<close> at an offset of \<open>off\<close> seconds from UTC.\<close>

definition time_Format_local :: "int \<Rightarrow> time \<Rightarrow> string" where
  "time_Format_local off t =
     (let s = t div time_Second + off
      in case civil_date (s div 86400) of (y, m, d) \<Rightarrow>
           pad 4 y @ ''-'' @ pad 2 m @ ''-'' @ pad 2 d @ ''T'' @
           pad 2 (s mod 86400 div 3600) @ '':'' @ pad 2 (s mod 3600 div 60) @ '':'' @ pad 2 (s mod 60))"

text \<open>Layout \<open>2006-01-02T15:04:05Z\<close>: the Z is printed whatever the zone.\<close>

definition time_Format_Z :: "(time \<Rightarrow> int) \<Rightarrow> time \<Rightarrow> string" where
  "time_Format_Z zone t = time_Format_local (zone t) t @ ''Z''"

text \<open>Layout \<open>time.RFC3339\<close>.\<close>

definition time_Format_RFC3339 :: "(time \<Rightarrow> int) \<Rightarrow> time \<Rightarrow> string" where
  "time_Format_RFC3339 zone t = time_Format_local (zone t) t @
     (if zone t = 0 then ''Z''
      else (if zone t < 0 then ''-'' else ''+'') @ pad 2 (\<bar>zone t\<bar> div 3600) @ '':'' @ pad 2 (\<bar>zone t\<bar> mod 3600 div 60))"

section \<open>Reading a time\<close>

text \<open>The days before a month's first day, in a year that begins in March.\<close>

definition civil_day :: "int \<Rightarrow> int \<Rightarrow> int \<Rightarrow> int" where
  "civil_day y m d =
     (let y' = (if m \<le> 2 then y - 1 else y); era = y' div 400; yoe = y' mod 400;
          mp = (if m > 2 then m - 3 else m + 9)
      in era * 146097 + 365 * yoe + yoe div 4 - yoe div 100 + (153 * mp + 2) div 5 + d - 1 - 719468)"

definition leap_year :: "int \<Rightarrow> bool" where
  "leap_year y \<longleftrightarrow> y mod 4 = 0 \<and> (y mod 100 \<noteq> 0 \<or> y mod 400 = 0)"

definition month_days :: "int \<Rightarrow> int \<Rightarrow> int" where
  "month_days y m = (if m = 2 then (if leap_year y then 29 else 28) else if m \<in> {4, 6, 9, 11} then 30 else 31)"

definition is_digit :: "char \<Rightarrow> bool" where
  "is_digit c \<longleftrightarrow> CHR ''0'' \<le> c \<and> c \<le> CHR ''9''"

definition digit_val :: "char \<Rightarrow> int" where
  "digit_val c = int (of_char c) - 48"

definition digits_val :: "string \<Rightarrow> int" where
  "digits_val = foldl (\<lambda>n c. 10 * n + digit_val c) 0"

text \<open>Exactly \<open>w\<close> digits, then the rest.\<close>

definition get_num :: "nat \<Rightarrow> string \<Rightarrow> (int \<times> string) option" where
  "get_num w s = (if w \<le> length s \<and> list_all is_digit (take w s) then Some (digits_val (take w s), drop w s) else None)"

text \<open>The hour may have one digit.\<close>

definition get_hour :: "string \<Rightarrow> (int \<times> string) option" where
  "get_hour s = (case get_num 2 s of Some r \<Rightarrow> Some r | None \<Rightarrow> get_num 1 s)"

definition get_char :: "char \<Rightarrow> string \<Rightarrow> string option" where
  "get_char c s = (case s of x # r \<Rightarrow> (if x = c then Some r else None) | [] \<Rightarrow> None)"

text \<open>A fraction after the seconds, of which nine digits count.\<close>

definition get_fraction :: "string \<Rightarrow> int \<times> string" where
  "get_fraction s =
     (case s of
        p # d # r \<Rightarrow>
          (if (p = CHR ''.'' \<or> p = CHR '','') \<and> is_digit d
           then let ds = takeWhile is_digit (d # r)
                in (digits_val (take 9 (ds @ ''000000000'')), dropWhile is_digit (d # r))
           else (0, s))
      | _ \<Rightarrow> (0, s))"

definition get_offset :: "string \<Rightarrow> (int \<times> string) option" where
  "get_offset s =
     (case s of
        [] \<Rightarrow> None
      | c # r \<Rightarrow>
          (if c = CHR ''Z'' then Some (0, r)
           else if c = CHR ''+'' \<or> c = CHR ''-'' then
             Option.bind (get_num 2 r) (\<lambda>(h, r). Option.bind (get_char (CHR '':'') r) (\<lambda>r.
               Option.bind (get_num 2 r) (\<lambda>(m, r).
                 if h \<le> 24 \<and> m \<le> 60
                 then Some ((if c = CHR ''-'' then - 1 else 1) * (h * 3600 + m * 60), r) else None)))
           else None))"

definition time_Parse_RFC3339 :: "string \<Rightarrow> time option" where
  "time_Parse_RFC3339 s =
     Option.bind (get_num 4 s) (\<lambda>(y, s). Option.bind (get_char (CHR ''-'') s) (\<lambda>s.
     Option.bind (get_num 2 s) (\<lambda>(m, s). Option.bind (get_char (CHR ''-'') s) (\<lambda>s.
     Option.bind (get_num 2 s) (\<lambda>(d, s). Option.bind (get_char (CHR ''T'') s) (\<lambda>s.
     Option.bind (get_hour s) (\<lambda>(hh, s). Option.bind (get_char (CHR '':'') s) (\<lambda>s.
     Option.bind (get_num 2 s) (\<lambda>(mm, s). Option.bind (get_char (CHR '':'') s) (\<lambda>s.
     Option.bind (get_num 2 s) (\<lambda>(ss, s). case get_fraction s of (fr, s) \<Rightarrow>
     Option.bind (get_offset s) (\<lambda>(off, s).
       if s = [] \<and> 1 \<le> m \<and> m \<le> 12 \<and> 1 \<le> d \<and> d \<le> month_days y m \<and> hh < 24 \<and> mm < 60 \<and> ss < 60
       then Some ((civil_day y m d * 86400 + hh * 3600 + mm * 60 + ss - off) * time_Second + fr)
       else None))))))))))))"

end
