(* ===== verification/Idp.thy ===== *)
theory Idp
  imports Http Jwks Clock
begin

text \<open>
  service/idp.go: registered OAuth2 clients, authorization codes and consents. The bytes the
  generators read from crypto/rand are arguments; so is the offset of the local time zone that
  \<open>created_at\<close> is printed in (\<open>zone\<close>, see \<open>time_Format_Z\<close>).
\<close>

section \<open>Data\<close>

record 'w OAuth2ClientService =
  cs_clients :: "'w OAuth2ClientRepository"
  cs_codes :: "'w OAuth2AuthorizationCodeRepository"
  cs_consents :: "'w OAuth2ConsentRepository"
  cs_keys :: "'w SigningKeyRepository"

definition NewOAuth2ClientService :: "'w OAuth2ClientRepository \<Rightarrow> 'w OAuth2AuthorizationCodeRepository \<Rightarrow>
    'w OAuth2ConsentRepository \<Rightarrow> 'w SigningKeyRepository \<Rightarrow> 'w OAuth2ClientService" where
  "NewOAuth2ClientService clients codes consents keys =
     \<lparr>cs_clients = clients, cs_codes = codes, cs_consents = consents, cs_keys = keys\<rparr>"

record RegisterClientRequest =
  rcr_Name :: string
  rcr_RedirectURIs :: "string list"
  rcr_Scopes :: "string list"
  rcr_GrantTypes :: "string list"
  rcr_ResponseTypes :: "string list"
  rcr_TokenEndpointAuthMethod :: string
  rcr_LogoURI :: string
  rcr_ClientURI :: string
  rcr_PolicyURI :: string
  rcr_TOSURI :: string
  rcr_JWKSURI :: string
  rcr_Contacts :: "string list"

record ClientResponse =
  crp_ID :: string
  crp_ClientID :: string
  crp_ClientSecret :: string
  crp_Name :: string
  crp_RedirectURIs :: "string list"
  crp_Scopes :: "string list"
  crp_GrantTypes :: "string list"
  crp_ResponseTypes :: "string list"
  crp_TokenEndpointAuthMethod :: string
  crp_LogoURI :: string
  crp_ClientURI :: string
  crp_PolicyURI :: string
  crp_TOSURI :: string
  crp_JWKSURI :: string
  crp_Contacts :: "string list"
  crp_Enabled :: bool
  crp_CreatedAt :: string

definition toClientResponse :: "(time \<Rightarrow> int) \<Rightarrow> OAuth2Client \<Rightarrow> bool \<Rightarrow> ClientResponse" where
  "toClientResponse zone c includeSecret = \<lparr>
     crp_ID = oc_ID c, crp_ClientID = oc_ClientID c,
     crp_ClientSecret = (if includeSecret then oc_ClientSecret c else []),
     crp_Name = oc_Name c, crp_RedirectURIs = oc_RedirectURIs c, crp_Scopes = oc_Scopes c,
     crp_GrantTypes = oc_GrantTypes c, crp_ResponseTypes = oc_ResponseTypes c,
     crp_TokenEndpointAuthMethod = oc_TokenEndpointAuthMethod c, crp_LogoURI = oc_LogoURI c,
     crp_ClientURI = oc_ClientURI c, crp_PolicyURI = oc_PolicyURI c, crp_TOSURI = oc_TOSURI c,
     crp_JWKSURI = oc_JWKSURI c, crp_Contacts = oc_Contacts c, crp_Enabled = oc_Enabled c,
     crp_CreatedAt = time_Format_Z zone (oc_CreatedAt c)\<rparr>"

section \<open>Generators\<close>

definition generateClientID :: "string \<Rightarrow> string" where
  "generateClientID b = ''hov_'' @ take 20 (base64_URLEncode b)"

definition generateClientSecret :: "string \<Rightarrow> string" where
  "generateClientSecret b = base64_URLEncode b"

definition hashClientSecret :: "string \<Rightarrow> string" where
  "hashClientSecret secret = ''hashed_'' @ secret"

definition verifyClientSecret :: "string \<Rightarrow> string \<Rightarrow> bool" where
  "verifyClientSecret hashed plain \<longleftrightarrow> hashed = ''hashed_'' @ plain"

definition generateAuthCode :: "string \<Rightarrow> string" where
  "generateAuthCode b = base64_URLEncode b"

section \<open>Clients\<close>

definition or_default :: "'a list \<Rightarrow> 'a list \<Rightarrow> 'a list" where
  "or_default xs d = (if xs = [] then d else xs)"

text \<open>The record \<open>RegisterClient\<close> stores.\<close>

definition new_client :: "string \<Rightarrow> string \<Rightarrow> string \<Rightarrow> string \<Rightarrow> RegisterClientRequest \<Rightarrow> OAuth2Client" where
  "new_client clientID clientSecret tenantID userID req = \<lparr>
     oc_ID = [], oc_TenantID = tenantID, oc_Name = rcr_Name req, oc_ClientID = clientID,
     oc_ClientSecret = hashClientSecret clientSecret, oc_RedirectURIs = rcr_RedirectURIs req,
     oc_Scopes = or_default (rcr_Scopes req) [''openid'', ''profile'', ''email'', ''roles'', ''tenant''],
     oc_GrantTypes = or_default (rcr_GrantTypes req) [''authorization_code'', ''refresh_token''],
     oc_ResponseTypes = or_default (rcr_ResponseTypes req) [''code''],
     oc_TokenEndpointAuthMethod = or_default (rcr_TokenEndpointAuthMethod req) ''client_secret_basic'',
     oc_LogoURI = rcr_LogoURI req, oc_ClientURI = rcr_ClientURI req, oc_PolicyURI = rcr_PolicyURI req,
     oc_TOSURI = rcr_TOSURI req, oc_JWKSURI = rcr_JWKSURI req, oc_Contacts = rcr_Contacts req,
     oc_Enabled = True, oc_CreatedAt = zero_time, oc_UpdatedAt = zero_time, oc_CreatedBy = userID\<rparr>"

definition OAuth2ClientService_RegisterClient :: "(time \<Rightarrow> int) \<Rightarrow> 'w OAuth2ClientService \<Rightarrow> string \<times> string \<Rightarrow>
    string \<Rightarrow> string \<Rightarrow> RegisterClientRequest \<Rightarrow> 'w \<Rightarrow> (err + ClientResponse) \<times> 'w" where [svc_simps]:
  "OAuth2ClientService_RegisterClient zone s rnd tenantID userID req w =
     (if rcr_RedirectURIs req = [] then (Inl (SvcOpsErr service_ErrInvalidRedirectURI), w)
      else case OAuth2ClientRepository_Create (cs_clients s)
             (new_client (generateClientID (fst rnd)) (generateClientSecret (snd rnd)) tenantID userID req) w of
             (Inl e, w1) \<Rightarrow> (Inl e, w1)
           | (Inr client, w1) \<Rightarrow> (Inr (toClientResponse zone client True), w1))"

definition OAuth2ClientService_GetClient :: "(time \<Rightarrow> int) \<Rightarrow> 'w OAuth2ClientService \<Rightarrow> string \<Rightarrow> 'w \<Rightarrow> err + ClientResponse" where [svc_simps]:
  "OAuth2ClientService_GetClient zone s uid w =
     (case OAuth2ClientRepository_FindByID (cs_clients s) uid w of
        Inl e \<Rightarrow> Inl (if e = ExtErr ErrOAuth2ClientNotFound then SvcOpsErr service_ErrOAuth2ClientNotFound else e)
      | Inr client \<Rightarrow> Inr (toClientResponse zone client False))"

definition OAuth2ClientService_GetClientByClientID :: "'w OAuth2ClientService \<Rightarrow> string \<Rightarrow> 'w \<Rightarrow> err + OAuth2Client" where [svc_simps]:
  "OAuth2ClientService_GetClientByClientID s clientID w = OAuth2ClientRepository_FindByClientID (cs_clients s) clientID w"

definition OAuth2ClientService_ListClients :: "(time \<Rightarrow> int) \<Rightarrow> 'w OAuth2ClientService \<Rightarrow> string \<Rightarrow> 'w \<Rightarrow> err + ClientResponse list" where [svc_simps]:
  "OAuth2ClientService_ListClients zone s tenantID w =
     (case OAuth2ClientRepository_FindByTenant (cs_clients s) tenantID w of
        Inl e \<Rightarrow> Inl e
      | Inr clients \<Rightarrow> Inr (map (\<lambda>c. toClientResponse zone c False) clients))"

text \<open>The type assertions of \<open>UpdateClient\<close>. A decoded JSON array is a \<open>[]interface{}\<close>, which no value of
  \<open>any\<close> turns into a \<open>[]string\<close>.\<close>

definition any_string :: "any option \<Rightarrow> string option" where
  "any_string v = (case v of Some (AStr s) \<Rightarrow> Some s | _ \<Rightarrow> None)"

definition any_bool :: "any option \<Rightarrow> bool option" where
  "any_bool v = (case v of Some (ABool b) \<Rightarrow> Some b | _ \<Rightarrow> None)"

definition any_string_slice :: "any option \<Rightarrow> string list option" where
  "any_string_slice v = None"

definition client_updates :: "map_claims \<Rightarrow> OAuth2Client \<Rightarrow> OAuth2Client" where
  "client_updates updates c = c\<lparr>
     oc_Name := (case any_string (map_of updates ''name'') of None \<Rightarrow> oc_Name c | Some n \<Rightarrow> n),
     oc_RedirectURIs := (case any_string_slice (map_of updates ''redirect_uris'') of None \<Rightarrow> oc_RedirectURIs c | Some u \<Rightarrow> u),
     oc_Scopes := (case any_string_slice (map_of updates ''scopes'') of None \<Rightarrow> oc_Scopes c | Some u \<Rightarrow> u),
     oc_Enabled := (case any_bool (map_of updates ''enabled'') of None \<Rightarrow> oc_Enabled c | Some b \<Rightarrow> b)\<rparr>"

definition OAuth2ClientService_UpdateClient :: "(time \<Rightarrow> int) \<Rightarrow> 'w OAuth2ClientService \<Rightarrow> string \<Rightarrow> map_claims \<Rightarrow> 'w \<Rightarrow>
    (err + ClientResponse) \<times> 'w" where [svc_simps]:
  "OAuth2ClientService_UpdateClient zone s uid updates w =
     (case OAuth2ClientRepository_FindByID (cs_clients s) uid w of
        Inl e \<Rightarrow> (Inl e, w)
      | Inr client \<Rightarrow>
          (case OAuth2ClientRepository_Update (cs_clients s) (client_updates updates client) w of
             (Inl e, w1) \<Rightarrow> (Inl e, w1)
           | (Inr u, w1) \<Rightarrow> (Inr (toClientResponse zone (client_updates updates client) False), w1)))"

definition OAuth2ClientService_DeleteClient :: "'w OAuth2ClientService \<Rightarrow> string \<Rightarrow> 'w \<Rightarrow> (err + unit) \<times> 'w" where [svc_simps]:
  "OAuth2ClientService_DeleteClient s uid w = OAuth2ClientRepository_Delete (cs_clients s) uid w"

definition OAuth2ClientService_ValidateClient :: "'w OAuth2ClientService \<Rightarrow> string \<Rightarrow> string \<Rightarrow> 'w \<Rightarrow> err + OAuth2Client" where [svc_simps]:
  "OAuth2ClientService_ValidateClient s clientID clientSecret w =
     (case OAuth2ClientRepository_FindByClientID (cs_clients s) clientID w of
        Inl e \<Rightarrow> Inl (SvcOpsErr service_ErrInvalidClient)
      | Inr client \<Rightarrow>
          (if \<not> oc_Enabled client then Inl (SvcOpsErr service_ErrInvalidClient)
           else if \<not> verifyClientSecret (oc_ClientSecret client) clientSecret then Inl (SvcOpsErr service_ErrInvalidClient)
           else Inr client))"

section \<open>Authorization codes\<close>

definition OAuth2ClientService_CreateAuthCode :: "'w OAuth2ClientService \<Rightarrow> string \<Rightarrow> time \<Rightarrow> string \<Rightarrow> string \<Rightarrow> string \<Rightarrow>
    string \<Rightarrow> string list \<Rightarrow> string \<Rightarrow> string \<Rightarrow> string \<Rightarrow> 'w \<Rightarrow> (err + string) \<times> 'w" where [svc_simps]:
  "OAuth2ClientService_CreateAuthCode s rnd now clientID userID tenantID redirectURI scopes codeChallenge
       codeChallengeMethod nonce w =
     (let code = generateAuthCode rnd
      in case OAuth2AuthorizationCodeRepository_Create (cs_codes s) \<lparr>
             ac_ID = code, ac_ClientID = clientID, ac_UserID = userID, ac_TenantID = tenantID,
             ac_RedirectURI = redirectURI, ac_Scopes = scopes, ac_CodeChallenge = codeChallenge,
             ac_CodeChallengeMethod = codeChallengeMethod, ac_Nonce = nonce,
             ac_ExpiresAt = now + 10 * time_Minute, ac_CreatedAt = zero_time\<rparr> w of
           (Inl e, w1) \<Rightarrow> (Inl e, w1)
         | (Inr u, w1) \<Rightarrow> (Inr code, w1))"

text \<open>The outcome of the deletion is ignored.\<close>

definition OAuth2ClientService_ConsumeAuthCode :: "'w OAuth2ClientService \<Rightarrow> time \<Rightarrow> string \<Rightarrow> 'w \<Rightarrow>
    (err + OAuth2AuthorizationCode) \<times> 'w" where [svc_simps]:
  "OAuth2ClientService_ConsumeAuthCode s now code w =
     (case OAuth2AuthorizationCodeRepository_FindByCode (cs_codes s) now code w of
        (Inl e, w1) \<Rightarrow> (Inl (FmtErr ''invalid or expired authorization code''), w1)
      | (Inr None, w1) \<Rightarrow> (Inl (FmtErr ''invalid or expired authorization code''), w1)
      | (Inr (Some authCode), w1) \<Rightarrow>
          (Inr authCode, snd (OAuth2AuthorizationCodeRepository_Delete (cs_codes s) code w1)))"

section \<open>Consents\<close>

definition OAuth2ClientService_GetConsent :: "'w OAuth2ClientService \<Rightarrow> time \<Rightarrow> string \<Rightarrow> string \<Rightarrow> 'w \<Rightarrow> err + OAuth2Consent option" where [svc_simps]:
  "OAuth2ClientService_GetConsent s now userID clientID w =
     OAuth2ConsentRepository_FindByUserAndClient (cs_consents s) now userID clientID w"

definition OAuth2ClientService_GrantConsent :: "'w OAuth2ClientService \<Rightarrow> time \<times> time \<Rightarrow> string \<Rightarrow> string \<Rightarrow> string \<Rightarrow>
    string list \<Rightarrow> bool \<Rightarrow> 'w \<Rightarrow> (err + OAuth2Consent) \<times> 'w" where [svc_simps]:
  "OAuth2ClientService_GrantConsent s clock userID clientID tenantID scopes remember w =
     (case OAuth2ConsentRepository_FindByUserAndClient (cs_consents s) (fst clock) userID clientID w of
        Inl e \<Rightarrow> (Inl e, w)
      | Inr found \<Rightarrow>
          (let expiresAt = (if remember then None else Some (snd clock + 30 * 24 * time_Hour))
           in case found of
                None \<Rightarrow>
                  OAuth2ConsentRepository_Create (cs_consents s) \<lparr>
                    con_ID = [], con_UserID = userID, con_ClientID = clientID, con_TenantID = tenantID,
                    con_Scopes = scopes, con_ExpiresAt = expiresAt, con_CreatedAt = zero_time,
                    con_UpdatedAt = zero_time\<rparr> w
              | Some consent \<Rightarrow>
                  (case OAuth2ConsentRepository_Update (cs_consents s)
                          (consent\<lparr>con_Scopes := scopes, con_ExpiresAt := expiresAt\<rparr>) w of
                     (Inl e, w1) \<Rightarrow> (Inl e, w1)
                   | (Inr u, w1) \<Rightarrow> (Inr (consent\<lparr>con_Scopes := scopes, con_ExpiresAt := expiresAt\<rparr>), w1))))"

definition OAuth2ClientService_RevokeConsent :: "'w OAuth2ClientService \<Rightarrow> string \<Rightarrow> string \<Rightarrow> 'w \<Rightarrow> (err + unit) \<times> 'w" where [svc_simps]:
  "OAuth2ClientService_RevokeConsent s userID clientID w = OAuth2ConsentRepository_Delete (cs_consents s) userID clientID w"

definition OAuth2ClientService_ListUserConsents :: "'w OAuth2ClientService \<Rightarrow> time \<Rightarrow> string \<Rightarrow> 'w \<Rightarrow> err + OAuth2Consent list" where [svc_simps]:
  "OAuth2ClientService_ListUserConsents s now userID w = OAuth2ConsentRepository_FindByUser (cs_consents s) now userID w"

end
