(* ===== verification/IdpHandler.thy ===== *)
theory IdpHandler
  imports Idp
begin

text \<open>
  api/idp_handler.go: Hoviyat as an OAuth2 and OpenID provider. A handler gets what gin decoded of its
  request, the identity the route's middleware set (\<open>None\<close> on a route without \<open>RequireAuth\<close>), the
  clock readings and random bytes it uses in order, and the world.
\<close>

record 'w IdPHandler =
  ih_clientService :: "'w OAuth2ClientService"
  ih_tokens :: TokenService

text \<open>\<open>registerClientRequest\<close> and \<open>clientResponse\<close> have the fields of the service's types.\<close>

definition IdPHandler_RegisterClient :: "(time \<Rightarrow> int) \<Rightarrow> 'w IdPHandler \<Rightarrow> string \<times> string \<Rightarrow> string \<Rightarrow>
    request_identity option \<Rightarrow> err + RegisterClientRequest \<Rightarrow> 'w \<Rightarrow> ClientResponse response \<times> 'w" where
  "IdPHandler_RegisterClient zone h rnd tenantID ctx bound w =
     (case bound of
        Inl e \<Rightarrow> (writeError 400 ''invalid_request'', w)
      | Inr req \<Rightarrow>
          (case OAuth2ClientService_RegisterClient zone (ih_clientService h) rnd tenantID (ctx_GetUserID ctx) req w of
             (Inl e, w1) \<Rightarrow>
               (if e = SvcOpsErr service_ErrInvalidRedirectURI then writeError 400 ''invalid_redirect_uri''
                else writeError 500 ''internal_error'', w1)
           | (Inr resp, w1) \<Rightarrow> (Reply 201 resp, w1)))"

definition IdPHandler_GetClient :: "(time \<Rightarrow> int) \<Rightarrow> 'w IdPHandler \<Rightarrow> string \<Rightarrow> 'w \<Rightarrow> ClientResponse response" where
  "IdPHandler_GetClient zone h uid w =
     (case OAuth2ClientService_GetClient zone (ih_clientService h) uid w of
        Inl e \<Rightarrow> (if e = SvcOpsErr service_ErrOAuth2ClientNotFound then writeError 404 ''not_found''
                  else writeError 500 ''internal_error'')
      | Inr resp \<Rightarrow> Reply 200 resp)"

definition IdPHandler_ListClients :: "(time \<Rightarrow> int) \<Rightarrow> 'w IdPHandler \<Rightarrow> string \<Rightarrow> 'w \<Rightarrow> ClientResponse list response" where
  "IdPHandler_ListClients zone h tenantID w =
     (case OAuth2ClientService_ListClients zone (ih_clientService h) tenantID w of
        Inl e \<Rightarrow> writeError 500 ''internal_error''
      | Inr clients \<Rightarrow> Reply 200 clients)"

definition IdPHandler_UpdateClient :: "(time \<Rightarrow> int) \<Rightarrow> 'w IdPHandler \<Rightarrow> string \<Rightarrow> err + map_claims \<Rightarrow> 'w \<Rightarrow>
    ClientResponse response \<times> 'w" where
  "IdPHandler_UpdateClient zone h uid bound w =
     (case bound of
        Inl e \<Rightarrow> (writeError 400 ''invalid_request'', w)
      | Inr updates \<Rightarrow>
          (case OAuth2ClientService_UpdateClient zone (ih_clientService h) uid updates w of
             (Inl e, w1) \<Rightarrow> (writeError 500 ''internal_error'', w1)
           | (Inr resp, w1) \<Rightarrow> (Reply 200 resp, w1)))"

definition IdPHandler_DeleteClient :: "'w IdPHandler \<Rightarrow> string \<Rightarrow> 'w \<Rightarrow> unit response \<times> 'w" where
  "IdPHandler_DeleteClient h uid w =
     (case OAuth2ClientService_DeleteClient (ih_clientService h) uid w of
        (Inl e, w1) \<Rightarrow> (writeError 500 ''internal_error'', w1)
      | (Inr u, w1) \<Rightarrow> (Status 204, w1))"

section \<open>Scopes\<close>

text \<open>\<open>parseScopes\<close> splits at single spaces and drops the empty pieces: the loop with its two variables.\<close>

fun scopes_loop :: "string \<Rightarrow> string \<Rightarrow> string list \<Rightarrow> string list" where
  "scopes_loop [] current result = (if current \<noteq> [] then result @ [current] else result)"
| "scopes_loop (c # cs) current result =
     (if c = CHR '' '' then (if current \<noteq> [] then scopes_loop cs [] (result @ [current]) else scopes_loop cs current result)
      else scopes_loop cs (current @ [c]) result)"

definition parseScopes :: "string \<Rightarrow> string list" where
  "parseScopes scope = (if scope = [] then [] else scopes_loop scope [] [])"

definition containsScope :: "string list \<Rightarrow> string \<Rightarrow> bool" where
  "containsScope scopes target \<longleftrightarrow> any_loop (\<lambda>s. s = target) scopes"

definition joinScopes :: "string list \<Rightarrow> string" where
  "joinScopes scopes = (case scopes of [] \<Rightarrow> [] | s # ss \<Rightarrow> foldl (\<lambda>result x. result @ '' '' @ x) s ss)"

section \<open>Authorization\<close>

record authorizeRequest =
  azr_ResponseType :: string
  azr_ClientID :: string
  azr_RedirectURI :: string
  azr_Scope :: string
  azr_State :: string
  azr_CodeChallenge :: string
  azr_CodeChallengeMethod :: string
  azr_Nonce :: string

text \<open>The answer that asks for consent.\<close>

record consentScreen =
  csn_Name :: string
  csn_LogoURI :: string
  csn_ClientURI :: string
  csn_PolicyURI :: string
  csn_TOSURI :: string
  csn_requested_scopes :: "string list"
  csn_authorize_params :: authorizeRequest

definition IdPHandler_issueAuthCodeAndRedirect :: "'w IdPHandler \<Rightarrow> string \<Rightarrow> time \<Rightarrow> OAuth2Client \<Rightarrow> string \<Rightarrow> string \<Rightarrow>
    string \<Rightarrow> string list \<Rightarrow> string \<Rightarrow> string \<Rightarrow> string \<Rightarrow> string \<Rightarrow> 'w \<Rightarrow> 'a response \<times> 'w" where
  "IdPHandler_issueAuthCodeAndRedirect h rnd now client userID tenantID redirectURI scopes state codeChallenge
       codeChallengeMethod nonce w =
     (case OAuth2ClientService_CreateAuthCode (ih_clientService h) rnd now (oc_ClientID client) userID tenantID
             redirectURI scopes codeChallenge codeChallengeMethod nonce w of
        (Inl e, w1) \<Rightarrow> (writeError 500 ''internal_error'', w1)
      | (Inr code, w1) \<Rightarrow>
          (Redirect 302 (redirectURI @ ''?code='' @ code @ (if state \<noteq> [] then ''&state='' @ state else [])), w1))"

definition IdPHandler_Authorize :: "'w IdPHandler \<Rightarrow> string \<Rightarrow> time \<times> time \<Rightarrow> request_identity option \<Rightarrow> string \<Rightarrow>
    err + authorizeRequest \<Rightarrow> 'w \<Rightarrow> consentScreen response \<times> 'w" where
  "IdPHandler_Authorize h rnd clock ctx rawQuery bound w =
     (case bound of
        Inl e \<Rightarrow> (writeError 400 ''invalid_request'', w)
      | Inr req \<Rightarrow>
          (case OAuth2ClientService_GetClientByClientID (ih_clientService h) (azr_ClientID req) w of
             Inl e \<Rightarrow> (writeError 400 ''invalid_client'', w)
           | Inr client \<Rightarrow>
               (if \<not> oc_Enabled client then (writeError 400 ''invalid_client'', w)
                else if \<not> any_loop (\<lambda>uri. uri = azr_RedirectURI req) (oc_RedirectURIs client)
                then (writeError 400 ''invalid_redirect_uri'', w)
                else let requestedScopes = parseScopes (azr_Scope req) in
                  if any_loop (\<lambda>s. \<not> any_loop (\<lambda>allowed. s = allowed) (oc_Scopes client)) requestedScopes
                  then (writeError 400 ''invalid_scope'', w)
                  else (case ctx of
                     None \<Rightarrow> (Redirect 302 (''/login?'' @ rawQuery), w)
                   | Some i \<Rightarrow>
                       (let screen = Reply 200 \<lparr>
                              csn_Name = oc_Name client, csn_LogoURI = oc_LogoURI client,
                              csn_ClientURI = oc_ClientURI client, csn_PolicyURI = oc_PolicyURI client,
                              csn_TOSURI = oc_TOSURI client, csn_requested_scopes = requestedScopes,
                              csn_authorize_params = req\<rparr>
                        in case OAuth2ClientService_GetConsent (ih_clientService h) (fst clock) (ctx_userID i)
                                  (oc_ID client) w of
                             Inr (Some consent) \<Rightarrow>
                               (if any_loop (\<lambda>rs. \<not> any_loop (\<lambda>cs. rs = cs) (con_Scopes consent)) requestedScopes
                                then (screen, w)
                                else IdPHandler_issueAuthCodeAndRedirect h rnd (snd clock) client (ctx_userID i)
                                       (ctx_tenantID i) (azr_RedirectURI req) requestedScopes (azr_State req)
                                       (azr_CodeChallenge req) (azr_CodeChallengeMethod req) (azr_Nonce req) w)
                           | _ \<Rightarrow> (screen, w))))))"

record consentRequest =
  cnr_ClientID :: string
  cnr_Scopes :: "string list"
  cnr_RedirectURI :: string
  cnr_State :: string
  cnr_Approve :: bool
  cnr_Remember :: bool
  cnr_CodeChallenge :: string
  cnr_CodeChallengeMethod :: string
  cnr_Nonce :: string

text \<open>Without an identity the type assertion on the user ID panics.\<close>

definition IdPHandler_Consent :: "'w IdPHandler \<Rightarrow> string \<Rightarrow> time \<times> time \<times> time \<Rightarrow> request_identity option \<Rightarrow>
    err + consentRequest \<Rightarrow> 'w \<Rightarrow> (unit response \<times> 'w) outcome" where
  "IdPHandler_Consent h rnd clock ctx bound w =
     (case ctx of
        None \<Rightarrow> Panics
      | Some i \<Rightarrow> Returns
          (case bound of
             Inl e \<Rightarrow> (writeError 400 ''invalid_request'', w)
           | Inr req \<Rightarrow>
               (if \<not> cnr_Approve req
                then (Redirect 302 (cnr_RedirectURI req @ ''?error=access_denied&state='' @ cnr_State req), w)
                else case OAuth2ClientService_GrantConsent (ih_clientService h) (fst clock, fst (snd clock))
                            (ctx_userID i) (cnr_ClientID req) (ctx_tenantID i) (cnr_Scopes req) (cnr_Remember req) w of
                       (Inl e, w1) \<Rightarrow> (writeError 500 ''internal_error'', w1)
                     | (Inr consent, w1) \<Rightarrow>
                         (case OAuth2ClientService_GetClientByClientID (ih_clientService h) (cnr_ClientID req) w1 of
                            Inl e \<Rightarrow> (writeError 400 ''invalid_client'', w1)
                          | Inr client \<Rightarrow>
                              IdPHandler_issueAuthCodeAndRedirect h rnd (snd (snd clock)) client (ctx_userID i)
                                (ctx_tenantID i) (cnr_RedirectURI req) (cnr_Scopes req) (cnr_State req)
                                (cnr_CodeChallenge req) (cnr_CodeChallengeMethod req) (cnr_Nonce req) w1))))"

section \<open>Tokens\<close>

record tokenRequest =
  tkr_GrantType :: string
  tkr_Code :: string
  tkr_RedirectURI :: string
  tkr_ClientID :: string
  tkr_ClientSecret :: string
  tkr_RefreshToken :: string
  tkr_Scope :: string

record tokenResponse =
  tkp_AccessToken :: string
  tkp_TokenType :: string
  tkp_ExpiresIn :: int
  tkp_RefreshToken :: string
  tkp_IDToken :: string
  tkp_Scope :: string

text \<open>\<open>getUserForToken\<close> makes the user up from the ID; it cannot fail.\<close>

definition IdPHandler_getUserForToken :: "string \<Rightarrow> string \<Rightarrow> User" where
  "IdPHandler_getUserForToken userID tenantID = \<lparr>user_ID = userID, user_Email = ''user@example.com'',
     user_PasswordHash = [], user_CreatedAt = zero_time, user_UpdatedAt = zero_time\<rparr>"

definition id_token_claims :: "time \<times> time \<Rightarrow> User \<Rightarrow> string \<Rightarrow> string \<Rightarrow> string \<Rightarrow> string list \<Rightarrow> map_claims" where
  "id_token_claims clock user tenantID clientID nonce scopes =
     [(''iss'', AStr ''hoviyat''), (''sub'', AStr (user_ID user)), (''aud'', AStr clientID),
      (''exp'', AInt ((fst clock + 15 * time_Minute) div time_Second)), (''iat'', AInt (snd clock div time_Second))] @
     (if nonce \<noteq> [] then [(''nonce'', AStr nonce)] else []) @
     (if containsScope scopes ''profile''
      then [(''name'', AStr (user_Email user)), (''preferred_username'', AStr (user_Email user))] else []) @
     (if containsScope scopes ''email''
      then [(''email'', AStr (user_Email user)), (''email_verified'', ABool True)] else []) @
     (if containsScope scopes ''tenant'' then [(''tenant_id'', AStr tenantID)] else [])"

text \<open>The clock of a token request: for the client and code, the two tokens, the claims, and the signing.\<close>

record token_clock =
  tc_code :: time
  tc_access :: time
  tc_refresh :: time
  tc_claims :: "time \<times> time"
  tc_sign :: "time \<times> time \<times> time"

definition IdPHandler_generateIDToken :: "('k, 'p) rsa_lib \<Rightarrow> rotation \<Rightarrow> token_clock \<Rightarrow> 'w JWKSService \<Rightarrow> User \<Rightarrow>
    string \<Rightarrow> string \<Rightarrow> string \<Rightarrow> string list \<Rightarrow> 'w \<Rightarrow> ((err + string) \<times> 'w JWKSService \<times> 'w) outcome" where
  "IdPHandler_generateIDToken lib rnd clock js user tenantID clientID nonce scopes w =
     JWKSService_SignToken lib rnd (tc_sign clock) js
       (id_token_claims (tc_claims clock) user tenantID clientID nonce scopes) w"

text \<open>The PKCE challenge of the code is not checked, nor that the code belongs to the client.\<close>

definition IdPHandler_handleAuthorizationCodeGrant :: "('k, 'p) rsa_lib \<Rightarrow> 'w IdPHandler \<Rightarrow> rotation \<Rightarrow> token_clock \<Rightarrow>
    'w JWKSService \<Rightarrow> tokenRequest \<Rightarrow> 'w \<Rightarrow> (tokenResponse response \<times> 'w JWKSService \<times> 'w) outcome" where
  "IdPHandler_handleAuthorizationCodeGrant lib h rnd clock js req w =
     (if tkr_Code req = [] then Returns (writeError 400 ''invalid_request'', js, w)
      else case OAuth2ClientService_ValidateClient (ih_clientService h) (tkr_ClientID req) (tkr_ClientSecret req) w of
        Inl e \<Rightarrow> Returns (writeError 401 ''invalid_client'', js, w)
      | Inr client \<Rightarrow>
          (case OAuth2ClientService_ConsumeAuthCode (ih_clientService h) (tc_code clock) (tkr_Code req) w of
             (Inl e, w1) \<Rightarrow> Returns (writeError 400 ''invalid_grant'', js, w1)
           | (Inr authCode, w1) \<Rightarrow>
               (if tkr_RedirectURI req \<noteq> ac_RedirectURI authCode then Returns (writeError 400 ''invalid_grant'', js, w1)
                else let user = IdPHandler_getUserForToken (ac_UserID authCode) (ac_TenantID authCode);
                         roles = ac_Scopes authCode
                in case TokenService_GenerateAccessToken (ih_tokens h) (tc_access clock) (user_ID user)
                          (ac_TenantID authCode) roles of
                     Inl e \<Rightarrow> Returns (writeError 500 ''internal_error'', js, w1)
                   | Inr accessToken \<Rightarrow>
                       (case TokenService_GenerateRefreshToken (ih_tokens h) (tc_refresh clock) (user_ID user)
                               (ac_TenantID authCode) roles of
                          Inl e \<Rightarrow> Returns (writeError 500 ''internal_error'', js, w1)
                        | Inr refreshToken \<Rightarrow>
                            (let reply = (\<lambda>idToken js' w'. Returns (Reply 200 \<lparr>
                                   tkp_AccessToken = accessToken, tkp_TokenType = ''Bearer'', tkp_ExpiresIn = 900,
                                   tkp_RefreshToken = refreshToken, tkp_IDToken = idToken,
                                   tkp_Scope = joinScopes (ac_Scopes authCode)\<rparr>, js', w'))
                             in if containsScope (ac_Scopes authCode) ''openid''
                                then (case IdPHandler_generateIDToken lib rnd clock js user (ac_TenantID authCode)
                                             (oc_ClientID client) (ac_Nonce authCode) (ac_Scopes authCode) w1 of
                                        Blocks \<Rightarrow> Blocks
                                      | Panics \<Rightarrow> Panics
                                      | Returns (Inl e, js1, w2) \<Rightarrow> reply [] js1 w2
                                      | Returns (Inr idToken, js1, w2) \<Rightarrow> reply idToken js1 w2)
                                else reply [] js w1)))))"

definition IdPHandler_handleRefreshTokenGrant :: "'w IdPHandler \<Rightarrow> time \<times> time \<times> time \<Rightarrow> tokenRequest \<Rightarrow> 'w \<Rightarrow>
    tokenResponse response" where
  "IdPHandler_handleRefreshTokenGrant h clock req w =
     (if tkr_RefreshToken req = [] then writeError 400 ''invalid_request''
      else case OAuth2ClientService_ValidateClient (ih_clientService h) (tkr_ClientID req) (tkr_ClientSecret req) w of
        Inl e \<Rightarrow> writeError 401 ''invalid_client''
      | Inr client \<Rightarrow>
          (case TokenService_Parse (ih_tokens h) (fst clock) (tkr_RefreshToken req) of
             Inl e \<Rightarrow> writeError 400 ''invalid_grant''
           | Inr claims \<Rightarrow>
               (case TokenService_GenerateAccessToken (ih_tokens h) (fst (snd clock)) (cl_UserID claims)
                       (cl_TenantID claims) (cl_Roles claims) of
                  Inl e \<Rightarrow> writeError 500 ''internal_error''
                | Inr accessToken \<Rightarrow> Reply 200 \<lparr>
                    tkp_AccessToken = accessToken, tkp_TokenType = ''Bearer'', tkp_ExpiresIn = 900,
                    tkp_RefreshToken =
                      (case TokenService_GenerateRefreshToken (ih_tokens h) (snd (snd clock)) (cl_UserID claims)
                              (cl_TenantID claims) (cl_Roles claims) of Inl e \<Rightarrow> [] | Inr t \<Rightarrow> t),
                    tkp_IDToken = [], tkp_Scope = joinScopes (cl_Roles claims)\<rparr>)))"

definition IdPHandler_handleClientCredentialsGrant :: "'w IdPHandler \<Rightarrow> time \<Rightarrow> tokenRequest \<Rightarrow> 'w \<Rightarrow>
    tokenResponse response" where
  "IdPHandler_handleClientCredentialsGrant h now req w =
     (case OAuth2ClientService_ValidateClient (ih_clientService h) (tkr_ClientID req) (tkr_ClientSecret req) w of
        Inl e \<Rightarrow> writeError 401 ''invalid_client''
      | Inr client \<Rightarrow>
          (if \<not> any_loop (\<lambda>gt. gt = ''client_credentials'') (oc_GrantTypes client)
           then writeError 400 ''unauthorized_client''
           else case TokenService_GenerateAccessToken (ih_tokens h) now (oc_ClientID client) (oc_TenantID client)
                       (oc_Scopes client) of
                  Inl e \<Rightarrow> writeError 500 ''internal_error''
                | Inr accessToken \<Rightarrow> Reply 200 \<lparr>
                    tkp_AccessToken = accessToken, tkp_TokenType = ''Bearer'', tkp_ExpiresIn = 900,
                    tkp_RefreshToken = [], tkp_IDToken = [], tkp_Scope = joinScopes (oc_Scopes client)\<rparr>))"

definition IdPHandler_Token :: "('k, 'p) rsa_lib \<Rightarrow> 'w IdPHandler \<Rightarrow> rotation \<Rightarrow> token_clock \<Rightarrow> 'w JWKSService \<Rightarrow>
    err + tokenRequest \<Rightarrow> 'w \<Rightarrow> (tokenResponse response \<times> 'w JWKSService \<times> 'w) outcome" where
  "IdPHandler_Token lib h rnd clock js bound w =
     (case bound of
        Inl e \<Rightarrow> Returns (writeError 400 ''invalid_request'', js, w)
      | Inr req \<Rightarrow>
          (if tkr_GrantType req = ''authorization_code''
           then IdPHandler_handleAuthorizationCodeGrant lib h rnd clock js req w
           else if tkr_GrantType req = ''refresh_token''
           then Returns (IdPHandler_handleRefreshTokenGrant h (tc_code clock, tc_access clock, tc_refresh clock) req w, js, w)
           else if tkr_GrantType req = ''client_credentials''
           then Returns (IdPHandler_handleClientCredentialsGrant h (tc_access clock) req w, js, w)
           else Returns (writeError 400 ''unsupported_grant_type'', js, w)))"

section \<open>Keys, discovery, user info\<close>

definition IdPHandler_JWKS :: "('k, 'p) rsa_lib \<Rightarrow> (nat \<Rightarrow> time) \<Rightarrow> 'w JWKSService \<Rightarrow> 'w \<Rightarrow> jwk list response" where
  "IdPHandler_JWKS lib clock js w =
     (case JWKSService_GetJWKS lib clock js w of
        Inl e \<Rightarrow> writeError 500 ''internal_error''
      | Inr jwks \<Rightarrow> Reply 200 jwks)"

definition IdPHandler_Discovery :: "string \<Rightarrow> string \<Rightarrow> (string \<times> any) list response" where
  "IdPHandler_Discovery scheme host =
     (let baseURL = scheme @ ''://'' @ host; strs = (\<lambda>xs. AList (map AStr xs))
      in Reply 200 [
        (''issuer'', AStr baseURL),
        (''authorization_endpoint'', AStr (baseURL @ ''/api/v1/idp/authorize'')),
        (''token_endpoint'', AStr (baseURL @ ''/api/v1/idp/token'')),
        (''jwks_uri'', AStr (baseURL @ ''/api/v1/idp/jwks'')),
        (''userinfo_endpoint'', AStr (baseURL @ ''/api/v1/idp/userinfo'')),
        (''end_session_endpoint'', AStr (baseURL @ ''/api/v1/idp/logout'')),
        (''scopes_supported'', strs [''openid'', ''profile'', ''email'', ''roles'', ''tenant'']),
        (''response_types_supported'', strs [''code'', ''id_token'', ''id_token token'']),
        (''grant_types_supported'', strs [''authorization_code'', ''refresh_token'', ''client_credentials'']),
        (''subject_types_supported'', strs [''public'']),
        (''id_token_signing_alg_values_supported'', strs [''RS256'']),
        (''token_endpoint_auth_methods_supported'', strs [''client_secret_basic'', ''client_secret_post'']),
        (''claims_supported'', strs [''sub'', ''name'', ''preferred_username'', ''email'', ''email_verified'', ''tenant_id'', ''roles''])])"

record userInfo =
  ui_sub :: string
  ui_tenant_id :: string
  ui_email :: any
  ui_email_verified :: any
  ui_name :: any
  ui_preferred_username :: any

definition any_or_nil :: "any option \<Rightarrow> any" where
  "any_or_nil v = (case v of None \<Rightarrow> ANull | Some a \<Rightarrow> a)"

text \<open>Slicing a header shorter than seven bytes panics, and so does a token without \<open>sub\<close> or \<open>tenant_id\<close>.\<close>

definition IdPHandler_UserInfo :: "('k, 'p) rsa_lib \<Rightarrow> time \<Rightarrow> 'w JWKSService \<Rightarrow> string \<Rightarrow> 'w \<Rightarrow> userInfo response outcome" where
  "IdPHandler_UserInfo lib now js authHeader w =
     (if authHeader = [] then Returns (writeError 401 ''invalid_token'')
      else if length authHeader < 7 then Panics
      else case JWKSService_VerifyToken lib js now (drop 7 authHeader) w of
        Inl e \<Rightarrow> Returns (writeError 401 ''invalid_token'')
      | Inr (claims, valid) \<Rightarrow>
          (if \<not> valid then Returns (writeError 401 ''invalid_token'')
           else case (any_string (map_of claims ''sub''), any_string (map_of claims ''tenant_id'')) of
                  (Some sub, Some tenantID) \<Rightarrow> Returns (Reply 200 \<lparr>
                    ui_sub = sub, ui_tenant_id = tenantID, ui_email = any_or_nil (map_of claims ''email''),
                    ui_email_verified = any_or_nil (map_of claims ''email_verified''),
                    ui_name = any_or_nil (map_of claims ''name''),
                    ui_preferred_username = any_or_nil (map_of claims ''preferred_username'')\<rparr>)
                | _ \<Rightarrow> Panics))"

end
