(* ===== verification/IdpProps.thy ===== *)
theory IdpProps
  imports IdpHandler IdentityProps
begin

text \<open>
  What the identity provider of main.go guarantees and what it does not: client secrets, the life
  of an authorization code, the roles that end up in a token.
\<close>

definition main_idp :: "gorms \<Rightarrow> TokenService \<Rightarrow> db IdPHandler" where
  "main_idp G tokens = \<lparr>ih_clientService = NewOAuth2ClientService (NewOAuth2ClientRepository G)
     (NewOAuth2AuthCodeRepository G) (NewOAuth2ConsentRepository G) (NewSigningKeyRepository G), ih_tokens = tokens\<rparr>"

lemma main_idp_simps [simp]:
  "cs_clients (ih_clientService (main_idp G tokens)) = NewOAuth2ClientRepository G"
  "cs_codes (ih_clientService (main_idp G tokens)) = NewOAuth2AuthCodeRepository G"
  "cs_consents (ih_clientService (main_idp G tokens)) = NewOAuth2ConsentRepository G"
  "ih_tokens (main_idp G tokens) = tokens"
  by (simp_all add: main_idp_def NewOAuth2ClientService_def)

lemma idp_repository_simps [simp]:
  "OAuth2ClientRepository_Create (NewOAuth2ClientRepository G) = oauth2ClientRepository_Create G"
  "OAuth2ClientRepository_FindByID (NewOAuth2ClientRepository G) = oauth2ClientRepository_FindByID G"
  "OAuth2ClientRepository_FindByClientID (NewOAuth2ClientRepository G) = oauth2ClientRepository_FindByClientID G"
  "OAuth2ClientRepository_Update (NewOAuth2ClientRepository G) = oauth2ClientRepository_Update G"
  "OAuth2AuthorizationCodeRepository_Create (NewOAuth2AuthCodeRepository G) = oauth2AuthCodeRepository_Create G"
  "OAuth2AuthorizationCodeRepository_FindByCode (NewOAuth2AuthCodeRepository G) = oauth2AuthCodeRepository_FindByCode G"
  "OAuth2AuthorizationCodeRepository_Delete (NewOAuth2AuthCodeRepository G) = oauth2AuthCodeRepository_Delete G"
  "OAuth2AuthorizationCodeRepository_DeleteExpired (NewOAuth2AuthCodeRepository G) = oauth2AuthCodeRepository_DeleteExpired G"
  "OAuth2ConsentRepository_Create (NewOAuth2ConsentRepository G) = oauth2ConsentRepository_Create G"
  "OAuth2ConsentRepository_FindByUserAndClient (NewOAuth2ConsentRepository G) = oauth2ConsentRepository_FindByUserAndClient G"
  "OAuth2ConsentRepository_Update (NewOAuth2ConsentRepository G) = oauth2ConsentRepository_Update G"
  by (simp_all add: NewOAuth2ClientRepository_def NewOAuth2AuthCodeRepository_def NewOAuth2ConsentRepository_def)

section \<open>Clients\<close>

context database begin

lemma client_FindByClientID_row:
  "oauth2ClientRepository_FindByClientID G cid d = Inr c \<Longrightarrow>
   \<exists>m\<in>set (t_oauth2_clients d). ocm_ClientID m = cid \<and> c = fromOAuth2ClientModel m"
  by (auto simp: oauth2ClientRepository_FindByClientID_def split: sum.splits if_splits dest!: oauth2_client.First_hit)

lemma client_FindByClientID_missing:
  "oauth2ClientRepository_FindByClientID G cid d = Inl (ExtErr x) \<Longrightarrow> m \<in> set (t_oauth2_clients d) \<Longrightarrow> ocm_ClientID m \<noteq> cid"
  by (auto simp: oauth2ClientRepository_FindByClientID_def split: sum.splits if_splits dest: oauth2_client.First_miss)

lemma client_Create_ok:
  assumes "oauth2ClientRepository_Create G c d = (Inr c', d')"
  shows "\<exists>m. t_oauth2_clients d' = t_oauth2_clients d @ [m] \<and> ocm_ClientID m = oc_ClientID c \<and>
    ocm_ClientSecretHash m = oc_ClientSecret c \<and> (oc_Enabled c \<longrightarrow> ocm_Enabled m) \<and>
    (\<forall>x\<in>set (t_oauth2_clients d). ocm_ClientID x \<noteq> oc_ClientID c) \<and>
    oc_ClientID c' = oc_ClientID c \<and> oc_ClientSecret c' = oc_ClientSecret c"
proof -
  obtain m where c: "g_Create (gorm_oauth2_clients G) (toOAuth2ClientModel c) (t_oauth2_clients d) = (Inr m, t_oauth2_clients d')"
      and c': "c' = c\<lparr>oc_ID := ocm_ID m, oc_CreatedAt := ocm_CreatedAt m, oc_UpdatedAt := ocm_UpdatedAt m\<rparr>"
    using assms by (auto simp: oauth2ClientRepository_Create_def split: prod.splits sum.splits)
  from oauth2_client.Create_row [OF c] show ?thesis
    by (auto simp: c' same_oauth2_client_def toOAuth2ClientModel_def clash_oauth2_client_def)
qed

text \<open>A client that is the only one with its client ID validates with the secret behind its hash.\<close>

lemma ValidateClient_only:
  assumes "m \<in> set (t_oauth2_clients d)" and "\<And>x. x \<in> set (t_oauth2_clients d) \<Longrightarrow> ocm_ClientID x = ocm_ClientID m \<Longrightarrow> x = m"
  shows "OAuth2ClientService_ValidateClient (ih_clientService (main_idp G tokens)) (ocm_ClientID m) sec d =
      (if ocm_Enabled m \<and> ocm_ClientSecretHash m = hashClientSecret sec then Inr (fromOAuth2ClientModel m)
       else Inl (SvcOpsErr service_ErrInvalidClient)) \<or>
    (\<exists>e. oauth2ClientRepository_FindByClientID G (ocm_ClientID m) d = Inl (GormErr e))"
proof (cases "oauth2ClientRepository_FindByClientID G (ocm_ClientID m) d")
  case (Inl e)
  have "e = ExtErr ErrOAuth2ClientNotFound \<or> (\<exists>x. e = GormErr x)"
    using Inl by (auto simp: oauth2ClientRepository_FindByClientID_def split: sum.splits if_splits)
  moreover have "e \<noteq> ExtErr ErrOAuth2ClientNotFound" using client_FindByClientID_missing [OF _ assms(1)] Inl by blast
  ultimately show ?thesis using Inl by blast
next
  case (Inr c)
  then have "c = fromOAuth2ClientModel m" using client_FindByClientID_row assms by metis
  then show ?thesis using Inr
    by (auto simp: OAuth2ClientService_ValidateClient_def verifyClientSecret_def hashClientSecret_def fromOAuth2ClientModel_def)
qed

lemma client_Updates_rows:
  assumes "oauth2ClientRepository_Update G c d = (r, d')"
  shows "\<exists>x. g_Updates (gorm_oauth2_clients G) (\<lambda>m. ocm_ID m = oc_ID c) ((toOAuth2ClientModel c)\<lparr>ocm_CreatedBy := []\<rparr>)
    (t_oauth2_clients d) = (x, t_oauth2_clients d')"
  using assms by (auto simp: oauth2ClientRepository_Update_def split: prod.splits sum.splits)

text \<open>An update of a stored client keeps every row's IDs and secret, and enabled rows enabled.\<close>

lemma client_Update_keeps:
  assumes upd: "oauth2ClientRepository_Update G c d = (r, d')" and q: "q \<in> set (t_oauth2_clients d)" "oc_ID c = ocm_ID q"
    and c: "oc_ClientID c = ocm_ClientID q" "oc_ClientSecret c = ocm_ClientSecretHash q"
    and ids: "distinct (map ocm_ID (t_oauth2_clients d))"
  shows "list_all2 (\<lambda>m m'. ocm_ClientID m' = ocm_ClientID m \<and> ocm_ClientSecretHash m' = ocm_ClientSecretHash m \<and>
    (ocm_Enabled m \<longrightarrow> ocm_Enabled m')) (t_oauth2_clients d) (t_oauth2_clients d')"
proof -
  obtain x where u: "g_Updates (gorm_oauth2_clients G) (\<lambda>m. ocm_ID m = oc_ID c) ((toOAuth2ClientModel c)\<lparr>ocm_CreatedBy := []\<rparr>)
      (t_oauth2_clients d) = (x, t_oauth2_clients d')"
    using client_Updates_rows [OF upd] ..
  show ?thesis
  proof (cases x)
    case (Inl e)
    then have "t_oauth2_clients d' = t_oauth2_clients d" using u oauth2_client.Updates_fail by blast
    then show ?thesis by (simp add: list_all2_same)
  next
    case (Inr n)
    have "m = q" if "m \<in> set (t_oauth2_clients d)" "ocm_ID m = oc_ID c" for m
      using that q ids by (auto simp: distinct_map inj_on_def)
    then show ?thesis
      using conjunct2 [OF oauth2_client.Updates_rows [OF u [unfolded Inr]]] c
      by (elim list.rel_mono_strong)
        (auto simp: kept_oauth2_client_def patch_oauth2_client_def toOAuth2ClientModel_def split: if_splits)
  qed
qed

end

text \<open>The secret a registration returns does not work. \<open>RegisterClient\<close> answers with the stored hash in place
  of the secret: validating the new client with it fails, while the secret that was drawn, which
  nobody is told, is accepted unless the database fails.\<close>

theorem registered_secret_rejected:
  assumes "database G"
    and "OAuth2ClientService_RegisterClient zone (ih_clientService (main_idp G tokens)) rnd t u req d = (Inr resp, d')"
  shows "OAuth2ClientService_ValidateClient (ih_clientService (main_idp G tokens)) (crp_ClientID resp) (crp_ClientSecret resp) d'
      = Inl (SvcOpsErr service_ErrInvalidClient) \<and>
    ((\<exists>c. OAuth2ClientService_ValidateClient (ih_clientService (main_idp G tokens)) (crp_ClientID resp)
        (generateClientSecret (snd rnd)) d' = Inr c) \<or>
     (\<exists>e. oauth2ClientRepository_FindByClientID G (crp_ClientID resp) d' = Inl (GormErr e)))"
proof -
  let ?c = "new_client (generateClientID (fst rnd)) (generateClientSecret (snd rnd)) t u req"
  obtain c where c: "oauth2ClientRepository_Create G ?c d = (Inr c, d')" and resp: "resp = toClientResponse zone c True"
    using assms(2) by (auto simp: OAuth2ClientService_RegisterClient_def split: if_splits prod.splits sum.splits)
  from database.client_Create_ok [OF assms(1) c] obtain m
    where m: "t_oauth2_clients d' = t_oauth2_clients d @ [m]" "ocm_ClientID m = oc_ClientID ?c"
        "ocm_ClientSecretHash m = oc_ClientSecret ?c" "ocm_Enabled m"
        "\<forall>x\<in>set (t_oauth2_clients d). ocm_ClientID x \<noteq> oc_ClientID ?c"
      and c': "oc_ClientID c = oc_ClientID ?c" "oc_ClientSecret c = oc_ClientSecret ?c"
    by (auto simp: new_client_def)
  have r: "crp_ClientID resp = ocm_ClientID m" "crp_ClientSecret resp = ocm_ClientSecretHash m"
    using m c' by (simp_all add: resp toClientResponse_def)
  have only: "x = m" if "x \<in> set (t_oauth2_clients d')" "ocm_ClientID x = ocm_ClientID m" for x
    using that m by auto
  have mem: "m \<in> set (t_oauth2_clients d')" using m by simp
  have sec: "ocm_ClientSecretHash m = hashClientSecret (generateClientSecret (snd rnd))"
    using m(3) by (simp add: new_client_def)
  have "hashClientSecret s \<noteq> hashClientSecret (hashClientSecret s)" for s by (simp add: hashClientSecret_def)
  then have "OAuth2ClientService_ValidateClient (ih_clientService (main_idp G tokens)) (ocm_ClientID m) (ocm_ClientSecretHash m) d'
      = Inl (SvcOpsErr service_ErrInvalidClient)"
    using database.ValidateClient_only [OF assms(1) mem only, of tokens "ocm_ClientSecretHash m"] sec
    by (auto simp: OAuth2ClientService_ValidateClient_def)
  then show ?thesis
    using database.ValidateClient_only [OF assms(1) mem only, of tokens "generateClientSecret (snd rnd)"] sec m(4) r by auto
qed

text \<open>A client cannot be disabled. Whatever \<open>UpdateClient\<close> is asked to do and answers, a client ID and secret
  that were valid stay valid unless the database fails: the mapper does not store \<open>enabled: false\<close>.\<close>

theorem disabled_client_still_valid:
  assumes "database G" and "distinct (map ocm_ID (t_oauth2_clients d))" and "distinct (map ocm_ClientID (t_oauth2_clients d))"
    and "OAuth2ClientService_ValidateClient (ih_clientService (main_idp G tokens)) cid sec d = Inr c"
    and "OAuth2ClientService_UpdateClient zone (ih_clientService (main_idp G tokens)) i updates d = (r, d')"
  shows "(\<exists>c'. OAuth2ClientService_ValidateClient (ih_clientService (main_idp G tokens)) cid sec d' = Inr c') \<or>
    (\<exists>e. oauth2ClientRepository_FindByClientID G cid d' = Inl (GormErr e))"
proof -
  obtain m where m: "m \<in> set (t_oauth2_clients d)" "ocm_ClientID m = cid" "ocm_Enabled m"
      "ocm_ClientSecretHash m = hashClientSecret sec"
    using assms(4) database.client_FindByClientID_row [OF assms(1)]
    by (fastforce simp: OAuth2ClientService_ValidateClient_def fromOAuth2ClientModel_def verifyClientSecret_def
        hashClientSecret_def split: sum.splits if_splits)
  have "list_all2 (\<lambda>m m'. ocm_ClientID m' = ocm_ClientID m \<and> ocm_ClientSecretHash m' = ocm_ClientSecretHash m \<and>
      (ocm_Enabled m \<longrightarrow> ocm_Enabled m')) (t_oauth2_clients d) (t_oauth2_clients d')" (is "list_all2 ?R _ _")
  proof (cases "oauth2ClientRepository_FindByID G i d")
    case (Inl e)
    then show ?thesis using assms(5) by (auto simp: OAuth2ClientService_UpdateClient_def list_all2_same)
  next
    case (Inr cl)
    obtain q where q: "q \<in> set (t_oauth2_clients d)" "cl = fromOAuth2ClientModel q"
      using Inr gorm_table.First_hit [OF database.oauth2_client_table [OF assms(1)]]
      by (fastforce simp: oauth2ClientRepository_FindByID_def split: sum.splits if_splits)
    obtain y where "oauth2ClientRepository_Update G (client_updates updates cl) d = (y, d')"
      using assms(5) Inr by (auto simp: OAuth2ClientService_UpdateClient_def split: prod.splits sum.splits)
    from database.client_Update_keeps [OF assms(1) this q(1)] assms(2) q(2) show ?thesis
      by (simp add: client_updates_def fromOAuth2ClientModel_def)
  qed
  note rows = this
  obtain m' where m': "m' \<in> set (t_oauth2_clients d')" "?R m m'" using list_all2_set1 [OF rows m(1)] by blast
  have "map ocm_ClientID (t_oauth2_clients d') = map ocm_ClientID (t_oauth2_clients d)"
    using rows by (induction rule: list_all2_induct) auto
  then have "x = m'" if "x \<in> set (t_oauth2_clients d')" "ocm_ClientID x = ocm_ClientID m'" for x
    using that m'(1) assms(3) by (metis distinct_map inj_onD)
  from database.ValidateClient_only [OF assms(1) m'(1) this, of tokens sec] m' m show ?thesis by auto
qed

section \<open>Codes and tokens\<close>

context database begin

lemma code_Create_ok:
  assumes "oauth2AuthCodeRepository_Create G c d = (Inr c', d')" and "ac_ID c \<noteq> []"
  shows "\<exists>m. t_oauth2_auth_codes d' = t_oauth2_auth_codes d @ [m] \<and> fromOAuth2AuthCodeModel m = c\<lparr>ac_CreatedAt := acm_CreatedAt m\<rparr> \<and>
    (\<forall>x\<in>set (t_oauth2_auth_codes d). acm_ID x \<noteq> ac_ID c)"
proof -
  obtain m where c: "g_Create (gorm_oauth2_auth_codes G) (toOAuth2AuthCodeModel c) (t_oauth2_auth_codes d) = (Inr m, t_oauth2_auth_codes d')"
    using assms(1) by (auto simp: oauth2AuthCodeRepository_Create_def split: prod.splits sum.splits)
  from oauth2_auth_code.Create_row [OF c] assms(2) show ?thesis
    by (intro exI [of _ m])
      (auto simp: same_oauth2_auth_code_def toOAuth2AuthCodeModel_def fromOAuth2AuthCodeModel_def
        clash_oauth2_auth_code_def json_strings_roundtrip)
qed

lemma code_row:
  assumes "oauth2AuthCodeRepository_FindByCode G now code d = (Inr (Some c), d')"
  shows "\<exists>m\<in>set (t_oauth2_auth_codes d). acm_ID m = code \<and> c = fromOAuth2AuthCodeModel m"
  using assms by (auto simp: oauth2AuthCodeRepository_FindByCode_def split: sum.splits if_splits
      dest!: oauth2_auth_code.First_hit)

end

lemma generateAuthCode_not_Nil: "length b = 32 \<Longrightarrow> generateAuthCode b \<noteq> []"
  using length_base64 [of b] by (auto simp: generateAuthCode_def)

text \<open>What a redirect with a code leaves in the database: the code's row, and no other with its ID.\<close>

lemma issue_ok:
  assumes "database G" and "generateAuthCode rnd \<noteq> []"
    and "IdPHandler_issueAuthCodeAndRedirect (main_idp G tokens) rnd now client u t uri scopes state cc ccm nonce d
      = (Redirect 302 url, d')"
  shows "\<exists>m\<in>set (t_oauth2_auth_codes d'). (\<forall>x\<in>set (t_oauth2_auth_codes d'). acm_ID x = acm_ID m \<longrightarrow> x = m) \<and>
    acm_ID m = generateAuthCode rnd \<and>
    ac_UserID (fromOAuth2AuthCodeModel m) = u \<and> ac_TenantID (fromOAuth2AuthCodeModel m) = t \<and>
    ac_Scopes (fromOAuth2AuthCodeModel m) = scopes \<and> ac_RedirectURI (fromOAuth2AuthCodeModel m) = uri"
proof -
  obtain c where c: "oauth2AuthCodeRepository_Create G \<lparr>ac_ID = generateAuthCode rnd, ac_ClientID = oc_ClientID client,
      ac_UserID = u, ac_TenantID = t, ac_RedirectURI = uri, ac_Scopes = scopes, ac_CodeChallenge = cc,
      ac_CodeChallengeMethod = ccm, ac_Nonce = nonce, ac_ExpiresAt = now + 10 * time_Minute, ac_CreatedAt = zero_time\<rparr> d
      = (Inr c, d')"
    using assms(3) by (auto simp: IdPHandler_issueAuthCodeAndRedirect_def OAuth2ClientService_CreateAuthCode_def Let_def
        writeError_def split: prod.splits sum.splits)
  from database.code_Create_ok [OF assms(1) c] assms(2) obtain m
    where m: "t_oauth2_auth_codes d' = t_oauth2_auth_codes d @ [m]"
      and "fromOAuth2AuthCodeModel m = \<lparr>ac_ID = generateAuthCode rnd, ac_ClientID = oc_ClientID client,
      ac_UserID = u, ac_TenantID = t, ac_RedirectURI = uri, ac_Scopes = scopes, ac_CodeChallenge = cc,
      ac_CodeChallengeMethod = ccm, ac_Nonce = nonce, ac_ExpiresAt = now + 10 * time_Minute, ac_CreatedAt = acm_CreatedAt m\<rparr>"
      and "\<forall>x\<in>set (t_oauth2_auth_codes d). acm_ID x \<noteq> generateAuthCode rnd"
    by auto
  then show ?thesis by (intro bexI [of _ m]) (auto simp: fromOAuth2AuthCodeModel_def)
qed

text \<open>A token for a code carries what the code's row says.\<close>

lemma code_grant_ok:
  assumes "IdPHandler_Token lib (main_idp G tokens) rnd clock js (Inr req) d = Returns (Reply 200 resp, js', d')"
    and "tkr_GrantType req = ''authorization_code''"
  shows "\<exists>c cl d1. OAuth2ClientService_ValidateClient (ih_clientService (main_idp G tokens)) (tkr_ClientID req) (tkr_ClientSecret req) d = Inr cl \<and>
    oauth2AuthCodeRepository_FindByCode G (tc_code clock) (tkr_Code req) d = (Inr (Some c), d1) \<and>
    tkr_RedirectURI req = ac_RedirectURI c \<and>
    TokenService_GenerateAccessToken tokens (tc_access clock) (ac_UserID c) (ac_TenantID c) (ac_Scopes c) = Inr (tkp_AccessToken resp)"
  using assms
  by (auto simp: IdPHandler_Token_def IdPHandler_handleAuthorizationCodeGrant_def OAuth2ClientService_ConsumeAuthCode_def
      IdPHandler_getUserForToken_def Let_def writeError_def
      split: if_splits sum.splits prod.splits option.splits outcome.splits)


definition idp_db :: db where
  "idp_db = empty_db\<lparr>t_oauth2_clients := [\<lparr>ocm_ID = ''c1'', ocm_TenantID = ''t1'', ocm_Name = ''app'',
     ocm_ClientID = ''hov_1'', ocm_ClientSecretHash = ''hashed_s'', ocm_RedirectURIs = json_Marshal_strings [''https://app''],
     ocm_Scopes = json_Marshal_strings [''openid''], ocm_GrantTypes = json_Marshal_strings [''authorization_code''],
     ocm_ResponseTypes = json_Marshal_strings [''code''], ocm_TokenEndpointAuthMethod = [], ocm_LogoURI = [],
     ocm_ClientURI = [], ocm_PolicyURI = [], ocm_TOSURI = [], ocm_JWKSURI = [], ocm_Contacts = json_Marshal_strings [],
     ocm_Enabled = True, ocm_CreatedAt = 0, ocm_UpdatedAt = 0, ocm_CreatedBy = ''u9''\<rparr>]\<rparr>"

definition demo_identity :: request_identity where
  "demo_identity = \<lparr>ctx_userID = ''u1'', ctx_tenantID = ''t1'', ctx_roles = [''member'']\<rparr>"

definition demo_consent :: consentRequest where
  "demo_consent = \<lparr>cnr_ClientID = ''hov_1'', cnr_Scopes = [''admin''], cnr_RedirectURI = ''https://app'', cnr_State = [],
     cnr_Approve = True, cnr_Remember = True, cnr_CodeChallenge = [], cnr_CodeChallengeMethod = [], cnr_Nonce = []\<rparr>"

definition demo_code_bytes :: string where
  "demo_code_bytes = ''0123456789abcdef0123456789abcdef''"

definition demo_token_request :: tokenRequest where
  "demo_token_request = \<lparr>tkr_GrantType = ''authorization_code'', tkr_Code = generateAuthCode demo_code_bytes,
     tkr_RedirectURI = ''https://app'', tkr_ClientID = ''hov_1'', tkr_ClientSecret = ''s'', tkr_RefreshToken = [], tkr_Scope = []\<rparr>"

definition demo_token_clock :: token_clock where
  "demo_token_clock = \<lparr>tc_code = 4, tc_access = 5, tc_refresh = 6, tc_claims = (7, 8), tc_sign = (9, 10, 11)\<rparr>"

lemma demo_code_length: "length demo_code_bytes = 32"
  by (simp add: demo_code_bytes_def)

lemma demo_code_not_Nil: "generateAuthCode demo_code_bytes \<noteq> []"
  by (rule generateAuthCode_not_Nil [OF demo_code_length])

lemma mem_idp_tables [simp]:
  "gorm_oauth2_clients mem_gorms = mem_gorm fill_oauth2_client clash_oauth2_client patch_oauth2_client"
  "gorm_oauth2_auth_codes mem_gorms = mem_gorm fill_oauth2_auth_code clash_oauth2_auth_code patch_oauth2_auth_code"
  "gorm_oauth2_consents mem_gorms = mem_gorm fill_oauth2_consent clash_oauth2_consent patch_oauth2_consent"
  by (simp_all add: mem_gorms_def)

text \<open>The whole flow: a member asks for the role \<open>admin\<close>.\<close>

definition demo_code :: oauth2AuthCodeModel where
  "demo_code = \<lparr>acm_ID = generateAuthCode demo_code_bytes, acm_ClientID = ''hov_1'', acm_UserID = ''u1'', acm_TenantID = ''t1'',
     acm_RedirectURI = ''https://app'', acm_Scopes = json_Marshal_strings [''admin''], acm_CodeChallenge = [],
     acm_CodeChallengeMethod = [], acm_Nonce = [], acm_ExpiresAt = 3 + 10 * time_Minute, acm_CreatedAt = zero_time\<rparr>"

lemma demo_consent_step:
  "\<exists>url d1. IdPHandler_Consent (main_idp mem_gorms demo_tokens) demo_code_bytes (1, 2, 3) (Some demo_identity)
       (Inr demo_consent) idp_db = Returns (Redirect 302 url, d1) \<and>
     t_oauth2_clients d1 = t_oauth2_clients idp_db \<and> t_oauth2_auth_codes d1 = [demo_code]"
  using demo_code_not_Nil
  by (simp add: IdPHandler_Consent_def demo_consent_def demo_identity_def idp_db_def
      OAuth2ClientService_GrantConsent_def oauth2ConsentRepository_FindByUserAndClient_def find_first_def
      oauth2ConsentRepository_Create_def fill_oauth2_consent_def clash_oauth2_consent_def Let_def mem_gorm_def
      OAuth2ClientService_GetClientByClientID_def oauth2ClientRepository_FindByClientID_def
      IdPHandler_issueAuthCodeAndRedirect_def OAuth2ClientService_CreateAuthCode_def oauth2AuthCodeRepository_Create_def
      toOAuth2AuthCodeModel_def fill_oauth2_auth_code_def demo_code_def fromOAuth2ClientModel_def empty_db_def)

lemma demo_token_step:
  assumes "t_oauth2_clients d1 = t_oauth2_clients idp_db" and "t_oauth2_auth_codes d1 = [demo_code]"
  shows "\<exists>resp d2. IdPHandler_Token plain_rsa (main_idp mem_gorms demo_tokens) (''p'', ''q'', 0) demo_token_clock (main_jwks mem_gorms)
       (Inr demo_token_request) d1 = Returns (Reply 200 resp, main_jwks mem_gorms, d2)"
  using assms demo_code_not_Nil
  by (simp add: IdPHandler_Token_def demo_token_request_def IdPHandler_handleAuthorizationCodeGrant_def
      OAuth2ClientService_ValidateClient_def oauth2ClientRepository_FindByClientID_def idp_db_def mem_gorm_def
      find_first_def fromOAuth2ClientModel_def verifyClientSecret_def OAuth2ClientService_ConsumeAuthCode_def
      oauth2AuthCodeRepository_FindByCode_def demo_code_def fromOAuth2AuthCodeModel_def demo_token_clock_def time_defs
      json_strings_roundtrip containsScope_def Let_def TokenService_GenerateAccessToken_def
      TokenService_GenerateRefreshToken_def TokenService_generate_def demo_tokens_def NewTokenService_def plain_jwt_def)


theorem registered_secret_rejected_witness:
  "\<exists>resp d'. OAuth2ClientService_RegisterClient (\<lambda>t. 0) (ih_clientService (main_idp mem_gorms demo_tokens))
       (''0123456789abcdef'', demo_code_bytes) ''t1'' ''u1''
       \<lparr>rcr_Name = ''app'', rcr_RedirectURIs = [''https://app''], rcr_Scopes = [], rcr_GrantTypes = [], rcr_ResponseTypes = [],
        rcr_TokenEndpointAuthMethod = [], rcr_LogoURI = [], rcr_ClientURI = [], rcr_PolicyURI = [], rcr_TOSURI = [],
        rcr_JWKSURI = [], rcr_Contacts = []\<rparr> empty_db = (Inr resp, d') \<and>
     OAuth2ClientService_ValidateClient (ih_clientService (main_idp mem_gorms demo_tokens)) (crp_ClientID resp)
       (crp_ClientSecret resp) d' = Inl (SvcOpsErr service_ErrInvalidClient)" (is "\<exists>resp d'. ?R = _ \<and> _")
proof -
  obtain resp d' where r: "?R = (Inr resp, d')"
    by (simp add: OAuth2ClientService_RegisterClient_def oauth2ClientRepository_Create_def mem_gorm_def Let_def empty_db_def)
  from registered_secret_rejected [OF mem_database r] r show ?thesis by blast
qed

theorem disabled_client_still_valid_witness:
  "\<exists>resp d' c. OAuth2ClientService_UpdateClient (\<lambda>t. 0) (ih_clientService (main_idp mem_gorms demo_tokens)) ''c1''
       [(''enabled'', ABool False)] idp_db = (Inr resp, d') \<and> \<not> crp_Enabled resp \<and>
     OAuth2ClientService_ValidateClient (ih_clientService (main_idp mem_gorms demo_tokens)) ''hov_1'' ''s'' d' = Inr c"
    (is "\<exists>resp d' c. ?U = _ \<and> _ \<and> _")
proof -
  obtain resp d' where u: "?U = (Inr resp, d')" and r: "\<not> crp_Enabled resp"
    by (simp add: OAuth2ClientService_UpdateClient_def oauth2ClientRepository_FindByID_def oauth2ClientRepository_Update_def
        mem_gorm_def find_first_def idp_db_def fromOAuth2ClientModel_def client_updates_def any_bool_def toClientResponse_def)
  obtain c where v: "OAuth2ClientService_ValidateClient (ih_clientService (main_idp mem_gorms demo_tokens)) ''hov_1'' ''s'' idp_db = Inr c"
    by (simp add: OAuth2ClientService_ValidateClient_def oauth2ClientRepository_FindByClientID_def idp_db_def mem_gorm_def
      find_first_def fromOAuth2ClientModel_def verifyClientSecret_def)
  have "oauth2ClientRepository_FindByClientID mem_gorms ''hov_1'' d' \<noteq> Inl (GormErr e)" for e
    by (auto simp: oauth2ClientRepository_FindByClientID_def mem_gorm_def find_first_def split: list.splits option.splits)
  then show ?thesis using disabled_client_still_valid [OF mem_database _ _ v u] u r by (auto simp: idp_db_def)
qed

section \<open>A code works once\<close>

definition code_gone :: "string \<Rightarrow> db \<Rightarrow> bool" where
  "code_gone code d \<longleftrightarrow> (\<forall>m\<in>set (t_oauth2_auth_codes d). acm_ID m \<noteq> code)"

text \<open>Operations between two uses of a code: the provider's handlers, whose fresh codes are different, the
  sweep, and anything that leaves the table of codes alone.\<close>

inductive code_history :: "('k, 'p) rsa_lib \<Rightarrow> gorms \<Rightarrow> TokenService \<Rightarrow> string \<Rightarrow> db \<Rightarrow> db \<Rightarrow> bool" for lib G tokens code where
  code_start: "code_history lib G tokens code d d"
| code_authorize: "code_history lib G tokens code d d1 \<Longrightarrow> generateAuthCode rnd \<noteq> code \<Longrightarrow> length rnd = 32 \<Longrightarrow>
    IdPHandler_Authorize (main_idp G tokens) rnd clock ctx raw bound d1 = (resp, d2) \<Longrightarrow> code_history lib G tokens code d d2"
| code_consent: "code_history lib G tokens code d d1 \<Longrightarrow> generateAuthCode rnd \<noteq> code \<Longrightarrow> length rnd = 32 \<Longrightarrow>
    IdPHandler_Consent (main_idp G tokens) rnd clock' ctx bound' d1 = Returns (resp', d2) \<Longrightarrow> code_history lib G tokens code d d2"
| code_token: "code_history lib G tokens code d d1 \<Longrightarrow>
    IdPHandler_Token lib (main_idp G tokens) rot tclock js req d1 = Returns (resp'', js', d2) \<Longrightarrow> code_history lib G tokens code d d2"
| code_sweep: "code_history lib G tokens code d d1 \<Longrightarrow>
    oauth2AuthCodeRepository_DeleteExpired G now d1 = (r, d2) \<Longrightarrow> code_history lib G tokens code d d2"
| code_other: "code_history lib G tokens code d d1 \<Longrightarrow> t_oauth2_auth_codes d2 = t_oauth2_auth_codes d1 \<Longrightarrow>
    code_history lib G tokens code d d2"

lemma consent_frames:
  "oauth2ConsentRepository_Create G c d = (r, d') \<Longrightarrow> t_oauth2_auth_codes d' = t_oauth2_auth_codes d"
  "oauth2ConsentRepository_Update G c d = (r', d') \<Longrightarrow> t_oauth2_auth_codes d' = t_oauth2_auth_codes d"
  by (auto simp: oauth2ConsentRepository_Create_def oauth2ConsentRepository_Update_def split: prod.splits sum.splits)

lemma GrantConsent_codes:
  "OAuth2ClientService_GrantConsent (ih_clientService (main_idp G tokens)) clock u cid t scopes rem d = (r, d') \<Longrightarrow>
   t_oauth2_auth_codes d' = t_oauth2_auth_codes d"
  by (auto simp: OAuth2ClientService_GrantConsent_def Let_def dest!: consent_frames
      split: prod.splits sum.splits option.splits)

lemma SignToken_world:
  "JWKSService_SignToken lib rnd clock s claims d = Returns (r, s', d') \<Longrightarrow> d' = d"
  using GetActiveKey_world [of lib rnd clock s d]
  by (auto simp: JWKSService_SignToken_def split: outcome.splits sum.splits option.splits)

context database begin

lemma code_Create_gone:
  assumes "oauth2AuthCodeRepository_Create G c d = (r, d')" and "ac_ID c \<noteq> code" and "ac_ID c \<noteq> []" and "code_gone code d"
  shows "code_gone code d'"
proof -
  obtain x where "g_Create (gorm_oauth2_auth_codes G) (toOAuth2AuthCodeModel c) (t_oauth2_auth_codes d) = (x, t_oauth2_auth_codes d')"
    using assms(1) by (auto simp: oauth2AuthCodeRepository_Create_def split: prod.splits sum.splits)
  from oauth2_auth_code.Create_all [OF this, of "\<lambda>m. acm_ID m \<noteq> code"] assms(2-4) show ?thesis
    by (auto simp: code_gone_def same_oauth2_auth_code_def toOAuth2AuthCodeModel_def)
qed

lemma code_Delete_gone:
  assumes "oauth2AuthCodeRepository_Delete G x d = (r, d')" and "code_gone code d"
  shows "code_gone code d'"
proof -
  obtain y where "g_Delete (gorm_oauth2_auth_codes G) (\<lambda>m. acm_ID m = x) (t_oauth2_auth_codes d) = (y, t_oauth2_auth_codes d')"
    using assms(1) by (auto simp: oauth2AuthCodeRepository_Delete_def split: prod.splits sum.splits)
  from oauth2_auth_code.Delete_all [OF this, of "\<lambda>m. acm_ID m \<noteq> code"] assms(2) show ?thesis
    by (simp add: code_gone_def)
qed

lemma code_Find_gone:
  assumes "oauth2AuthCodeRepository_FindByCode G now x d = (r, d')" and "code_gone code d"
  shows "code_gone code d'"
proof -
  have "code_gone code (d\<lparr>t_oauth2_auth_codes := snd (g_Delete (gorm_oauth2_auth_codes G) P (t_oauth2_auth_codes d))\<rparr>)" for P
    using oauth2_auth_code.Delete_all [of P "t_oauth2_auth_codes d" _ _ "\<lambda>m. acm_ID m \<noteq> code"] assms(2)
    by (cases "g_Delete (gorm_oauth2_auth_codes G) P (t_oauth2_auth_codes d)") (simp add: code_gone_def)
  then show ?thesis using assms by (auto simp: oauth2AuthCodeRepository_FindByCode_def split: sum.splits if_splits)
qed

lemma code_sweep_gone:
  assumes "oauth2AuthCodeRepository_DeleteExpired G now d = (r, d')" and "code_gone code d"
  shows "code_gone code d'"
proof -
  obtain y where "g_Delete (gorm_oauth2_auth_codes G) (\<lambda>m. acm_ExpiresAt m < now) (t_oauth2_auth_codes d) = (y, t_oauth2_auth_codes d')"
    using assms(1) by (auto simp: oauth2AuthCodeRepository_DeleteExpired_def split: prod.splits sum.splits)
  from oauth2_auth_code.Delete_all [OF this, of "\<lambda>m. acm_ID m \<noteq> code"] assms(2) show ?thesis
    by (simp add: code_gone_def)
qed

lemma code_gone_find:
  assumes "code_gone code d"
  shows "fst (oauth2AuthCodeRepository_FindByCode G now code d) \<noteq> Inr (Some c)"
proof
  assume "fst (oauth2AuthCodeRepository_FindByCode G now code d) = Inr (Some c)"
  then obtain d' where "oauth2AuthCodeRepository_FindByCode G now code d = (Inr (Some c), d')"
    by (metis prod.collapse)
  from code_row [OF this] assms show False by (auto simp: code_gone_def)
qed

lemma Consume_gone:
  assumes "OAuth2ClientService_ConsumeAuthCode (ih_clientService (main_idp G tokens)) now x d = (r, d')" and "code_gone code d"
  shows "code_gone code d'"
proof -
  obtain y d1 where f: "oauth2AuthCodeRepository_FindByCode G now x d = (y, d1)" by fastforce
  note g = code_Find_gone [OF f assms(2)]
  have "code_gone code (snd (oauth2AuthCodeRepository_Delete G x d1))"
    using code_Delete_gone [OF _ g] by (metis prod.collapse)
  then show ?thesis using assms(1) f g
    by (auto simp: OAuth2ClientService_ConsumeAuthCode_def split: sum.splits option.splits)
qed

lemma issue_gone:
  assumes "IdPHandler_issueAuthCodeAndRedirect (main_idp G tokens) rnd now client u t uri scopes state cc ccm nonce d = (resp, d')"
    and "generateAuthCode rnd \<noteq> code" and "length rnd = 32" and "code_gone code d"
  shows "code_gone code d'"
  using assms generateAuthCode_not_Nil [OF assms(3)]
  by (auto simp: IdPHandler_issueAuthCodeAndRedirect_def OAuth2ClientService_CreateAuthCode_def Let_def
      split: prod.splits sum.splits elim!: code_Create_gone)

lemma Authorize_gone:
  assumes "IdPHandler_Authorize (main_idp G tokens) rnd clock ctx raw bound d = (resp, d')"
    and "generateAuthCode rnd \<noteq> code" and "length rnd = 32" and "code_gone code d"
  shows "code_gone code d'"
  using assms by (auto simp: IdPHandler_Authorize_def Let_def elim!: issue_gone
      split: sum.splits if_splits option.splits)

lemma Consent_gone:
  assumes "IdPHandler_Consent (main_idp G tokens) rnd clock ctx bound d = Returns (resp, d')"
    and "generateAuthCode rnd \<noteq> code" and "length rnd = 32" and "code_gone code d"
  shows "code_gone code d'"
proof -
  have "code_gone code d1"
    if "OAuth2ClientService_GrantConsent (ih_clientService (main_idp G tokens)) c u cid t scopes rem d = (r, d1)" for c u cid t scopes rem r d1
    using GrantConsent_codes [OF that] assms(4) by (simp add: code_gone_def)
  then show ?thesis using assms
    by (auto simp: IdPHandler_Consent_def elim!: issue_gone split: option.splits sum.splits if_splits prod.splits)
qed

lemma Token_consumes:
  assumes "IdPHandler_Token lib (main_idp G tokens) rot tclock js (Inr req) d = Returns (resp, js', d')"
  shows "d' = d \<or> d' = snd (OAuth2ClientService_ConsumeAuthCode (ih_clientService (main_idp G tokens)) (tc_code tclock) (tkr_Code req) d)"
  using assms
  by (auto simp: IdPHandler_Token_def IdPHandler_handleAuthorizationCodeGrant_def Let_def IdPHandler_generateIDToken_def
      split: if_splits sum.splits prod.splits outcome.splits dest!: SignToken_world)

lemma Token_gone:
  assumes "IdPHandler_Token lib (main_idp G tokens) rot tclock js bound d = Returns (resp, js', d')" and "code_gone code d"
  shows "code_gone code d'"
proof (cases bound)
  case (Inl e)
  then show ?thesis using assms by (simp add: IdPHandler_Token_def)
next
  case (Inr req)
  from Token_consumes [OF assms(1) [unfolded Inr]] show ?thesis
    using Consume_gone [OF _ assms(2)] assms(2) by (metis prod.collapse)
qed

lemma code_history_gone: "code_history lib G tokens code d d' \<Longrightarrow> code_gone code d \<Longrightarrow> code_gone code d'"
proof (induction rule: code_history.induct)
  case (code_other d d1 d2)
  then show ?case by (simp add: code_gone_def)
qed (blast intro: Authorize_gone Consent_gone Token_gone code_sweep_gone)+

end



section \<open>Scopes\<close>

lemma scopes_loop_word:
  "CHR '' '' \<notin> set x \<Longrightarrow> scopes_loop (x @ s) cur res = scopes_loop s (cur @ x) res"
  by (induction x arbitrary: cur) auto

lemma foldl_sep: "foldl (\<lambda>result y. result @ sep @ y) (a @ s) ss = a @ foldl (\<lambda>result y. result @ sep @ y) s ss"
  by (induction ss arbitrary: s) simp_all

lemma joinScopes_Cons: "joinScopes (x # xs) = (if xs = [] then x else x @ '' '' @ joinScopes xs)"
proof (cases xs)
  case Nil
  then show ?thesis by (simp add: joinScopes_def)
next
  case (Cons y ys)
  define sep where "sep = '' ''"
  have "foldl (\<lambda>result y. result @ sep @ y) (x @ sep @ y) ys = x @ sep @ foldl (\<lambda>result y. result @ sep @ y) y ys"
    using foldl_sep [of sep "x @ sep" y ys] by simp
  then show ?thesis by (simp add: joinScopes_def Cons flip: sep_def)
qed

lemma scopes_loop_join:
  "\<forall>x\<in>set xs. x \<noteq> [] \<and> CHR '' '' \<notin> set x \<Longrightarrow> scopes_loop (joinScopes xs) [] res = res @ xs"
proof (induction xs arbitrary: res)
  case Nil
  then show ?case by (simp add: joinScopes_def)
next
  case (Cons x xs)
  have x: "CHR '' '' \<notin> set x" "x \<noteq> []" using Cons.prems by auto
  have IH: "scopes_loop (joinScopes xs) [] (res @ [x]) = (res @ [x]) @ xs" using Cons by auto
  show ?case
  proof (cases "xs = []")
    case True
    then show ?thesis using scopes_loop_word [OF x(1), of "[]" "[]" res] x(2) by (simp add: joinScopes_Cons)
  next
    case False
    then show ?thesis using scopes_loop_word [OF x(1), of "'' '' @ joinScopes xs" "[]" res] x(2) IH
      by (simp add: joinScopes_Cons)
  qed
qed

definition scope_word :: "string \<Rightarrow> bool" where
  "scope_word x \<longleftrightarrow> x \<noteq> [] \<and> CHR '' '' \<notin> set x"

lemma scopes_loop_words:
  "CHR '' '' \<notin> set cur \<Longrightarrow> list_all scope_word res \<Longrightarrow> list_all scope_word (scopes_loop s cur res)"
proof (induction s cur res rule: scopes_loop.induct)
  case (1 cur res)
  then show ?case by (simp add: scope_word_def)
next
  case (2 c cs cur res)
  show ?case
  proof (cases "c = CHR '' ''")
    case True
    then show ?thesis using 2 by (cases "cur = []") (simp_all add: scope_word_def)
  next
    case False
    then show ?thesis using 2 by simp
  qed
qed

text \<open>Scopes survive the trip through a request. Joining scopes and parsing the text gives them back exactly if
  each is nonempty and has no space; what parsing yields always has that form.\<close>

theorem scopes_roundtrip:
  "(parseScopes (joinScopes xs) = xs \<longleftrightarrow> list_all scope_word xs) \<and>
   list_all scope_word (parseScopes s) \<and> parseScopes (joinScopes (parseScopes s)) = parseScopes s"
proof -
  have words: "list_all scope_word (parseScopes s)" for s
    using scopes_loop_words [of "[]" "[]" s] by (simp add: parseScopes_def)
  have join: "parseScopes (joinScopes xs) = xs" if "list_all scope_word xs" for xs
    using that scopes_loop_join [of xs "[]"] by (auto simp: parseScopes_def scope_word_def list_all_iff)
  show ?thesis using words join by metis
qed

end
