(* ===== verification/AuditTrail.thy ===== *)
theory AuditTrail
  imports Http RepoAudit Clock
begin

text \<open>
  service/audit.go and api/audit_handler.go: recording audit events, reading them back and verifying
  the hash chain. The clock readings are those of the service followed by the three of the
  repository; a query string is the function from names to values that gin's \<open>Query\<close> is.
\<close>

section \<open>Service\<close>

record 'w AuditLogService =
  als_repo :: "'w AuditLogRepository"

definition NewAuditLogService :: "'w AuditLogRepository \<Rightarrow> 'w AuditLogService" where
  "NewAuditLogService repo = \<lparr>als_repo = repo\<rparr>"

definition AuditLogService_Log :: "'w AuditLogService \<Rightarrow> time \<times> time \<times> time \<Rightarrow> time \<times> time \<times> time \<Rightarrow> AuditLog \<Rightarrow> 'w \<Rightarrow>
    (err + AuditLog) \<times> 'w" where
  "AuditLogService_Log s clock rclock log w =
     (case clock of (n1, n2, n3) \<Rightarrow>
       (let log1 = (if time_IsZero (al_Timestamp log) then log\<lparr>al_Timestamp := n1\<rparr> else log);
            log2 = (if al_ID log1 = [] then log1\<lparr>al_ID := generateID n2 n3\<rparr> else log1)
        in AuditLogRepository_Create (als_repo s) rclock log2 w))"

definition audit_event :: "time \<Rightarrow> string \<Rightarrow> AuditEventType \<Rightarrow> string \<Rightarrow> string \<Rightarrow> string \<Rightarrow> string \<Rightarrow> string \<Rightarrow>
    any_map \<Rightarrow> any_map \<Rightarrow> any_map \<Rightarrow> AuditLog" where
  "audit_event now tenantID eventType actorID actorType resourceType resourceID action before after metadata = \<lparr>
     al_ID = [], al_TenantID = tenantID, al_EventType = eventType, al_ActorID = actorID, al_ActorType = actorType,
     al_ResourceType = resourceType, al_ResourceID = resourceID, al_Action = action, al_Before = before,
     al_After = after, al_Metadata = metadata, al_Timestamp = now, al_Hash = [], al_PrevHash = []\<rparr>"

definition AuditLogService_LogEvent :: "'w AuditLogService \<Rightarrow> time \<Rightarrow> time \<times> time \<times> time \<Rightarrow> string \<Rightarrow> AuditEventType \<Rightarrow> string \<Rightarrow>
    string \<Rightarrow> string \<Rightarrow> string \<Rightarrow> string \<Rightarrow> any_map \<Rightarrow> any_map \<Rightarrow> any_map \<Rightarrow> 'w \<Rightarrow> (err + AuditLog) \<times> 'w" where
  "AuditLogService_LogEvent s now rclock tenantID eventType actorID actorType resourceType resourceID action before after metadata w =
     AuditLogRepository_Create (als_repo s) rclock
       (audit_event now tenantID eventType actorID actorType resourceType resourceID action before after metadata) w"

text \<open>\<open>if metadata == nil\<close> a new map; then one key. \<open>map_set\<close> does both.\<close>

definition AuditLogService_LogUserEvent :: "'w AuditLogService \<Rightarrow> time \<Rightarrow> time \<times> time \<times> time \<Rightarrow> string \<Rightarrow> AuditEventType \<Rightarrow> string \<Rightarrow>
    string \<Rightarrow> string \<Rightarrow> any_map \<Rightarrow> any_map \<Rightarrow> any_map \<Rightarrow> 'w \<Rightarrow> (err + AuditLog) \<times> 'w" where
  "AuditLogService_LogUserEvent s now rclock tenantID eventType actorID userID action before after metadata w =
     AuditLogService_LogEvent s now rclock tenantID eventType actorID ''user'' ''user'' userID action before after
       (map_set metadata ''target_user_id'' (AStr userID)) w"

definition AuditLogService_LogAuthEvent :: "'w AuditLogService \<Rightarrow> time \<Rightarrow> time \<times> time \<times> time \<Rightarrow> string \<Rightarrow> AuditEventType \<Rightarrow> string \<Rightarrow>
    string \<Rightarrow> any_map \<Rightarrow> 'w \<Rightarrow> (err + AuditLog) \<times> 'w" where
  "AuditLogService_LogAuthEvent s now rclock tenantID eventType actorID action metadata w =
     AuditLogService_LogEvent s now rclock tenantID eventType actorID ''user'' ''auth'' [] action None None metadata w"

definition AuditLogService_LogTokenEvent :: "'w AuditLogService \<Rightarrow> time \<Rightarrow> time \<times> time \<times> time \<Rightarrow> string \<Rightarrow> AuditEventType \<Rightarrow> string \<Rightarrow>
    string \<Rightarrow> string \<Rightarrow> any_map \<Rightarrow> 'w \<Rightarrow> (err + AuditLog) \<times> 'w" where
  "AuditLogService_LogTokenEvent s now rclock tenantID eventType actorID tokenID action metadata w =
     AuditLogService_LogEvent s now rclock tenantID eventType actorID ''user'' ''token'' tokenID action None None
       (map_set metadata ''token_id'' (AStr tokenID)) w"

definition AuditLogService_LogRoleEvent :: "'w AuditLogService \<Rightarrow> time \<Rightarrow> time \<times> time \<times> time \<Rightarrow> string \<Rightarrow> AuditEventType \<Rightarrow> string \<Rightarrow>
    string \<Rightarrow> string \<Rightarrow> any_map \<Rightarrow> 'w \<Rightarrow> (err + AuditLog) \<times> 'w" where
  "AuditLogService_LogRoleEvent s now rclock tenantID eventType actorID roleName action metadata w =
     AuditLogService_LogEvent s now rclock tenantID eventType actorID ''user'' ''role'' roleName action None None
       (map_set metadata ''role_name'' (AStr roleName)) w"

definition AuditLogService_LogPolicyEvent :: "'w AuditLogService \<Rightarrow> time \<Rightarrow> time \<times> time \<times> time \<Rightarrow> string \<Rightarrow> AuditEventType \<Rightarrow> string \<Rightarrow>
    string \<Rightarrow> string \<Rightarrow> any_map \<Rightarrow> any_map \<Rightarrow> any_map \<Rightarrow> 'w \<Rightarrow> (err + AuditLog) \<times> 'w" where
  "AuditLogService_LogPolicyEvent s now rclock tenantID eventType actorID policyID action before after metadata w =
     AuditLogService_LogEvent s now rclock tenantID eventType actorID ''user'' ''policy'' policyID action before after
       (map_set metadata ''policy_id'' (AStr policyID)) w"

definition AuditLogService_LogACLEvent :: "'w AuditLogService \<Rightarrow> time \<Rightarrow> time \<times> time \<times> time \<Rightarrow> string \<Rightarrow> AuditEventType \<Rightarrow> string \<Rightarrow>
    string \<Rightarrow> string \<Rightarrow> string \<Rightarrow> string \<Rightarrow> string \<Rightarrow> string \<Rightarrow> any_map \<Rightarrow> 'w \<Rightarrow> (err + AuditLog) \<times> 'w" where
  "AuditLogService_LogACLEvent s now rclock tenantID eventType actorID subjectType subjectID resourceType resourceID
       permission action metadata w =
     AuditLogService_LogEvent s now rclock tenantID eventType actorID ''user'' resourceType resourceID action None None
       (map_set (map_set (map_set metadata ''subject_type'' (AStr subjectType)) ''subject_id'' (AStr subjectID))
          ''permission'' (AStr permission)) w"

definition AuditLogService_LogTenantEvent :: "'w AuditLogService \<Rightarrow> time \<Rightarrow> time \<times> time \<times> time \<Rightarrow> string \<Rightarrow> AuditEventType \<Rightarrow> string \<Rightarrow>
    string \<Rightarrow> any_map \<Rightarrow> any_map \<Rightarrow> any_map \<Rightarrow> 'w \<Rightarrow> (err + AuditLog) \<times> 'w" where
  "AuditLogService_LogTenantEvent s now rclock tenantID eventType actorID action before after metadata w =
     AuditLogService_LogEvent s now rclock tenantID eventType actorID ''user'' ''tenant'' tenantID action before after metadata w"

definition AuditLogService_LogClientEvent :: "'w AuditLogService \<Rightarrow> time \<Rightarrow> time \<times> time \<times> time \<Rightarrow> string \<Rightarrow> AuditEventType \<Rightarrow> string \<Rightarrow>
    string \<Rightarrow> string \<Rightarrow> any_map \<Rightarrow> any_map \<Rightarrow> any_map \<Rightarrow> 'w \<Rightarrow> (err + AuditLog) \<times> 'w" where
  "AuditLogService_LogClientEvent s now rclock tenantID eventType actorID clientID action before after metadata w =
     AuditLogService_LogEvent s now rclock tenantID eventType actorID ''user'' ''client'' clientID action before after
       (map_set metadata ''client_id'' (AStr clientID)) w"

definition AuditLogService_LogConsentEvent :: "'w AuditLogService \<Rightarrow> time \<Rightarrow> time \<times> time \<times> time \<Rightarrow> string \<Rightarrow> AuditEventType \<Rightarrow> string \<Rightarrow>
    string \<Rightarrow> string \<Rightarrow> any_map \<Rightarrow> 'w \<Rightarrow> (err + AuditLog) \<times> 'w" where
  "AuditLogService_LogConsentEvent s now rclock tenantID eventType actorID clientID action metadata w =
     AuditLogService_LogEvent s now rclock tenantID eventType actorID ''user'' ''consent'' clientID action None None
       (map_set metadata ''client_id'' (AStr clientID)) w"

definition AuditLogService_List :: "'w AuditLogService \<Rightarrow> AuditLogFilter \<Rightarrow> 'w \<Rightarrow> err + AuditLog list" where
  "AuditLogService_List s f w = AuditLogRepository_List (als_repo s) f w"

definition AuditLogService_Count :: "'w AuditLogService \<Rightarrow> AuditLogFilter \<Rightarrow> 'w \<Rightarrow> err + nat" where
  "AuditLogService_Count s f w = AuditLogRepository_Count (als_repo s) f w"

definition AuditLogService_VerifyChain :: "'w AuditLogService \<Rightarrow> string \<Rightarrow> time \<Rightarrow> 'w \<Rightarrow> err + bool" where
  "AuditLogService_VerifyChain s tenantID fromTimestamp w = AuditLogRepository_VerifyChain (als_repo s) tenantID fromTimestamp w"

definition AuditLogService_GetByID :: "'w AuditLogService \<Rightarrow> string \<Rightarrow> 'w \<Rightarrow> err + AuditLog" where
  "AuditLogService_GetByID s uid w = AuditLogRepository_FindByID (als_repo s) uid w"

text \<open>The three string values the context may hold.\<close>

definition AuditLogService_LogFromContext :: "'w AuditLogService \<Rightarrow> time \<Rightarrow> time \<times> time \<times> time \<Rightarrow>
    string option \<times> string option \<times> string option \<Rightarrow> string \<Rightarrow> string \<Rightarrow> string \<Rightarrow> any_map \<Rightarrow> any_map \<Rightarrow> any_map \<Rightarrow>
    'w \<Rightarrow> (err + AuditLog) \<times> 'w" where
  "AuditLogService_LogFromContext s now rclock ctx tenantID eventType action before after metadata w =
     (case ctx of (user_id, client_ip, user_agent) \<Rightarrow>
       (let actorID = (case user_id of None \<Rightarrow> ''system'' | Some u \<Rightarrow> (if u = [] then ''system'' else u));
            actorType = (if actorID = ''system'' then ''system'' else ''user'');
            m0 = (case metadata of None \<Rightarrow> Some [] | Some m \<Rightarrow> Some m);
            m1 = (case client_ip of None \<Rightarrow> m0 | Some ip \<Rightarrow> map_set m0 ''client_ip'' (AStr ip));
            m2 = (case user_agent of None \<Rightarrow> m1 | Some ua \<Rightarrow> map_set m1 ''user_agent'' (AStr ua))
        in AuditLogService_LogEvent s now rclock tenantID eventType actorID actorType [] [] action before after m2 w))"

section \<open>Handlers\<close>

text \<open>\<open>strconv.Atoi\<close>: an optional sign and digits, within the 64 bits of an \<open>int\<close>.\<close>

definition strconv_Atoi :: "string \<Rightarrow> int option" where
  "strconv_Atoi s =
     (let neg = (s \<noteq> [] \<and> hd s = CHR ''-'');
          ds = (if s \<noteq> [] \<and> (hd s = CHR ''-'' \<or> hd s = CHR ''+'') then tl s else s);
          v = (if neg then - digits_val ds else digits_val ds)
      in if ds \<noteq> [] \<and> list_all is_digit ds \<and> - (2 ^ 63) \<le> v \<and> v < 2 ^ 63 then Some v else None)"

text \<open>An \<open>auditLogResponse\<close> has the fields of an \<open>AuditLog\<close>.\<close>

definition toAuditLogResponse :: "AuditLog \<Rightarrow> AuditLog" where
  "toAuditLogResponse log = log"

record auditListReply =
  alr_logs :: "AuditLog list"
  alr_total :: nat
  alr_limit :: int
  alr_offset :: int

definition list_filter :: "(string \<Rightarrow> string) \<Rightarrow> string list \<Rightarrow> AuditLogFilter" where
  "list_filter q eventTypes = \<lparr>
     af_TenantID = q ''tenant_id'', af_EventTypes = eventTypes, af_ActorID = q ''actor_id'',
     af_ResourceType = q ''resource_type'', af_ResourceID = q ''resource_id'',
     af_StartTime = (case time_Parse_RFC3339 (q ''start_time'') of None \<Rightarrow> zero_time | Some t \<Rightarrow> t),
     af_EndTime = (case time_Parse_RFC3339 (q ''end_time'') of None \<Rightarrow> zero_time | Some t \<Rightarrow> t),
     af_Limit = (if q ''limit'' \<noteq> [] then (case strconv_Atoi (q ''limit'') of None \<Rightarrow> 0 | Some l \<Rightarrow> l) else 100),
     af_Offset = (if q ''offset'' \<noteq> [] then (case strconv_Atoi (q ''offset'') of None \<Rightarrow> 0 | Some l \<Rightarrow> l) else 0),
     af_SortOrder = (if q ''sort_order'' \<noteq> [] then q ''sort_order'' else ''desc'')\<rparr>"

definition AuditHandler_List :: "'w AuditLogService \<Rightarrow> (string \<Rightarrow> string) \<Rightarrow> string list \<Rightarrow> 'w \<Rightarrow> auditListReply response" where
  "AuditHandler_List s q eventTypes w =
     (if q ''tenant_id'' = [] then writeError 400 ''invalid_request''
      else let f = list_filter q eventTypes in
        case AuditLogService_List s f w of
          Inl e \<Rightarrow> writeError 500 ''internal_error''
        | Inr logs \<Rightarrow>
            (case AuditLogService_Count s f w of
               Inl e \<Rightarrow> writeError 500 ''internal_error''
             | Inr n \<Rightarrow> Reply 200 \<lparr>alr_logs = map toAuditLogResponse logs, alr_total = n,
                 alr_limit = af_Limit f, alr_offset = af_Offset f\<rparr>))"

definition AuditHandler_Get :: "'w AuditLogService \<Rightarrow> string \<Rightarrow> 'w \<Rightarrow> AuditLog response" where
  "AuditHandler_Get s uid w =
     (case AuditLogService_GetByID s uid w of
        Inl e \<Rightarrow> (if e = AcErr ErrAuditLogNotFound then writeError 404 ''not_found'' else writeError 500 ''internal_error'')
      | Inr log \<Rightarrow> Reply 200 (toAuditLogResponse log))"

definition AuditHandler_VerifyChain :: "'w AuditLogService \<Rightarrow> (string \<Rightarrow> string) \<Rightarrow> 'w \<Rightarrow> (bool \<times> string \<times> time) response" where
  "AuditHandler_VerifyChain s q w =
     (if q ''tenant_id'' = [] then writeError 400 ''invalid_request''
      else let fromTime = (case time_Parse_RFC3339 (q ''from_time'') of None \<Rightarrow> zero_time | Some t \<Rightarrow> t) in
        case AuditLogService_VerifyChain s (q ''tenant_id'') fromTime w of
          Inl e \<Rightarrow> writeError 500 ''internal_error''
        | Inr valid \<Rightarrow> Reply 200 (valid, q ''tenant_id'', fromTime))"

definition AuditHandler_Export :: "unit response" where
  "AuditHandler_Export = writeError 501 ''not_implemented''"

end
