(* ===== verification/AuditProps.thy ===== *)
theory AuditProps
  imports AuditTrail
begin

text \<open>
  What the hash chain of the audit log shows about tampering, and what keeps it from accepting the
  logs the program itself writes. The statements name the two texts that would have to collide;
  that SHA-256 has collisions at all says nothing.
\<close>

definition main_audit :: "gorms \<Rightarrow> db AuditLogService" where
  "main_audit G = NewAuditLogService (NewAuditLogRepository G)"

lemma main_audit_simps [simp]:
  "AuditLogRepository_Create (als_repo (main_audit G)) = auditLogRepository_Create G"
  "AuditLogRepository_VerifyChain (als_repo (main_audit G)) = auditLogRepository_VerifyChain G"
  by (simp_all add: main_audit_def NewAuditLogService_def NewAuditLogRepository_def)

text \<open>The printed nanoseconds have at most 20 characters.\<close>

lemma length_show_nat: "n < 10 ^ k \<Longrightarrow> 0 < k \<Longrightarrow> length (show_nat n) \<le> k"
proof (induction k arbitrary: n)
  case (Suc k)
  show ?case
  proof (cases "n < 10")
    case True
    then show ?thesis by (simp add: show_nat.simps)
  next
    case False
    have "0 < k" using Suc.prems(1) False by (cases k) auto
    moreover have "n div 10 < 10 ^ k" using Suc.prems(1) by (simp add: less_mult_imp_div_less mult.commute)
    ultimately show ?thesis using Suc.IH [of "n div 10"] False by (simp add: show_nat.simps [of n])
  qed
qed simp

lemma length_show_nano: "length (show_int (time_UnixNano t)) \<le> 20"
proof -
  have b: "- (2 ^ 63) \<le> time_UnixNano t" "time_UnixNano t < 2 ^ 63"
    unfolding time_UnixNano_def by (simp_all add: pos_mod_bound [of "2 ^ 64", simplified] algebra_simps)
  have "nat \<bar>time_UnixNano t\<bar> < 10 ^ 19" using b by (simp add: abs_less_iff)
  then have "length (show_nat (nat \<bar>time_UnixNano t\<bar>)) \<le> 19" by (rule length_show_nat) simp
  then show ?thesis by (cases "time_UnixNano t < 0") (simp_all add: show_int_def)
qed

lemma length_show_int_pos: "0 < length (show_int i)"
  by (simp add: show_int_def show_nat.simps [of "nat i"])

lemma length_marshalJSON: "length (json_Marshal_map v) \<le> length (marshalJSON v) + 2"
  by (simp add: marshalJSON_def json_Marshal_map_def)

text \<open>What a log hashes is longer than what \<open>VerifyChain\<close> hashes for the row without its predecessor.\<close>

lemma chained_input_longer:
  assumes "length h = 64" and "al_TenantID log' = al_TenantID log" and "al_EventType log' = al_EventType log"
    and "al_ActorID log' = al_ActorID log" and "al_ActorType log' = al_ActorType log"
    and "al_ResourceType log' = al_ResourceType log" and "al_ResourceID log' = al_ResourceID log"
    and "al_Action log' = al_Action log" and "al_Before log' = al_Before log" and "al_After log' = al_After log"
    and "al_Metadata log' = al_Metadata log"
  shows "length (chain_hash_input (toAuditLogModel log')) < length (h @ ''|'' @ audit_hash_input log)"
  using assms length_marshalJSON [of "al_Before log"] length_marshalJSON [of "al_After log"]
    length_marshalJSON [of "al_Metadata log"] length_show_nano [of "al_Timestamp log'"]
    length_show_int_pos [of "time_UnixNano (al_Timestamp log)"]
  by (simp add: chain_hash_input_def audit_hash_input_def toAuditLogModel_def)

lemma audit_hash_length: "length (fst (audit_seal G log d)) = 64"
  using length_hex_sha256 by (auto simp: audit_seal_def hex_sha256_def Let_def split: sum.splits)

context database begin

text \<open>A stored event: its row, and the seal it got.\<close>

lemma audit_Create_ok:
  assumes "auditLogRepository_Create G (n1, n2, ts) log d = (Inr log', d')"
  shows "t_audit_logs d' = t_audit_logs d @ [toAuditLogModel log'] \<and>
    log' = log\<lparr>al_Hash := fst (audit_seal G log d), al_PrevHash := snd (audit_seal G log d), al_ID := generateID n1 n2,
      al_Timestamp := ts\<rparr>"
proof -
  define l where "l = log\<lparr>al_Hash := fst (audit_seal G log d), al_PrevHash := snd (audit_seal G log d),
    al_ID := generateID n1 n2, al_Timestamp := ts\<rparr>"
  obtain m where c: "g_Create (gorm_audit_logs G) (toAuditLogModel l) (t_audit_logs d) = (Inr m, t_audit_logs d')" and "log' = l"
    using assms by (auto simp: auditLogRepository_Create_def l_def Let_def split: prod.splits sum.splits)
  have "alm_ID (toAuditLogModel l) \<noteq> []" by (simp add: l_def toAuditLogModel_def generateID_def)
  with audit_log.Create_row [OF c] have "t_audit_logs d' = t_audit_logs d @ [m]" "m = toAuditLogModel l"
    by (auto simp: same_audit_log_def)
  then show ?thesis using \<open>log' = l\<close> by (simp add: l_def)
qed

lemma audit_seal_chained:
  assumes "snd (audit_seal G log d) \<noteq> []" and "al_PrevHash log = []"
  shows "\<exists>m\<in>set (t_audit_logs d). alm_TenantID m = al_TenantID log \<and> snd (audit_seal G log d) = alm_Hash m \<and>
    fst (audit_seal G log d) = hex_sha256 (alm_Hash m @ ''|'' @ audit_hash_input log)"
  using assms by (auto simp: audit_seal_def Let_def hex_sha256_def split: sum.splits dest!: audit_log.FirstOrd_hit)

end

lemma mset_two: "mset xs = {#a, b#} \<Longrightarrow> xs = [a, b] \<or> xs = [b, a]"
proof -
  assume m: "mset xs = {#a, b#}"
  then have "length xs = 2" by (metis size_add_mset size_empty size_mset One_nat_def Suc_1)
  then obtain x y where "xs = [x, y]" by (auto simp: length_Suc_conv numeral_2_eq_2)
  moreover have "x \<in># {#a, b#}" unfolding m [symmetric] calculation by simp
  ultimately show ?thesis using m by (auto simp: add_mset_commute [of b])
qed


lemma hex_no_x: "CHR ''x'' \<notin> set (hex_EncodeToString s)"
proof -
  have "hex_digit n \<noteq> CHR ''x''" if "n < 16" for n
    using that by (auto simp: hex_digit_def less_Suc_eq numeral_eq_Suc)
  then have "hex_digit (of_char b div 16) \<noteq> CHR ''x''" "hex_digit (of_char b mod 16) \<noteq> CHR ''x''" for b :: char
    by (simp_all add: less_mult_imp_div_less)
  note d = this
  show ?thesis
  proof (induction s)
    case (Cons b bs)
    then show ?case using d [of b] by simp
  qed simp
qed

definition first_log :: auditLogModel where
  "first_log = \<lparr>alm_ID = ''a1'', alm_TenantID = ''t1'', alm_EventType = ''login'', alm_ActorID = ''u1'', alm_ActorType = ''user'',
     alm_ResourceType = ''auth'', alm_ResourceID = [], alm_Action = ''login'', alm_Before = ''null'', alm_After = ''null'',
     alm_Metadata = ''null'', alm_Timestamp = 5, alm_Hash = replicate 64 (CHR ''x''), alm_PrevHash = []\<rparr>"


text \<open>C26: What a verified chain protects. If two chains verify that start after the same predecessor and carry the
  same hashes, the texts behind the hashes agree link by link, or two of these very texts have the
  same SHA-256.\<close>

theorem chain_tamper_evident:
  assumes "verify_logs (m # ms) = Inr True" and "verify_logs (m' # ms') = Inr True"
    and "alm_PrevHash m = alm_PrevHash m'" and "map alm_Hash ms = map alm_Hash ms'"
  shows "map chain_hash_input ms = map chain_hash_input ms' \<or>
    (\<exists>i<length ms. sha_collision (link_inputs (alm_PrevHash m) ms ! i) (link_inputs (alm_PrevHash m) ms' ! i))"
proof -
  have "chain_linked (alm_PrevHash m) ms" "chain_linked (alm_PrevHash m) ms'"
    using assms(1-3) by (simp_all add: verify_logs_def verify_loop_iff)
  from chain_linked_inj [OF this assms(4)] show ?thesis
    using link_inputs_inputs [OF assms(4)] by blast
qed

theorem chain_tamper_evident_witness:
  "let n = first_log\<lparr>alm_Hash := hex_sha256 (chain_hash_input first_log)\<rparr>; n' = n\<lparr>alm_ID := ''z''\<rparr> in
     verify_logs [first_log, n] = Inr True \<and> verify_logs [first_log, n'] = Inr True \<and>
     (map chain_hash_input [n] = map chain_hash_input [n'] \<or>
      (\<exists>i<1. sha_collision (link_inputs [] [n] ! i) (link_inputs [] [n'] ! i)))"
proof -
  let ?n = "first_log\<lparr>alm_Hash := hex_sha256 (chain_hash_input first_log)\<rparr>"
  have i: "chain_hash_input ?n = chain_hash_input first_log" "chain_hash_input (?n\<lparr>alm_ID := ''z''\<rparr>) = chain_hash_input first_log"
    by (simp_all add: chain_hash_input_def)
  have p: "alm_PrevHash first_log = []" by (simp add: first_log_def)
  have v: "verify_logs [first_log, ?n] = Inr True" "verify_logs [first_log, ?n\<lparr>alm_ID := ''z''\<rparr>] = Inr True"
    using i by (simp_all add: verify_logs_def p Let_def hex_sha256_def)
  show ?thesis using chain_tamper_evident [OF v refl] v by (simp add: Let_def p)
qed

text \<open>Tampering the chain does not notice. The oldest log may be rewritten at will as long as its predecessor hash
  stays, and text may be moved across the bar between two fields of any log: \<open>VerifyChain\<close> says the same.\<close>

theorem chain_blind_spots:
  "verify_logs (m\<lparr>alm_ActorID := x, alm_Action := y, alm_Hash := h, alm_Before := bf, alm_After := af, alm_Metadata := md\<rparr> # ms) =
     verify_logs (m # ms) \<and>
   verify_logs (m # ms @ n\<lparr>alm_ActorID := a @ ''|'' @ b, alm_ActorType := c\<rparr> # ns) =
     verify_logs (m # ms @ n\<lparr>alm_ActorID := a, alm_ActorType := b @ ''|'' @ c\<rparr> # ns)"
proof -
  have "chain_hash_input (n\<lparr>alm_ActorID := a @ ''|'' @ b, alm_ActorType := c\<rparr>) =
      chain_hash_input (n\<lparr>alm_ActorID := a, alm_ActorType := b @ ''|'' @ c\<rparr>)"
    by (simp add: chain_hash_input_def)
  then have "verify_loop p (ms @ n\<lparr>alm_ActorID := a @ ''|'' @ b, alm_ActorType := c\<rparr> # ns) =
      verify_loop p (ms @ n\<lparr>alm_ActorID := a, alm_ActorType := b @ ''|'' @ c\<rparr> # ns)" for p
    by (induction ms arbitrary: p) (simp_all add: Let_def)
  then show ?thesis by (simp add: verify_logs_def)
qed

end
