(* ===== verification/AccountHandlers.thy ===== *)
theory AccountHandlers
  imports Http AuthService
begin

text \<open>
  api/auth_handler.go, api/user_handler.go and api/team_handler.go: what the account and team routes
  answer. A handler gets the result of decoding its body, the path and query values it reads and the
  identity of the context.
\<close>

section \<open>auth\_handler.go\<close>

record credentialsRequest =
  crq_Email :: string
  crq_Password :: string
  crq_TenantID :: string

record authResponse =
  arp_AccessToken :: string
  arp_RefreshToken :: string
  arp_TenantID :: string
  arp_UserID :: string
  arp_Email :: string
  arp_Roles :: "string list"

definition toAuthResponse :: "AuthResult \<Rightarrow> authResponse" where
  "toAuthResponse result = \<lparr>arp_AccessToken = ar_AccessToken result, arp_RefreshToken = ar_RefreshToken result,
     arp_TenantID = ar_TenantID result, arp_UserID = user_ID (ar_User result), arp_Email = user_Email (ar_User result),
     arp_Roles = ar_Roles result\<rparr>"

definition AuthHandler_Register :: "'w AuthService \<Rightarrow> string \<Rightarrow> time \<times> time \<Rightarrow> err + credentialsRequest \<Rightarrow> 'w \<Rightarrow>
    authResponse response \<times> 'w" where
  "AuthHandler_Register s salt clock bound w =
     (case bound of
        Inl e \<Rightarrow> (writeError 400 ''invalid_request'', w)
      | Inr req \<Rightarrow>
          (case AuthService_Register s salt clock (crq_Email req) (crq_Password req) (crq_TenantID req) w of
             (Inl e, w1) \<Rightarrow>
               (if e = IdErr ErrUserAlreadyExists then writeError 409 ''user_exists''
                else if e = IdErr ErrTenantNotFound then writeError 400 ''tenant_not_found''
                else if e = IdErr ErrTenantSuspended then writeError 403 ''tenant_suspended''
                else writeError 500 ''internal_error'', w1)
           | (Inr result, w1) \<Rightarrow> (Reply 201 (toAuthResponse result), w1)))"

definition AuthHandler_Login :: "'w AuthService \<Rightarrow> time \<times> time \<Rightarrow> err + credentialsRequest \<Rightarrow> 'w \<Rightarrow> authResponse response" where
  "AuthHandler_Login s clock bound w =
     (case bound of
        Inl e \<Rightarrow> writeError 400 ''invalid_request''
      | Inr req \<Rightarrow>
          (case AuthService_Login s clock (crq_Email req) (crq_Password req) (crq_TenantID req) w of
             Inl e \<Rightarrow>
               (if e = IdErr ErrInvalidCredentials then writeError 401 ''invalid_credentials''
                else if e = IdErr ErrTenantNotFound \<or> e = IdErr ErrMembershipNotFound then writeError 403 ''no_tenant_access''
                else if e = IdErr ErrTenantSuspended then writeError 403 ''tenant_suspended''
                else writeError 500 ''internal_error'')
           | Inr result \<Rightarrow> Reply 200 (toAuthResponse result)))"

text \<open>The requests of the two handlers below have one field, the tenant ID.\<close>

definition AuthHandler_SwitchTenant :: "'w AuthService \<Rightarrow> time \<times> time \<Rightarrow> request_identity option \<Rightarrow> err + string \<Rightarrow> 'w \<Rightarrow>
    authResponse response" where
  "AuthHandler_SwitchTenant s clock ctx bound w =
     (case bound of
        Inl e \<Rightarrow> writeError 400 ''invalid_request''
      | Inr tenantID \<Rightarrow>
          (case AuthService_SwitchTenant s clock (ctx_GetUserID ctx) tenantID w of
             Inl e \<Rightarrow>
               (if e = IdErr ErrTenantNotFound \<or> e = IdErr ErrMembershipNotFound then writeError 403 ''no_tenant_access''
                else if e = IdErr ErrTenantSuspended then writeError 403 ''tenant_suspended''
                else writeError 500 ''internal_error'')
           | Inr result \<Rightarrow> Reply 200 (toAuthResponse result)))"

definition AuthHandler_LeaveTenant :: "'w AuthService \<Rightarrow> request_identity option \<Rightarrow> err + string \<Rightarrow> 'w \<Rightarrow> unit response \<times> 'w" where
  "AuthHandler_LeaveTenant s ctx bound w =
     (case bound of
        Inl e \<Rightarrow> (writeError 400 ''invalid_request'', w)
      | Inr tenantID \<Rightarrow>
          (case AuthService_LeaveTenant s (ctx_GetUserID ctx) tenantID w of
             (Inl e, w1) \<Rightarrow>
               (if e = IdErr ErrMembershipNotFound then writeError 404 ''membership_not_found''
                else writeError 500 ''internal_error'', w1)
           | (Inr u, w1) \<Rightarrow> (Status 204, w1)))"

section \<open>user\_handler.go\<close>

record 'w UserHandler =
  uh_users :: "'w UserRepository"
  uh_memberships :: "'w MembershipRepository"
  uh_teamMemberships :: "'w TeamMembershipRepository"
  uh_teams :: "'w TeamRepository"

record profileReply =
  prp_id :: string
  prp_email :: string
  prp_tenant_id :: "string option"
  prp_roles :: "string list option"

definition UserHandler_Me :: "'w UserHandler \<Rightarrow> request_identity option \<Rightarrow> 'w \<Rightarrow> profileReply response" where
  "UserHandler_Me h ctx w =
     (case UserRepository_FindByID (uh_users h) (ctx_GetUserID ctx) w of
        Inl e \<Rightarrow> (if e = IdErr ErrUserNotFound then writeError 404 ''user_not_found'' else writeError 500 ''internal_error'')
      | Inr user \<Rightarrow> Reply 200 \<lparr>prp_id = user_ID user, prp_email = user_Email user,
          prp_tenant_id = map_option ctx_tenantID ctx, prp_roles = map_option ctx_roles ctx\<rparr>)"

definition UserHandler_ListMemberships :: "'w UserHandler \<Rightarrow> request_identity option \<Rightarrow> 'w \<Rightarrow> (string \<times> string list) list response" where
  "UserHandler_ListMemberships h ctx w =
     (case MembershipRepository_ListByUser (uh_memberships h) (ctx_GetUserID ctx) w of
        Inl e \<Rightarrow> writeError 500 ''internal_error''
      | Inr memberships \<Rightarrow> Reply 200 (map (\<lambda>m. (mem_TenantID m, mem_Roles m)) memberships))"

record teamMembershipReply =
  tmr_team_id :: string
  tmr_team_name :: string
  tmr_tenant_id :: string
  tmr_roles :: "string list"

text \<open>A team that cannot be read is left out.\<close>

fun team_replies :: "'w TeamRepository \<Rightarrow> 'w \<Rightarrow> TeamMembership list \<Rightarrow> teamMembershipReply list" where
  "team_replies teams w [] = []"
| "team_replies teams w (tm # tms) =
     (case TeamRepository_FindByID teams (tm_TeamID tm) w of
        Inl e \<Rightarrow> team_replies teams w tms
      | Inr team \<Rightarrow> \<lparr>tmr_team_id = tm_TeamID tm, tmr_team_name = team_Name team, tmr_tenant_id = team_TenantID team,
          tmr_roles = tm_Roles tm\<rparr> # team_replies teams w tms)"

definition UserHandler_ListTeamMemberships :: "'w UserHandler \<Rightarrow> request_identity option \<Rightarrow> 'w \<Rightarrow> teamMembershipReply list response" where
  "UserHandler_ListTeamMemberships h ctx w =
     (case TeamMembershipRepository_ListByUser (uh_teamMemberships h) (ctx_GetUserID ctx) w of
        Inl e \<Rightarrow> writeError 500 ''internal_error''
      | Inr tms \<Rightarrow> Reply 200 (team_replies (uh_teams h) w tms))"

section \<open>team\_handler.go\<close>

text \<open>The replies \<open>toTeamResponse\<close> and \<open>toTeamMembershipResponse\<close> have the fields of the domain types. No handler
  looks at the caller's identity.\<close>

definition toTeamResponse :: "Team \<Rightarrow> Team" where
  "toTeamResponse team = \<lparr>team_ID = team_ID team, team_TenantID = team_TenantID team, team_Name = team_Name team,
     team_Slug = team_Slug team, team_CreatedAt = team_CreatedAt team, team_UpdatedAt = team_UpdatedAt team\<rparr>"

definition toTeamMembershipResponse :: "TeamMembership \<Rightarrow> TeamMembership" where
  "toTeamMembershipResponse tm = \<lparr>tm_UserID = tm_UserID tm, tm_TeamID = tm_TeamID tm, tm_Roles = tm_Roles tm,
     tm_CreatedAt = tm_CreatedAt tm, tm_UpdatedAt = tm_UpdatedAt tm\<rparr>"

definition TeamHandler_Create :: "'w TeamRepository \<Rightarrow> string \<Rightarrow> err + (string \<times> string) \<Rightarrow> 'w \<Rightarrow> Team response \<times> 'w" where
  "TeamHandler_Create teams tenantID bound w =
     (if tenantID = [] then (writeError 400 ''invalid_request'', w)
      else case bound of
        Inl e \<Rightarrow> (writeError 400 ''invalid_request'', w)
      | Inr (name, slug) \<Rightarrow>
          (case TeamService_Create teams tenantID name slug w of
             (Inl e, w1) \<Rightarrow>
               (if e = IdErr ErrTeamAlreadyExists then writeError 409 ''team_exists''
                else writeError 500 ''internal_error'', w1)
           | (Inr team, w1) \<Rightarrow> (Reply 201 (toTeamResponse team), w1)))"

definition TeamHandler_List :: "'w TeamRepository \<Rightarrow> string \<Rightarrow> 'w \<Rightarrow> Team list response" where
  "TeamHandler_List teams tenantID w =
     (if tenantID = [] then writeError 400 ''invalid_request''
      else case TeamService_ListByTenant teams tenantID w of
        Inl e \<Rightarrow> writeError 500 ''internal_error''
      | Inr ts \<Rightarrow> Reply 200 (map toTeamResponse ts))"

definition TeamHandler_Get :: "'w TeamRepository \<Rightarrow> string \<Rightarrow> 'w \<Rightarrow> Team response" where
  "TeamHandler_Get teams uid w =
     (case TeamService_GetByID teams uid w of
        Inl e \<Rightarrow> (if e = IdErr ErrTeamNotFound then writeError 404 ''team_not_found'' else writeError 500 ''internal_error'')
      | Inr team \<Rightarrow> Reply 200 (toTeamResponse team))"

definition TeamHandler_AddMember :: "'w TeamMembershipRepository \<Rightarrow> 'w TeamRepository \<Rightarrow> string \<Rightarrow>
    err + (string \<times> string list) \<Rightarrow> 'w \<Rightarrow> TeamMembership response \<times> 'w" where
  "TeamHandler_AddMember tms teams teamID bound w =
     (case bound of
        Inl e \<Rightarrow> (writeError 400 ''invalid_request'', w)
      | Inr (userID, roles) \<Rightarrow>
          (case TeamMembershipService_AddMember tms teams userID teamID roles w of
             (Inl e, w1) \<Rightarrow>
               (if e = IdErr ErrTeamMembershipAlreadyExists then writeError 409 ''member_exists''
                else if e = IdErr ErrTeamNotFound then writeError 404 ''team_not_found''
                else writeError 500 ''internal_error'', w1)
           | (Inr tm, w1) \<Rightarrow> (Reply 201 (toTeamMembershipResponse tm), w1)))"

definition TeamHandler_ListMembers :: "'w TeamMembershipRepository \<Rightarrow> string \<Rightarrow> 'w \<Rightarrow> TeamMembership list response" where
  "TeamHandler_ListMembers tms teamID w =
     (case TeamMembershipService_ListTeamMembers tms teamID w of
        Inl e \<Rightarrow> writeError 500 ''internal_error''
      | Inr members \<Rightarrow> Reply 200 (map toTeamMembershipResponse members))"

definition TeamHandler_GetMember :: "'w TeamMembershipRepository \<Rightarrow> string \<Rightarrow> string \<Rightarrow> 'w \<Rightarrow> TeamMembership response" where
  "TeamHandler_GetMember tms teamID userID w =
     (case TeamMembershipService_GetMembership tms userID teamID w of
        Inl e \<Rightarrow> (if e = IdErr ErrTeamMembershipNotFound then writeError 404 ''member_not_found''
                  else writeError 500 ''internal_error'')
      | Inr tm \<Rightarrow> Reply 200 (toTeamMembershipResponse tm))"

definition TeamHandler_UpdateMember :: "'w TeamMembershipRepository \<Rightarrow> string \<Rightarrow> string \<Rightarrow> err + string list \<Rightarrow> 'w \<Rightarrow>
    unit response \<times> 'w" where
  "TeamHandler_UpdateMember tms teamID userID bound w =
     (case bound of
        Inl e \<Rightarrow> (writeError 400 ''invalid_request'', w)
      | Inr roles \<Rightarrow>
          (case TeamMembershipService_UpdateRoles tms userID teamID roles w of
             (Inl e, w1) \<Rightarrow>
               (if e = IdErr ErrTeamMembershipNotFound then writeError 404 ''member_not_found''
                else writeError 500 ''internal_error'', w1)
           | (Inr u, w1) \<Rightarrow> (Status 204, w1)))"

definition TeamHandler_RemoveMember :: "'w TeamMembershipRepository \<Rightarrow> string \<Rightarrow> string \<Rightarrow> 'w \<Rightarrow> unit response \<times> 'w" where
  "TeamHandler_RemoveMember tms teamID userID w =
     (case TeamMembershipService_RemoveMember tms userID teamID w of
        (Inl e, w1) \<Rightarrow>
          (if e = IdErr ErrTeamMembershipNotFound then writeError 404 ''member_not_found''
           else writeError 500 ''internal_error'', w1)
      | (Inr u, w1) \<Rightarrow> (Status 204, w1))"

end
