(* ===== verification/FactorHandlers.thy ===== *)
theory FactorHandlers
  imports AccountHandlers Passwordless Mfa Clock
begin

text \<open>
  api/passwordless\_handler.go and api/mfa\_handler.go. Both compare the services' errors with the
  sentinels of package \<open>service\<close>; the repositories return those of package \<open>domain\<close>.
\<close>

section \<open>passwordless\_handler.go\<close>

record sendMagicLinkRequest =
  smr_Email :: string
  smr_TenantID :: string
  smr_BaseURL :: string

definition PasswordlessHandler_SendMagicLink :: "'w PasswordlessService \<Rightarrow> string \<Rightarrow> time \<Rightarrow> err + sendMagicLinkRequest \<Rightarrow>
    'w \<Rightarrow> unit response \<times> 'w" where
  "PasswordlessHandler_SendMagicLink s rnd now bound w =
     (case bound of
        Inl e \<Rightarrow> (writeError 400 ''invalid_request'', w)
      | Inr req \<Rightarrow>
          (case PasswordlessService_SendMagicLink s rnd now (smr_Email req) (smr_TenantID req) (smr_BaseURL req) w of
             (Inl e, w1) \<Rightarrow> (writeError 500 ''internal_error'', w1)
           | (Inr u, w1) \<Rightarrow> (Status 200, w1)))"

definition PasswordlessHandler_VerifyMagicLink :: "'w PasswordlessService \<Rightarrow> time \<times> time \<Rightarrow> time \<times> time \<Rightarrow>
    err + (string \<times> string) \<Rightarrow> 'w \<Rightarrow> authResponse response \<times> 'w" where
  "PasswordlessHandler_VerifyMagicLink s look clock bound w =
     (case bound of
        Inl e \<Rightarrow> (writeError 400 ''invalid_request'', w)
      | Inr (token, tenantID) \<Rightarrow>
          (case PasswordlessService_VerifyMagicLink s look clock token tenantID w of
             (Inl e, w1) \<Rightarrow>
               (if e = SvcAuthErr service_ErrMagicLinkNotFound then writeError 400 ''invalid_token''
                else if e = SvcAuthErr service_ErrMagicLinkExpired then writeError 400 ''token_expired''
                else if e = SvcAuthErr service_ErrMagicLinkUsed then writeError 400 ''token_used''
                else writeError 500 ''internal_error'', w1)
           | (Inr result, w1) \<Rightarrow> (Reply 200 (toAuthResponse result), w1)))"

text \<open>The remaining handlers of the file answer without doing anything.\<close>

definition PasswordlessHandler_RequestPasswordReset :: "err + unit \<Rightarrow> unit response" where
  "PasswordlessHandler_RequestPasswordReset bound = (case bound of Inl e \<Rightarrow> writeError 400 ''invalid_request'' | Inr u \<Rightarrow> Status 200)"

definition PasswordlessHandler_ResetPassword :: "err + unit \<Rightarrow> unit response" where
  "PasswordlessHandler_ResetPassword bound =
     (case bound of Inl e \<Rightarrow> writeError 400 ''invalid_request'' | Inr u \<Rightarrow> writeError 501 ''not_implemented'')"

definition PasswordlessHandler_VerifyEmail :: "err + unit \<Rightarrow> unit response" where
  "PasswordlessHandler_VerifyEmail bound =
     (case bound of Inl e \<Rightarrow> writeError 400 ''invalid_request'' | Inr u \<Rightarrow> writeError 501 ''not_implemented'')"

definition PasswordlessHandler_GetPasswordPolicy :: "unit response" where
  "PasswordlessHandler_GetPasswordPolicy = writeError 501 ''not_implemented''"

definition PasswordlessHandler_UpdatePasswordPolicy :: "err + unit \<Rightarrow> unit response" where
  "PasswordlessHandler_UpdatePasswordPolicy bound =
     (case bound of Inl e \<Rightarrow> writeError 400 ''invalid_request'' | Inr u \<Rightarrow> writeError 501 ''not_implemented'')"

section \<open>mfa\_handler.go\<close>

record enrollTOTPResponse =
  etr_MethodID :: string
  etr_Secret :: string
  etr_QRCodeURL :: string
  etr_BackupCodes :: "string list"

definition MFAHandler_EnrollTOTP :: "totp_lib \<Rightarrow> 'w MFAService \<Rightarrow> string \<Rightarrow> string list \<Rightarrow> request_identity option \<Rightarrow>
    err + string \<Rightarrow> 'w \<Rightarrow> enrollTOTPResponse response \<times> 'w" where
  "MFAHandler_EnrollTOTP lib s seed blocks ctx bound w =
     (case bound of
        Inl e \<Rightarrow> (writeError 400 ''invalid_request'', w)
      | Inr name \<Rightarrow>
          (case MFAService_EnrollTOTP lib s seed blocks (ctx_GetUserID ctx) (ctx_GetTenantID ctx) name w of
             (Inl e, w1) \<Rightarrow>
               (if e = SvcAuthErr service_ErrMFAAlreadyEnrolled then writeError 409 ''already_enrolled''
                else writeError 500 ''internal_error'', w1)
           | (Inr (m, secret, qrCode, backupCodes), w1) \<Rightarrow>
               (Reply 201 \<lparr>etr_MethodID = mfa_ID m, etr_Secret = secret, etr_QRCodeURL = qrCode,
                  etr_BackupCodes = backupCodes\<rparr>, w1)))"

definition MFAHandler_VerifyTOTP :: "totp_lib \<Rightarrow> 'w MFAService \<Rightarrow> time \<times> time \<Rightarrow> request_identity option \<Rightarrow>
    err + string \<Rightarrow> 'w \<Rightarrow> (unit response \<times> 'w) outcome" where
  "MFAHandler_VerifyTOTP lib s clock ctx bound w =
     (case bound of
        Inl e \<Rightarrow> Returns (writeError 400 ''invalid_request'', w)
      | Inr code \<Rightarrow>
          (case MFAService_VerifyTOTP lib s clock (ctx_GetUserID ctx) code w of
             Returns (Inl e, w1) \<Rightarrow> Returns
               (if e = SvcAuthErr service_ErrInvalidTOTPCode then writeError 400 ''invalid_code''
                else if e = SvcAuthErr service_ErrMFAMethodNotFound then writeError 404 ''not_found''
                else writeError 500 ''internal_error'', w1)
           | Returns (Inr u, w1) \<Rightarrow> Returns (Status 200, w1)
           | Panics \<Rightarrow> Panics
           | Blocks \<Rightarrow> Blocks))"

definition MFAHandler_VerifyBackupCode :: "'w MFAService \<Rightarrow> time \<Rightarrow> request_identity option \<Rightarrow> err + string \<Rightarrow> 'w \<Rightarrow>
    unit response \<times> 'w" where
  "MFAHandler_VerifyBackupCode s now ctx bound w =
     (case bound of
        Inl e \<Rightarrow> (writeError 400 ''invalid_request'', w)
      | Inr code \<Rightarrow>
          (case MFAService_VerifyBackupCode s now (ctx_GetUserID ctx) code w of
             (Inl e, w1) \<Rightarrow>
               (if e = SvcAuthErr service_ErrInvalidTOTPCode then writeError 400 ''invalid_code''
                else writeError 500 ''internal_error'', w1)
           | (Inr u, w1) \<Rightarrow> (Status 200, w1)))"

record mfaMethodResponse =
  mmr_ID :: string
  mmr_Type :: string
  mmr_Name :: string
  mmr_IsPrimary :: bool
  mmr_VerifiedAt :: "string option"
  mmr_LastUsedAt :: "string option"
  mmr_CreatedAt :: string

definition toMFAMethodResponse :: "(time \<Rightarrow> int) \<Rightarrow> MFAMethod \<Rightarrow> mfaMethodResponse" where
  "toMFAMethodResponse zone m = \<lparr>mmr_ID = mfa_ID m, mmr_Type = mfa_Type m, mmr_Name = mfa_Name m,
     mmr_IsPrimary = mfa_IsPrimary m, mmr_VerifiedAt = map_option (time_Format_Z zone) (mfa_VerifiedAt m),
     mmr_LastUsedAt = map_option (time_Format_Z zone) (mfa_LastUsedAt m),
     mmr_CreatedAt = time_Format_Z zone (mfa_CreatedAt m)\<rparr>"

definition MFAHandler_ListMethods :: "(time \<Rightarrow> int) \<Rightarrow> 'w MFAService \<Rightarrow> request_identity option \<Rightarrow> 'w \<Rightarrow>
    mfaMethodResponse list response" where
  "MFAHandler_ListMethods zone s ctx w =
     (case MFAService_ListMethods s (ctx_GetUserID ctx) w of
        Inl e \<Rightarrow> writeError 500 ''internal_error''
      | Inr methods \<Rightarrow> Reply 200 (map (toMFAMethodResponse zone) methods))"

definition MFAHandler_RemoveMethod :: "'w MFAService \<Rightarrow> request_identity option \<Rightarrow> err + string \<Rightarrow> 'w \<Rightarrow> unit response \<times> 'w" where
  "MFAHandler_RemoveMethod s ctx bound w =
     (case bound of
        Inl e \<Rightarrow> (writeError 400 ''invalid_request'', w)
      | Inr methodID \<Rightarrow>
          (case MFAService_RemoveMethod s (ctx_GetUserID ctx) methodID w of
             (Inl e, w1) \<Rightarrow>
               (if e = SvcAuthErr service_ErrMFAMethodNotFound then writeError 404 ''not_found''
                else writeError 500 ''internal_error'', w1)
           | (Inr u, w1) \<Rightarrow> (Status 204, w1)))"

definition MFAHandler_SetPrimary :: "'w MFAService \<Rightarrow> request_identity option \<Rightarrow> err + string \<Rightarrow> 'w \<Rightarrow> unit response \<times> 'w" where
  "MFAHandler_SetPrimary s ctx bound w =
     (case bound of
        Inl e \<Rightarrow> (writeError 400 ''invalid_request'', w)
      | Inr methodID \<Rightarrow>
          (case MFAService_SetPrimaryMethod s (ctx_GetUserID ctx) methodID w of
             (Inl e, w1) \<Rightarrow> (writeError 500 ''internal_error'', w1)
           | (Inr u, w1) \<Rightarrow> (Status 204, w1)))"

definition MFAHandler_BeginWebAuthnEnrollment :: "'w MFAService \<Rightarrow> request_identity option \<Rightarrow> err + string \<Rightarrow> (any \<times> any) response" where
  "MFAHandler_BeginWebAuthnEnrollment s ctx bound =
     (case bound of
        Inl e \<Rightarrow> writeError 400 ''invalid_request''
      | Inr deviceName \<Rightarrow>
          (case MFAService_EnrollWebAuthn s (ctx_GetUserID ctx) (ctx_GetTenantID ctx) deviceName of
             Inl e \<Rightarrow> writeError 500 ''internal_error''
           | Inr r \<Rightarrow> Reply 200 r))"

definition MFAHandler_CompleteWebAuthnEnrollment :: "err + unit \<Rightarrow> unit response" where
  "MFAHandler_CompleteWebAuthnEnrollment bound =
     (case bound of Inl e \<Rightarrow> writeError 400 ''invalid_request'' | Inr u \<Rightarrow> writeError 501 ''not_implemented'')"

definition MFAHandler_BeginWebAuthnAuthentication :: "'w MFAService \<Rightarrow> request_identity option \<Rightarrow> (any \<times> any) response" where
  "MFAHandler_BeginWebAuthnAuthentication s ctx =
     (case MFAService_BeginWebAuthnAuthentication s (ctx_GetUserID ctx) of
        Inl e \<Rightarrow> (if e = SvcAuthErr service_ErrMFAMethodNotFound then writeError 404 ''no_credentials''
                  else writeError 500 ''internal_error'')
      | Inr r \<Rightarrow> Reply 200 r)"

definition MFAHandler_CompleteWebAuthnAuthentication :: "err + unit \<Rightarrow> unit response" where
  "MFAHandler_CompleteWebAuthnAuthentication bound =
     (case bound of Inl e \<Rightarrow> writeError 400 ''invalid_request'' | Inr u \<Rightarrow> writeError 501 ''not_implemented'')"

end
