(* ===== verification/AuthzHandler.thy ===== *)
theory AuthzHandler
  imports Http Authorization
begin

text \<open>
  api/authz_handler.go: the routes of the authorization engine. Every user with a session reaches
  them, and the tenant and user of a request come from its path and body, not from the session.
\<close>

record ('w, 'q) AuthzHandler =
  zh_authz :: "('w, 'q) AuthorizationService"
  zh_policy :: "'w PolicyRepository"
  zh_acl :: "'w ACLRepository"
  zh_rolePerms :: "'w RolePermissionRepository"
  zh_perms :: "'w PermissionRepository"

text \<open>\<open>authzCheckRequest\<close> and \<open>authzDryRunRequest\<close> have the fields of the service's \<open>AuthzRequest\<close>.\<close>

record authzCheckResponse =
  acr_Allowed :: bool
  acr_Reason :: string
  acr_MatchedBy :: string

definition toAuthzCheckResponse :: "AuthzResult \<Rightarrow> authzCheckResponse" where
  "toAuthzCheckResponse result = \<lparr>acr_Allowed = az_Allowed result, acr_Reason = az_Reason result,
     acr_MatchedBy = az_MatchedBy result\<rparr>"

definition AuthzHandler_Check :: "('w, 'q) AuthzHandler \<Rightarrow> nat \<Rightarrow> err + AuthzRequest \<Rightarrow> 'q prepared \<Rightarrow> 'w \<Rightarrow>
    authzCheckResponse response \<times> 'q prepared \<times> 'w" where
  "AuthzHandler_Check h k bound pq w =
     (case bound of
        Inl e \<Rightarrow> (writeError 400 ''invalid_request'', pq, w)
      | Inr req \<Rightarrow>
          (case AuthorizationService_Check (zh_authz h) k req pq w of
             (Inl e, pq1, w1) \<Rightarrow>
               (if e = IdErr ErrMembershipNotFound \<or> e = IdErr ErrTenantNotFound then writeError 404 ''not_found''
                else writeError 500 ''internal_error'', pq1, w1)
           | (Inr result, pq1, w1) \<Rightarrow> (Reply 200 (toAuthzCheckResponse result), pq1, w1)))"

definition AuthzHandler_DryRun :: "('w, 'q) AuthzHandler \<Rightarrow> nat \<Rightarrow> err + AuthzRequest \<Rightarrow> 'q prepared \<Rightarrow> 'w \<Rightarrow>
    authzCheckResponse response \<times> 'q prepared \<times> 'w" where
  "AuthzHandler_DryRun h k bound pq w =
     (case bound of
        Inl e \<Rightarrow> (writeError 400 ''invalid_request'', pq, w)
      | Inr req \<Rightarrow>
          (case AuthorizationService_DryRun (zh_authz h) k req pq w of
             (Inl e, pq1, w1) \<Rightarrow> (writeError 500 ''internal_error'', pq1, w1)
           | (Inr result, pq1, w1) \<Rightarrow> (Reply 200 (toAuthzCheckResponse result), pq1, w1)))"

text \<open>
  The answers of the other handlers. A list is answered with the entries' views, a change with 201 or
  204; an error is answered with 500 unless the handler names it.
\<close>

definition reply_list :: "('a \<Rightarrow> 'b) \<Rightarrow> err + 'a list \<Rightarrow> 'b list response" where
  "reply_list view r = (case r of Inl e \<Rightarrow> writeError 500 ''internal_error'' | Inr xs \<Rightarrow> Reply 200 (map view xs))"

definition reply_created :: "('a \<Rightarrow> 'b) \<Rightarrow> (err + 'a) \<times> 'w \<Rightarrow> 'b response \<times> 'w" where
  "reply_created view r =
     (case r of (Inl e, w) \<Rightarrow> (writeError 500 ''internal_error'', w) | (Inr x, w) \<Rightarrow> (Reply 201 (view x), w))"

definition reply_none :: "(err + unit) \<times> 'w \<Rightarrow> unit response \<times> 'w" where
  "reply_none r =
     (case r of (Inl e, w) \<Rightarrow> (writeError 500 ''internal_error'', w) | (Inr u, w) \<Rightarrow> (Status 204, w))"

definition reply_found :: "('a \<Rightarrow> 'b) \<Rightarrow> err + 'a \<Rightarrow> 'b response" where
  "reply_found view r =
     (case r of
        Inl e \<Rightarrow> (if e = AcErr ErrACLNotFound then writeError 404 ''not_found'' else writeError 500 ''internal_error'')
      | Inr x \<Rightarrow> Reply 200 (view x))"

section \<open>ACL entries\<close>

record aclResponse =
  alr_ID :: string
  alr_SubjectType :: string
  alr_SubjectID :: string
  alr_ResourceType :: string
  alr_ResourceID :: string
  alr_Permission :: string
  alr_Effect :: string

definition toACLResponse :: "ACLPermission \<Rightarrow> aclResponse" where
  "toACLResponse acl = \<lparr>
     alr_ID = acl_ID acl, alr_SubjectType = acl_SubjectType acl, alr_SubjectID = acl_SubjectID acl,
     alr_ResourceType = acl_ResourceType acl, alr_ResourceID = acl_ResourceID acl,
     alr_Permission = acl_Permission acl, alr_Effect = acl_Effect acl\<rparr>"

text \<open>\<open>aclGrantRequest\<close> has the fields of the service's \<open>ACLGrantRequest\<close>; \<open>query\<close> is \<open>c.Query\<close>.\<close>

definition AuthzHandler_GrantACL :: "('w, 'q) AuthzHandler \<Rightarrow> string \<Rightarrow> err + ACLGrantRequest \<Rightarrow> 'w \<Rightarrow> aclResponse response \<times> 'w" where
  "AuthzHandler_GrantACL h tenantID bound w =
     (case bound of
        Inl e \<Rightarrow> (writeError 400 ''invalid_request'', w)
      | Inr req \<Rightarrow> reply_created toACLResponse (ACLService_Grant (zh_acl h) tenantID req w))"

definition AuthzHandler_RevokeACL :: "('w, 'q) AuthzHandler \<Rightarrow> string \<Rightarrow> (string \<Rightarrow> string) \<Rightarrow> 'w \<Rightarrow> unit response \<times> 'w" where
  "AuthzHandler_RevokeACL h tenantID query w =
     reply_none (ACLService_Revoke (zh_acl h) tenantID (query ''subject_type'') (query ''subject_id'')
       (query ''resource_type'') (query ''resource_id'') w)"

definition AuthzHandler_ListACLBySubject :: "('w, 'q) AuthzHandler \<Rightarrow> string \<Rightarrow> (string \<Rightarrow> string) \<Rightarrow> 'w \<Rightarrow> aclResponse list response" where
  "AuthzHandler_ListACLBySubject h tenantID query w =
     reply_list toACLResponse (ACLService_ListBySubject (zh_acl h) tenantID (query ''subject_type'') (query ''subject_id'') w)"

definition AuthzHandler_ListACLByResource :: "('w, 'q) AuthzHandler \<Rightarrow> string \<Rightarrow> (string \<Rightarrow> string) \<Rightarrow> 'w \<Rightarrow> aclResponse list response" where
  "AuthzHandler_ListACLByResource h tenantID query w =
     reply_list toACLResponse (ACLService_ListByResource (zh_acl h) tenantID (query ''resource_type'') (query ''resource_id'') w)"

section \<open>Role permissions and permissions\<close>

record rolePermGrantRequest =
  rgr_RoleName :: string
  rgr_Permission :: string

record rolePermResponse =
  rpr_ID :: string
  rpr_RoleName :: string
  rpr_Permission :: string

definition toRolePermResponse :: "RolePermission \<Rightarrow> rolePermResponse" where
  "toRolePermResponse rp = \<lparr>rpr_ID = rp_ID rp, rpr_RoleName = rp_RoleName rp, rpr_Permission = rp_Permission rp\<rparr>"

definition AuthzHandler_GrantRolePermission :: "('w, 'q) AuthzHandler \<Rightarrow> string \<Rightarrow> err + rolePermGrantRequest \<Rightarrow> 'w \<Rightarrow>
    rolePermResponse response \<times> 'w" where
  "AuthzHandler_GrantRolePermission h tenantID bound w =
     (case bound of
        Inl e \<Rightarrow> (writeError 400 ''invalid_request'', w)
      | Inr req \<Rightarrow> reply_created toRolePermResponse
          (RolePermissionService_Grant (zh_rolePerms h) tenantID (rgr_RoleName req) (rgr_Permission req) w))"

definition AuthzHandler_RevokeRolePermission :: "('w, 'q) AuthzHandler \<Rightarrow> string \<Rightarrow> string \<Rightarrow> (string \<Rightarrow> string) \<Rightarrow> 'w \<Rightarrow>
    unit response \<times> 'w" where
  "AuthzHandler_RevokeRolePermission h tenantID roleName query w =
     reply_none (RolePermissionService_Revoke (zh_rolePerms h) tenantID roleName (query ''permission'') w)"

definition AuthzHandler_RevokeAllRolePermissions :: "('w, 'q) AuthzHandler \<Rightarrow> string \<Rightarrow> string \<Rightarrow> 'w \<Rightarrow> unit response \<times> 'w" where
  "AuthzHandler_RevokeAllRolePermissions h tenantID roleName w =
     reply_none (RolePermissionService_RevokeAllForRole (zh_rolePerms h) tenantID roleName w)"

definition AuthzHandler_ListRolePermissions :: "('w, 'q) AuthzHandler \<Rightarrow> string \<Rightarrow> string \<Rightarrow> 'w \<Rightarrow> rolePermResponse list response" where
  "AuthzHandler_ListRolePermissions h tenantID roleName w =
     reply_list toRolePermResponse (RolePermissionService_ListByRole (zh_rolePerms h) tenantID roleName w)"

record permissionCreateRequest =
  pcr_Name :: string
  pcr_Description :: string

record permissionResponse =
  per_ID :: string
  per_Name :: string
  per_Description :: string

definition toPermissionResponse :: "Permission \<Rightarrow> permissionResponse" where
  "toPermissionResponse p = \<lparr>per_ID = perm_ID p, per_Name = perm_Name p, per_Description = perm_Description p\<rparr>"

definition AuthzHandler_CreatePermission :: "('w, 'q) AuthzHandler \<Rightarrow> string \<Rightarrow> err + permissionCreateRequest \<Rightarrow> 'w \<Rightarrow>
    permissionResponse response \<times> 'w" where
  "AuthzHandler_CreatePermission h tenantID bound w =
     (case bound of
        Inl e \<Rightarrow> (writeError 400 ''invalid_request'', w)
      | Inr req \<Rightarrow> reply_created toPermissionResponse
          (PermissionService_Create (zh_perms h) tenantID (pcr_Name req) (pcr_Description req) w))"

definition AuthzHandler_GetPermission :: "('w, 'q) AuthzHandler \<Rightarrow> string \<Rightarrow> 'w \<Rightarrow> permissionResponse response" where
  "AuthzHandler_GetPermission h uid w = reply_found toPermissionResponse (PermissionService_Get (zh_perms h) uid w)"

definition AuthzHandler_ListPermissions :: "('w, 'q) AuthzHandler \<Rightarrow> string \<Rightarrow> 'w \<Rightarrow> permissionResponse list response" where
  "AuthzHandler_ListPermissions h tenantID w = reply_list toPermissionResponse (PermissionService_List (zh_perms h) tenantID w)"

definition AuthzHandler_DeletePermission :: "('w, 'q) AuthzHandler \<Rightarrow> string \<Rightarrow> 'w \<Rightarrow> unit response \<times> 'w" where
  "AuthzHandler_DeletePermission h uid w = reply_none (PermissionService_Delete (zh_perms h) uid w)"

section \<open>Policies\<close>

record policyCreateRequest =
  plq_Name :: string
  plq_Description :: string
  plq_Rego :: string

record policyResponse =
  plr_ID :: string
  plr_Name :: string
  plr_Description :: string
  plr_Rego :: string
  plr_Version :: int
  plr_IsActive :: bool

definition toPolicyResponse :: "Policy \<Rightarrow> policyResponse" where
  "toPolicyResponse p = \<lparr>
     plr_ID = pol_ID p, plr_Name = pol_Name p, plr_Description = pol_Description p, plr_Rego = pol_Rego p,
     plr_Version = pol_Version p, plr_IsActive = pol_IsActive p\<rparr>"

definition AuthzHandler_CreatePolicy :: "('w, 'q) AuthzHandler \<Rightarrow> string \<Rightarrow> err + policyCreateRequest \<Rightarrow> 'w \<Rightarrow>
    policyResponse response \<times> 'w" where
  "AuthzHandler_CreatePolicy h tenantID bound w =
     (case bound of
        Inl e \<Rightarrow> (writeError 400 ''invalid_request'', w)
      | Inr req \<Rightarrow> reply_created toPolicyResponse
          (PolicyService_Create (zh_policy h) tenantID (plq_Name req) (plq_Description req) (plq_Rego req) w))"

definition AuthzHandler_GetPolicy :: "('w, 'q) AuthzHandler \<Rightarrow> string \<Rightarrow> 'w \<Rightarrow> policyResponse response" where
  "AuthzHandler_GetPolicy h uid w = reply_found toPolicyResponse (PolicyService_Get (zh_policy h) uid w)"

definition AuthzHandler_ListPolicies :: "('w, 'q) AuthzHandler \<Rightarrow> string \<Rightarrow> 'w \<Rightarrow> policyResponse list response" where
  "AuthzHandler_ListPolicies h tenantID w = reply_list toPolicyResponse (PolicyService_List (zh_policy h) tenantID w)"

definition AuthzHandler_ActivatePolicy :: "('w, 'q) AuthzHandler \<Rightarrow> string \<Rightarrow> string \<Rightarrow> 'w \<Rightarrow> unit response \<times> 'w" where
  "AuthzHandler_ActivatePolicy h tenantID uid w = reply_none (PolicyService_Activate (zh_policy h) tenantID uid w)"

definition AuthzHandler_DeactivatePolicy :: "('w, 'q) AuthzHandler \<Rightarrow> string \<Rightarrow> 'w \<Rightarrow> unit response \<times> 'w" where
  "AuthzHandler_DeactivatePolicy h uid w = reply_none (PolicyService_Deactivate (zh_policy h) uid w)"

definition AuthzHandler_DeletePolicy :: "('w, 'q) AuthzHandler \<Rightarrow> string \<Rightarrow> 'w \<Rightarrow> unit response \<times> 'w" where
  "AuthzHandler_DeletePolicy h uid w = reply_none (PolicyService_Delete (zh_policy h) uid w)"

end
