(* ===== verification/OAuth2.thy ===== *)
theory OAuth2
  imports Http RepoFed AuthService Sha256 "HOL-Library.List_Lexorder" "HOL-Library.Char_ord"
begin

text \<open>
  service/oauth2.go and api/oauth2_handler.go: Hoviyat as a relying party of external providers. The
  HTTP client, go-oidc and the decoder of foreign JSON are parameters (\<open>http_lib\<close>); one value of it
  is what the network answers during one operation.
\<close>

section \<open>Forms and the network\<close>

text \<open>\<open>url.QueryEscape\<close> and \<open>url.Values.Encode\<close>, which sorts by key.\<close>

definition upper_hex :: "nat \<Rightarrow> char" where
  "upper_hex n = ''0123456789ABCDEF'' ! n"

definition url_unreserved :: "char \<Rightarrow> bool" where
  "url_unreserved c \<longleftrightarrow>
     c \<in> set ''abcdefghijklmnopqrstuvwxyzABCDEFGHIJKLMNOPQRSTUVWXYZ0123456789-_.~''"

definition url_QueryEscape :: "string \<Rightarrow> string" where
  "url_QueryEscape s = concat (map (\<lambda>c.
     if url_unreserved c then [c] else if c = CHR '' '' then ''+''
     else [CHR ''%'', upper_hex (of_char c div 16), upper_hex (of_char c mod 16)]) s)"

type_synonym url_values = "(string \<times> string) list"

definition values_Encode :: "url_values \<Rightarrow> string" where
  "values_Encode vs = strings_Join (map (\<lambda>(k, v). url_QueryEscape k @ ''='' @ url_QueryEscape v) (sort_key fst vs)) ''&''"

record http_request =
  hrq_Method :: string
  hrq_URL :: string
  hrq_Header :: "(string \<times> string) list"
  hrq_Body :: string
  hrq_PostForm :: url_values

record http_response =
  hrs_StatusCode :: int
  hrs_Status :: string
  hrs_Body :: string

record http_lib =
  http_NewRequest :: "string \<Rightarrow> string \<Rightarrow> string \<Rightarrow> err + http_request"
  http_Do :: "http_request \<Rightarrow> err + http_response"
  json_Decode :: "string \<Rightarrow> err + any"
  oidc_Verify :: "string \<Rightarrow> string \<Rightarrow> string \<Rightarrow> err + any_map"

text \<open>net/http documents of \<open>Request.PostForm\<close> that the client ignores it and sends the body.\<close>

locale http_client =
  fixes net :: http_lib
  assumes post_form_ignored: "http_Do net (r\<lparr>hrq_PostForm := f\<rparr>) = http_Do net r"

section \<open>Service\<close>

record 'w OAuth2Service =
  os_providers :: "'w OAuth2ProviderRepository"
  os_states :: "'w OAuth2StateRepository"
  os_users :: "'w UserRepository"
  os_memberships :: "'w MembershipRepository"
  os_teams :: "'w TeamRepository"
  os_teamMemberships :: "'w TeamMembershipRepository"
  os_tokens :: TokenService

definition NewOAuth2Service :: "'w OAuth2ProviderRepository \<Rightarrow> 'w OAuth2StateRepository \<Rightarrow> 'w UserRepository \<Rightarrow>
    'w MembershipRepository \<Rightarrow> 'w TeamRepository \<Rightarrow> 'w TeamMembershipRepository \<Rightarrow> TokenService \<Rightarrow> 'w OAuth2Service" where
  "NewOAuth2Service providers states users memberships teams teamMemberships tokens = \<lparr>os_providers = providers,
     os_states = states, os_users = users, os_memberships = memberships, os_teams = teams,
     os_teamMemberships = teamMemberships, os_tokens = tokens\<rparr>"

record OAuth2ProviderConfig =
  opc_Name :: string
  opc_ClientID :: string
  opc_ClientSecret :: string
  opc_AuthURL :: string
  opc_TokenURL :: string
  opc_UserInfoURL :: string
  opc_Scopes :: "string list"
  opc_IssuerURL :: string
  opc_ProviderType :: string

definition OAuth2Service_RegisterProvider :: "'w OAuth2Service \<Rightarrow> string \<Rightarrow> OAuth2ProviderConfig \<Rightarrow> 'w \<Rightarrow>
    (err + OAuth2Provider) \<times> 'w" where
  "OAuth2Service_RegisterProvider s tenantID config w =
     OAuth2ProviderRepository_Create (os_providers s) \<lparr>
       op_ID = [], op_TenantID = tenantID, op_Name = opc_Name config, op_ClientID = opc_ClientID config,
       op_ClientSecret = opc_ClientSecret config, op_AuthURL = opc_AuthURL config, op_TokenURL = opc_TokenURL config,
       op_UserInfoURL = opc_UserInfoURL config, op_Scopes = opc_Scopes config, op_IssuerURL = opc_IssuerURL config,
       op_ProviderType = opc_ProviderType config, op_Enabled = True, op_CreatedAt = zero_time, op_UpdatedAt = zero_time\<rparr> w"

definition OAuth2Service_GetProvider :: "'w OAuth2Service \<Rightarrow> string \<Rightarrow> 'w \<Rightarrow> err + OAuth2Provider" where
  "OAuth2Service_GetProvider s uid w = OAuth2ProviderRepository_FindByID (os_providers s) uid w"

definition OAuth2Service_ListProviders :: "'w OAuth2Service \<Rightarrow> string \<Rightarrow> 'w \<Rightarrow> err + OAuth2Provider list" where
  "OAuth2Service_ListProviders s tenantID w = OAuth2ProviderRepository_FindByTenant (os_providers s) tenantID w"

definition OAuth2Service_UpdateProvider :: "'w OAuth2Service \<Rightarrow> OAuth2Provider \<Rightarrow> 'w \<Rightarrow> (err + unit) \<times> 'w" where
  "OAuth2Service_UpdateProvider s provider w = OAuth2ProviderRepository_Update (os_providers s) provider w"

definition OAuth2Service_DeleteProvider :: "'w OAuth2Service \<Rightarrow> string \<Rightarrow> 'w \<Rightarrow> (err + unit) \<times> 'w" where
  "OAuth2Service_DeleteProvider s uid w = OAuth2ProviderRepository_Delete (os_providers s) uid w"

text \<open>\<open>generateRandomString(n)\<close> on the n bytes it reads.\<close>

definition generateRandomString :: "string \<Rightarrow> string" where
  "generateRandomString b = take (length b) (base64_URLEncode b)"

definition generateCodeChallenge :: "string \<Rightarrow> string" where
  "generateCodeChallenge verifier = base64_URLEncode (sha256_Sum256 verifier)"

fun service_joinScopes_loop :: "nat \<Rightarrow> string \<Rightarrow> string list \<Rightarrow> string" where
  "service_joinScopes_loop i result [] = result"
| "service_joinScopes_loop i result (s # ss) =
     service_joinScopes_loop (Suc i) ((if 0 < i then result @ '' '' else result) @ s) ss"

definition service_joinScopes :: "string list \<Rightarrow> string" where
  "service_joinScopes scopes = service_joinScopes_loop 0 [] scopes"

definition OAuth2Service_GetAuthURL :: "'w OAuth2Service \<Rightarrow> string \<times> string \<Rightarrow> time \<Rightarrow> string \<Rightarrow> string \<Rightarrow> string \<Rightarrow> bool \<Rightarrow> 'w \<Rightarrow>
    (err + string \<times> string) \<times> 'w" where
  "OAuth2Service_GetAuthURL s rnd now tenantID providerName redirectURI pkce w =
     (case OAuth2ProviderRepository_FindByTenantAndName (os_providers s) tenantID providerName w of
        Inl e \<Rightarrow> (Inl e, w)
      | Inr provider \<Rightarrow>
          (if \<not> op_Enabled provider then (Inl (SvcAuthErr service_ErrOAuth2ProviderDisabled), w)
           else let state = generateRandomString (fst rnd);
                    codeVerifier = (if pkce then generateRandomString (snd rnd) else []);
                    codeChallenge = (if pkce then generateCodeChallenge codeVerifier else []);
                    codeChallengeMethod = (if pkce then ''S256'' else [])
           in case OAuth2StateRepository_Create (os_states s) \<lparr>
                     os_ID = [], os_State = state, os_ProviderID = op_ID provider, os_TenantID = tenantID,
                     os_RedirectURI = redirectURI, os_CodeChallenge = codeVerifier,
                     os_CodeChallengeMethod = codeChallengeMethod, os_ExpiresAt = now + 10 * time_Minute,
                     os_CreatedAt = zero_time\<rparr> w of
                (Inl e, w1) \<Rightarrow> (Inl e, w1)
              | (Inr st, w1) \<Rightarrow>
                  (Inr (op_AuthURL provider @ ''?'' @ values_Encode
                     ([(''response_type'', ''code''), (''client_id'', op_ClientID provider), (''redirect_uri'', redirectURI),
                       (''state'', state), (''scope'', service_joinScopes (op_Scopes provider))] @
                      (if codeChallenge \<noteq> []
                       then [(''code_challenge'', codeChallenge), (''code_challenge_method'', codeChallengeMethod)] else [])),
                     state), w1)))"

text \<open>A string field of the decoded reply: absent and null leave it empty, another type is an error.\<close>

definition reply_field :: "(string \<times> any) list \<Rightarrow> string \<Rightarrow> err + string" where
  "reply_field m k =
     (case map_of m k of
        None \<Rightarrow> Inr [] | Some ANull \<Rightarrow> Inr [] | Some (AStr s) \<Rightarrow> Inr s
      | Some _ \<Rightarrow> Inl (LibErr ''json: cannot unmarshal''))"

text \<open>The access and ID token of the reply; all five fields must have their types.\<close>

definition decode_token_reply :: "any \<Rightarrow> err + (string \<times> string)" where
  "decode_token_reply v =
     (case v of
        ANull \<Rightarrow> Inr ([], [])
      | AMap m \<Rightarrow>
          (case (reply_field m ''access_token'', reply_field m ''refresh_token'', reply_field m ''id_token'',
                 reply_field m ''token_type'') of
             (Inr a, Inr r, Inr i, Inr t) \<Rightarrow>
               (case map_of m ''expires_in'' of
                  None \<Rightarrow> Inr (a, i) | Some ANull \<Rightarrow> Inr (a, i) | Some (AInt n) \<Rightarrow> Inr (a, i)
                | Some _ \<Rightarrow> Inl (LibErr ''json: cannot unmarshal''))
           | _ \<Rightarrow> Inl (LibErr ''json: cannot unmarshal''))
      | _ \<Rightarrow> Inl (LibErr ''json: cannot unmarshal''))"

definition OAuth2Service_userinfo_endpoint :: "http_lib \<Rightarrow> OAuth2Provider \<Rightarrow> string \<Rightarrow> err + any_map" where
  "OAuth2Service_userinfo_endpoint net provider accessToken =
     (case http_NewRequest net ''GET'' (op_UserInfoURL provider) [] of
        Inl e \<Rightarrow> Inl e
      | Inr req \<Rightarrow>
          (case http_Do net (req\<lparr>hrq_Header := (''Authorization'', ''Bearer '' @ accessToken) # hrq_Header req\<rparr>) of
             Inl e \<Rightarrow> Inl e
           | Inr resp \<Rightarrow>
               (case json_Decode net (hrs_Body resp) of
                  Inl e \<Rightarrow> Inl e
                | Inr ANull \<Rightarrow> Inr None
                | Inr (AMap m) \<Rightarrow> Inr (Some m)
                | Inr _ \<Rightarrow> Inl (LibErr ''json: cannot unmarshal''))))"

definition OAuth2Service_getUserInfo :: "http_lib \<Rightarrow> OAuth2Provider \<Rightarrow> string \<Rightarrow> string \<Rightarrow> err + any_map" where
  "OAuth2Service_getUserInfo net provider accessToken idToken =
     (if op_ProviderType provider = ''oidc'' \<and> op_IssuerURL provider \<noteq> [] \<and> idToken \<noteq> []
      then (case oidc_Verify net (op_IssuerURL provider) (op_ClientID provider) idToken of
              Inr claims \<Rightarrow> Inr claims
            | Inl e \<Rightarrow> OAuth2Service_userinfo_endpoint net provider accessToken)
      else OAuth2Service_userinfo_endpoint net provider accessToken)"

text \<open>Finding or creating an account for an e-mail address, which the SAML service does alike.\<close>

definition federated_account :: "'w UserRepository \<Rightarrow> 'w MembershipRepository \<Rightarrow> string \<Rightarrow> string \<Rightarrow> 'w \<Rightarrow> (err + User) \<times> 'w" where
  "federated_account users memberships tenantID email w =
     (let found = (case UserRepository_FindByEmail users email w of
            Inr user \<Rightarrow> (Inr user, w)
          | Inl e \<Rightarrow> (if e \<noteq> IdErr ErrUserNotFound then (Inl e, w)
                     else UserRepository_Create users \<lparr>user_ID = [], user_Email = email, user_PasswordHash = [],
                            user_CreatedAt = zero_time, user_UpdatedAt = zero_time\<rparr> w))
      in case found of
           (Inl e, w1) \<Rightarrow> (Inl e, w1)
         | (Inr user, w1) \<Rightarrow>
             (case MembershipRepository_FindByUserAndTenant memberships (user_ID user) tenantID w1 of
                Inr membership \<Rightarrow> (Inr user, w1)
              | Inl e \<Rightarrow>
                  (if e = IdErr ErrMembershipNotFound
                   then case MembershipRepository_Create memberships \<lparr>mem_UserID = user_ID user, mem_TenantID = tenantID,
                               mem_Roles = [''member''], mem_CreatedAt = zero_time, mem_UpdatedAt = zero_time\<rparr> w1 of
                          (Inl e', w2) \<Rightarrow> (Inl e', w2)
                        | (Inr m, w2) \<Rightarrow> (Inr user, w2)
                   else (Inl e, w1))))"

definition info_email :: "any_map \<Rightarrow> string" where
  "info_email info = (case info of None \<Rightarrow> [] | Some m \<Rightarrow> (case map_of m ''email'' of Some (AStr s) \<Rightarrow> s | _ \<Rightarrow> []))"

definition OAuth2Service_findOrCreateUser :: "'w OAuth2Service \<Rightarrow> string \<Rightarrow> any_map \<Rightarrow> 'w \<Rightarrow> (err + User) \<times> 'w" where
  "OAuth2Service_findOrCreateUser s tenantID userInfo w =
     (if info_email userInfo = [] then (Inl (FmtErr ''email not provided by OAuth2 provider''), w)
      else federated_account (os_users s) (os_memberships s) tenantID (info_email userInfo) w)"

definition OAuth2Service_getRolesForTenant :: "'w OAuth2Service \<Rightarrow> string \<Rightarrow> string \<Rightarrow> 'w \<Rightarrow> err + string list" where
  "OAuth2Service_getRolesForTenant s userID tenantID w =
     (case MembershipRepository_FindByUserAndTenant (os_memberships s) userID tenantID w of
        Inl e \<Rightarrow> Inl e
      | Inr membership \<Rightarrow>
          (case TeamMembershipRepository_ListByUser (os_teamMemberships s) userID w of
             Inl e \<Rightarrow> Inr (mem_Roles membership)
           | Inr teamMemberships \<Rightarrow> Inr (team_roles (os_teams s) tenantID w teamMemberships (mem_Roles membership))))"

definition OAuth2Service_issueTokens :: "'w OAuth2Service \<Rightarrow> time \<times> time \<Rightarrow> User \<Rightarrow> string \<Rightarrow> string list \<Rightarrow> err + AuthResult" where
  "OAuth2Service_issueTokens s clock user tenantID roles =
     (case TokenService_GenerateAccessToken (os_tokens s) (fst clock) (user_ID user) tenantID roles of
        Inl e \<Rightarrow> Inl e
      | Inr access \<Rightarrow>
          (case TokenService_GenerateRefreshToken (os_tokens s) (snd clock) (user_ID user) tenantID roles of
             Inl e \<Rightarrow> Inl e
           | Inr refresh \<Rightarrow>
               Inr \<lparr>ar_AccessToken = access, ar_RefreshToken = refresh, ar_User = user,
                    ar_TenantID = tenantID, ar_Roles = roles\<rparr>))"

text \<open>The request for the tokens: the form goes into \<open>PostForm\<close>, the body is empty.\<close>

definition token_form :: "OAuth2State \<Rightarrow> OAuth2Provider \<Rightarrow> string \<Rightarrow> url_values" where
  "token_form st provider code =
     [(''grant_type'', ''authorization_code''), (''code'', code), (''redirect_uri'', os_RedirectURI st),
      (''client_id'', op_ClientID provider), (''client_secret'', op_ClientSecret provider)] @
     (if os_CodeChallenge st \<noteq> [] then [(''code_verifier'', os_CodeChallenge st)] else [])"

definition exchange_code :: "http_lib \<Rightarrow> OAuth2State \<Rightarrow> OAuth2Provider \<Rightarrow> string \<Rightarrow> err + (string \<times> string)" where
  "exchange_code net st provider code =
     (case http_NewRequest net ''POST'' (op_TokenURL provider) [] of
        Inl e \<Rightarrow> Inl e
      | Inr req \<Rightarrow>
          (case http_Do net (req\<lparr>hrq_Header := (''Content-Type'', ''application/x-www-form-urlencoded'') # hrq_Header req,
                  hrq_PostForm := token_form st provider code\<rparr>) of
             Inl e \<Rightarrow> Inl e
           | Inr resp \<Rightarrow>
               (if hrs_StatusCode resp \<noteq> 200 then Inl (FmtErr (''token exchange failed: '' @ hrs_Status resp))
                else case json_Decode net (hrs_Body resp) of
                       Inl e \<Rightarrow> Inl e
                     | Inr v \<Rightarrow> decode_token_reply v)))"

definition OAuth2Service_HandleCallback :: "http_lib \<Rightarrow> 'w OAuth2Service \<Rightarrow> time \<Rightarrow> time \<times> time \<Rightarrow> string \<Rightarrow> string \<Rightarrow> 'w \<Rightarrow>
    (err + AuthResult) \<times> 'w" where
  "OAuth2Service_HandleCallback net s now tclock state code w =
     (case OAuth2StateRepository_FindByState (os_states s) state w of
        Inl e \<Rightarrow> (Inl (SvcAuthErr service_ErrInvalidOAuth2State), w)
      | Inr None \<Rightarrow> (Inl (SvcAuthErr service_ErrInvalidOAuth2State), w)
      | Inr (Some oauth2State) \<Rightarrow>
          (if time_After now (os_ExpiresAt oauth2State)
           then (Inl (SvcAuthErr service_ErrInvalidOAuth2State), snd (OAuth2StateRepository_Delete (os_states s) state w))
           else case OAuth2ProviderRepository_FindByID (os_providers s) (os_ProviderID oauth2State) w of
             Inl e \<Rightarrow> (Inl e, w)
           | Inr provider \<Rightarrow>
               (case exchange_code net oauth2State provider code of
                  Inl e \<Rightarrow> (Inl e, w)
                | Inr (accessToken, idToken) \<Rightarrow>
                    (case OAuth2Service_getUserInfo net provider accessToken idToken of
                       Inl e \<Rightarrow> (Inl e, w)
                     | Inr userInfo \<Rightarrow>
                         (case OAuth2Service_findOrCreateUser s (op_TenantID provider) userInfo w of
                            (Inl e, w1) \<Rightarrow> (Inl e, w1)
                          | (Inr user, w1) \<Rightarrow>
                              (case OAuth2Service_getRolesForTenant s (user_ID user) (op_TenantID provider) w1 of
                                 Inl e \<Rightarrow> (Inl e, w1)
                               | Inr roles \<Rightarrow>
                                   (case OAuth2Service_issueTokens s tclock user (op_TenantID provider) roles of
                                      Inl e \<Rightarrow> (Inl e, w1)
                                    | Inr result \<Rightarrow>
                                        (Inr result, snd (OAuth2StateRepository_Delete (os_states s) state w1)))))))))"

end
