(* ===== verification/Float64.thy ===== *)
theory Float64
  imports Main
begin

text \<open>
  The \<open>float64\<close> arithmetic of the source: finite numbers only, which is what the code computes with.
\<close>

text \<open>
  A finite \<open>float64\<close> is a pair (m, e) for m times 2 to the e. The exponent is not bounded: where the
  hardware overflows to infinity or underflows, the conversion to \<open>int64\<close> below gives the same
  number (amd64 converts everything out of range to the least \<open>int64\<close>).
\<close>

type_synonym f64 = "int \<times> int"

fun bits :: "nat \<Rightarrow> nat" where
  "bits n = (if n = 0 then 0 else Suc (bits (n div 2)))"

declare bits.simps [simp del]

text \<open>Rounding to 53 bits, to nearest and ties to even.\<close>

definition f64_round :: "f64 \<Rightarrow> f64" where
  "f64_round x =
     (case x of (m, e) \<Rightarrow>
        if \<bar>m\<bar> < 2 ^ 53 then (m, e)
        else let k = bits (nat \<bar>m\<bar>) - 53; q = \<bar>m\<bar> div 2 ^ k; r = \<bar>m\<bar> mod 2 ^ k; h = 2 ^ (k - 1);
                 q' = (if h < r \<or> r = h \<and> odd q then q + 1 else q)
             in (sgn m * q', e + int k))"

definition f64_of_int :: "int \<Rightarrow> f64" where
  "f64_of_int i = f64_round (i, 0)"

definition f64_mult :: "f64 \<Rightarrow> f64 \<Rightarrow> f64" where
  "f64_mult x y = f64_round (fst x * fst y, snd x + snd y)"

definition f64_add :: "f64 \<Rightarrow> f64 \<Rightarrow> f64" where
  "f64_add x y =
     (let e = min (snd x) (snd y)
      in f64_round (fst x * 2 ^ nat (snd x - e) + fst y * 2 ^ nat (snd y - e), e))"

text \<open>
  The quotient of a nonnegative number by a positive one: 120 more bits than the operands have, and a
  last bit that is set if a remainder is left, decide how to round.
\<close>

definition f64_div :: "f64 \<Rightarrow> f64 \<Rightarrow> f64" where
  "f64_div x y =
     (let n = fst x * 2 ^ 120
      in f64_round (2 * (n div fst y) + (if n mod fst y = 0 then 0 else 1), snd x - snd y - 121))"

definition f64_to_int64 :: "f64 \<Rightarrow> int" where
  "f64_to_int64 x =
     (case x of (m, e) \<Rightarrow>
        let v = (if 0 \<le> e then m * 2 ^ nat e else sgn m * (\<bar>m\<bar> div 2 ^ nat (- e)))
        in if - (2 ^ 63) \<le> v \<and> v < 2 ^ 63 then v else - (2 ^ 63))"

end
