(* ===== verification/Webhook.thy ===== *)
theory Webhook
  imports OAuth2 Clock Float64
begin

text \<open>
  service/webhook.go: webhooks, their signed deliveries and the exponential backoff of a failed one. The
  two repositories have no implementation in the repository and are parameters; the network is the
  \<open>http_lib\<close> of OAuth2. A goroutine \<open>Dispatch\<close> starts is one call of \<open>deliver\<close>.
\<close>

section \<open>Signatures\<close>

text \<open>\<open>hmac.New(sha256.New, key)\<close>: the key is filled up to a block of 64 bytes, hashed first if longer.\<close>

definition hmac_key :: "string \<Rightarrow> string" where
  "hmac_key key =
     (let k = (if 64 < length key then sha256_Sum256 key else key) in k @ replicate (64 - length k) (CHR 0x00))"

definition xor_bytes :: "nat \<Rightarrow> string \<Rightarrow> string" where
  "xor_bytes p s = map (\<lambda>c. char_of (Bit_Operations.xor (of_char c) p)) s"

definition hmac_inner :: "string \<Rightarrow> string \<Rightarrow> string" where
  "hmac_inner key msg = xor_bytes 0x36 (hmac_key key) @ msg"

definition hmac_outer :: "string \<Rightarrow> string \<Rightarrow> string" where
  "hmac_outer key msg = xor_bytes 0x5C (hmac_key key) @ sha256_Sum256 (hmac_inner key msg)"

definition signPayload :: "string \<Rightarrow> string \<Rightarrow> string" where
  "signPayload secret payload = hex_EncodeToString (sha256_Sum256 (hmac_outer secret payload))"

text \<open>\<open>generateSecret\<close> on the 32 bytes it reads.\<close>

definition generateSecret :: "string \<Rightarrow> string" where
  "generateSecret rnd = hex_EncodeToString rnd"

section \<open>Data\<close>

type_synonym WebhookEventType = string

record RetryPolicy =
  ret_MaxRetries :: int
  ret_InitialInterval :: duration
  ret_MaxInterval :: duration
  ret_Multiplier :: f64

record Webhook =
  wh_ID :: string
  wh_TenantID :: string
  wh_Name :: string
  wh_URL :: string
  wh_Secret :: string
  wh_Events :: "WebhookEventType list"
  wh_Enabled :: bool
  wh_RetryPolicy :: "RetryPolicy option"
  wh_CreatedAt :: time
  wh_UpdatedAt :: time

record WebhookDelivery =
  wd_ID :: string
  wd_WebhookID :: string
  wd_EventType :: WebhookEventType
  wd_Payload :: any_map
  wd_Attempt :: int
  wd_StatusCode :: int
  wd_Response :: string
  wd_Error :: string
  wd_NextRetry :: "time option"
  wd_CreatedAt :: time
  wd_CompletedAt :: "time option"

record 'w WebhookRepository =
  WebhookRepository_Create :: "Webhook \<Rightarrow> 'w \<Rightarrow> (err + Webhook) \<times> 'w"
  WebhookRepository_FindByID :: "string \<Rightarrow> 'w \<Rightarrow> err + Webhook"
  WebhookRepository_FindByTenant :: "string \<Rightarrow> 'w \<Rightarrow> err + Webhook list"
  WebhookRepository_FindByTenantAndEvent :: "string \<Rightarrow> WebhookEventType \<Rightarrow> 'w \<Rightarrow> err + Webhook list"
  WebhookRepository_Update :: "Webhook \<Rightarrow> 'w \<Rightarrow> (err + unit) \<times> 'w"
  WebhookRepository_Delete :: "string \<Rightarrow> 'w \<Rightarrow> (err + unit) \<times> 'w"

record 'w WebhookDeliveryRepository =
  WebhookDeliveryRepository_Create :: "WebhookDelivery \<Rightarrow> 'w \<Rightarrow> (err + WebhookDelivery) \<times> 'w"
  WebhookDeliveryRepository_FindByID :: "string \<Rightarrow> 'w \<Rightarrow> err + WebhookDelivery"
  WebhookDeliveryRepository_FindPending :: "time \<Rightarrow> 'w \<Rightarrow> err + WebhookDelivery list"
  WebhookDeliveryRepository_Update :: "WebhookDelivery \<Rightarrow> 'w \<Rightarrow> (err + unit) \<times> 'w"

record 'w WebhookService =
  ws_webhooks :: "'w WebhookRepository"
  ws_deliveries :: "'w WebhookDeliveryRepository"

definition NewWebhookService :: "'w WebhookRepository \<Rightarrow> 'w WebhookDeliveryRepository \<Rightarrow> 'w WebhookService" where
  "NewWebhookService webhooks deliveries = \<lparr>ws_webhooks = webhooks, ws_deliveries = deliveries\<rparr>"

section \<open>Managing webhooks\<close>

record RegisterWebhookRequest =
  rwq_Name :: string
  rwq_URL :: string
  rwq_Secret :: string
  rwq_Events :: "WebhookEventType list"
  rwq_RetryPolicy :: "RetryPolicy option"

record WebhookResponse =
  wr_ID :: string
  wr_Name :: string
  wr_URL :: string
  wr_Events :: "WebhookEventType list"
  wr_Enabled :: bool
  wr_RetryPolicy :: "RetryPolicy option"
  wr_CreatedAt :: time

definition toWebhookResponse :: "Webhook \<Rightarrow> WebhookResponse" where
  "toWebhookResponse w = \<lparr>wr_ID = wh_ID w, wr_Name = wh_Name w, wr_URL = wh_URL w, wr_Events = wh_Events w,
     wr_Enabled = wh_Enabled w, wr_RetryPolicy = wh_RetryPolicy w, wr_CreatedAt = wh_CreatedAt w\<rparr>"

definition default_retry_policy :: RetryPolicy where
  "default_retry_policy = \<lparr>ret_MaxRetries = 3, ret_InitialInterval = time_Minute, ret_MaxInterval = time_Hour,
     ret_Multiplier = (2, 0)\<rparr>"

definition WebhookService_Register :: "'w WebhookService \<Rightarrow> string \<Rightarrow> string \<Rightarrow> string \<Rightarrow> RegisterWebhookRequest \<Rightarrow> 'w \<Rightarrow>
    (err + WebhookResponse) \<times> 'w" where
  "WebhookService_Register s rnd tenantID userID req w =
     (case WebhookRepository_Create (ws_webhooks s) \<lparr>
             wh_ID = [], wh_TenantID = tenantID, wh_Name = rwq_Name req, wh_URL = rwq_URL req,
             wh_Secret = (if rwq_Secret req = [] then generateSecret rnd else rwq_Secret req),
             wh_Events = rwq_Events req, wh_Enabled = True,
             wh_RetryPolicy = (case rwq_RetryPolicy req of None \<Rightarrow> Some default_retry_policy | Some p \<Rightarrow> Some p),
             wh_CreatedAt = zero_time, wh_UpdatedAt = zero_time\<rparr> w of
        (Inl e, w1) \<Rightarrow> (Inl e, w1)
      | (Inr webhook, w1) \<Rightarrow> (Inr (toWebhookResponse webhook), w1))"

definition WebhookService_Get :: "'w WebhookService \<Rightarrow> string \<Rightarrow> 'w \<Rightarrow> err + WebhookResponse" where
  "WebhookService_Get s uid w =
     (case WebhookRepository_FindByID (ws_webhooks s) uid w of
        Inl e \<Rightarrow> Inl (if e = AcErr ErrWebhookNotFound then SvcOpsErr service_ErrWebhookNotFound else e)
      | Inr webhook \<Rightarrow> Inr (toWebhookResponse webhook))"

definition WebhookService_List :: "'w WebhookService \<Rightarrow> string \<Rightarrow> 'w \<Rightarrow> err + WebhookResponse list" where
  "WebhookService_List s tenantID w =
     (case WebhookRepository_FindByTenant (ws_webhooks s) tenantID w of
        Inl e \<Rightarrow> Inl e
      | Inr webhooks \<Rightarrow> Inr (map toWebhookResponse webhooks))"

text \<open>A value of the \<open>map[string]any\<close> of updates: the caller may put events and policies there.\<close>

datatype webhook_update = UAny any | UEvents "WebhookEventType list" | URetry "RetryPolicy option"

definition webhook_updates :: "(string \<times> webhook_update) list \<Rightarrow> Webhook \<Rightarrow> Webhook" where
  "webhook_updates updates h = h\<lparr>
     wh_Name := (case map_of updates ''name'' of Some (UAny (AStr s)) \<Rightarrow> s | _ \<Rightarrow> wh_Name h),
     wh_URL := (case map_of updates ''url'' of Some (UAny (AStr s)) \<Rightarrow> s | _ \<Rightarrow> wh_URL h),
     wh_Secret := (case map_of updates ''secret'' of Some (UAny (AStr s)) \<Rightarrow> s | _ \<Rightarrow> wh_Secret h),
     wh_Events := (case map_of updates ''events'' of Some (UEvents es) \<Rightarrow> es | _ \<Rightarrow> wh_Events h),
     wh_Enabled := (case map_of updates ''enabled'' of Some (UAny (ABool b)) \<Rightarrow> b | _ \<Rightarrow> wh_Enabled h),
     wh_RetryPolicy := (case map_of updates ''retry_policy'' of Some (URetry p) \<Rightarrow> p | _ \<Rightarrow> wh_RetryPolicy h)\<rparr>"

definition WebhookService_Update :: "'w WebhookService \<Rightarrow> string \<Rightarrow> (string \<times> webhook_update) list \<Rightarrow> 'w \<Rightarrow>
    (err + WebhookResponse) \<times> 'w" where
  "WebhookService_Update s uid updates w =
     (case WebhookRepository_FindByID (ws_webhooks s) uid w of
        Inl e \<Rightarrow> (Inl e, w)
      | Inr webhook \<Rightarrow>
          (case WebhookRepository_Update (ws_webhooks s) (webhook_updates updates webhook) w of
             (Inl e, w1) \<Rightarrow> (Inl e, w1)
           | (Inr u, w1) \<Rightarrow> (Inr (toWebhookResponse (webhook_updates updates webhook)), w1)))"

definition WebhookService_Delete :: "'w WebhookService \<Rightarrow> string \<Rightarrow> 'w \<Rightarrow> (err + unit) \<times> 'w" where
  "WebhookService_Delete s uid w = WebhookRepository_Delete (ws_webhooks s) uid w"

section \<open>Delivery\<close>

text \<open>The webhooks a delivery is started for, in order.\<close>

definition WebhookService_Dispatch :: "'w WebhookService \<Rightarrow> string \<Rightarrow> WebhookEventType \<Rightarrow> 'w \<Rightarrow> err + Webhook list" where
  "WebhookService_Dispatch s tenantID eventType w =
     (case WebhookRepository_FindByTenantAndEvent (ws_webhooks s) tenantID eventType w of
        Inl e \<Rightarrow> Inl e
      | Inr webhooks \<Rightarrow> Inr (filter wh_Enabled webhooks))"

text \<open>The loop of \<open>scheduleRetry\<close>, on the rounds it has left.\<close>

fun backoff_loop :: "RetryPolicy \<Rightarrow> nat \<Rightarrow> duration \<Rightarrow> duration" where
  "backoff_loop p 0 interval = interval"
| "backoff_loop p (Suc n) interval =
     (let interval' = f64_to_int64 (f64_mult (f64_of_int interval) (ret_Multiplier p))
      in if ret_MaxInterval p < interval' then ret_MaxInterval p else backoff_loop p n interval')"

text \<open>Without a policy the nil pointer panics. The retry is noted in the delivery and printed, nothing else.\<close>

definition WebhookService_scheduleRetry :: "time \<Rightarrow> WebhookDelivery \<Rightarrow> Webhook \<Rightarrow> WebhookDelivery outcome" where
  "WebhookService_scheduleRetry now delivery webhook =
     (case wh_RetryPolicy webhook of
        None \<Rightarrow> Panics
      | Some p \<Rightarrow> Returns
          (if ret_MaxRetries p \<le> wd_Attempt delivery then delivery
           else delivery\<lparr>wd_NextRetry := Some (now + backoff_loop p (nat (wd_Attempt delivery - 1)) (ret_InitialInterval p))\<rparr>))"

definition webhook_body :: "string \<Rightarrow> WebhookEventType \<Rightarrow> any_map \<Rightarrow> string" where
  "webhook_body timestamp eventType payload = json_Marshal (AMap
     [(''event_type'', AStr eventType), (''timestamp'', AStr timestamp),
      (''payload'', case payload of None \<Rightarrow> ANull | Some es \<Rightarrow> AMap es)])"

definition webhook_request :: "http_request \<Rightarrow> Webhook \<Rightarrow> WebhookEventType \<Rightarrow> string \<Rightarrow> string \<Rightarrow> http_request" where
  "webhook_request req webhook eventType deliveryID payloadBytes = req\<lparr>
     hrq_Header := hrq_Header req @ [(''Content-Type'', ''application/json''),
       (''X-Hoviyat-Signature'', signPayload (wh_Secret webhook) payloadBytes), (''X-Hoviyat-Event'', eventType),
       (''X-Hoviyat-Delivery'', deliveryID)],
     hrq_Body := payloadBytes\<rparr>"

text \<open>\<open>err.Error()\<close> of an error of the HTTP client, which is a library error.\<close>

definition net_error :: "err \<Rightarrow> string" where
  "net_error e = (case e of LibErr m \<Rightarrow> m | _ \<Rightarrow> [])"

text \<open>
  One delivery: the clock is read for the record, the body, the attempt and the end. The record is
  returned for what can be said of it; the code drops it. \<open>None\<close>: no request was sent.
\<close>

definition WebhookService_deliver :: "http_lib \<Rightarrow> (time \<Rightarrow> int) \<Rightarrow> time \<times> time \<times> time \<times> time \<Rightarrow> Webhook \<Rightarrow> WebhookEventType \<Rightarrow> any_map \<Rightarrow>
    WebhookDelivery option outcome" where
  "WebhookService_deliver net zone clock webhook eventType payload =
     (case clock of (n1, n2, n3, n4) \<Rightarrow>
       (let delivery = \<lparr>wd_ID = [], wd_WebhookID = wh_ID webhook, wd_EventType = eventType, wd_Payload = payload,
                       wd_Attempt = 0, wd_StatusCode = 0, wd_Response = [], wd_Error = [], wd_NextRetry = None,
                       wd_CreatedAt = n1, wd_CompletedAt = None\<rparr>;
           payloadBytes = webhook_body (time_Format_RFC3339 zone n2) eventType payload
       in case http_NewRequest net ''POST'' (wh_URL webhook) [] of
            Inl e \<Rightarrow> Returns None
          | Inr req \<Rightarrow>
              (let delivery1 = delivery\<lparr>wd_Attempt := 1, wd_CreatedAt := n3\<rparr>;
                   retry = (\<lambda>d. map_outcome Some (WebhookService_scheduleRetry n4 d webhook))
               in case http_Do net (webhook_request req webhook eventType [] payloadBytes) of
                    Inl e \<Rightarrow> retry (delivery1\<lparr>wd_Error := net_error e, wd_StatusCode := 0\<rparr>)
                  | Inr resp \<Rightarrow>
                      (if 200 \<le> hrs_StatusCode resp \<and> hrs_StatusCode resp < 300
                       then Returns (Some (delivery1\<lparr>wd_StatusCode := hrs_StatusCode resp, wd_CompletedAt := Some n4\<rparr>))
                       else retry (delivery1\<lparr>wd_StatusCode := hrs_StatusCode resp,
                              wd_Error := ''HTTP '' @ show_int (hrs_StatusCode resp)\<rparr>)))))"

end
