(* ===== verification/WebhookProps.thy ===== *)
theory WebhookProps
  imports Webhook RepoAudit
begin

text \<open>
  What a receiver may conclude from a signature, and the retry times a failed delivery is given.
\<close>

section \<open>Signatures\<close>

lemma hex_digit_inject: "m < 16 \<Longrightarrow> n < 16 \<Longrightarrow> hex_digit m = hex_digit n \<Longrightarrow> m = n"
  by (metis hex_value_digit option.inject)

lemma hex_inject: "hex_EncodeToString xs = hex_EncodeToString ys \<Longrightarrow> xs = ys"
proof (induction xs arbitrary: ys)
  case Nil
  then show ?case by (cases ys) simp_all
next
  case (Cons x xs)
  obtain y zs where ys: "ys = y # zs" using Cons.prems by (cases ys) simp_all
  have lt: "of_char c div 16 < (16 :: nat)" "of_char c mod 16 < (16 :: nat)" for c :: char
    by (simp_all add: less_mult_imp_div_less)
  have "of_char x div 16 = (of_char y div 16 :: nat)" "of_char x mod 16 = (of_char y mod 16 :: nat)"
    using Cons.prems ys by (auto intro: hex_digit_inject [OF lt(1) lt(1)] hex_digit_inject [OF lt(2) lt(2)])
  then have "x = y" by (metis char_of_div_mod)
  then show ?case using Cons ys by simp
qed



section \<open>Retries\<close>

lemma f64_round_exact: "\<bar>m\<bar> < 2 ^ 53 \<Longrightarrow> f64_round (m, e) = (m, e)"
  by (simp add: f64_round_def)

lemma f64_scale:
  assumes "0 \<le> i" and "0 \<le> m" and "i < 2 ^ 53" and "i * m < 2 ^ 53"
  shows "f64_to_int64 (f64_mult (f64_of_int i) (m, 0)) = i * m"
proof -
  have "0 \<le> i * m" using assms(1,2) by simp
  then have "- 9223372036854775808 \<le> i * m" by linarith
  then show ?thesis using assms by (simp add: f64_mult_def f64_of_int_def f64_round_exact f64_to_int64_def Let_def)
qed



text \<open>Backing off never happens. Every delivery is a first attempt: if it fails and its policy allows more than one, the
  retry is noted for the first interval after it, however often the event was delivered before, and
  with a policy that allows one attempt no retry is noted.\<close>

theorem delivery_never_backs_off:
  assumes "WebhookService_deliver net zone (n1, n2, n3, n4) webhook ev payload = Returns (Some d)"
    and "wh_RetryPolicy webhook = Some p"
  shows "wd_Attempt d = 1 \<and> wd_CreatedAt d = n3 \<and>
    (if 200 \<le> wd_StatusCode d \<and> wd_StatusCode d < 300 then wd_CompletedAt d = Some n4 \<and> wd_NextRetry d = None
     else wd_CompletedAt d = None \<and>
       wd_NextRetry d = (if ret_MaxRetries p \<le> 1 then None else Some (n4 + ret_InitialInterval p)))"
proof -
  obtain req where req: "http_NewRequest net ''POST'' (wh_URL webhook) [] = Inr req"
    using assms(1) by (cases "http_NewRequest net ''POST'' (wh_URL webhook) []") (simp_all add: WebhookService_deliver_def Let_def)
  note un = assms(1) [unfolded WebhookService_deliver_def Let_def, simplified req, simplified]
  obtain q where q: "http_Do net (webhook_request req webhook ev [] (webhook_body (time_Format_RFC3339 zone n2) ev payload)) = q" by simp
  show ?thesis
  proof (cases q)
    case (Inl e)
    then show ?thesis using un q assms(2) by (auto simp: WebhookService_scheduleRetry_def)
  next
    case (Inr resp)
    show ?thesis
    proof (cases "200 \<le> hrs_StatusCode resp \<and> hrs_StatusCode resp < 300")
      case True
      then show ?thesis using un q Inr by auto
    next
      case False
      then show ?thesis using un q Inr assms(2) by (auto simp: WebhookService_scheduleRetry_def)
    qed
  qed
qed

text \<open>A receiver that is down.\<close>

definition down_net :: http_lib where
  "down_net = \<lparr>
     http_NewRequest = (\<lambda>meth url body. Inr \<lparr>hrq_Method = meth, hrq_URL = url, hrq_Header = [], hrq_Body = body, hrq_PostForm = []\<rparr>),
     http_Do = (\<lambda>r. Inl (LibErr ''connection refused'')),
     json_Decode = (\<lambda>b. Inl (LibErr ''EOF'')),
     oidc_Verify = (\<lambda>iss client tok. Inl (LibErr ''oidc''))\<rparr>"

definition demo_webhook :: Webhook where
  "demo_webhook = \<lparr>wh_ID = ''w1'', wh_TenantID = ''t1'', wh_Name = ''hook'', wh_URL = ''http://h'', wh_Secret = ''k'',
     wh_Events = [''user.created''], wh_Enabled = True, wh_RetryPolicy = Some default_retry_policy, wh_CreatedAt = 0, wh_UpdatedAt = 0\<rparr>"

theorem delivery_never_backs_off_witness:
  "\<exists>d. WebhookService_deliver down_net (\<lambda>t. 0) (1, 2, 3, 4) demo_webhook ''user.created'' None = Returns (Some d) \<and>
     wd_Error d = ''connection refused'' \<and> wd_NextRetry d = Some (4 + time_Minute)"
proof -
  obtain d where d: "WebhookService_deliver down_net (\<lambda>t. 0) (1, 2, 3, 4) demo_webhook ''user.created'' None = Returns (Some d)"
      "wd_Error d = ''connection refused''" "wd_StatusCode d = 0"
    by (simp add: WebhookService_deliver_def down_net_def demo_webhook_def WebhookService_scheduleRetry_def default_retry_policy_def net_error_def)
  have "wh_RetryPolicy demo_webhook = Some default_retry_policy" by (simp add: demo_webhook_def)
  then show ?thesis using delivery_never_backs_off [OF d(1)] d by (simp add: default_retry_policy_def)
qed

end
