(* ===== verification/Scim.thy ===== *)
theory Scim
  imports AccessServices RepoIdentity
begin

text \<open>
  service/scim.go: provisioning of users over the identity repositories. Groups and listings are the
  placeholders the code has. The service is not reached from main.go.
\<close>

section \<open>Data\<close>

record SCIMName =
  scn_Formatted :: string
  scn_FamilyName :: string
  scn_GivenName :: string
  scn_MiddleName :: string
  scn_HonorificPrefix :: string
  scn_HonorificSuffix :: string

record SCIMEmail =
  sce_Value :: string
  sce_Type :: string
  sce_Primary :: bool

record SCIMPhoneNumber =
  sph_Value :: string
  sph_Type :: string
  sph_Primary :: bool

record SCIMAddress =
  sca_Formatted :: string
  sca_StreetAddress :: string
  sca_Locality :: string
  sca_Region :: string
  sca_PostalCode :: string
  sca_Country :: string
  sca_Type :: string
  sca_Primary :: bool

record SCIMGroupRef =
  sgr_Value :: string
  sgr_Ref :: string
  sgr_Display :: string
  sgr_Type :: string

record SCIMMeta =
  scm_ResourceType :: string
  scm_Created :: time
  scm_LastModified :: time
  scm_Location :: string
  scm_Version :: string

record SCIMUser =
  scu_ID :: string
  scu_TenantID :: string
  scu_ExternalID :: string
  scu_UserName :: string
  scu_Name :: SCIMName
  scu_Emails :: "SCIMEmail list"
  scu_PhoneNumbers :: "SCIMPhoneNumber list"
  scu_Addresses :: "SCIMAddress list"
  scu_Groups :: "SCIMGroupRef list"
  scu_Active :: bool
  scu_Created :: time
  scu_Updated :: time
  scu_Meta :: SCIMMeta

record SCIMGroupMember =
  sgm_Value :: string
  sgm_Ref :: string
  sgm_Display :: string
  sgm_Type :: string

record SCIMGroup =
  scg_ID :: string
  scg_TenantID :: string
  scg_ExternalID :: string
  scg_DisplayName :: string
  scg_Members :: "SCIMGroupMember list"
  scg_Meta :: SCIMMeta

record SCIMUserFilter =
  suf_Filter :: string
  suf_StartIndex :: int
  suf_Count :: int
  suf_Attributes :: string
  suf_ExcludedAttributes :: string

section \<open>Service\<close>

record 'w SCIMService =
  sc_users :: "'w UserRepository"
  sc_memberships :: "'w MembershipRepository"
  sc_teams :: "'w TeamRepository"
  sc_teamMemberships :: "'w TeamMembershipRepository"

definition NewSCIMService :: "'w UserRepository \<Rightarrow> 'w MembershipRepository \<Rightarrow> 'w TeamRepository \<Rightarrow> 'w TeamMembershipRepository \<Rightarrow>
    'w SCIMService" where
  "NewSCIMService users memberships teams teamMemberships = \<lparr>sc_users = users, sc_memberships = memberships,
     sc_teams = teams, sc_teamMemberships = teamMemberships\<rparr>"

text \<open>\<open>strings.SplitN(email, @, 2)\<close>: the part before the first at sign and the part after it, if there is one.\<close>

definition at_parts :: "string \<Rightarrow> string \<times> string" where
  "at_parts email = (takeWhile (\<lambda>c. c \<noteq> CHR ''@'') email, drop 1 (dropWhile (\<lambda>c. c \<noteq> CHR ''@'') email))"

definition SCIMService_toSCIMUser :: "User \<Rightarrow> string \<Rightarrow> SCIMUser" where
  "SCIMService_toSCIMUser user tenantID = \<lparr>
     scu_ID = user_ID user, scu_TenantID = tenantID, scu_ExternalID = [], scu_UserName = user_Email user,
     scu_Name = \<lparr>scn_Formatted = user_Email user, scn_FamilyName = snd (at_parts (user_Email user)),
       scn_GivenName = fst (at_parts (user_Email user)), scn_MiddleName = [], scn_HonorificPrefix = [],
       scn_HonorificSuffix = []\<rparr>,
     scu_Emails = [\<lparr>sce_Value = user_Email user, sce_Type = ''work'', sce_Primary = True\<rparr>],
     scu_PhoneNumbers = [], scu_Addresses = [], scu_Groups = [], scu_Active = True,
     scu_Created = user_CreatedAt user, scu_Updated = user_UpdatedAt user,
     scu_Meta = \<lparr>scm_ResourceType = ''User'', scm_Created = user_CreatedAt user,
       scm_LastModified = user_UpdatedAt user, scm_Location = ''/scim/v2/Users/'' @ user_ID user, scm_Version = []\<rparr>\<rparr>"

text \<open>What the answer takes over from the request.\<close>

definition scim_fields :: "SCIMUser \<Rightarrow> SCIMUser \<Rightarrow> SCIMUser" where
  "scim_fields user scimUser = scimUser\<lparr>
     scu_ExternalID := scu_ExternalID user, scu_Name := scu_Name user, scu_Emails := scu_Emails user,
     scu_PhoneNumbers := scu_PhoneNumbers user, scu_Addresses := scu_Addresses user,
     scu_Groups := scu_Groups user, scu_Active := scu_Active user\<rparr>"

definition SCIMService_CreateUser :: "'w SCIMService \<Rightarrow> time \<times> time \<Rightarrow> string \<Rightarrow> SCIMUser \<Rightarrow> 'w \<Rightarrow> (err + SCIMUser) \<times> 'w" where
  "SCIMService_CreateUser s clock tenantID user w =
     (case UserRepository_FindByEmail (sc_users s) (scu_UserName user) w of
        Inr u \<Rightarrow> (Inl (SvcOpsErr service_ErrSCIMResourceConflict), w)
      | Inl e \<Rightarrow>
          (if e \<noteq> IdErr ErrUserNotFound then (Inl e, w)
           else case UserRepository_Create (sc_users s) \<lparr>user_ID = [], user_Email = scu_UserName user,
                       user_PasswordHash = [], user_CreatedAt = zero_time, user_UpdatedAt = zero_time\<rparr> w of
                  (Inl e', w1) \<Rightarrow> (Inl e', w1)
                | (Inr domainUser, w1) \<Rightarrow>
                    (case MembershipRepository_Create (sc_memberships s) \<lparr>mem_UserID = user_ID domainUser,
                            mem_TenantID = tenantID, mem_Roles = [''member''], mem_CreatedAt = zero_time,
                            mem_UpdatedAt = zero_time\<rparr> w1 of
                       (Inl e', w2) \<Rightarrow> (Inl e', w2)
                     | (Inr m, w2) \<Rightarrow>
                         (Inr ((scim_fields user (SCIMService_toSCIMUser domainUser tenantID))\<lparr>scu_Meta :=
                            \<lparr>scm_ResourceType = ''User'', scm_Created = fst clock, scm_LastModified = snd clock,
                             scm_Location = ''/scim/v2/Users/'' @ user_ID domainUser, scm_Version = []\<rparr>\<rparr>), w2))))"

definition SCIMService_GetUser :: "'w SCIMService \<Rightarrow> string \<Rightarrow> string \<Rightarrow> 'w \<Rightarrow> err + SCIMUser" where
  "SCIMService_GetUser s tenantID uid w =
     (case UserRepository_FindByID (sc_users s) uid w of
        Inl e \<Rightarrow> Inl (if e = IdErr ErrUserNotFound then SvcOpsErr service_ErrSCIMUserNotFound else e)
      | Inr user \<Rightarrow>
          (case MembershipRepository_FindByUserAndTenant (sc_memberships s) uid tenantID w of
             Inl e \<Rightarrow> Inl (SvcOpsErr service_ErrSCIMUserNotFound)
           | Inr m \<Rightarrow> Inr (SCIMService_toSCIMUser user tenantID)))"

definition SCIMService_ListUsers :: "string \<Rightarrow> SCIMUserFilter \<Rightarrow> err + SCIMUser list \<times> int" where
  "SCIMService_ListUsers tenantID f = Inr ([], 0)"

text \<open>Nothing is written.\<close>

definition SCIMService_UpdateUser :: "'w SCIMService \<Rightarrow> time \<Rightarrow> string \<Rightarrow> string \<Rightarrow> SCIMUser \<Rightarrow> 'w \<Rightarrow> err + SCIMUser" where
  "SCIMService_UpdateUser s now tenantID uid user w =
     (case UserRepository_FindByID (sc_users s) uid w of
        Inl e \<Rightarrow> Inl (SvcOpsErr service_ErrSCIMUserNotFound)
      | Inr domainUser \<Rightarrow>
          (case MembershipRepository_FindByUserAndTenant (sc_memberships s) uid tenantID w of
             Inl e \<Rightarrow> Inl (SvcOpsErr service_ErrSCIMUserNotFound)
           | Inr m \<Rightarrow>
               (let scimUser = scim_fields user (SCIMService_toSCIMUser domainUser tenantID)
                in Inr (scimUser\<lparr>scu_Meta := (scu_Meta scimUser)\<lparr>scm_LastModified := now\<rparr>\<rparr>))))"

definition SCIMService_DeleteUser :: "'w SCIMService \<Rightarrow> string \<Rightarrow> string \<Rightarrow> 'w \<Rightarrow> (err + unit) \<times> 'w" where
  "SCIMService_DeleteUser s tenantID uid w =
     (case UserRepository_FindByID (sc_users s) uid w of
        Inl e \<Rightarrow> (Inl (if e = IdErr ErrUserNotFound then SvcOpsErr service_ErrSCIMUserNotFound else e), w)
      | Inr user \<Rightarrow>
          (case MembershipRepository_FindByUserAndTenant (sc_memberships s) uid tenantID w of
             Inl e \<Rightarrow> (Inl (SvcOpsErr service_ErrSCIMUserNotFound), w)
           | Inr m \<Rightarrow> MembershipRepository_Delete (sc_memberships s) uid tenantID w))"

definition SCIMService_CreateGroup :: "string \<Rightarrow> SCIMGroup \<Rightarrow> err + SCIMGroup" where
  "SCIMService_CreateGroup tenantID g = Inl (FmtErr ''not implemented'')"

definition SCIMService_GetGroup :: "string \<Rightarrow> string \<Rightarrow> err + SCIMGroup" where
  "SCIMService_GetGroup tenantID uid = Inl (SvcOpsErr service_ErrSCIMGroupNotFound)"

definition SCIMService_ListGroups :: "string \<Rightarrow> err + SCIMGroup list" where
  "SCIMService_ListGroups tenantID = Inr []"

definition SCIMService_UpdateGroup :: "string \<Rightarrow> string \<Rightarrow> SCIMGroup \<Rightarrow> err + SCIMGroup" where
  "SCIMService_UpdateGroup tenantID uid g = Inl (SvcOpsErr service_ErrSCIMGroupNotFound)"

definition SCIMService_DeleteGroup :: "string \<Rightarrow> string \<Rightarrow> err + unit" where
  "SCIMService_DeleteGroup tenantID uid = Inl (SvcOpsErr service_ErrSCIMGroupNotFound)"

end
