(* ===== verification/ScimProps.thy ===== *)
theory ScimProps
  imports Scim IdentityProps
begin

text \<open>
  The life of a provisioned user: created, read back, removed from the tenant. The service is built over
  the database as its constructor expects.
\<close>

definition scim_service :: "gorms \<Rightarrow> db SCIMService" where
  "scim_service G = NewSCIMService (NewUserRepository G) (NewMembershipRepository G) (NewTeamRepository G)
     (NewTeamMembershipRepository G)"

lemma scim_service_simps [simp]:
  "sc_users (scim_service G) = NewUserRepository G"
  "sc_memberships (scim_service G) = NewMembershipRepository G"
  by (simp_all add: scim_service_def NewSCIMService_def)

section \<open>Provisioning\<close>

lemma CreateUser_ok:
  assumes "SCIMService_CreateUser (scim_service G) clock t user d = (Inr r, d')"
  obtains u m d1 where
    "userRepository_Create G \<lparr>user_ID = [], user_Email = scu_UserName user, user_PasswordHash = [],
       user_CreatedAt = zero_time, user_UpdatedAt = zero_time\<rparr> d = (Inr u, d1)"
    and "membershipRepository_Create G \<lparr>mem_UserID = user_ID u, mem_TenantID = t, mem_Roles = [''member''],
       mem_CreatedAt = zero_time, mem_UpdatedAt = zero_time\<rparr> d1 = (Inr m, d')"
    and "scu_ID r = user_ID u"
  using assms
  by (auto simp: SCIMService_CreateUser_def scim_fields_def SCIMService_toSCIMUser_def split: sum.splits prod.splits if_splits)

context reliable_database
begin

lemma FindByID_created:
  assumes "userRepository_Create G u d = (Inr u', d1)" and "t_users d2 = t_users d1"
  shows "userRepository_FindByID G (user_ID u') d2 = Inr u'"
proof -
  obtain m where c: "g_Create (gorm_users G) (toUserModel u) (t_users d) = (Inr m, t_users d1)"
    and u': "u' = u\<lparr>user_ID := um_ID m, user_CreatedAt := um_CreatedAt m, user_UpdatedAt := um_UpdatedAt m\<rparr>"
    using assms(1) by (auto simp: userRepository_Create_def split: prod.splits sum.splits)
  note row = user.Create_row [OF c]
  show ?thesis
  proof (cases "g_First (gorm_users G) (\<lambda>x. um_ID x = um_ID m) (t_users d1)")
    case (Inl e)
    then have "e = gorm_ErrRecordNotFound" by (rule user_First_total)
    then show ?thesis using user.First_miss [of "\<lambda>x. um_ID x = um_ID m" "t_users d1" m] Inl row by simp
  next
    case (Inr x)
    then have "x = m" using user.First_hit [OF Inr] row by (auto simp: clash_user_def)
    then show ?thesis using Inr assms(2) row
      by (simp add: userRepository_FindByID_def u' fromUserModel_def same_user_def toUserModel_def)
  qed
qed

lemma member_of_created:
  assumes "membershipRepository_Create G m d = (Inr m', d')"
  shows "\<exists>x. membershipRepository_FindByUserAndTenant G (mem_UserID m) (mem_TenantID m) d' = Inr x"
  using member.find_created_hit [OF assms] membership_First_total
  by (auto simp: membershipRepository_FindByUserAndTenant_def split: sum.splits if_splits)

end

text \<open>Provisioning reads back what it stores. A created user is found under the returned ID in that tenant, active and
  with the requested user name as its only address; the external ID, the names and the groups of
  the request are gone.\<close>

theorem scim_create_get:
  assumes "reliable_database G" and "SCIMService_CreateUser (scim_service G) clock t user d = (Inr r, d')"
  shows "\<exists>g. SCIMService_GetUser (scim_service G) t (scu_ID r) d' = Inr g \<and> scu_ID g = scu_ID r \<and> scu_TenantID g = t \<and>
    scu_UserName g = scu_UserName user \<and> scu_Active g \<and>
    scu_Emails g = [\<lparr>sce_Value = scu_UserName user, sce_Type = ''work'', sce_Primary = True\<rparr>] \<and>
    scu_ExternalID g = [] \<and> scu_Groups g = [] \<and> scn_GivenName (scu_Name g) = fst (at_parts (scu_UserName user))"
proof -
  obtain u m d1 where c: "userRepository_Create G \<lparr>user_ID = [], user_Email = scu_UserName user, user_PasswordHash = [],
       user_CreatedAt = zero_time, user_UpdatedAt = zero_time\<rparr> d = (Inr u, d1)"
    and m: "membershipRepository_Create G \<lparr>mem_UserID = user_ID u, mem_TenantID = t, mem_Roles = [''member''],
       mem_CreatedAt = zero_time, mem_UpdatedAt = zero_time\<rparr> d1 = (Inr m, d')" and r: "scu_ID r = user_ID u"
    using CreateUser_ok [OF assms(2)] by metis
  have "userRepository_FindByID G (user_ID u) d' = Inr u"
    using reliable_database.FindByID_created [OF assms(1) c] Create_frames(2) [OF m] by blast
  moreover obtain x where "membershipRepository_FindByUserAndTenant G (user_ID u) t d' = Inr x"
    using reliable_database.member_of_created [OF assms(1) m] by auto
  moreover have "user_Email u = scu_UserName user"
    using c by (auto simp: userRepository_Create_def split: prod.splits sum.splits)
  ultimately show ?thesis using r by (simp add: SCIMService_GetUser_def SCIMService_toSCIMUser_def)
qed

section \<open>Deprovisioning\<close>

lemma membership_Delete_users: "membershipRepository_Delete G u t d = (r, d') \<Longrightarrow> t_users d' = t_users d"
  by (auto simp: membershipRepository_Delete_def split: prod.splits sum.splits if_splits)

context database
begin

lemmas member_deleted = member.find_deleted
lemmas member_delete_rows = member.delete_ok

end

text \<open>C36: Deprovisioning closes the tenant and only the tenant. After \<open>DeleteUser\<close> the user is not found there, cannot
  log in or switch to it; the account and every other membership stay.\<close>

theorem scim_delete_closes_tenant:
  assumes "database G" and "SCIMService_DeleteUser (scim_service G) t uid d = (Inr (), d')"
  shows "(\<exists>e. SCIMService_GetUser (scim_service G) t uid d' = Inl e) \<and>
    AuthService_SwitchTenant (main_auth G lib tokens) clock uid t d' \<noteq> Inr res \<and>
    (t \<noteq> [] \<longrightarrow> AuthService_Login (main_auth G lib tokens) clock email pw t d' = Inr res \<longrightarrow> user_ID (ar_User res) \<noteq> uid) \<and>
    db_users d' = db_users d \<and>
    db_memberships d' = {m \<in> db_memberships d. \<not> (mem_UserID m = uid \<and> mem_TenantID m = t)}"
proof -
  have del: "membershipRepository_Delete G uid t d = (Inr (), d')"
    using assms(2) by (auto simp: SCIMService_DeleteUser_def NewMembershipRepository_def split: sum.splits)
  note none = database.rolesForTenant_left [OF assms(1) del, of lib tokens]
  have "\<exists>e. SCIMService_GetUser (scim_service G) t uid d' = Inl e"
    using database.member_deleted [OF assms(1) del] by (auto simp: SCIMService_GetUser_def split: sum.split)
  moreover have "AuthService_SwitchTenant (main_auth G lib tokens) clock uid t d' \<noteq> Inr res"
    using none by (auto simp: AuthService_SwitchTenant_def split: sum.splits)
  moreover have "t \<noteq> [] \<longrightarrow> AuthService_Login (main_auth G lib tokens) clock email pw t d' = Inr res \<longrightarrow> user_ID (ar_User res) \<noteq> uid"
  proof (intro impI)
    assume t: "t \<noteq> []" and l: "AuthService_Login (main_auth G lib tokens) clock email pw t d' = Inr res"
    from Login_ok [OF l] t obtain v where v: "AuthService_issueTokens (main_auth G lib tokens) clock v t (ar_Roles res) = Inr res"
      "AuthService_rolesForTenant (main_auth G lib tokens) (user_ID v) t d' = Inr (ar_Roles res)" by metis
    show "user_ID (ar_User res) \<noteq> uid" using v(2) none issueTokens_ok [OF v(1)] by auto
  qed
  moreover have "db_users d' = db_users d" using membership_Delete_users [OF del] by (simp add: db_users_def)
  ultimately show ?thesis using database.member_delete_rows [OF assms(1) del] by blast
qed

theorem scim_delete_closes_tenant_witness:
  "\<exists>d'. SCIMService_DeleteUser (scim_service mem_gorms) ''t1'' ''u1'' demo_db = (Inr (), d') \<and>
     (\<forall>res. AuthService_SwitchTenant demo_auth (5, 6) ''u1'' ''t1'' d' \<noteq> Inr res)"
proof -
  obtain d' where d': "SCIMService_DeleteUser (scim_service mem_gorms) ''t1'' ''u1'' demo_db = (Inr (), d')"
    by (simp add: SCIMService_DeleteUser_def NewMembershipRepository_def membershipRepository_Delete_def
        membershipRepository_FindByUserAndTenant_def userRepository_FindByID_def demo_db_def eval_mapper)
  show ?thesis using scim_delete_closes_tenant [OF mem_database d', of plain_bcrypt demo_tokens "(5, 6)"] d'
    by (auto simp: demo_auth_def)
qed

text \<open>A provisioning request for bob with an external ID.\<close>

definition scim_bob :: SCIMUser where
  "scim_bob = (SCIMService_toSCIMUser \<lparr>user_ID = [], user_Email = ''bob'', user_PasswordHash = [], user_CreatedAt = 0,
     user_UpdatedAt = 0\<rparr> [])\<lparr>scu_ExternalID := ''x''\<rparr>"

lemma demo_provision:
  "\<exists>r d'. SCIMService_CreateUser (scim_service mem_gorms) (5, 6) ''t1'' scim_bob demo_db = (Inr r, d')"
proof -
  let ?user = "\<lparr>user_ID = ''row-1'', user_Email = ''bob'', user_PasswordHash = [], user_CreatedAt = zero_time, user_UpdatedAt = zero_time\<rparr>"
  let ?row = "\<lparr>um_ID = ''row-1'', um_Email = ''bob'', um_PasswordHash = [], um_CreatedAt = zero_time, um_UpdatedAt = zero_time\<rparr>"
  let ?d1 = "demo_db\<lparr>t_users := t_users demo_db @ [?row]\<rparr>"
  have n: "scu_UserName scim_bob = ''bob''" by (simp add: scim_bob_def SCIMService_toSCIMUser_def)
  have f: "userRepository_FindByEmail mem_gorms ''bob'' demo_db = Inl (IdErr ErrUserNotFound)"
    by (simp add: userRepository_FindByEmail_def demo_db_def eval_mapper)
  have c: "userRepository_Create mem_gorms \<lparr>user_ID = [], user_Email = ''bob'', user_PasswordHash = [],
      user_CreatedAt = zero_time, user_UpdatedAt = zero_time\<rparr> demo_db = (Inr ?user, ?d1)"
    by (simp add: demo_db_def userRepository_Create_def eval_mapper conv_simps row_user_defs Let_def fresh_id_def
        show_nat.simps char_of_def bit_simps)
  have m: "\<exists>m d'. membershipRepository_Create mem_gorms \<lparr>mem_UserID = ''row-1'', mem_TenantID = ''t1'',
      mem_Roles = [''member''], mem_CreatedAt = zero_time, mem_UpdatedAt = zero_time\<rparr> ?d1 = (Inr m, d')"
    by (simp add: demo_db_def membershipRepository_Create_def eval_mapper conv_simps row_membership_defs Let_def)
  show ?thesis using c m by (fastforce simp: SCIMService_CreateUser_def n f)
qed

theorem scim_create_get_witness:
  "\<exists>r d' g. SCIMService_CreateUser (scim_service mem_gorms) (5, 6) ''t1'' scim_bob demo_db = (Inr r, d') \<and>
     SCIMService_GetUser (scim_service mem_gorms) ''t1'' (scu_ID r) d' = Inr g \<and>
     scu_UserName g = scu_UserName scim_bob \<and> scu_ExternalID scim_bob = ''x'' \<and> scu_ExternalID g = []"
proof -
  obtain r d' where r: "SCIMService_CreateUser (scim_service mem_gorms) (5, 6) ''t1'' scim_bob demo_db = (Inr r, d')"
    using demo_provision by blast
  have "scu_ExternalID scim_bob = ''x''" by (simp add: scim_bob_def)
  then show ?thesis using scim_create_get [OF mem_reliable r] r by fastforce
qed

end
