(* ===== verification/Soc2.thy ===== *)
theory Soc2
  imports AccessServices RepoIdentity RepoAudit Clock Float64
begin

text \<open>
  service/soc2.go: the access review of a tenant. The list of the tenant's users is a placeholder of the
  code that is always empty; the entry and the stale grants of a user are computed as written. The
  service is not reached from main.go.
\<close>

section \<open>Calendar\<close>

text \<open>
  \<open>Time.AddDate\<close>: the date and the time of day in the local zone, normalised as \<open>time.Date\<close> does, and
  back to UTC with the offset that holds at the result.
\<close>

definition time_AddDate :: "(time \<Rightarrow> int) \<Rightarrow> time \<Rightarrow> int \<Rightarrow> int \<Rightarrow> int \<Rightarrow> time" where
  "time_AddDate zone t years months days =
     (let s = t div time_Second + zone t
      in case civil_date (s div 86400) of (y, m, d) \<Rightarrow>
           (let m0 = m - 1 + months;
                unix = civil_day (y + years + m0 div 12) (m0 mod 12 + 1) (d + days) * 86400 + s mod 86400;
                guess = unix - zone (unix * time_Second)
            in (unix - zone (guess * time_Second)) * time_Second + t mod time_Second))"

text \<open>\<open>int(d.Hours() / 24)\<close> for a duration that is not negative.\<close>

definition duration_days :: "duration \<Rightarrow> int" where
  "duration_days d =
     f64_to_int64 (f64_div (f64_add (f64_of_int (d div time_Hour))
       (f64_div (f64_of_int (d mod time_Hour)) (f64_of_int time_Hour))) (f64_of_int 24))"

section \<open>Reports\<close>

record ReviewSummary =
  rs_TotalUsers :: int
  rs_TotalRoles :: int
  rs_TotalPermissions :: int
  rs_StaleGrants :: int
  rs_UsersWithNoAccess :: int
  rs_AdminsCount :: int

text \<open>\<open>TeamRoles\<close> is a map; the list gives the order in which this run visits it.\<close>

record UserAccessEntry =
  ua_UserID :: string
  ua_UserEmail :: string
  ua_TenantID :: string
  ua_Roles :: "string list"
  ua_TeamRoles :: "(string \<times> string list) list"
  ua_DirectACLs :: int
  ua_EffectivePermissions :: "string list"
  ua_LastLogin :: "time option"
  ua_IsAdmin :: bool

record StaleGrantEntry =
  sg_UserID :: string
  sg_UserEmail :: string
  sg_GrantType :: string
  sg_GrantDetails :: string
  sg_LastUsed :: "time option"
  sg_DaysSinceUse :: int
  sg_Recommendation :: string

record PolicyChangeEntry =
  pce_PolicyID :: string
  pce_PolicyName :: string
  pce_ChangedBy :: string
  pce_ChangedAt :: time
  pce_ChangeType :: string
  pce_BeforeState :: any_map
  pce_AfterState :: any_map

record AccessReviewReport =
  arr_GeneratedAt :: time
  arr_GeneratedBy :: string
  arr_TenantID :: string
  arr_Summary :: ReviewSummary
  arr_UserAccess :: "UserAccessEntry list"
  arr_StaleGrants :: "StaleGrantEntry list"
  arr_PolicyChanges :: "PolicyChangeEntry list"

record AccessReviewFilter =
  arf_TenantID :: string
  arf_StartDate :: time
  arf_EndDate :: time
  arf_IncludeStale :: bool
  arf_StaleThreshold :: int
  arf_UserIDs :: "string list"
  arf_RoleNames :: "string list"

section \<open>Service\<close>

record 'w SOC2Service =
  s2_users :: "'w UserRepository"
  s2_memberships :: "'w MembershipRepository"
  s2_teamMemberships :: "'w TeamMembershipRepository"
  s2_teams :: "'w TeamRepository"
  s2_acl :: "'w ACLRepository"
  s2_rolePerms :: "'w RolePermissionRepository"
  s2_auditLogs :: "'w AuditLogRepository"

definition NewSOC2Service :: "'w UserRepository \<Rightarrow> 'w MembershipRepository \<Rightarrow> 'w TeamMembershipRepository \<Rightarrow> 'w TeamRepository \<Rightarrow>
    'w ACLRepository \<Rightarrow> 'w RolePermissionRepository \<Rightarrow> 'w AuditLogRepository \<Rightarrow> 'w SOC2Service" where
  "NewSOC2Service users memberships teamMemberships teams acl rolePerms auditLogs = \<lparr>s2_users = users,
     s2_memberships = memberships, s2_teamMemberships = teamMemberships, s2_teams = teams, s2_acl = acl,
     s2_rolePerms = rolePerms, s2_auditLogs = auditLogs\<rparr>"

text \<open>The permissions the role table of the tenant gives to a list of roles; an error gives none.\<close>

definition role_grants :: "'w SOC2Service \<Rightarrow> string \<Rightarrow> 'w \<Rightarrow> string list \<Rightarrow> string list" where
  "role_grants s tenantID w roles =
     concat (map (\<lambda>role. case RolePermissionService_ListByRole (s2_rolePerms s) tenantID role w of
                           Inl e \<Rightarrow> [] | Inr rps \<Rightarrow> map rp_Permission rps) roles)"

definition team_grants :: "'w SOC2Service \<Rightarrow> string \<Rightarrow> 'w \<Rightarrow> TeamMembership list \<Rightarrow> string list" where
  "team_grants s tenantID w tms =
     concat (map (\<lambda>tm. case TeamRepository_FindByID (s2_teams s) (tm_TeamID tm) w of
                         Inl e \<Rightarrow> []
                       | Inr team \<Rightarrow> (if team_TenantID team = tenantID then role_grants s tenantID w (tm_Roles tm) else [])) tms)"

text \<open>The loop over the permissions, with the set of those seen and the list built so far.\<close>

fun dedup_loop :: "string list \<Rightarrow> string list \<Rightarrow> string list \<Rightarrow> string list" where
  "dedup_loop [] seen unique = unique"
| "dedup_loop (p # ps) seen unique =
     (if p \<in> set seen then dedup_loop ps seen unique else dedup_loop ps (p # seen) (unique @ [p]))"

definition SOC2Service_getEffectivePermissions :: "'w SOC2Service \<Rightarrow> string \<Rightarrow> string \<Rightarrow> 'w \<Rightarrow> string list" where
  "SOC2Service_getEffectivePermissions s tenantID userID w =
     dedup_loop
       ((case MembershipRepository_FindByUserAndTenant (s2_memberships s) userID tenantID w of
           Inl e \<Rightarrow> [] | Inr membership \<Rightarrow> role_grants s tenantID w (mem_Roles membership)) @
        (case TeamMembershipRepository_ListByUser (s2_teamMemberships s) userID w of
           Inl e \<Rightarrow> [] | Inr tms \<Rightarrow> team_grants s tenantID w tms) @
        (case ACLService_ListBySubject (s2_acl s) tenantID ''user'' userID w of
           Inl e \<Rightarrow> [] | Inr acls \<Rightarrow> map acl_Permission (filter (\<lambda>a. acl_Effect a = ''allow'') acls)))
       [] []"

definition team_roles_put :: "string \<Rightarrow> string list \<Rightarrow> (string \<times> string list) list \<Rightarrow> (string \<times> string list) list" where
  "team_roles_put k v es =
     (if k \<in> set (map fst es) then map (\<lambda>e. if fst e = k then (k, v) else e) es else es @ [(k, v)])"

fun entry_team_loop :: "'w SOC2Service \<Rightarrow> string \<Rightarrow> 'w \<Rightarrow> TeamMembership list \<Rightarrow> (string \<times> string list) list \<Rightarrow> (string \<times> string list) list" where
  "entry_team_loop s tenantID w [] es = es"
| "entry_team_loop s tenantID w (tm # tms) es =
     entry_team_loop s tenantID w tms
       (case TeamRepository_FindByID (s2_teams s) (tm_TeamID tm) w of
          Inl e \<Rightarrow> es
        | Inr team \<Rightarrow> (if team_TenantID team = tenantID then team_roles_put (team_Name team) (tm_Roles tm) es else es))"

text \<open>A user who is not a member has no roles; the entry is built all the same.\<close>

definition entry_roles :: "'w SOC2Service \<Rightarrow> string \<Rightarrow> string \<Rightarrow> 'w \<Rightarrow> err + string list" where
  "entry_roles s tenantID userID w =
     (case MembershipRepository_FindByUserAndTenant (s2_memberships s) userID tenantID w of
        Inl e \<Rightarrow> (if e \<noteq> IdErr ErrMembershipNotFound then Inl e else Inr [])
      | Inr m \<Rightarrow> Inr (mem_Roles m))"

definition SOC2Service_buildUserAccessEntry :: "'w SOC2Service \<Rightarrow> string \<Rightarrow> User \<Rightarrow> 'w \<Rightarrow> err + UserAccessEntry" where
  "SOC2Service_buildUserAccessEntry s tenantID user w =
     (case entry_roles s tenantID (user_ID user) w of
        Inl e \<Rightarrow> Inl e
      | Inr roles \<Rightarrow>
     (case TeamMembershipRepository_ListByUser (s2_teamMemberships s) (user_ID user) w of
        Inl e \<Rightarrow> Inl e
      | Inr tms \<Rightarrow>
     (case ACLService_ListBySubject (s2_acl s) tenantID ''user'' (user_ID user) w of
        Inl e \<Rightarrow> Inl e
      | Inr acls \<Rightarrow> Inr \<lparr>
          ua_UserID = user_ID user, ua_UserEmail = user_Email user, ua_TenantID = tenantID, ua_Roles = roles,
          ua_TeamRoles = entry_team_loop s tenantID w tms [], ua_DirectACLs = int (length acls),
          ua_EffectivePermissions = SOC2Service_getEffectivePermissions s tenantID (user_ID user) w,
          ua_LastLogin = None, ua_IsAdmin = ''admin'' \<in> set roles\<rparr>)))"

text \<open>
  The grants \<open>checkStaleGrants\<close> looks at, in order: type, months since the last use it assumes, details,
  recommendation. For each of them the clock is read twice, \<open>clock k\<close> for the k-th.
\<close>

definition stale_candidates :: "UserAccessEntry \<Rightarrow> (string \<times> int \<times> string \<times> string) list" where
  "stale_candidates entry =
     map (\<lambda>role. (''role'', 2, role, ''Review if role still needed''))
       (filter (\<lambda>role. \<not> (ua_IsAdmin entry \<and> role = ''admin'')) (ua_Roles entry)) @
     concat (map (\<lambda>(teamName, roles). map (\<lambda>role. (''team_role'', 1, teamName @ '':'' @ role, ''Review team membership'')) roles)
       (ua_TeamRoles entry)) @
     replicate (nat (ua_DirectACLs entry)) (''acl'', 3, ''Direct ACL grant'', ''Review if ACL still needed'')"

definition stale_grant :: "(time \<Rightarrow> int) \<Rightarrow> time \<Rightarrow> UserAccessEntry \<Rightarrow> time \<times> time \<Rightarrow> string \<times> int \<times> string \<times> string \<Rightarrow> StaleGrantEntry list" where
  "stale_grant zone threshold entry clock g =
     (case g of (grantType, months, details, recommendation) \<Rightarrow>
       (let lastUsed = time_AddDate zone (fst clock) 0 (- months) 0
        in if time_Before lastUsed threshold
           then [\<lparr>sg_UserID = ua_UserID entry, sg_UserEmail = ua_UserEmail entry, sg_GrantType = grantType,
                  sg_GrantDetails = details, sg_LastUsed = Some lastUsed,
                  sg_DaysSinceUse = duration_days (snd clock - lastUsed), sg_Recommendation = recommendation\<rparr>]
           else []))"

definition SOC2Service_checkStaleGrants :: "(time \<Rightarrow> int) \<Rightarrow> time \<Rightarrow> (nat \<Rightarrow> time \<times> time) \<Rightarrow> AccessReviewFilter \<Rightarrow> UserAccessEntry \<Rightarrow> StaleGrantEntry list" where
  "SOC2Service_checkStaleGrants zone now clock f entry =
     (let threshold = time_AddDate zone now 0 0 (- arf_StaleThreshold f)
      in concat (map (\<lambda>(k, g). stale_grant zone threshold entry (clock k) g) (enumerate 0 (stale_candidates entry))))"

definition SOC2Service_getPolicyChanges :: "AccessReviewFilter \<Rightarrow> err + PolicyChangeEntry list" where
  "SOC2Service_getPolicyChanges f = Inr []"

definition SOC2Service_getUsersInTenant :: "string \<Rightarrow> err + User list" where
  "SOC2Service_getUsersInTenant tenantID = Inr []"

fun review_loop :: "(time \<Rightarrow> int) \<Rightarrow> 'w SOC2Service \<Rightarrow> (nat \<Rightarrow> time \<times> (nat \<Rightarrow> time \<times> time)) \<Rightarrow> AccessReviewFilter \<Rightarrow> 'w \<Rightarrow> User list \<Rightarrow>
    AccessReviewReport \<Rightarrow> err + AccessReviewReport" where
  "review_loop zone s clock f w [] report = Inr report"
| "review_loop zone s clock f w (user # users) report =
     (case SOC2Service_buildUserAccessEntry s (arf_TenantID f) user w of
        Inl e \<Rightarrow> Inl e
      | Inr entry \<Rightarrow>
          (let k = length (arr_UserAccess report);
               stale = SOC2Service_checkStaleGrants zone (fst (clock k)) (snd (clock k)) f entry
           in review_loop zone s clock f w users (report\<lparr>
                arr_UserAccess := arr_UserAccess report @ [entry],
                arr_StaleGrants := arr_StaleGrants report @ stale,
                arr_Summary := (arr_Summary report)\<lparr>rs_StaleGrants := rs_StaleGrants (arr_Summary report) + int (length stale)\<rparr>\<rparr>)))"

definition SOC2Service_GenerateAccessReview :: "(time \<Rightarrow> int) \<Rightarrow> 'w SOC2Service \<Rightarrow> time \<Rightarrow> (nat \<Rightarrow> time \<times> (nat \<Rightarrow> time \<times> time)) \<Rightarrow>
    AccessReviewFilter \<Rightarrow> string \<Rightarrow> 'w \<Rightarrow> err + AccessReviewReport" where
  "SOC2Service_GenerateAccessReview zone s now clock f generatedBy w =
     (case SOC2Service_getUsersInTenant (arf_TenantID f) of
        Inl e \<Rightarrow> Inl e
      | Inr users \<Rightarrow>
     (case review_loop zone s clock f w users \<lparr>
             arr_GeneratedAt = now, arr_GeneratedBy = generatedBy, arr_TenantID = arf_TenantID f,
             arr_Summary = \<lparr>rs_TotalUsers = int (length users), rs_TotalRoles = 0, rs_TotalPermissions = 0,
               rs_StaleGrants = 0, rs_UsersWithNoAccess = 0, rs_AdminsCount = 0\<rparr>,
             arr_UserAccess = [], arr_StaleGrants = [], arr_PolicyChanges = []\<rparr> of
        Inl e \<Rightarrow> Inl e
      | Inr report \<Rightarrow>
     (case SOC2Service_getPolicyChanges f of
        Inl e \<Rightarrow> Inl e
      | Inr policyChanges \<Rightarrow> Inr (report\<lparr>arr_PolicyChanges := policyChanges\<rparr>))))"

end
