(* ===== verification/Soc2Props.thy ===== *)
theory Soc2Props
  imports Soc2 CacheProps
begin

text \<open>
  What the access review reports as a user's permissions, and how it relates to decisions. The service is
  built over the database as its constructor expects.
\<close>

definition soc2_service :: "gorms \<Rightarrow> db SOC2Service" where
  "soc2_service G = NewSOC2Service (NewUserRepository G) (NewMembershipRepository G) (NewTeamMembershipRepository G)
     (NewTeamRepository G) (NewACLRepository G) (NewRolePermissionRepository G) (NewAuditLogRepository G)"

lemma soc2_service_simps [simp]:
  "s2_memberships (soc2_service G) = NewMembershipRepository G"
  "s2_teamMemberships (soc2_service G) = NewTeamMembershipRepository G"
  "s2_teams (soc2_service G) = NewTeamRepository G"
  "ACLService_ListBySubject (s2_acl (soc2_service G)) = aclRepository_FindBySubject G"
  "RolePermissionService_ListByRole (s2_rolePerms (soc2_service G)) = rolePermissionRepository_FindByRole G"
  by (simp_all add: soc2_service_def NewSOC2Service_def ACLService_ListBySubject_def RolePermissionService_ListByRole_def
      NewACLRepository_def NewRolePermissionRepository_def fun_eq_iff)

section \<open>Duplicates\<close>

lemma dedup_loop_inv:
  assumes "distinct unique" and "set seen = set unique"
  shows "distinct (dedup_loop ps seen unique) \<and> set (dedup_loop ps seen unique) = set ps \<union> set unique"
  using assms
proof (induction ps seen unique rule: dedup_loop.induct)
  case (2 p ps seen unique)
  then show ?case by (cases "p \<in> set seen") (auto simp: insert_absorb)
qed simp

lemma dedup: "distinct (dedup_loop ps [] [])" "set (dedup_loop ps [] []) = set ps"
  using dedup_loop_inv [of "[]" "[]" ps] by simp_all

section \<open>What is reported\<close>

text \<open>A permission of the role table for a role the user has in the tenant, or of an allowing entry on the user.\<close>

definition reported :: "db \<Rightarrow> string \<Rightarrow> string \<Rightarrow> string \<Rightarrow> bool" where
  "reported d t u p \<longleftrightarrow>
     (\<exists>r. role_in_tenant d u t r \<and>
        (\<exists>m\<in>set (t_role_permissions d). rpm_TenantID m = t \<and> rpm_RoleName m = r \<and> rpm_Permission m = p)) \<or>
     (\<exists>a\<in>set (t_acl_permissions d). am_TenantID a = t \<and> am_SubjectType a = ''user'' \<and> am_SubjectID a = u \<and>
        am_Effect a = ''allow'' \<and> am_Permission a = p)"

text \<open>A read that fails contributes nothing.\<close>

lemma read_or_nothing:
  "p \<in> set (case F of Inl e \<Rightarrow> [] | Inr x \<Rightarrow> f x) \<longleftrightarrow> (\<exists>x. F = Inr x \<and> p \<in> set (f x))"
  by (cases F) simp_all

lemma role_grants_mem:
  "p \<in> set (role_grants (soc2_service G) t d roles) \<longleftrightarrow>
   (\<exists>r\<in>set roles. \<exists>rps. rolePermissionRepository_FindByRole G t r d = Inr rps \<and> p \<in> rp_Permission ` set rps)"
  by (simp add: role_grants_def read_or_nothing) metis

lemma team_grants_mem:
  "p \<in> set (team_grants (soc2_service G) t d tms) \<longleftrightarrow>
   (\<exists>tm\<in>set tms. \<exists>team. teamRepository_FindByID G (tm_TeamID tm) d = Inr team \<and> team_TenantID team = t \<and>
     p \<in> set (role_grants (soc2_service G) t d (tm_Roles tm)))"
proof -
  have "p \<in> set (if b then xs else []) \<longleftrightarrow> b \<and> p \<in> set xs" for b and xs :: "string list" by simp
  then show ?thesis by (simp add: team_grants_def read_or_nothing) metis
qed

context database
begin

lemmas grant_row = role_permission.Create_row

lemma FindByRole_rows:
  "rolePermissionRepository_FindByRole G t r d = Inr rps \<Longrightarrow>
   rp_Permission ` set rps = rpm_Permission ` {m \<in> set (t_role_permissions d). rpm_TenantID m = t \<and> rpm_RoleName m = r}"
  using role_permission.Find_set
  by (force simp: rolePermissionRepository_FindByRole_def fromRolePermissionModel_def split: sum.splits)

lemma FindBySubject_rows:
  "aclRepository_FindBySubject G t st sid d = Inr acls \<Longrightarrow> a \<in> set acls \<Longrightarrow>
   \<exists>m\<in>set (t_acl_permissions d). am_TenantID m = t \<and> am_SubjectType m = st \<and> am_SubjectID m = sid \<and>
     am_Effect m = acl_Effect a \<and> am_Permission m = acl_Permission a"
  using acl.Find_set by (fastforce simp: aclRepository_FindBySubject_def fromACLModel_def split: sum.splits)

lemma role_grants_reported:
  assumes "p \<in> set (role_grants (soc2_service G) t d roles)" and "\<And>r. r \<in> set roles \<Longrightarrow> role_in_tenant d u t r"
  shows "reported d t u p"
proof -
  obtain r rps where r: "r \<in> set roles" "rolePermissionRepository_FindByRole G t r d = Inr rps" "p \<in> rp_Permission ` set rps"
    using assms(1) unfolding role_grants_mem by blast
  from r(3) have "\<exists>m\<in>set (t_role_permissions d). rpm_TenantID m = t \<and> rpm_RoleName m = r \<and> rpm_Permission m = p"
    unfolding FindByRole_rows [OF r(2)] by blast
  then show ?thesis using assms(2) [OF r(1)] unfolding reported_def by blast
qed

lemma member_roles_in_tenant:
  "membershipRepository_FindByUserAndTenant G u t d = Inr m \<Longrightarrow> r \<in> set (mem_Roles m) \<Longrightarrow> role_in_tenant d u t r"
  using member.find_hit [of u t d m] unfolding role_in_tenant_def by blast

lemma team_roles_in_tenant:
  assumes "teamMembershipRepository_ListByUser G u d = Inr tms" and "tm \<in> set tms"
    and "teamRepository_FindByID G (tm_TeamID tm) d = Inr team" and "team_TenantID team = t" and "r \<in> set (tm_Roles tm)"
  shows "role_in_tenant d u t r"
proof -
  have "tm \<in> db_team_memberships d" "tm_UserID tm = u" using team_member.list_rows [OF assms(1)] assms(2) by simp_all
  moreover have "team \<in> db_teams d" "tm_TeamID tm = team_ID team"
    using team_FindByID_hit [OF database_axioms assms(3)] by simp_all
  ultimately show ?thesis using assms(4,5) unfolding role_in_tenant_def by blast
qed

end

text \<open>A review reports each permission once, and only permissions of roles the user has in the tenant, as
  its role table lists them, and of entries that allow them to the user.\<close>

theorem review_permissions_sound:
  assumes "database G"
  shows "distinct (SOC2Service_getEffectivePermissions (soc2_service G) t u d) \<and>
    list_all (reported d t u) (SOC2Service_getEffectivePermissions (soc2_service G) t u d)"
proof -
  have "reported d t u p" if p: "p \<in> set (SOC2Service_getEffectivePermissions (soc2_service G) t u d)" for p
  proof -
    from p have "(\<exists>m. membershipRepository_FindByUserAndTenant G u t d = Inr m \<and> p \<in> set (role_grants (soc2_service G) t d (mem_Roles m))) \<or>
        (\<exists>tms. teamMembershipRepository_ListByUser G u d = Inr tms \<and> p \<in> set (team_grants (soc2_service G) t d tms)) \<or>
        (\<exists>acls. aclRepository_FindBySubject G t ''user'' u d = Inr acls \<and>
           p \<in> set (map acl_Permission (filter (\<lambda>a. acl_Effect a = ''allow'') acls)))"
      unfolding SOC2Service_getEffectivePermissions_def dedup set_append Un_iff read_or_nothing soc2_service_simps
        identity_repository_simps .
    then consider m where "membershipRepository_FindByUserAndTenant G u t d = Inr m" "p \<in> set (role_grants (soc2_service G) t d (mem_Roles m))"
      | tms where "teamMembershipRepository_ListByUser G u d = Inr tms" "p \<in> set (team_grants (soc2_service G) t d tms)"
      | acls a where "aclRepository_FindBySubject G t ''user'' u d = Inr acls" "a \<in> set acls" "acl_Effect a = ''allow''" "p = acl_Permission a"
      unfolding set_map set_filter by blast
    then show ?thesis
    proof cases
      case 1
      then show ?thesis using database.role_grants_reported [OF assms] database.member_roles_in_tenant [OF assms] by blast
    next
      case 2
      from 2(2) [unfolded team_grants_mem] obtain tm team where "tm \<in> set tms"
        "teamRepository_FindByID G (tm_TeamID tm) d = Inr team" "team_TenantID team = t"
        "p \<in> set (role_grants (soc2_service G) t d (tm_Roles tm))" by blast
      then show ?thesis using database.role_grants_reported [OF assms] database.team_roles_in_tenant [OF assms 2(1)] by blast
    next
      case 3
      then show ?thesis using database.FindBySubject_rows [OF assms 3(1,2)] by (force simp: reported_def)
    qed
  qed
  then show ?thesis unfolding SOC2Service_getEffectivePermissions_def by (simp add: dedup list_all_iff)
qed

section \<open>Grants and decisions\<close>

text \<open>No rule reads the role table of the tenant.\<close>

lemma decide_ignores_grants:
  assumes "d' = d\<lparr>t_role_permissions := x\<rparr>"
  shows "authz_decide (main_authz G rego cache) k req pq (d', c) = authz_decide (main_authz G rego cache) k req pq (d, c)"
proof -
  let ?s = "main_authz G rego cache"
  have reads: "aclRepository_CheckPermission G t st sid rt rid p d' = aclRepository_CheckPermission G t st sid rt rid p d"
    "policyRepository_FindActiveByTenant G t d' = policyRepository_FindActiveByTenant G t d"
    "membershipRepository_FindByUserAndTenant G u t d' = membershipRepository_FindByUserAndTenant G u t d"
    "teamMembershipRepository_ListByUser G u d' = teamMembershipRepository_ListByUser G u d"
    "teamRepository_FindByID G i d' = teamRepository_FindByID G i d" for t st sid rt rid p u i
    by (simp_all add: assms repo_simps)
  have teams: "team_roles (NewTeamRepository G) t d' tms rs = team_roles (NewTeamRepository G) t d tms rs" for t tms rs
    by (induction tms arbitrary: rs) (simp_all add: reads split: sum.split)
  have loop: "team_acl_loop ?s req tms (d', c) = team_acl_loop ?s req tms (d, c)" for tms
    by (induction tms) (simp_all add: reads split: sum.split)
  have rloop: "role_acl_loop ?s req roles (d', c) = role_acl_loop ?s req roles (d, c)" for roles
    by (induction roles) (simp_all add: reads split: sum.split)
  have step: "abac_step ?s k req roles pq (d', c) = abac_step ?s k req roles pq (d, c)" for roles
    by (simp add: abac_step_def PolicyService_ListActive_def reads)
  have roles: "getEffectiveRoles ?s u t (d', c) = getEffectiveRoles ?s u t (d, c)" for u t
    by (simp add: getEffectiveRoles_def reads teams split: sum.split)
  have "authz_rules ?s k req rs pq (d', c) = authz_rules ?s k req rs pq (d, c)" for rs
    by (simp add: authz_rules_def loop rloop step reads split: sum.split)
  then show ?thesis unfolding authz_decide_def by (simp add: roles split: sum.split)
qed

text \<open>C39: Granting a permission to a role decides nothing. After a grant every request is decided as before, while
  the review reports the permission for every member with the role.\<close>

theorem granted_permission_ignored:
  assumes "database G" and "RolePermissionService_Grant (NewRolePermissionRepository G) t role perm d = (Inr rp, d')"
  shows "fst (AuthorizationService_Check (main_authz G rego cache) k req pq (d', c)) =
      fst (AuthorizationService_Check (main_authz G rego cache) k req pq (d, c)) \<and>
    (\<forall>m rps. membershipRepository_FindByUserAndTenant G u t d' = Inr m \<longrightarrow> role \<in> set (mem_Roles m) \<longrightarrow>
       rolePermissionRepository_FindByRole G t role d' = Inr rps \<longrightarrow>
       perm \<in> set (SOC2Service_getEffectivePermissions (soc2_service G) t u d'))"
proof
  obtain row x where d': "d' = d\<lparr>t_role_permissions := x\<rparr>"
    and cr: "g_Create (gorm_role_permissions G) (toRolePermissionModel \<lparr>rp_ID = [], rp_TenantID = t, rp_RoleName = role,
      rp_Permission = perm, rp_CreatedAt = zero_time\<rparr>) (t_role_permissions d) = (Inr row, x)"
    using assms(2) by (auto simp: RolePermissionService_Grant_def NewRolePermissionRepository_def rolePermissionRepository_Create_def
        split: prod.splits sum.splits)
  have "cache_get (main_authz G rego cache) req (d', c) = cache_get (main_authz G rego cache) req (d, c)"
    by (rule cache_get_reads_redis) simp
  then show "fst (AuthorizationService_Check (main_authz G rego cache) k req pq (d', c)) =
      fst (AuthorizationService_Check (main_authz G rego cache) k req pq (d, c))"
    using decide_ignores_grants [OF d', of G rego cache k req pq c]
    by (cases "cache_get (main_authz G rego cache) req (d, c)") (simp_all add: Check_decide, simp_all add: AuthorizationService_Check_def)
  show "\<forall>m rps. membershipRepository_FindByUserAndTenant G u t d' = Inr m \<longrightarrow> role \<in> set (mem_Roles m) \<longrightarrow>
       rolePermissionRepository_FindByRole G t role d' = Inr rps \<longrightarrow>
       perm \<in> set (SOC2Service_getEffectivePermissions (soc2_service G) t u d')"
  proof (intro allI impI)
    fix m rps
    assume m: "membershipRepository_FindByUserAndTenant G u t d' = Inr m" "role \<in> set (mem_Roles m)"
      and rps: "rolePermissionRepository_FindByRole G t role d' = Inr rps"
    have "row \<in> set (t_role_permissions d')" "rpm_TenantID row = t" "rpm_RoleName row = role" "rpm_Permission row = perm"
      using database.grant_row [OF assms(1) cr] d' by (auto simp: same_role_permission_def toRolePermissionModel_def)
    then have "perm \<in> rp_Permission ` set rps" unfolding database.FindByRole_rows [OF assms(1) rps] by blast
    then have "perm \<in> set (role_grants (soc2_service G) t d' (mem_Roles m))" using m(2) rps unfolding role_grants_mem by blast
    then show "perm \<in> set (SOC2Service_getEffectivePermissions (soc2_service G) t u d')"
      using m(1) unfolding SOC2Service_getEffectivePermissions_def dedup by simp
  qed
qed

text \<open>A grant to the editors of the first tenant, of which ann is one.\<close>

lemma demo_grant:
  "\<exists>rp d'. RolePermissionService_Grant (NewRolePermissionRepository mem_gorms) ''t1'' ''editor'' ''docs:burn'' demo_db = (Inr rp, d') \<and>
     (\<exists>m. membershipRepository_FindByUserAndTenant mem_gorms ''u1'' ''t1'' d' = Inr m \<and> ''editor'' \<in> set (mem_Roles m)) \<and>
     (\<exists>rps. rolePermissionRepository_FindByRole mem_gorms ''t1'' ''editor'' d' = Inr rps)"
proof -
  obtain m where m: "membershipRepository_FindByUserAndTenant mem_gorms ''u1'' ''t1'' (demo_db\<lparr>t_role_permissions := x\<rparr>) = Inr m"
      "''editor'' \<in> set (mem_Roles m)" for x
    by (simp add: membershipRepository_FindByUserAndTenant_def demo_db_def eval_mapper)
  have f: "\<exists>rps. rolePermissionRepository_FindByRole mem_gorms t r d = Inr rps" for t r d
    by (simp add: rolePermissionRepository_FindByRole_def eval_mapper)
  have "\<exists>rp x. RolePermissionService_Grant (NewRolePermissionRepository mem_gorms) ''t1'' ''editor'' ''docs:burn'' demo_db
      = (Inr rp, demo_db\<lparr>t_role_permissions := x\<rparr>)"
    by (simp add: RolePermissionService_Grant_def NewRolePermissionRepository_def rolePermissionRepository_Create_def
        demo_db_def empty_db_def eval_mapper Let_def)
  then show ?thesis using m f by blast
qed

theorem granted_permission_ignored_witness:
  "\<exists>rp d'. RolePermissionService_Grant (NewRolePermissionRepository mem_gorms) ''t1'' ''editor'' ''docs:burn'' demo_db = (Inr rp, d') \<and>
     ''docs:burn'' \<in> set (SOC2Service_getEffectivePermissions (soc2_service mem_gorms) ''t1'' ''u1'' d')"
proof -
  obtain rp d' m rps where g: "RolePermissionService_Grant (NewRolePermissionRepository mem_gorms) ''t1'' ''editor'' ''docs:burn'' demo_db = (Inr rp, d')"
      "membershipRepository_FindByUserAndTenant mem_gorms ''u1'' ''t1'' d' = Inr m" "''editor'' \<in> set (mem_Roles m)"
      "rolePermissionRepository_FindByRole mem_gorms ''t1'' ''editor'' d' = Inr rps"
    using demo_grant by blast
  then show ?thesis using granted_permission_ignored [OF mem_database g(1), THEN conjunct2, rule_format, OF g(2-4)] by blast
qed

theorem review_permissions_sound_witness:
  "list_all (reported demo_db ''t1'' ''u1'') (SOC2Service_getEffectivePermissions (soc2_service mem_gorms) ''t1'' ''u1'' demo_db)"
  using review_permissions_sound [OF mem_database] by blast

end
