(* ===== verification/RepoSaml.thy ===== *)
theory RepoSaml
  imports Database DomainFed Json
begin

text \<open>
  saml_repository.go over the database: the SAML identity providers of a tenant. The attribute
  mapping, a \<open>map[string]string\<close>, is stored as JSON.
\<close>

definition json_Marshal_string_map :: "(string \<times> string) list option \<Rightarrow> string" where
  "json_Marshal_string_map m = json_Marshal_map (map_option string_map m)"

text \<open>The decoder stores the empty text for a value that is not a string and goes on.\<close>

definition json_Unmarshal_string_map :: "string \<Rightarrow> (string \<times> string) list option" where
  "json_Unmarshal_string_map s =
     map_option (map (\<lambda>(k, v). (k, case v of AStr t \<Rightarrow> t | _ \<Rightarrow> []))) (json_Unmarshal_map s)"

definition toSAMLProviderModel :: "SAMLProvider \<Rightarrow> samlProviderModel" where [conv_simps]:
  "toSAMLProviderModel p = \<lparr>
     spm_ID = sp_ID p, spm_TenantID = sp_TenantID p, spm_Name = sp_Name p, spm_EntityID = sp_EntityID p,
     spm_SSOURL = sp_SSOURL p, spm_SLOURL = sp_SLOURL p, spm_X509Cert = sp_X509Cert p,
     spm_PrivateKey = sp_PrivateKey p, spm_AttributeMapping = json_Marshal_string_map (sp_AttributeMapping p),
     spm_Enabled = sp_Enabled p, spm_CreatedAt = zero_time, spm_UpdatedAt = zero_time\<rparr>"

definition fromSAMLProviderModel :: "samlProviderModel \<Rightarrow> SAMLProvider" where [conv_simps]:
  "fromSAMLProviderModel m = \<lparr>
     sp_ID = spm_ID m, sp_TenantID = spm_TenantID m, sp_Name = spm_Name m, sp_EntityID = spm_EntityID m,
     sp_SSOURL = spm_SSOURL m, sp_SLOURL = spm_SLOURL m, sp_X509Cert = spm_X509Cert m,
     sp_PrivateKey = spm_PrivateKey m,
     sp_AttributeMapping = (if spm_AttributeMapping m \<noteq> [] then json_Unmarshal_string_map (spm_AttributeMapping m) else None),
     sp_Enabled = spm_Enabled m, sp_CreatedAt = spm_CreatedAt m, sp_UpdatedAt = spm_UpdatedAt m\<rparr>"

definition samlProviderRepository_Create ::
    "gorms \<Rightarrow> SAMLProvider \<Rightarrow> db \<Rightarrow> (err + SAMLProvider) \<times> db" where [repo_simps]:
  "samlProviderRepository_Create G p d =
     (case g_Create (gorm_saml_providers G) (toSAMLProviderModel p) (t_saml_providers d) of
        (Inl e, t) \<Rightarrow> (Inl (GormErr e), d\<lparr>t_saml_providers := t\<rparr>)
      | (Inr m, t) \<Rightarrow>
          (Inr (p\<lparr>sp_ID := spm_ID m, sp_CreatedAt := spm_CreatedAt m, sp_UpdatedAt := spm_UpdatedAt m\<rparr>),
           d\<lparr>t_saml_providers := t\<rparr>))"

definition samlProviderRepository_FindByID ::
    "gorms \<Rightarrow> string \<Rightarrow> db \<Rightarrow> err + SAMLProvider" where [repo_simps]:
  "samlProviderRepository_FindByID G uid d =
     (case g_First (gorm_saml_providers G) (\<lambda>m. spm_ID m = uid) (t_saml_providers d) of
        Inl e \<Rightarrow> Inl (if e = gorm_ErrRecordNotFound then ExtErr ErrSAMLProviderNotFound else GormErr e)
      | Inr m \<Rightarrow> Inr (fromSAMLProviderModel m))"

definition samlProviderRepository_FindByTenant ::
    "gorms \<Rightarrow> string \<Rightarrow> db \<Rightarrow> err + SAMLProvider list" where [repo_simps]:
  "samlProviderRepository_FindByTenant G tenantID d =
     (case g_Find (gorm_saml_providers G) (\<lambda>m. spm_TenantID m = tenantID) (t_saml_providers d) of
        Inl e \<Rightarrow> Inl (GormErr e)
      | Inr models \<Rightarrow> Inr (map fromSAMLProviderModel models))"

definition samlProviderRepository_Update ::
    "gorms \<Rightarrow> SAMLProvider \<Rightarrow> db \<Rightarrow> (err + unit) \<times> db" where [repo_simps]:
  "samlProviderRepository_Update G p d =
     (case g_Updates (gorm_saml_providers G) (\<lambda>m. spm_ID m = sp_ID p) (toSAMLProviderModel p) (t_saml_providers d) of
        (Inl e, t) \<Rightarrow> (Inl (GormErr e), d\<lparr>t_saml_providers := t\<rparr>)
      | (Inr n, t) \<Rightarrow> (if n = 0 then Inl (ExtErr ErrSAMLProviderNotFound) else Inr (), d\<lparr>t_saml_providers := t\<rparr>))"

definition samlProviderRepository_Delete ::
    "gorms \<Rightarrow> string \<Rightarrow> db \<Rightarrow> (err + unit) \<times> db" where [repo_simps]:
  "samlProviderRepository_Delete G uid d =
     (case g_Delete (gorm_saml_providers G) (\<lambda>m. spm_ID m = uid) (t_saml_providers d) of
        (Inl e, t) \<Rightarrow> (Inl (GormErr e), d\<lparr>t_saml_providers := t\<rparr>)
      | (Inr n, t) \<Rightarrow> (if n = 0 then Inl (ExtErr ErrSAMLProviderNotFound) else Inr (), d\<lparr>t_saml_providers := t\<rparr>))"

definition NewSAMLProviderRepository :: "gorms \<Rightarrow> db SAMLProviderRepository" where
  "NewSAMLProviderRepository G = \<lparr>
     SAMLProviderRepository_Create = samlProviderRepository_Create G,
     SAMLProviderRepository_FindByID = samlProviderRepository_FindByID G,
     SAMLProviderRepository_FindByTenant = samlProviderRepository_FindByTenant G,
     SAMLProviderRepository_Update = samlProviderRepository_Update G,
     SAMLProviderRepository_Delete = samlProviderRepository_Delete G\<rparr>"

end
