(* ===== verification/Saml.thy ===== *)
theory Saml
  imports OAuth2 RepoSaml
begin

text \<open>
  service/saml.go and api/saml_handler.go: the SAML providers of a tenant, the mapping of attributes
  and the account of an assertion. The endpoints of the SAML flow answer that they are not
  implemented.
\<close>

record 'w SAMLService =
  ss_providers :: "'w SAMLProviderRepository"
  ss_users :: "'w UserRepository"
  ss_memberships :: "'w MembershipRepository"

definition NewSAMLService :: "'w SAMLProviderRepository \<Rightarrow> 'w UserRepository \<Rightarrow> 'w MembershipRepository \<Rightarrow> 'w SAMLService" where
  "NewSAMLService providers users memberships =
     \<lparr>ss_providers = providers, ss_users = users, ss_memberships = memberships\<rparr>"

record SAMLProviderConfig =
  spc_Name :: string
  spc_EntityID :: string
  spc_SSOURL :: string
  spc_SLOURL :: string
  spc_X509Cert :: string
  spc_PrivateKey :: string
  spc_AttributeMapping :: "(string \<times> string) list option"

definition SAMLService_RegisterProvider :: "'w SAMLService \<Rightarrow> string \<Rightarrow> SAMLProviderConfig \<Rightarrow> 'w \<Rightarrow> (err + SAMLProvider) \<times> 'w" where
  "SAMLService_RegisterProvider s tenantID config w =
     SAMLProviderRepository_Create (ss_providers s) \<lparr>
       sp_ID = [], sp_TenantID = tenantID, sp_Name = spc_Name config, sp_EntityID = spc_EntityID config,
       sp_SSOURL = spc_SSOURL config, sp_SLOURL = spc_SLOURL config, sp_X509Cert = spc_X509Cert config,
       sp_PrivateKey = spc_PrivateKey config, sp_AttributeMapping = spc_AttributeMapping config,
       sp_Enabled = True, sp_CreatedAt = zero_time, sp_UpdatedAt = zero_time\<rparr> w"

definition SAMLService_GetProvider :: "'w SAMLService \<Rightarrow> string \<Rightarrow> 'w \<Rightarrow> err + SAMLProvider" where
  "SAMLService_GetProvider s uid w = SAMLProviderRepository_FindByID (ss_providers s) uid w"

definition SAMLService_ListProviders :: "'w SAMLService \<Rightarrow> string \<Rightarrow> 'w \<Rightarrow> err + SAMLProvider list" where
  "SAMLService_ListProviders s tenantID w = SAMLProviderRepository_FindByTenant (ss_providers s) tenantID w"

definition SAMLService_UpdateProvider :: "'w SAMLService \<Rightarrow> SAMLProvider \<Rightarrow> 'w \<Rightarrow> (err + unit) \<times> 'w" where
  "SAMLService_UpdateProvider s provider w = SAMLProviderRepository_Update (ss_providers s) provider w"

definition SAMLService_DeleteProvider :: "'w SAMLService \<Rightarrow> string \<Rightarrow> 'w \<Rightarrow> (err + unit) \<times> 'w" where
  "SAMLService_DeleteProvider s uid w = SAMLProviderRepository_Delete (ss_providers s) uid w"

definition SAMLService_HandleACS :: "string \<Rightarrow> string \<Rightarrow> err + AuthResult" where
  "SAMLService_HandleACS providerID samlResponse = Inl (FmtErr ''saml acs handling not yet implemented'')"

text \<open>
  The loop of \<open>mapAttributes\<close>. Go visits the entries of a map in any order: the list gives the order
  of this run. The result is a map, later entries overwrite earlier ones.
\<close>

fun map_attributes_loop :: "(string \<times> string) list \<Rightarrow> (string \<rightharpoonup> string list) \<Rightarrow> (string \<rightharpoonup> string) \<Rightarrow> (string \<rightharpoonup> string)" where
  "map_attributes_loop [] attributes result = result"
| "map_attributes_loop ((samlAttr, userField) # es) attributes result =
     map_attributes_loop es attributes
       (case attributes samlAttr of
          Some (v # vs) \<Rightarrow> result(userField \<mapsto> v)
        | _ \<Rightarrow> result)"

definition SAMLService_mapAttributes :: "SAMLProvider \<Rightarrow> (string \<rightharpoonup> string list) \<Rightarrow> (string \<rightharpoonup> string)" where
  "SAMLService_mapAttributes provider attributes =
     map_attributes_loop (case sp_AttributeMapping provider of None \<Rightarrow> [] | Some es \<Rightarrow> es) attributes Map.empty"

text \<open>A key that is missing from a \<open>map[string]string\<close> reads as the empty text.\<close>

definition attribute :: "(string \<rightharpoonup> string) \<Rightarrow> string \<Rightarrow> string" where
  "attribute m k = (case m k of None \<Rightarrow> [] | Some v \<Rightarrow> v)"

definition SAMLService_findOrCreateUser :: "'w SAMLService \<Rightarrow> string \<Rightarrow> (string \<rightharpoonup> string) \<Rightarrow> 'w \<Rightarrow> (err + User) \<times> 'w" where
  "SAMLService_findOrCreateUser s tenantID attributes w =
     (if attribute attributes ''email'' = [] then (Inl (FmtErr ''email not provided by SAML IdP''), w)
      else federated_account (ss_users s) (ss_memberships s) tenantID (attribute attributes ''email'') w)"

section \<open>Handlers\<close>

record samlProviderResponse =
  spr_ID :: string
  spr_Name :: string
  spr_EntityID :: string
  spr_SSOURL :: string
  spr_SLOURL :: string
  spr_AttributeMapping :: "(string \<times> string) list option"
  spr_Enabled :: bool

definition toSAMLProviderResponse :: "SAMLProvider \<Rightarrow> samlProviderResponse" where
  "toSAMLProviderResponse p = \<lparr>
     spr_ID = sp_ID p, spr_Name = sp_Name p, spr_EntityID = sp_EntityID p, spr_SSOURL = sp_SSOURL p,
     spr_SLOURL = sp_SLOURL p, spr_AttributeMapping = sp_AttributeMapping p, spr_Enabled = sp_Enabled p\<rparr>"

text \<open>\<open>registerSAMLProviderRequest\<close> has the fields of the service's \<open>SAMLProviderConfig\<close>.\<close>

definition SAMLHandler_RegisterProvider :: "'w SAMLService \<Rightarrow> string \<Rightarrow> err + SAMLProviderConfig \<Rightarrow> 'w \<Rightarrow>
    samlProviderResponse response \<times> 'w" where
  "SAMLHandler_RegisterProvider s tenantID bound w =
     (case bound of
        Inl e \<Rightarrow> (writeError 400 ''invalid_request'', w)
      | Inr req \<Rightarrow>
          (case SAMLService_RegisterProvider s tenantID req w of
             (Inl e, w1) \<Rightarrow> (writeError 500 ''internal_error'', w1)
           | (Inr provider, w1) \<Rightarrow> (Reply 201 (toSAMLProviderResponse provider), w1)))"

definition SAMLHandler_ListProviders :: "'w SAMLService \<Rightarrow> string \<Rightarrow> 'w \<Rightarrow> samlProviderResponse list response" where
  "SAMLHandler_ListProviders s tenantID w =
     (case SAMLService_ListProviders s tenantID w of
        Inl e \<Rightarrow> writeError 500 ''internal_error''
      | Inr providers \<Rightarrow> Reply 200 (map toSAMLProviderResponse providers))"

definition SAMLHandler_GetProvider :: "'w SAMLService \<Rightarrow> string \<Rightarrow> 'w \<Rightarrow> samlProviderResponse response" where
  "SAMLHandler_GetProvider s uid w =
     (case SAMLService_GetProvider s uid w of
        Inl e \<Rightarrow> (if e = ExtErr ErrSAMLProviderNotFound then writeError 404 ''not_found''
                  else writeError 500 ''internal_error'')
      | Inr provider \<Rightarrow> Reply 200 (toSAMLProviderResponse provider))"

definition SAMLHandler_DeleteProvider :: "'w SAMLService \<Rightarrow> string \<Rightarrow> 'w \<Rightarrow> unit response \<times> 'w" where
  "SAMLHandler_DeleteProvider s uid w =
     (case SAMLService_DeleteProvider s uid w of
        (Inl e, w1) \<Rightarrow> (writeError 500 ''internal_error'', w1)
      | (Inr u, w1) \<Rightarrow> (Status 204, w1))"

definition SAMLHandler_InitiateSSO :: "unit response" where
  "SAMLHandler_InitiateSSO = writeError 501 ''not_implemented''"

definition SAMLHandler_ACS :: "unit response" where
  "SAMLHandler_ACS = writeError 501 ''not_implemented''"

definition SAMLHandler_SLO :: "unit response" where
  "SAMLHandler_SLO = writeError 501 ''not_implemented''"

definition SAMLHandler_Metadata :: "unit response" where
  "SAMLHandler_Metadata = writeError 501 ''not_implemented''"

end
