(* ===== verification/SamlProps.thy ===== *)
theory SamlProps
  imports Saml
begin

text \<open>
  When the attributes of a SAML assertion have a definite mapping: Go visits a map in any order.
\<close>

text \<open>What a mapping says of a user field: the first value of a SAML attribute that is mapped to it.\<close>

definition mapped_to :: "(string \<times> string) list \<Rightarrow> (string \<rightharpoonup> string list) \<Rightarrow> string \<Rightarrow> string \<Rightarrow> bool" where
  "mapped_to es attributes f v \<longleftrightarrow> (\<exists>a vs. (a, f) \<in> set es \<and> attributes a = Some (v # vs))"

lemma map_attributes_sound:
  "map_attributes_loop es attributes r f = Some v \<Longrightarrow> mapped_to es attributes f v \<or> r f = Some v"
proof (induction es attributes r rule: map_attributes_loop.induct)
  case (2 a g es attributes r)
  then show ?case by (fastforce simp: mapped_to_def split: option.splits list.splits if_splits)
qed simp

lemma map_attributes_keeps:
  "r f \<noteq> None \<Longrightarrow> map_attributes_loop es attributes r f \<noteq> None"
  by (induction es attributes r rule: map_attributes_loop.induct) (auto split: option.split list.split)

lemma map_attributes_complete:
  "mapped_to es attributes f v \<Longrightarrow> map_attributes_loop es attributes r f \<noteq> None"
proof (induction es attributes r rule: map_attributes_loop.induct)
  case (2 a g es attributes r)
  show ?case
  proof (cases "mapped_to es attributes f v")
    case True
    then show ?thesis using 2 by simp
  next
    case False
    then obtain vs where "g = f" "attributes a = Some (v # vs)" using 2(2) by (auto simp: mapped_to_def)
    then show ?thesis using map_attributes_keeps [of "r(f \<mapsto> v)" f] by simp
  qed
qed (simp add: mapped_to_def)

lemma option_spec_unique:
  assumes a: "case a of None \<Rightarrow> \<forall>v. \<not> P v | Some v \<Rightarrow> P v" and b: "case b of None \<Rightarrow> \<forall>v. \<not> P v | Some v \<Rightarrow> P v"
    and u: "\<forall>v w. P v \<longrightarrow> P w \<longrightarrow> v = w"
  shows "a = b"
proof (cases a)
  case None
  then show ?thesis using a b by (cases b) simp_all
next
  case (Some v)
  then have "P v" using a by simp
  then obtain w where "b = Some w" "P w" using b by (cases b) simp_all
  then show ?thesis using Some \<open>P v\<close> u by blast
qed

text \<open>C37: The attribute mapping. In whatever order the entries are visited, a user field is set exactly if some SAML
  attribute that is mapped to it has a value, and to the first value of such an attribute; if no two
  such attributes disagree the result is that value.\<close>

theorem map_attributes_spec:
  assumes "sp_AttributeMapping p = Some es"
  shows "(case SAMLService_mapAttributes p attributes f of
            None \<Rightarrow> \<forall>v. \<not> mapped_to es attributes f v
          | Some v \<Rightarrow> mapped_to es attributes f v) \<and>
    ((\<forall>v w. mapped_to es attributes f v \<longrightarrow> mapped_to es attributes f w \<longrightarrow> v = w) \<longrightarrow>
     (\<forall>es'. mset es' = mset es \<longrightarrow>
       SAMLService_mapAttributes (p\<lparr>sp_AttributeMapping := Some es'\<rparr>) attributes f = SAMLService_mapAttributes p attributes f))"
proof -
  have spec: "case map_attributes_loop xs attributes Map.empty f of
      None \<Rightarrow> \<forall>v. \<not> mapped_to xs attributes f v | Some v \<Rightarrow> mapped_to xs attributes f v" for xs
    using map_attributes_sound [of xs attributes Map.empty f] map_attributes_complete [of xs attributes f _ Map.empty]
    by (cases "map_attributes_loop xs attributes Map.empty f") auto
  have perm: "mapped_to es' attributes = mapped_to es attributes" if "mset es' = mset es" for es'
    using mset_eq_setD [OF that] by (simp add: mapped_to_def fun_eq_iff)
  have first: "SAMLService_mapAttributes p attributes = map_attributes_loop es attributes Map.empty"
    and other: "SAMLService_mapAttributes (p\<lparr>sp_AttributeMapping := Some es'\<rparr>) attributes =
      map_attributes_loop es' attributes Map.empty" for es'
    using assms by (simp_all add: SAMLService_mapAttributes_def)
  show ?thesis unfolding first other
  proof (intro conjI impI allI)
    fix es' assume u: "\<forall>v w. mapped_to es attributes f v \<longrightarrow> mapped_to es attributes f w \<longrightarrow> v = w" and "mset es' = mset es"
    then have "mapped_to es' attributes = mapped_to es attributes" using perm by blast
    then show "map_attributes_loop es' attributes Map.empty f = map_attributes_loop es attributes Map.empty f"
      using option_spec_unique [OF _ spec [of es] u] spec [of es'] by metis
  qed (rule spec)
qed

text \<open>Two SAML attributes for the address: the run's order decides when both have a value.\<close>

definition saml_demo :: SAMLProvider where
  "saml_demo = \<lparr>sp_ID = ''p1'', sp_TenantID = ''t1'', sp_Name = ''idp'', sp_EntityID = [], sp_SSOURL = [], sp_SLOURL = [],
     sp_X509Cert = [], sp_PrivateKey = [], sp_AttributeMapping = Some [(''mail'', ''email''), (''upn'', ''email'')],
     sp_Enabled = True, sp_CreatedAt = 0, sp_UpdatedAt = 0\<rparr>"

theorem map_attributes_spec_witness:
  "SAMLService_mapAttributes saml_demo [''mail'' \<mapsto> [''ann'']] ''email'' = Some ''ann'' \<and>
   mapped_to [(''mail'', ''email''), (''upn'', ''email'')] [''mail'' \<mapsto> [''ann'']] ''email'' ''ann'' \<and>
   SAMLService_mapAttributes (saml_demo\<lparr>sp_AttributeMapping := Some [(''upn'', ''email''), (''mail'', ''email'')]\<rparr>)
     [''mail'' \<mapsto> [''ann''], ''upn'' \<mapsto> [''bob'']] ''email'' \<noteq>
   SAMLService_mapAttributes saml_demo [''mail'' \<mapsto> [''ann''], ''upn'' \<mapsto> [''bob'']] ''email''"
proof -
  have m: "sp_AttributeMapping saml_demo = Some [(''mail'', ''email''), (''upn'', ''email'')]" by (simp add: saml_demo_def)
  have v: "SAMLService_mapAttributes saml_demo [''mail'' \<mapsto> [''ann'']] ''email'' = Some ''ann''"
    by (simp add: SAMLService_mapAttributes_def saml_demo_def)
  show ?thesis using map_attributes_spec [OF m, of "[''mail'' \<mapsto> [''ann'']]" "''email''"] v
    by (simp add: SAMLService_mapAttributes_def saml_demo_def)
qed

end
