(* ===== verification/Events.thy ===== *)
theory Events
  imports Prelude
begin

text \<open>
  The event names of domain/audit.go and service/webhook.go, in the order the constants are declared.
\<close>

definition audit_event_types :: "string list" where
  "audit_event_types = [
     ''user.created'', ''user.updated'', ''user.deleted'', ''user.login'', ''user.logout'',
     ''user.login_failed'', ''token.issued'', ''token.revoked'', ''token.refreshed'', ''role.assigned'',
     ''role.revoked'', ''permission.granted'', ''permission.revoked'', ''policy.created'',
     ''policy.updated'', ''policy.deleted'', ''policy.activated'', ''acl.granted'', ''acl.revoked'',
     ''tenant.created'', ''tenant.updated'', ''tenant.deleted'', ''team.created'', ''team.updated'',
     ''team.deleted'', ''member.added'', ''member.removed'', ''client.registered'', ''client.updated'',
     ''client.deleted'', ''consent.granted'', ''consent.revoked'', ''data.exported'', ''data.erased'',
     ''mfa.enrolled'', ''mfa.revoked'', ''password.changed'', ''password.reset'', ''email.verified'',
     ''impersonation.start'', ''impersonation.end'']"

definition webhook_event_types :: "string list" where
  "webhook_event_types = [
     ''user.created'', ''user.updated'', ''user.deleted'', ''user.login'', ''user.logout'',
     ''user.login_failed'', ''token.issued'', ''token.revoked'', ''token.refreshed'', ''role.assigned'',
     ''role.revoked'', ''permission.granted'', ''permission.revoked'', ''policy.created'',
     ''policy.updated'', ''policy.deleted'', ''policy.activated'', ''acl.granted'', ''acl.revoked'',
     ''tenant.created'', ''tenant.updated'', ''tenant.deleted'', ''team.created'', ''team.updated'',
     ''team.deleted'', ''member.added'', ''member.removed'', ''client.registered'', ''client.updated'',
     ''client.deleted'', ''consent.granted'', ''consent.revoked'', ''data.exported'', ''data.erased'',
     ''mfa.enrolled'', ''mfa.revoked'', ''password.changed'', ''password.reset'', ''email.verified'',
     ''impersonation.start'', ''impersonation.end'']"

text \<open>A subscription can name every audit event: the two files declare the same names.\<close>

lemma webhook_events_are_audit_events: "webhook_event_types = audit_event_types"
  by (simp add: webhook_event_types_def audit_event_types_def)

end
