(* ===== verification/Observability.thy ===== *)
theory Observability
  imports Codec Float64
begin

text \<open>
  service/observability.go: the metrics. A vector of the Prometheus client is declared with label names and
  asked for a child by label values, in the declared order; a child is a label list. Durations are
  kept as durations (the code observes their seconds). Tracing, the HTTP handler of the registry and
  the unused runtime statistics are library calls.
\<close>

section \<open>The registry\<close>

type_synonym labels = "(string \<times> string) list"

record metrics =
  mx_counters :: "string \<times> labels \<Rightarrow> nat"
  mx_observations :: "string \<times> labels \<Rightarrow> duration list"
  mx_gauges :: "string \<Rightarrow> f64"

definition new_registry :: metrics where
  "new_registry = \<lparr>mx_counters = (\<lambda>k. 0), mx_observations = (\<lambda>k. []), mx_gauges = (\<lambda>k. (0, 0))\<rparr>"

text \<open>The vectors \<open>NewObservabilityService\<close> registers: metric name and label names.\<close>

definition metric_labels :: "(string \<times> string list) list" where
  "metric_labels = [
     (''http_request_duration_seconds'', [''method'', ''path'', ''status'']),
     (''http_requests_total'', [''method'', ''path'', ''status'']),
     (''authz_check_duration_seconds'', [''result'', ''matched_by'']),
     (''authz_cache_hits_total'', []),
     (''authz_cache_misses_total'', []),
     (''db_query_duration_seconds'', [''operation'', ''table'', ''status'']),
     (''db_errors_total'', [''operation'', ''table'', ''error'']),
     (''active_users'', []),
     (''active_tenants'', []),
     (''tokens_issued_total'', [''type'']),
     (''tokens_revoked_total'', [''type'']),
     (''login_attempts_total'', [''result'']),
     (''mfa_challenges_total'', [''type'', ''result''])]"

text \<open>\<open>WithLabelValues\<close> panics on a wrong number of values.\<close>

definition with_labels :: "string \<Rightarrow> string list \<Rightarrow> (string \<times> labels) option" where
  "with_labels metric vals =
     (case map_of metric_labels metric of
        None \<Rightarrow> None
      | Some names \<Rightarrow> (if length names = length vals then Some (metric, zip names vals) else None))"

definition counter_Inc :: "string \<Rightarrow> string list \<Rightarrow> metrics \<Rightarrow> metrics outcome" where
  "counter_Inc metric vals m =
     (case with_labels metric vals of
        None \<Rightarrow> Panics
      | Some k \<Rightarrow> Returns (m\<lparr>mx_counters := (mx_counters m)(k := Suc (mx_counters m k))\<rparr>))"

definition histogram_Observe :: "string \<Rightarrow> string list \<Rightarrow> duration \<Rightarrow> metrics \<Rightarrow> metrics outcome" where
  "histogram_Observe metric vals d m =
     (case with_labels metric vals of
        None \<Rightarrow> Panics
      | Some k \<Rightarrow> Returns (m\<lparr>mx_observations := (mx_observations m)(k := mx_observations m k @ [d])\<rparr>))"

definition gauge_Set :: "string \<Rightarrow> f64 \<Rightarrow> metrics \<Rightarrow> metrics" where
  "gauge_Set metric v m = m\<lparr>mx_gauges := (mx_gauges m)(metric := v)\<rparr>"

fun then_do :: "'a outcome \<Rightarrow> ('a \<Rightarrow> 'b outcome) \<Rightarrow> 'b outcome" where
  "then_do (Returns x) f = f x"
| "then_do Panics f = Panics"
| "then_do Blocks f = Blocks"

section \<open>Recording\<close>

definition ObservabilityService_RecordHTTPRequest :: "string \<Rightarrow> string \<Rightarrow> int \<Rightarrow> duration \<Rightarrow> metrics \<Rightarrow> metrics outcome" where
  "ObservabilityService_RecordHTTPRequest meth path status d m =
     then_do (histogram_Observe ''http_request_duration_seconds'' [meth, path, show_int status] d m)
       (counter_Inc ''http_requests_total'' [meth, path, show_int status])"

definition ObservabilityService_RecordAuthzCheck :: "string \<Rightarrow> string \<Rightarrow> duration \<Rightarrow> metrics \<Rightarrow> metrics outcome" where
  "ObservabilityService_RecordAuthzCheck res matchedBy d m =
     histogram_Observe ''authz_check_duration_seconds'' [res, matchedBy] d m"

definition ObservabilityService_RecordCacheHit :: "metrics \<Rightarrow> metrics outcome" where
  "ObservabilityService_RecordCacheHit m = counter_Inc ''authz_cache_hits_total'' [] m"

definition ObservabilityService_RecordCacheMiss :: "metrics \<Rightarrow> metrics outcome" where
  "ObservabilityService_RecordCacheMiss m = counter_Inc ''authz_cache_misses_total'' [] m"

text \<open>The operation and the table of the caller are not used. \<open>e\<close> is the text of the error, if there was one.\<close>

definition ObservabilityService_RecordDBQuery :: "string \<Rightarrow> string \<Rightarrow> duration \<Rightarrow> string option \<Rightarrow> metrics \<Rightarrow> metrics outcome" where
  "ObservabilityService_RecordDBQuery operation table d e m =
     (case e of
        None \<Rightarrow> histogram_Observe ''db_query_duration_seconds'' [''query'', ''unknown'', ''success''] d m
      | Some msg \<Rightarrow> then_do (counter_Inc ''db_errors_total'' [''query'', ''unknown'', msg] m)
          (histogram_Observe ''db_query_duration_seconds'' [''query'', ''unknown'', ''error''] d))"

definition ObservabilityService_RecordTokenIssued :: "string \<Rightarrow> metrics \<Rightarrow> metrics outcome" where
  "ObservabilityService_RecordTokenIssued tokenType m = counter_Inc ''tokens_issued_total'' [tokenType] m"

definition ObservabilityService_RecordTokenRevoked :: "string \<Rightarrow> metrics \<Rightarrow> metrics outcome" where
  "ObservabilityService_RecordTokenRevoked tokenType m = counter_Inc ''tokens_revoked_total'' [tokenType] m"

definition ObservabilityService_RecordLoginAttempt :: "bool \<Rightarrow> metrics \<Rightarrow> metrics outcome" where
  "ObservabilityService_RecordLoginAttempt success m =
     counter_Inc ''login_attempts_total'' [if success then ''success'' else ''failure''] m"

text \<open>The values come in the other order than the labels are declared.\<close>

definition ObservabilityService_RecordMFAChallenge :: "string \<Rightarrow> string \<Rightarrow> metrics \<Rightarrow> metrics outcome" where
  "ObservabilityService_RecordMFAChallenge mfaType res m = counter_Inc ''mfa_challenges_total'' [res, mfaType] m"

definition ObservabilityService_SetActiveUsers :: "int \<Rightarrow> metrics \<Rightarrow> metrics" where
  "ObservabilityService_SetActiveUsers n m = gauge_Set ''active_users'' (f64_of_int n) m"

definition ObservabilityService_SetActiveTenants :: "int \<Rightarrow> metrics \<Rightarrow> metrics" where
  "ObservabilityService_SetActiveTenants n m = gauge_Set ''active_tenants'' (f64_of_int n) m"

section \<open>What a record counts\<close>

lemma counter_Inc_Returns:
  "with_labels metric vals = Some k \<Longrightarrow>
   counter_Inc metric vals m = Returns (m\<lparr>mx_counters := (mx_counters m)(k := Suc (mx_counters m k))\<rparr>)"
  by (simp add: counter_Inc_def)

text \<open>Challenges are counted under swapped labels. A recorded challenge of a type with a result never panics
  and adds one to the counter whose \<open>type\<close> is the result and whose \<open>result\<close> is the type: the counter
  of that type and result stays as it was, unless the two texts are equal.\<close>

theorem mfa_labels_swapped:
  "\<exists>m'. ObservabilityService_RecordMFAChallenge mfaType res m = Returns m' \<and>
     mx_counters m' (''mfa_challenges_total'', [(''type'', res), (''result'', mfaType)]) =
       Suc (mx_counters m (''mfa_challenges_total'', [(''type'', res), (''result'', mfaType)])) \<and>
     (mfaType \<noteq> res \<longrightarrow> mx_counters m' (''mfa_challenges_total'', [(''type'', mfaType), (''result'', res)]) =
       mx_counters m (''mfa_challenges_total'', [(''type'', mfaType), (''result'', res)]))"
proof -
  have "with_labels ''mfa_challenges_total'' [res, mfaType] =
      Some (''mfa_challenges_total'', [(''type'', res), (''result'', mfaType)])"
    by (simp add: with_labels_def metric_labels_def)
  then show ?thesis by (simp add: ObservabilityService_RecordMFAChallenge_def counter_Inc_Returns)
qed

theorem mfa_labels_swapped_witness:
  "\<exists>m'. ObservabilityService_RecordMFAChallenge ''totp'' ''success'' new_registry = Returns m' \<and>
     mx_counters m' (''mfa_challenges_total'', [(''type'', ''success''), (''result'', ''totp'')]) = 1 \<and>
     mx_counters m' (''mfa_challenges_total'', [(''type'', ''totp''), (''result'', ''success'')]) = 0"
  using mfa_labels_swapped [of "''totp''" "''success''" new_registry] by (auto simp: new_registry_def)

end
