(* ===== verification/Router.thy ===== *)
theory Router
  imports Signup
begin

text \<open>
  api/router.go: the routes with the middleware in front of each handler, gin's choice of a route for a
  path, and the chain of middleware. Handlers are named as in the code (\<open>auth.Register\<close> is
  \<open>AuthHandler.Register\<close>); their models are in the theories of the handlers.
\<close>

section \<open>Routes\<close>

datatype seg = Lit string | Par string

text \<open>\<open>SignupLimit\<close> is \<open>tenantSignupLimiter.Middleware()\<close>, \<open>Auth\<close> is \<open>RequireAuth(tokens)\<close>, \<open>Perm p\<close> is \<open>RequirePermission(rbac, p)\<close>.\<close>

datatype guard = SignupLimit | Auth | Perm string

datatype route = Route (rt_method: string) (rt_path: "seg list") (rt_guards: "guard list") (rt_handler: string)

text \<open>The paths below are those under \<open>/api/v1\<close>, with the prefixes of their groups written out.\<close>

definition public_routes :: "route list" where
  "public_routes = [
     Route ''POST'' [Lit ''auth'', Lit ''register''] [] ''auth.Register'',
     Route ''POST'' [Lit ''auth'', Lit ''login''] [] ''auth.Login'',
     Route ''POST'' [Lit ''tenants''] [SignupLimit] ''tenants.Create'']"

definition federation_routes :: "route list" where
  "federation_routes = [
     Route ''POST'' [Lit ''oauth2'', Par ''tenantId'', Lit ''providers''] [] ''oauth2.RegisterProvider'',
     Route ''GET'' [Lit ''oauth2'', Par ''tenantId'', Lit ''providers''] [] ''oauth2.ListProviders'',
     Route ''GET'' [Lit ''oauth2'', Par ''tenantId'', Lit ''providers'', Par ''id''] [] ''oauth2.GetProvider'',
     Route ''DELETE'' [Lit ''oauth2'', Par ''tenantId'', Lit ''providers'', Par ''id''] [] ''oauth2.DeleteProvider'',
     Route ''POST'' [Lit ''oauth2'', Par ''tenantId'', Lit ''auth-url''] [] ''oauth2.GetAuthURL'',
     Route ''POST'' [Lit ''oauth2'', Lit ''callback''] [] ''oauth2.HandleCallback'',
     Route ''GET'' [Lit ''oauth2'', Lit ''callback''] [] ''oauth2.RedirectCallback'',
     Route ''POST'' [Lit ''saml'', Par ''tenantId'', Lit ''providers''] [] ''saml.RegisterProvider'',
     Route ''GET'' [Lit ''saml'', Par ''tenantId'', Lit ''providers''] [] ''saml.ListProviders'',
     Route ''GET'' [Lit ''saml'', Par ''tenantId'', Lit ''providers'', Par ''id''] [] ''saml.GetProvider'',
     Route ''DELETE'' [Lit ''saml'', Par ''tenantId'', Lit ''providers'', Par ''id''] [] ''saml.DeleteProvider'',
     Route ''GET'' [Lit ''saml'', Lit ''providers'', Par ''providerId'', Lit ''sso''] [] ''saml.InitiateSSO'',
     Route ''POST'' [Lit ''saml'', Lit ''providers'', Par ''providerId'', Lit ''acs''] [] ''saml.ACS'',
     Route ''GET'' [Lit ''saml'', Lit ''providers'', Par ''providerId'', Lit ''slo''] [] ''saml.SLO'',
     Route ''GET'' [Lit ''saml'', Lit ''providers'', Par ''providerId'', Lit ''metadata''] [] ''saml.Metadata'']"

definition account_routes :: "route list" where
  "account_routes = [
     Route ''GET'' [Lit ''users'', Lit ''me''] [Auth, Perm ''self:read''] ''users.Me'',
     Route ''GET'' [Lit ''users'', Lit ''me'', Lit ''memberships''] [Auth, Perm ''self:read''] ''users.ListMemberships'',
     Route ''GET'' [Lit ''users'', Lit ''me'', Lit ''team-memberships''] [Auth, Perm ''self:read''] ''users.ListTeamMemberships'',
     Route ''POST'' [Lit ''auth'', Lit ''switch-tenant''] [Auth] ''auth.SwitchTenant'',
     Route ''POST'' [Lit ''auth'', Lit ''leave-tenant''] [Auth] ''auth.LeaveTenant'',
     Route ''POST'' [Lit ''mfa'', Lit ''totp''] [Auth] ''mfa.EnrollTOTP'',
     Route ''POST'' [Lit ''mfa'', Lit ''totp'', Lit ''verify''] [Auth] ''mfa.VerifyTOTP'',
     Route ''POST'' [Lit ''mfa'', Lit ''backup-code'', Lit ''verify''] [Auth] ''mfa.VerifyBackupCode'',
     Route ''GET'' [Lit ''mfa''] [Auth] ''mfa.ListMethods'',
     Route ''DELETE'' [Lit ''mfa''] [Auth] ''mfa.RemoveMethod'',
     Route ''PATCH'' [Lit ''mfa'', Lit ''primary''] [Auth] ''mfa.SetPrimary'',
     Route ''POST'' [Lit ''mfa'', Lit ''webauthn'', Lit ''begin''] [Auth] ''mfa.BeginWebAuthnEnrollment'',
     Route ''POST'' [Lit ''mfa'', Lit ''webauthn'', Lit ''complete''] [Auth] ''mfa.CompleteWebAuthnEnrollment'',
     Route ''POST'' [Lit ''mfa'', Lit ''webauthn'', Lit ''auth'', Lit ''begin''] [Auth] ''mfa.BeginWebAuthnAuthentication'',
     Route ''POST'' [Lit ''mfa'', Lit ''webauthn'', Lit ''auth'', Lit ''complete''] [Auth] ''mfa.CompleteWebAuthnAuthentication'',
     Route ''POST'' [Lit ''passwordless'', Lit ''magic-link''] [Auth] ''passwordless.SendMagicLink'',
     Route ''POST'' [Lit ''passwordless'', Lit ''magic-link'', Lit ''verify''] [Auth] ''passwordless.VerifyMagicLink'',
     Route ''POST'' [Lit ''passwordless'', Lit ''password-reset'', Lit ''request''] [Auth] ''passwordless.RequestPasswordReset'',
     Route ''POST'' [Lit ''passwordless'', Lit ''password-reset'', Lit ''confirm''] [Auth] ''passwordless.ResetPassword'',
     Route ''POST'' [Lit ''passwordless'', Lit ''email'', Lit ''verify''] [Auth] ''passwordless.VerifyEmail'',
     Route ''GET'' [Lit ''password-policy'', Par ''tenantId''] [Auth] ''passwordless.GetPasswordPolicy'',
     Route ''PATCH'' [Lit ''password-policy'', Par ''tenantId''] [Auth] ''passwordless.UpdatePasswordPolicy'']"

definition authz_routes :: "route list" where
  "authz_routes = [
     Route ''POST'' [Lit ''authz'', Lit ''check''] [Auth] ''authz.Check'',
     Route ''POST'' [Lit ''authz'', Lit ''dry-run''] [Auth] ''authz.DryRun'',
     Route ''POST'' [Lit ''authz'', Lit ''acl'', Par ''tenantId''] [Auth] ''authz.GrantACL'',
     Route ''DELETE'' [Lit ''authz'', Lit ''acl'', Par ''tenantId''] [Auth] ''authz.RevokeACL'',
     Route ''GET'' [Lit ''authz'', Lit ''acl'', Par ''tenantId'', Lit ''by-subject''] [Auth] ''authz.ListACLBySubject'',
     Route ''GET'' [Lit ''authz'', Lit ''acl'', Par ''tenantId'', Lit ''by-resource''] [Auth] ''authz.ListACLByResource'',
     Route ''POST'' [Lit ''authz'', Lit ''roles'', Par ''roleName'', Lit ''permissions'', Par ''tenantId''] [Auth] ''authz.GrantRolePermission'',
     Route ''DELETE'' [Lit ''authz'', Lit ''roles'', Par ''roleName'', Lit ''permissions'', Par ''tenantId''] [Auth] ''authz.RevokeRolePermission'',
     Route ''DELETE'' [Lit ''authz'', Lit ''roles'', Par ''roleName'', Lit ''permissions'', Par ''tenantId'', Lit ''all''] [Auth] ''authz.RevokeAllRolePermissions'',
     Route ''GET'' [Lit ''authz'', Lit ''roles'', Par ''roleName'', Lit ''permissions'', Par ''tenantId''] [Auth] ''authz.ListRolePermissions'',
     Route ''POST'' [Lit ''authz'', Lit ''permissions'', Par ''tenantId''] [Auth] ''authz.CreatePermission'',
     Route ''GET'' [Lit ''authz'', Lit ''permissions'', Par ''tenantId''] [Auth] ''authz.ListPermissions'',
     Route ''GET'' [Lit ''authz'', Lit ''permissions'', Par ''tenantId'', Par ''id''] [Auth] ''authz.GetPermission'',
     Route ''DELETE'' [Lit ''authz'', Lit ''permissions'', Par ''tenantId'', Par ''id''] [Auth] ''authz.DeletePermission'',
     Route ''POST'' [Lit ''authz'', Lit ''policies'', Par ''tenantId''] [Auth] ''authz.CreatePolicy'',
     Route ''GET'' [Lit ''authz'', Lit ''policies'', Par ''tenantId''] [Auth] ''authz.ListPolicies'',
     Route ''GET'' [Lit ''authz'', Lit ''policies'', Par ''tenantId'', Par ''id''] [Auth] ''authz.GetPolicy'',
     Route ''POST'' [Lit ''authz'', Lit ''policies'', Par ''tenantId'', Par ''id'', Lit ''activate''] [Auth] ''authz.ActivatePolicy'',
     Route ''POST'' [Lit ''authz'', Lit ''policies'', Par ''tenantId'', Par ''id'', Lit ''deactivate''] [Auth] ''authz.DeactivatePolicy'',
     Route ''DELETE'' [Lit ''authz'', Lit ''policies'', Par ''tenantId'', Par ''id''] [Auth] ''authz.DeletePolicy'']"

definition tenant_routes :: "route list" where
  "tenant_routes = [
     Route ''POST'' [Lit ''tenants'', Par ''id'', Lit ''suspend''] [Auth] ''tenants.Suspend'',
     Route ''POST'' [Lit ''tenants'', Par ''id'', Lit ''reactivate''] [Auth] ''tenants.Reactivate'',
     Route ''POST'' [Lit ''tenants'', Par ''id'', Lit ''activate''] [Auth] ''tenants.Activate'',
     Route ''DELETE'' [Lit ''tenants'', Par ''id''] [Auth] ''tenants.Delete'',
     Route ''POST'' [Lit ''teams''] [Auth] ''teams.Create'',
     Route ''GET'' [Lit ''teams''] [Auth] ''teams.List'',
     Route ''GET'' [Lit ''teams'', Par ''id''] [Auth] ''teams.Get'',
     Route ''POST'' [Lit ''teams'', Par ''id'', Lit ''members''] [Auth] ''teams.AddMember'',
     Route ''GET'' [Lit ''teams'', Par ''id'', Lit ''members''] [Auth] ''teams.ListMembers'',
     Route ''GET'' [Lit ''teams'', Par ''id'', Lit ''members'', Par ''userId''] [Auth] ''teams.GetMember'',
     Route ''PATCH'' [Lit ''teams'', Par ''id'', Lit ''members'', Par ''userId''] [Auth] ''teams.UpdateMember'',
     Route ''DELETE'' [Lit ''teams'', Par ''id'', Lit ''members'', Par ''userId''] [Auth] ''teams.RemoveMember'']"

definition idp_routes :: "route list" where
  "idp_routes = [
     Route ''POST'' [Lit ''idp'', Par ''tenantId'', Lit ''clients''] [] ''idp.RegisterClient'',
     Route ''GET'' [Lit ''idp'', Par ''tenantId'', Lit ''clients''] [] ''idp.ListClients'',
     Route ''GET'' [Lit ''idp'', Par ''tenantId'', Lit ''clients'', Par ''id''] [] ''idp.GetClient'',
     Route ''PATCH'' [Lit ''idp'', Par ''tenantId'', Lit ''clients'', Par ''id''] [] ''idp.UpdateClient'',
     Route ''DELETE'' [Lit ''idp'', Par ''tenantId'', Lit ''clients'', Par ''id''] [] ''idp.DeleteClient'',
     Route ''GET'' [Lit ''idp'', Lit ''authorize''] [] ''idp.Authorize'',
     Route ''POST'' [Lit ''idp'', Lit ''consent''] [Auth] ''idp.Consent'',
     Route ''POST'' [Lit ''idp'', Lit ''token''] [] ''idp.Token'',
     Route ''GET'' [Lit ''idp'', Lit ''jwks''] [] ''idp.JWKS'',
     Route ''GET'' [Lit ''idp'', Lit ''.well-known'', Lit ''openid-configuration''] [] ''idp.Discovery'',
     Route ''GET'' [Lit ''idp'', Lit ''userinfo''] [Auth] ''idp.UserInfo'']"

definition record_routes :: "route list" where
  "record_routes = [
     Route ''POST'' [Lit ''gdpr'', Lit ''export''] [Auth] ''gdpr.RequestExport'',
     Route ''GET'' [Lit ''gdpr'', Lit ''export'', Par ''requestId''] [Auth] ''gdpr.GetExport'',
     Route ''POST'' [Lit ''gdpr'', Lit ''erasure''] [Auth] ''gdpr.RequestErasure'',
     Route ''GET'' [Lit ''gdpr'', Lit ''erasure'', Par ''requestId''] [Auth] ''gdpr.GetErasureStatus'',
     Route ''GET'' [Lit ''audit''] [Auth] ''audit.List'',
     Route ''GET'' [Lit ''audit'', Par ''id''] [Auth] ''audit.Get'',
     Route ''GET'' [Lit ''audit'', Lit ''verify''] [Auth] ''audit.VerifyChain'',
     Route ''GET'' [Lit ''audit'', Lit ''export''] [Auth] ''audit.Export'']"

text \<open>The engine: \<open>/healthz\<close> and the group \<open>/api/v1\<close>.\<close>

definition api_v1 :: "route \<Rightarrow> route" where
  "api_v1 r = Route (rt_method r) (Lit ''api'' # Lit ''v1'' # rt_path r) (rt_guards r) (rt_handler r)"

definition NewRouter :: "route list" where
  "NewRouter = Route ''GET'' [Lit ''healthz''] [] ''healthz'' #
     map api_v1 (public_routes @ federation_routes @ account_routes @ authz_routes @ tenant_routes @
       idp_routes @ record_routes)"

section \<open>Requests\<close>

text \<open>The values of a pattern's parameters in a path that matches it.\<close>

fun match_path :: "seg list \<Rightarrow> string list \<Rightarrow> (string \<times> string) list option" where
  "match_path [] [] = Some []"
| "match_path (Lit a # ps) (x # xs) = (if a = x then match_path ps xs else None)"
| "match_path (Par v # ps) (x # xs) = (if x = [] then None else map_option ((#) (v, x)) (match_path ps xs))"
| "match_path _ _ = None"

text \<open>At the first segment where two matching patterns differ, gin prefers the literal one.\<close>

fun more_literal :: "seg list \<Rightarrow> seg list \<Rightarrow> bool" where
  "more_literal (Lit a # ps) (Par b # qs) = True"
| "more_literal (Par a # ps) (Lit b # qs) = False"
| "more_literal (p # ps) (q # qs) = more_literal ps qs"
| "more_literal _ _ = False"

fun find_route :: "route list \<Rightarrow> string \<Rightarrow> string list \<Rightarrow> route option" where
  "find_route [] meth path = None"
| "find_route (r # rs) meth path =
     (if rt_method r = meth \<and> match_path (rt_path r) path \<noteq> None
      then (case find_route rs meth path of
              Some q \<Rightarrow> (if more_literal (rt_path q) (rt_path r) then Some q else Some r)
            | None \<Rightarrow> Some r)
      else find_route rs meth path)"

text \<open>The middleware in order; the first that aborts ends the request. \<open>limited\<close> is what the signup limiter answers.\<close>

fun run_guards :: "TokenService \<Rightarrow> time \<Rightarrow> string \<Rightarrow> http_abort option \<Rightarrow> guard list \<Rightarrow> request_identity option \<Rightarrow>
    http_abort + request_identity option" where
  "run_guards tokens now header limited [] ctx = Inr ctx"
| "run_guards tokens now header limited (SignupLimit # gs) ctx =
     (case limited of Some a \<Rightarrow> Inl a | None \<Rightarrow> run_guards tokens now header limited gs ctx)"
| "run_guards tokens now header limited (Auth # gs) ctx =
     (case RequireAuth tokens now header of
        Inl a \<Rightarrow> Inl a | Inr i \<Rightarrow> run_guards tokens now header limited gs (Some i))"
| "run_guards tokens now header limited (Perm p # gs) ctx =
     (case RequirePermission p ctx of
        Inl a \<Rightarrow> Inl a | Inr ctx' \<Rightarrow> run_guards tokens now header limited gs ctx')"

text \<open>The handler a request reaches, with the path's parameters and the identity in its context.\<close>

definition dispatch :: "TokenService \<Rightarrow> time \<Rightarrow> string \<Rightarrow> http_abort option \<Rightarrow> string \<Rightarrow> string list \<Rightarrow>
    (http_abort + string \<times> (string \<times> string) list \<times> request_identity option) option" where
  "dispatch tokens now header limited meth path =
     map_option (\<lambda>r. case run_guards tokens now header limited (rt_guards r) None of
         Inl a \<Rightarrow> Inl a
       | Inr ctx \<Rightarrow> Inr (rt_handler r, the (match_path (rt_path r) path), ctx))
       (find_route NewRouter meth path)"

lemmas route_groups = public_routes_def federation_routes_def account_routes_def authz_routes_def
  tenant_routes_def idp_routes_def record_routes_def

end
