(* ===== verification/RouterProps.thy ===== *)
theory RouterProps
  imports Router
begin

text \<open>Which requests reach which handler, and with whose identity.\<close>

definition open_handlers :: "string list" where
  "open_handlers = [''healthz'', ''auth.Register'', ''auth.Login'', ''tenants.Create'',
     ''oauth2.RegisterProvider'', ''oauth2.ListProviders'', ''oauth2.GetProvider'', ''oauth2.DeleteProvider'',
     ''oauth2.GetAuthURL'', ''oauth2.HandleCallback'', ''oauth2.RedirectCallback'',
     ''saml.RegisterProvider'', ''saml.ListProviders'', ''saml.GetProvider'', ''saml.DeleteProvider'',
     ''saml.InitiateSSO'', ''saml.ACS'', ''saml.SLO'', ''saml.Metadata'',
     ''idp.RegisterClient'', ''idp.ListClients'', ''idp.GetClient'', ''idp.UpdateClient'', ''idp.DeleteClient'',
     ''idp.Authorize'', ''idp.Token'', ''idp.JWKS'', ''idp.Discovery'']"

lemma find_route_in:
  "find_route rs meth path = Some r \<Longrightarrow> r \<in> set rs \<and> rt_method r = meth \<and> match_path (rt_path r) path \<noteq> None"
  by (induction rs) (auto split: if_splits option.splits)

lemma run_guards_identity:
  "run_guards tokens now header limited gs ctx = Inr ctx' \<Longrightarrow>
   (case ctx' of None \<Rightarrow> ctx = None \<and> Auth \<notin> set gs
    | Some i \<Rightarrow> ctx = Some i \<or> RequireAuth tokens now header = Inr i)"
  by (induction tokens now header limited gs ctx rule: run_guards.induct)
    (auto simp: RequirePermission_def Let_def split: option.splits sum.splits if_splits)

lemma run_guards_anonymous:
  "run_guards tokens now [] None gs None = Inr None \<longleftrightarrow> list_all (\<lambda>g. g = SignupLimit) gs"
proof (induction gs)
  case (Cons g gs)
  then show ?case
    by (cases g) (auto simp: RequireAuth_def RequirePermission_def strings_HasPrefix_def Let_def RBACService_Allow.simps)
qed simp

lemma open_routes:
  "map rt_handler (filter (\<lambda>r. list_all (\<lambda>g. g = SignupLimit) (rt_guards r)) NewRouter) = open_handlers"
  by (simp add: NewRouter_def route_groups api_v1_def open_handlers_def)

lemma guarded_routes: "list_all (\<lambda>r. Auth \<in> set (rt_guards r) \<or> list_all (\<lambda>g. g = SignupLimit) (rt_guards r)) NewRouter"
  by (simp add: NewRouter_def route_groups api_v1_def)

text \<open>C28: Who reaches which handler. A handler that is not one of the listed ones runs only for a request with a
  valid bearer token, and the identity in its context is the token's. The listed handlers, which
  include the management of OAuth2, SAML and identity provider clients, are those a request without
  a token reaches.\<close>

theorem route_security:
  assumes "dispatch tokens now header limited meth path = Some (Inr (h, ps, ctx))"
  shows "(case ctx of
            None \<Rightarrow> h \<in> set open_handlers
          | Some i \<Rightarrow> \<exists>tok c. header = ''Bearer '' @ tok \<and> TokenService_Parse tokens now tok = Inr c \<and>
              i = \<lparr>ctx_userID = cl_UserID c, ctx_tenantID = cl_TenantID c, ctx_roles = cl_Roles c\<rparr>) \<and>
    map rt_handler (filter (\<lambda>r. run_guards tokens now [] None (rt_guards r) None = Inr None) NewRouter) = open_handlers"
proof
  obtain r where r: "find_route NewRouter meth path = Some r" and h: "h = rt_handler r"
      and g: "run_guards tokens now header limited (rt_guards r) None = Inr ctx"
    using assms by (cases "find_route NewRouter meth path") (auto simp: dispatch_def split: sum.splits)
  have mem: "r \<in> set NewRouter" using find_route_in [OF r] by simp
  show "case ctx of
          None \<Rightarrow> h \<in> set open_handlers
        | Some i \<Rightarrow> \<exists>tok c. header = ''Bearer '' @ tok \<and> TokenService_Parse tokens now tok = Inr c \<and>
            i = \<lparr>ctx_userID = cl_UserID c, ctx_tenantID = cl_TenantID c, ctx_roles = cl_Roles c\<rparr>"
  proof (cases ctx)
    case None
    then have "Auth \<notin> set (rt_guards r)" using run_guards_identity [OF g] by simp
    then have "list_all (\<lambda>g. g = SignupLimit) (rt_guards r)"
      using guarded_routes mem by (auto simp: list_all_iff)
    then have "h \<in> set (map rt_handler (filter (\<lambda>r. list_all (\<lambda>g. g = SignupLimit) (rt_guards r)) NewRouter))"
      using mem h by auto
    then show ?thesis unfolding open_routes using None by simp
  next
    case (Some i)
    then have "RequireAuth tokens now header = Inr i" using run_guards_identity [OF g] by simp
    then show ?thesis using RequireAuth_ok [of tokens now header i] Some by simp
  qed
qed (simp only: run_guards_anonymous open_routes)

theorem route_security_witness:
  "dispatch demo_tokens 0 [] None ''GET'' [''healthz''] = Some (Inr (''healthz'', [], None)) \<and>
   ''healthz'' \<in> set open_handlers"
proof -
  have d: "dispatch demo_tokens 0 [] None ''GET'' [''healthz''] = Some (Inr (''healthz'', [], None))"
    by (simp add: dispatch_def NewRouter_def route_groups api_v1_def)
  show ?thesis using d route_security [OF d] by simp
qed

section \<open>Suspending a tenant\<close>

lemma suspend_route:
  "tid \<noteq> [] \<Longrightarrow> find_route NewRouter ''POST'' [''api'', ''v1'', ''tenants'', tid, ''suspend''] =
     Some (api_v1 (Route ''POST'' [Lit ''tenants'', Par ''id'', Lit ''suspend''] [Auth] ''tenants.Suspend''))"
  by (simp add: NewRouter_def route_groups api_v1_def)

lemma dispatch_suspend:
  assumes "TokenService_Parse tokens now tok = Inr c" and "tid \<noteq> []"
  shows "dispatch tokens now (''Bearer '' @ tok) None ''POST'' [''api'', ''v1'', ''tenants'', tid, ''suspend''] =
    Some (Inr (''tenants.Suspend'', [(''id'', tid)],
      Some \<lparr>ctx_userID = cl_UserID c, ctx_tenantID = cl_TenantID c, ctx_roles = cl_Roles c\<rparr>))"
  using suspend_route [OF assms(2)] RequireAuth_bearer [OF assms(1)] assms(2)
  by (simp add: dispatch_def api_v1_def)



end
