(* ===== verification/Gdpr.thy ===== *)
theory Gdpr
  imports AuditTrail
begin

text \<open>
  service/gdpr.go and api/gdpr_handler.go: data exports and erasure requests. A structure the export
  contains is kept as the JSON text its encoder gives (\<open>ARaw\<close>), since the record is stored as JSON.
  Times lie in the years 0 to 9999: \<open>json.Marshal\<close> refuses others.
\<close>

section \<open>The exported data\<close>

text \<open>\<open>Time.MarshalJSON\<close>: RFC 3339 with the fraction of the second, its trailing zeros dropped.\<close>

definition json_time :: "(time \<Rightarrow> int) \<Rightarrow> time \<Rightarrow> string" where
  "json_time zone t =
     (let frac = rev (dropWhile (\<lambda>c. c = CHR ''0'') (rev (pad 9 (t mod time_Second))));
          off = zone t
      in [CHR 0x22] @ time_Format_local off t @ (if frac = [] then [] else ''.'' @ frac) @
         (if off = 0 then ''Z''
          else (if off < 0 then ''-'' else ''+'') @ pad 2 (\<bar>off\<bar> div 3600) @ '':'' @ pad 2 (\<bar>off\<bar> mod 3600 div 60)) @
         [CHR 0x22])"

text \<open>A struct without tags: its fields in order. A slice of roles that was never filled is nil.\<close>

definition json_struct :: "(string \<times> string) list \<Rightarrow> string" where
  "json_struct fs = ''{'' @ strings_Join (map (\<lambda>(k, v). json_string k @ '':'' @ v) fs) '','' @ ''}''"

definition json_slice :: "string list \<Rightarrow> string" where
  "json_slice xs = ''['' @ strings_Join xs '','' @ '']''"

definition json_roles :: "string list \<Rightarrow> string" where
  "json_roles roles = (if roles = [] then ''null'' else json_slice (map json_string roles))"

definition json_membership :: "(time \<Rightarrow> int) \<Rightarrow> Membership \<Rightarrow> string" where
  "json_membership zone m = json_struct
     [(''UserID'', json_string (mem_UserID m)), (''TenantID'', json_string (mem_TenantID m)),
      (''Roles'', json_roles (mem_Roles m)), (''CreatedAt'', json_time zone (mem_CreatedAt m)),
      (''UpdatedAt'', json_time zone (mem_UpdatedAt m))]"

definition json_team_membership :: "(time \<Rightarrow> int) \<Rightarrow> TeamMembership \<Rightarrow> string" where
  "json_team_membership zone m = json_struct
     [(''UserID'', json_string (tm_UserID m)), (''TeamID'', json_string (tm_TeamID m)),
      (''Roles'', json_roles (tm_Roles m)), (''CreatedAt'', json_time zone (tm_CreatedAt m)),
      (''UpdatedAt'', json_time zone (tm_UpdatedAt m))]"

definition json_audit_log :: "(time \<Rightarrow> int) \<Rightarrow> AuditLog \<Rightarrow> string" where
  "json_audit_log zone l = json_struct
     [(''ID'', json_string (al_ID l)), (''TenantID'', json_string (al_TenantID l)),
      (''EventType'', json_string (al_EventType l)), (''ActorID'', json_string (al_ActorID l)),
      (''ActorType'', json_string (al_ActorType l)), (''ResourceType'', json_string (al_ResourceType l)),
      (''ResourceID'', json_string (al_ResourceID l)), (''Action'', json_string (al_Action l)),
      (''Before'', json_Marshal_map (al_Before l)), (''After'', json_Marshal_map (al_After l)),
      (''Metadata'', json_Marshal_map (al_Metadata l)), (''Timestamp'', json_time zone (al_Timestamp l)),
      (''Hash'', json_string (al_Hash l)), (''PrevHash'', json_string (al_PrevHash l))]"

definition export_data :: "(time \<Rightarrow> int) \<Rightarrow> User \<Rightarrow> Membership list \<Rightarrow> TeamMembership list \<Rightarrow> AuditLog list \<Rightarrow> time \<Rightarrow> string \<Rightarrow> any_map" where
  "export_data zone user memberships teamMemberships auditLogs now email = Some
     [(''user'', AMap [(''id'', AStr (user_ID user)), (''email'', AStr (user_Email user)),
        (''created_at'', ARaw (json_time zone (user_CreatedAt user))),
        (''updated_at'', ARaw (json_time zone (user_UpdatedAt user)))]),
      (''memberships'', ARaw (json_slice (map (json_membership zone) memberships))),
      (''team_memberships'', ARaw (json_slice (map (json_team_membership zone) teamMemberships))),
      (''audit_logs'', ARaw (json_slice (map (json_audit_log zone) auditLogs))),
      (''exported_at'', ARaw (json_time zone now)),
      (''exported_by_email'', AStr email)]"

section \<open>Service\<close>

record 'w GDPRService =
  gs_users :: "'w UserRepository"
  gs_memberships :: "'w MembershipRepository"
  gs_teamMemberships :: "'w TeamMembershipRepository"
  gs_auditLogs :: "'w AuditLogRepository"
  gs_exportRepo :: "'w AuditExportRepository"

definition NewGDPRService :: "'w UserRepository \<Rightarrow> 'w MembershipRepository \<Rightarrow> 'w TeamMembershipRepository \<Rightarrow>
    'w AuditLogRepository \<Rightarrow> 'w AuditExportRepository \<Rightarrow> 'w GDPRService" where
  "NewGDPRService users memberships teamMemberships auditLogs exportRepo = \<lparr>gs_users = users,
     gs_memberships = memberships, gs_teamMemberships = teamMemberships, gs_auditLogs = auditLogs,
     gs_exportRepo = exportRepo\<rparr>"

record ExportRequest =
  exq_UserID :: string
  exq_TenantID :: string
  exq_Email :: string

record ExportResult =
  exr_RequestID :: string
  exr_UserData :: any_map
  exr_ExpiresAt :: time

text \<open>The account a request names, and its membership if the request names a tenant.\<close>

definition gdpr_subject :: "'w GDPRService \<Rightarrow> string \<Rightarrow> string \<Rightarrow> 'w \<Rightarrow> err + User" where
  "gdpr_subject s email tenantID w =
     (case UserRepository_FindByEmail (gs_users s) email w of
        Inl e \<Rightarrow> Inl (if e = IdErr ErrUserNotFound then FmtErr ''user not found'' else e)
      | Inr user \<Rightarrow>
          (if tenantID \<noteq> [] then
             (case MembershipRepository_FindByUserAndTenant (gs_memberships s) (user_ID user) tenantID w of
                Inl e \<Rightarrow> Inl (FmtErr ''user not a member of tenant'')
              | Inr m \<Rightarrow> Inr user)
           else Inr user))"

definition gdpr_event :: "string \<Rightarrow> string \<Rightarrow> string \<Rightarrow> string \<Rightarrow> any_map \<Rightarrow> AuditLog" where
  "gdpr_event tenantID eventType actorID action after = \<lparr>
     al_ID = [], al_TenantID = tenantID, al_EventType = eventType, al_ActorID = actorID, al_ActorType = ''user'',
     al_ResourceType = [], al_ResourceID = [], al_Action = action, al_Before = None, al_After = after,
     al_Metadata = None, al_Timestamp = zero_time, al_Hash = [], al_PrevHash = []\<rparr>"

definition gdpr_filter :: "string \<Rightarrow> AuditLogFilter" where
  "gdpr_filter userID = \<lparr>af_TenantID = [], af_EventTypes = [], af_ActorID = userID, af_ResourceType = [],
     af_ResourceID = [], af_StartTime = zero_time, af_EndTime = zero_time, af_Limit = 1000, af_Offset = 0,
     af_SortOrder = []\<rparr>"

record export_clock =
  xc_exported :: time
  xc_request :: time
  xc_expiry :: time
  xc_created :: time
  xc_log :: "time \<times> time \<times> time"

definition GDPRService_RequestExport :: "(time \<Rightarrow> int) \<Rightarrow> 'w GDPRService \<Rightarrow> export_clock \<Rightarrow> ExportRequest \<Rightarrow> 'w \<Rightarrow>
    (err + ExportResult) \<times> 'w" where
  "GDPRService_RequestExport zone s c req w =
     (case gdpr_subject s (exq_Email req) (exq_TenantID req) w of
        Inl e \<Rightarrow> (Inl e, w)
      | Inr user \<Rightarrow>
     (case MembershipRepository_ListByUser (gs_memberships s) (user_ID user) w of
        Inl e \<Rightarrow> (Inl e, w)
      | Inr memberships \<Rightarrow>
     (case TeamMembershipRepository_ListByUser (gs_teamMemberships s) (user_ID user) w of
        Inl e \<Rightarrow> (Inl e, w)
      | Inr teamMemberships \<Rightarrow>
     (case AuditLogRepository_List (gs_auditLogs s) (gdpr_filter (user_ID user)) w of
        Inl e \<Rightarrow> (Inl e, w)
      | Inr auditLogs \<Rightarrow>
          (let data = export_data zone user memberships teamMemberships auditLogs (xc_exported c) (exq_Email req);
               requestID = ''export_'' @ user_ID user @ ''_'' @ show_int (time_UnixNano (xc_request c));
               expiresAt = xc_expiry c + 30 * 24 * time_Hour
           in case AuditExportRepository_Create (gs_exportRepo s) \<lparr>
                     ae_RequestID = requestID, ae_UserID = user_ID user, ae_TenantID = exq_TenantID req,
                     ae_Email = exq_Email req, ae_Data = data, ae_CreatedAt = xc_created c,
                     ae_ExpiresAt = expiresAt, ae_Status = ''ready''\<rparr> w of
                (Inl e, w1) \<Rightarrow> (Inl e, w1)
              | (Inr x, w1) \<Rightarrow>
                  (Inr \<lparr>exr_RequestID = requestID, exr_UserData = data, exr_ExpiresAt = expiresAt\<rparr>,
                   snd (AuditLogRepository_Create (gs_auditLogs s) (xc_log c)
                     (gdpr_event (exq_TenantID req) ''data.exported'' (user_ID user) ''Data export requested''
                       (Some [(''export_request_id'', AStr requestID), (''expires_at'', ARaw (json_time zone expiresAt))])) w1)))))))"

text \<open>An expired export is stored as such; the result of that write is not read.\<close>

definition GDPRService_GetExport :: "'w GDPRService \<Rightarrow> time \<Rightarrow> string \<Rightarrow> 'w \<Rightarrow> (err + AuditExport) \<times> 'w" where
  "GDPRService_GetExport s now requestID w =
     (case AuditExportRepository_FindByID (gs_exportRepo s) requestID w of
        Inl e \<Rightarrow> (Inl (if e = AcErr ErrAuditExportNotFound then SvcOpsErr service_ErrExportNotFound else e), w)
      | Inr export \<Rightarrow>
          (if time_Before (ae_ExpiresAt export) now
           then (Inl (SvcOpsErr service_ErrExportExpired),
                 snd (AuditExportRepository_Update (gs_exportRepo s) (export\<lparr>ae_Status := ''expired''\<rparr>) w))
           else (Inr export, w)))"

record ErasureRequest =
  erq_UserID :: string
  erq_TenantID :: string
  erq_Email :: string
  erq_Reason :: string

record ErasureResult =
  ers_RequestID :: string
  ers_Status :: string

text \<open>The readings: the request ID, the log's three, the two of the record and its expiry.\<close>

record erasure_clock =
  ec_request :: time
  ec_log :: "time \<times> time \<times> time"
  ec_requested :: time
  ec_created :: time
  ec_expiry :: time

definition GDPRService_RequestErasure :: "(time \<Rightarrow> int) \<Rightarrow> 'w GDPRService \<Rightarrow> erasure_clock \<Rightarrow> ErasureRequest \<Rightarrow> 'w \<Rightarrow>
    (err + ErasureResult) \<times> 'w" where
  "GDPRService_RequestErasure zone s c req w =
     (case gdpr_subject s (erq_Email req) (erq_TenantID req) w of
        Inl e \<Rightarrow> (Inl e, w)
      | Inr user \<Rightarrow>
     (case AuditExportRepository_FindByEmailAndStatus (gs_exportRepo s) (erq_Email req) ''pending_erasure'' w of
        Inr (Some existing) \<Rightarrow> (Inl (SvcOpsErr service_ErrErasureInProgress), w)
      | _ \<Rightarrow>
          (let requestID = ''erasure_'' @ user_ID user @ ''_'' @ show_int (time_UnixNano (ec_request c));
               w1 = snd (AuditLogRepository_Create (gs_auditLogs s) (ec_log c)
                 (gdpr_event (erq_TenantID req) ''data.erased'' (user_ID user) ''Data erasure requested''
                   (Some [(''erasure_request_id'', AStr requestID), (''reason'', AStr (erq_Reason req))])) w)
           in case AuditExportRepository_Create (gs_exportRepo s) \<lparr>
                     ae_RequestID = requestID, ae_UserID = user_ID user, ae_TenantID = erq_TenantID req,
                     ae_Email = erq_Email req,
                     ae_Data = Some [(''reason'', AStr (erq_Reason req)), (''requested_at'', ARaw (json_time zone (ec_requested c)))],
                     ae_CreatedAt = ec_created c, ae_ExpiresAt = ec_expiry c + 7 * 24 * time_Hour,
                     ae_Status = ''pending_erasure''\<rparr> w1 of
                (Inl e, w2) \<Rightarrow> (Inl e, w2)
              | (Inr x, w2) \<Rightarrow> (Inr \<lparr>ers_RequestID = requestID, ers_Status = ''pending''\<rparr>, w2))))"

text \<open>Setting a key of a nil map panics. Nothing but the record is written.\<close>

definition GDPRService_ExecuteErasure :: "(time \<Rightarrow> int) \<Rightarrow> 'w GDPRService \<Rightarrow> time \<Rightarrow> string \<Rightarrow> 'w \<Rightarrow> ((err + unit) \<times> 'w) outcome" where
  "GDPRService_ExecuteErasure zone s now requestID w =
     (case AuditExportRepository_FindByID (gs_exportRepo s) requestID w of
        Inl e \<Rightarrow> Returns (Inl e, w)
      | Inr export \<Rightarrow>
          (if ae_Status export \<noteq> ''pending_erasure'' then Returns (Inl (FmtErr ''erasure not in pending state''), w)
           else if ae_Data export = None then Panics
           else Returns (AuditExportRepository_Update (gs_exportRepo s)
             (export\<lparr>ae_Status := ''completed'', ae_Data := map_set (ae_Data export) ''completed_at'' (ARaw (json_time zone now))\<rparr>) w)))"

section \<open>Handlers\<close>

text \<open>\<open>exportResponse\<close> and \<open>erasureResponse\<close> have the fields of the service's results.\<close>

record exportRequest =
  xrq_Email :: string
  xrq_TenantID :: string

record erasureRequest =
  yrq_Email :: string
  yrq_TenantID :: string
  yrq_Reason :: string

definition GDPRHandler_RequestExport :: "(time \<Rightarrow> int) \<Rightarrow> 'w GDPRService \<Rightarrow> export_clock \<Rightarrow> request_identity option \<Rightarrow> err + exportRequest \<Rightarrow> 'w \<Rightarrow>
    (ExportResult response \<times> 'w) outcome" where
  "GDPRHandler_RequestExport zone s c ctx bound w =
     (case ctx of
        None \<Rightarrow> Panics
      | Some i \<Rightarrow> Returns
          (case bound of
             Inl e \<Rightarrow> (writeError 400 ''invalid_request'', w)
           | Inr req \<Rightarrow>
               (case GDPRService_RequestExport zone s c \<lparr>exq_UserID = ctx_userID i,
                       exq_TenantID = xrq_TenantID req, exq_Email = xrq_Email req\<rparr> w of
                  (Inl e, w1) \<Rightarrow>
                    (if e = SvcOpsErr service_ErrExportNotFound then writeError 404 ''not_found''
                     else writeError 500 ''internal_error'', w1)
                | (Inr result, w1) \<Rightarrow> (Reply 200 result, w1))))"

definition GDPRHandler_GetExport :: "'w GDPRService \<Rightarrow> time \<Rightarrow> string \<Rightarrow> 'w \<Rightarrow> AuditExport response \<times> 'w" where
  "GDPRHandler_GetExport s now requestID w =
     (case GDPRService_GetExport s now requestID w of
        (Inl e, w1) \<Rightarrow>
          (if e = SvcOpsErr service_ErrExportNotFound then writeError 404 ''not_found''
           else if e = SvcOpsErr service_ErrExportExpired then writeError 410 ''expired''
           else writeError 500 ''internal_error'', w1)
      | (Inr export, w1) \<Rightarrow> (Reply 200 export, w1))"

definition GDPRHandler_RequestErasure :: "(time \<Rightarrow> int) \<Rightarrow> 'w GDPRService \<Rightarrow> erasure_clock \<Rightarrow> request_identity option \<Rightarrow> err + erasureRequest \<Rightarrow> 'w \<Rightarrow>
    (ErasureResult response \<times> 'w) outcome" where
  "GDPRHandler_RequestErasure zone s c ctx bound w =
     (case ctx of
        None \<Rightarrow> Panics
      | Some i \<Rightarrow> Returns
          (case bound of
             Inl e \<Rightarrow> (writeError 400 ''invalid_request'', w)
           | Inr req \<Rightarrow>
               (case GDPRService_RequestErasure zone s c \<lparr>erq_UserID = ctx_userID i,
                       erq_TenantID = yrq_TenantID req, erq_Email = yrq_Email req, erq_Reason = yrq_Reason req\<rparr> w of
                  (Inl e, w1) \<Rightarrow>
                    (if e = SvcOpsErr service_ErrErasureInProgress then writeError 409 ''erasure_in_progress''
                     else writeError 500 ''internal_error'', w1)
                | (Inr result, w1) \<Rightarrow> (Reply 200 result, w1))))"

definition GDPRHandler_GetErasureStatus :: "unit response" where
  "GDPRHandler_GetErasureStatus = writeError 501 ''not_implemented''"

end
