(* ===== verification/GdprProps.thy ===== *)
theory GdprProps
  imports Gdpr IdentityProps
begin

text \<open>
  The life of an export and of an erasure request over the database, and what executing an erasure
  leaves behind.
\<close>

definition main_gdpr :: "gorms \<Rightarrow> db GDPRService" where
  "main_gdpr G = NewGDPRService (NewUserRepository G) (NewMembershipRepository G) (NewTeamMembershipRepository G)
     (NewAuditLogRepository G) (NewAuditExportRepository G)"

lemma main_gdpr_simps [simp]:
  "gs_users (main_gdpr G) = NewUserRepository G"
  "gs_memberships (main_gdpr G) = NewMembershipRepository G"
  "gs_teamMemberships (main_gdpr G) = NewTeamMembershipRepository G"
  "AuditLogRepository_Create (gs_auditLogs (main_gdpr G)) = auditLogRepository_Create G"
  "AuditLogRepository_List (gs_auditLogs (main_gdpr G)) = auditLogRepository_List G"
  "AuditExportRepository_Create (gs_exportRepo (main_gdpr G)) = auditExportRepository_Create G"
  "AuditExportRepository_FindByID (gs_exportRepo (main_gdpr G)) = auditExportRepository_FindByID G"
  "AuditExportRepository_FindByEmailAndStatus (gs_exportRepo (main_gdpr G)) = auditExportRepository_FindByEmailAndStatus G"
  "AuditExportRepository_Update (gs_exportRepo (main_gdpr G)) = auditExportRepository_Update G"
  by (simp_all add: main_gdpr_def NewGDPRService_def NewAuditLogRepository_def NewAuditExportRepository_def)

text \<open>Two databases that differ in the audit logs and the export records at most.\<close>

definition same_accounts :: "db \<Rightarrow> db \<Rightarrow> bool" where
  "same_accounts d d' \<longleftrightarrow>
     d'\<lparr>t_audit_logs := [], t_audit_exports := []\<rparr> = d\<lparr>t_audit_logs := [], t_audit_exports := []\<rparr>"

lemma same_accounts_refl [simp]: "same_accounts d d"
  by (simp add: same_accounts_def)

lemma same_accounts_trans: "same_accounts d d1 \<Longrightarrow> same_accounts d1 d2 \<Longrightarrow> same_accounts d d2"
  by (simp add: same_accounts_def)

lemma same_accounts_tables:
  assumes "same_accounts d d'"
  shows "t_users d' = t_users d" and "t_tenants d' = t_tenants d" and "t_memberships d' = t_memberships d"
    and "t_teams d' = t_teams d" and "t_team_memberships d' = t_team_memberships d"
proof -
  note eq = assms [unfolded same_accounts_def]
  show "t_users d' = t_users d" using arg_cong [OF eq, of t_users] by simp
  show "t_tenants d' = t_tenants d" using arg_cong [OF eq, of t_tenants] by simp
  show "t_memberships d' = t_memberships d" using arg_cong [OF eq, of t_memberships] by simp
  show "t_teams d' = t_teams d" using arg_cong [OF eq, of t_teams] by simp
  show "t_team_memberships d' = t_team_memberships d" using arg_cong [OF eq, of t_team_memberships] by simp
qed

lemma same_accounts_log: "auditLogRepository_Create G clock l d = (r, d') \<Longrightarrow> same_accounts d d'"
  by (auto simp: same_accounts_def auditLogRepository_Create_def Let_def split: prod.splits sum.splits)

lemma same_accounts_export: "auditExportRepository_Create G x d = (r, d') \<Longrightarrow> same_accounts d d'"
  by (auto simp: same_accounts_def auditExportRepository_Create_def split: prod.splits sum.splits)

lemma same_accounts_update: "auditExportRepository_Update G x d = (r, d') \<Longrightarrow> same_accounts d d'"
  by (auto simp: same_accounts_def auditExportRepository_Update_def split: prod.splits sum.splits)

text \<open>A login reads none of the two tables.\<close>

lemma same_accounts_login:
  assumes "same_accounts d d'"
  shows "AuthService_Login (main_auth G lib tokens) clock email pw t d' = AuthService_Login (main_auth G lib tokens) clock email pw t d"
proof -
  note tables = same_accounts_tables [OF assms]
  have finds: "teamRepository_FindByID G i d' = teamRepository_FindByID G i d"
    "tenantRepository_FindByID G i d' = tenantRepository_FindByID G i d"
    "membershipRepository_FindByUserAndTenant G i j d' = membershipRepository_FindByUserAndTenant G i j d"
    "teamMembershipRepository_ListByUser G i d' = teamMembershipRepository_ListByUser G i d"
    "userRepository_FindByEmail G i d' = userRepository_FindByEmail G i d" for i j
    by (simp_all add: teamRepository_FindByID_def tenantRepository_FindByID_def membershipRepository_FindByUserAndTenant_def
        teamMembershipRepository_ListByUser_def userRepository_FindByEmail_def tables)
  have teams: "team_roles (NewTeamRepository G) t d' tms rs = team_roles (NewTeamRepository G) t d tms rs" for t tms rs
    by (induction tms arbitrary: rs) (simp_all add: finds split: sum.split)
  have roles: "AuthService_rolesForTenant (main_auth G lib tokens) u t d' = AuthService_rolesForTenant (main_auth G lib tokens) u t d" for u t
    by (simp add: AuthService_rolesForTenant_def finds teams split: sum.split)
  show ?thesis by (simp add: AuthService_Login_def finds roles split: sum.split)
qed

section \<open>Records\<close>

context database
begin

lemmas account_by_email = FindByEmail_hit

text \<open>A new record has an ID no other has; it is found by it as long as the table is not changed.\<close>

lemma export_Create_row:
  assumes "auditExportRepository_Create G x d = (Inr x', d')" and "ae_RequestID x \<noteq> []" and "ae_Status x \<noteq> []"
  obtains m where "t_audit_exports d' = t_audit_exports d @ [m]" and "aem_RequestID m = ae_RequestID x"
    and "aem_UserID m = ae_UserID x" and "aem_TenantID m = ae_TenantID x" and "aem_Email m = ae_Email x"
    and "aem_Data m = json_Marshal_map (ae_Data x)" and "aem_Status m = ae_Status x" and "aem_ExpiresAt m = ae_ExpiresAt x"
    and "\<forall>r\<in>set (t_audit_exports d). aem_RequestID r \<noteq> ae_RequestID x"
proof -
  obtain m where c: "g_Create (gorm_audit_exports G) (toAuditExportModel x) (t_audit_exports d) = (Inr m, t_audit_exports d')"
    using assms(1) by (auto simp: auditExportRepository_Create_def split: prod.splits sum.splits)
  show thesis
    using audit_export.Create_row [OF c] assms(2,3)
    by (intro that [of m]) (auto simp: same_audit_export_def clash_audit_export_def toAuditExportModel_def)
qed

lemma export_FindByID_only:
  assumes "m \<in> set (t_audit_exports d)" and "\<forall>r\<in>set (t_audit_exports d). aem_RequestID r = aem_RequestID m \<longrightarrow> r = m"
  shows "auditExportRepository_FindByID G (aem_RequestID m) d = Inr (auditExport_modelToDomain m) \<or>
    (\<exists>e. auditExportRepository_FindByID G (aem_RequestID m) d = Inl (GormErr e))"
proof -
  let ?P = "\<lambda>r. aem_RequestID r = aem_RequestID m"
  show ?thesis
  proof (cases "g_First (gorm_audit_exports G) ?P (t_audit_exports d)")
    case (Inr r)
    then have "r = m" using audit_export.First_hit [OF Inr] assms(2) by blast
    then show ?thesis using Inr by (simp add: auditExportRepository_FindByID_def)
  next
    case (Inl e)
    then have "e \<noteq> gorm_ErrRecordNotFound" using audit_export.First_miss [of ?P] assms(1) by blast
    then show ?thesis using Inl by (simp add: auditExportRepository_FindByID_def)
  qed
qed

text \<open>An update sets the status of every record with its ID.\<close>

lemma export_Update_status:
  assumes "auditExportRepository_Update G x d = (Inr (), d')" and "ae_Status x \<noteq> []"
    and "auditExportRepository_FindByID G (ae_RequestID x) d' = Inr y"
  shows "ae_Status y = ae_Status x"
proof -
  obtain n t where u: "g_Updates (gorm_audit_exports G) (\<lambda>m. aem_RequestID m = ae_RequestID x) (toAuditExportModel x)
      (t_audit_exports d) = (Inr n, t)" and d': "d' = d\<lparr>t_audit_exports := t\<rparr>"
    using assms(1) by (auto simp: auditExportRepository_Update_def split: prod.splits sum.splits if_splits)
  obtain m where f: "g_First (gorm_audit_exports G) (\<lambda>m. aem_RequestID m = ae_RequestID x) t = Inr m"
      and y: "y = auditExport_modelToDomain m"
    using assms(3) by (auto simp: auditExportRepository_FindByID_def d' split: sum.splits if_splits)
  have m: "m \<in> set t" "aem_RequestID m = ae_RequestID x" using audit_export.First_hit [OF f] by simp_all
  obtain m0 where m0: "if aem_RequestID m0 = ae_RequestID x
      then kept_audit_export (patch_audit_export (toAuditExportModel x) m0) m else m = m0"
    using audit_export.Updates_origin [OF u m(1)] by blast
  then have "aem_RequestID m0 = ae_RequestID x" using m(2) by (auto split: if_splits)
  then show ?thesis using m0 assms(2)
    by (simp add: y auditExport_modelToDomain_def kept_audit_export_def patch_audit_export_def toAuditExportModel_def)
qed

lemma export_FindByID_ID: "auditExportRepository_FindByID G i d = Inr x \<Longrightarrow> ae_RequestID x = i"
  using audit_export.First_hit
  by (fastforce simp: auditExportRepository_FindByID_def auditExport_modelToDomain_def split: sum.splits if_splits)

text \<open>An audit log is added at the end of its table or not at all.\<close>

lemma log_Create_appends: "\<exists>ls. t_audit_logs (snd (auditLogRepository_Create G clock l d)) = t_audit_logs d @ ls"
  using audit_log.Create_row audit_log.Create_fail
  by (fastforce simp: auditLogRepository_Create_def Let_def split: prod.splits sum.splits)

end

lemma gdpr_subject_ok:
  "gdpr_subject s email tenantID w = Inr u \<Longrightarrow> UserRepository_FindByEmail (gs_users s) email w = Inr u"
  by (auto simp: gdpr_subject_def split: sum.splits if_splits)

definition export_record :: "(time \<Rightarrow> int) \<Rightarrow> export_clock \<Rightarrow> ExportRequest \<Rightarrow> User \<Rightarrow> any_map \<Rightarrow> AuditExport" where
  "export_record zone c req u data = \<lparr>
     ae_RequestID = ''export_'' @ user_ID u @ ''_'' @ show_int (time_UnixNano (xc_request c)), ae_UserID = user_ID u,
     ae_TenantID = exq_TenantID req, ae_Email = exq_Email req, ae_Data = data, ae_CreatedAt = xc_created c,
     ae_ExpiresAt = xc_expiry c + 30 * 24 * time_Hour, ae_Status = ''ready''\<rparr>"

lemma RequestExport_ok:
  assumes "GDPRService_RequestExport zone (main_gdpr G) c req d = (Inr r, d')"
  obtains u x' d1 l where "gdpr_subject (main_gdpr G) (exq_Email req) (exq_TenantID req) d = Inr u"
    and "auditExportRepository_Create G (export_record zone c req u (exr_UserData r)) d = (Inr x', d1)"
    and "exr_RequestID r = ae_RequestID (export_record zone c req u (exr_UserData r))"
    and "exr_ExpiresAt r = xc_expiry c + 30 * 24 * time_Hour"
    and "d' = snd (auditLogRepository_Create G (xc_log c) l d1)"
proof -
  note un = assms [unfolded GDPRService_RequestExport_def export_record_def [symmetric] Let_def]
  obtain u where u: "gdpr_subject (main_gdpr G) (exq_Email req) (exq_TenantID req) d = Inr u"
    using un by (cases "gdpr_subject (main_gdpr G) (exq_Email req) (exq_TenantID req) d") simp_all
  obtain ms where ms: "MembershipRepository_ListByUser (gs_memberships (main_gdpr G)) (user_ID u) d = Inr ms"
    using un u by (cases "MembershipRepository_ListByUser (gs_memberships (main_gdpr G)) (user_ID u) d") simp_all
  obtain tms where tms: "TeamMembershipRepository_ListByUser (gs_teamMemberships (main_gdpr G)) (user_ID u) d = Inr tms"
    using un u ms by (cases "TeamMembershipRepository_ListByUser (gs_teamMemberships (main_gdpr G)) (user_ID u) d") simp_all
  obtain ls where ls: "AuditLogRepository_List (gs_auditLogs (main_gdpr G)) (gdpr_filter (user_ID u)) d = Inr ls"
    using un u ms tms by (cases "AuditLogRepository_List (gs_auditLogs (main_gdpr G)) (gdpr_filter (user_ID u)) d") simp_all
  define data where "data = export_data zone u ms tms ls (xc_exported c) (exq_Email req)"
  obtain q d1 where q: "auditExportRepository_Create G (export_record zone c req u data) d = (q, d1)" by (cases "auditExportRepository_Create G (export_record zone c req u data) d")
  show thesis
  proof (cases q)
    case (Inl e)
    then show ?thesis using un u ms tms ls q by (simp add: data_def [symmetric] export_record_def)
  next
    case (Inr x')
    then show ?thesis using un u ms tms ls q by (intro that [of u x' d1]) (auto simp: data_def [symmetric] export_record_def)
  qed
qed

lemma audit_Create_exports: "t_audit_exports (snd (auditLogRepository_Create G clock l d)) = t_audit_exports d"
  by (auto simp: auditLogRepository_Create_def Let_def split: prod.splits sum.splits)

section \<open>Exports\<close>

lemma GetExport_of_row:
  assumes "database G" and "m \<in> set (t_audit_exports d)"
    and "\<forall>r\<in>set (t_audit_exports d). aem_RequestID r = aem_RequestID m \<longrightarrow> r = m"
  shows "(\<exists>e. GDPRService_GetExport (main_gdpr G) now (aem_RequestID m) d = (Inl (GormErr e), d)) \<or>
    fst (GDPRService_GetExport (main_gdpr G) now (aem_RequestID m) d) =
      (if now \<le> aem_ExpiresAt m then Inr (auditExport_modelToDomain m) else Inl (SvcOpsErr service_ErrExportExpired))"
  using database.export_FindByID_only [OF assms]
  by (auto simp: GDPRService_GetExport_def time_Before_def auditExport_modelToDomain_def)


text \<open>An export of ann's data that bob requests.\<close>

definition demo_clock :: export_clock where
  "demo_clock = \<lparr>xc_exported = 1, xc_request = 2, xc_expiry = 3, xc_created = 4, xc_log = (5, 6, 7)\<rparr>"

lemma demo_subject:
  "gdpr_subject (main_gdpr mem_gorms) ''ann'' [] demo_db = Inr \<lparr>user_ID = ''u1'', user_Email = ''ann'',
     user_PasswordHash = ''$2a$pw'', user_CreatedAt = 0, user_UpdatedAt = 0\<rparr>"
  by (simp add: gdpr_subject_def userRepository_FindByEmail_def demo_db_def eval_mapper conv_simps)

lemma demo_export:
  "\<exists>r d1. GDPRHandler_RequestExport (\<lambda>t. 0) (main_gdpr mem_gorms) demo_clock
     (Some \<lparr>ctx_userID = ''bob'', ctx_tenantID = ''t9'', ctx_roles = []\<rparr>)
     (Inr \<lparr>xrq_Email = ''ann'', xrq_TenantID = []\<rparr>) demo_db = Returns (Reply 200 r, d1)"
proof -
  let ?req = "\<lparr>exq_UserID = ''bob'', exq_TenantID = [], exq_Email = ''ann''\<rparr>"
  let ?u = "\<lparr>user_ID = ''u1'', user_Email = ''ann'', user_PasswordHash = ''$2a$pw'', user_CreatedAt = 0, user_UpdatedAt = 0\<rparr>"
  note u = demo_subject
  obtain ms where ms: "MembershipRepository_ListByUser (NewMembershipRepository mem_gorms) ''u1'' demo_db = Inr ms"
    by (simp add: membershipRepository_ListByUser_def eval_mapper)
  obtain tms where tms: "TeamMembershipRepository_ListByUser (NewTeamMembershipRepository mem_gorms) ''u1'' demo_db = Inr tms"
    by (simp add: teamMembershipRepository_ListByUser_def eval_mapper)
  obtain ls where ls: "auditLogRepository_List mem_gorms (gdpr_filter ''u1'') demo_db = Inr ls"
    by (simp add: auditLogRepository_List_def eval_mapper Let_def)
  have cr: "\<exists>x' d1. auditExportRepository_Create mem_gorms x demo_db = (Inr x', d1)" for x
  proof -
    have tab: "t_audit_exports demo_db = []" by (simp add: demo_db_def empty_db_def)
    have "\<exists>m t. g_Create (gorm_audit_exports mem_gorms) y [] = (Inr m, t)" for y
      by (simp add: mem_gorms_def mem_gorm_def mem_put_def Let_def)
    then obtain m t where "g_Create (gorm_audit_exports mem_gorms) (toAuditExportModel x) [] = (Inr m, t)" by metis
    then show ?thesis by (simp add: auditExportRepository_Create_def tab)
  qed
  define data where "data = export_data (\<lambda>t. 0) ?u ms tms ls 1 ''ann''"
  obtain x' d1 where x: "auditExportRepository_Create mem_gorms (export_record (\<lambda>t. 0) demo_clock ?req ?u data) demo_db = (Inr x', d1)"
    using cr by metis
  have "\<exists>r d1. GDPRService_RequestExport (\<lambda>t. 0) (main_gdpr mem_gorms) demo_clock ?req demo_db = (Inr r, d1)"
    using u ms tms ls x
    by (simp add: GDPRService_RequestExport_def export_record_def demo_clock_def data_def Let_def)
  then show ?thesis by (auto simp: GDPRHandler_RequestExport_def)
qed


section \<open>Erasure\<close>

lemma snd_case_result:
  "snd (case p of (Inl e, w) \<Rightarrow> (Inl (f e), w) | (Inr x, w) \<Rightarrow> (Inr (g x), w)) = snd p"
  by (simp split: prod.split sum.split)

lemma RequestErasure_same:
  assumes "database G" and "GDPRService_RequestErasure zone (main_gdpr G) c req d = (q, d')"
  shows "same_accounts d d' \<and> (\<exists>ls. t_audit_logs d' = t_audit_logs d @ ls)"
proof -
  have l: "same_accounts d (snd (auditLogRepository_Create G k l d))" for k l
    by (rule same_accounts_log) (rule prod.collapse [symmetric])
  have x: "same_accounts d (snd (auditExportRepository_Create G y (snd (auditLogRepository_Create G k l d))))" for y k l
    by (rule same_accounts_trans [OF l]) (rule same_accounts_export, rule prod.collapse [symmetric])
  have y: "t_audit_logs (snd (auditExportRepository_Create G y d)) = t_audit_logs d" for y d
    by (auto simp: auditExportRepository_Create_def split: prod.splits sum.splits)
  note un = assms(2) [unfolded GDPRService_RequestErasure_def Let_def]
  show ?thesis
  proof (cases "gdpr_subject (main_gdpr G) (erq_Email req) (erq_TenantID req) d")
    case (Inl e)
    then show ?thesis using un by simp
  next
    case (Inr u)
    have "d' = d \<or> (\<exists>y k l. d' = snd (auditExportRepository_Create G y (snd (auditLogRepository_Create G k l d))))"
    proof (cases "\<exists>x. auditExportRepository_FindByEmailAndStatus G (erq_Email req) ''pending_erasure'' d = Inr (Some x)")
      case True
      then show ?thesis using un Inr by auto
    next
      case False
      then have f: "(case auditExportRepository_FindByEmailAndStatus G (erq_Email req) ''pending_erasure'' d of
          Inr (Some x) \<Rightarrow> a | _ \<Rightarrow> b) = b" for a b :: "(err + ErasureResult) \<times> db"
        by (simp split: sum.split option.split)
      have "\<exists>y k l. snd (GDPRService_RequestErasure zone (main_gdpr G) c req d) =
          snd (auditExportRepository_Create G y (snd (auditLogRepository_Create G k l d)))"
        unfolding GDPRService_RequestErasure_def Let_def Inr sum.case main_gdpr_simps f snd_case_result
        by (intro exI, rule refl)
      then show ?thesis using assms(2) by simp
    qed
    then show ?thesis using x y database.log_Create_appends [OF assms(1)] by auto
  qed
qed



text \<open>An erasure of ann's data that is executed at once.\<close>

definition demo_erasure :: AuditExport where
  "demo_erasure = \<lparr>ae_RequestID = ''erasure_'' @ ''u1'' @ ''_'' @ show_int (time_UnixNano 0), ae_UserID = ''u1'', ae_TenantID = [],
     ae_Email = ''ann'',
     ae_Data = Some [(''reason'', AStr []), (''requested_at'', ARaw (json_time (\<lambda>t. 0) 0))],
     ae_CreatedAt = 0, ae_ExpiresAt = 0 + 7 * 24 * time_Hour, ae_Status = ''pending_erasure''\<rparr>"

lemma demo_erasure_data: "json_Unmarshal_map (json_Marshal_map (ae_Data demo_erasure)) \<noteq> None"
  by code_simp

lemma mem_export_Create:
  assumes "t_audit_exports d = []" and "ae_RequestID y \<noteq> []" and "ae_Status y \<noteq> []"
  shows "auditExportRepository_Create mem_gorms y d =
    (Inr y, d\<lparr>t_audit_exports := [toAuditExportModel y]\<rparr>)"
proof -
  have "g_Create (gorm_audit_exports mem_gorms) (toAuditExportModel y) [] = (Inr (toAuditExportModel y), [toAuditExportModel y])"
    using assms(2,3) by (simp add: mem_gorms_def mem_gorm_def fill_audit_export_def toAuditExportModel_def Let_def)
  then show ?thesis by (simp add: auditExportRepository_Create_def assms(1) toAuditExportModel_def)
qed

lemma demo_erasure_request:
  "\<exists>r d1. ers_RequestID r = ae_RequestID demo_erasure \<and> t_audit_exports d1 = [toAuditExportModel demo_erasure] \<and>
     GDPRService_RequestErasure (\<lambda>t. 0) (main_gdpr mem_gorms)
       \<lparr>ec_request = 0, ec_log = (0, 0, 0), ec_requested = 0, ec_created = 0, ec_expiry = 0\<rparr>
       \<lparr>erq_UserID = ''u1'', erq_TenantID = [], erq_Email = ''ann'', erq_Reason = []\<rparr> demo_db = (Inr r, d1)"
proof -
  have f: "auditExportRepository_FindByEmailAndStatus mem_gorms ''ann'' ''pending_erasure'' demo_db = Inr None"
    by (simp add: auditExportRepository_FindByEmailAndStatus_def demo_db_def empty_db_def eval_mapper)
  have w: "t_audit_exports (snd (auditLogRepository_Create mem_gorms k l demo_db)) = []" for k l
    by (simp add: audit_Create_exports) (simp add: demo_db_def empty_db_def)
  have "ae_RequestID demo_erasure \<noteq> []" "ae_Status demo_erasure \<noteq> []" by (simp_all add: demo_erasure_def)
  note c = mem_export_Create [OF w this]
  show ?thesis
    unfolding GDPRService_RequestErasure_def Let_def ErasureRequest.simps erasure_clock.simps demo_subject main_gdpr_simps
      f sum.case option.case User.simps demo_erasure_def [symmetric] c prod.case
    by (simp add: demo_erasure_def)
qed


end
