(* ===== verification/OAuth2Handler.thy ===== *)
theory OAuth2Handler
  imports OAuth2 AccountHandlers
begin

text \<open>
  api/oauth2_handler.go: the routes of the relying party. None of them has \<open>RequireAuth\<close>. The network
  is the parameter \<open>http_lib\<close> of OAuth2.
\<close>

record registerProviderRequest =
  rpq_Name :: string
  rpq_ClientID :: string
  rpq_ClientSecret :: string
  rpq_AuthURL :: string
  rpq_TokenURL :: string
  rpq_UserInfoURL :: string
  rpq_Scopes :: "string list"
  rpq_IssuerURL :: string
  rpq_ProviderType :: string

record oauth2ProviderResponse =
  opr_ID :: string
  opr_Name :: string
  opr_ClientID :: string
  opr_AuthURL :: string
  opr_TokenURL :: string
  opr_UserInfoURL :: string
  opr_Scopes :: "string list"
  opr_IssuerURL :: string
  opr_ProviderType :: string
  opr_Enabled :: bool

definition toOAuth2ProviderResponse :: "OAuth2Provider \<Rightarrow> oauth2ProviderResponse" where
  "toOAuth2ProviderResponse p = \<lparr>
     opr_ID = op_ID p, opr_Name = op_Name p, opr_ClientID = op_ClientID p, opr_AuthURL = op_AuthURL p,
     opr_TokenURL = op_TokenURL p, opr_UserInfoURL = op_UserInfoURL p, opr_Scopes = op_Scopes p,
     opr_IssuerURL = op_IssuerURL p, opr_ProviderType = op_ProviderType p, opr_Enabled = op_Enabled p\<rparr>"

definition OAuth2Handler_RegisterProvider :: "'w OAuth2Service \<Rightarrow> string \<Rightarrow> err + registerProviderRequest \<Rightarrow> 'w \<Rightarrow>
    oauth2ProviderResponse response \<times> 'w" where
  "OAuth2Handler_RegisterProvider s tenantID bound w =
     (case bound of
        Inl e \<Rightarrow> (writeError 400 ''invalid_request'', w)
      | Inr req \<Rightarrow>
          (case OAuth2Service_RegisterProvider s tenantID \<lparr>
                  opc_Name = rpq_Name req, opc_ClientID = rpq_ClientID req, opc_ClientSecret = rpq_ClientSecret req,
                  opc_AuthURL = rpq_AuthURL req, opc_TokenURL = rpq_TokenURL req, opc_UserInfoURL = rpq_UserInfoURL req,
                  opc_Scopes = rpq_Scopes req, opc_IssuerURL = rpq_IssuerURL req, opc_ProviderType = rpq_ProviderType req\<rparr> w of
             (Inl e, w1) \<Rightarrow> (writeError 500 ''internal_error'', w1)
           | (Inr provider, w1) \<Rightarrow> (Reply 201 (toOAuth2ProviderResponse provider), w1)))"

definition OAuth2Handler_ListProviders :: "'w OAuth2Service \<Rightarrow> string \<Rightarrow> 'w \<Rightarrow> oauth2ProviderResponse list response" where
  "OAuth2Handler_ListProviders s tenantID w =
     (case OAuth2Service_ListProviders s tenantID w of
        Inl e \<Rightarrow> writeError 500 ''internal_error''
      | Inr providers \<Rightarrow> Reply 200 (map toOAuth2ProviderResponse providers))"

definition OAuth2Handler_GetProvider :: "'w OAuth2Service \<Rightarrow> string \<Rightarrow> 'w \<Rightarrow> oauth2ProviderResponse response" where
  "OAuth2Handler_GetProvider s uid w =
     (case OAuth2Service_GetProvider s uid w of
        Inl e \<Rightarrow> (if e = ExtErr ErrOAuth2ProviderNotFound then writeError 404 ''not_found''
                  else writeError 500 ''internal_error'')
      | Inr provider \<Rightarrow> Reply 200 (toOAuth2ProviderResponse provider))"

definition OAuth2Handler_DeleteProvider :: "'w OAuth2Service \<Rightarrow> string \<Rightarrow> 'w \<Rightarrow> unit response \<times> 'w" where
  "OAuth2Handler_DeleteProvider s uid w =
     (case OAuth2Service_DeleteProvider s uid w of
        (Inl e, w1) \<Rightarrow> (writeError 500 ''internal_error'', w1)
      | (Inr u, w1) \<Rightarrow> (Status 204, w1))"

record authURLRequest =
  auq_ProviderName :: string
  auq_RedirectURI :: string
  auq_PKCE :: bool

record authURLResponse =
  aup_AuthURL :: string
  aup_State :: string

definition OAuth2Handler_GetAuthURL :: "'w OAuth2Service \<Rightarrow> string \<times> string \<Rightarrow> time \<Rightarrow> string \<Rightarrow> err + authURLRequest \<Rightarrow> 'w \<Rightarrow>
    authURLResponse response \<times> 'w" where
  "OAuth2Handler_GetAuthURL s rnd now tenantID bound w =
     (case bound of
        Inl e \<Rightarrow> (writeError 400 ''invalid_request'', w)
      | Inr req \<Rightarrow>
          (case OAuth2Service_GetAuthURL s rnd now tenantID (auq_ProviderName req) (auq_RedirectURI req) (auq_PKCE req) w of
             (Inl e, w1) \<Rightarrow>
               (if e = SvcAuthErr service_ErrOAuth2ProviderDisabled then writeError 403 ''provider_disabled''
                else writeError 500 ''internal_error'', w1)
           | (Inr (authURL, state), w1) \<Rightarrow> (Reply 200 \<lparr>aup_AuthURL = authURL, aup_State = state\<rparr>, w1)))"

record callbackRequest =
  cbq_State :: string
  cbq_Code :: string

definition OAuth2Handler_HandleCallback :: "http_lib \<Rightarrow> 'w OAuth2Service \<Rightarrow> time \<Rightarrow> time \<times> time \<Rightarrow> err + callbackRequest \<Rightarrow> 'w \<Rightarrow>
    authResponse response \<times> 'w" where
  "OAuth2Handler_HandleCallback net s now tclock bound w =
     (case bound of
        Inl e \<Rightarrow> (writeError 400 ''invalid_request'', w)
      | Inr req \<Rightarrow>
          (case OAuth2Service_HandleCallback net s now tclock (cbq_State req) (cbq_Code req) w of
             (Inl e, w1) \<Rightarrow>
               (if e = SvcAuthErr service_ErrInvalidOAuth2State then writeError 400 ''invalid_state''
                else if e = SvcAuthErr service_ErrPKCEVerification then writeError 400 ''pkce_failed''
                else writeError 500 ''internal_error'', w1)
           | (Inr result, w1) \<Rightarrow> (Reply 200 (toAuthResponse result), w1)))"

text \<open>The browser's way back from the provider; \<open>query\<close> is \<open>c.Query\<close>, empty for a missing parameter.\<close>

definition token_redirect :: "string \<Rightarrow> AuthResult \<Rightarrow> string" where
  "token_redirect frontendURL result =
     (if frontendURL = [] then ''/auth/callback'' else frontendURL) @
     ''?access_token='' @ url_QueryEscape (ar_AccessToken result) @
     ''&refresh_token='' @ url_QueryEscape (ar_RefreshToken result)"

definition OAuth2Handler_RedirectCallback :: "http_lib \<Rightarrow> 'w OAuth2Service \<Rightarrow> time \<Rightarrow> time \<times> time \<Rightarrow> (string \<Rightarrow> string) \<Rightarrow> 'w \<Rightarrow>
    unit response \<times> 'w" where
  "OAuth2Handler_RedirectCallback net s now tclock query w =
     (if query ''error'' \<noteq> []
      then (Redirect 302 (''/login?error='' @ url_QueryEscape (query ''error'') @ ''&error_description='' @
              url_QueryEscape (query ''error_description'')), w)
      else if query ''state'' = [] \<or> query ''code'' = []
      then (Redirect 302 ''/login?error=invalid_callback'', w)
      else case OAuth2Service_HandleCallback net s now tclock (query ''state'') (query ''code'') w of
             (Inl e, w1) \<Rightarrow> (Redirect 302 ''/login?error=callback_failed'', w1)
           | (Inr result, w1) \<Rightarrow> (Redirect 302 (token_redirect (query ''frontend_url'') result), w1))"

end
