(* ===== verification/OAuth2Props.thy ===== *)
theory OAuth2Props
  imports OAuth2Handler Passwordless Saml
begin

text \<open>
  What a callback of an external provider opens: the accounts of federated users, the session bound to
  the pending state, and the exchange of the code. \<open>plain_net\<close> is an executable network for the
  witnesses.
\<close>

section \<open>An executable network\<close>

text \<open>The token endpoint grants every request; every user is ann.\<close>

definition plain_net :: http_lib where
  "plain_net = \<lparr>
     http_NewRequest = (\<lambda>meth url body. Inr \<lparr>hrq_Method = meth, hrq_URL = url, hrq_Header = [], hrq_Body = body, hrq_PostForm = []\<rparr>),
     http_Do = (\<lambda>r. Inr \<lparr>hrs_StatusCode = 200, hrs_Status = ''200 OK'', hrs_Body = hrq_Method r\<rparr>),
     json_Decode = (\<lambda>b. Inr (if b = ''POST'' then AMap [(''access_token'', AStr ''at'')] else AMap [(''email'', AStr ''ann'')])),
     oidc_Verify = (\<lambda>iss client tok. Inl (LibErr ''oidc''))\<rparr>"

interpretation plain_net: http_client plain_net
  by unfold_locales (simp add: plain_net_def)

section \<open>Wiring\<close>

definition main_oauth2 :: "gorms \<Rightarrow> TokenService \<Rightarrow> db OAuth2Service" where
  "main_oauth2 G tokens = NewOAuth2Service (NewOAuth2ProviderRepository G) (NewOAuth2StateRepository G)
     (NewUserRepository G) (NewMembershipRepository G) (NewTeamRepository G) (NewTeamMembershipRepository G) tokens"

lemma main_oauth2_simps [simp]:
  "os_providers (main_oauth2 G tokens) = NewOAuth2ProviderRepository G"
  "os_states (main_oauth2 G tokens) = NewOAuth2StateRepository G"
  "os_users (main_oauth2 G tokens) = NewUserRepository G"
  "os_memberships (main_oauth2 G tokens) = NewMembershipRepository G"
  "os_teams (main_oauth2 G tokens) = NewTeamRepository G"
  "os_teamMemberships (main_oauth2 G tokens) = NewTeamMembershipRepository G"
  "os_tokens (main_oauth2 G tokens) = tokens"
  by (simp_all add: main_oauth2_def NewOAuth2Service_def)

lemma fed_repositories [simp]:
  "OAuth2StateRepository_Create (NewOAuth2StateRepository G) = oauth2StateRepository_Create G"
  "OAuth2StateRepository_FindByState (NewOAuth2StateRepository G) = oauth2StateRepository_FindByState G"
  "OAuth2StateRepository_Delete (NewOAuth2StateRepository G) = oauth2StateRepository_Delete G"
  "OAuth2ProviderRepository_FindByID (NewOAuth2ProviderRepository G) = oauth2ProviderRepository_FindByID G"
  "OAuth2ProviderRepository_FindByTenantAndName (NewOAuth2ProviderRepository G) = oauth2ProviderRepository_FindByTenantAndName G"
  by (simp_all add: NewOAuth2StateRepository_def NewOAuth2ProviderRepository_def)

section \<open>Accounts of federated users\<close>

lemma federated_account_ok:
  assumes "federated_account users memberships t email w = (Inr u, w')"
  obtains w1 where "UserRepository_FindByEmail users email w = Inr u \<and> w1 = w \<or>
      UserRepository_FindByEmail users email w = Inl (IdErr ErrUserNotFound) \<and>
      UserRepository_Create users \<lparr>user_ID = [], user_Email = email, user_PasswordHash = [],
        user_CreatedAt = zero_time, user_UpdatedAt = zero_time\<rparr> w = (Inr u, w1)"
    and "(\<exists>m. MembershipRepository_FindByUserAndTenant memberships (user_ID u) t w1 = Inr m) \<and> w' = w1 \<or>
      MembershipRepository_FindByUserAndTenant memberships (user_ID u) t w1 = Inl (IdErr ErrMembershipNotFound) \<and>
      (\<exists>m. MembershipRepository_Create memberships \<lparr>mem_UserID = user_ID u, mem_TenantID = t, mem_Roles = [''member''],
         mem_CreatedAt = zero_time, mem_UpdatedAt = zero_time\<rparr> w1 = (Inr m, w'))"
  using assms by (auto simp: federated_account_def Let_def split: sum.splits prod.splits if_splits)

text \<open>The account has the address; it is a member of the tenant afterwards.\<close>

lemma federated_account_frames:
  assumes "federated_account (NewUserRepository G) (NewMembershipRepository G) t email d = (r, d')"
  shows "t_oauth2_states d' = t_oauth2_states d \<and> t_teams d' = t_teams d \<and> t_team_memberships d' = t_team_memberships d"
  using assms
  by (auto simp: federated_account_def Let_def NewUserRepository_def NewMembershipRepository_def userRepository_Create_def
      membershipRepository_Create_def split: sum.splits prod.splits if_splits)

context database
begin

lemma federated_email:
  assumes "federated_account (NewUserRepository G) M t email d = (Inr u, d')"
  shows "user_Email u = email"
proof -
  obtain w1 where "UserRepository_FindByEmail (NewUserRepository G) email d = Inr u \<and> w1 = d \<or>
      UserRepository_FindByEmail (NewUserRepository G) email d = Inl (IdErr ErrUserNotFound) \<and>
      UserRepository_Create (NewUserRepository G) \<lparr>user_ID = [], user_Email = email, user_PasswordHash = [],
        user_CreatedAt = zero_time, user_UpdatedAt = zero_time\<rparr> d = (Inr u, w1)"
    using federated_account_ok [OF assms] by metis
  then show ?thesis using FindByEmail_hit user_Create_ok by force
qed

end

section \<open>The callback\<close>

lemma HandleCallback_ok:
  assumes "OAuth2Service_HandleCallback net s now tclock state code w = (Inr res, w')"
  obtains st p a i info w1 where "OAuth2StateRepository_FindByState (os_states s) state w = Inr (Some st)"
    and "now \<le> os_ExpiresAt st"
    and "OAuth2ProviderRepository_FindByID (os_providers s) (os_ProviderID st) w = Inr p"
    and "exchange_code net st p code = Inr (a, i)"
    and "OAuth2Service_getUserInfo net p a i = Inr info"
    and "info_email info \<noteq> []"
    and "federated_account (os_users s) (os_memberships s) (op_TenantID p) (info_email info) w = (Inr (ar_User res), w1)"
    and "OAuth2Service_getRolesForTenant s (user_ID (ar_User res)) (op_TenantID p) w1 = Inr (ar_Roles res)"
    and "ar_TenantID res = op_TenantID p"
    and "w' = snd (OAuth2StateRepository_Delete (os_states s) state w1)"
  using assms
  by (auto simp: OAuth2Service_HandleCallback_def OAuth2Service_findOrCreateUser_def OAuth2Service_issueTokens_def
      time_After_def not_less split: sum.splits option.splits prod.splits if_splits)

lemma exchange_ignores_code:
  assumes "http_client net"
  shows "exchange_code net st p code = exchange_code net st p code'"
proof -
  have same: "http_Do net (r\<lparr>hrq_Header := h, hrq_PostForm := token_form st p code\<rparr>) =
      http_Do net (r\<lparr>hrq_Header := h, hrq_PostForm := token_form st p code'\<rparr>)" for r h
    by (simp add: http_client.post_form_ignored [OF assms])
  show ?thesis unfolding exchange_code_def same ..
qed

lemma state_Delete_cases:
  "oauth2StateRepository_Delete G state d = (r, d') \<Longrightarrow> d' = d\<lparr>t_oauth2_states := t_oauth2_states d'\<rparr>"
  by (auto simp: oauth2StateRepository_Delete_def split: prod.splits sum.splits)

lemma oauth2_roles:
  "OAuth2Service_getRolesForTenant (main_oauth2 G tokens) u t d =
   PasswordlessService_getRolesForTenant (main_passwordless G tokens mail) u t d"
  by (simp add: OAuth2Service_getRolesForTenant_def PasswordlessService_getRolesForTenant_def split: sum.split)

definition oauth_db :: db where
  "oauth_db = demo_db\<lparr>
     t_oauth2_states := [\<lparr>osm_ID = ''s1'', osm_State = ''st'', osm_ProviderID = ''p1'', osm_TenantID = ''t1'',
       osm_RedirectURI = ''r'', osm_CodeChallenge = [], osm_CodeChallengeMethod = [], osm_ExpiresAt = 100, osm_CreatedAt = 0\<rparr>],
     t_oauth2_providers := [\<lparr>opm_ID = ''p1'', opm_TenantID = ''t1'', opm_Name = ''idp'', opm_ClientID = ''c'',
       opm_ClientSecret = ''cs'', opm_AuthURL = ''a'', opm_TokenURL = ''t'', opm_UserInfoURL = ''u'', opm_Scopes = ''[]'',
       opm_IssuerURL = [], opm_ProviderType = ''generic'', opm_Enabled = True, opm_CreatedAt = 0, opm_UpdatedAt = 0\<rparr>]\<rparr>"

lemma demo_callback:
  "\<exists>res d'. OAuth2Service_HandleCallback plain_net (main_oauth2 mem_gorms demo_tokens) 5 (6, 7) ''st'' ''code'' oauth_db = (Inr res, d') \<and>
     user_Email (ar_User res) = ''ann'' \<and> ar_Roles res = [''member'', ''editor'', ''reviewer''] \<and> ar_TenantID res = ''t1'' \<and>
     t_oauth2_states d' = []"
proof -
  let ?st = "fromOAuth2StateModel (hd (t_oauth2_states oauth_db))"
  let ?p = "fromOAuth2ProviderModel (hd (t_oauth2_providers oauth_db))"
  let ?s = "main_oauth2 mem_gorms demo_tokens"
  let ?u = "\<lparr>user_ID = ''u1'', user_Email = ''ann'', user_PasswordHash = ''$2a$pw'', user_CreatedAt = 0, user_UpdatedAt = 0\<rparr>"
  have st: "oauth2StateRepository_FindByState mem_gorms ''st'' oauth_db = Inr (Some ?st)"
    by (simp add: oauth2StateRepository_FindByState_def oauth_db_def eval_mapper)
  have p: "oauth2ProviderRepository_FindByID mem_gorms ''p1'' oauth_db = Inr ?p"
    by (simp add: oauth2ProviderRepository_FindByID_def oauth_db_def eval_mapper)
  have fields: "os_ExpiresAt ?st = 100" "os_ProviderID ?st = ''p1''" "op_TenantID ?p = ''t1''" "op_ProviderType ?p = ''generic''"
    by (simp_all add: oauth_db_def fromOAuth2StateModel_def fromOAuth2ProviderModel_def)
  have ex: "exchange_code plain_net ?st ?p ''code'' = Inr (''at'', [])"
    by (simp add: exchange_code_def plain_net_def decode_token_reply_def reply_field_def)
  have info: "OAuth2Service_getUserInfo plain_net ?p ''at'' [] = Inr (Some [(''email'', AStr ''ann'')])"
    by (simp add: OAuth2Service_getUserInfo_def OAuth2Service_userinfo_endpoint_def plain_net_def)
  have acc: "federated_account (NewUserRepository mem_gorms) (NewMembershipRepository mem_gorms) ''t1'' ''ann'' oauth_db = (Inr ?u, oauth_db)"
    by (simp add: federated_account_def repo_simps oauth_db_def demo_db_def eval_mapper conv_simps)
  have roles: "OAuth2Service_getRolesForTenant ?s ''u1'' ''t1'' oauth_db = Inr [''member'', ''editor'', ''reviewer'']"
    by (simp add: OAuth2Service_getRolesForTenant_def repo_simps oauth_db_def demo_db_def eval_mapper conv_simps)
  obtain res where i: "OAuth2Service_issueTokens ?s (6, 7) ?u ''t1'' [''member'', ''editor'', ''reviewer''] = Inr res"
    by (simp add: OAuth2Service_issueTokens_def TokenService_GenerateAccessToken_def TokenService_GenerateRefreshToken_def
        TokenService_generate_def demo_tokens_def NewTokenService_def plain_jwt_def)
  then have res: "ar_User res = ?u" "ar_Roles res = [''member'', ''editor'', ''reviewer'']" "ar_TenantID res = ''t1''"
    by (auto simp: OAuth2Service_issueTokens_def split: sum.splits)
  have cb: "OAuth2Service_HandleCallback plain_net ?s 5 (6, 7) ''st'' ''code'' oauth_db =
      (Inr res, snd (oauth2StateRepository_Delete mem_gorms ''st'' oauth_db))"
    using st p fields ex info acc roles i
    by (simp add: OAuth2Service_HandleCallback_def OAuth2Service_findOrCreateUser_def info_email_def time_After_def)
  have "t_oauth2_states (snd (oauth2StateRepository_Delete mem_gorms ''st'' oauth_db)) = []"
    by (simp add: oauth2StateRepository_Delete_def oauth_db_def eval_mapper)
  then show ?thesis using cb res by auto
qed

lemma pending_rows:
  assumes "database G" and "oauth2StateRepository_FindByState G state d = Inr (Some st)"
    and "oauth2ProviderRepository_FindByID G (os_ProviderID st) d = Inr p"
  obtains sm pm where "sm \<in> set (t_oauth2_states d)" and "osm_State sm = state" and "st = fromOAuth2StateModel sm"
    and "pm \<in> set (t_oauth2_providers d)" and "opm_ID pm = os_ProviderID st" and "p = fromOAuth2ProviderModel pm"
proof -
  obtain sm where "sm \<in> set (t_oauth2_states d)" "osm_State sm = state" "st = fromOAuth2StateModel sm"
    using assms(2) gorm_table.First_hit [OF database.oauth2_state_table [OF assms(1)]]
    by (fastforce simp: oauth2StateRepository_FindByState_def split: sum.splits if_splits)
  moreover obtain pm where "pm \<in> set (t_oauth2_providers d)" "opm_ID pm = os_ProviderID st" "p = fromOAuth2ProviderModel pm"
    using assms(3) gorm_table.First_hit [OF database.oauth2_provider_table [OF assms(1)]]
    by (fastforce simp: oauth2ProviderRepository_FindByID_def split: sum.splits if_splits)
  ultimately show ?thesis using that by blast
qed

text \<open>Deleting the state touches no membership and no team.\<close>

lemma state_Delete_views:
  assumes "oauth2StateRepository_Delete G state d = (r, d')"
  shows "db_memberships d' = db_memberships d" and "role_in_tenant d' = role_in_tenant d"
  by (subst state_Delete_cases [OF assms], simp add: db_memberships_def)
    (subst state_Delete_cases [OF assms],
      simp add: role_in_tenant_def db_memberships_def db_team_memberships_def db_teams_def fun_eq_iff)

text \<open>C31: What a callback opens. A session comes out of a callback only for a pending state that has not expired; it
  is for the tenant of the state's provider and the account with the address the provider's answer
  names; the account is a member of that tenant and every role comes from its memberships there.
  The state is deleted, unless the deletion fails.\<close>

theorem callback_session_bound:
  assumes "database G"
    and "OAuth2Service_HandleCallback net (main_oauth2 G tokens) now tclock state code d = (Inr res, d')"
  shows "(\<exists>st\<in>set (t_oauth2_states d). \<exists>p\<in>set (t_oauth2_providers d). \<exists>a i info.
            osm_State st = state \<and> now \<le> osm_ExpiresAt st \<and> opm_ID p = osm_ProviderID st \<and>
            ar_TenantID res = opm_TenantID p \<and>
            exchange_code net (fromOAuth2StateModel st) (fromOAuth2ProviderModel p) code = Inr (a, i) \<and>
            OAuth2Service_getUserInfo net (fromOAuth2ProviderModel p) a i = Inr info \<and>
            user_Email (ar_User res) = info_email info \<and> info_email info \<noteq> []) \<and>
         (\<exists>m\<in>db_memberships d'. mem_UserID m = user_ID (ar_User res) \<and> mem_TenantID m = ar_TenantID res) \<and>
         (\<forall>x\<in>set (ar_Roles res). role_in_tenant d' (user_ID (ar_User res)) (ar_TenantID res) x) \<and>
         (t_oauth2_states d' = filter (\<lambda>r. osm_State r \<noteq> state) (t_oauth2_states d) \<or>
          t_oauth2_states d' = t_oauth2_states d)"
proof -
  obtain st p a i info d1 where cb: "oauth2StateRepository_FindByState G state d = Inr (Some st)"
      "now \<le> os_ExpiresAt st" "oauth2ProviderRepository_FindByID G (os_ProviderID st) d = Inr p"
      "exchange_code net st p code = Inr (a, i)" "OAuth2Service_getUserInfo net p a i = Inr info" "info_email info \<noteq> []"
      and acc: "federated_account (NewUserRepository G) (NewMembershipRepository G) (op_TenantID p) (info_email info) d
        = (Inr (ar_User res), d1)"
      and roles: "OAuth2Service_getRolesForTenant (main_oauth2 G tokens) (user_ID (ar_User res)) (op_TenantID p) d1 = Inr (ar_Roles res)"
      and ten: "ar_TenantID res = op_TenantID p" and del: "d' = snd (oauth2StateRepository_Delete G state d1)"
    using HandleCallback_ok [OF assms(2)] by (metis main_oauth2_simps(1-4) fed_repositories(2-4))
  obtain sm pm where sm: "sm \<in> set (t_oauth2_states d)" "osm_State sm = state" "st = fromOAuth2StateModel sm"
      and pm: "pm \<in> set (t_oauth2_providers d)" "opm_ID pm = os_ProviderID st" "p = fromOAuth2ProviderModel pm"
    using pending_rows [OF assms(1) cb(1,3)] .
  have email: "user_Email (ar_User res) = info_email info" using database.federated_email [OF assms(1) acc] .
  have part1: "\<exists>st\<in>set (t_oauth2_states d). \<exists>p\<in>set (t_oauth2_providers d). \<exists>a i info.
      osm_State st = state \<and> now \<le> osm_ExpiresAt st \<and> opm_ID p = osm_ProviderID st \<and>
      ar_TenantID res = opm_TenantID p \<and>
      exchange_code net (fromOAuth2StateModel st) (fromOAuth2ProviderModel p) code = Inr (a, i) \<and>
      OAuth2Service_getUserInfo net (fromOAuth2ProviderModel p) a i = Inr info \<and>
      user_Email (ar_User res) = info_email info \<and> info_email info \<noteq> []"
    using sm pm cb ten email
    by (intro bexI [of _ sm] bexI [of _ pm] exI [of _ a] exI [of _ i] exI [of _ info])
      (simp_all add: fromOAuth2StateModel_def fromOAuth2ProviderModel_def)
  obtain r where r: "oauth2StateRepository_Delete G state d1 = (r, d')" using del by (metis prod.collapse)
  note views = state_Delete_views [OF r]
  have proles: "PasswordlessService_getRolesForTenant (main_passwordless G tokens mail) (user_ID (ar_User res)) (op_TenantID p) d1
      = Inr (ar_Roles res)" for mail
    using roles oauth2_roles by metis
  then obtain mm where "membershipRepository_FindByUserAndTenant G (user_ID (ar_User res)) (op_TenantID p) d1 = Inr mm"
    using getRolesForTenant_ok [OF proles] by auto
  then have mem: "mm \<in> db_memberships d'" "mem_UserID mm = user_ID (ar_User res)" "mem_TenantID mm = ar_TenantID res"
    using database.member_find_hit [OF assms(1)] views ten by auto
  have iso: "\<forall>x\<in>set (ar_Roles res). role_in_tenant d' (user_ID (ar_User res)) (ar_TenantID res) x"
    using database.passwordless_roles_isolated [OF assms(1) proles] views ten by simp
  have states: "t_oauth2_states d' = filter (\<lambda>r. osm_State r \<noteq> state) (t_oauth2_states d) \<or> t_oauth2_states d' = t_oauth2_states d"
    using r federated_account_frames [OF acc] gorm_table.Delete_rows [OF database.oauth2_state_table [OF assms(1)]]
      gorm_table.Delete_fail [OF database.oauth2_state_table [OF assms(1)]]
    by (fastforce simp: oauth2StateRepository_Delete_def split: prod.splits sum.splits)
  show ?thesis using part1 mem iso states by blast
qed

theorem callback_session_bound_witness:
  "\<exists>res d'. OAuth2Service_HandleCallback plain_net (main_oauth2 mem_gorms demo_tokens) 5 (6, 7) ''st'' ''code'' oauth_db = (Inr res, d') \<and>
     ar_Roles res \<noteq> [] \<and> list_all (role_in_tenant d' (user_ID (ar_User res)) ''t1'') (ar_Roles res)"
proof -
  obtain res d' where cb: "OAuth2Service_HandleCallback plain_net (main_oauth2 mem_gorms demo_tokens) 5 (6, 7) ''st'' ''code'' oauth_db = (Inr res, d')"
    "ar_Roles res = [''member'', ''editor'', ''reviewer'']" "ar_TenantID res = ''t1''"
    using demo_callback by auto
  show ?thesis using callback_session_bound [OF mem_database cb(1)] cb by (auto simp: list_all_iff)
qed

text \<open>The code does not matter. The exchange puts the form into \<open>PostForm\<close>, which the HTTP client does not send: with
  a client that behaves as documented the callback's result and effect are the same for every code.\<close>

theorem callback_ignores_code:
  assumes "http_client net"
  shows "OAuth2Service_HandleCallback net s now tclock state code w = OAuth2Service_HandleCallback net s now tclock state code' w"
  unfolding OAuth2Service_HandleCallback_def exchange_ignores_code [OF assms, of _ _ code code'] ..

theorem callback_ignores_code_witness:
  "\<exists>res d'. OAuth2Service_HandleCallback plain_net (main_oauth2 mem_gorms demo_tokens) 5 (6, 7) ''st'' ''forged'' oauth_db = (Inr res, d') \<and>
     user_Email (ar_User res) = ''ann''"
proof -
  obtain res d' where cb: "OAuth2Service_HandleCallback plain_net (main_oauth2 mem_gorms demo_tokens) 5 (6, 7) ''st'' ''code'' oauth_db = (Inr res, d')"
    "user_Email (ar_User res) = ''ann''" using demo_callback by auto
  have "OAuth2Service_HandleCallback plain_net (main_oauth2 mem_gorms demo_tokens) 5 (6, 7) ''st'' ''forged'' oauth_db = (Inr res, d')"
    by (rule trans [OF callback_ignores_code [OF plain_net.http_client_axioms] cb(1)])
  then show ?thesis using cb(2) by blast
qed

end
