(* ===== verification/PushInvalidation.thy ===== *)
theory PushInvalidation
  imports AuthzCache
begin

text \<open>
  The push side of service/authz_cache.go: handlers by event type, the loop that receives messages and the
  publisher. The subscription is the list of messages it delivers before the context ends; the
  result of closing it is an argument. Redis itself is \<open>publish\<close>.
\<close>

record 'w PushInvalidation =
  pi_handlers :: "string \<rightharpoonup> (string \<Rightarrow> 'w \<Rightarrow> 'w)"

text \<open>\<open>parse\<close> says whether \<open>redis.ParseURL\<close> takes the URL.\<close>

definition NewPushInvalidation :: "(string \<Rightarrow> err option) \<Rightarrow> string \<Rightarrow> err + 'w PushInvalidation" where
  "NewPushInvalidation parse redisURL =
     (case parse redisURL of Some e \<Rightarrow> Inl e | None \<Rightarrow> Inr \<lparr>pi_handlers = Map.empty\<rparr>)"

definition PushInvalidation_RegisterHandler :: "'w PushInvalidation \<Rightarrow> string \<Rightarrow> (string \<Rightarrow> 'w \<Rightarrow> 'w) \<Rightarrow> 'w PushInvalidation" where
  "PushInvalidation_RegisterHandler p eventType handler = p\<lparr>pi_handlers := (pi_handlers p)(eventType \<mapsto> handler)\<rparr>"

definition PushInvalidation_Start :: "'w PushInvalidation \<Rightarrow> string list \<Rightarrow> err + unit \<Rightarrow> 'w \<Rightarrow> (err + unit) \<times> 'w" where
  "PushInvalidation_Start p msgs closed w = (closed, fold (PushInvalidation_dispatch (pi_handlers p)) msgs w)"

definition PushInvalidation_Publish :: "(string \<Rightarrow> string \<Rightarrow> err + unit) \<Rightarrow> string \<Rightarrow> string \<Rightarrow> err + unit" where
  "PushInvalidation_Publish publish eventType payload =
     publish ''authz:invalidate'' (PushInvalidation_message eventType payload)"

definition PushInvalidation_Close :: "err + unit \<Rightarrow> err + unit" where
  "PushInvalidation_Close closed = closed"

text \<open>The handlers main.go registers print the event.\<close>

definition main_push :: "'w PushInvalidation" where
  "main_push = PushInvalidation_RegisterHandler
     (PushInvalidation_RegisterHandler \<lparr>pi_handlers = Map.empty\<rparr> ''acl_changed'' (\<lambda>payload w. w)) ''policy_changed'' (\<lambda>payload w. w)"

section \<open>What a message does\<close>

text \<open>A published event arrives. An event type without a colon reaches the handler registered last for
  it with its payload, whatever the payload contains; with the handlers of main.go no run of messages
  changes anything, so the cache keeps what it has.\<close>

theorem push_delivery:
  assumes "CHR '':'' \<notin> set ev"
  shows "PushInvalidation_Start (PushInvalidation_RegisterHandler p ev handler) [PushInvalidation_message ev payload] closed w =
      (closed, handler payload w) \<and>
    PushInvalidation_Start main_push msgs closed w' = (closed, w')"
proof -
  have d: "PushInvalidation_dispatch (pi_handlers main_push) msg v = v" for msg v
    by (simp add: PushInvalidation_dispatch_def main_push_def PushInvalidation_RegisterHandler_def Let_def)
  have "fold (PushInvalidation_dispatch (pi_handlers main_push)) msgs w' = w'"
    by (induction msgs) (simp_all add: d)
  then show ?thesis using parse_at_colon_message [OF assms, of "[]" payload]
    by (simp add: PushInvalidation_Start_def PushInvalidation_dispatch_def PushInvalidation_message_def
        PushInvalidation_RegisterHandler_def parseInvalidationMessage_def)
qed

theorem push_delivery_witness:
  "PushInvalidation_Start (PushInvalidation_RegisterHandler main_push ''acl_changed'' (\<lambda>x w. w @ [x]))
     [PushInvalidation_message ''acl_changed'' ''t1:u1''] (Inr ()) [''old''] = (Inr (), [''old'', ''t1:u1''])"
proof -
  have "CHR '':'' \<notin> set ''acl_changed''" by simp
  from push_delivery [OF this, THEN conjunct1, of main_push "\<lambda>x w. w @ [x]" "''t1:u1''" "Inr ()" "[''old'']"] show ?thesis by simp
qed

end
