(* ===== verification/MainApp.thy ===== *)
theory MainApp
  imports Config RouterProps GdprProps OAuth2Props IdpProps AuditProps Mfa AuthzProps AccountHandlers Signup PushInvalidation
begin

text \<open>
  cmd/hoviyat/main.go: the program the configuration builds. The libraries are arguments: the database,
  bcrypt, the JWT and RSA libraries, the policy engine, Redis (\<open>redis\<close> is \<open>redis.ParseURL\<close> followed by
  \<open>redis.NewClient\<close>). Connecting, migrating, listening and the shutdown are input and output.
\<close>

section \<open>The mock sender\<close>

text \<open>Every method prints the message and succeeds.\<close>

definition mockEmailSender :: "'w EmailSender" where
  "mockEmailSender = \<lparr>
     EmailSender_SendMagicLink = (\<lambda>email link w. (Inr (), w)),
     EmailSender_SendPasswordReset = (\<lambda>email link w. (Inr (), w)),
     EmailSender_SendEmailVerification = (\<lambda>email link w. (Inr (), w)),
     EmailSender_SendOTP = (\<lambda>email otp w. (Inr (), w)),
     EmailSender_SendSMS = (\<lambda>phone otp w. (Inr (), w))\<rparr>"

section \<open>Wiring\<close>

record ('q, 'c) app =
  app_tokens :: TokenService
  app_auth :: "db AuthService"
  app_users :: "db UserHandler"
  app_tenants :: "db TenantRepository"
  app_risk :: RiskScorer
  app_teams :: "db TeamRepository"
  app_authz :: "(db \<times> 'c, 'q) AuthorizationService"
  app_oauth2 :: "db OAuth2Service"
  app_saml :: "db SAMLService"
  app_mfa :: "db MFAService"
  app_passwordless :: "db PasswordlessService"
  app_idp :: "db IdPHandler"
  app_jwks :: "db JWKSService"
  app_audit :: "db AuditLogService"
  app_gdpr :: "db GDPRService"
  app_limiter :: TenantSignupRateLimiter
  app_routes :: "route list"

definition main_tokens :: "(string \<Rightarrow> string) \<Rightarrow> jwt_lib \<Rightarrow> TokenService" where
  "main_tokens env jwt =
     NewTokenService jwt (cfg_JWTSecret (Load env)) (cfg_AccessTokenTTL (Load env)) (cfg_RefreshTokenTTL (Load env))"

definition main_user_handler :: "gorms \<Rightarrow> db UserHandler" where
  "main_user_handler G = \<lparr>uh_users = NewUserRepository G, uh_memberships = NewMembershipRepository G,
     uh_teamMemberships = NewTeamMembershipRepository G, uh_teams = NewTeamRepository G\<rparr>"

text \<open>Without a cache the program runs on.\<close>

definition main_cache :: "(string \<Rightarrow> string) \<Rightarrow> (string \<Rightarrow> err + 'c redis_client) \<Rightarrow> ('c redis_client \<times> duration) option" where
  "main_cache env redis =
     (case redis (cfg_RedisURL (Load env)) of Inl e \<Rightarrow> None | Inr client \<Rightarrow> Some (client, cfg_AuthzCacheTTL (Load env)))"

definition main_limiter :: "(string \<Rightarrow> string) \<Rightarrow> TenantSignupRateLimiter" where
  "main_limiter env = NewTenantSignupRateLimiter (cfg_TenantSignupRateLimit (Load env)) (cfg_TenantSignupWindow (Load env))"

definition main_saml :: "gorms \<Rightarrow> db SAMLService" where
  "main_saml G = NewSAMLService (NewSAMLProviderRepository G) (NewUserRepository G) (NewMembershipRepository G)"

text \<open>A failure to find or make a signing key is printed only.\<close>

definition main_app :: "(string \<Rightarrow> string) \<Rightarrow> gorms \<Rightarrow> bcrypt_lib \<Rightarrow> jwt_lib \<Rightarrow> ('k, 'p) rsa_lib \<Rightarrow> 'q rego_lib \<Rightarrow>
    (string \<Rightarrow> err + 'c redis_client) \<Rightarrow> rotation \<Rightarrow> time \<Rightarrow> db \<Rightarrow> (('q, 'c) app \<times> db) outcome" where
  "main_app env G bcrypt jwt rsa rego redis rnd now d =
     map_outcome (\<lambda>(r, jwks, d'). (\<lparr>
       app_tokens = main_tokens env jwt,
       app_auth = main_auth G bcrypt (main_tokens env jwt),
       app_users = main_user_handler G,
       app_tenants = NewTenantRepository G,
       app_risk = NewRiskScorer,
       app_teams = NewTeamRepository G,
       app_authz = main_authz G rego (main_cache env redis),
       app_oauth2 = main_oauth2 G (main_tokens env jwt),
       app_saml = main_saml G,
       app_mfa = main_mfa G,
       app_passwordless = main_passwordless G (main_tokens env jwt) mockEmailSender,
       app_idp = main_idp G (main_tokens env jwt),
       app_jwks = jwks,
       app_audit = main_audit G,
       app_gdpr = main_gdpr G,
       app_limiter = main_limiter env,
       app_routes = NewRouter\<rparr>, d'))
     (JWKSService_Initialize rsa rnd now (main_jwks G) d)"

section \<open>Starting\<close>

lemma Initialize_returns:
  "js_free s \<Longrightarrow> \<exists>r s' d'. JWKSService_Initialize lib rnd now s d = Returns (r, s', d') \<and> js_free s'"
proof (cases "SigningKeyRepository_FindActive (js_keys s) now d")
  case (Inr found)
  assume free: "js_free s"
  obtain r s' d' where rot: "JWKSService_RotateKey lib rnd s d = Returns (r, s', d')"
    using RotateKey_returns [of lib rnd s d] free by (cases "JWKSService_RotateKey lib rnd s d") auto
  show ?thesis using Inr free rot RotateKey_keys [OF rot] by (cases found) (simp_all add: JWKSService_Initialize_def)
qed (simp add: JWKSService_Initialize_def)

lemma main_app_starts:
  "\<exists>app d'. main_app env G bcrypt jwt rsa rego redis rnd now d = Returns (app, d') \<and>
     app_tokens app = main_tokens env jwt \<and> app_auth app = main_auth G bcrypt (main_tokens env jwt) \<and>
     app_routes app = NewRouter \<and> js_free (app_jwks app)"
proof -
  obtain r s' d' where "JWKSService_Initialize rsa rnd now (main_jwks G) d = Returns (r, s', d')" "js_free s'"
    using Initialize_returns [of "main_jwks G" rsa rnd now d] by auto
  then show ?thesis by (simp add: main_app_def)
qed

section \<open>The default secret\<close>

lemma admin_passes:
  assumes "RequireAuth tokens now header = Inr i" and "''admin'' \<in> set (ctx_roles i)" and "r \<in> set NewRouter"
  shows "\<exists>ctx. run_guards tokens now header None (rt_guards r) None = Inr ctx \<and> (Auth \<in> set (rt_guards r) \<longrightarrow> ctx = Some i)"
proof -
  have ok: "RBACService_Allow (ctx_roles i) ''self:read''"
    using assms(2) by (auto simp: Allow_iff rolePermissions_def intro!: bexI [of _ "''admin''"])
  have "list_all (\<lambda>q. rt_guards q \<in> {[], [Auth], [SignupLimit], [Auth, Perm ''self:read'']}) NewRouter"
    by (simp add: NewRouter_def route_groups api_v1_def)
  then have "rt_guards r \<in> {[], [Auth], [SignupLimit], [Auth, Perm ''self:read'']}" using assms(3) by (simp add: list_all_iff)
  then show ?thesis using ok assms(1) by (auto simp: RequirePermission_def Let_def)
qed

text \<open>C40: An unset secret opens every route. If \<open>HOVIYAT_JWT_SECRET\<close> is not set the program starts with a secret that is in
  its source: a token anybody signs with it for any user, any tenant and the role admin reaches every
  handler of the started program, with that user and tenant as the identity.\<close>

theorem unset_secret_forgeable:
  assumes "jwt_library jwt" and "env ''HOVIYAT_JWT_SECRET'' = []"
    and "TokenService_generate (NewTokenService jwt ''dev-secret-change-me'' ttl1 ttl2) t0 u tn [''admin''] ttl = Inr tok"
    and "now < jwt_NewNumericDate (t0 + ttl)"
  shows "\<exists>app d'. main_app env G bcrypt jwt rsa rego redis rnd start d = Returns (app, d') \<and>
    (\<forall>r\<in>set (app_routes app). \<exists>ctx. run_guards (app_tokens app) now (''Bearer '' @ tok) None (rt_guards r) None = Inr ctx \<and>
       (Auth \<in> set (rt_guards r) \<longrightarrow> ctx = Some \<lparr>ctx_userID = u, ctx_tenantID = tn, ctx_roles = [''admin'']\<rparr>))"
proof -
  let ?i = "\<lparr>ctx_userID = u, ctx_tenantID = tn, ctx_roles = [''admin'']\<rparr>"
  have s: "ts_secret (main_tokens env jwt) = ''dev-secret-change-me''" "ts_jwt (main_tokens env jwt) = jwt"
    using assms(2) by (simp_all add: main_tokens_def NewTokenService_def Load_def getEnv_def)
  have "TokenService_generate (main_tokens env jwt) t0 u tn [''admin''] ttl = Inr tok"
    using assms(3) s by (simp add: TokenService_generate_def NewTokenService_def)
  from jwt_library.Parse_generate [OF assms(1) this s(2) assms(4)]
  have "RequireAuth (main_tokens env jwt) now (''Bearer '' @ tok) = Inr ?i"
    using RequireAuth_bearer by (simp add: token_claims_def)
  from admin_passes [OF this]
  have "\<forall>r\<in>set NewRouter. \<exists>ctx. run_guards (main_tokens env jwt) now (''Bearer '' @ tok) None (rt_guards r) None = Inr ctx \<and>
       (Auth \<in> set (rt_guards r) \<longrightarrow> ctx = Some ?i)" by simp
  moreover obtain app d' where "main_app env G bcrypt jwt rsa rego redis rnd start d = Returns (app, d')"
     "app_tokens app = main_tokens env jwt" "app_routes app = NewRouter"
    using main_app_starts [of env G bcrypt jwt rsa rego redis rnd start d] by blast
  ultimately show ?thesis by auto
qed

theorem unset_secret_forgeable_witness:
  "\<forall>rnd. \<exists>tok app d'. TokenService_generate (NewTokenService plain_jwt ''dev-secret-change-me'' 0 0) 5 ''u1'' ''t1'' [''admin''] time_Hour = Inr tok \<and>
     main_app (\<lambda>k. []) mem_gorms plain_bcrypt plain_jwt plain_rsa demo_rego (\<lambda>url. Inr plain_redis) rnd 5 demo_db = Returns (app, d') \<and>
     app_routes app \<noteq> [] \<and>
     (\<forall>r\<in>set (app_routes app). \<exists>ctx. run_guards (app_tokens app) 6 (''Bearer '' @ tok) None (rt_guards r) None = Inr ctx)"
proof
  fix rnd
  obtain tok where tok: "TokenService_generate (NewTokenService plain_jwt ''dev-secret-change-me'' 0 0) 5 ''u1'' ''t1'' [''admin''] time_Hour = Inr tok"
    by (simp add: TokenService_generate_def NewTokenService_def plain_jwt_def)
  have live: "6 < jwt_NewNumericDate (5 + time_Hour)"
    by (simp add: jwt_NewNumericDate_def time_Hour_def time_Minute_def time_Second_def)
  obtain app d' where app: "main_app (\<lambda>k. []) mem_gorms plain_bcrypt plain_jwt plain_rsa demo_rego (\<lambda>url. Inr plain_redis) rnd 5 demo_db = Returns (app, d')"
      "app_routes app = NewRouter"
    using main_app_starts [of "\<lambda>k. []" mem_gorms plain_bcrypt plain_jwt plain_rsa demo_rego "\<lambda>url. Inr plain_redis" rnd 5 demo_db] by blast
  have "NewRouter \<noteq> []" by (simp add: NewRouter_def)
  then show "\<exists>tok app d'. TokenService_generate (NewTokenService plain_jwt ''dev-secret-change-me'' 0 0) 5 ''u1'' ''t1'' [''admin''] time_Hour = Inr tok \<and>
     main_app (\<lambda>k. []) mem_gorms plain_bcrypt plain_jwt plain_rsa demo_rego (\<lambda>url. Inr plain_redis) rnd 5 demo_db = Returns (app, d') \<and>
     app_routes app \<noteq> [] \<and>
     (\<forall>r\<in>set (app_routes app). \<exists>ctx. run_guards (app_tokens app) 6 (''Bearer '' @ tok) None (rt_guards r) None = Inr ctx)"
    using unset_secret_forgeable [OF plain_jwt.jwt_library_axioms refl tok live,
        of mem_gorms plain_bcrypt plain_rsa demo_rego "\<lambda>url. Inr plain_redis" rnd 5 demo_db] app tok by force
qed

end
