(* ===== verification/TeamProps.thy ===== *)
theory TeamProps
  imports RouterProps AccountHandlers
begin

text \<open>
  What the team routes let a caller do: no handler of team\_handler.go looks at the identity the
  middleware has put into the context, and \<open>rolesForTenant\<close> takes every role of a team for a role
  in the tenant.
\<close>

section \<open>The routes\<close>

lemma team_routes:
  assumes "TokenService_Parse tokens now tok = Inr c" and "team \<noteq> []"
  defines "i \<equiv> \<lparr>ctx_userID = cl_UserID c, ctx_tenantID = cl_TenantID c, ctx_roles = cl_Roles c\<rparr>"
  shows "dispatch tokens now (''Bearer '' @ tok) None ''POST'' [''api'', ''v1'', ''teams''] =
      Some (Inr (''teams.Create'', [], Some i))"
    and "dispatch tokens now (''Bearer '' @ tok) None ''POST'' [''api'', ''v1'', ''teams'', team, ''members''] =
      Some (Inr (''teams.AddMember'', [(''id'', team)], Some i))"
    and "dispatch tokens now (''Bearer '' @ tok) None ''POST'' [''api'', ''v1'', ''auth'', ''switch-tenant''] =
      Some (Inr (''auth.SwitchTenant'', [], Some i))"
proof -
  have "find_route NewRouter ''POST'' [''api'', ''v1'', ''teams''] =
      Some (api_v1 (Route ''POST'' [Lit ''teams''] [Auth] ''teams.Create''))"
    by (simp add: NewRouter_def route_groups api_v1_def)
  then show "dispatch tokens now (''Bearer '' @ tok) None ''POST'' [''api'', ''v1'', ''teams''] =
      Some (Inr (''teams.Create'', [], Some i))"
    using RequireAuth_bearer [OF assms(1)] by (simp add: dispatch_def api_v1_def i_def)
  have "find_route NewRouter ''POST'' [''api'', ''v1'', ''teams'', team, ''members''] =
      Some (api_v1 (Route ''POST'' [Lit ''teams'', Par ''id'', Lit ''members''] [Auth] ''teams.AddMember''))"
    using assms(2) by (simp add: NewRouter_def route_groups api_v1_def)
  then show "dispatch tokens now (''Bearer '' @ tok) None ''POST'' [''api'', ''v1'', ''teams'', team, ''members''] =
      Some (Inr (''teams.AddMember'', [(''id'', team)], Some i))"
    using RequireAuth_bearer [OF assms(1)] assms(2) by (simp add: dispatch_def api_v1_def i_def)
  have "find_route NewRouter ''POST'' [''api'', ''v1'', ''auth'', ''switch-tenant''] =
      Some (api_v1 (Route ''POST'' [Lit ''auth'', Lit ''switch-tenant''] [Auth] ''auth.SwitchTenant''))"
    by (simp add: NewRouter_def route_groups api_v1_def)
  then show "dispatch tokens now (''Bearer '' @ tok) None ''POST'' [''api'', ''v1'', ''auth'', ''switch-tenant''] =
      Some (Inr (''auth.SwitchTenant'', [], Some i))"
    using RequireAuth_bearer [OF assms(1)] by (simp add: dispatch_def api_v1_def i_def)
qed

section \<open>Team roles\<close>

lemma team_roles_member:
  "tm \<in> set tms \<Longrightarrow> TeamRepository_FindByID teams (tm_TeamID tm) w = Inr team \<Longrightarrow> team_TenantID team = t \<Longrightarrow>
   r \<in> set (tm_Roles tm) \<Longrightarrow> r \<in> set (team_roles teams t w tms roles)"
  by (induction tms arbitrary: roles) (auto intro: team_roles_keeps split: sum.split)

context database
begin

lemma created_team_tenant:
  assumes "TeamHandler_Create (NewTeamRepository G) tid bound d = (Reply 201 team, d1)"
    and "teamRepository_FindByID G (team_ID team) d1 = Inr team'"
  shows "team_TenantID team' = tid"
proof -
  obtain m m' t where c: "g_Create (gorm_teams G) m (t_teams d) = (Inr m', t)" "d1 = d\<lparr>t_teams := t\<rparr>"
      "team_ID team = tem_ID m'" "tem_TenantID m = tid"
    using assms(1) by (auto simp: TeamHandler_Create_def TeamService_Create_def NewTeamRepository_def
        teamRepository_Create_def toTeamResponse_def writeError_def Let_def
        split: if_splits sum.splits prod.splits)
  obtain r where r: "g_First (gorm_teams G) (\<lambda>q. tem_ID q = tem_ID m') t = Inr r" "team' = fromTeamModel r"
    using assms(2) c by (auto simp: teamRepository_FindByID_def split: sum.splits)
  have "tem_TenantID r = tid"
    using team.Create_row [OF c(1)] team.First_hit [OF r(1)] c(4) by (auto simp: row_team_defs)
  then show ?thesis using r(2) by (simp add: fromTeamModel_def)
qed

lemma added_member:
  assumes "TeamHandler_AddMember (NewTeamMembershipRepository G) (NewTeamRepository G) team (Inr (u, rs)) d1 = (Reply 201 tm, d2)"
  obtains x where "x \<in> db_team_memberships d2" and "tm_UserID x = u" and "tm_TeamID x = team"
    and "tm_Roles x = csv_roles rs" and "\<exists>t. teamRepository_FindByID G team d1 = Inr t" and "t_teams d2 = t_teams d1"
proof -
  obtain m' where c: "teamMembershipRepository_Create G \<lparr>tm_UserID = u, tm_TeamID = team, tm_Roles = rs,
      tm_CreatedAt = zero_time, tm_UpdatedAt = zero_time\<rparr> d1 = (Inr m', d2)"
      "\<exists>t. teamRepository_FindByID G team d1 = Inr t"
    using assms by (auto simp: TeamHandler_AddMember_def TeamMembershipService_AddMember_def NewTeamRepository_def
        NewTeamMembershipRepository_def writeError_def split: if_splits sum.splits prod.splits)
  have "t_teams d2 = t_teams d1"
    using c(1) by (auto simp: teamMembershipRepository_Create_def split: sum.splits prod.splits)
  then show ?thesis using team_member.create_ok [OF c(1)] c(2) that by auto
qed

lemma team_admin_roles:
  assumes "TeamHandler_Create (NewTeamRepository G) tid bound d = (Reply 201 team, d1)"
    and "TeamHandler_AddMember (NewTeamMembershipRepository G) (NewTeamRepository G) (team_ID team) (Inr (u, [''admin''])) d1
      = (Reply 201 tm, d2)"
    and "AuthService_rolesForTenant (main_auth G lib tokens) u tid d2 = Inr roles"
  shows "''admin'' \<in> set roles"
proof -
  obtain x where x: "x \<in> db_team_memberships d2" "tm_UserID x = u" "tm_TeamID x = team_ID team"
      "tm_Roles x = [''admin'']" "\<exists>t. teamRepository_FindByID G (team_ID team) d1 = Inr t" "t_teams d2 = t_teams d1"
    using added_member [OF assms(2)] by (metis csv_roles_admin)
  from rolesForTenant_ok [OF assms(3)] obtain tms and m :: Membership
    where l: "TeamMembershipRepository_ListByUser (as_teamMemberships (main_auth G lib tokens)) u d2 = Inr tms"
      and "roles = team_roles (as_teams (main_auth G lib tokens)) tid d2 tms (mem_Roles m)"
    by (elim exE conjE) (rule that)
  then have r: "roles = team_roles (NewTeamRepository G) tid d2 tms (mem_Roles m)" by simp
  obtain t where t: "teamRepository_FindByID G (team_ID team) d2 = Inr t" "teamRepository_FindByID G (team_ID team) d1 = Inr t"
    using x(5,6) by (auto simp: teamRepository_FindByID_def)
  have "x \<in> set tms" using team_member.list_rows [of u d2 tms] l x(1,2) by (simp add: NewTeamMembershipRepository_def)
  then show ?thesis
    unfolding r using t x(3,4) created_team_tenant [OF assms(1) t(2)]
    by (intro team_roles_member [of x tms _ _ t]) (auto simp: NewTeamRepository_def)
qed

end

section \<open>Making oneself an administrator\<close>

text \<open>C30: Any member can make himself administrator. All it takes is three requests with the member's token, whatever
  its roles: create a team in the tenant, join it with the role admin, and ask for a session in the
  tenant. If the last one is answered with a session, its roles include admin and allow
  \<open>users:write\<close>.\<close>

theorem member_makes_himself_admin:
  assumes "database G" and "TokenService_Parse tokens now tok = Inr c" and "team_ID team \<noteq> []"
  defines "i \<equiv> \<lparr>ctx_userID = cl_UserID c, ctx_tenantID = cl_TenantID c, ctx_roles = cl_Roles c\<rparr>"
  assumes "TeamHandler_Create (NewTeamRepository G) tid (Inr (name, slug)) d = (Reply 201 team, d1)"
    and "TeamHandler_AddMember (NewTeamMembershipRepository G) (NewTeamRepository G) (team_ID team)
      (Inr (ctx_userID i, [''admin''])) d1 = (Reply 201 tm, d2)"
    and "AuthHandler_SwitchTenant (main_auth G lib tokens) clock (Some i) (Inr tid) d2 = Reply 200 resp"
  shows "map (dispatch tokens now (''Bearer '' @ tok) None ''POST'')
      [[''api'', ''v1'', ''teams''], [''api'', ''v1'', ''teams'', team_ID team, ''members''], [''api'', ''v1'', ''auth'', ''switch-tenant'']] =
      [Some (Inr (''teams.Create'', [], Some i)), Some (Inr (''teams.AddMember'', [(''id'', team_ID team)], Some i)),
       Some (Inr (''auth.SwitchTenant'', [], Some i))] \<and>
    ''admin'' \<in> set (arp_Roles resp) \<and> RBACService_Allow (arp_Roles resp) ''users:write''"
proof -
  obtain res where s: "AuthService_SwitchTenant (main_auth G lib tokens) clock (ctx_userID i) tid d2 = Inr res"
      and resp: "resp = toAuthResponse res"
    using assms(7) by (auto simp: AuthHandler_SwitchTenant_def ctx_GetUserID_def writeError_def split: sum.splits if_splits)
  obtain roles where r: "AuthService_rolesForTenant (main_auth G lib tokens) (ctx_userID i) tid d2 = Inr roles"
      and "ar_Roles res = roles"
    using s by (auto simp: AuthService_SwitchTenant_def split: sum.splits dest: issueTokens_ok)
  then have "''admin'' \<in> set (arp_Roles resp)"
    using database.team_admin_roles [OF assms(1,5,6) r] by (simp add: resp toAuthResponse_def)
  then show ?thesis using team_routes [OF assms(2,3)] by (simp add: i_def Allow_users)
qed

text \<open>The database of the examples after the two requests.\<close>

definition made_team :: teamModel where
  "made_team = \<lparr>tem_ID = fresh_id 2, tem_TenantID = ''t1'', tem_Name = ''X'', tem_Slug = ''x'',
     tem_CreatedAt = zero_time, tem_UpdatedAt = zero_time\<rparr>"

definition team_db :: db where
  "team_db = demo_db\<lparr>t_teams := t_teams demo_db @ [made_team]\<rparr>"

definition joined_db :: db where
  "joined_db = team_db\<lparr>t_team_memberships := t_team_memberships demo_db @ [\<lparr>tmm_UserID = ''u1'', tmm_TeamID = fresh_id 2,
     tmm_Roles = ''admin'', tmm_CreatedAt = zero_time, tmm_UpdatedAt = zero_time\<rparr>]\<rparr>"

lemma demo_create_team:
  "TeamHandler_Create (NewTeamRepository mem_gorms) ''t1'' (Inr (''X'', ''x'')) demo_db = (Reply 201 (fromTeamModel made_team), team_db)"
  by (simp add: TeamHandler_Create_def TeamService_Create_def NewTeamRepository_def teamRepository_Create_def toTeamResponse_def
        team_db_def made_team_def fromTeamModel_def demo_db_def eval_mapper row_team_defs Let_def fresh_id_def numeral_2_eq_2)

lemma demo_join_team:
  "\<exists>tm. TeamHandler_AddMember (NewTeamMembershipRepository mem_gorms) (NewTeamRepository mem_gorms) (fresh_id 2)
     (Inr (''u1'', [''admin''])) team_db = (Reply 201 tm, joined_db)"
  by (simp add: TeamHandler_AddMember_def TeamMembershipService_AddMember_def NewTeamRepository_def NewTeamMembershipRepository_def
      teamRepository_FindByID_def teamMembershipRepository_Create_def toTeamMembershipModel_def
      joined_db_def team_db_def made_team_def fromTeamModel_def demo_db_def eval_mapper row_team_membership_defs Let_def fresh_id_def numeral_2_eq_2)

lemma demo_switch_team:
  "\<exists>resp. AuthHandler_SwitchTenant demo_auth (5, 6) (Some \<lparr>ctx_userID = ''u1'', ctx_tenantID = t, ctx_roles = rs\<rparr>) (Inr ''t1'') joined_db
     = Reply 200 resp"
proof -
  obtain roles where r: "AuthService_rolesForTenant demo_auth ''u1'' ''t1'' joined_db = Inr roles"
    by (simp add: AuthService_rolesForTenant_def demo_auth_def joined_db_def team_db_def demo_db_def repo_simps eval_mapper conv_simps
      TenantStatusActive_def)
  obtain user where u: "UserRepository_FindByID (as_users demo_auth) ''u1'' joined_db = Inr user"
    by (simp add: demo_auth_def joined_db_def team_db_def demo_db_def userRepository_FindByID_def eval_mapper conv_simps)
  obtain res where "AuthService_issueTokens demo_auth (5, 6) user ''t1'' roles = Inr res"
    using issueTokens_total [of demo_auth "(5, 6)" user "''t1''" roles] by (auto simp: demo_auth_def)
  then show ?thesis using r u by (simp add: AuthHandler_SwitchTenant_def AuthService_SwitchTenant_def ctx_GetUserID_def)
qed

theorem member_makes_himself_admin_witness:
  "\<exists>tok c team d1 tm d2 resp. TokenService_GenerateAccessToken demo_tokens 5 ''u1'' ''t1'' [''member''] = Inr tok \<and>
     TokenService_Parse demo_tokens 6 tok = Inr c \<and>
     TeamHandler_Create (NewTeamRepository mem_gorms) ''t1'' (Inr (''X'', ''x'')) demo_db = (Reply 201 team, d1) \<and>
     TeamHandler_AddMember (NewTeamMembershipRepository mem_gorms) (NewTeamRepository mem_gorms) (team_ID team)
       (Inr (cl_UserID c, [''admin''])) d1 = (Reply 201 tm, d2) \<and>
     AuthHandler_SwitchTenant demo_auth (5, 6) (Some \<lparr>ctx_userID = cl_UserID c, ctx_tenantID = cl_TenantID c,
       ctx_roles = cl_Roles c\<rparr>) (Inr ''t1'') d2 = Reply 200 resp \<and> ''admin'' \<in> set (arp_Roles resp)"
proof -
  obtain tok where tok: "TokenService_GenerateAccessToken demo_tokens 5 ''u1'' ''t1'' [''member''] = Inr tok"
    by (simp add: TokenService_GenerateAccessToken_def TokenService_generate_def demo_tokens_def NewTokenService_def plain_jwt_def)
  have gen: "TokenService_generate demo_tokens 5 ''u1'' ''t1'' [''member''] (15 * time_Minute) = Inr tok"
    using tok by (simp add: TokenService_GenerateAccessToken_def demo_tokens_def NewTokenService_def)
  obtain c where c: "TokenService_Parse demo_tokens 6 tok = Inr c" "cl_UserID c = ''u1''"
    using plain_jwt.Parse_generate [OF gen, of 6]
    by (simp add: demo_tokens_def NewTokenService_def jwt_NewNumericDate_def time_Minute_def time_Second_def token_claims_def)
  obtain tm where j: "TeamHandler_AddMember (NewTeamMembershipRepository mem_gorms) (NewTeamRepository mem_gorms) (fresh_id 2)
     (Inr (''u1'', [''admin''])) team_db = (Reply 201 tm, joined_db)" using demo_join_team ..
  obtain resp where s: "AuthHandler_SwitchTenant demo_auth (5, 6) (Some \<lparr>ctx_userID = ''u1'', ctx_tenantID = cl_TenantID c,
     ctx_roles = cl_Roles c\<rparr>) (Inr ''t1'') joined_db = Reply 200 resp" using demo_switch_team by blast
  have n: "team_ID (fromTeamModel made_team) = fresh_id 2" "fresh_id 2 \<noteq> []"
    by (simp_all add: fromTeamModel_def made_team_def fresh_id_def)
  show ?thesis
    using member_makes_himself_admin [OF mem_database c(1) _ demo_create_team, of tm joined_db plain_bcrypt "(5, 6)" resp]
      tok c j s demo_create_team n unfolding demo_auth_def by simp
qed

end
