(* ===== verification/Requests.thy ===== *)
theory Requests
  imports FactorHandlers AuthzHandler IdpHandler OAuth2Handler Signup Gdpr Saml
begin

text \<open>
  The request types of package \<open>api\<close>: which fields a body has, and the \<open>binding\<close> rules of their
  tags. \<open>ShouldBindJSON\<close> decodes the body with encoding/json and then has the validator library
  check the rules; the library is not under src/ and is the argument \<open>V\<close>, with its documented
  meaning of the rules as the laws of \<open>tag_validator\<close>. A body is given as the JSON value it denotes
  (\<open>None\<close> if it is none) with pairwise different ASCII keys.
\<close>

section \<open>Decoding\<close>

text \<open>A key matches a field's name in any case; \<open>null\<close> leaves the field as it is.\<close>

definition json_field :: "string \<Rightarrow> (string \<times> any) list \<Rightarrow> any" where
  "json_field name es = (case find (\<lambda>(k, v). strings_ToLower k = name) es of None \<Rightarrow> ANull | Some (k, v) \<Rightarrow> v)"

definition text_of_any :: "any \<Rightarrow> string option" where
  "text_of_any v = (case v of AStr s \<Rightarrow> Some s | ANull \<Rightarrow> Some [] | _ \<Rightarrow> None)"

definition bool_of_any :: "any \<Rightarrow> bool option" where
  "bool_of_any v = (case v of ABool b \<Rightarrow> Some b | ANull \<Rightarrow> Some False | _ \<Rightarrow> None)"

definition int_of_any :: "any \<Rightarrow> int option" where
  "int_of_any v = (case v of AInt n \<Rightarrow> (if - (2 ^ 63) \<le> n \<and> n < 2 ^ 63 then Some n else None) | ANull \<Rightarrow> Some 0 | _ \<Rightarrow> None)"

definition texts_of_any :: "any \<Rightarrow> string list option" where
  "texts_of_any v =
     (case v of
        AList vs \<Rightarrow> (if list_all (\<lambda>x. text_of_any x \<noteq> None) vs then Some (map (\<lambda>x. the (text_of_any x)) vs) else None)
      | ANull \<Rightarrow> Some []
      | _ \<Rightarrow> None)"

definition object_of_any :: "any \<Rightarrow> any_map option" where
  "object_of_any v = (case v of AMap es \<Rightarrow> Some (Some es) | ANull \<Rightarrow> Some None | _ \<Rightarrow> None)"

definition text_map_of_any :: "any \<Rightarrow> (string \<times> string) list option option" where
  "text_map_of_any v =
     (case v of
        AMap es \<Rightarrow>
          (if list_all (\<lambda>e. text_of_any (snd e) \<noteq> None) es
           then Some (Some (map (\<lambda>(k, x). (k, the (text_of_any x))) es)) else None)
      | ANull \<Rightarrow> Some None
      | _ \<Rightarrow> None)"

text \<open>The fields of a body, and whether each of them has its type.\<close>

definition get_text :: "string \<Rightarrow> (string \<times> any) list \<Rightarrow> string" where
  "get_text name es = the (text_of_any (json_field name es))"

definition get_texts :: "string \<Rightarrow> (string \<times> any) list \<Rightarrow> string list" where
  "get_texts name es = the (texts_of_any (json_field name es))"

definition get_bool :: "string \<Rightarrow> (string \<times> any) list \<Rightarrow> bool" where
  "get_bool name es = the (bool_of_any (json_field name es))"

definition typed :: "(any \<Rightarrow> 'a option) \<Rightarrow> string list \<Rightarrow> (string \<times> any) list \<Rightarrow> bool" where
  "typed f names es \<longleftrightarrow> list_all (\<lambda>name. f (json_field name es) \<noteq> None) names"

text \<open>A query or form value: the first one under the field's name.\<close>

definition form_text :: "string \<Rightarrow> (string \<times> string list) list \<Rightarrow> string" where
  "form_text name vs = (case map_of vs name of Some (x # _) \<Rightarrow> x | _ \<Rightarrow> [])"

section \<open>Rules\<close>

datatype rule = Required | Email | Url | MinLen nat | Len nat | OneOf "string list" | OmitEmpty

datatype field = FText string | FTexts "string list" | FAny any

type_synonym tag_lib = "rule list \<Rightarrow> field \<Rightarrow> bool"

text \<open>
  What the validator documents, for texts and lists: \<open>required\<close> refuses the zero value, \<open>min\<close> and
  \<open>len\<close> count the characters of a text, of which it has no more than bytes, and the entries of a
  list, \<open>oneof\<close> takes the listed values only. Rules after \<open>omitempty\<close> do not apply to a zero value.
\<close>

locale tag_validator =
  fixes V :: tag_lib
  assumes required_text: "V rs (FText s) \<Longrightarrow> Required \<in> set rs \<Longrightarrow> s \<noteq> []"
    and required_any: "V rs (FAny a) \<Longrightarrow> Required \<in> set rs \<Longrightarrow> a \<noteq> ANull"
    and min_text: "V rs (FText s) \<Longrightarrow> MinLen n \<in> set rs \<Longrightarrow> OmitEmpty \<notin> set rs \<Longrightarrow> n \<le> length s"
    and min_texts: "V rs (FTexts xs) \<Longrightarrow> MinLen n \<in> set rs \<Longrightarrow> OmitEmpty \<notin> set rs \<Longrightarrow> n \<le> length xs"
    and len_text: "V rs (FText s) \<Longrightarrow> Len n \<in> set rs \<Longrightarrow> OmitEmpty \<notin> set rs \<Longrightarrow> n \<le> length s"
    and oneof_text: "V rs (FText s) \<Longrightarrow> OneOf vs \<in> set rs \<Longrightarrow> OmitEmpty \<notin> set rs \<Longrightarrow> s \<in> set vs"

text \<open>An instance with plain readings of \<open>email\<close> and \<open>url\<close>, for ASCII texts.\<close>

fun plain_rule :: "rule \<Rightarrow> field \<Rightarrow> bool" where
  "plain_rule Required (FText s) \<longleftrightarrow> s \<noteq> []"
| "plain_rule Required (FTexts xs) \<longleftrightarrow> xs \<noteq> []"
| "plain_rule Required (FAny a) \<longleftrightarrow> a \<noteq> ANull"
| "plain_rule Email (FText s) \<longleftrightarrow> CHR ''@'' \<in> set s"
| "plain_rule Url (FText s) \<longleftrightarrow> CHR '':'' \<in> set s"
| "plain_rule (MinLen n) (FText s) \<longleftrightarrow> n \<le> length s"
| "plain_rule (MinLen n) (FTexts xs) \<longleftrightarrow> n \<le> length xs"
| "plain_rule (Len n) (FText s) \<longleftrightarrow> length s = n"
| "plain_rule (OneOf vs) (FText s) \<longleftrightarrow> s \<in> set vs"
| "plain_rule OmitEmpty f \<longleftrightarrow> True"
| "plain_rule r f \<longleftrightarrow> False"

definition plain_tags :: tag_lib where
  "plain_tags rs f \<longleftrightarrow> (OmitEmpty \<in> set rs \<and> (f = FText [] \<or> f = FTexts [] \<or> f = FAny ANull) \<and> Required \<notin> set rs) \<or>
     list_all (\<lambda>r. plain_rule r f) rs"

interpretation plain_tags: tag_validator plain_tags
  by unfold_locales (auto simp: plain_tags_def list_all_iff)

section \<open>Binding\<close>

definition ShouldBindJSON :: "((string \<times> any) list \<Rightarrow> bool) \<Rightarrow> ((string \<times> any) list \<Rightarrow> 'r) \<Rightarrow> ((string \<times> any) list \<Rightarrow> bool) \<Rightarrow> any option \<Rightarrow> err + 'r" where
  "ShouldBindJSON typing decode valid body =
     (case body of
        Some v \<Rightarrow>
          (case object_of_any v of
             Some m \<Rightarrow>
               (let es = (case m of None \<Rightarrow> [] | Some es \<Rightarrow> es)
                in if typing es \<and> valid es then Inr (decode es) else Inl (FmtErr ''binding''))
           | None \<Rightarrow> Inl (FmtErr ''binding''))
      | None \<Rightarrow> Inl (FmtErr ''binding''))"

lemma ShouldBindJSON_object:
  "ShouldBindJSON typing decode valid (Some (AMap es)) =
     (if typing es \<and> valid es then Inr (decode es) else Inl (FmtErr ''binding''))"
  by (simp add: ShouldBindJSON_def object_of_any_def)

lemma ShouldBindJSON_ok:
  "ShouldBindJSON typing decode valid body = Inr r \<Longrightarrow> \<exists>es. typing es \<and> valid es \<and> r = decode es"
  by (auto simp: ShouldBindJSON_def Let_def split: option.splits if_splits)

section \<open>The request types\<close>

subsection \<open>auth\_handler.go\<close>

definition credentialsRequest_json :: "tag_lib \<Rightarrow> any option \<Rightarrow> err + credentialsRequest" where
  "credentialsRequest_json V = ShouldBindJSON
     (\<lambda>es. typed text_of_any [''email'', ''password'', ''tenant_id''] es)
     (\<lambda>es. \<lparr>crq_Email = get_text ''email'' es, crq_Password = get_text ''password'' es,
         crq_TenantID = get_text ''tenant_id'' es\<rparr>)
     (\<lambda>es. V [Required, Email] (FText (get_text ''email'' es)) \<and>
         V [Required, MinLen 8] (FText (get_text ''password'' es)))"

definition switchTenantRequest_json :: "tag_lib \<Rightarrow> any option \<Rightarrow> err + string" where
  "switchTenantRequest_json V = ShouldBindJSON
     (\<lambda>es. typed text_of_any [''tenant_id''] es)
     (\<lambda>es. get_text ''tenant_id'' es)
     (\<lambda>es. V [Required] (FText (get_text ''tenant_id'' es)))"

definition leaveTenantRequest_json :: "tag_lib \<Rightarrow> any option \<Rightarrow> err + string" where
  "leaveTenantRequest_json V = ShouldBindJSON
     (\<lambda>es. typed text_of_any [''tenant_id''] es)
     (\<lambda>es. get_text ''tenant_id'' es)
     (\<lambda>es. V [Required] (FText (get_text ''tenant_id'' es)))"

subsection \<open>team\_handler.go\<close>

definition createTeamRequest_json :: "tag_lib \<Rightarrow> any option \<Rightarrow> err + (string \<times> string)" where
  "createTeamRequest_json V = ShouldBindJSON
     (\<lambda>es. typed text_of_any [''name'', ''slug''] es)
     (\<lambda>es. (get_text ''name'' es, get_text ''slug'' es))
     (\<lambda>es. V [Required] (FText (get_text ''name'' es)) \<and> V [Required] (FText (get_text ''slug'' es)))"

definition addTeamMemberRequest_json :: "tag_lib \<Rightarrow> any option \<Rightarrow> err + (string \<times> string list)" where
  "addTeamMemberRequest_json V = ShouldBindJSON
     (\<lambda>es. typed text_of_any [''user_id''] es \<and> typed texts_of_any [''roles''] es)
     (\<lambda>es. (get_text ''user_id'' es, get_texts ''roles'' es))
     (\<lambda>es. V [Required] (FText (get_text ''user_id'' es)))"

definition updateTeamMemberRequest_json :: "tag_lib \<Rightarrow> any option \<Rightarrow> err + string list" where
  "updateTeamMemberRequest_json V = ShouldBindJSON
     (\<lambda>es. typed texts_of_any [''roles''] es)
     (\<lambda>es. get_texts ''roles'' es)
     (\<lambda>es. True)"

subsection \<open>tenant\_handler.go\<close>

definition createTenantRequest_json :: "tag_lib \<Rightarrow> any option \<Rightarrow> err + createTenantRequest" where
  "createTenantRequest_json V = ShouldBindJSON
     (\<lambda>es. typed text_of_any [''name'', ''slug'', ''email''] es)
     (\<lambda>es. \<lparr>ctr_Name = get_text ''name'' es, ctr_Slug = get_text ''slug'' es, ctr_Email = get_text ''email'' es\<rparr>)
     (\<lambda>es. V [Required] (FText (get_text ''name'' es)) \<and>
         V [Required] (FText (get_text ''slug'' es)) \<and>
         V [Required, Email] (FText (get_text ''email'' es)))"

subsection \<open>authz\_handler.go\<close>

definition authzCheckRequest_json :: "tag_lib \<Rightarrow> any option \<Rightarrow> err + AuthzRequest" where
  "authzCheckRequest_json V = ShouldBindJSON
     (\<lambda>es. typed text_of_any [''user_id'', ''tenant_id'', ''resource_type'', ''resource_id'', ''action''] es \<and>
         typed object_of_any [''context''] es)
     (\<lambda>es. \<lparr>req_UserID = get_text ''user_id'' es, req_TenantID = get_text ''tenant_id'' es,
         req_ResourceType = get_text ''resource_type'' es, req_ResourceID = get_text ''resource_id'' es,
         req_Action = get_text ''action'' es, req_Context = the (object_of_any (json_field ''context'' es))\<rparr>)
     (\<lambda>es. V [Required] (FText (get_text ''user_id'' es)) \<and>
         V [Required] (FText (get_text ''tenant_id'' es)) \<and>
         V [Required] (FText (get_text ''resource_type'' es)) \<and>
         V [Required] (FText (get_text ''resource_id'' es)) \<and>
         V [Required] (FText (get_text ''action'' es)))"

definition authzDryRunRequest_json :: "tag_lib \<Rightarrow> any option \<Rightarrow> err + AuthzRequest" where
  "authzDryRunRequest_json V = ShouldBindJSON
     (\<lambda>es. typed text_of_any [''user_id'', ''tenant_id'', ''resource_type'', ''resource_id'', ''action''] es \<and>
         typed object_of_any [''context''] es)
     (\<lambda>es. \<lparr>req_UserID = get_text ''user_id'' es, req_TenantID = get_text ''tenant_id'' es,
         req_ResourceType = get_text ''resource_type'' es, req_ResourceID = get_text ''resource_id'' es,
         req_Action = get_text ''action'' es, req_Context = the (object_of_any (json_field ''context'' es))\<rparr>)
     (\<lambda>es. V [Required] (FText (get_text ''user_id'' es)) \<and>
         V [Required] (FText (get_text ''tenant_id'' es)) \<and>
         V [Required] (FText (get_text ''resource_type'' es)) \<and>
         V [Required] (FText (get_text ''resource_id'' es)) \<and>
         V [Required] (FText (get_text ''action'' es)))"

definition aclGrantRequest_json :: "tag_lib \<Rightarrow> any option \<Rightarrow> err + ACLGrantRequest" where
  "aclGrantRequest_json V = ShouldBindJSON
     (\<lambda>es. typed text_of_any [''subject_type'', ''subject_id'', ''resource_type'', ''resource_id'', ''permission'', ''effect''] es)
     (\<lambda>es. \<lparr>gr_SubjectType = get_text ''subject_type'' es, gr_SubjectID = get_text ''subject_id'' es,
         gr_ResourceType = get_text ''resource_type'' es, gr_ResourceID = get_text ''resource_id'' es,
         gr_Permission = get_text ''permission'' es, gr_Effect = get_text ''effect'' es\<rparr>)
     (\<lambda>es. V [Required, OneOf [''user'', ''team'', ''role'']] (FText (get_text ''subject_type'' es)) \<and>
         V [Required] (FText (get_text ''subject_id'' es)) \<and>
         V [Required] (FText (get_text ''resource_type'' es)) \<and>
         V [Required] (FText (get_text ''resource_id'' es)) \<and>
         V [Required] (FText (get_text ''permission'' es)) \<and>
         V [OneOf [''allow'', ''deny'']] (FText (get_text ''effect'' es)))"

definition rolePermGrantRequest_json :: "tag_lib \<Rightarrow> any option \<Rightarrow> err + rolePermGrantRequest" where
  "rolePermGrantRequest_json V = ShouldBindJSON
     (\<lambda>es. typed text_of_any [''role_name'', ''permission''] es)
     (\<lambda>es. \<lparr>rgr_RoleName = get_text ''role_name'' es, rgr_Permission = get_text ''permission'' es\<rparr>)
     (\<lambda>es. V [Required] (FText (get_text ''role_name'' es)) \<and>
         V [Required] (FText (get_text ''permission'' es)))"

definition permissionCreateRequest_json :: "tag_lib \<Rightarrow> any option \<Rightarrow> err + permissionCreateRequest" where
  "permissionCreateRequest_json V = ShouldBindJSON
     (\<lambda>es. typed text_of_any [''name'', ''description''] es)
     (\<lambda>es. \<lparr>pcr_Name = get_text ''name'' es, pcr_Description = get_text ''description'' es\<rparr>)
     (\<lambda>es. V [Required] (FText (get_text ''name'' es)))"

definition policyCreateRequest_json :: "tag_lib \<Rightarrow> any option \<Rightarrow> err + policyCreateRequest" where
  "policyCreateRequest_json V = ShouldBindJSON
     (\<lambda>es. typed text_of_any [''name'', ''description'', ''rego''] es)
     (\<lambda>es. \<lparr>plq_Name = get_text ''name'' es, plq_Description = get_text ''description'' es,
         plq_Rego = get_text ''rego'' es\<rparr>)
     (\<lambda>es. V [Required] (FText (get_text ''name'' es)) \<and> V [Required] (FText (get_text ''rego'' es)))"

subsection \<open>passwordless\_handler.go\<close>

definition sendMagicLinkRequest_json :: "tag_lib \<Rightarrow> any option \<Rightarrow> err + sendMagicLinkRequest" where
  "sendMagicLinkRequest_json V = ShouldBindJSON
     (\<lambda>es. typed text_of_any [''email'', ''tenant_id'', ''base_url''] es)
     (\<lambda>es. \<lparr>smr_Email = get_text ''email'' es, smr_TenantID = get_text ''tenant_id'' es,
         smr_BaseURL = get_text ''base_url'' es\<rparr>)
     (\<lambda>es. V [Required, Email] (FText (get_text ''email'' es)) \<and>
         V [Required] (FText (get_text ''tenant_id'' es)) \<and>
         V [Required, Url] (FText (get_text ''base_url'' es)))"

definition verifyMagicLinkRequest_json :: "tag_lib \<Rightarrow> any option \<Rightarrow> err + (string \<times> string)" where
  "verifyMagicLinkRequest_json V = ShouldBindJSON
     (\<lambda>es. typed text_of_any [''token'', ''tenant_id''] es)
     (\<lambda>es. (get_text ''token'' es, get_text ''tenant_id'' es))
     (\<lambda>es. V [Required] (FText (get_text ''token'' es)) \<and>
         V [Required] (FText (get_text ''tenant_id'' es)))"

definition requestPasswordResetRequest_json :: "tag_lib \<Rightarrow> any option \<Rightarrow> err + unit" where
  "requestPasswordResetRequest_json V = ShouldBindJSON
     (\<lambda>es. typed text_of_any [''email'', ''tenant_id'', ''base_url''] es)
     (\<lambda>es. ())
     (\<lambda>es. V [Required, Email] (FText (get_text ''email'' es)) \<and>
         V [Required] (FText (get_text ''tenant_id'' es)) \<and>
         V [Required, Url] (FText (get_text ''base_url'' es)))"

definition resetPasswordRequest_json :: "tag_lib \<Rightarrow> any option \<Rightarrow> err + unit" where
  "resetPasswordRequest_json V = ShouldBindJSON
     (\<lambda>es. typed text_of_any [''token'', ''password'', ''tenant_id''] es)
     (\<lambda>es. ())
     (\<lambda>es. V [Required] (FText (get_text ''token'' es)) \<and>
         V [Required, MinLen 8] (FText (get_text ''password'' es)) \<and>
         V [Required] (FText (get_text ''tenant_id'' es)))"

definition verifyEmailRequest_json :: "tag_lib \<Rightarrow> any option \<Rightarrow> err + unit" where
  "verifyEmailRequest_json V = ShouldBindJSON
     (\<lambda>es. typed text_of_any [''token''] es)
     (\<lambda>es. ())
     (\<lambda>es. V [Required] (FText (get_text ''token'' es)))"

definition updatePasswordPolicyRequest_json :: "tag_lib \<Rightarrow> any option \<Rightarrow> err + unit" where
  "updatePasswordPolicyRequest_json V = ShouldBindJSON
     (\<lambda>es. typed int_of_any [''min_length'', ''max_age_days'', ''history_count'', ''lockout_threshold'', ''lockout_duration_min''] es \<and>
         typed bool_of_any [''require_uppercase'', ''require_lowercase'', ''require_number'', ''require_special'', ''breach_check_enabled''] es)
     (\<lambda>es. ())
     (\<lambda>es. True)"

subsection \<open>mfa\_handler.go\<close>

definition enrollTOTPRequest_json :: "tag_lib \<Rightarrow> any option \<Rightarrow> err + string" where
  "enrollTOTPRequest_json V = ShouldBindJSON
     (\<lambda>es. typed text_of_any [''name''] es)
     (\<lambda>es. get_text ''name'' es)
     (\<lambda>es. V [Required] (FText (get_text ''name'' es)))"

definition verifyTOTPRequest_json :: "tag_lib \<Rightarrow> any option \<Rightarrow> err + string" where
  "verifyTOTPRequest_json V = ShouldBindJSON
     (\<lambda>es. typed text_of_any [''code''] es)
     (\<lambda>es. get_text ''code'' es)
     (\<lambda>es. V [Required, Len 6] (FText (get_text ''code'' es)))"

definition verifyBackupCodeRequest_json :: "tag_lib \<Rightarrow> any option \<Rightarrow> err + string" where
  "verifyBackupCodeRequest_json V = ShouldBindJSON
     (\<lambda>es. typed text_of_any [''code''] es)
     (\<lambda>es. get_text ''code'' es)
     (\<lambda>es. V [Required] (FText (get_text ''code'' es)))"

definition removeMethodRequest_json :: "tag_lib \<Rightarrow> any option \<Rightarrow> err + string" where
  "removeMethodRequest_json V = ShouldBindJSON
     (\<lambda>es. typed text_of_any [''method_id''] es)
     (\<lambda>es. get_text ''method_id'' es)
     (\<lambda>es. V [Required] (FText (get_text ''method_id'' es)))"

definition setPrimaryRequest_json :: "tag_lib \<Rightarrow> any option \<Rightarrow> err + string" where
  "setPrimaryRequest_json V = ShouldBindJSON
     (\<lambda>es. typed text_of_any [''method_id''] es)
     (\<lambda>es. get_text ''method_id'' es)
     (\<lambda>es. V [Required] (FText (get_text ''method_id'' es)))"

definition enrollWebAuthnRequest_json :: "tag_lib \<Rightarrow> any option \<Rightarrow> err + string" where
  "enrollWebAuthnRequest_json V = ShouldBindJSON
     (\<lambda>es. typed text_of_any [''device_name''] es)
     (\<lambda>es. get_text ''device_name'' es)
     (\<lambda>es. V [Required] (FText (get_text ''device_name'' es)))"

definition completeWebAuthnRequest_json :: "tag_lib \<Rightarrow> any option \<Rightarrow> err + unit" where
  "completeWebAuthnRequest_json V = ShouldBindJSON
     (\<lambda>es. typed text_of_any [''device_name''] es)
     (\<lambda>es. ())
     (\<lambda>es. V [Required] (FText (get_text ''device_name'' es)) \<and>
         V [Required] (FAny (json_field ''session_data'' es)) \<and>
         V [Required] (FAny (json_field ''response'' es)))"

definition completeWebAuthnAuthRequest_json :: "tag_lib \<Rightarrow> any option \<Rightarrow> err + unit" where
  "completeWebAuthnAuthRequest_json V = ShouldBindJSON
     (\<lambda>es. True)
     (\<lambda>es. ())
     (\<lambda>es. V [Required] (FAny (json_field ''session_data'' es)) \<and>
         V [Required] (FAny (json_field ''response'' es)))"

subsection \<open>idp\_handler.go\<close>

definition registerClientRequest_json :: "tag_lib \<Rightarrow> any option \<Rightarrow> err + RegisterClientRequest" where
  "registerClientRequest_json V = ShouldBindJSON
     (\<lambda>es. typed text_of_any [''name'', ''token_endpoint_auth_method'', ''logo_uri'', ''client_uri'', ''policy_uri'', ''tos_uri'', ''jwks_uri''] es \<and>
         typed texts_of_any [''redirect_uris'', ''scopes'', ''grant_types'', ''response_types'', ''contacts''] es)
     (\<lambda>es. \<lparr>rcr_Name = get_text ''name'' es, rcr_RedirectURIs = get_texts ''redirect_uris'' es,
         rcr_Scopes = get_texts ''scopes'' es, rcr_GrantTypes = get_texts ''grant_types'' es,
         rcr_ResponseTypes = get_texts ''response_types'' es,
         rcr_TokenEndpointAuthMethod = get_text ''token_endpoint_auth_method'' es,
         rcr_LogoURI = get_text ''logo_uri'' es, rcr_ClientURI = get_text ''client_uri'' es,
         rcr_PolicyURI = get_text ''policy_uri'' es, rcr_TOSURI = get_text ''tos_uri'' es,
         rcr_JWKSURI = get_text ''jwks_uri'' es, rcr_Contacts = get_texts ''contacts'' es\<rparr>)
     (\<lambda>es. V [Required] (FText (get_text ''name'' es)) \<and>
         V [Required, MinLen 1] (FTexts (get_texts ''redirect_uris'' es)))"

definition authorizeRequest_form :: "tag_lib \<Rightarrow> (string \<times> string list) list \<Rightarrow> err + authorizeRequest" where
  "authorizeRequest_form V es =
     (if V [Required] (FText (form_text ''response_type'' es)) \<and>
         V [Required] (FText (form_text ''client_id'' es)) \<and>
         V [Required, Url] (FText (form_text ''redirect_uri'' es))
      then Inr \<lparr>azr_ResponseType = form_text ''response_type'' es, azr_ClientID = form_text ''client_id'' es,
         azr_RedirectURI = form_text ''redirect_uri'' es, azr_Scope = form_text ''scope'' es,
         azr_State = form_text ''state'' es, azr_CodeChallenge = form_text ''code_challenge'' es,
         azr_CodeChallengeMethod = form_text ''code_challenge_method'' es,
         azr_Nonce = form_text ''nonce'' es\<rparr>
      else Inl (FmtErr ''binding''))"

definition tokenRequest_form :: "tag_lib \<Rightarrow> (string \<times> string list) list \<Rightarrow> err + tokenRequest" where
  "tokenRequest_form V es =
     (if V [Required] (FText (form_text ''grant_type'' es))
      then Inr \<lparr>tkr_GrantType = form_text ''grant_type'' es, tkr_Code = form_text ''code'' es,
         tkr_RedirectURI = form_text ''redirect_uri'' es, tkr_ClientID = form_text ''client_id'' es,
         tkr_ClientSecret = form_text ''client_secret'' es,
         tkr_RefreshToken = form_text ''refresh_token'' es, tkr_Scope = form_text ''scope'' es\<rparr>
      else Inl (FmtErr ''binding''))"

text \<open>The body of \<open>Consent\<close>, a struct of its own. A list that is only \<open>required\<close> is refused if it is absent or
  null; an empty one passes.\<close>

definition consentRequest_json :: "tag_lib \<Rightarrow> any option \<Rightarrow> err + consentRequest" where
  "consentRequest_json V = ShouldBindJSON
     (\<lambda>es. typed text_of_any [''client_id'', ''redirect_uri'', ''state'', ''code_challenge'',
           ''code_challenge_method'', ''nonce''] es \<and>
         typed texts_of_any [''scopes''] es \<and> typed bool_of_any [''approve'', ''remember''] es)
     (\<lambda>es. \<lparr>cnr_ClientID = get_text ''client_id'' es, cnr_Scopes = get_texts ''scopes'' es,
         cnr_RedirectURI = get_text ''redirect_uri'' es, cnr_State = get_text ''state'' es,
         cnr_Approve = get_bool ''approve'' es, cnr_Remember = get_bool ''remember'' es,
         cnr_CodeChallenge = get_text ''code_challenge'' es,
         cnr_CodeChallengeMethod = get_text ''code_challenge_method'' es, cnr_Nonce = get_text ''nonce'' es\<rparr>)
     (\<lambda>es. V [Required] (FText (get_text ''client_id'' es)) \<and>
         V [Required] (FAny (json_field ''scopes'' es)) \<and>
         V [Required, Url] (FText (get_text ''redirect_uri'' es)))"

subsection \<open>oauth2\_handler.go\<close>

definition registerProviderRequest_json :: "tag_lib \<Rightarrow> any option \<Rightarrow> err + registerProviderRequest" where
  "registerProviderRequest_json V = ShouldBindJSON
     (\<lambda>es. typed text_of_any [''name'', ''client_id'', ''client_secret'', ''auth_url'', ''token_url'', ''user_info_url'', ''issuer_url'', ''provider_type''] es \<and>
         typed texts_of_any [''scopes''] es)
     (\<lambda>es. \<lparr>rpq_Name = get_text ''name'' es, rpq_ClientID = get_text ''client_id'' es,
         rpq_ClientSecret = get_text ''client_secret'' es, rpq_AuthURL = get_text ''auth_url'' es,
         rpq_TokenURL = get_text ''token_url'' es, rpq_UserInfoURL = get_text ''user_info_url'' es,
         rpq_Scopes = get_texts ''scopes'' es, rpq_IssuerURL = get_text ''issuer_url'' es,
         rpq_ProviderType = get_text ''provider_type'' es\<rparr>)
     (\<lambda>es. V [Required] (FText (get_text ''name'' es)) \<and>
         V [Required] (FText (get_text ''client_id'' es)) \<and>
         V [Required] (FText (get_text ''client_secret'' es)) \<and>
         V [Required, Url] (FText (get_text ''auth_url'' es)) \<and>
         V [Required, Url] (FText (get_text ''token_url'' es)) \<and>
         V [Required, Url] (FText (get_text ''user_info_url'' es)) \<and>
         V [OmitEmpty, Url] (FText (get_text ''issuer_url'' es)) \<and>
         V [Required, OneOf [''google'', ''github'', ''oidc'', ''generic'']] (FText (get_text ''provider_type'' es)))"

definition authURLRequest_json :: "tag_lib \<Rightarrow> any option \<Rightarrow> err + authURLRequest" where
  "authURLRequest_json V = ShouldBindJSON
     (\<lambda>es. typed text_of_any [''provider_name'', ''redirect_uri''] es \<and> typed bool_of_any [''pkce''] es)
     (\<lambda>es. \<lparr>auq_ProviderName = get_text ''provider_name'' es, auq_RedirectURI = get_text ''redirect_uri'' es,
         auq_PKCE = get_bool ''pkce'' es\<rparr>)
     (\<lambda>es. V [Required] (FText (get_text ''provider_name'' es)) \<and>
         V [Required, Url] (FText (get_text ''redirect_uri'' es)))"

definition callbackRequest_json :: "tag_lib \<Rightarrow> any option \<Rightarrow> err + callbackRequest" where
  "callbackRequest_json V = ShouldBindJSON
     (\<lambda>es. typed text_of_any [''state'', ''code''] es)
     (\<lambda>es. \<lparr>cbq_State = get_text ''state'' es, cbq_Code = get_text ''code'' es\<rparr>)
     (\<lambda>es. V [Required] (FText (get_text ''state'' es)) \<and> V [Required] (FText (get_text ''code'' es)))"

subsection \<open>saml\_handler.go\<close>

definition registerSAMLProviderRequest_json :: "tag_lib \<Rightarrow> any option \<Rightarrow> err + SAMLProviderConfig" where
  "registerSAMLProviderRequest_json V = ShouldBindJSON
     (\<lambda>es. typed text_of_any [''name'', ''entity_id'', ''sso_url'', ''slo_url'', ''x509_cert'', ''private_key''] es \<and>
         typed text_map_of_any [''attribute_mapping''] es)
     (\<lambda>es. \<lparr>spc_Name = get_text ''name'' es, spc_EntityID = get_text ''entity_id'' es,
         spc_SSOURL = get_text ''sso_url'' es, spc_SLOURL = get_text ''slo_url'' es,
         spc_X509Cert = get_text ''x509_cert'' es, spc_PrivateKey = get_text ''private_key'' es,
         spc_AttributeMapping = the (text_map_of_any (json_field ''attribute_mapping'' es))\<rparr>)
     (\<lambda>es. V [Required] (FText (get_text ''name'' es)) \<and>
         V [Required] (FText (get_text ''entity_id'' es)) \<and>
         V [Required, Url] (FText (get_text ''sso_url'' es)) \<and>
         V [OmitEmpty, Url] (FText (get_text ''slo_url'' es)) \<and>
         V [Required] (FText (get_text ''x509_cert'' es)) \<and>
         V [Required] (FText (get_text ''private_key'' es)))"

subsection \<open>gdpr\_handler.go\<close>

definition exportRequest_json :: "tag_lib \<Rightarrow> any option \<Rightarrow> err + exportRequest" where
  "exportRequest_json V = ShouldBindJSON
     (\<lambda>es. typed text_of_any [''email'', ''tenant_id''] es)
     (\<lambda>es. \<lparr>xrq_Email = get_text ''email'' es, xrq_TenantID = get_text ''tenant_id'' es\<rparr>)
     (\<lambda>es. V [Required, Email] (FText (get_text ''email'' es)))"

definition erasureRequest_json :: "tag_lib \<Rightarrow> any option \<Rightarrow> err + erasureRequest" where
  "erasureRequest_json V = ShouldBindJSON
     (\<lambda>es. typed text_of_any [''email'', ''tenant_id'', ''reason''] es)
     (\<lambda>es. \<lparr>yrq_Email = get_text ''email'' es, yrq_TenantID = get_text ''tenant_id'' es,
         yrq_Reason = get_text ''reason'' es\<rparr>)
     (\<lambda>es. V [Required, Email] (FText (get_text ''email'' es)))"

end
