(* ===== verification/RequestProps.thy ===== *)
theory RequestProps
  imports Requests RepoAccess
begin

text \<open>What the binding rules of the request types add to the handlers behind them.\<close>

section \<open>Registration\<close>

lemma membership_Create_users:
  "membershipRepository_Create G m d = (r, d') \<Longrightarrow> db_users d' = db_users d"
  by (auto simp: membershipRepository_Create_def db_users_def split: prod.splits sum.splits)

context database
begin

lemma Register_stored:
  assumes "AuthService_Register (main_auth G lib tokens) salt clock email pw t d = (Inr res, d')"
    and "password_hasher lib"
  shows "\<exists>u\<in>db_users d' - db_users d. user_Email u = email \<and>
    PasswordHasher_Verify (NewPasswordHasher lib) (user_PasswordHash u) pw"
proof -
  from Register_ok [OF assms(1)] obtain hash user d1
    where h: "PasswordHasher_Hash (NewPasswordHasher lib) salt pw = Inr hash"
      and c: "userRepository_Create G \<lparr>user_ID = [], user_Email = email, user_PasswordHash = hash,
        user_CreatedAt = zero_time, user_UpdatedAt = zero_time\<rparr> d = (Inr user, d1)"
      and "t = [] \<longrightarrow> d' = d1" and "t \<noteq> [] \<longrightarrow> (\<exists>m x. membershipRepository_Create G m d1 = (Inr x, d'))"
    by (metis (no_types, lifting))
  then have "db_users d' = db_users d1" using membership_Create_users by metis
  moreover have "UserRepository_Create (NewUserRepository G) \<lparr>user_ID = [], user_Email = email,
      user_PasswordHash = hash, user_CreatedAt = zero_time, user_UpdatedAt = zero_time\<rparr> d = (Inr user, d1)"
    using c by (simp add: NewUserRepository_def)
  ultimately show ?thesis
    using user_Create_ok password_hasher.Verify_Hash [OF assms(2) h] by fastforce
qed

end

text \<open>C6: What registration accepts. Only a body with an address and a password of at least eight bytes registers an
  account: an answer 201 means that the password has that length and that the database holds one
  account more, with that address and a hash of that password. A shorter password is answered with
  400 and leaves the database as it is.\<close>

theorem register_needs_long_password:
  assumes "tag_validator V" and "password_hasher lib" and "database G"
    and "AuthHandler_Register (main_auth G lib tokens) salt clock (credentialsRequest_json V (Some (AMap es))) d = (resp, d')"
  shows "(\<forall>r. resp = Reply 201 r \<longrightarrow> 8 \<le> length (get_text ''password'' es) \<and> get_text ''email'' es \<noteq> [] \<and>
      (\<exists>u\<in>db_users d' - db_users d. user_Email u = get_text ''email'' es \<and>
        PasswordHasher_Verify (NewPasswordHasher lib) (user_PasswordHash u) (get_text ''password'' es))) \<and>
    (length (get_text ''password'' es) < 8 \<longrightarrow> resp = Fail 400 ''invalid_request'' \<and> d' = d)"
proof (cases "credentialsRequest_json V (Some (AMap es))")
  case (Inl e)
  then show ?thesis using assms(4) by (auto simp: AuthHandler_Register_def writeError_def)
next
  case (Inr req)
  then have req: "crq_Email req = get_text ''email'' es" "crq_Password req = get_text ''password'' es"
      and v: "V [Required, Email] (FText (get_text ''email'' es))" "V [Required, MinLen 8] (FText (get_text ''password'' es))"
    by (auto simp: credentialsRequest_json_def ShouldBindJSON_object split: if_splits)
  have len: "8 \<le> length (get_text ''password'' es)" "get_text ''email'' es \<noteq> []"
    using tag_validator.min_text [OF assms(1) v(2)] tag_validator.required_text [OF assms(1) v(1)] by simp_all
  {
    fix r
    assume "resp = Reply 201 r"
    then obtain res where "AuthService_Register (main_auth G lib tokens) salt clock (crq_Email req) (crq_Password req)
        (crq_TenantID req) d = (Inr res, d')"
      using assms(4) Inr by (auto simp: AuthHandler_Register_def writeError_def split: prod.splits sum.splits if_splits)
    from database.Register_stored [OF assms(3) this assms(2)]
    have "\<exists>u\<in>db_users d' - db_users d. user_Email u = get_text ''email'' es \<and>
        PasswordHasher_Verify (NewPasswordHasher lib) (user_PasswordHash u) (get_text ''password'' es)"
      by (simp add: req)
  }
  then show ?thesis using len by auto
qed

definition demo_body :: "(string \<times> any) list" where
  "demo_body = [(''email'', AStr ''b@x''), (''Password'', AStr ''longenough'')]"

lemma demo_body_bound:
  "credentialsRequest_json plain_tags (Some (AMap demo_body)) =
     Inr \<lparr>crq_Email = ''b@x'', crq_Password = ''longenough'', crq_TenantID = []\<rparr>"
  "get_text ''password'' demo_body = ''longenough''"
  by (simp_all add: credentialsRequest_json_def ShouldBindJSON_object demo_body_def typed_def get_text_def json_field_def
      text_of_any_def strings_ToLower_def ascii_lower_def plain_tags_def char_of_def bit_simps)

lemma demo_body_register:
  "\<exists>res d'. AuthService_Register demo_auth ''salt'' (5, 6) ''b@x'' ''longenough'' [] demo_db = (Inr res, d')"
proof -
  obtain user d1 where c: "UserRepository_Create (as_users demo_auth) \<lparr>user_ID = [], user_Email = ''b@x'',
      user_PasswordHash = ''$2a$longenough'', user_CreatedAt = zero_time, user_UpdatedAt = zero_time\<rparr> demo_db = (Inr user, d1)"
    by (simp add: demo_auth_def demo_db_def userRepository_Create_def eval_mapper conv_simps
        row_user_defs Let_def fresh_id_def show_nat.simps char_of_def bit_simps)
  have h: "PasswordHasher_Hash (as_hasher demo_auth) ''salt'' ''longenough'' = Inr ''$2a$longenough''"
    by (simp add: demo_auth_def PasswordHasher_Hash_def NewPasswordHasher_def plain_bcrypt_def)
  obtain res where "AuthService_issueTokens demo_auth (5, 6) user [] [] = Inr res"
    using issueTokens_total [of demo_auth "(5, 6)" user "[]" "[]"] by (auto simp: demo_auth_def)
  then show ?thesis using h c by (simp add: AuthService_Register_def)
qed

theorem register_needs_long_password_witness:
  "\<exists>r d'. AuthHandler_Register demo_auth ''salt'' (5, 6) (credentialsRequest_json plain_tags (Some (AMap demo_body))) demo_db
       = (Reply 201 r, d') \<and> (\<exists>u\<in>db_users d' - db_users demo_db. user_Email u = get_text ''email'' demo_body)"
proof -
  obtain res d' where "AuthService_Register demo_auth ''salt'' (5, 6) ''b@x'' ''longenough'' [] demo_db = (Inr res, d')"
    using demo_body_register by blast
  then have r: "AuthHandler_Register demo_auth ''salt'' (5, 6) (credentialsRequest_json plain_tags (Some (AMap demo_body))) demo_db
       = (Reply 201 (toAuthResponse res), d')"
    by (simp add: AuthHandler_Register_def demo_body_bound)
  show ?thesis
    using register_needs_long_password [OF plain_tags.tag_validator_axioms plain_bcrypt.password_hasher_axioms mem_database
        r [unfolded demo_auth_def]] r by (auto simp: demo_auth_def)
qed

section \<open>Access control entries\<close>

text \<open>An entry made over the API states its effect: the service's default, allow, is never used, and the
  kind of subject is one of the three the engine looks up.\<close>

theorem grants_are_explicit:
  assumes "tag_validator V" and "zh_acl h = NewACLRepository G"
    and "AuthzHandler_GrantACL h tid (aclGrantRequest_json V (Some (AMap es))) d = (Reply 201 r, d')"
  shows "alr_Effect r = get_text ''effect'' es \<and> alr_Effect r \<in> {''allow'', ''deny''} \<and>
    alr_SubjectType r \<in> {''user'', ''team'', ''role''} \<and> alr_SubjectID r \<noteq> [] \<and> alr_Permission r \<noteq> []"
proof -
  obtain req where req: "aclGrantRequest_json V (Some (AMap es)) = Inr req"
    using assms(3) by (auto simp: AuthzHandler_GrantACL_def writeError_def split: sum.splits)
  then have e: "gr_Effect req = get_text ''effect'' es" and v: "V [Required] (FText (gr_SubjectID req))"
      "V [Required] (FText (gr_Permission req))" "V [OneOf [''allow'', ''deny'']] (FText (gr_Effect req))"
      "V [Required, OneOf [''user'', ''team'', ''role'']] (FText (gr_SubjectType req))"
    by (auto simp: aclGrantRequest_json_def ShouldBindJSON_object split: if_splits)
  have f: "gr_Effect req \<in> {''allow'', ''deny''}" "gr_SubjectType req \<in> {''user'', ''team'', ''role''}"
      "gr_SubjectID req \<noteq> []" "gr_Permission req \<noteq> []"
    using tag_validator.oneof_text [OF assms(1) v(3), of "[''allow'', ''deny'']"]
      tag_validator.oneof_text [OF assms(1) v(4), of "[''user'', ''team'', ''role'']"]
      tag_validator.required_text [OF assms(1) v(1)] tag_validator.required_text [OF assms(1) v(2)] by simp_all
  obtain acl where a: "ACLService_Grant (NewACLRepository G) tid req d = (Inr acl, d')" "r = toACLResponse acl"
    using assms(2,3) req by (auto simp: AuthzHandler_GrantACL_def reply_created_def writeError_def split: prod.splits sum.splits)
  then have "acl_Effect acl = gr_Effect req \<and> acl_SubjectType acl = gr_SubjectType req \<and>
      acl_SubjectID acl = gr_SubjectID req \<and> acl_Permission acl = gr_Permission req"
    using f(1) by (auto simp: ACLService_Grant_def NewACLRepository_def aclRepository_Create_def Let_def split: prod.splits sum.splits)
  then show ?thesis using f e a(2) by (simp add: toACLResponse_def)
qed

end
