(* ===== verification/UserInfoProps.thy ===== *)
theory UserInfoProps
  imports Router IdpHandler
begin

text \<open>
  The user info endpoint behind its middleware: the middleware takes HMAC tokens, the handler RSA tokens.
\<close>

section \<open>One header per token\<close>

text \<open>
  golang-jwt calls the key function with the method the token's header names (\<open>alg\<close>), and a token whose
  key function fails does not parse. Both services use the same library, so \<open>alg\<close> is the same for both.
\<close>

locale jwt_header =
  fixes hmac :: jwt_lib
    and rsa :: "('k, 'p) rsa_lib"
    and alg :: "string \<Rightarrow> jwt_method"
  assumes hmac_keyfunc: "jwt_ParseWithClaims hmac tok kf now = Inr r \<Longrightarrow> \<exists>k. kf (alg tok) = Inr k"
    and rsa_keyfunc: "jwt_Parse rsa tok kf' now = Inr r' \<Longrightarrow> \<exists>p. kf' (alg tok) = Inr p"
begin

lemma Parse_method:
  assumes "TokenService_Parse s now tok = Inr c" and "ts_jwt s = hmac"
  shows "alg tok = SigningMethodHMAC"
proof -
  obtain r where "jwt_ParseWithClaims hmac tok (TokenService_keyfunc s) now = Inr r"
    using assms by (auto simp: TokenService_Parse_def split: sum.splits prod.splits if_splits)
  then obtain k where "TokenService_keyfunc s (alg tok) = Inr k" using hmac_keyfunc by blast
  then show ?thesis by (cases "alg tok") (simp_all add: TokenService_keyfunc_def)
qed

lemma VerifyToken_method:
  assumes "JWKSService_VerifyToken rsa js now tok w = Inr r"
  shows "alg tok = SigningMethodOther ''RSA''"
proof -
  obtain p where "jwt_Parse rsa tok (rs256_keyfunc p) now = Inr r"
    using assms by (auto simp: JWKSService_VerifyToken_def split: sum.splits option.splits)
  then obtain q where "rs256_keyfunc p (alg tok) = Inr q" using rsa_keyfunc by blast
  then show ?thesis by (simp add: rs256_keyfunc_def split: if_splits)
qed

lemma no_token_for_both:
  "TokenService_Parse s now tok = Inr c \<Longrightarrow> ts_jwt s = hmac \<Longrightarrow> JWKSService_VerifyToken rsa js now' tok w \<noteq> Inr r"
  using Parse_method VerifyToken_method by (metis jwt_method.distinct(1))

end

text \<open>Two libraries whose tokens begin with a letter for the method.\<close>

definition tagged_jwt :: jwt_lib where
  "tagged_jwt = \<lparr>jwt_SignedString = (\<lambda>k c. Inr (''H'' @ plain_sign k c)),
     jwt_ParseWithClaims = (\<lambda>tok kf now. case tok of
       c # t \<Rightarrow> (if c = CHR ''H'' then plain_parse t kf now else Inl (LibErr ''token is unverifiable''))
     | [] \<Rightarrow> Inl (LibErr ''token is malformed''))\<rparr>"

definition tagged_rsa :: "(string, string) rsa_lib" where
  "tagged_rsa = plain_rsa\<lparr>
     jwt_Parse := (\<lambda>tok kf now. case tok of
       c # t \<Rightarrow> (if c = CHR ''R'' then jwt_Parse plain_rsa t kf now else Inl (LibErr ''token is unverifiable''))
     | [] \<Rightarrow> Inl (LibErr ''token is malformed''))\<rparr>"

definition tagged_alg :: "string \<Rightarrow> jwt_method" where
  "tagged_alg tok = (if tok \<noteq> [] \<and> hd tok = CHR ''H'' then SigningMethodHMAC else SigningMethodOther ''RSA'')"

interpretation tagged: jwt_header tagged_jwt tagged_rsa tagged_alg
  by unfold_locales
    (auto simp: tagged_jwt_def tagged_rsa_def tagged_alg_def plain_parse_def plain_rsa_def split: list.splits if_splits)

interpretation tagged_jwt: jwt_library tagged_jwt
proof (unfold_locales, goal_cases)
  case (1 k c tok kf now)
  then show ?case using plain_jwt.parse_signed [of k c "plain_sign k c" kf now]
    by (cases tok) (auto simp: tagged_jwt_def plain_jwt_def)
next
  case (2 tok kf now c)
  then show ?case using plain_jwt.parse_expired [of "tl tok" kf now c]
    by (cases tok) (simp_all add: tagged_jwt_def plain_jwt_def split: if_splits)
qed

section \<open>The endpoint\<close>

lemma userinfo_route:
  "find_route NewRouter ''GET'' [''api'', ''v1'', ''idp'', ''userinfo''] =
     Some (api_v1 (Route ''GET'' [Lit ''idp'', Lit ''userinfo''] [Auth] ''idp.UserInfo''))"
  by (simp add: NewRouter_def route_groups api_v1_def)

text \<open>C38: Nobody gets user info. A request the middleware lets through carries a token of the HMAC key, which the handler
  refuses: whatever the header, the endpoint never answers 200.\<close>

theorem userinfo_unreachable:
  assumes "jwt_header hmac rsa alg" and "ts_jwt tokens = hmac"
    and "dispatch tokens now header limited ''GET'' [''api'', ''v1'', ''idp'', ''userinfo''] = Some (Inr (h, ps, ctx))"
  shows "h = ''idp.UserInfo'' \<and> ctx \<noteq> None \<and> IdPHandler_UserInfo rsa now' js header w = Returns (writeError 401 ''invalid_token'')"
proof -
  have d: "h = ''idp.UserInfo''" "\<exists>i. ctx = Some i \<and> RequireAuth tokens now header = Inr i"
    using assms(3) by (auto simp: dispatch_def userinfo_route api_v1_def split: sum.splits)
  then obtain tok c where tok: "header = ''Bearer '' @ tok" "TokenService_Parse tokens now tok = Inr c"
    using RequireAuth_ok by blast
  have "JWKSService_VerifyToken rsa js now' tok w \<noteq> Inr r" for r
    by (rule jwt_header.no_token_for_both [OF assms(1) tok(2) assms(2)])
  then obtain e where "JWKSService_VerifyToken rsa js now' tok w = Inl e"
    by (cases "JWKSService_VerifyToken rsa js now' tok w") auto
  then show ?thesis using d tok(1) by (auto simp: IdPHandler_UserInfo_def)
qed

definition tagged_tokens :: TokenService where
  "tagged_tokens = NewTokenService tagged_jwt ''secret'' (15 * time_Minute) (168 * time_Hour)"

theorem userinfo_unreachable_witness:
  "\<exists>tok c. TokenService_Parse tagged_tokens 6 tok = Inr c \<and>
     dispatch tagged_tokens 6 (''Bearer '' @ tok) None ''GET'' [''api'', ''v1'', ''idp'', ''userinfo''] =
       Some (Inr (''idp.UserInfo'', [], Some \<lparr>ctx_userID = cl_UserID c, ctx_tenantID = cl_TenantID c, ctx_roles = cl_Roles c\<rparr>)) \<and>
     IdPHandler_UserInfo tagged_rsa 6 (main_jwks mem_gorms) (''Bearer '' @ tok) empty_db = Returns (writeError 401 ''invalid_token'')"
proof -
  define c where "c = token_claims 5 ''u1'' ''t1'' [''member''] (15 * time_Minute)"
  obtain tok where tok: "TokenService_generate tagged_tokens 5 ''u1'' ''t1'' [''member''] (15 * time_Minute) = Inr tok"
    by (simp add: TokenService_generate_def tagged_tokens_def NewTokenService_def tagged_jwt_def)
  have p: "TokenService_Parse tagged_tokens 6 tok = Inr c"
    using tagged_jwt.Parse_generate [OF tok, of 6]
    by (simp add: c_def tagged_tokens_def NewTokenService_def jwt_NewNumericDate_def time_Minute_def time_Second_def)
  have d: "dispatch tagged_tokens 6 (''Bearer '' @ tok) None ''GET'' [''api'', ''v1'', ''idp'', ''userinfo''] =
       Some (Inr (''idp.UserInfo'', [], Some \<lparr>ctx_userID = cl_UserID c, ctx_tenantID = cl_TenantID c, ctx_roles = cl_Roles c\<rparr>))"
    using RequireAuth_bearer [OF p] by (simp add: dispatch_def userinfo_route api_v1_def)
  have "ts_jwt tagged_tokens = tagged_jwt" by (simp add: tagged_tokens_def NewTokenService_def)
  from userinfo_unreachable [OF tagged.jwt_header_axioms this d, of 6 "main_jwks mem_gorms" empty_db] p d
  show ?thesis by blast
qed

end
