(* ===== verification/TenantProps.thy ===== *)
theory TenantProps
  imports IdentityProps
begin

text \<open>
  The life of a tenant: the operations of \<open>TenantService\<close> against a map from tenant IDs to statuses, and
  the states a run of them reaches.
\<close>

section \<open>Operations\<close>

datatype tenant_action = OpCreate string string | OpCreateActive string string | OpActivate string | OpSuspend string
  | OpReactivate string | OpDelete string

text \<open>An operation of the service; its answer is the ID of the tenant it was about.\<close>

fun tenant_op :: "'w TenantRepository \<Rightarrow> tenant_action \<Rightarrow> 'w \<Rightarrow> (err + string) \<times> 'w" where
  "tenant_op T (OpCreate name slug) w = map_prod (map_sum (\<lambda>e. e) tenant_ID) (\<lambda>w. w) (TenantService_Create T name slug w)"
| "tenant_op T (OpCreateActive name slug) w = map_prod (map_sum (\<lambda>e. e) tenant_ID) (\<lambda>w. w) (TenantService_CreateActive T name slug w)"
| "tenant_op T (OpActivate i) w = map_prod (map_sum (\<lambda>e. e) (\<lambda>u. i)) (\<lambda>w. w) (TenantService_Activate T i w)"
| "tenant_op T (OpSuspend i) w = map_prod (map_sum (\<lambda>e. e) (\<lambda>u. i)) (\<lambda>w. w) (TenantService_Suspend T i w)"
| "tenant_op T (OpReactivate i) w = map_prod (map_sum (\<lambda>e. e) (\<lambda>u. i)) (\<lambda>w. w) (TenantService_Reactivate T i w)"
| "tenant_op T (OpDelete i) w = map_prod (map_sum (\<lambda>e. e) (\<lambda>u. i)) (\<lambda>w. w) (TenantService_Delete T i w)"

section \<open>The abstract machine\<close>

type_synonym statuses = "string \<rightharpoonup> TenantStatus"

fun op_enabled :: "tenant_action \<Rightarrow> string \<Rightarrow> statuses \<Rightarrow> bool" where
  "op_enabled (OpCreate name slug) i m \<longleftrightarrow> m i = None"
| "op_enabled (OpCreateActive name slug) i m \<longleftrightarrow> m i = None"
| "op_enabled _ i m \<longleftrightarrow> m i \<noteq> None"

fun op_result :: "tenant_action \<Rightarrow> TenantStatus option" where
  "op_result (OpCreate name slug) = Some TenantStatusPending"
| "op_result (OpCreateActive name slug) = Some TenantStatusActive"
| "op_result (OpActivate i) = Some TenantStatusActive"
| "op_result (OpSuspend i) = Some TenantStatusSuspended"
| "op_result (OpReactivate i) = Some TenantStatusActive"
| "op_result (OpDelete i) = None"

definition statuses_of :: "db \<Rightarrow> statuses" where
  "statuses_of d = map_of (map (\<lambda>m. (tnm_ID m, tnm_Status m)) (t_tenants d))"

definition tenants_ok :: "db \<Rightarrow> bool" where
  "tenants_ok d \<longleftrightarrow> distinct (map tnm_ID (t_tenants d)) \<and> distinct (map tnm_Slug (t_tenants d)) \<and>
     (\<forall>m\<in>set (t_tenants d). tnm_Status m \<in> {TenantStatusPending, TenantStatusActive, TenantStatusSuspended})"

section \<open>Tables\<close>

lemma map_of_append_fresh:
  "i \<notin> fst ` set xs \<Longrightarrow> map_of (xs @ [(i, v)]) = (map_of xs)(i \<mapsto> v)"
  by (auto simp: map_add_def fun_eq_iff split: option.split) (metis map_of_eq_None_iff option.distinct(1))

lemma map_of_updated_rows:
  assumes "list_all2 (\<lambda>r r'. h r' = h r \<and> v r' = (if h r = i then s else v r)) t t'"
  shows "map_of (map (\<lambda>r. (h r, v r)) t') =
    (if i \<in> h ` set t then (map_of (map (\<lambda>r. (h r, v r)) t))(i \<mapsto> s) else map_of (map (\<lambda>r. (h r, v r)) t))"
  using assms
proof (induction rule: list_all2_induct)
  case (Cons r t r' t')
  then show ?case by (auto simp: fun_eq_iff)
qed simp

lemma map_of_deleted_rows:
  "map_of (map (\<lambda>r. (h r, v r)) (filter (\<lambda>r. h r \<noteq> i) t)) = (map_of (map (\<lambda>r. (h r, v r)) t))(i := None)"
  by (induction t) (auto simp: fun_eq_iff)

context database
begin

lemma tenant_created:
  assumes "tenantRepository_Create G t d = (Inr t', d')" and "tenant_Status t \<noteq> []" and "tenants_ok d"
    and "tenant_Status t \<in> {TenantStatusPending, TenantStatusActive, TenantStatusSuspended}"
  shows "tenants_ok d' \<and> statuses_of d (tenant_ID t') = None \<and>
    statuses_of d' = (statuses_of d)(tenant_ID t' \<mapsto> tenant_Status t)"
proof -
  obtain m where c: "g_Create (gorm_tenants G) \<lparr>tnm_ID = tenant_ID t, tnm_Name = tenant_Name t, tnm_Slug = tenant_Slug t,
      tnm_Status = tenant_Status t, tnm_CreatedAt = zero_time, tnm_UpdatedAt = zero_time\<rparr> (t_tenants d) = (Inr m, t_tenants d')"
    and t': "tenant_ID t' = tnm_ID m"
    using assms(1,2) by (auto simp: tenantRepository_Create_def Let_def split: prod.splits sum.splits)
  note row = tenant.Create_row [OF c]
  have fresh: "tnm_ID m \<notin> tnm_ID ` set (t_tenants d)" "tnm_Slug m \<notin> tnm_Slug ` set (t_tenants d)"
    using row by (auto simp: clash_tenant_def)
  have st: "tnm_Status m = tenant_Status t" using row assms(2) by (simp add: same_tenant_def)
  have "statuses_of d' = (statuses_of d)(tnm_ID m \<mapsto> tenant_Status t)"
    using row st map_of_append_fresh [of "tnm_ID m" "map (\<lambda>m. (tnm_ID m, tnm_Status m)) (t_tenants d)"] fresh(1)
    by (simp add: statuses_of_def image_image)
  moreover have "statuses_of d (tnm_ID m) = None"
    using fresh(1) by (simp add: statuses_of_def map_of_eq_None_iff image_image)
  moreover have "tenants_ok d'" using assms(3,4) row fresh st by (auto simp: tenants_ok_def)
  ultimately show ?thesis using t' by simp
qed

lemma tenant_create_failed: "tenantRepository_Create G t d = (Inl e, d') \<Longrightarrow> t_tenants d' = t_tenants d"
  using tenant.Create_fail by (fastforce simp: tenantRepository_Create_def Let_def split: prod.splits sum.splits)

lemma tenant_status_updated:
  assumes "tenantRepository_UpdateStatus G i s d = (r, d')" and "tenants_ok d"
    and "s \<in> {TenantStatusPending, TenantStatusActive, TenantStatusSuspended}"
  shows "tenants_ok d' \<and>
    (case r of Inr u \<Rightarrow> statuses_of d i \<noteq> None \<and> statuses_of d' = (statuses_of d)(i \<mapsto> s)
             | Inl e \<Rightarrow> statuses_of d' = statuses_of d)"
proof -
  obtain q t where u: "g_Update (gorm_tenants G) (\<lambda>m. tnm_ID m = i) (\<lambda>m. m\<lparr>tnm_Status := s\<rparr>) (t_tenants d) = (q, t)"
    by (cases "g_Update (gorm_tenants G) (\<lambda>m. tnm_ID m = i) (\<lambda>m. m\<lparr>tnm_Status := s\<rparr>) (t_tenants d)")
  show ?thesis
  proof (cases q)
    case (Inl e)
    have "t = t_tenants d" by (rule tenant.Update_fail [OF u [unfolded Inl]])
    then show ?thesis using u assms(1,2) Inl by (auto simp: tenantRepository_UpdateStatus_def)
  next
    case (Inr n)
    note rows = tenant.Update_rows [OF u [unfolded Inr]]
    have d': "t_tenants d' = t" "r = (if n = 0 then Inl (IdErr ErrTenantNotFound) else Inr ())"
      using assms(1) u Inr by (auto simp: tenantRepository_UpdateStatus_def split: if_splits)
    have each: "list_all2 (\<lambda>m m'. tnm_ID m' = tnm_ID m \<and> tnm_Slug m' = tnm_Slug m \<and>
        tnm_Status m' = (if tnm_ID m = i then s else tnm_Status m)) (t_tenants d) t"
      using conjunct2 [OF rows] by (rule list_all2_mono) (auto simp: kept_tenant_def split: if_splits)
    have some: "i \<in> tnm_ID ` set (t_tenants d) \<longleftrightarrow> n \<noteq> 0"
      using conjunct1 [OF rows] by (auto simp: filter_empty_conv)
    have "list_all2 (\<lambda>m m'. tnm_ID m' = tnm_ID m \<and> tnm_Status m' = (if tnm_ID m = i then s else tnm_Status m)) (t_tenants d) t"
      by (rule list_all2_mono [OF each]) simp
    from map_of_updated_rows [OF this] have st: "statuses_of d' =
        (if n \<noteq> 0 then (statuses_of d)(i \<mapsto> s) else statuses_of d)" by (simp add: statuses_of_def d' some)
    have cols: "map tnm_ID t = map tnm_ID (t_tenants d)" "map tnm_Slug t = map tnm_Slug (t_tenants d)"
      using each by (induction rule: list_all2_induct) auto
    have "\<forall>m'\<in>set t. tnm_Status m' \<in> {TenantStatusPending, TenantStatusActive, TenantStatusSuspended}"
    proof
      fix m' assume "m' \<in> set t"
      from list_all2_set2 [OF each this] obtain m where "m \<in> set (t_tenants d)"
        "tnm_Status m' = (if tnm_ID m = i then s else tnm_Status m)" by blast
      then show "tnm_Status m' \<in> {TenantStatusPending, TenantStatusActive, TenantStatusSuspended}"
        using assms(2,3) by (auto simp: tenants_ok_def)
    qed
    then have "tenants_ok d'" using assms(2) cols by (simp add: tenants_ok_def d')
    then show ?thesis using st some d'(2) by (auto simp: statuses_of_def map_of_eq_None_iff image_image)
  qed
qed

lemma tenant_deleted:
  assumes "tenantRepository_Delete G i d = (r, d')" and "tenants_ok d"
  shows "tenants_ok d' \<and>
    (case r of Inr u \<Rightarrow> statuses_of d i \<noteq> None \<and> statuses_of d' = (statuses_of d)(i := None)
             | Inl e \<Rightarrow> statuses_of d' = statuses_of d)"
proof -
  obtain q t where u: "g_Delete (gorm_tenants G) (\<lambda>m. tnm_ID m = i) (t_tenants d) = (q, t)"
    by (cases "g_Delete (gorm_tenants G) (\<lambda>m. tnm_ID m = i) (t_tenants d)")
  show ?thesis
  proof (cases q)
    case (Inl e)
    have "t = t_tenants d" by (rule tenant.Delete_fail [OF u [unfolded Inl]])
    then show ?thesis using u assms Inl by (auto simp: tenantRepository_Delete_def)
  next
    case (Inr n)
    note rows = tenant.Delete_rows [OF u [unfolded Inr]]
    have d': "t_tenants d' = filter (\<lambda>m. tnm_ID m \<noteq> i) (t_tenants d)" "r = (if n = 0 then Inl (IdErr ErrTenantNotFound) else Inr ())"
      using assms(1) u Inr rows by (auto simp: tenantRepository_Delete_def split: if_splits)
    have some: "i \<in> tnm_ID ` set (t_tenants d) \<longleftrightarrow> n \<noteq> 0"
      using conjunct1 [OF rows] by (auto simp: filter_empty_conv)
    have st: "statuses_of d' = (statuses_of d)(i := None)"
      unfolding statuses_of_def d' by (rule map_of_deleted_rows)
    have "statuses_of d i = None \<Longrightarrow> (statuses_of d)(i := None) = statuses_of d" by (auto simp: fun_eq_iff)
    moreover have "tenants_ok d'" using assms(2) by (auto simp: tenants_ok_def d' distinct_map_filter)
    ultimately show ?thesis using st some d'(2) by (auto simp: statuses_of_def map_of_eq_None_iff image_image)
  qed
qed

end

section \<open>Refinement\<close>

lemma new_tenant_repository [simp]:
  "TenantRepository_Delete (NewTenantRepository G) = tenantRepository_Delete G"
  by (simp add: NewTenantRepository_def)

lemma tenant_op_step:
  assumes "database G" and "tenants_ok d" and "tenant_op (NewTenantRepository G) a d = (r, d')"
  shows "tenants_ok d' \<and>
    (case r of Inr i \<Rightarrow> op_enabled a i (statuses_of d) \<and> statuses_of d' = (statuses_of d)(i := op_result a)
             | Inl e \<Rightarrow> statuses_of d' = statuses_of d)"
proof -
  have create: "tenants_ok d1 \<and> (case q of Inr t' \<Rightarrow> statuses_of d (tenant_ID t') = None \<and>
        statuses_of d1 = (statuses_of d)(tenant_ID t' \<mapsto> st) | Inl e \<Rightarrow> statuses_of d1 = statuses_of d)"
    if "tenantRepository_Create G (TenantService_new name slug st) d = (q, d1)" and "st \<in> {TenantStatusPending, TenantStatusActive}"
    for name slug st q d1
  proof (cases q)
    case (Inl e)
    then show ?thesis using database.tenant_create_failed [OF assms(1)] that assms(2) by (simp add: tenants_ok_def statuses_of_def)
  next
    case (Inr t')
    then show ?thesis using database.tenant_created [OF assms(1) _ _ assms(2)] that
      by (auto simp: TenantService_new_def TenantStatus_defs)
  qed
  show ?thesis
  proof (cases a)
    case (OpCreate name slug)
    then show ?thesis using assms(3) create [of name slug TenantStatusPending]
      by (cases "tenantRepository_Create G (TenantService_new name slug TenantStatusPending) d")
        (auto simp: TenantService_Create_def split: sum.splits)
  next
    case (OpCreateActive name slug)
    then show ?thesis using assms(3) create [of name slug TenantStatusActive]
      by (cases "tenantRepository_Create G (TenantService_new name slug TenantStatusActive) d")
        (auto simp: TenantService_CreateActive_def split: sum.splits)
  next
    case (OpActivate i)
    then show ?thesis using assms(3) database.tenant_status_updated [OF assms(1) _ assms(2), of i TenantStatusActive]
      by (cases "tenantRepository_UpdateStatus G i TenantStatusActive d") (auto simp: TenantService_Activate_def split: sum.splits)
  next
    case (OpSuspend i)
    then show ?thesis using assms(3) database.tenant_status_updated [OF assms(1) _ assms(2), of i TenantStatusSuspended]
      by (cases "tenantRepository_UpdateStatus G i TenantStatusSuspended d") (auto simp: TenantService_Suspend_def split: sum.splits)
  next
    case (OpReactivate i)
    then show ?thesis using assms(3) database.tenant_status_updated [OF assms(1) _ assms(2), of i TenantStatusActive]
      by (cases "tenantRepository_UpdateStatus G i TenantStatusActive d") (auto simp: TenantService_Reactivate_def split: sum.splits)
  next
    case (OpDelete i)
    then show ?thesis using assms(3) database.tenant_deleted [OF assms(1) _ assms(2), of i]
      by (cases "tenantRepository_Delete G i d") (auto simp: TenantService_Delete_def split: sum.splits)
  qed
qed

text \<open>C9: The tenant service refines a map from IDs to statuses. A successful operation is enabled there and sets the
  status it stands for (creation takes a fresh ID, the others need a tenant), a failed one changes
  nothing.\<close>

theorem tenant_ops_refine:
  assumes "database G" and "tenants_ok d" and "tenant_op (NewTenantRepository G) a d = (r, d')"
  shows "case r of
      Inr i \<Rightarrow> op_enabled a i (statuses_of d) \<and> statuses_of d' = (statuses_of d)(i := op_result a)
    | Inl e \<Rightarrow> statuses_of d' = statuses_of d"
  using tenant_op_step [OF assms] ..

theorem tenant_ops_refine_witness:
  "\<exists>d'. tenant_op (NewTenantRepository mem_gorms) (OpReactivate ''t2'') demo_db = (Inr ''t2'', d') \<and>
     statuses_of demo_db ''t2'' = Some TenantStatusSuspended \<and> statuses_of d' ''t2'' = Some TenantStatusActive"
proof -
  obtain d' where d': "tenant_op (NewTenantRepository mem_gorms) (OpReactivate ''t2'') demo_db = (Inr ''t2'', d')"
    by (simp add: TenantService_Reactivate_def tenantRepository_UpdateStatus_def demo_db_def eval_mapper)
  have "tenants_ok demo_db" by (simp add: tenants_ok_def demo_db_def TenantStatus_defs)
  moreover have "statuses_of demo_db ''t2'' = Some TenantStatusSuspended"
    by (simp add: statuses_of_def demo_db_def TenantStatus_defs)
  ultimately show ?thesis using tenant_ops_refine [OF mem_database _ d'] d' by simp
qed

section \<open>Reachable tables\<close>

inductive tenant_reach :: "gorms \<Rightarrow> db \<Rightarrow> db \<Rightarrow> bool" for G d where
  start: "tenant_reach G d d"
| step: "tenant_reach G d d1 \<Longrightarrow> tenant_op (NewTenantRepository G) a d1 = (r, d2) \<Longrightarrow> tenant_reach G d d2"

text \<open>C10: Tenants stay well-formed. Whatever operations of the service run, successful or not, every tenant's status is
  one of the three declared ones, and IDs and slugs stay pairwise different.\<close>

theorem tenants_stay_ok:
  assumes "tenant_reach G d d'" and "database G" and "tenants_ok d"
  shows "tenants_ok d'"
  using assms(1)
proof induction
  case (step d1 a r d2)
  then show ?case using tenant_op_step [OF assms(2)] by blast
qed (rule assms(3))

theorem tenants_stay_ok_witness:
  "\<exists>d1 d2. tenant_op (NewTenantRepository mem_gorms) (OpReactivate ''t2'') demo_db = (Inr ''t2'', d1) \<and>
     tenant_op (NewTenantRepository mem_gorms) (OpDelete ''t1'') d1 = (Inr ''t1'', d2) \<and> tenants_ok d2"
proof -
  obtain d1 d2 where r: "tenant_op (NewTenantRepository mem_gorms) (OpReactivate ''t2'') demo_db = (Inr ''t2'', d1)"
      "tenant_op (NewTenantRepository mem_gorms) (OpDelete ''t1'') d1 = (Inr ''t1'', d2)"
    by (simp add: TenantService_Reactivate_def TenantService_Delete_def tenantRepository_UpdateStatus_def
        tenantRepository_Delete_def demo_db_def eval_mapper)
  have "tenants_ok demo_db" by (simp add: tenants_ok_def demo_db_def TenantStatus_defs)
  then show ?thesis
    using tenants_stay_ok [OF tenant_reach.step [OF tenant_reach.step [OF tenant_reach.start r(1)] r(2)] mem_database] r by blast
qed

end
