(* ===== verification/Spec2Isabelle.thy ===== *)
theory Spec2Isabelle
  imports Races RepoIdp RepoMfa RepoFed RepoAudit RepoAuth CacheProps Signup Mfa JwksProps IdpProps AuditProps
    AccountHandlers FactorHandlers AuthzHandler WebhookProps ScimProps Soc2Props SamlProps Events Observability MainApp
    RouterProps TeamProps RequestProps UserInfoProps TenantProps OAuth2Props GdprProps
begin

text \<open>
  A model of the Hoviyat backend (\<open>src/backend\<close>, Go): a multi-tenant identity, authorization and
  single-sign-on server, with the properties that make its parts correct and, where a part is not,
  the theorem that says what it does instead.

  \<^bold>\<open>The program.\<close> \<open>cmd/hoviyat/main.go\<close> reads the configuration, connects to PostgreSQL and
  Redis, and builds repositories, services and HTTP handlers over them; \<open>api/router.go\<close> mounts the
  handlers behind the middleware of \<open>internal/middleware\<close>. A request passes the middleware (bearer
  token, permission, signup limit), a handler decodes it and calls a service, the service calls
  repositories, and these call the mapper GORM. The state is the database, the decision cache in
  Redis, and what some services keep in memory: the signup limiter, the risk scorer, the signing
  key of the identity provider, the prepared query of the policy engine, the metrics.

  \<^bold>\<open>How code becomes definitions.\<close> A struct is a record (fields carry a short prefix), an error
  sentinel a constructor of \<open>err\<close>, a method \<open>T.M\<close> the function \<open>T_M\<close>. An operation that changes
  state returns the new state; a fallible one returns \<open>err + 'a\<close>; one that may panic or block for
  ever returns an \<open>outcome\<close>. Interfaces are records of functions over any world \<open>'w\<close>, so a service
  is the code's text over any repositories, and \<open>main.go\<close>'s choice is an instance over \<open>db\<close>, the
  record of all tables. Strings are lists of bytes, times and durations are numbers of
  nanoseconds, random bytes and clock readings are arguments in the order the code reads them.

  \<^item> Ground: \<open>Prelude\<close> (time, errors, package \<open>strings\<close>, the collections \<open>repo_simps\<close>,
    \<open>svc_simps\<close>, \<open>conv_simps\<close>), \<open>Codec\<close> and \<open>Json\<close> (Go's encoders), \<open>Clock\<close> (time layouts),
    \<open>Sha256\<close>, \<open>Float64\<close>, \<open>Http\<close> (responses).
  \<^item> \<open>internal/domain\<close>: \<open>Domain\<close>, \<open>DomainExt\<close>, \<open>DomainFed\<close>, \<open>Events\<close>.
  \<^item> \<open>internal/repository\<close>: the rows in \<open>Models\<close>, \<open>ModelsExt\<close>, \<open>ModelsFed\<close>; the mapper in
    \<open>Gorm\<close> and \<open>Database\<close>; the repositories in \<open>RepoIdentity\<close>, \<open>RepoAccess\<close>, \<open>RepoAuth\<close>, \<open>RepoIdp\<close>,
    \<open>RepoMfa\<close>, \<open>RepoFed\<close>, \<open>RepoSaml\<close>, \<open>RepoAudit\<close>.
  \<^item> \<open>internal/service\<close>: \<open>Credentials\<close> (password.go, token.go), \<open>Rbac\<close>, \<open>AuthService\<close> (auth.go,
    tenant.go, team.go), \<open>AccessServices\<close> (acl.go, policy.go), \<open>Authorization\<close> (abac.go,
    authorization.go), \<open>AuthzCache\<close> and \<open>PushInvalidation\<close> (authz_cache.go), \<open>Passwordless\<close>,
    \<open>Mfa\<close>, \<open>Jwks\<close>, \<open>Idp\<close>, \<open>OAuth2\<close>, \<open>Saml\<close>, \<open>Risk\<close>, \<open>AuditTrail\<close>, \<open>Gdpr\<close>, \<open>Webhook\<close>, \<open>Scim\<close>,
    \<open>Soc2\<close>, \<open>Observability\<close>.
  \<^item> \<open>internal/api\<close>, \<open>internal/middleware\<close>: \<open>Rbac\<close> (auth.go), \<open>RateLimit\<close>, \<open>AccountHandlers\<close>,
    \<open>FactorHandlers\<close>, \<open>AuthzHandler\<close>, \<open>IdpHandler\<close>, \<open>OAuth2Handler\<close>, \<open>Signup\<close> (tenant_handler.go),
    the handlers of audit, GDPR and SAML beside their services, \<open>Requests\<close> (the request structs
    with their binding tags), \<open>Router\<close>.
  \<^item> \<open>internal/config\<close>, \<open>cmd/hoviyat\<close>: \<open>Config\<close>, \<open>MainApp\<close>.

  \<^bold>\<open>Parameters and their laws.\<close> Code that is not in the repository is an argument, and what is relied
  on a locale, with an executable instance for the examples: the mapper (\<open>gorm_table\<close> for one
  table, \<open>database\<close> for all; any call may also fail; \<open>reliable_database\<close> excludes that), bcrypt
  (\<open>password_hasher\<close>), golang-jwt (\<open>jwt_library\<close>, \<open>jwt_header\<close>), RSA and PEM (\<open>rsa_library\<close>), Redis
  (\<open>redis_store\<close>), HTTP (\<open>http_client\<close>), the request validator (\<open>tag_validator\<close>). The policy
  engine, TOTP, go-oidc and the mail gateway are bare arguments. The contracts of \<open>Contracts\<close>
  (\<open>user_repository\<close>, \<open>tenant_repository\<close>, \<open>role_assignments\<close>, \<open>one_time_tokens\<close>) are what services
  need of repositories; \<open>database\<close> is a sublocale of each, through the repositories' definitions.

  \<^bold>\<open>What the theorems show.\<close>
  \<^item> Identity (\<open>IdentityProps\<close>, \<open>TenantProps\<close>, \<open>RequestProps\<close>): the roles of a session, registering
    and logging in, unique accounts, what suspension, leaving and short passwords do; the tenant
    operations refine a map from IDs to statuses and keep the table well-formed.
  \<^item> Authorization (\<open>AuthzProps\<close>, \<open>CacheProps\<close>, \<open>Soc2Props\<close>): a decision is the first rule with an
    answer, and what is allowed is justified by the database; what the cache does to that; which
    permissions never reach a decision.
  \<^item> One-time credentials (\<open>Passwordless\<close>, \<open>Mfa\<close>, \<open>IdpProps\<close>): single use against every interleaving
    of the repository's operations (\<open>link_history\<close>, \<open>code_history\<close>), lifetimes, whose session; and
    what two requests in flight at once do to it (\<open>Races\<close>).
  \<^item> Keys (\<open>Jwks\<close>, \<open>JwksProps\<close>, \<open>UserInfoProps\<close>): when signing blocks, that the rotation ends its
    rounds, what is published, that signed tokens verify.
  \<^item> Perimeter (\<open>RouterProps\<close>, \<open>TeamProps\<close>, \<open>MainApp\<close>, \<open>RateLimit\<close>, \<open>Signup\<close>): which request
    reaches which handler as whom, who can become an administrator or suspend a tenant, the exact
    window of the limiter.
  \<^item> Federation (\<open>OAuth2Props\<close>, \<open>SamlProps\<close>, \<open>ScimProps\<close>) and records (\<open>AuditProps\<close>, \<open>GdprProps\<close>,
    \<open>WebhookProps\<close>, \<open>Observability\<close>): sessions of federated users, attribute mapping, removal
    from a tenant; tamper evidence and rejection of honest chains, exports and erasures, signatures
    and retry times, labels.
  Theorems about hashes name the two texts that would collide instead of assuming there are none.

  \<^bold>\<open>Loops and fuel.\<close> Loops over slices are structural recursions. \<open>json_value\<close> takes fuel: every call
  spends one unit and every second one a character, so the \<open>2 * length + 2\<close> it is given suffices for
  any text. SHA-256 pads to whole blocks and recurs on them. Loops driven by a ticker or a
  subscription (\<open>key_rotation_ticks\<close>, push invalidation) run over the finite list of events that
  arrive before the context ends.

  \<^bold>\<open>Not modelled.\<close> Opening the database and its migrations' SQL, listening, signals and shutdown,
  gin's parsing of HTTP, the set-up of tracing, the scrape handler and the runtime statistics of
  observability.go (library calls whose result nothing reads); the struct
  \<open>TokenIntrospectionResponse\<close>, which no code uses; English messages of error answers. Two
  requests interleave where a theorem speaks of histories or schedules, and not otherwise; the
  mutexes of the in-memory services make each of their operations atomic. The order in which Go
  visits a map is an argument.
\<close>

end
